(* ===== verification/Prelude.thy ===== *)
theory Prelude
  imports Complex_Main "HOL-Library.Word"
begin

text \<open>
  What every component of the development shares: the JavaScript values the backend computes with
  (strings of UTF-16 code units, JSON values, the conversions \<open>String(x)\<close>, \<open>Number(x)\<close>, \<open>trim\<close>,
  \<open>toLowerCase\<close>, \<open>slice\<close>), the result type for thrown errors, the collections the component proofs
  draw on, and the two locales for transition systems that the stateful components interpret.

  A string is the list of its UTF-16 code units, so \<open>length\<close> and \<open>slice\<close> count what JavaScript
  counts. \<open>lit\<close> turns an ASCII literal of the source into that form.
\<close>

section \<open>Collections of hints\<close>

named_theorems js_simps \<open>unfolding of the JavaScript helpers\<close>
named_theorems frame_simps \<open>fields an operation leaves alone\<close>
named_theorems guard_simps \<open>what an operation does on each side of its guards\<close>

section \<open>Strings\<close>

type_synonym jstr = "nat list"

definition lit :: "string \<Rightarrow> jstr" where
  "lit s = map of_char s"

lemma lit_Nil [simp]: "lit [] = []"
  by (simp add: lit_def)

lemma lit_Cons [js_simps]: "lit (c # cs) = of_char c # lit cs"
  by (simp add: lit_def)

lemma lit_inject [simp]: "lit s = lit t \<longleftrightarrow> s = t"
proof -
  have "inj (of_char :: char \<Rightarrow> nat)" by (simp add: inj_def)
  then show ?thesis by (simp add: lit_def inj_map_eq_map)
qed

lemma lit_eq_Nil [simp]: "lit s = [] \<longleftrightarrow> s = []" "[] = lit s \<longleftrightarrow> s = []"
  by (auto simp: lit_def)

text \<open>White space as \<open>String.prototype.trim\<close> and \<open>\s\<close> define it.\<close>

definition is_ws :: "nat \<Rightarrow> bool" where
  "is_ws c \<longleftrightarrow> (9 \<le> c \<and> c \<le> 13) \<or> c = 32 \<or> c = 160 \<or> c = 5760
     \<or> (8192 \<le> c \<and> c \<le> 8202) \<or> c = 8232 \<or> c = 8233 \<or> c = 8239 \<or> c = 8287
     \<or> c = 12288 \<or> c = 65279"

definition js_trim :: "jstr \<Rightarrow> jstr" where
  "js_trim s = rev (dropWhile is_ws (rev (dropWhile is_ws s)))"

lemma js_trim_Nil [simp]: "js_trim [] = []"
  by (simp add: js_trim_def)

lemma dropWhile_eq_Nil_iff: "dropWhile P xs = [] \<longleftrightarrow> list_all P xs"
  by (simp add: dropWhile_eq_Nil_conv list_all_iff)

lemma js_trim_eq_Nil: "js_trim s = [] \<longleftrightarrow> list_all is_ws s"
proof -
  have "list_all is_ws (dropWhile is_ws s) \<longleftrightarrow> list_all is_ws s"
    by (induction s) auto
  then show ?thesis
    by (simp add: js_trim_def dropWhile_eq_Nil_iff list_all_iff)
qed

lemma length_js_trim: "length (js_trim s) \<le> length s"
  unfolding js_trim_def using length_dropWhile_le [of is_ws s]
    length_dropWhile_le [of is_ws "rev (dropWhile is_ws s)"] by simp

text \<open>
  \<open>toLowerCase\<close>: exact on ASCII, Latin-1, the basic Greek and Cyrillic capitals and on the scripts
  without case (Arabic, Hebrew), and on every code unit whose lower case is an ASCII letter (the
  Kelvin sign; the dotted capital I gives an ASCII letter and a combining dot). Other capitals stay
  as they are, so a comparison of a lowered string with an ASCII word is exact.
\<close>

definition lower_unit :: "nat \<Rightarrow> jstr" where
  "lower_unit c =
     (if 65 \<le> c \<and> c \<le> 90 then [c + 32]
      else if 192 \<le> c \<and> c \<le> 222 \<and> c \<noteq> 215 then [c + 32]
      else if c = 304 then [105, 775]
      else if c = 8490 then [107]
      else if c = 8491 then [229]
      else if 913 \<le> c \<and> c \<le> 937 \<and> c \<noteq> 930 then [c + 32]
      else if 1024 \<le> c \<and> c \<le> 1039 then [c + 80]
      else if 1040 \<le> c \<and> c \<le> 1071 then [c + 32]
      else [c])"

definition js_lower :: "jstr \<Rightarrow> jstr" where
  "js_lower s = concat (map lower_unit s)"

lemma js_lower_Nil [simp]: "js_lower [] = []"
  by (simp add: js_lower_def)

lemma js_lower_Cons [simp]: "js_lower (c # s) = lower_unit c @ js_lower s"
  by (simp add: js_lower_def)

text \<open>Comparison without case in a regular expression without the \<open>u\<close> flag: only ASCII letters fold onto ASCII letters.\<close>

definition ascii_lower :: "jstr \<Rightarrow> jstr" where
  "ascii_lower = map (\<lambda>c. if 65 \<le> c \<and> c \<le> 90 then c + 32 else c)"

text \<open>\<open>replace(/suffix$/i, '')\<close>\<close>

definition strip_suffix :: "jstr \<Rightarrow> jstr \<Rightarrow> jstr" where
  "strip_suffix suf s =
     (let k = length s - length suf
      in if length suf \<le> length s \<and> ascii_lower (drop k s) = suf then take k s else s)"

definition is_digit :: "nat \<Rightarrow> bool" where
  "is_digit c \<longleftrightarrow> 48 \<le> c \<and> c \<le> 57"

definition starts_with :: "jstr \<Rightarrow> jstr \<Rightarrow> bool" where
  "starts_with p s \<longleftrightarrow> take (length p) s = p"

fun js_includes :: "jstr \<Rightarrow> jstr \<Rightarrow> bool" where
  "js_includes p [] = (p = [])"
| "js_includes p (c # s) = (starts_with p (c # s) \<or> js_includes p s)"

fun split_on :: "nat \<Rightarrow> jstr \<Rightarrow> jstr list" where
  "split_on d [] = [[]]"
| "split_on d (c # s) =
     (if c = d then [] # split_on d s
      else case split_on d s of [] \<Rightarrow> [[c]] | w # ws \<Rightarrow> (c # w) # ws)"

lemma split_on_not_Nil [simp]: "split_on d s \<noteq> []"
  by (cases s) (auto split: list.splits)

definition join_with :: "jstr \<Rightarrow> jstr list \<Rightarrow> jstr" where
  "join_with sep ws = (case ws of [] \<Rightarrow> [] | w # ws' \<Rightarrow> w @ concat (map ((@) sep) ws'))"

section \<open>Numbers\<close>

text \<open>
  A JavaScript number: a finite one as the rational it denotes (rounding is below what any claim
  of the development looks at), or one of the values that are not finite.
\<close>

datatype jnum = NaN | Infinite bool | Fin rat

fun dec_digits :: "nat \<Rightarrow> jstr" where
  "dec_digits n = (if n < 10 then [48 + n] else dec_digits (n div 10) @ [48 + n mod 10])"

declare dec_digits.simps [simp del]

lemma dec_digits_small [simp]: "n < 10 \<Longrightarrow> dec_digits n = [48 + n]"
  by (simp add: dec_digits.simps)

lemma dec_digits_step [simp]: "10 \<le> n \<Longrightarrow> dec_digits n = dec_digits (n div 10) @ [48 + n mod 10]"
  by (subst dec_digits.simps) simp

lemma dec_digits_not_Nil: "dec_digits n \<noteq> []"
  by (subst dec_digits.simps) simp

text \<open>The fractional digits of a number in \<open>[0, 1)\<close>, at most \<open>fuel\<close> of them.\<close>

fun frac_digits :: "nat \<Rightarrow> rat \<Rightarrow> jstr" where
  "frac_digits 0 r = []"
| "frac_digits (Suc fuel) r =
     (if r = 0 then []
      else let d = nat \<lfloor>10 * r\<rfloor> in (48 + d) # frac_digits fuel (10 * r - of_nat d))"

text \<open>\<open>String(n)\<close> in positional notation (the exponent form of very large and very small numbers is left out).\<close>

definition num_str :: "rat \<Rightarrow> jstr" where
  "num_str r =
     (let a = \<bar>r\<bar>; n = nat \<lfloor>a\<rfloor>; f = a - of_nat n
      in (if r < 0 then lit ''-'' else []) @ dec_digits n
         @ (if f = 0 then [] else lit ''.'' @ frac_digits 17 f))"

definition digits_value :: "jstr \<Rightarrow> nat" where
  "digits_value s = fold (\<lambda>c n. 10 * n + (c - 48)) s 0"

text \<open>
  \<open>Number(s)\<close> for a string: white space around a decimal literal with an optional sign and exponent,
  or around an unsigned literal of radix 16, 8 or 2.
\<close>

definition digit_in :: "nat \<Rightarrow> nat option" where
  "digit_in c =
     (if 48 \<le> c \<and> c \<le> 57 then Some (c - 48) else if 97 \<le> c \<and> c \<le> 102 then Some (c - 87)
      else if 65 \<le> c \<and> c \<le> 70 then Some (c - 55) else None)"

definition radix_of :: "nat \<Rightarrow> nat option" where
  "radix_of c =
     (if c = 120 \<or> c = 88 then Some 16 else if c = 111 \<or> c = 79 then Some 8
      else if c = 98 \<or> c = 66 then Some 2 else None)"

definition radix_number :: "jstr \<Rightarrow> nat option" where
  "radix_number s =
     (case s of
        z # c # ds \<Rightarrow>
          (case radix_of c of
             None \<Rightarrow> None
           | Some b \<Rightarrow>
               if z = 48 \<and> ds \<noteq> [] \<and> list_all (\<lambda>x. case digit_in x of None \<Rightarrow> False | Some k \<Rightarrow> k < b) ds
               then Some (fold (\<lambda>x n. b * n + the (digit_in x)) ds 0) else None)
      | _ \<Rightarrow> None)"

lemma radix_number_shape:
  assumes "radix_number s = Some n"
  shows "\<exists>c ds. s = 48 # c # ds \<and> c \<in> {120, 88, 111, 79, 98, 66}"
  using assms by (auto simp: radix_number_def radix_of_def split: list.splits if_splits nat.splits)

definition parse_exponent :: "jstr \<Rightarrow> int option" where
  "parse_exponent s =
     (case s of
        [] \<Rightarrow> Some 0
      | c # ds \<Rightarrow>
          if c = 101 \<or> c = 69 then
            (let neg = (ds \<noteq> [] \<and> hd ds = 45);
                 es = (if ds \<noteq> [] \<and> (hd ds = 45 \<or> hd ds = 43) then tl ds else ds)
             in if es \<noteq> [] \<and> list_all is_digit es
                then Some (if neg then - int (digits_value es) else int (digits_value es))
                else None)
          else None)"

definition js_number_of_string :: "jstr \<Rightarrow> jnum" where
  "js_number_of_string raw =
     (let s = js_trim raw;
          neg = (s \<noteq> [] \<and> hd s = 45);
          body = (if s \<noteq> [] \<and> (hd s = 45 \<or> hd s = 43) then tl s else s);
          ip = takeWhile is_digit body;
          rest = dropWhile is_digit body;
          fp = (if rest \<noteq> [] \<and> hd rest = 46 then takeWhile is_digit (tl rest) else []);
          rest' = (if rest \<noteq> [] \<and> hd rest = 46 then dropWhile is_digit (tl rest) else rest)
      in if s = [] then Fin 0
         else if radix_number s \<noteq> None then Fin (of_nat (the (radix_number s)))
         else if body = lit ''Infinity'' then Infinite neg
         else if ip = [] \<and> fp = [] then NaN
         else case parse_exponent rest' of
                None \<Rightarrow> NaN
              | Some e \<Rightarrow>
                  let m = of_nat (digits_value (ip @ fp)) / 10 ^ length fp;
                      v = (if 0 \<le> e then m * 10 ^ nat e else m / 10 ^ nat (- e))
                  in Fin (if neg then - v else v))"

text \<open>What \<open>Number\<close> and \<open>split\<close> do on decimal digits.\<close>

lemma list_all_dec_digits: "list_all is_digit (dec_digits n)"
proof (induction n rule: less_induct)
  case (less n)
  then show ?case by (cases "n < 10") (auto simp: is_digit_def)
qed

lemma digits_value_snoc: "digits_value (s @ [c]) = 10 * digits_value s + (c - 48)"
  by (simp add: digits_value_def)

lemma digits_value_dec_digits [simp]: "digits_value (dec_digits n) = n"
proof (induction n rule: less_induct)
  case (less n)
  show ?case
  proof (cases "n < 10")
    case True
    then show ?thesis by (simp add: digits_value_def)
  next
    case False
    with less show ?thesis by (simp add: digits_value_snoc)
  qed
qed

lemma digit_not_ws: "is_digit c \<Longrightarrow> \<not> is_ws c"
  by (auto simp: is_digit_def is_ws_def)

lemma js_trim_solid: "list_all (\<lambda>c. \<not> is_ws c) s \<Longrightarrow> js_trim s = s"
proof -
  have d: "list_all (\<lambda>c. \<not> is_ws c) t \<Longrightarrow> dropWhile is_ws t = t" for t by (cases t) auto
  assume "list_all (\<lambda>c. \<not> is_ws c) s"
  then have "list_all (\<lambda>c. \<not> is_ws c) (rev s)" "dropWhile is_ws s = s" by (auto intro: d simp: list_all_iff)
  then show ?thesis by (simp add: js_trim_def d)
qed

lemma js_number_of_digits:
  assumes "s \<noteq> []" and "list_all is_digit s"
  shows "js_number_of_string s = Fin (of_nat (digits_value s))"
proof -
  have t: "js_trim s = s"
    using assms(2) by (intro js_trim_solid) (auto simp: list_all_iff digit_not_ws)
  have h: "hd s \<noteq> 45" "hd s \<noteq> 43" using assms by (cases s; auto simp: is_digit_def)+
  have tw: "takeWhile is_digit s = s" "dropWhile is_digit s = []"
    using assms(2) by (simp_all add: takeWhile_eq_all_conv dropWhile_eq_Nil_iff list_all_iff)
  have r: "radix_number s = None"
  proof (cases "radix_number s")
    case (Some n)
    from radix_number_shape [OF this] assms(2) show ?thesis by (auto simp: is_digit_def)
  qed simp
  have "s \<noteq> lit ''Infinity''"
    using assms by (cases s) (auto simp: js_simps is_digit_def)
  with assms(1) show ?thesis
    by (simp add: js_number_of_string_def t h tw parse_exponent_def r)
qed

lemma js_number_finite:
  assumes trim: "js_trim v = v" and ne: "v \<noteq> []"
    and body: "body = (if v \<noteq> [] \<and> (hd v = 45 \<or> hd v = 43) then tl v else v)" and inf: "body \<noteq> lit ''Infinity''"
    and ip: "takeWhile is_digit body \<noteq> []" and rest: "rest = dropWhile is_digit body"
    and ex: "parse_exponent (if rest \<noteq> [] \<and> hd rest = 46 then dropWhile is_digit (tl rest) else rest) = Some 0"
  shows "\<exists>r. js_number_of_string v = Fin r"
proof -
  have "radix_number v = None"
  proof (cases "radix_number v")
    case (Some n)
    then obtain c ds where v: "v = 48 # c # ds" and c: "c \<in> {120, 88, 111, 79, 98, 66}"
      using radix_number_shape by blast
    then have "body = v" by (simp add: body)
    with v c have "rest = c # ds" by (auto simp: rest is_digit_def)
    with c ex show ?thesis by (auto simp: parse_exponent_def)
  qed simp
  then show ?thesis
    unfolding js_number_of_string_def Let_def trim body [symmetric] rest [symmetric] ex
    by (simp only: ne inf ip if_False simp_thms option.case jnum.inject ex_simps)
qed

lemma split_on_solid: "d \<notin> set s \<Longrightarrow> split_on d s = [s]"
  by (induction s) auto

lemma split_on_append: "d \<notin> set s \<Longrightarrow> split_on d (s @ d # t) = s # split_on d t"
  by (induction s) auto

lemma dec_digits_no_sep: "c < 48 \<or> 57 < c \<Longrightarrow> c \<notin> set (dec_digits n)"
  using list_all_dec_digits [of n] by (force simp: list_all_iff is_digit_def)

section \<open>JSON values\<close>

text \<open>The values a handler receives as \<open>unknown\<close>: JSON, and \<open>undefined\<close> for a property that is absent.\<close>

datatype json =
    JUndef
  | JNull
  | JBool bool
  | JNum rat
  | JStr jstr
  | JArr "json list"
  | JObj "(jstr \<times> json) list"

definition get :: "jstr \<Rightarrow> json \<Rightarrow> json" where
  "get k j = (case j of JObj kvs \<Rightarrow> (case map_of kvs k of None \<Rightarrow> JUndef | Some v \<Rightarrow> v) | _ \<Rightarrow> JUndef)"

lemma get_JObj [simp]: "get k (JObj kvs) = (case map_of kvs k of None \<Rightarrow> JUndef | Some v \<Rightarrow> v)"
  by (simp add: get_def)

lemma get_not_JObj [simp]:
  "get k JUndef = JUndef" "get k JNull = JUndef" "get k (JBool b) = JUndef" "get k (JNum n) = JUndef"
  "get k (JStr s) = JUndef" "get k (JArr xs) = JUndef"
  by (simp_all add: get_def)

lemma size_get: "get k j \<noteq> JUndef \<Longrightarrow> size (get k j) < size j"
proof (cases j)
  case (JObj kvs)
  assume "get k j \<noteq> JUndef"
  with JObj obtain v where v: "map_of kvs k = Some v" "get k j = v"
    by (auto split: option.splits)
  then have "(k, v) \<in> set kvs" by (auto dest: map_of_SomeD)
  then have "size v < size (JObj kvs)"
    by (induction kvs) auto
  with v JObj show ?thesis by simp
qed auto

lemma size_get_elem: "get k j = JArr xs \<Longrightarrow> x \<in> set xs \<Longrightarrow> size x < size j"
proof -
  assume a: "get k j = JArr xs" and x: "x \<in> set xs"
  have "size x < size (JArr xs)" using x by (induction xs) auto
  also have "\<dots> < size j" using size_get [of k j] a by simp
  finally show ?thesis .
qed

fun truthy :: "json \<Rightarrow> bool" where
  "truthy JUndef = False"
| "truthy JNull = False"
| "truthy (JBool b) = b"
| "truthy (JNum n) = (n \<noteq> 0)"
| "truthy (JStr s) = (s \<noteq> [])"
| "truthy (JArr xs) = True"
| "truthy (JObj kvs) = True"

text \<open>\<open>String(x)\<close>. An array joins its elements by commas, \<open>null\<close> and \<open>undefined\<close> among them as nothing.\<close>

fun js_string :: "json \<Rightarrow> jstr" where
  "js_string JUndef = lit ''undefined''"
| "js_string JNull = lit ''null''"
| "js_string (JBool b) = (if b then lit ''true'' else lit ''false'')"
| "js_string (JNum n) = num_str n"
| "js_string (JStr s) = s"
| "js_string (JArr xs) =
     join_with (lit '','') (map (\<lambda>x. if x = JNull \<or> x = JUndef then [] else js_string x) xs)"
| "js_string (JObj kvs) = lit ''[object Object]''"

text \<open>\<open>String(x ?? '')\<close> and \<open>String(x || '')\<close>.\<close>

definition js_string_nullish :: "json \<Rightarrow> jstr" where
  "js_string_nullish j = (if j = JUndef \<or> j = JNull then [] else js_string j)"

definition js_string_or_empty :: "json \<Rightarrow> jstr" where
  "js_string_or_empty j = (if truthy j then js_string j else [])"

fun js_number :: "json \<Rightarrow> jnum" where
  "js_number JUndef = NaN"
| "js_number JNull = Fin 0"
| "js_number (JBool b) = Fin (if b then 1 else 0)"
| "js_number (JNum n) = Fin n"
| "js_number (JStr s) = js_number_of_string s"
| "js_number (JArr xs) = js_number_of_string (js_string (JArr xs))"
| "js_number (JObj kvs) = NaN"

definition is_integer :: "rat \<Rightarrow> bool" where
  "is_integer r \<longleftrightarrow> of_int \<lfloor>r\<rfloor> = r"

definition is_jstr :: "json \<Rightarrow> bool" where
  "is_jstr j = (case j of JStr _ \<Rightarrow> True | _ \<Rightarrow> False)"

text \<open>A reference that may be \<open>null\<close>: JavaScript also treats the empty string as absent.\<close>

definition truthy_ref :: "jstr option \<Rightarrow> bool" where
  "truthy_ref r \<longleftrightarrow> (case r of None \<Rightarrow> False | Some s \<Rightarrow> s \<noteq> [])"

lemma truthy_ref_simps [simp]:
  "truthy_ref None = False" "truthy_ref (Some s) = (s \<noteq> [])"
  by (simp_all add: truthy_ref_def)

text \<open>\<open>JSON.stringify\<close>; a property whose value is \<open>undefined\<close> is dropped, an element becomes \<open>null\<close>.\<close>

definition hex_digit :: "nat \<Rightarrow> nat" where
  "hex_digit n = (if n < 10 then 48 + n else 87 + n)"

definition json_escape :: "nat \<Rightarrow> jstr" where
  "json_escape c =
     (if c = 34 then [92, 34] else if c = 92 then [92, 92]
      else if c = 8 then [92, 98] else if c = 12 then [92, 102] else if c = 10 then [92, 110]
      else if c = 13 then [92, 114] else if c = 9 then [92, 116]
      else if c < 32 then [92, 117, 48, 48, hex_digit (c div 16), hex_digit (c mod 16)]
      else [c])"

definition json_quote :: "jstr \<Rightarrow> jstr" where
  "json_quote s = [34] @ concat (map json_escape s) @ [34]"

fun json_stringify :: "json \<Rightarrow> jstr" where
  "json_stringify JUndef = lit ''null''"
| "json_stringify JNull = lit ''null''"
| "json_stringify (JBool b) = (if b then lit ''true'' else lit ''false'')"
| "json_stringify (JNum n) = num_str n"
| "json_stringify (JStr s) = json_quote s"
| "json_stringify (JArr xs) = lit ''['' @ join_with (lit '','') (map json_stringify xs) @ lit '']''"
| "json_stringify (JObj kvs) =
     [123] @ join_with (lit '','')
       (concat (map (\<lambda>(k, v). if v = JUndef then [] else [json_quote k @ lit '':'' @ json_stringify v]) kvs)) @ [125]"

text \<open>\<open>o[k] = v\<close>: a property that exists keeps its place.\<close>

definition obj_set :: "jstr \<Rightarrow> json \<Rightarrow> (jstr \<times> json) list \<Rightarrow> (jstr \<times> json) list" where
  "obj_set k v kvs =
     (if map_of kvs k = None then kvs @ [(k, v)] else map (\<lambda>(k', v'). (k', if k' = k then v else v')) kvs)"

text \<open>
  \<open>toUpperCase\<close>: exact on ASCII, Latin-1, the basic Greek and Cyrillic letters, on the scripts without
  case, and on every code unit whose upper case is made of ASCII letters (sharp s, dotless i, long s
  and the Latin ligatures), so a test of the result against an ASCII pattern is exact.
\<close>

definition upper_unit :: "nat \<Rightarrow> jstr" where
  "upper_unit c =
     (if 97 \<le> c \<and> c \<le> 122 then [c - 32]
      else if c = 223 then [83, 83]
      else if c = 181 then [924]
      else if 224 \<le> c \<and> c \<le> 254 \<and> c \<noteq> 247 then [c - 32]
      else if c = 255 then [376]
      else if c = 305 then [73]
      else if c = 383 then [83]
      else if 945 \<le> c \<and> c \<le> 969 \<and> c \<noteq> 962 then [c - 32]
      else if c = 962 then [931]
      else if 1072 \<le> c \<and> c \<le> 1103 then [c - 32]
      else if 1104 \<le> c \<and> c \<le> 1119 then [c - 80]
      else if c = 64256 then [70, 70]
      else if c = 64257 then [70, 73]
      else if c = 64258 then [70, 76]
      else if c = 64259 then [70, 70, 73]
      else if c = 64260 then [70, 70, 76]
      else if c = 64261 \<or> c = 64262 then [83, 84]
      else [c])"

definition js_upper :: "jstr \<Rightarrow> jstr" where
  "js_upper s = concat (map upper_unit s)"

lemma js_upper_Nil [simp]: "js_upper [] = []"
  by (simp add: js_upper_def)

lemma js_upper_Cons [simp]: "js_upper (c # s) = upper_unit c @ js_upper s"
  by (simp add: js_upper_def)

section \<open>Time\<close>

text \<open>\<open>toISOString\<close> of a time in milliseconds, for the years 0 to 9999 (days since 1970 to a civil date).\<close>

definition pad :: "nat \<Rightarrow> int \<Rightarrow> jstr" where
  "pad n k = (let ds = dec_digits (nat k) in replicate (n - length ds) 48 @ ds)"

definition civil_date :: "int \<Rightarrow> int \<times> int \<times> int" where
  "civil_date days =
     (let z = days + 719468; era = z div 146097; doe = z mod 146097;
          yoe = (doe - doe div 1460 + doe div 36524 - doe div 146096) div 365;
          doy = doe - (365 * yoe + yoe div 4 - yoe div 100);
          mp = (5 * doy + 2) div 153;
          d = doy - (153 * mp + 2) div 5 + 1;
          m = (if mp < 10 then mp + 3 else mp - 9)
      in (yoe + era * 400 + (if m \<le> 2 then 1 else 0), m, d))"

definition iso_time :: "int \<Rightarrow> jstr" where
  "iso_time t =
     (let (y, m, d) = civil_date (t div 86400000); ms = t mod 86400000
      in pad 4 y @ lit ''-'' @ pad 2 m @ lit ''-'' @ pad 2 d @ lit ''T'' @ pad 2 (ms div 3600000) @ lit '':''
         @ pad 2 (ms div 60000 mod 60) @ lit '':'' @ pad 2 (ms div 1000 mod 60) @ lit ''.'' @ pad 3 (ms mod 1000) @ lit ''Z'')"

section \<open>Lists\<close>

text \<open>The indexed elements of a list, as \<open>forEach((x, i) => ...)\<close> visits them.\<close>

definition indexed :: "'a list \<Rightarrow> (nat \<times> 'a) list" where
  "indexed xs = zip [0..<length xs] xs"

lemma indexed_Nil [simp]: "indexed [] = []"
  by (simp add: indexed_def)

lemma set_indexed: "(i, x) \<in> set (indexed xs) \<longleftrightarrow> i < length xs \<and> xs ! i = x"
  by (force simp: indexed_def set_zip)

lemma indexed_elem: "(i, x) \<in> set (indexed xs) \<Longrightarrow> x \<in> set xs"
  by (auto simp: set_indexed)

lemma elem_indexed: "x \<in> set xs \<Longrightarrow> \<exists>i. (i, x) \<in> set (indexed xs)"
  unfolding set_indexed by (auto simp: in_set_conv_nth)

text \<open>\<open>xs.slice(-n)\<close>: the last \<open>n\<close> elements.\<close>

definition slice_last :: "nat \<Rightarrow> 'a list \<Rightarrow> 'a list" where
  "slice_last n xs = drop (length xs - n) xs"

lemma find_append: "find P (xs @ ys) = (case find P xs of Some x \<Rightarrow> Some x | None \<Rightarrow> find P ys)"
  by (induction xs) auto

lemma length_slice_last: "length (slice_last n xs) = min n (length xs)"
  by (simp add: slice_last_def)

section \<open>Transition systems\<close>

text \<open>
  The interface between a component and the proofs about its histories: a step function from events
  and an invariant every step keeps. What follows for whole histories is proved once here.
\<close>

locale safe_system =
  fixes step :: "'e \<Rightarrow> 's \<Rightarrow> 's"
    and inv :: "'s \<Rightarrow> bool"
  assumes step_inv: "inv s \<Longrightarrow> inv (step e s)"
begin

lemma run_inv: "inv s \<Longrightarrow> inv (fold step es s)"
  by (induction es arbitrary: s) (auto intro: step_inv)

lemma prefix_inv: "inv s \<Longrightarrow> inv (fold step (take n es) s)"
  by (rule run_inv)

end

text \<open>A system one of whose observations only grows along its steps.\<close>

locale monotone_system =
  fixes step :: "'e \<Rightarrow> 's \<Rightarrow> 's"
    and inv :: "'s \<Rightarrow> bool"
    and level :: "'s \<Rightarrow> 'o :: preorder"
  assumes mono_step_inv: "inv s \<Longrightarrow> inv (step e s)"
    and step_level: "inv s \<Longrightarrow> level s \<le> level (step e s)"

sublocale monotone_system \<subseteq> sys: safe_system step inv
  by unfold_locales (rule mono_step_inv)

context monotone_system begin

lemma run_level: "inv s \<Longrightarrow> level s \<le> level (fold step es s)"
proof (induction es arbitrary: s)
  case Nil
  then show ?case by simp
next
  case (Cons e es)
  from Cons.prems have "level s \<le> level (step e s)" by (rule step_level)
  also from Cons have "\<dots> \<le> level (fold step es (step e s))"
    by (auto intro: mono_step_inv)
  finally show ?case by simp
qed

end

end
