(* ===== verification/Message_Status.thy ===== *)
theory Message_Status
  imports Prelude
begin

text \<open>
  Delivery receipts: \<open>utils/message-status.ts\<close> and the two places that apply it, \<open>applyMetaStatus\<close> of
  \<open>webhooks/meta.webhook.ts\<close> and the ack branch with \<open>advanceCampaignRecipient\<close> of
  \<open>webhooks/openwa.webhook.ts\<close>.

  A status is the string the code compares; the tables of ranks are the code's own. The message
  store and the recipient store are maps keyed by the provider's message id within one organization.
  Object properties that JavaScript inherits (\<open>toString\<close>) are not statuses and are left out.
\<close>

section \<open>The ladder\<close>

datatype message_status = PENDING | SENT | FAILED | DELIVERED | READ

primrec status_name :: "message_status \<Rightarrow> jstr" where
  "status_name PENDING = lit ''PENDING''"
| "status_name SENT = lit ''SENT''"
| "status_name FAILED = lit ''FAILED''"
| "status_name DELIVERED = lit ''DELIVERED''"
| "status_name READ = lit ''READ''"

definition STATUS_RANK :: "jstr \<Rightarrow> nat option" where
  "STATUS_RANK = map_of
     [(lit ''PENDING'', 0), (lit ''SENT'', 1), (lit ''FAILED'', 2), (lit ''DELIVERED'', 3), (lit ''READ'', 4)]"

definition CAMPAIGN_STATUS_RANK :: "jstr \<Rightarrow> nat option" where
  "CAMPAIGN_STATUS_RANK = map_of
     [(lit ''pending'', 0), (lit ''sent'', 1), (lit ''failed'', 2), (lit ''delivered'', 3), (lit ''read'', 4)]"

definition advance_message_status :: "jstr \<Rightarrow> jstr \<Rightarrow> jstr option" where
  "advance_message_status current incoming =
     (case STATUS_RANK incoming of
        None \<Rightarrow> None
      | Some incomingRank \<Rightarrow>
          (case STATUS_RANK current of
             None \<Rightarrow> Some incoming
           | Some currentRank \<Rightarrow> if incomingRank > currentRank then Some incoming else None))"

definition advance_campaign_recipient_status :: "jstr \<Rightarrow> jstr \<Rightarrow> jstr option" where
  "advance_campaign_recipient_status current incoming =
     (let nxt = js_lower incoming in
      case CAMPAIGN_STATUS_RANK nxt of
        None \<Rightarrow> None
      | Some incomingRank \<Rightarrow>
          (case CAMPAIGN_STATUS_RANK (js_lower current) of
             None \<Rightarrow> Some nxt
           | Some currentRank \<Rightarrow> if incomingRank > currentRank then Some nxt else None))"

text \<open>What a caller keeps: the advanced status, or the one it had when the ack adds nothing.\<close>

definition settle :: "(jstr \<Rightarrow> jstr \<Rightarrow> jstr option) \<Rightarrow> jstr \<Rightarrow> jstr \<Rightarrow> jstr" where
  "settle adv incoming current = (case adv current incoming of None \<Rightarrow> current | Some s \<Rightarrow> s)"

text \<open>The statuses of the schema are ordered by the ladder.\<close>

primrec ladder_position :: "message_status \<Rightarrow> nat" where
  "ladder_position PENDING = 0"
| "ladder_position SENT = 1"
| "ladder_position FAILED = 2"
| "ladder_position DELIVERED = 3"
| "ladder_position READ = 4"

lemma ladder_position_inject [simp]: "ladder_position a = ladder_position b \<longleftrightarrow> a = b"
  by (cases a; cases b) simp_all

instantiation message_status :: linorder
begin

definition less_eq_message_status :: "message_status \<Rightarrow> message_status \<Rightarrow> bool" where
  "a \<le> b \<longleftrightarrow> ladder_position a \<le> ladder_position b"

definition less_message_status :: "message_status \<Rightarrow> message_status \<Rightarrow> bool" where
  "a < b \<longleftrightarrow> ladder_position a < ladder_position b"

instance
  by standard (auto simp: less_eq_message_status_def less_message_status_def)

end

lemma STATUS_RANK_name: "STATUS_RANK (status_name s) = Some (ladder_position s)"
  by (cases s) (simp_all add: STATUS_RANK_def)

lemma STATUS_RANK_SomeE:
  assumes "STATUS_RANK s = Some r"
  obtains m where "s = status_name m" "r = ladder_position m"
proof -
  have "(\<exists>m. s = status_name m \<and> r = ladder_position m)"
    using assms unfolding STATUS_RANK_def
    by (auto split: if_splits intro: exI [of _ PENDING] exI [of _ SENT] exI [of _ FAILED]
        exI [of _ DELIVERED] exI [of _ READ])
  with that show ?thesis by blast
qed

lemma STATUS_RANK_inj: "STATUS_RANK s = Some r \<Longrightarrow> STATUS_RANK t = Some r \<Longrightarrow> s = t"
  by (elim STATUS_RANK_SomeE) simp

lemma CAMPAIGN_STATUS_RANK_inj:
  "CAMPAIGN_STATUS_RANK s = Some r \<Longrightarrow> CAMPAIGN_STATUS_RANK t = Some r \<Longrightarrow> s = t"
  unfolding CAMPAIGN_STATUS_RANK_def by (auto split: if_splits)

lemma CAMPAIGN_STATUS_RANK_lower: "CAMPAIGN_STATUS_RANK s = Some r \<Longrightarrow> js_lower s = s"
  unfolding CAMPAIGN_STATUS_RANK_def by (auto simp: js_simps lower_unit_def split: if_splits)

section \<open>The contract of a receipt ladder\<close>

text \<open>
  What the two \<open>advance\<close> functions promise their callers. \<open>norm\<close> is how the function reads a status
  before it looks up its rank.
\<close>

locale receipt_ladder =
  fixes rank :: "jstr \<Rightarrow> nat option"
    and norm :: "jstr \<Rightarrow> jstr"
    and adv :: "jstr \<Rightarrow> jstr \<Rightarrow> jstr option"
  assumes rank_inj: "rank s = Some r \<Longrightarrow> rank t = Some r \<Longrightarrow> s = t"
    and rank_norm: "rank s = Some r \<Longrightarrow> norm s = s"
    and adv_unknown: "rank (norm i) = None \<Longrightarrow> adv c i = None"
    and adv_from_unknown: "rank (norm i) = Some r \<Longrightarrow> rank (norm c) = None \<Longrightarrow> adv c i = Some (norm i)"
    and adv_known: "rank (norm i) = Some ri \<Longrightarrow> rank (norm c) = Some rc
      \<Longrightarrow> adv c i = (if rc < ri then Some (norm i) else None)"
begin

lemma settle_rank:
  assumes "rank (norm c) = Some rc"
  shows "rank (norm (settle adv i c)) =
    Some (case rank (norm i) of None \<Rightarrow> rc | Some ri \<Rightarrow> max rc ri)"
proof (cases "rank (norm i)")
  case None
  with assms show ?thesis by (simp add: settle_def adv_unknown)
next
  case (Some ri)
  with assms rank_norm [OF Some] show ?thesis
    by (simp add: settle_def adv_known max_def)
qed

lemma settle_all_rank:
  assumes "rank (norm c) = Some rc"
  shows "rank (norm (fold (settle adv) acks c)) =
    Some (Max (insert rc {r. \<exists>i \<in> set acks. rank (norm i) = Some r}))"
  using assms
proof (induction acks arbitrary: c rc)
  case Nil
  then show ?case by simp
next
  case (Cons i acks)
  let ?S = "{r. \<exists>i \<in> set acks. rank (norm i) = Some r}"
  have fin: "finite ?S"
    by (rule finite_subset [of _ "(\<lambda>i. the (rank (norm i))) ` set acks"]) force+
  show ?case
  proof (cases "rank (norm i)")
    case None
    then have "{r. \<exists>j \<in> set (i # acks). rank (norm j) = Some r} = ?S" by auto
    with Cons None show ?thesis by (simp add: settle_rank)
  next
    case (Some ri)
    then have "{r. \<exists>j \<in> set (i # acks). rank (norm j) = Some r} = insert ri ?S" by auto
    moreover have "Max (insert (max rc ri) ?S) = Max (insert rc (insert ri ?S))"
      using fin by (cases "?S = {}") (simp_all add: max.assoc)
    ultimately show ?thesis using Cons Some by (simp add: settle_rank)
  qed
qed

text \<open>Any two deliveries of the same set of receipts settle on the same status.\<close>

lemma settle_all_set:
  assumes "rank (norm c) = Some rc" and "set acks = set acks'"
  shows "norm (fold (settle adv) acks c) = norm (fold (settle adv) acks' c)"
  using settle_all_rank [OF assms(1), of acks] settle_all_rank [OF assms(1), of acks'] assms(2)
  by (auto intro: rank_inj)

lemma settle_normal: "norm c = c \<Longrightarrow> norm (settle adv i c) = settle adv i c"
proof (cases "rank (norm i)")
  case None
  then show "norm c = c \<Longrightarrow> ?thesis" by (simp add: settle_def adv_unknown)
next
  case (Some ri)
  assume "norm c = c"
  with Some show ?thesis
    by (cases "rank (norm c)") (simp_all add: settle_def adv_from_unknown adv_known rank_norm [OF Some])
qed

lemma settle_all_normal: "norm c = c \<Longrightarrow> norm (fold (settle adv) acks c) = fold (settle adv) acks c"
  by (induction acks arbitrary: c) (simp_all add: settle_normal)

lemma adv_forward:
  assumes "adv c i = Some n" and "rank (norm c) = Some rc"
  shows "\<exists>rn. rank n = Some rn \<and> rc < rn"
proof (cases "rank (norm i)")
  case None
  with assms show ?thesis by (simp add: adv_unknown)
next
  case (Some ri)
  with assms show ?thesis by (auto simp: adv_known split: if_splits)
qed

end

interpretation msg: receipt_ladder STATUS_RANK "\<lambda>s. s" advance_message_status
  by unfold_locales (auto simp: advance_message_status_def elim: STATUS_RANK_inj)

interpretation camp: receipt_ladder CAMPAIGN_STATUS_RANK js_lower advance_campaign_recipient_status
  by unfold_locales
    (auto simp: advance_campaign_recipient_status_def CAMPAIGN_STATUS_RANK_lower
      elim: CAMPAIGN_STATUS_RANK_inj)

section \<open>Applying a receipt to the stores\<close>

record message_row =
  m_status :: jstr
  m_isRead :: bool

record recipient_row =
  r_status :: jstr
  r_deliveredAt :: "int option"
  r_readAt :: "int option"

record ack_state =
  a_now :: int
  a_messages :: "jstr \<Rightarrow> message_row option"
  a_recipients :: "jstr \<Rightarrow> recipient_row option"
  a_acks_emitted :: "(jstr \<times> jstr) list"

definition apply_message_ack :: "jstr \<Rightarrow> jstr \<Rightarrow> ack_state \<Rightarrow> ack_state" where
  "apply_message_ack waMessageId incoming s =
     (case a_messages s waMessageId of
        None \<Rightarrow> s
      | Some m \<Rightarrow>
          (case advance_message_status (m_status m) incoming of
             None \<Rightarrow> s
           | Some advanced \<Rightarrow>
               s\<lparr>a_messages := (a_messages s)(waMessageId \<mapsto>
                   m\<lparr>m_status := advanced, m_isRead := (if advanced = lit ''READ'' then True else m_isRead m)\<rparr>),
                 a_acks_emitted := a_acks_emitted s @ [(waMessageId, advanced)]\<rparr>))"

definition apply_recipient_ack :: "jstr \<Rightarrow> jstr \<Rightarrow> ack_state \<Rightarrow> ack_state" where
  "apply_recipient_ack waMessageId incoming s =
     (case a_recipients s waMessageId of
        None \<Rightarrow> s
      | Some r \<Rightarrow>
          (case advance_campaign_recipient_status (r_status r) incoming of
             None \<Rightarrow> s
           | Some advanced \<Rightarrow>
               s\<lparr>a_recipients := (a_recipients s)(waMessageId \<mapsto>
                   r\<lparr>r_status := advanced,
                     r_deliveredAt := (if advanced = lit ''delivered'' \<or> advanced = lit ''read''
                                       then Some (a_now s) else r_deliveredAt r),
                     r_readAt := (if advanced = lit ''read'' then Some (a_now s) else r_readAt r)\<rparr>)\<rparr>))"

definition apply_meta_status :: "jstr \<Rightarrow> jstr \<Rightarrow> ack_state \<Rightarrow> ack_state" where
  "apply_meta_status waMessageId incoming s =
     apply_recipient_ack waMessageId incoming (apply_message_ack waMessageId incoming s)"

text \<open>OpenWA sends numbers: the message row takes five of them, the campaign recipient three.\<close>

definition openwa_ack_status :: "int \<Rightarrow> jstr option" where
  "openwa_ack_status ack =
     (if ack = 0 then Some (lit ''PENDING'') else if ack = 1 then Some (lit ''SENT'')
      else if ack = 2 then Some (lit ''DELIVERED'') else if ack = 3 then Some (lit ''READ'')
      else if ack = -1 then Some (lit ''FAILED'') else None)"

definition advance_campaign_recipient :: "jstr \<Rightarrow> int \<Rightarrow> ack_state \<Rightarrow> ack_state" where
  "advance_campaign_recipient waMessageId ack s =
     (if ack = 3 then apply_recipient_ack waMessageId (lit ''read'') s
      else if ack = 2 then apply_recipient_ack waMessageId (lit ''delivered'') s
      else if ack = -1 then apply_recipient_ack waMessageId (lit ''failed'') s
      else s)"

definition apply_openwa_ack :: "jstr \<Rightarrow> int \<Rightarrow> ack_state \<Rightarrow> ack_state" where
  "apply_openwa_ack msgId ack s =
     (if msgId = [] \<or> ack = -99 then s
      else case openwa_ack_status ack of
             None \<Rightarrow> s
           | Some newStatus \<Rightarrow>
               advance_campaign_recipient msgId ack (apply_message_ack msgId newStatus s))"

text \<open>The events the two webhooks deliver, with the time each arrives at.\<close>

datatype ack_event = MetaStatus jstr jstr | OpenwaAck jstr int

definition ack_step :: "int \<times> ack_event \<Rightarrow> ack_state \<Rightarrow> ack_state" where
  "ack_step te s =
     (let s' = s\<lparr>a_now := fst te\<rparr> in
      case snd te of MetaStatus w i \<Rightarrow> apply_meta_status w i s' | OpenwaAck w n \<Rightarrow> apply_openwa_ack w n s')"

lemma apply_message_ack_frame [frame_simps]:
  "a_recipients (apply_message_ack w i s) = a_recipients s" "a_now (apply_message_ack w i s) = a_now s"
  by (simp_all add: apply_message_ack_def split: option.splits)

lemma apply_recipient_ack_frame [frame_simps]:
  "a_messages (apply_recipient_ack w i s) = a_messages s"
  "a_acks_emitted (apply_recipient_ack w i s) = a_acks_emitted s"
  "a_now (apply_recipient_ack w i s) = a_now s"
  by (simp_all add: apply_recipient_ack_def split: option.splits)

lemma apply_message_ack_status:
  "a_messages s w = Some m \<Longrightarrow>
     map_option m_status (a_messages (apply_message_ack w i s) w)
       = Some (settle advance_message_status i (m_status m))"
  by (simp add: apply_message_ack_def settle_def split: option.splits)

lemma apply_message_ack_other [simp]:
  "w' \<noteq> w \<Longrightarrow> a_messages (apply_message_ack w i s) w' = a_messages s w'"
  by (simp add: apply_message_ack_def split: option.splits)

lemma apply_recipient_ack_status:
  "a_recipients s w = Some r \<Longrightarrow>
     map_option r_status (a_recipients (apply_recipient_ack w i s) w)
       = Some (settle advance_campaign_recipient_status i (r_status r))"
  by (simp add: apply_recipient_ack_def settle_def split: option.splits)

section \<open>Properties\<close>

text \<open>Message rows as the ladder sees them: the position of a message's status, if it has one.\<close>

definition message_level :: "jstr \<Rightarrow> ack_state \<Rightarrow> nat" where
  "message_level w s =
     (case a_messages s w of
        None \<Rightarrow> 0
      | Some m \<Rightarrow> (case STATUS_RANK (m_status m) of None \<Rightarrow> 0 | Some r \<Rightarrow> Suc r))"

definition read_flag_ok :: "ack_state \<Rightarrow> bool" where
  "read_flag_ok s \<longleftrightarrow>
     (\<forall>w. case a_messages s w of None \<Rightarrow> True | Some m \<Rightarrow> m_status m = lit ''READ'' \<longrightarrow> m_isRead m)"

lemma message_level_message_ack: "message_level w s \<le> message_level w (apply_message_ack w' i s)"
  by (auto simp: message_level_def apply_message_ack_def advance_message_status_def split: option.splits)

lemma message_level_recipient_ack [simp]:
  "message_level w (apply_recipient_ack w' i s) = message_level w s"
  by (simp add: message_level_def frame_simps)

lemma message_level_now [simp]: "message_level w (s\<lparr>a_now := t\<rparr>) = message_level w s"
  by (simp add: message_level_def)

lemma message_level_step: "message_level w s \<le> message_level w (ack_step te s)"
  by (auto simp: ack_step_def apply_meta_status_def apply_openwa_ack_def advance_campaign_recipient_def
      Let_def split: ack_event.splits option.splits
      intro: order_trans [OF _ message_level_message_ack])

lemma read_flag_message_ack: "read_flag_ok s \<Longrightarrow> read_flag_ok (apply_message_ack w i s)"
  by (auto simp: read_flag_ok_def apply_message_ack_def split: option.splits)

lemma read_flag_recipient_ack [simp]: "read_flag_ok (apply_recipient_ack w i s) = read_flag_ok s"
  by (simp add: read_flag_ok_def frame_simps)

lemma read_flag_step: "read_flag_ok s \<Longrightarrow> read_flag_ok (ack_step te s)"
proof -
  assume "read_flag_ok s"
  then have "read_flag_ok (s\<lparr>a_now := fst te\<rparr>)" by (simp add: read_flag_ok_def)
  then show ?thesis
    by (auto simp: ack_step_def apply_meta_status_def apply_openwa_ack_def advance_campaign_recipient_def
        Let_def split: ack_event.splits option.splits intro: read_flag_message_ack)
qed

interpretation acks: monotone_system ack_step read_flag_ok "message_level w" for w
  by unfold_locales (auto intro: read_flag_step message_level_step)

lemma advance_names:
  "advance_message_status (status_name cur) (status_name new) =
     (if cur < new then Some (status_name new) else None)"
  by (simp add: advance_message_status_def STATUS_RANK_name less_message_status_def)

text \<open>the status to write. On the schema's statuses the function is exactly the strict order of the
  ladder PENDING, SENT, FAILED, DELIVERED, READ: it answers the incoming status when that is strictly
  higher and nothing otherwise, so a failure overrides a send, a delivery overrides a failure, and
  no duplicate or late receipt produces a write.\<close>
theorem advance_is_strict_order:
  "advance_message_status (status_name cur) (status_name new) =
     (if cur < new then Some (status_name new) else None)"
  by (rule advance_names)

definition final_row :: "jstr list \<Rightarrow> message_row \<Rightarrow> message_row" where
  "final_row acks m =
     (let f = fold (settle advance_message_status) acks (m_status m)
      in m\<lparr>m_status := f,
           m_isRead := (if f = lit ''READ'' \<and> m_status m \<noteq> lit ''READ'' then True else m_isRead m)\<rparr>)"

lemma advance_READ [simp]: "advance_message_status (lit ''READ'') i = None"
proof (cases "STATUS_RANK i")
  case None
  then show ?thesis by (simp add: advance_message_status_def)
next
  case (Some r)
  then obtain m where m: "i = status_name m" by (elim STATUS_RANK_SomeE)
  have "\<not> READ < m" by (cases m) (simp_all add: less_message_status_def)
  with m advance_names [of READ m] show ?thesis by simp
qed

lemma settle_READ [simp]: "settle advance_message_status i (lit ''READ'') = lit ''READ''"
  by (simp add: settle_def)

lemma fold_settle_READ [simp]: "fold (settle advance_message_status) acks (lit ''READ'') = lit ''READ''"
  by (induction acks) simp_all

text \<open>A message row after any receipts for it, whichever channel delivered them.\<close>

lemma apply_message_ack_row:
  "a_messages s w = Some m \<Longrightarrow>
     a_messages (apply_message_ack w i s) w = Some (final_row [i] m)"
  by (auto simp: apply_message_ack_def final_row_def settle_def Let_def
      dest: sym [of "lit ''READ''"] split: option.splits)

lemma final_row_Cons: "final_row (i # acks) m = final_row acks (final_row [i] m)"
  by (auto simp: final_row_def Let_def)

lemma apply_message_acks_row:
  "a_messages s w = Some m \<Longrightarrow>
     a_messages (fold (\<lambda>i. apply_meta_status w i) acks s) w = Some (final_row acks m)"
proof (induction acks arbitrary: s m)
  case Nil
  then show ?case by (simp add: final_row_def)
next
  case (Cons i acks)
  have "a_messages (apply_meta_status w i s) w = Some (final_row [i] m)"
    using Cons.prems by (simp add: apply_meta_status_def frame_simps apply_message_ack_row)
  with Cons.IH show ?case by (simp add: final_row_Cons [of i acks])
qed

text \<open>C31: receipts converge. Meta retries and reorders its webhooks; whichever way the receipts of a
  message with a schema status arrive, how often and in which order, the message row (status and read
  flag) ends up the same as long as the set of receipts is the same.\<close>
theorem receipts_converge:
  assumes "a_messages s w = Some m" and "m_status m = status_name cur" and "set acks = set acks'"
  shows "a_messages (fold (\<lambda>i. apply_meta_status w i) acks s) w
       = a_messages (fold (\<lambda>i. apply_meta_status w i) acks' s) w"
proof -
  have "fold (settle advance_message_status) acks (m_status m)
      = fold (settle advance_message_status) acks' (m_status m)"
    using msg.settle_all_set [OF STATUS_RANK_name assms(3)] assms(2) by simp
  then show ?thesis by (simp add: apply_message_acks_row [OF assms(1)] final_row_def)
qed

definition sample_acks :: ack_state where
  "sample_acks = \<lparr>a_now = 0,
     a_messages = [lit ''wa1'' \<mapsto> \<lparr>m_status = lit ''SENT'', m_isRead = False\<rparr>],
     a_recipients = [lit ''wa1'' \<mapsto> \<lparr>r_status = lit ''sent'', r_deliveredAt = None, r_readAt = None\<rparr>],
     a_acks_emitted = []\<rparr>"

theorem receipts_converge_witness:
  "a_messages (fold (\<lambda>i. apply_meta_status (lit ''wa1'') i)
       [lit ''DELIVERED'', lit ''READ'', lit ''FAILED''] sample_acks) (lit ''wa1'')
     = a_messages (fold (\<lambda>i. apply_meta_status (lit ''wa1'') i)
       [lit ''READ'', lit ''FAILED'', lit ''DELIVERED'', lit ''READ''] sample_acks) (lit ''wa1'')"
  by (rule receipts_converge [where cur = SENT and m = "\<lparr>m_status = lit ''SENT'', m_isRead = False\<rparr>"])
    (auto simp: sample_acks_def)

text \<open>whatever the two webhooks deliver, for whichever message and in whichever order, no message
  ever moves down the ladder, and a message that reads READ is flagged as read.\<close>
theorem messages_never_walk_back:
  assumes "read_flag_ok s"
  shows "message_level w s \<le> message_level w (fold ack_step events s)
    \<and> read_flag_ok (fold ack_step events s)"
  using acks.run_level [OF assms] acks.sys.run_inv [OF assms] by blast

theorem messages_never_walk_back_witness:
  "message_level (lit ''wa1'') sample_acks \<le> message_level (lit ''wa1'')
     (fold ack_step [(1, OpenwaAck (lit ''wa1'') 3), (2, MetaStatus (lit ''wa1'') (lit ''DELIVERED''))] sample_acks)
   \<and> read_flag_ok
     (fold ack_step [(1, OpenwaAck (lit ''wa1'') 3), (2, MetaStatus (lit ''wa1'') (lit ''DELIVERED''))] sample_acks)"
  by (rule messages_never_walk_back) (simp add: read_flag_ok_def sample_acks_def)

lemma campaign_rank_lit [simp]:
  "advance_campaign_recipient_status (lit ''sent'') (lit ''delivered'') = Some (lit ''delivered'')"
  "advance_campaign_recipient_status (lit ''delivered'') (lit ''read'') = Some (lit ''read'')"
  by (simp_all add: advance_campaign_recipient_status_def CAMPAIGN_STATUS_RANK_def js_simps lower_unit_def)

text \<open>a recipient's delivery time does not survive its read receipt. A recipient that was sent,
  was delivered at \<open>t1\<close> and read at \<open>t2\<close> is stored with \<open>t2\<close> as its delivery time too: the read
  branch writes \<open>deliveredAt\<close> whether or not a delivery receipt had already set it.\<close>
theorem read_receipt_overwrites_delivery_time:
  assumes "a_recipients s w = Some r" and "r_status r = lit ''sent''" and "w \<noteq> []"
  shows "a_recipients (fold ack_step [(t1, OpenwaAck w 2), (t2, OpenwaAck w 3)] s) w
       = Some (r\<lparr>r_status := lit ''read'', r_deliveredAt := Some t2, r_readAt := Some t2\<rparr>)"
  using assms
  by (simp add: ack_step_def apply_openwa_ack_def openwa_ack_status_def advance_campaign_recipient_def
      apply_recipient_ack_def frame_simps)

theorem read_receipt_overwrites_delivery_time_witness:
  "a_recipients (fold ack_step [(10, OpenwaAck (lit ''wa1'') 2), (20, OpenwaAck (lit ''wa1'') 3)] sample_acks)
     (lit ''wa1'') = Some \<lparr>r_status = lit ''read'', r_deliveredAt = Some 20, r_readAt = Some 20\<rparr>"
  by (subst read_receipt_overwrites_delivery_time
      [where r = "\<lparr>r_status = lit ''sent'', r_deliveredAt = None, r_readAt = None\<rparr>"])
    (auto simp: sample_acks_def)

end
