(* ===== verification/Conversation.thy ===== *)
theory Conversation
  imports Prelude
begin

text \<open>
  The life of a conversation: \<open>modules/conversations/conversation-lifecycle.service.ts\<close>, the closing
  reply of \<open>utils/conversation-closing-reply.ts\<close> with \<open>resolveAutoReply\<close> of \<open>utils/auto-reply.ts\<close>, and
  the timer job of \<open>workers/auto-close.worker.ts\<close> and \<open>workers/auto-close.queue.ts\<close>.

  The record \<open>cworld\<close> is the part of one organization's database, queue and outbox these functions
  touch. A call reads the clock once (\<open>w_now\<close>). The channel that delivers a text
  (\<open>ChannelService.sendText\<close>) is the parameter \<open>w_channel\<close>: it answers a provider message id or throws.
  A thrown \<open>ConversationLifecycleError\<close> is the left side of a sum.

  \<open>closeConversation\<close> and \<open>reopenConversation\<close> are split at their database round trips into what they
  read and what they write, so that two requests can be interleaved; the other operations are taken
  as one step.
\<close>

section \<open>Rows\<close>

datatype conversation_status = OPEN | PENDING_CONV | RESOLVED | AWAITING_CLIENT

datatype closing_note_mode = OPTIONAL | CATEGORY_REQUIRED | CATEGORY_AND_SUMMARY_REQUIRED

datatype closing_source = MANUAL | AUTO_CLOSE | WORKFLOW | API | MERGE

datatype consent = UNKNOWN | OPTED_IN | OPTED_OUT

record conversation =
  cv_status :: conversation_status
  cv_resolvedAt :: "int option"
  cv_openedAt :: int
  cv_firstResponseAt :: "int option"
  cv_autoCloseEligible :: bool
  cv_autoCloseAt :: "int option"
  cv_lastHumanOutboundAt :: "int option"
  cv_snoozedUntil :: "int option"
  cv_snoozedByName :: "jstr option"
  cv_assignedToId :: "jstr option"
  cv_teamId :: "jstr option"
  cv_contactId :: jstr
  cv_sessionId :: jstr

record org_config =
  oc_manualClosingNotesEnabled :: bool
  oc_manualClosingNoteMode :: closing_note_mode
  oc_autoCloseEnabled :: bool
  oc_autoCloseDurationMinutes :: int

record user_row =
  u_isActive :: bool
  u_isAway :: bool
  u_teams :: "jstr list"

record contact_row =
  ct_phone :: jstr
  ct_name :: "jstr option"
  ct_firstName :: "jstr option"
  ct_consent :: consent
  ct_lifecycleStage :: "jstr option"
  ct_blockedAt :: "int option"

record session_row =
  ss_id :: jstr
  ss_sessionName :: jstr
  ss_teamId :: "jstr option"
  ss_isActive :: bool

record closure =
  cl_conversationId :: jstr
  cl_categoryId :: "jstr option"
  cl_categoryName :: "jstr option"
  cl_summary :: "jstr option"
  cl_source :: closing_source
  cl_closedById :: "jstr option"
  cl_closedByName :: "jstr option"
  cl_openedAt :: int
  cl_closedAt :: int

datatype message_direction = INBOUND | OUTBOUND

datatype send_status = MSG_PENDING | MSG_SENT | MSG_FAILED

record stored_message =
  sm_conversationId :: jstr
  sm_body :: jstr
  sm_isInternal :: bool
  sm_autoType :: jstr
  sm_waMessageId :: "jstr option"
  sm_direction :: message_direction
  sm_isAuto :: bool
  sm_status :: send_status
  sm_timestamp :: int

datatype lifecycle_event =
    WebhookClosed jstr closing_source
  | AuditClosed jstr closing_source "jstr option"
  | SocketResolved jstr
  | AuditReopened jstr "jstr option" bool
  | WebhookReopened jstr int

record cworld =
  w_now :: int
  w_convs :: "jstr \<Rightarrow> conversation option"
  w_config :: "org_config option"
  w_categories :: "jstr \<Rightarrow> jstr option"
  w_users :: "jstr \<Rightarrow> user_row option"
  w_contacts :: "jstr \<Rightarrow> contact_row option"
  w_sessions :: "session_row list"
  w_auto_replies :: "(jstr \<times> jstr) list"
  w_channel :: "jstr \<Rightarrow> jstr \<Rightarrow> jstr \<Rightarrow> jstr + jstr"
  w_closures :: "closure list"
  w_sent :: "(jstr \<times> jstr \<times> jstr) list"
  w_messages :: "stored_message list"
  w_events :: "lifecycle_event list"
  w_jobs :: "(jstr \<times> int) list"

definition MIN_AUTO_CLOSE_MINUTES :: int where "MIN_AUTO_CLOSE_MINUTES = 30"
definition MAX_AUTO_CLOSE_MINUTES :: int where "MAX_AUTO_CLOSE_MINUTES = 14 * 24 * 60"

datatype lifecycle_error =
    SummaryTooLong
  | ConversationNotFound
  | ClosingCategoryNotFound
  | ClosingCategoryRequired
  | ClosingSummaryRequired

text \<open>The HTTP status and the code each error carries.\<close>

primrec lifecycle_error_status :: "lifecycle_error \<Rightarrow> nat" where
  "lifecycle_error_status SummaryTooLong = 400"
| "lifecycle_error_status ConversationNotFound = 404"
| "lifecycle_error_status ClosingCategoryNotFound = 404"
| "lifecycle_error_status ClosingCategoryRequired = 400"
| "lifecycle_error_status ClosingSummaryRequired = 400"

record close_input =
  ci_conversationId :: jstr
  ci_source :: closing_source
  ci_categoryId :: "jstr option"
  ci_summary :: "jstr option"
  ci_actorId :: "jstr option"
  ci_actorName :: "jstr option"
  ci_enforceManualPolicy :: bool
  ci_sendClosingReply :: bool

section \<open>Closing\<close>

text \<open>\<open>value.trim() || null\<close>.\<close>

definition trim_or_null :: "jstr option \<Rightarrow> jstr option" where
  "trim_or_null v = (case v of None \<Rightarrow> None | Some s \<Rightarrow> let t = js_trim s in if t = [] then None else Some t)"

definition normalize_summary :: "jstr option \<Rightarrow> lifecycle_error + jstr option" where
  "normalize_summary v =
     (let normalized = (case v of None \<Rightarrow> [] | Some s \<Rightarrow> js_trim s) in
      if length normalized > 2000 then Inl SummaryTooLong
      else Inr (if normalized = [] then None else Some normalized))"

definition assert_manual_closing_policy ::
  "bool \<Rightarrow> closing_note_mode \<Rightarrow> jstr option \<Rightarrow> jstr option \<Rightarrow> lifecycle_error option" where
  "assert_manual_closing_policy enabled mode categoryId summary =
     (if \<not> enabled then None
      else if (mode = CATEGORY_REQUIRED \<or> mode = CATEGORY_AND_SUMMARY_REQUIRED) \<and> categoryId = None
        then Some ClosingCategoryRequired
      else if mode = CATEGORY_AND_SUMMARY_REQUIRED \<and> summary = None then Some ClosingSummaryRequired
      else None)"

text \<open>What a close request has read before it writes.\<close>

record close_snapshot =
  sn_conversation :: conversation
  sn_categoryId :: "jstr option"
  sn_categoryName :: "jstr option"
  sn_summary :: "jstr option"

definition close_check :: "close_input \<Rightarrow> 'a cworld_scheme \<Rightarrow> lifecycle_error + close_snapshot" where
  "close_check input w =
     (case normalize_summary (ci_summary input) of
        Inl e \<Rightarrow> Inl e
      | Inr summary \<Rightarrow>
          let categoryId = trim_or_null (ci_categoryId input);
              category = (case categoryId of None \<Rightarrow> None | Some c \<Rightarrow> w_categories w c);
              enabled = (case w_config w of None \<Rightarrow> False | Some c \<Rightarrow> oc_manualClosingNotesEnabled c);
              mode = (case w_config w of None \<Rightarrow> OPTIONAL | Some c \<Rightarrow> oc_manualClosingNoteMode c)
          in case w_convs w (ci_conversationId input) of
               None \<Rightarrow> Inl ConversationNotFound
             | Some conversation \<Rightarrow>
                 if categoryId \<noteq> None \<and> category = None then Inl ClosingCategoryNotFound
                 else case (if ci_enforceManualPolicy input \<or> ci_source input = MANUAL
                            then assert_manual_closing_policy enabled mode categoryId summary
                            else None) of
                        Some e \<Rightarrow> Inl e
                      | None \<Rightarrow> Inr \<lparr>sn_conversation = conversation, sn_categoryId = categoryId,
                                     sn_categoryName = category, sn_summary = summary\<rparr>)"

definition resolved_conversation :: "int \<Rightarrow> conversation \<Rightarrow> conversation" where
  "resolved_conversation closedAt c =
     c\<lparr>cv_status := RESOLVED, cv_resolvedAt := Some closedAt, cv_autoCloseAt := None,
       cv_snoozedUntil := None, cv_snoozedByName := None\<rparr>"

definition closure_of :: "close_input \<Rightarrow> close_snapshot \<Rightarrow> int \<Rightarrow> closure" where
  "closure_of input snap closedAt =
     \<lparr>cl_conversationId = ci_conversationId input, cl_categoryId = sn_categoryId snap,
      cl_categoryName = sn_categoryName snap, cl_summary = sn_summary snap, cl_source = ci_source input,
      cl_closedById = ci_actorId input, cl_closedByName = ci_actorName input,
      cl_openedAt = cv_openedAt (sn_conversation snap), cl_closedAt = closedAt\<rparr>"

text \<open>\<open>findFirst\<close> of the closures by \<open>closedAt\<close> descending.\<close>

definition latest_closure :: "jstr \<Rightarrow> closure list \<Rightarrow> closure option" where
  "latest_closure cid cls =
     fold (\<lambda>c acc. if cl_conversationId c = cid then
                     (case acc of None \<Rightarrow> Some c
                      | Some b \<Rightarrow> if cl_closedAt b < cl_closedAt c then Some c else acc)
                   else acc) cls None"

text \<open>The first active template of the kind, trimmed; nothing when it is absent or blank.\<close>

definition resolve_auto_reply :: "jstr \<Rightarrow> 'a cworld_scheme \<Rightarrow> jstr option" where
  "resolve_auto_reply kind w = trim_or_null (map_of (w_auto_replies w) kind)"

definition session_by_id :: "jstr \<Rightarrow> 'a cworld_scheme \<Rightarrow> session_row option" where
  "session_by_id sid w = find (\<lambda>s. ss_id s = sid) (w_sessions w)"

definition send_conversation_closing_reply :: "jstr \<Rightarrow> 'a cworld_scheme \<Rightarrow> 'a cworld_scheme" where
  "send_conversation_closing_reply cid w =
     (case w_convs w cid of
        None \<Rightarrow> w
      | Some c \<Rightarrow>
          (case resolve_auto_reply (lit ''CONVERSATION_CLOSED'') w of
             None \<Rightarrow> w
           | Some reply \<Rightarrow>
               (case (session_by_id (cv_sessionId c) w, w_contacts w (cv_contactId c)) of
                  (Some session, Some contact) \<Rightarrow>
                    (case w_channel w (ss_sessionName session) (ct_phone contact) reply of
                       Inl _ \<Rightarrow> w
                     | Inr providerId \<Rightarrow>
                         w\<lparr>w_sent := w_sent w @ [(ss_sessionName session, ct_phone contact, reply)],
                           w_messages := w_messages w @
                             [\<lparr>sm_conversationId = cid, sm_body = reply, sm_isInternal = False,
                               sm_autoType = lit ''resolved'', sm_waMessageId = Some providerId,
                               sm_direction = OUTBOUND, sm_isAuto = True, sm_status = MSG_SENT, sm_timestamp = w_now w\<rparr>]\<rparr>)
                | _ \<Rightarrow> w)))"

text \<open>The write half: the transaction, then what follows a real transition.\<close>

definition close_commit ::
  "close_input \<Rightarrow> close_snapshot \<Rightarrow> 'a cworld_scheme \<Rightarrow> (conversation option \<times> closure option \<times> bool) \<times> 'a cworld_scheme" where
  "close_commit input snap w =
     (let cid = ci_conversationId input; closedAt = w_now w in
      case w_convs w cid of
        None \<Rightarrow> ((None, None, False), w)
      | Some c \<Rightarrow>
          if cv_status c = RESOLVED then ((Some c, None, False), w)
          else
            let c' = resolved_conversation closedAt c;
                cl = closure_of input snap closedAt;
                w1 = w\<lparr>w_convs := (w_convs w)(cid \<mapsto> c'), w_closures := w_closures w @ [cl]\<rparr>;
                w2 = w1\<lparr>w_events := w_events w1 @
                  [WebhookClosed cid (ci_source input), AuditClosed cid (ci_source input) (ci_actorId input)]\<rparr>;
                w3 = (if ci_sendClosingReply input then send_conversation_closing_reply cid w2 else w2);
                w4 = w3\<lparr>w_events := w_events w3 @ [SocketResolved cid]\<rparr>
            in ((Some c', Some cl, True), w4))"

definition closeConversation ::
  "close_input \<Rightarrow> 'a cworld_scheme \<Rightarrow>
     (lifecycle_error + conversation option \<times> closure option \<times> bool) \<times> 'a cworld_scheme" where
  "closeConversation input w =
     (case close_check input w of
        Inl e \<Rightarrow> (Inl e, w)
      | Inr snap \<Rightarrow>
          if cv_status (sn_conversation snap) = RESOLVED
          then (Inr (Some (sn_conversation snap),
                     latest_closure (ci_conversationId input) (w_closures w), False), w)
          else (let (r, w') = close_commit input snap w in (Inr r, w')))"

section \<open>Reopening\<close>

text \<open>The test the router itself applies: active, not away, and on the conversation's team if it has one.\<close>

definition assignee_still_eligible :: "conversation \<Rightarrow> 'a cworld_scheme \<Rightarrow> bool" where
  "assignee_still_eligible c w =
     (case cv_assignedToId c of
        None \<Rightarrow> True
      | Some uid \<Rightarrow> uid = [] \<or>
          (case w_users w uid of
             None \<Rightarrow> False
           | Some u \<Rightarrow> u_isActive u \<and> \<not> u_isAway u \<and>
               (if truthy_ref (cv_teamId c) then the (cv_teamId c) \<in> set (u_teams u) else True)))"

definition reopened_conversation :: "int \<Rightarrow> bool \<Rightarrow> bool \<Rightarrow> conversation \<Rightarrow> conversation" where
  "reopened_conversation openedAt autoClose eligible c =
     c\<lparr>cv_status := OPEN, cv_resolvedAt := None, cv_openedAt := openedAt, cv_firstResponseAt := None,
       cv_autoCloseEligible := autoClose, cv_lastHumanOutboundAt := None, cv_autoCloseAt := None,
       cv_snoozedUntil := None, cv_snoozedByName := None,
       cv_assignedToId := (if eligible then cv_assignedToId c else None)\<rparr>"

record reopen_snapshot =
  rs_conversation :: conversation
  rs_autoClose :: bool
  rs_eligible :: bool

definition reopen_check :: "jstr \<Rightarrow> 'a cworld_scheme \<Rightarrow> lifecycle_error + reopen_snapshot" where
  "reopen_check cid w =
     (case w_convs w cid of
        None \<Rightarrow> Inl ConversationNotFound
      | Some c \<Rightarrow> Inr \<lparr>rs_conversation = c,
          rs_autoClose = (case w_config w of None \<Rightarrow> False | Some k \<Rightarrow> oc_autoCloseEnabled k),
          rs_eligible = assignee_still_eligible c w\<rparr>)"

definition reopen_commit ::
  "jstr \<Rightarrow> reopen_snapshot \<Rightarrow> 'a cworld_scheme \<Rightarrow> (conversation option \<times> bool) \<times> 'a cworld_scheme" where
  "reopen_commit cid snap w =
     (case w_convs w cid of
        None \<Rightarrow> ((None, False), w)
      | Some c \<Rightarrow>
          let c' = reopened_conversation (w_now w) (rs_autoClose snap) (rs_eligible snap) c
          in ((Some c', True),
              w\<lparr>w_convs := (w_convs w)(cid \<mapsto> c'),
                w_events := w_events w @
                  [AuditReopened cid (cv_assignedToId (rs_conversation snap)) (\<not> rs_eligible snap),
                   WebhookReopened cid (w_now w)]\<rparr>))"

definition reopenConversation ::
  "jstr \<Rightarrow> 'a cworld_scheme \<Rightarrow> (lifecycle_error + conversation option \<times> bool) \<times> 'a cworld_scheme" where
  "reopenConversation cid w =
     (case reopen_check cid w of
        Inl e \<Rightarrow> (Inl e, w)
      | Inr snap \<Rightarrow>
          if cv_status (rs_conversation snap) \<noteq> RESOLVED then (Inr (Some (rs_conversation snap), False), w)
          else (let (r, w') = reopen_commit cid snap w in (Inr r, w')))"

section \<open>The auto-close timer\<close>

definition deadline_after :: "int \<Rightarrow> int \<Rightarrow> int" where
  "deadline_after base durationMinutes = base + durationMinutes * 60000"

text \<open>The job id names the conversation and the deadline, so the queue keeps one job for the pair.\<close>

definition schedule_auto_close :: "jstr \<Rightarrow> int \<Rightarrow> 'a cworld_scheme \<Rightarrow> 'a cworld_scheme" where
  "schedule_auto_close cid deadline w =
     (if (cid, deadline) \<in> set (w_jobs w) then w else w\<lparr>w_jobs := w_jobs w @ [(cid, deadline)]\<rparr>)"

definition mark_successful_human_outbound ::
  "jstr \<Rightarrow> int \<Rightarrow> 'a cworld_scheme \<Rightarrow> int option \<times> 'a cworld_scheme" where
  "mark_successful_human_outbound cid sentAt w =
     (case (w_convs w cid, w_config w) of
        (Some c, Some k) \<Rightarrow>
          if cv_status c = RESOLVED \<or> \<not> cv_autoCloseEligible c \<or> \<not> oc_autoCloseEnabled k then (None, w)
          else
            let base = (case cv_snoozedUntil c of Some u \<Rightarrow> if u > sentAt then u else sentAt | None \<Rightarrow> sentAt);
                deadline = deadline_after base (oc_autoCloseDurationMinutes k);
                w1 = w\<lparr>w_convs := (w_convs w)(cid \<mapsto>
                        c\<lparr>cv_lastHumanOutboundAt := Some sentAt, cv_autoCloseAt := Some deadline\<rparr>)\<rparr>
            in (Some deadline, schedule_auto_close cid deadline w1)
      | _ \<Rightarrow> (None, w))"

definition cancel_auto_close :: "jstr \<Rightarrow> 'a cworld_scheme \<Rightarrow> 'a cworld_scheme" where
  "cancel_auto_close cid w =
     (case w_convs w cid of
        None \<Rightarrow> w
      | Some c \<Rightarrow> if cv_autoCloseAt c = None then w
                  else w\<lparr>w_convs := (w_convs w)(cid \<mapsto> c\<lparr>cv_autoCloseAt := None\<rparr>)\<rparr>)"

definition reschedule_auto_close ::
  "jstr \<Rightarrow> int option \<Rightarrow> 'a cworld_scheme \<Rightarrow> int option \<times> 'a cworld_scheme" where
  "reschedule_auto_close cid wakeAt w =
     (case (w_convs w cid, w_config w) of
        (Some c, Some k) \<Rightarrow>
          if cv_status c = RESOLVED \<or> \<not> cv_autoCloseEligible c \<or> cv_lastHumanOutboundAt c = None
             \<or> \<not> oc_autoCloseEnabled k
          then (None, cancel_auto_close cid w)
          else
            let base = (case wakeAt of Some t \<Rightarrow> if t > w_now w then t else w_now w | None \<Rightarrow> w_now w);
                deadline = deadline_after base (oc_autoCloseDurationMinutes k);
                w1 = w\<lparr>w_convs := (w_convs w)(cid \<mapsto> c\<lparr>cv_autoCloseAt := Some deadline\<rparr>)\<rparr>
            in (Some deadline, schedule_auto_close cid deadline w1)
      | _ \<Rightarrow> (None, cancel_auto_close cid w))"

text \<open>A job carries its deadline as text; \<open>None\<close> is a deadline that does not parse as a date.\<close>

record auto_close_job =
  j_organizationId :: jstr
  j_conversationId :: jstr
  j_expectedAt :: "int option"

datatype job_error = MissingOrganization | CloseFailed lifecycle_error

definition auto_close_input :: "jstr \<Rightarrow> close_input" where
  "auto_close_input cid =
     \<lparr>ci_conversationId = cid, ci_source = AUTO_CLOSE, ci_categoryId = None, ci_summary = None,
      ci_actorId = None, ci_actorName = None, ci_enforceManualPolicy = False, ci_sendClosingReply = False\<rparr>"

definition auto_close_due :: "int \<Rightarrow> jstr \<Rightarrow> 'a cworld_scheme \<Rightarrow> bool" where
  "auto_close_due expectedAt cid w =
     (case (w_convs w cid, w_config w) of
        (Some c, Some k) \<Rightarrow> cv_status c \<noteq> RESOLVED \<and> oc_autoCloseEnabled k \<and> cv_autoCloseEligible c
          \<and> cv_autoCloseAt c = Some expectedAt \<and> \<not> expectedAt > w_now w
      | _ \<Rightarrow> False)"

definition process_auto_close_job ::
  "auto_close_job \<Rightarrow> 'a cworld_scheme \<Rightarrow> (job_error + bool) \<times> 'a cworld_scheme" where
  "process_auto_close_job job w =
     (if j_organizationId job = [] then (Inl MissingOrganization, w)
      else case j_expectedAt job of
        None \<Rightarrow> (Inr False, w)
      | Some expectedAt \<Rightarrow>
          if \<not> auto_close_due expectedAt (j_conversationId job) w then (Inr False, w)
          else case closeConversation (auto_close_input (j_conversationId job)) w of
                 (Inl e, w') \<Rightarrow> (Inl (CloseFailed e), w')
               | (Inr (_, _, changed), w') \<Rightarrow> (Inr changed, w'))"

text \<open>After a restart every open conversation with a persisted deadline gets its job again.\<close>

definition recover_auto_close_jobs :: "jstr list \<Rightarrow> 'a cworld_scheme \<Rightarrow> nat \<times> 'a cworld_scheme" where
  "recover_auto_close_jobs ids w =
     (let rows = filter (\<lambda>cid. case w_convs w cid of None \<Rightarrow> False
                   | Some c \<Rightarrow> cv_autoCloseAt c \<noteq> None \<and> cv_status c \<noteq> RESOLVED) ids
      in (length rows,
          fold (\<lambda>cid w. case w_convs w cid of None \<Rightarrow> w
                  | Some c \<Rightarrow> (case cv_autoCloseAt c of None \<Rightarrow> w | Some deadline \<Rightarrow> schedule_auto_close cid deadline w))
            rows w))"

definition conversation_status_names :: "jstr list" where
  "conversation_status_names = [lit ''OPEN'', lit ''PENDING'', lit ''RESOLVED'', lit ''AWAITING_CLIENT'']"

definition isConversationStatus :: "json \<Rightarrow> bool" where
  "isConversationStatus v = (case v of JStr s \<Rightarrow> s \<in> set conversation_status_names | _ \<Rightarrow> False)"

end
