(* ===== verification/Conversation_Props.thy ===== *)
theory Conversation_Props
  imports Conversation
begin

text \<open>
  What the lifecycle of a conversation guarantees: the shape of its row and of its closures along any
  history of operations, at most one closure for each time it was opened however requests interleave,
  the policy on closing notes, and that timers which no longer describe the row do nothing.
\<close>

section \<open>What the operations leave alone\<close>

lemma closing_reply_frame [frame_simps]:
  "w_convs (send_conversation_closing_reply cid w) = w_convs w"
  "w_closures (send_conversation_closing_reply cid w) = w_closures w"
  "w_events (send_conversation_closing_reply cid w) = w_events w"
  "w_now (send_conversation_closing_reply cid w) = w_now w"
  "w_users (send_conversation_closing_reply cid w) = w_users w"
  "w_config (send_conversation_closing_reply cid w) = w_config w"
  "w_jobs (send_conversation_closing_reply cid w) = w_jobs w"
  by (simp_all add: send_conversation_closing_reply_def split: option.splits sum.splits)

lemma schedule_auto_close_frame [frame_simps]:
  "w_convs (schedule_auto_close cid d w) = w_convs w"
  "w_closures (schedule_auto_close cid d w) = w_closures w"
  "w_events (schedule_auto_close cid d w) = w_events w"
  "w_now (schedule_auto_close cid d w) = w_now w"
  by (simp_all add: schedule_auto_close_def)

lemma cancel_auto_close_frame [frame_simps]:
  "w_closures (cancel_auto_close cid w) = w_closures w"
  "w_events (cancel_auto_close cid w) = w_events w"
  "w_now (cancel_auto_close cid w) = w_now w"
  by (simp_all add: cancel_auto_close_def split: option.splits)

section \<open>Histories\<close>

text \<open>One event of a conversation's history; \<open>Elapse\<close> lets time pass.\<close>

datatype lifecycle_op =
    Close close_input
  | Reopen jstr
  | HumanOutbound jstr int
  | CancelTimer jstr
  | RescheduleTimer jstr "int option"
  | TimerJob auto_close_job
  | Elapse nat

definition lifecycle_step :: "lifecycle_op \<Rightarrow> 'a cworld_scheme \<Rightarrow> 'a cworld_scheme" where
  "lifecycle_step e w =
     (case e of
        Close i \<Rightarrow> snd (closeConversation i w)
      | Reopen cid \<Rightarrow> snd (reopenConversation cid w)
      | HumanOutbound cid sentAt \<Rightarrow> snd (mark_successful_human_outbound cid sentAt w)
      | CancelTimer cid \<Rightarrow> cancel_auto_close cid w
      | RescheduleTimer cid t \<Rightarrow> snd (reschedule_auto_close cid t w)
      | TimerJob j \<Rightarrow> snd (process_auto_close_job j w)
      | Elapse n \<Rightarrow> w\<lparr>w_now := w_now w + int n\<rparr>)"

definition conv_ok :: "int \<Rightarrow> conversation \<Rightarrow> bool" where
  "conv_ok now c \<longleftrightarrow>
     (cv_status c = RESOLVED \<longleftrightarrow> cv_resolvedAt c \<noteq> None)
     \<and> (cv_status c = RESOLVED \<longrightarrow> cv_autoCloseAt c = None \<and> cv_snoozedUntil c = None \<and> cv_snoozedByName c = None)
     \<and> (cv_autoCloseAt c \<noteq> None \<longrightarrow> cv_autoCloseEligible c \<and> cv_lastHumanOutboundAt c \<noteq> None)
     \<and> cv_openedAt c \<le> now"

definition closure_ok :: "int \<Rightarrow> closure \<Rightarrow> bool" where
  "closure_ok now cl \<longleftrightarrow> cl_openedAt cl \<le> cl_closedAt cl \<and> cl_closedAt cl \<le> now"

definition lifecycle_ok :: "'a cworld_scheme \<Rightarrow> bool" where
  "lifecycle_ok w \<longleftrightarrow>
     (\<forall>cid c. w_convs w cid = Some c \<longrightarrow> conv_ok (w_now w) c) \<and> list_all (closure_ok (w_now w)) (w_closures w)"

lemma conv_ok_resolved: "conv_ok now c \<Longrightarrow> conv_ok now (resolved_conversation now c)"
  by (simp add: conv_ok_def resolved_conversation_def)

lemma conv_ok_reopened: "conv_ok now (reopened_conversation now a e c)"
  by (simp add: conv_ok_def reopened_conversation_def)

lemma lifecycle_ok_upd:
  "lifecycle_ok w \<Longrightarrow> conv_ok (w_now w) c \<Longrightarrow> w_convs w' = (w_convs w)(cid \<mapsto> c)
     \<Longrightarrow> w_now w' = w_now w \<Longrightarrow> w_closures w' = w_closures w \<Longrightarrow> lifecycle_ok w'"
  by (auto simp: lifecycle_ok_def)

lemma close_check_conv:
  "close_check i w = Inr snap \<Longrightarrow> w_convs w (ci_conversationId i) = Some (sn_conversation snap)"
  by (auto simp: close_check_def Let_def split: sum.splits option.splits if_splits)

lemma close_commit_effect:
  assumes "w_convs w (ci_conversationId i) = Some c" and "cv_status c \<noteq> RESOLVED"
  shows "w_convs (snd (close_commit i snap w)) =
      (w_convs w)(ci_conversationId i \<mapsto> resolved_conversation (w_now w) c)"
    and "w_closures (snd (close_commit i snap w)) = w_closures w @ [closure_of i snap (w_now w)]"
    and "w_now (snd (close_commit i snap w)) = w_now w"
    and "w_events (snd (close_commit i snap w)) = w_events w @
      [WebhookClosed (ci_conversationId i) (ci_source i),
       AuditClosed (ci_conversationId i) (ci_source i) (ci_actorId i), SocketResolved (ci_conversationId i)]"
    and "fst (close_commit i snap w) =
      (Some (resolved_conversation (w_now w) c), Some (closure_of i snap (w_now w)), True)"
  using assms by (simp_all add: close_commit_def Let_def frame_simps)

lemma close_commit_noop:
  "w_convs w (ci_conversationId i) = Some c \<Longrightarrow> cv_status c = RESOLVED \<Longrightarrow>
     close_commit i snap w = ((Some c, None, False), w)"
  by (simp add: close_commit_def)

lemma close_commit_missing:
  "w_convs w (ci_conversationId i) = None \<Longrightarrow> close_commit i snap w = ((None, None, False), w)"
  by (simp add: close_commit_def)

lemma close_commit_ok:
  assumes "lifecycle_ok w" and "w_convs w (ci_conversationId i) = Some (sn_conversation snap)"
  shows "lifecycle_ok (snd (close_commit i snap w))"
proof (cases "cv_status (sn_conversation snap) = RESOLVED")
  case True
  with assms show ?thesis by (simp add: close_commit_noop)
next
  case False
  have c: "conv_ok (w_now w) (sn_conversation snap)" and cls: "list_all (closure_ok (w_now w)) (w_closures w)"
    using assms by (auto simp: lifecycle_ok_def)
  have "closure_ok (w_now w) (closure_of i snap (w_now w))"
    using c by (simp add: closure_ok_def closure_of_def conv_ok_def)
  with False assms c cls show ?thesis
    unfolding lifecycle_ok_def close_commit_effect [OF assms(2) False]
    by (auto simp: conv_ok_resolved)
qed

lemma closeConversation_refused [guard_simps]:
  "close_check i w = Inl e \<Longrightarrow> closeConversation i w = (Inl e, w)"
  by (simp add: closeConversation_def)

lemma closeConversation_already [guard_simps]:
  "close_check i w = Inr snap \<Longrightarrow> cv_status (sn_conversation snap) = RESOLVED \<Longrightarrow>
     closeConversation i w = (Inr (Some (sn_conversation snap),
       latest_closure (ci_conversationId i) (w_closures w), False), w)"
  by (simp add: closeConversation_def)

lemma closeConversation_open [guard_simps]:
  "close_check i w = Inr snap \<Longrightarrow> cv_status (sn_conversation snap) \<noteq> RESOLVED \<Longrightarrow>
     closeConversation i w = (Inr (fst (close_commit i snap w)), snd (close_commit i snap w))"
  by (simp add: closeConversation_def case_prod_beta)

text \<open>The three ways a close can go.\<close>

lemma closeConversation_cases:
  obtains (refused) e where "close_check i w = Inl e" "closeConversation i w = (Inl e, w)"
  | (already) snap where "close_check i w = Inr snap" "cv_status (sn_conversation snap) = RESOLVED"
      "closeConversation i w = (Inr (Some (sn_conversation snap),
         latest_closure (ci_conversationId i) (w_closures w), False), w)"
  | (closed) snap where "close_check i w = Inr snap" "cv_status (sn_conversation snap) \<noteq> RESOLVED"
      "w_convs w (ci_conversationId i) = Some (sn_conversation snap)"
      "closeConversation i w = (Inr (fst (close_commit i snap w)), snd (close_commit i snap w))"
proof (cases "close_check i w")
  case (Inl e)
  show ?thesis by (rule refused [OF Inl closeConversation_refused [OF Inl]])
next
  case (Inr snap)
  show ?thesis
  proof (cases "cv_status (sn_conversation snap) = RESOLVED")
    case True
    show ?thesis by (rule already [OF Inr True closeConversation_already [OF Inr True]])
  next
    case False
    show ?thesis
      by (rule closed [OF Inr False close_check_conv [OF Inr] closeConversation_open [OF Inr False]])
  qed
qed

lemma closeConversation_ok:
  assumes "lifecycle_ok w"
  shows "lifecycle_ok (snd (closeConversation i w))"
proof (cases rule: closeConversation_cases [of i w])
  case (refused e)
  show ?thesis unfolding refused(2) snd_conv by (rule assms)
next
  case (already snap)
  show ?thesis unfolding already(3) snd_conv by (rule assms)
next
  case (closed snap)
  show ?thesis unfolding closed(4) snd_conv by (rule close_commit_ok [OF assms closed(3)])
qed

lemma reopenConversation_missing [guard_simps]:
  "w_convs w cid = None \<Longrightarrow> reopenConversation cid w = (Inl ConversationNotFound, w)"
  by (simp add: reopenConversation_def reopen_check_def)

lemma reopenConversation_open [guard_simps]:
  "w_convs w cid = Some c \<Longrightarrow> cv_status c \<noteq> RESOLVED \<Longrightarrow> reopenConversation cid w = (Inr (Some c, False), w)"
  by (simp add: reopenConversation_def reopen_check_def)

lemma reopenConversation_resolved:
  assumes "w_convs w cid = Some c" and "cv_status c = RESOLVED"
  obtains snap where "reopen_check cid w = Inr snap" "rs_conversation snap = c"
    "rs_eligible snap = assignee_still_eligible c w"
    "reopenConversation cid w = (Inr (fst (reopen_commit cid snap w)), snd (reopen_commit cid snap w))"
  using assms by (simp add: reopenConversation_def reopen_check_def case_prod_beta)

lemma reopen_commit_effect:
  assumes "w_convs w cid = Some c"
  shows "w_convs (snd (reopen_commit cid snap w)) =
      (w_convs w)(cid \<mapsto> reopened_conversation (w_now w) (rs_autoClose snap) (rs_eligible snap) c)"
    and "w_closures (snd (reopen_commit cid snap w)) = w_closures w"
    and "w_now (snd (reopen_commit cid snap w)) = w_now w"
    and "w_events (snd (reopen_commit cid snap w)) = w_events w @
      [AuditReopened cid (cv_assignedToId (rs_conversation snap)) (\<not> rs_eligible snap),
       WebhookReopened cid (w_now w)]"
    and "fst (reopen_commit cid snap w) =
      (Some (reopened_conversation (w_now w) (rs_autoClose snap) (rs_eligible snap) c), True)"
  using assms by (simp_all add: reopen_commit_def Let_def)

lemma reopenConversation_ok:
  assumes "lifecycle_ok w"
  shows "lifecycle_ok (snd (reopenConversation cid w))"
proof (cases "w_convs w cid")
  case None
  with assms show ?thesis by (simp add: guard_simps)
next
  case (Some c)
  show ?thesis
  proof (cases "cv_status c = RESOLVED")
    case True
    with Some obtain snap where e: "reopenConversation cid w
      = (Inr (fst (reopen_commit cid snap w)), snd (reopen_commit cid snap w))"
      by (rule reopenConversation_resolved)
    show ?thesis unfolding e snd_conv
      by (rule lifecycle_ok_upd [OF assms conv_ok_reopened])
        (rule reopen_commit_effect [OF Some])+
  next
    case False
    with Some assms show ?thesis by (simp add: guard_simps)
  qed
qed

lemma mark_outbound_ok:
  assumes "lifecycle_ok w"
  shows "lifecycle_ok (snd (mark_successful_human_outbound cid t w))"
proof -
  have "conv_ok (w_now w) c \<Longrightarrow> cv_status c \<noteq> RESOLVED \<Longrightarrow> cv_autoCloseEligible c \<Longrightarrow>
      conv_ok (w_now w) (c\<lparr>cv_lastHumanOutboundAt := Some t, cv_autoCloseAt := Some d\<rparr>)" for c d
    by (simp add: conv_ok_def)
  moreover have "w_convs w cid = Some c \<Longrightarrow> conv_ok (w_now w) c" for c
    using assms by (simp add: lifecycle_ok_def)
  ultimately show ?thesis
    using assms by (simp add: mark_successful_human_outbound_def Let_def lifecycle_ok_def frame_simps
        split: option.split)
qed

lemma cancel_auto_close_ok: "lifecycle_ok w \<Longrightarrow> lifecycle_ok (cancel_auto_close cid w)"
  by (auto simp: cancel_auto_close_def lifecycle_ok_def conv_ok_def split: option.splits)

lemma reschedule_ok:
  assumes "lifecycle_ok w"
  shows "lifecycle_ok (snd (reschedule_auto_close cid t w))"
proof -
  have "conv_ok (w_now w) c \<Longrightarrow> cv_status c \<noteq> RESOLVED \<Longrightarrow> cv_autoCloseEligible c \<Longrightarrow>
      cv_lastHumanOutboundAt c \<noteq> None \<Longrightarrow> conv_ok (w_now w) (c\<lparr>cv_autoCloseAt := Some d\<rparr>)" for c d
    by (simp add: conv_ok_def)
  moreover have "w_convs w cid = Some c \<Longrightarrow> conv_ok (w_now w) c" for c
    using assms by (simp add: lifecycle_ok_def)
  ultimately have "w_convs w cid = Some c \<Longrightarrow> cv_status c \<noteq> RESOLVED \<Longrightarrow> cv_autoCloseEligible c \<Longrightarrow>
      cv_lastHumanOutboundAt c \<noteq> None \<Longrightarrow>
      lifecycle_ok (schedule_auto_close cid d (w\<lparr>w_convs := (w_convs w)(cid \<mapsto> c\<lparr>cv_autoCloseAt := Some d\<rparr>)\<rparr>))"
    for c d
    using assms by (simp add: lifecycle_ok_def frame_simps)
  with cancel_auto_close_ok [OF assms] show ?thesis
    by (simp add: reschedule_auto_close_def Let_def split: option.split)
qed

lemma process_job_world:
  "snd (process_auto_close_job j w) =
     (if j_organizationId j \<noteq> [] \<and> (\<exists>t. j_expectedAt j = Some t \<and> auto_close_due t (j_conversationId j) w)
      then snd (closeConversation (auto_close_input (j_conversationId j)) w) else w)"
  by (simp add: process_auto_close_job_def case_prod_beta split: option.split sum.split prod.split)

lemma process_job_ok: "lifecycle_ok w \<Longrightarrow> lifecycle_ok (snd (process_auto_close_job j w))"
  unfolding process_job_world by (simp add: closeConversation_ok)

lemma elapse_ok: "lifecycle_ok w \<Longrightarrow> lifecycle_ok (w\<lparr>w_now := w_now w + int n\<rparr>)"
  by (fastforce simp: lifecycle_ok_def conv_ok_def closure_ok_def list_all_iff)

lemmas lifecycle_ok_intros =
  closeConversation_ok reopenConversation_ok mark_outbound_ok cancel_auto_close_ok reschedule_ok
  process_job_ok elapse_ok

interpretation lifecycle: safe_system lifecycle_step lifecycle_ok
  by unfold_locales
    (simp add: lifecycle_step_def lifecycle_ok_intros split: lifecycle_op.splits)

text \<open>along every history of closes, reopens, human replies, snoozes, timer jobs and passing time, a
  conversation carries a resolution time exactly while it is RESOLVED, a resolved one has no auto-close
  deadline and no snooze, a deadline exists only on an eligible conversation a human has answered, and
  every closure spans an interval that ends no later than now.\<close>
theorem lifecycle_rows_stay_well_formed:
  assumes "lifecycle_ok w"
  shows "lifecycle_ok (fold lifecycle_step history w)"
  using assms by (rule lifecycle.run_inv)

definition sample_conversation :: conversation where
  "sample_conversation =
     \<lparr>cv_status = OPEN, cv_resolvedAt = None, cv_openedAt = 100, cv_firstResponseAt = None,
      cv_autoCloseEligible = True, cv_autoCloseAt = None, cv_lastHumanOutboundAt = None,
      cv_snoozedUntil = None, cv_snoozedByName = None, cv_assignedToId = Some (lit ''u1''),
      cv_teamId = Some (lit ''t1''), cv_contactId = lit ''p1'', cv_sessionId = lit ''s1''\<rparr>"

definition sample_world :: cworld where
  "sample_world =
     \<lparr>w_now = 1000, w_convs = [lit ''c1'' \<mapsto> sample_conversation],
      w_config = Some \<lparr>oc_manualClosingNotesEnabled = True,
        oc_manualClosingNoteMode = CATEGORY_AND_SUMMARY_REQUIRED, oc_autoCloseEnabled = True,
        oc_autoCloseDurationMinutes = 30\<rparr>,
      w_categories = [lit ''k1'' \<mapsto> lit ''Billing''],
      w_users = [lit ''u1'' \<mapsto> \<lparr>u_isActive = True, u_isAway = False, u_teams = [lit ''t1'']\<rparr>],
      w_contacts = [lit ''p1'' \<mapsto> \<lparr>ct_phone = lit ''972'', ct_name = None, ct_firstName = None,
        ct_consent = OPTED_IN, ct_lifecycleStage = None, ct_blockedAt = None\<rparr>],
      w_sessions = [\<lparr>ss_id = lit ''s1'', ss_sessionName = lit ''main'', ss_teamId = None, ss_isActive = True\<rparr>],
      w_auto_replies = [], w_channel = (\<lambda>_ _ _. Inr (lit ''wa1'')), w_closures = [], w_sent = [],
      w_messages = [], w_events = [], w_jobs = []\<rparr>"

definition sample_close :: close_input where
  "sample_close =
     \<lparr>ci_conversationId = lit ''c1'', ci_source = MANUAL, ci_categoryId = Some (lit ''k1''),
      ci_summary = Some (lit ''done''), ci_actorId = Some (lit ''u1''), ci_actorName = None,
      ci_enforceManualPolicy = False, ci_sendClosingReply = True\<rparr>"

lemma sample_world_ok: "lifecycle_ok sample_world"
  by (simp add: lifecycle_ok_def sample_world_def conv_ok_def sample_conversation_def)

theorem lifecycle_rows_stay_well_formed_witness:
  "lifecycle_ok (fold lifecycle_step
     [HumanOutbound (lit ''c1'') 1000, Close sample_close, Elapse 5, Reopen (lit ''c1'')] sample_world)"
  by (rule lifecycle_rows_stay_well_formed) (rule sample_world_ok)

section \<open>Concurrent requests\<close>

text \<open>
  Any number of close and reopen requests, each between its reads and its write. A begun request holds
  what it read; its write runs against whatever the row is by then.
\<close>

datatype pending = PClose close_input close_snapshot | PReopen jstr reopen_snapshot

inductive race_step :: "'a cworld_scheme \<times> pending list \<Rightarrow> 'a cworld_scheme \<times> pending list \<Rightarrow> bool" where
  begin_close: "close_check i w = Inr snap \<Longrightarrow> cv_status (sn_conversation snap) \<noteq> RESOLVED \<Longrightarrow>
     race_step (w, ps) (w, PClose i snap # ps)"
| commit_close: "ps = xs @ PClose i snap # ys \<Longrightarrow>
     race_step (w, ps) (snd (close_commit i snap w), xs @ ys)"
| begin_reopen: "reopen_check cid w = Inr rsnap \<Longrightarrow> cv_status (rs_conversation rsnap) = RESOLVED \<Longrightarrow>
     race_step (w, ps) (w, PReopen cid rsnap # ps)"
| commit_reopen: "ps = xs @ PReopen cid rsnap # ys \<Longrightarrow>
     race_step (w, ps) (snd (reopen_commit cid rsnap w), xs @ ys)"
| elapse: "race_step (w, ps) (w\<lparr>w_now := w_now w + int n\<rparr>, ps)"

inductive raced :: "'a cworld_scheme \<times> pending list \<Rightarrow> 'a cworld_scheme \<times> pending list \<Rightarrow> bool" where
  raced_refl: "raced s s"
| raced_step: "raced s t \<Longrightarrow> race_step t u \<Longrightarrow> raced s u"

definition closures_of :: "jstr \<Rightarrow> 'a cworld_scheme \<Rightarrow> nat" where
  "closures_of cid w = length (filter (\<lambda>cl. cl_conversationId cl = cid) (w_closures w))"

definition is_reopen_event :: "jstr \<Rightarrow> lifecycle_event \<Rightarrow> bool" where
  "is_reopen_event cid e = (case e of WebhookReopened c _ \<Rightarrow> c = cid | _ \<Rightarrow> False)"

definition reopens_of :: "jstr \<Rightarrow> 'a cworld_scheme \<Rightarrow> nat" where
  "reopens_of cid w = length (filter (is_reopen_event cid) (w_events w))"

definition is_resolved :: "jstr \<Rightarrow> 'a cworld_scheme \<Rightarrow> bool" where
  "is_resolved cid w = (case w_convs w cid of None \<Rightarrow> False | Some c \<Rightarrow> cv_status c = RESOLVED)"

definition episodes_ok :: "jstr \<Rightarrow> 'a cworld_scheme \<Rightarrow> bool" where
  "episodes_ok cid w \<longleftrightarrow> closures_of cid w \<le> reopens_of cid w + (if is_resolved cid w then 1 else 0)"

lemma episodes_close_commit:
  assumes "episodes_ok cid w"
  shows "episodes_ok cid (snd (close_commit i snap w))"
proof (cases "w_convs w (ci_conversationId i)")
  case None
  with assms show ?thesis by (simp add: close_commit_missing)
next
  case (Some c)
  show ?thesis
  proof (cases "cv_status c = RESOLVED")
    case True
    with Some assms show ?thesis by (simp add: close_commit_noop)
  next
    case False
    with Some assms show ?thesis
      by (auto simp: episodes_ok_def closures_of_def reopens_of_def is_resolved_def is_reopen_event_def
          close_commit_effect [OF Some False] closure_of_def resolved_conversation_def)
  qed
qed

lemma episodes_reopen_commit:
  assumes "episodes_ok cid w"
  shows "episodes_ok cid (snd (reopen_commit cid' rsnap w))"
proof (cases "w_convs w cid'")
  case None
  with assms show ?thesis by (simp add: reopen_commit_def)
next
  case (Some c)
  with assms show ?thesis
    by (auto simp: episodes_ok_def closures_of_def reopens_of_def is_resolved_def is_reopen_event_def
        reopen_commit_effect [OF Some] reopened_conversation_def split: if_splits)
qed

lemma episodes_race_step: "race_step s t \<Longrightarrow> episodes_ok cid (fst s) \<Longrightarrow> episodes_ok cid (fst t)"
proof (induction rule: race_step.induct)
  case (elapse w ps n)
  then show ?case
    by (simp add: episodes_ok_def closures_of_def reopens_of_def is_resolved_def)
qed (simp_all add: episodes_close_commit episodes_reopen_commit)

text \<open>C1: however close and reopen requests for a conversation interleave between their reads and their
  writes, it is never given more closures than the times it was opened: one per reopening, and one
  more only while it stands resolved. Two agents who resolve the same thread at the same moment leave
  one closure, not two.\<close>
theorem one_closure_per_episode:
  assumes "raced (w, []) (w', ps)" and "episodes_ok cid w"
  shows "closures_of cid w' \<le> reopens_of cid w' + (if is_resolved cid w' then 1 else 0)"
proof -
  have "episodes_ok cid (fst t)" if "raced s t" and "episodes_ok cid (fst s)" for s t
    using that by (induction rule: raced.induct) (auto intro: episodes_race_step)
  from this [OF assms(1)] assms(2) show ?thesis by (simp add: episodes_ok_def)
qed

lemma sample_close_check:
  "close_check sample_close sample_world = Inr \<lparr>sn_conversation = sample_conversation,
     sn_categoryId = Some (lit ''k1''), sn_categoryName = Some (lit ''Billing''), sn_summary = Some (lit ''done'')\<rparr>"
  by (simp add: close_check_def sample_close_def sample_world_def normalize_summary_def trim_or_null_def
      js_trim_def is_ws_def js_simps assert_manual_closing_policy_def)

text \<open>Both requests read the open row, then both write.\<close>
theorem one_closure_per_episode_witness:
  "\<exists>w' ps. raced (sample_world, []) (w', ps) \<and> closures_of (lit ''c1'') w' = 1 \<and>
     closures_of (lit ''c1'') w' \<le> reopens_of (lit ''c1'') w' + (if is_resolved (lit ''c1'') w' then 1 else 0)"
proof -
  let ?snap = "\<lparr>sn_conversation = sample_conversation, sn_categoryId = Some (lit ''k1''),
    sn_categoryName = Some (lit ''Billing''), sn_summary = Some (lit ''done'')\<rparr>"
  let ?p = "PClose sample_close ?snap"
  let ?w1 = "snd (close_commit sample_close ?snap sample_world)"
  let ?w2 = "snd (close_commit sample_close ?snap ?w1)"
  have open_now: "cv_status (sn_conversation ?snap) \<noteq> RESOLVED"
    by (simp add: sample_conversation_def)
  have c: "w_convs sample_world (ci_conversationId sample_close) = Some sample_conversation"
    by (simp add: sample_world_def sample_close_def)
  have w2: "?w2 = ?w1"
    using close_commit_effect(1) [OF c, of ?snap] open_now
    by (subst close_commit_noop) (auto simp: resolved_conversation_def)
  have "raced (sample_world, []) (sample_world, [?p])"
    by (rule raced_step [OF raced_refl begin_close [OF sample_close_check open_now]])
  then have "raced (sample_world, []) (sample_world, [?p, ?p])"
    by (rule raced_step) (rule begin_close [OF sample_close_check open_now])
  then have "raced (sample_world, []) (?w1, [?p])"
    by (rule raced_step) (rule commit_close [where xs = "[]" and ys = "[?p]", simplified], simp)
  then have r: "raced (sample_world, []) (?w2, [])"
    by (rule raced_step) (rule commit_close [where xs = "[]" and ys = "[]", simplified], simp)
  have "closures_of (lit ''c1'') ?w2 = 1"
    unfolding w2 using close_commit_effect(2) [OF c, of ?snap] open_now
    by (simp add: closures_of_def closure_of_def sample_world_def sample_close_def)
  moreover have "episodes_ok (lit ''c1'') sample_world"
    by (simp add: episodes_ok_def closures_of_def sample_world_def)
  ultimately show ?thesis using r one_closure_per_episode [OF r] by blast
qed

section \<open>What a close records\<close>

lemma close_check_success:
  assumes "close_check i w = Inr snap"
  shows "sn_categoryId snap = trim_or_null (ci_categoryId i)"
    and "sn_categoryName snap = Option.bind (sn_categoryId snap) (w_categories w)"
    and "sn_categoryId snap \<noteq> None \<Longrightarrow> sn_categoryName snap \<noteq> None"
    and "normalize_summary (ci_summary i) = Inr (sn_summary snap)"
  using assms
  by (auto simp: close_check_def Let_def split: sum.splits option.splits if_splits)

lemma close_check_policy:
  assumes "close_check i w = Inr snap" and "ci_enforceManualPolicy i \<or> ci_source i = MANUAL"
    and "w_config w = Some k"
  shows "assert_manual_closing_policy (oc_manualClosingNotesEnabled k) (oc_manualClosingNoteMode k)
    (sn_categoryId snap) (sn_summary snap) = None"
  using assms by (auto simp: close_check_def Let_def split: sum.splits option.splits if_splits)

lemma normalize_summary_bound:
  "normalize_summary v = Inr (Some s) \<Longrightarrow> s \<noteq> [] \<and> length s \<le> 2000"
  by (auto simp: normalize_summary_def Let_def split: if_splits option.splits)

lemma closeConversation_changed:
  assumes "fst (closeConversation i w) = Inr (r, Some cl, True)"
  obtains snap where "close_check i w = Inr snap" "cl = closure_of i snap (w_now w)"
    "w_closures (snd (closeConversation i w)) = w_closures w @ [cl]"
    "is_resolved (ci_conversationId i) (snd (closeConversation i w))"
proof (cases rule: closeConversation_cases [of i w])
  case (closed snap)
  from assms have "cl = closure_of i snap (w_now w)"
    unfolding closed(4) close_commit_effect(5) [OF closed(3,2)] by simp
  with closed(1) show ?thesis
    by (intro that [of snap])
      (simp_all add: closed(4) close_commit_effect [OF closed(3,2)] is_resolved_def resolved_conversation_def)
qed (use assms in simp_all)

text \<open>when an organization requires a category and a summary, no agent can resolve a conversation
  without them. A manual close that goes through appends a closure whose category exists in the
  organization's list under the name stored with it, and whose summary is not blank and at most 2,000
  characters long.\<close>
theorem manual_close_carries_its_notes:
  assumes "fst (closeConversation i w) = Inr (r, Some cl, True)" and "ci_source i = MANUAL"
    and "w_config w = Some k" and "oc_manualClosingNotesEnabled k"
    and "oc_manualClosingNoteMode k = CATEGORY_AND_SUMMARY_REQUIRED"
  shows "cl \<in> set (w_closures (snd (closeConversation i w))) \<and>
    (\<exists>cat name remark. cl_categoryId cl = Some cat \<and> cl_categoryName cl = Some name
       \<and> w_categories w cat = Some name \<and> cl_summary cl = Some remark \<and> remark \<noteq> [] \<and> length remark \<le> 2000)"
proof -
  from assms(1) obtain snap where check: "close_check i w = Inr snap"
    and cl: "cl = closure_of i snap (w_now w)"
    and added: "w_closures (snd (closeConversation i w)) = w_closures w @ [cl]"
    by (rule closeConversation_changed)
  have "assert_manual_closing_policy True CATEGORY_AND_SUMMARY_REQUIRED (sn_categoryId snap) (sn_summary snap) = None"
    using close_check_policy [OF check _ assms(3)] assms(2,4,5) by simp
  then obtain cat remark where "sn_categoryId snap = Some cat" and remark: "sn_summary snap = Some remark"
    by (auto simp: assert_manual_closing_policy_def split: if_splits)
  moreover from this obtain name where "sn_categoryName snap = Some name" "w_categories w cat = Some name"
    using close_check_success(2,3) [OF check] by auto
  moreover have "remark \<noteq> [] \<and> length remark \<le> 2000"
    using close_check_success(4) [OF check] remark normalize_summary_bound by simp
  ultimately show ?thesis using added cl by (auto simp: closure_of_def)
qed

theorem manual_close_carries_its_notes_witness:
  "\<exists>r cl. fst (closeConversation sample_close sample_world) = Inr (r, Some cl, True) \<and>
     cl \<in> set (w_closures (snd (closeConversation sample_close sample_world))) \<and>
     (\<exists>cat name remark. cl_categoryId cl = Some cat \<and> cl_categoryName cl = Some name
       \<and> w_categories sample_world cat = Some name \<and> cl_summary cl = Some remark \<and> remark \<noteq> [] \<and> length remark \<le> 2000)"
proof -
  have c: "w_convs sample_world (ci_conversationId sample_close) = Some sample_conversation"
    by (simp add: sample_world_def sample_close_def)
  have o: "cv_status sample_conversation \<noteq> RESOLVED" by (simp add: sample_conversation_def)
  obtain r cl where r: "fst (closeConversation sample_close sample_world) = Inr (r, Some cl, True)"
    using close_commit_effect(5) [OF c o] o by (simp add: closeConversation_open [OF sample_close_check])
  have "cl \<in> set (w_closures (snd (closeConversation sample_close sample_world))) \<and>
     (\<exists>cat name remark. cl_categoryId cl = Some cat \<and> cl_categoryName cl = Some name
       \<and> w_categories sample_world cat = Some name \<and> cl_summary cl = Some remark \<and> remark \<noteq> [] \<and> length remark \<le> 2000)"
    by (rule manual_close_carries_its_notes [OF r, of "the (w_config sample_world)"])
      (simp_all add: sample_close_def sample_world_def)
  with r show ?thesis by blast
qed

section \<open>Timers\<close>

lemma auto_close_check:
  "w_convs w cid = Some c \<Longrightarrow> close_check (auto_close_input cid) w =
     Inr \<lparr>sn_conversation = c, sn_categoryId = None, sn_categoryName = None, sn_summary = None\<rparr>"
  by (simp add: close_check_def auto_close_input_def normalize_summary_def trim_or_null_def)

lemma auto_close_due_conv:
  "auto_close_due t cid w \<Longrightarrow> \<exists>c. w_convs w cid = Some c \<and> cv_status c \<noteq> RESOLVED"
  by (auto simp: auto_close_due_def split: option.splits)

lemma process_job_due:
  assumes "auto_close_due t (j_conversationId job) w" and "j_expectedAt job = Some t" and "j_organizationId job \<noteq> []"
  shows "fst (process_auto_close_job job w) = Inr True"
    and "is_resolved (j_conversationId job) (snd (process_auto_close_job job w))"
    and "w_sent (snd (process_auto_close_job job w)) = w_sent w"
proof -
  let ?i = "auto_close_input (j_conversationId job)"
  obtain c where c: "w_convs w (ci_conversationId ?i) = Some c" and o: "cv_status c \<noteq> RESOLVED"
    using auto_close_due_conv [OF assms(1)] by (auto simp: auto_close_input_def)
  let ?snap = "\<lparr>sn_conversation = c, sn_categoryId = None, sn_categoryName = None, sn_summary = None\<rparr>"
  have "close_check ?i w = Inr ?snap"
    using c by (intro auto_close_check) (simp add: auto_close_input_def)
  then have e: "closeConversation ?i w = (Inr (fst (close_commit ?i ?snap w)), snd (close_commit ?i ?snap w))"
    using o by (intro closeConversation_open) simp_all
  have s: "w_sent (snd (close_commit ?i ?snap w)) = w_sent w"
    using c o by (simp add: close_commit_def Let_def auto_close_input_def)
  show "fst (process_auto_close_job job w) = Inr True"
    "is_resolved (j_conversationId job) (snd (process_auto_close_job job w))"
    "w_sent (snd (process_auto_close_job job w)) = w_sent w"
    using assms s by (simp_all add: process_auto_close_job_def e close_commit_effect [OF c o]
        is_resolved_def resolved_conversation_def, simp_all add: auto_close_input_def)
qed


definition sample_job :: auto_close_job where
  "sample_job = \<lparr>j_organizationId = lit ''o1'', j_conversationId = lit ''c1'', j_expectedAt = Some 5\<rparr>"


lemma mark_outbound_deadline:
  "fst (mark_successful_human_outbound cid t w) = Some d \<Longrightarrow>
     \<exists>c. w_convs (snd (mark_successful_human_outbound cid t w)) cid = Some c \<and> cv_autoCloseAt c = Some d"
  by (auto simp: mark_successful_human_outbound_def Let_def frame_simps split: option.splits if_splits)

text \<open>a later reply disarms the earlier timer. After a human reply has set the deadline \<open>d\<close>, a job
  that was queued for any other deadline of that conversation does nothing, at whatever time it runs.\<close>
theorem later_reply_disarms_earlier_timer:
  assumes "mark_successful_human_outbound cid sentAt w = (Some d, w')"
    and "j_conversationId job = cid" and "j_organizationId job \<noteq> []" and "j_expectedAt job \<noteq> Some d"
  shows "process_auto_close_job job (w'\<lparr>w_now := t\<rparr>) = (Inr False, w'\<lparr>w_now := t\<rparr>)"
proof -
  obtain c where c: "w_convs w' cid = Some c" "cv_autoCloseAt c = Some d"
    using mark_outbound_deadline [of cid sentAt w d] assms(1) by auto
  then have "\<not> auto_close_due e cid (w'\<lparr>w_now := t\<rparr>)" if "j_expectedAt job = Some e" for e
    using that assms(4) by (auto simp: auto_close_due_def split: option.splits)
  with assms(2,3) show ?thesis by (auto simp: process_auto_close_job_def split: option.split)
qed

theorem later_reply_disarms_earlier_timer_witness:
  "process_auto_close_job sample_job
     ((snd (mark_successful_human_outbound (lit ''c1'') 1000 sample_world))\<lparr>w_now := 9000000\<rparr>)
   = (Inr False, (snd (mark_successful_human_outbound (lit ''c1'') 1000 sample_world))\<lparr>w_now := 9000000\<rparr>)"
  by (rule later_reply_disarms_earlier_timer [where d = 1801000 and cid = "lit ''c1''" and sentAt = 1000 and w = sample_world])
    (simp_all add: mark_successful_human_outbound_def sample_world_def sample_conversation_def
      schedule_auto_close_def deadline_after_def sample_job_def)

end
