(* ===== verification/Assignment.thy ===== *)
theory Assignment
  imports Conversation_Props
begin

text \<open>
  Automatic assignment: \<open>modules/routing/assignment.service.ts\<close>. The state is the conversation world
  extended with what the router reads: the ids of the organization's conversations and users, the
  teams, and the time of each conversation's last message. Like a close, an assignment is split into
  what it reads (\<open>pick_agent\<close>) and its conditional write (\<open>claim\<close>).
\<close>

section \<open>The router\<close>

datatype assignment_strategy = NONE | ROUND_ROBIN | LEAST_OPEN

record team_row =
  tm_assignmentStrategy :: assignment_strategy
  tm_maxConcurrentPerAgent :: "nat option"

record aworld = cworld +
  a_conv_ids :: "jstr list"
  a_user_ids :: "jstr list"
  a_teams :: "jstr \<Rightarrow> team_row option"
  a_lastMessageAt :: "jstr \<Rightarrow> int option"
  a_assigned :: "(jstr \<times> jstr \<times> assignment_strategy) list"

definition OPEN_STATES :: "conversation_status list" where
  "OPEN_STATES = [OPEN, PENDING_CONV, AWAITING_CLIENT]"

record candidate =
  cd_userId :: jstr
  cd_openCount :: nat

text \<open>The rows of \<open>userTeam\<close> for a team whose user is active and not away.\<close>

definition team_members :: "jstr \<Rightarrow> 'a aworld_scheme \<Rightarrow> jstr list" where
  "team_members teamId w =
     filter (\<lambda>uid. case w_users w uid of None \<Rightarrow> False
        | Some u \<Rightarrow> teamId \<in> set (u_teams u) \<and> u_isActive u \<and> \<not> u_isAway u) (a_user_ids w)"

definition assigned_to :: "jstr \<Rightarrow> 'a aworld_scheme \<Rightarrow> jstr \<Rightarrow> bool" where
  "assigned_to uid w cid = (case w_convs w cid of None \<Rightarrow> False | Some c \<Rightarrow> cv_assignedToId c = Some uid)"

definition counts_open :: "jstr \<Rightarrow> 'a aworld_scheme \<Rightarrow> jstr \<Rightarrow> bool" where
  "counts_open uid w cid = (case w_convs w cid of None \<Rightarrow> False
     | Some c \<Rightarrow> cv_assignedToId c = Some uid \<and> cv_status c \<in> set OPEN_STATES)"

definition open_count :: "jstr \<Rightarrow> 'a aworld_scheme \<Rightarrow> nat" where
  "open_count uid w = length (filter (counts_open uid w) (a_conv_ids w))"

definition eligible_agents :: "jstr \<Rightarrow> nat option \<Rightarrow> 'a aworld_scheme \<Rightarrow> candidate list" where
  "eligible_agents teamId maxConcurrent w =
     filter (\<lambda>c. case maxConcurrent of None \<Rightarrow> True | Some m \<Rightarrow> cd_openCount c < m)
       (map (\<lambda>uid. \<lparr>cd_userId = uid, cd_openCount = open_count uid w\<rparr>) (team_members teamId w))"

text \<open>The latest message of the conversations a user holds; 0 when there is none.\<close>

definition last_assigned :: "jstr \<Rightarrow> 'a aworld_scheme \<Rightarrow> int" where
  "last_assigned uid w =
     (let ts = List.map_filter (a_lastMessageAt w) (filter (assigned_to uid w) (a_conv_ids w))
      in case ts of [] \<Rightarrow> 0 | t # ts' \<Rightarrow> fold max ts' t)"

definition pick_round_robin :: "candidate list \<Rightarrow> 'a aworld_scheme \<Rightarrow> jstr option" where
  "pick_round_robin candidates w =
     (if candidates = [] then None
      else Some (hd (sort_key (\<lambda>uid. last_assigned uid w) (map cd_userId candidates))))"

definition pick_least_open :: "candidate list \<Rightarrow> jstr option" where
  "pick_least_open candidates =
     (if candidates = [] then None else Some (cd_userId (hd (sort_key cd_openCount candidates))))"

definition pick_agent :: "jstr \<Rightarrow> 'a aworld_scheme \<Rightarrow> (jstr \<times> assignment_strategy) option" where
  "pick_agent cid w =
     (case w_convs w cid of
        None \<Rightarrow> None
      | Some c \<Rightarrow>
          if truthy_ref (cv_assignedToId c) then None
          else if cv_status c = RESOLVED then None
          else if \<not> truthy_ref (cv_teamId c) then None
          else
            let teamId = the (cv_teamId c);
                strategy = (case a_teams w teamId of None \<Rightarrow> NONE | Some t \<Rightarrow> tm_assignmentStrategy t);
                cap = (case a_teams w teamId of None \<Rightarrow> None | Some t \<Rightarrow> tm_maxConcurrentPerAgent t)
            in if strategy = NONE then None
               else
                 let candidates = eligible_agents teamId cap w
                 in if candidates = [] then None
                    else case (if strategy = LEAST_OPEN then pick_least_open candidates
                               else pick_round_robin candidates w) of
                           None \<Rightarrow> None
                         | Some uid \<Rightarrow> if uid = [] then None else Some (uid, strategy))"

definition claim :: "jstr \<Rightarrow> jstr \<times> assignment_strategy \<Rightarrow> 'a aworld_scheme \<Rightarrow> jstr option \<times> 'a aworld_scheme" where
  "claim cid pick w =
     (case w_convs w cid of
        None \<Rightarrow> (None, w)
      | Some c \<Rightarrow>
          if cv_assignedToId c \<noteq> None then (None, w)
          else (Some (fst pick),
                w\<lparr>w_convs := (w_convs w)(cid \<mapsto> c\<lparr>cv_assignedToId := Some (fst pick)\<rparr>),
                  a_assigned := a_assigned w @ [(cid, pick)]\<rparr>))"

definition autoAssignConversation :: "jstr \<Rightarrow> 'a aworld_scheme \<Rightarrow> jstr option \<times> 'a aworld_scheme" where
  "autoAssignConversation cid w =
     (case pick_agent cid w of None \<Rightarrow> (None, w) | Some pick \<Rightarrow> claim cid pick w)"

section \<open>The contract of a strategy\<close>

text \<open>
  Both strategies choose the first of the candidates that is least in some measure. The lemmas about the
  choice are proved once, for any such function.
\<close>

locale least_pick =
  fixes measure_of :: "candidate \<Rightarrow> 'k :: linorder"
    and pick :: "candidate list \<Rightarrow> jstr option"
  assumes pick_none: "pick [] = None"
    and pick_hd: "cs \<noteq> [] \<Longrightarrow> pick cs = Some (cd_userId (hd (sort_key measure_of cs)))"
begin

lemma pick_some: "cs \<noteq> [] \<Longrightarrow> \<exists>c \<in> set cs. pick cs = Some (cd_userId c) \<and> (\<forall>d \<in> set cs. measure_of c \<le> measure_of d)"
proof -
  assume ne: "cs \<noteq> []"
  then have s: "sort_key measure_of cs \<noteq> []" by (metis length_0_conv length_sort)
  then obtain c rest where l: "sort_key measure_of cs = c # rest" by (cases "sort_key measure_of cs") auto
  have mem: "set (c # rest) = set cs" by (metis l set_sort)
  have "sorted (map measure_of (c # rest))" by (metis l sorted_sort_key)
  with mem have "\<forall>d \<in> set cs. measure_of c \<le> measure_of d" by auto
  with mem ne l show ?thesis by (intro bexI [of _ c]) (auto simp: pick_hd)
qed

lemma pick_is_none: "pick cs = None \<longleftrightarrow> cs = []"
  using pick_some pick_none by fastforce

end

lemma map_insort_key: "map f (insort_key (\<lambda>x. g (f x)) a xs) = insort_key g (f a) (map f xs)"
  by (induction xs) simp_all

lemma map_sort_key: "map f (sort_key (\<lambda>x. g (f x)) xs) = sort_key g (map f xs)"
  by (induction xs) (simp_all add: map_insort_key)

interpretation least: least_pick cd_openCount pick_least_open
  by unfold_locales (simp_all add: pick_least_open_def)

interpretation robin: least_pick "\<lambda>c. last_assigned (cd_userId c) w" "\<lambda>cs. pick_round_robin cs w" for w
proof unfold_locales
  fix cs :: "candidate list"
  assume ne: "cs \<noteq> []"
  let ?m = "\<lambda>uid. last_assigned uid w"
  have s: "sort_key (\<lambda>c. ?m (cd_userId c)) cs \<noteq> []" using ne by (metis length_0_conv length_sort)
  have "hd (sort_key ?m (map cd_userId cs)) = cd_userId (hd (sort_key (\<lambda>c. ?m (cd_userId c)) cs))"
    by (simp add: map_sort_key [of cd_userId ?m, symmetric] hd_map s)
  with ne show "pick_round_robin cs w = Some (cd_userId (hd (sort_key (\<lambda>c. ?m (cd_userId c)) cs)))"
    by (simp add: pick_round_robin_def)
qed (simp add: pick_round_robin_def)

section \<open>Properties\<close>

definition within_cap :: "nat option \<Rightarrow> nat \<Rightarrow> bool" where
  "within_cap cap n \<longleftrightarrow> (case cap of None \<Rightarrow> True | Some m \<Rightarrow> n < m)"

definition available :: "jstr \<Rightarrow> jstr \<Rightarrow> 'a aworld_scheme \<Rightarrow> bool" where
  "available teamId uid w \<longleftrightarrow> uid \<in> set (a_user_ids w) \<and>
     (\<exists>u. w_users w uid = Some u \<and> teamId \<in> set (u_teams u) \<and> u_isActive u \<and> \<not> u_isAway u)"

lemma eligible_agents_iff:
  "c \<in> set (eligible_agents teamId cap w) \<longleftrightarrow>
     available teamId (cd_userId c) w \<and> cd_openCount c = open_count (cd_userId c) w \<and> within_cap cap (cd_openCount c)"
  by (cases c)
    (auto simp: eligible_agents_def team_members_def available_def within_cap_def split: option.splits)

definition pick_least :: "assignment_strategy \<Rightarrow> jstr \<Rightarrow> jstr \<Rightarrow> 'a aworld_scheme \<Rightarrow> bool" where
  "pick_least strategy uid other w \<longleftrightarrow>
     (if strategy = LEAST_OPEN then open_count uid w \<le> open_count other w
      else last_assigned uid w \<le> last_assigned other w)"

lemma pick_agent_Some:
  assumes "pick_agent cid w = Some (uid, strategy)"
  obtains c teamId t where "w_convs w cid = Some c" "\<not> truthy_ref (cv_assignedToId c)" "cv_status c \<noteq> RESOLVED"
    "cv_teamId c = Some teamId" "a_teams w teamId = Some t" "tm_assignmentStrategy t = strategy" "strategy \<noteq> NONE"
    "available teamId uid w" "within_cap (tm_maxConcurrentPerAgent t) (open_count uid w)"
    "\<And>other. available teamId other w \<Longrightarrow> within_cap (tm_maxConcurrentPerAgent t) (open_count other w) \<Longrightarrow>
       pick_least strategy uid other w"
proof -
  from assms obtain c where c: "w_convs w cid = Some c" "\<not> truthy_ref (cv_assignedToId c)" "cv_status c \<noteq> RESOLVED"
    and team: "truthy_ref (cv_teamId c)"
    by (auto simp: pick_agent_def split: option.splits if_splits)
  from team obtain teamId where tid: "cv_teamId c = Some teamId" by (cases "cv_teamId c") auto
  from assms c team tid obtain t where t: "a_teams w teamId = Some t" "tm_assignmentStrategy t = strategy" "strategy \<noteq> NONE"
    by (auto simp: pick_agent_def Let_def split: option.splits if_splits)
  let ?cs = "eligible_agents teamId (tm_maxConcurrentPerAgent t) w"
  have ne: "?cs \<noteq> []"
    and pick: "(if strategy = LEAST_OPEN then pick_least_open ?cs else pick_round_robin ?cs w) = Some uid"
    using assms c team tid t by (auto simp: pick_agent_def Let_def split: option.splits if_splits)
  have "\<exists>d \<in> set ?cs. uid = cd_userId d \<and> (\<forall>e \<in> set ?cs. pick_least strategy uid (cd_userId e) w)"
  proof (cases "strategy = LEAST_OPEN")
    case True
    with pick least.pick_some [OF ne] show ?thesis
      by (auto simp: pick_least_def eligible_agents_iff)
  next
    case False
    with pick robin.pick_some [OF ne, of w] show ?thesis by (auto simp: pick_least_def)
  qed
  then obtain d where d: "d \<in> set ?cs" "uid = cd_userId d"
    and least: "\<forall>e \<in> set ?cs. pick_least strategy uid (cd_userId e) w" by blast
  have "pick_least strategy uid other w"
    if "available teamId other w" "within_cap (tm_maxConcurrentPerAgent t) (open_count other w)" for other
    using least that eligible_agents_iff [of "\<lparr>cd_userId = other, cd_openCount = open_count other w\<rparr>"]
    by fastforce
  with c tid t d show ?thesis by (intro that [of c teamId t]) (auto simp: eligible_agents_iff)
qed

text \<open>C37: who gets the thread. When the router assigns a conversation, the conversation was open, on a
  team with a strategy and held by nobody; the agent chosen is active, not away, on that team and below
  its cap, and no other such agent is better placed: none holds fewer open conversations under
  LEAST_OPEN, none has waited longer under ROUND_ROBIN. The conversation is then theirs.\<close>
theorem assignment_goes_to_best_placed_agent:
  assumes "autoAssignConversation cid w = (Some uid, w')"
  shows "\<exists>c teamId t. w_convs w cid = Some c \<and> cv_assignedToId c = None \<and> cv_status c \<noteq> RESOLVED
    \<and> cv_teamId c = Some teamId \<and> a_teams w teamId = Some t \<and> available teamId uid w
    \<and> within_cap (tm_maxConcurrentPerAgent t) (open_count uid w)
    \<and> {other. available teamId other w \<and> within_cap (tm_maxConcurrentPerAgent t) (open_count other w)
          \<and> \<not> pick_least (tm_assignmentStrategy t) uid other w} = {}
    \<and> w_convs w' = (w_convs w)(cid \<mapsto> c\<lparr>cv_assignedToId := Some uid\<rparr>)"
proof -
  from assms obtain pick where pick: "pick_agent cid w = Some pick" and cl: "claim cid pick w = (Some uid, w')"
    by (auto simp: autoAssignConversation_def split: option.splits)
  from cl obtain c0 where c0: "w_convs w cid = Some c0" "cv_assignedToId c0 = None" "uid = fst pick"
    "w_convs w' = (w_convs w)(cid \<mapsto> c0\<lparr>cv_assignedToId := Some uid\<rparr>)"
    by (auto simp: claim_def split: option.splits if_splits)
  from pick c0(3) have "pick_agent cid w = Some (uid, snd pick)" by simp
  then show ?thesis
    by (rule pick_agent_Some) (use c0 in auto)
qed

definition sample_aworld :: aworld where
  "sample_aworld = cworld.extend
     (sample_world\<lparr>w_convs := [lit ''c1'' \<mapsto> sample_conversation\<lparr>cv_assignedToId := None\<rparr>]\<rparr>)
     \<lparr>a_conv_ids = [lit ''c1''], a_user_ids = [lit ''u1''],
      a_teams = [lit ''t1'' \<mapsto> \<lparr>tm_assignmentStrategy = LEAST_OPEN, tm_maxConcurrentPerAgent = Some 1\<rparr>],
      a_lastMessageAt = Map.empty, a_assigned = []\<rparr>"

lemmas sample_aworld_simps = sample_aworld_def sample_world_def sample_conversation_def cworld.extend_def

lemma sample_assignment:
  "autoAssignConversation (lit ''c1'') sample_aworld = (Some (lit ''u1''),
     snd (autoAssignConversation (lit ''c1'') sample_aworld))"
  by (simp add: autoAssignConversation_def pick_agent_def claim_def Let_def eligible_agents_def team_members_def
      pick_least_open_def open_count_def counts_open_def sample_aworld_simps)

theorem assignment_goes_to_best_placed_agent_witness:
  "\<exists>c teamId t. w_convs sample_aworld (lit ''c1'') = Some c \<and> cv_assignedToId c = None \<and> cv_status c \<noteq> RESOLVED
    \<and> cv_teamId c = Some teamId \<and> a_teams sample_aworld teamId = Some t \<and> available teamId (lit ''u1'') sample_aworld
    \<and> within_cap (tm_maxConcurrentPerAgent t) (open_count (lit ''u1'') sample_aworld)
    \<and> {other. available teamId other sample_aworld
          \<and> within_cap (tm_maxConcurrentPerAgent t) (open_count other sample_aworld)
          \<and> \<not> pick_least (tm_assignmentStrategy t) (lit ''u1'') other sample_aworld} = {}
    \<and> w_convs (snd (autoAssignConversation (lit ''c1'') sample_aworld)) =
        (w_convs sample_aworld)(lit ''c1'' \<mapsto> c\<lparr>cv_assignedToId := Some (lit ''u1'')\<rparr>)"
  by (rule assignment_goes_to_best_placed_agent [OF sample_assignment])

text \<open>When it assigns nobody it writes nothing.\<close>

lemma autoAssign_None: "fst (autoAssignConversation cid w) = None \<Longrightarrow> snd (autoAssignConversation cid w) = w"
  by (auto simp: autoAssignConversation_def claim_def split: option.splits if_splits)

lemma pick_agent_None:
  assumes "w_convs w cid = Some c" and "cv_assignedToId c = None" and "cv_status c \<noteq> RESOLVED"
    and "cv_teamId c = Some teamId" and "teamId \<noteq> []" and "a_teams w teamId = Some t"
    and "tm_assignmentStrategy t \<noteq> NONE" and "[] \<notin> set (a_user_ids w)"
  shows "pick_agent cid w = None \<longleftrightarrow> eligible_agents teamId (tm_maxConcurrentPerAgent t) w = []"
proof -
  let ?cs = "eligible_agents teamId (tm_maxConcurrentPerAgent t) w"
  have "cd_userId d \<noteq> []" if "d \<in> set ?cs" for d
    using that assms(8) by (auto simp: eligible_agents_iff available_def)
  then show ?thesis
    using assms least.pick_some [of ?cs] robin.pick_some [of ?cs w]
    by (auto simp: pick_agent_def Let_def)
qed

text \<open>routing never drops a thread silently. A conversation that is open, on a team with a strategy
  and held by nobody stays in the queue, and then unchanged, exactly when the team has no agent who is
  active, present and below the cap.\<close>
theorem unassigned_only_when_nobody_can_take_it:
  assumes "w_convs w cid = Some c" and "cv_assignedToId c = None" and "cv_status c \<noteq> RESOLVED"
    and "cv_teamId c = Some teamId" and "teamId \<noteq> []" and "a_teams w teamId = Some t"
    and "tm_assignmentStrategy t \<noteq> NONE" and "[] \<notin> set (a_user_ids w)"
  shows "autoAssignConversation cid w = (None, w) \<longleftrightarrow>
    {uid. available teamId uid w \<and> within_cap (tm_maxConcurrentPerAgent t) (open_count uid w)} = {}"
proof -
  let ?cs = "eligible_agents teamId (tm_maxConcurrentPerAgent t) w"
  let ?A = "{uid. available teamId uid w \<and> within_cap (tm_maxConcurrentPerAgent t) (open_count uid w)}"
  have "?cs = [] \<longleftrightarrow> ?A = {}"
  proof
    assume "?cs = []"
    then show "?A = {}"
      using eligible_agents_iff [of "\<lparr>cd_userId = uid, cd_openCount = open_count uid w\<rparr>" teamId
          "tm_maxConcurrentPerAgent t" w for uid] by auto
  next
    assume a: "?A = {}"
    have "d \<notin> set ?cs" for d using a by (auto simp: eligible_agents_iff)
    then show "?cs = []" by (metis list.set_intros(1) neq_Nil_conv)
  qed
  moreover have "autoAssignConversation cid w = (None, w) \<longleftrightarrow> pick_agent cid w = None"
    using assms(1,2) by (auto simp: autoAssignConversation_def claim_def split: option.split)
  ultimately show ?thesis using pick_agent_None [OF assms] by simp
qed

theorem unassigned_only_when_nobody_can_take_it_witness:
  "autoAssignConversation (lit ''c1'') sample_aworld = (None, sample_aworld) \<longleftrightarrow>
    {uid. available (lit ''t1'') uid sample_aworld \<and> within_cap (Some 1) (open_count uid sample_aworld)} = {}"
  using unassigned_only_when_nobody_can_take_it [of sample_aworld "lit ''c1''"
      "sample_conversation\<lparr>cv_assignedToId := None\<rparr>" "lit ''t1''"
      "\<lparr>tm_assignmentStrategy = LEAST_OPEN, tm_maxConcurrentPerAgent = Some 1\<rparr>"]
  by (simp add: sample_aworld_simps)

text \<open>two workers that picked agents for the same conversation do not fight over it: once one claim
  has gone through, every later claim on that conversation, for whichever agent, is a no-op.\<close>
theorem second_claim_is_noop:
  assumes "claim cid pick w = (Some uid, w')"
  shows "claim cid pick2 w' = (None, w')"
  using assms by (auto simp: claim_def split: option.splits if_splits)

theorem second_claim_is_noop_witness:
  "claim (lit ''c1'') (lit ''u2'', ROUND_ROBIN) (snd (claim (lit ''c1'') (lit ''u1'', LEAST_OPEN) sample_aworld))
     = (None, snd (claim (lit ''c1'') (lit ''u1'', LEAST_OPEN) sample_aworld))"
  by (rule second_claim_is_noop [where pick = "(lit ''u1'', LEAST_OPEN)" and uid = "lit ''u1''" and w = sample_aworld])
    (simp add: claim_def sample_aworld_simps)

lemma open_count_claim:
  assumes "claim cid (uid, strategy) w = (Some uid, w')" and "distinct (a_conv_ids w)"
  shows "open_count uid w' \<le> Suc (open_count uid w)"
proof -
  have ids: "a_conv_ids w' = a_conv_ids w"
    and other: "\<And>x. x \<noteq> cid \<Longrightarrow> counts_open uid w' x = counts_open uid w x"
    using assms(1) by (auto simp: claim_def counts_open_def split: option.splits if_splits)
  have "set (filter (counts_open uid w') (a_conv_ids w)) \<subseteq> insert cid (set (filter (counts_open uid w) (a_conv_ids w)))"
    using other by auto
  then have "card (set (filter (counts_open uid w') (a_conv_ids w)))
      \<le> card (insert cid (set (filter (counts_open uid w) (a_conv_ids w))))"
    by (rule card_mono [rotated]) simp
  also have "\<dots> \<le> Suc (card (set (filter (counts_open uid w) (a_conv_ids w))))"
    by (simp add: card_insert_if)
  finally have "card (set (filter (counts_open uid w') (a_conv_ids w)))
      \<le> Suc (card (set (filter (counts_open uid w) (a_conv_ids w))))" .
  moreover have "length (filter P (a_conv_ids w)) = card (set (filter P (a_conv_ids w)))" for P
    using assms(2) by (metis distinct_card distinct_filter)
  ultimately show ?thesis unfolding open_count_def ids by presburger
qed

text \<open>the cap holds. When the router assigns a conversation of a team with a cap, the agent it chose
  holds no more open conversations afterwards than the cap allows.\<close>
theorem assignment_respects_the_cap:
  assumes "autoAssignConversation cid w = (Some uid, w')" and "distinct (a_conv_ids w)"
    and "w_convs w cid = Some c" and "cv_teamId c = Some teamId" and "a_teams w teamId = Some t"
    and "tm_maxConcurrentPerAgent t = Some m"
  shows "open_count uid w' \<le> m"
proof -
  from assms(1) obtain pick where pick: "pick_agent cid w = Some pick" and cl: "claim cid pick w = (Some uid, w')"
    by (auto simp: autoAssignConversation_def split: option.splits)
  from cl have "pick = (uid, snd pick)" by (auto simp: claim_def split: option.splits if_splits)
  with pick cl have pick': "pick_agent cid w = Some (uid, snd pick)" and cl': "claim cid (uid, snd pick) w = (Some uid, w')"
    by simp_all
  from pick' have "within_cap (Some m) (open_count uid w)"
    by (rule pick_agent_Some) (use assms(3-6) in auto)
  with open_count_claim [OF cl' assms(2)] show ?thesis by (simp add: within_cap_def)
qed

theorem assignment_respects_the_cap_witness:
  "open_count (lit ''u1'') (snd (autoAssignConversation (lit ''c1'') sample_aworld)) \<le> 1"
  by (rule assignment_respects_the_cap [OF sample_assignment, where c = "sample_conversation\<lparr>cv_assignedToId := None\<rparr>"
        and teamId = "lit ''t1''" and t = "\<lparr>tm_assignmentStrategy = LEAST_OPEN, tm_maxConcurrentPerAgent = Some 1\<rparr>"])
    (simp_all add: sample_aworld_simps)

text \<open>reopening looks at less than the router does. A conversation whose last agent is at the team's cap
  stays with that agent when it is reopened, although the agent is not among the router's candidates.\<close>
theorem reopening_ignores_the_cap:
  assumes "w_convs w cid = Some c" and "cv_status c = RESOLVED" and "cv_assignedToId c = Some uid"
    and "cv_teamId c = Some teamId" and "available teamId uid w" and "a_teams w teamId = Some t"
    and "\<not> within_cap (tm_maxConcurrentPerAgent t) (open_count uid w)"
  shows "uid \<notin> cd_userId ` set (eligible_agents teamId (tm_maxConcurrentPerAgent t) w) \<and>
    (\<exists>c'. w_convs (snd (reopenConversation cid w)) cid = Some c' \<and> cv_status c' = OPEN \<and> cv_assignedToId c' = Some uid)"
proof
  show "uid \<notin> cd_userId ` set (eligible_agents teamId (tm_maxConcurrentPerAgent t) w)"
    using assms(7) by (auto simp: eligible_agents_iff)
  have "assignee_still_eligible c w"
    using assms by (auto simp: assignee_still_eligible_def available_def split: option.splits)
  with assms show "\<exists>c'. w_convs (snd (reopenConversation cid w)) cid = Some c' \<and> cv_status c' = OPEN \<and> cv_assignedToId c' = Some uid"
    by (simp add: reopenConversation_def reopen_check_def reopen_commit_def Let_def reopened_conversation_def)
qed

text \<open>The agent \<open>u1\<close> holds the open conversation \<open>c2\<close>, which is all its team allows; \<open>c1\<close> is resolved.\<close>

definition capped_world :: aworld where
  "capped_world = sample_aworld\<lparr>
     w_convs := [lit ''c1'' \<mapsto> sample_conversation\<lparr>cv_status := RESOLVED, cv_resolvedAt := Some 1, cv_autoCloseAt := None\<rparr>,
                 lit ''c2'' \<mapsto> sample_conversation],
     a_conv_ids := [lit ''c1'', lit ''c2'']\<rparr>"

theorem reopening_ignores_the_cap_witness:
  "lit ''u1'' \<notin> cd_userId ` set (eligible_agents (lit ''t1'') (Some 1) capped_world) \<and>
    (\<exists>c'. w_convs (snd (reopenConversation (lit ''c1'') capped_world)) (lit ''c1'') = Some c' \<and> cv_status c' = OPEN
       \<and> cv_assignedToId c' = Some (lit ''u1''))"
  using reopening_ignores_the_cap [of capped_world "lit ''c1''"
      "sample_conversation\<lparr>cv_status := RESOLVED, cv_resolvedAt := Some 1, cv_autoCloseAt := None\<rparr>" "lit ''u1''" "lit ''t1''"
      "\<lparr>tm_assignmentStrategy = LEAST_OPEN, tm_maxConcurrentPerAgent = Some 1\<rparr>"]
  by (simp add: capped_world_def sample_aworld_simps available_def within_cap_def open_count_def counts_open_def OPEN_STATES_def)

end
