(* ===== verification/Outbound_Url.thy ===== *)
theory Outbound_Url
  imports Prelude
begin

text \<open>
  The guard on addresses a customer chose: \<open>modules/workflows/outbound-url.ts\<close>.

  The URL parser and serializer of the runtime and the resolver are parameters, collected in the record
  \<open>url_env\<close> with the environment flag the code reads. \<open>net.isIP\<close> is modelled: the dotted quad exactly, and the
  textual IPv6 forms with one \<open>::\<close>, an embedded quad and a zone. A thrown \<open>BlockedUrlError\<close> is the left
  side of a sum; its constructors are the messages.
\<close>

section \<open>Addresses as text\<close>

text \<open>One decimal part of a quad, without a leading zero.\<close>

definition v4_part :: "jstr \<Rightarrow> bool" where
  "v4_part s \<longleftrightarrow> s \<noteq> [] \<and> list_all is_digit s \<and> length s \<le> 3 \<and> digits_value s \<le> 255 \<and> (length s > 1 \<longrightarrow> hd s \<noteq> 48)"

definition is_ipv4 :: "jstr \<Rightarrow> bool" where
  "is_ipv4 s \<longleftrightarrow> length (split_on 46 s) = 4 \<and> list_all v4_part (split_on 46 s)"

definition is_hex :: "nat \<Rightarrow> bool" where
  "is_hex c \<longleftrightarrow> is_digit c \<or> (97 \<le> c \<and> c \<le> 102) \<or> (65 \<le> c \<and> c \<le> 70)"

definition v6_group :: "jstr \<Rightarrow> bool" where
  "v6_group s \<longleftrightarrow> s \<noteq> [] \<and> length s \<le> 4 \<and> list_all is_hex s"

text \<open>How many of the eight groups a list of parts stands for; an embedded quad, which may only come last, is two.\<close>

definition v6_groups :: "bool \<Rightarrow> jstr list \<Rightarrow> nat option" where
  "v6_groups quad_allowed ps =
     (if ps = [[]] then Some 0
      else if list_all v6_group ps then Some (length ps)
      else if quad_allowed \<and> list_all v6_group (butlast ps) \<and> is_ipv4 (last ps) then Some (length ps + 1)
      else None)"

text \<open>Where \<open>::\<close> first stands.\<close>

fun split_double_colon :: "jstr \<Rightarrow> (jstr \<times> jstr) option" where
  "split_double_colon (c # d # s) =
     (if c = 58 \<and> d = 58 then Some ([], s)
      else map_option (\<lambda>(a, b). (c # a, b)) (split_double_colon (d # s)))"
| "split_double_colon _ = None"

definition is_ipv6 :: "jstr \<Rightarrow> bool" where
  "is_ipv6 raw \<longleftrightarrow>
     (let s = takeWhile (\<lambda>c. c \<noteq> 37) raw; zone = dropWhile (\<lambda>c. c \<noteq> 37) raw in
      (length zone \<noteq> 1) \<and>
      (case split_double_colon s of
         None \<Rightarrow> s \<noteq> [] \<and> v6_groups True (split_on 58 s) = Some 8
       | Some (a, b) \<Rightarrow>
           (case (v6_groups False (split_on 58 a), v6_groups True (split_on 58 b)) of
              (Some m, Some n) \<Rightarrow> m + n \<le> 7
            | _ \<Rightarrow> False)))"

definition net_isIP :: "jstr \<Rightarrow> nat" where
  "net_isIP s = (if is_ipv4 s then 4 else if is_ipv6 s then 6 else 0)"

section \<open>Private ranges\<close>

definition octet_of :: "jnum \<Rightarrow> nat option" where
  "octet_of n = (case n of Fin r \<Rightarrow> if is_integer r \<and> 0 \<le> r \<and> r \<le> 255 then Some (nat \<lfloor>r\<rfloor>) else None | _ \<Rightarrow> None)"

definition isPrivateV4 :: "jstr \<Rightarrow> bool" where
  "isPrivateV4 ip =
     (let parts = map (\<lambda>p. octet_of (js_number_of_string p)) (split_on 46 ip) in
      if length parts \<noteq> 4 \<or> list_ex (\<lambda>p. p = None) parts then True
      else
        let a = the (parts ! 0); b = the (parts ! 1) in
        if a = 10 then True
        else if a = 127 then True
        else if a = 0 then True
        else if a = 172 \<and> 16 \<le> b \<and> b \<le> 31 then True
        else if a = 192 \<and> b = 168 then True
        else if a = 169 \<and> b = 254 then True
        else if a = 100 \<and> 64 \<le> b \<and> b \<le> 127 then True
        else if 224 \<le> a then True
        else False)"

text \<open>The quad of \<open>/^::ffff:(\d+\.\d+\.\d+\.\d+)$/\<close>.\<close>

definition mapped_v4 :: "jstr \<Rightarrow> jstr option" where
  "mapped_v4 v =
     (let rest = drop 7 v; ps = split_on 46 rest in
      if starts_with (lit ''::ffff:'') v \<and> length ps = 4 \<and> list_all (\<lambda>p. p \<noteq> [] \<and> list_all is_digit p) ps
      then Some rest else None)"

definition isPrivateV6 :: "jstr \<Rightarrow> bool" where
  "isPrivateV6 ip =
     (let v = js_lower ip in
      if v = lit ''::1'' \<or> v = lit ''::'' then True
      else if starts_with (lit ''fe80'') v then True
      else if starts_with (lit ''fc'') v \<or> starts_with (lit ''fd'') v then True
      else case mapped_v4 v of Some q \<Rightarrow> isPrivateV4 q | None \<Rightarrow> False)"

definition isPrivateAddress :: "jstr \<Rightarrow> bool" where
  "isPrivateAddress ip =
     (if net_isIP ip = 4 then isPrivateV4 ip else if net_isIP ip = 6 then isPrivateV6 ip else True)"

section \<open>The URL\<close>

record parsed_url =
  pu_protocol :: jstr
  pu_username :: jstr
  pu_password :: jstr
  pu_hostname :: jstr
  pu_port :: jstr
  pu_host :: jstr

record url_env =
  ue_parse :: "jstr \<Rightarrow> parsed_url option"
  ue_set_hostname :: "jstr \<Rightarrow> parsed_url \<Rightarrow> parsed_url"
  ue_href :: "parsed_url \<Rightarrow> jstr"
  ue_lookup :: "jstr \<Rightarrow> jstr list option"
  ue_allowHttp :: bool

datatype blocked_url =
    NotAUrl
  | NotHttps
  | HasCredentials
  | NoHost
  | HostNotAllowed jstr
  | NotFullyQualified
  | PortNotAllowed rat
  | NotResolved jstr
  | ResolvedToNothing jstr
  | ResolvesPrivate jstr

definition BLOCKED_HOSTNAMES :: "jstr list" where
  "BLOCKED_HOSTNAMES =
     [lit ''localhost'', lit ''postgres'', lit ''redis'', lit ''openwa'', lit ''waha'', lit ''backend'',
      lit ''backend.local'', lit ''frontend'', lit ''metadata'', lit ''metadata.google.internal'']"

definition BLOCKED_PORTS :: "rat list" where
  "BLOCKED_PORTS = [22, 25, 445, 3000, 3306, 4000, 5432, 6379, 2785, 27017, 9200]"

definition url_hostname :: "parsed_url \<Rightarrow> jstr" where
  "url_hostname u =
     (let h = js_lower (pu_hostname u) in if h \<noteq> [] \<and> last h = 46 then butlast h else h)"

definition url_port :: "parsed_url \<Rightarrow> jnum" where
  "url_port u =
     (if pu_port u \<noteq> [] then js_number_of_string (pu_port u)
      else Fin (if pu_protocol u = lit ''https:'' then 443 else 80))"

definition parseWebhookUrl :: "url_env \<Rightarrow> jstr \<Rightarrow> blocked_url + (parsed_url \<times> jstr)" where
  "parseWebhookUrl env raw =
     (case ue_parse env (js_trim raw) of
        None \<Rightarrow> Inl NotAUrl
      | Some parsed \<Rightarrow>
          if pu_protocol parsed \<noteq> lit ''https:'' \<and> \<not> (ue_allowHttp env \<and> pu_protocol parsed = lit ''http:'')
          then Inl NotHttps
          else if pu_username parsed \<noteq> [] \<or> pu_password parsed \<noteq> [] then Inl HasCredentials
          else
            let hostname = url_hostname parsed in
            if hostname = [] then Inl NoHost
            else if hostname \<in> set BLOCKED_HOSTNAMES then Inl (HostNotAllowed hostname)
            else if 46 \<notin> set hostname \<and> net_isIP hostname = 0 then Inl NotFullyQualified
            else case url_port parsed of
                   Fin p \<Rightarrow> if p \<in> set BLOCKED_PORTS then Inl (PortNotAllowed p) else Inr (parsed, hostname)
                 | _ \<Rightarrow> Inr (parsed, hostname))"

definition checkWebhookUrlShape :: "url_env \<Rightarrow> jstr \<Rightarrow> blocked_url option" where
  "checkWebhookUrlShape env raw = (case parseWebhookUrl env raw of Inl e \<Rightarrow> Some e | Inr _ \<Rightarrow> None)"

record safe_target =
  st_url :: jstr
  st_hostHeader :: jstr
  st_address :: jstr

definition resolve_addresses :: "url_env \<Rightarrow> jstr \<Rightarrow> blocked_url + jstr list" where
  "resolve_addresses env hostname =
     (if net_isIP hostname \<noteq> 0 then Inr [hostname]
      else case ue_lookup env hostname of None \<Rightarrow> Inl (NotResolved hostname) | Some as \<Rightarrow> Inr as)"

definition assertSafeWebhookUrl :: "url_env \<Rightarrow> jstr \<Rightarrow> blocked_url + safe_target" where
  "assertSafeWebhookUrl env raw =
     (case parseWebhookUrl env raw of
        Inl e \<Rightarrow> Inl e
      | Inr (parsed, hostname) \<Rightarrow>
          (case resolve_addresses env hostname of
             Inl e \<Rightarrow> Inl e
           | Inr addresses \<Rightarrow>
               if addresses = [] then Inl (ResolvedToNothing hostname)
               else if list_ex isPrivateAddress addresses then Inl (ResolvesPrivate hostname)
               else
                 let target = ue_set_hostname env (hd addresses) parsed
                 in Inr \<lparr>st_url = ue_href env target, st_hostHeader = pu_host parsed, st_address = hd addresses\<rparr>))"

section \<open>Properties\<close>

text \<open>The ranges the guard means, as blocks of 32-bit addresses.\<close>

definition quad :: "nat \<Rightarrow> nat \<Rightarrow> nat \<Rightarrow> nat \<Rightarrow> nat" where
  "quad a b c d = ((a * 256 + b) * 256 + c) * 256 + d"

definition dotted :: "nat \<Rightarrow> nat \<Rightarrow> nat \<Rightarrow> nat \<Rightarrow> jstr" where
  "dotted a b c d = dec_digits a @ 46 # dec_digits b @ 46 # dec_digits c @ 46 # dec_digits d"

definition PRIVATE_BLOCKS :: "(nat \<times> nat) list" where
  "PRIVATE_BLOCKS =
     [(quad 10 0 0 0, 8), (quad 127 0 0 0, 8), (quad 0 0 0 0, 8), (quad 172 16 0 0, 12), (quad 192 168 0 0, 16),
      (quad 169 254 0 0, 16), (quad 100 64 0 0, 10), (quad 224 0 0 0, 3)]"

definition in_block :: "nat \<Rightarrow> nat \<times> nat \<Rightarrow> bool" where
  "in_block address blk \<longleftrightarrow> address div 2 ^ (32 - snd blk) = fst blk div 2 ^ (32 - snd blk)"

lemma split_dotted: "split_on 46 (dotted a b c d) = [dec_digits a, dec_digits b, dec_digits c, dec_digits d]"
  by (simp add: dotted_def split_on_append split_on_solid dec_digits_no_sep)

lemma octet_of_dec_digits: "octet_of (js_number_of_string (dec_digits n)) = (if n \<le> 255 then Some n else None)"
proof -
  have "(of_nat n :: rat) \<le> 255 \<longleftrightarrow> n \<le> 255" by (metis of_nat_le_iff of_nat_numeral)
  then show ?thesis
    by (simp add: js_number_of_digits dec_digits_not_Nil list_all_dec_digits octet_of_def is_integer_def)
qed

lemma quad_div:
  assumes "b < 256" "c < 256" "d < 256"
  shows "quad a b c d div 16777216 = a" "quad a b c d div 65536 = a * 256 + b"
    "quad a b c d div 1048576 = a * 16 + b div 16" "quad a b c d div 4194304 = a * 4 + b div 64"
    "quad a b c d div 536870912 = a div 32"
  using assms unfolding quad_def by simp_all

lemma in_blocks:
  "in_block x (quad 10 0 0 0, 8) \<longleftrightarrow> x div 16777216 = 10" "in_block x (quad 127 0 0 0, 8) \<longleftrightarrow> x div 16777216 = 127"
  "in_block x (quad 0 0 0 0, 8) \<longleftrightarrow> x div 16777216 = 0" "in_block x (quad 172 16 0 0, 12) \<longleftrightarrow> x div 1048576 = 2753"
  "in_block x (quad 192 168 0 0, 16) \<longleftrightarrow> x div 65536 = 49320" "in_block x (quad 169 254 0 0, 16) \<longleftrightarrow> x div 65536 = 43518"
  "in_block x (quad 100 64 0 0, 10) \<longleftrightarrow> x div 4194304 = 401" "in_block x (quad 224 0 0 0, 3) \<longleftrightarrow> x div 536870912 = 7"
  by (simp_all add: in_block_def quad_def)

lemma list_ex_PRIVATE_BLOCKS:
  "list_ex P PRIVATE_BLOCKS \<longleftrightarrow> P (quad 10 0 0 0, 8) \<or> P (quad 127 0 0 0, 8) \<or> P (quad 0 0 0 0, 8)
     \<or> P (quad 172 16 0 0, 12) \<or> P (quad 192 168 0 0, 16) \<or> P (quad 169 254 0 0, 16) \<or> P (quad 100 64 0 0, 10)
     \<or> P (quad 224 0 0 0, 3)"
  by (simp add: PRIVATE_BLOCKS_def)

text \<open>Reading the two digits of a number in base \<open>n\<close>.\<close>

lemma base_digit: "q < n \<Longrightarrow> a * n + q = (v::nat) \<longleftrightarrow> a = v div n \<and> q = v mod n"
  by (metis add.commute add_cancel_right_left div_less div_mult_mod_eq div_mult_self3 mod_less mod_mult_self3 not_less_zero)

lemma isPrivateV4_dotted:
  assumes "a < 256" "b < 256" "c < 256" "d < 256"
  shows "isPrivateV4 (dotted a b c d) \<longleftrightarrow> list_ex (in_block (quad a b c d)) PRIVATE_BLOCKS"
proof -
  have "isPrivateV4 (dotted a b c d) \<longleftrightarrow>
      a = 10 \<or> a = 127 \<or> a = 0 \<or> (a = 172 \<and> 16 \<le> b \<and> b \<le> 31) \<or> (a = 192 \<and> b = 168) \<or> (a = 169 \<and> b = 254)
        \<or> (a = 100 \<and> 64 \<le> b \<and> b \<le> 127) \<or> 224 \<le> a"
    using assms by (simp add: isPrivateV4_def split_dotted octet_of_dec_digits Let_def)
  moreover have "list_ex (in_block (quad a b c d)) PRIVATE_BLOCKS \<longleftrightarrow>
      a = 10 \<or> a = 127 \<or> a = 0 \<or> a * 16 + b div 16 = 2753 \<or> a * 256 + b = 49320 \<or> a * 256 + b = 43518
        \<or> a * 4 + b div 64 = 401 \<or> a div 32 = 7"
    by (simp only: list_ex_PRIVATE_BLOCKS in_blocks quad_div [OF assms(2-4)])
  moreover have "a * 16 + b div 16 = 2753 \<longleftrightarrow> a = 172 \<and> 16 \<le> b \<and> b \<le> 31"
    by (rule base_digit [where q = "b div 16" and n = 16, THEN trans]) (use assms(2) in auto)
  moreover have "a * 256 + b = 49320 \<longleftrightarrow> a = 192 \<and> b = 168" by (rule base_digit [THEN trans]) (use assms(2) in auto)
  moreover have "a * 256 + b = 43518 \<longleftrightarrow> a = 169 \<and> b = 254" by (rule base_digit [THEN trans]) (use assms(2) in auto)
  moreover have "a * 4 + b div 64 = 401 \<longleftrightarrow> a = 100 \<and> 64 \<le> b \<and> b \<le> 127"
    by (rule base_digit [where q = "b div 64" and n = 4, THEN trans]) (use assms(2) in auto)
  moreover have "a div 32 = 7 \<longleftrightarrow> 224 \<le> a" using assms(1) by linarith
  ultimately show ?thesis by simp
qed

text \<open>C38: the quads the guard refuses. Over all 32-bit addresses written as dotted quads, \<open>isPrivateV4\<close> refuses
  exactly the members of the eight blocks 10/8, 127/8, 0/8, 172.16/12, 192.168/16, 169.254/16, 100.64/10 and
  224/3: no private, loopback, link-local, carrier-grade or multicast address passes and no other is refused.\<close>
theorem private_v4_is_exactly_the_blocks:
  fixes a b c d :: "8 word"
  shows "isPrivateV4 (dotted (unat a) (unat b) (unat c) (unat d)) =
    list_ex (in_block (quad (unat a) (unat b) (unat c) (unat d))) PRIVATE_BLOCKS"
  using unsigned_less [of a] unsigned_less [of b] unsigned_less [of c] unsigned_less [of d]
  by (intro isPrivateV4_dotted) simp_all

lemma parseWebhookUrl_InrD:
  assumes "parseWebhookUrl env raw = Inr (parsed, hostname)"
  shows "ue_parse env (js_trim raw) = Some parsed" and "hostname = url_hostname parsed" and "hostname \<notin> set BLOCKED_HOSTNAMES"
    and "pu_protocol parsed = lit ''https:'' \<or> ue_allowHttp env" and "pu_username parsed = [] \<and> pu_password parsed = []"
    and "url_port parsed \<notin> Fin ` set BLOCKED_PORTS" and "46 \<in> set hostname \<or> net_isIP hostname \<noteq> 0"
  using assms by (auto simp: parseWebhookUrl_def Let_def split: option.splits jnum.splits if_splits)

lemma assertSafeWebhookUrl_InrE:
  assumes "assertSafeWebhookUrl env raw = Inr t"
  obtains parsed hostname addresses where "parseWebhookUrl env raw = Inr (parsed, hostname)"
    "resolve_addresses env hostname = Inr addresses" "addresses \<noteq> []" "\<not> list_ex isPrivateAddress addresses"
    "t = \<lparr>st_url = ue_href env (ue_set_hostname env (hd addresses) parsed), st_hostHeader = pu_host parsed,
          st_address = hd addresses\<rparr>"
  using assms by (auto simp: assertSafeWebhookUrl_def Let_def split: sum.splits if_splits)


text \<open>A host that resolves to one public address of each family.\<close>

definition sample_url :: parsed_url where
  "sample_url = \<lparr>pu_protocol = lit ''https:'', pu_username = [], pu_password = [], pu_hostname = lit ''hooks.example.com'',
     pu_port = [], pu_host = lit ''hooks.example.com''\<rparr>"

definition sample_url_env :: url_env where
  "sample_url_env = \<lparr>ue_parse = (\<lambda>_. Some sample_url),
     ue_set_hostname = (\<lambda>h u. if net_isIP h = 6 then u else u\<lparr>pu_hostname := h, pu_host := h\<rparr>),
     ue_href = (\<lambda>u. pu_protocol u @ lit ''//'' @ pu_host u @ lit ''/''),
     ue_lookup = (\<lambda>_. Some [lit ''2606:4700::1111'', lit ''1.1.1.1'']), ue_allowHttp = False\<rparr>"

lemmas address_simps = net_isIP_def is_ipv4_def is_ipv6_def v4_part_def v6_group_def v6_groups_def is_digit_def is_hex_def
  digits_value_def isPrivateAddress_def

lemma sample_net_isIP:
  "net_isIP (lit ''hooks.example.com'') = 0" "net_isIP (lit ''2606:4700::1111'') = 6" "net_isIP (lit ''1.1.1.1'') = 4"
  by (simp_all add: address_simps js_simps)

lemma sample_v6_public: "isPrivateV6 (lit ''2606:4700::1111'') = False"
  by (simp add: isPrivateV6_def js_simps lower_unit_def starts_with_def mapped_v4_def)

lemma sample_v4_public: "isPrivateV4 (lit ''1.1.1.1'') = False"
proof -
  have "lit ''1.1.1.1'' = dotted 1 1 1 1" by (simp add: dotted_def js_simps)
  then show ?thesis by (simp add: isPrivateV4_dotted list_ex_PRIVATE_BLOCKS in_blocks quad_div)
qed

lemma sample_hostname: "url_hostname sample_url = lit ''hooks.example.com''"
  by (simp add: url_hostname_def sample_url_def js_simps lower_unit_def)

lemma sample_parse: "parseWebhookUrl sample_url_env raw = Inr (sample_url, lit ''hooks.example.com'')"
proof -
  have "46 \<in> set (lit ''hooks.example.com'')" by (simp add: js_simps)
  moreover have "lit ''hooks.example.com'' \<notin> set BLOCKED_HOSTNAMES" by (simp add: BLOCKED_HOSTNAMES_def)
  ultimately show ?thesis
    unfolding parseWebhookUrl_def
    by (simp add: sample_url_env_def sample_hostname) (simp add: sample_url_def url_port_def BLOCKED_PORTS_def)
qed

lemma sample_target:
  "assertSafeWebhookUrl sample_url_env (lit ''https://hooks.example.com/'') =
     Inr \<lparr>st_url = lit ''https:'' @ lit ''//'' @ lit ''hooks.example.com'' @ lit ''/'',
          st_hostHeader = lit ''hooks.example.com'', st_address = lit ''2606:4700::1111''\<rparr>"
  unfolding assertSafeWebhookUrl_def
  by (simp add: sample_parse resolve_addresses_def sample_net_isIP)
    (simp add: sample_url_env_def sample_url_def isPrivateAddress_def sample_net_isIP sample_v6_public sample_v4_public)


text \<open>a target that is not pinned. The host setter of a URL leaves the URL as it is when it is given an IPv6
  address without brackets. Under that rule a host whose first address is an IPv6 one gets a target whose URL
  still carries the host's name, so the request resolves the name a second time instead of connecting to the
  address that was checked.\<close>
theorem ipv6_target_keeps_the_host_name:
  assumes setter: "\<And>h u. net_isIP h = 6 \<Longrightarrow> ue_set_hostname env h u = u"
    and "assertSafeWebhookUrl env raw = Inr t" and "net_isIP (st_address t) = 6"
    and "ue_parse env (js_trim raw) = Some parsed"
  shows "st_url t = ue_href env parsed"
  using assms(2)
  by (rule assertSafeWebhookUrl_InrE) (use assms parseWebhookUrl_InrD(1) in fastforce)

theorem ipv6_target_keeps_the_host_name_witness:
  "lit ''https:'' @ lit ''//'' @ lit ''hooks.example.com'' @ lit ''/'' = ue_href sample_url_env sample_url"
  using ipv6_target_keeps_the_host_name [OF _ sample_target]
  by (simp add: sample_net_isIP sample_url_env_def)

end
