(* ===== verification/Workflow_Schema.thy ===== *)
theory Workflow_Schema
  imports Outbound_Url
begin

text \<open>
  The workflow vocabulary and the validator that runs when a workflow is saved:
  \<open>modules/workflows/workflow-schema.ts\<close>.

  A configuration is the JSON the client sent. Each push onto \<open>errors\<close> is an entry of the result, the
  path and a constructor for the message (\<open>render_error\<close> gives the text); the shared \<open>budget\<close> is the
  number of actions visited, returned beside the errors. The two recursive functions of the source are
  mutually recursive on the size of the value.
\<close>

section \<open>Vocabulary\<close>

definition TRIGGER_TYPES :: "jstr list" where
  "TRIGGER_TYPES =
     [lit ''CONVERSATION_CREATED'', lit ''KEYWORD_MATCHED'', lit ''TAG_ADDED'', lit ''TAG_REMOVED'', lit ''OUT_OF_HOURS'',
      lit ''LIFECYCLE_UPDATED'', lit ''CONTACT_FIELD_UPDATED'', lit ''INCOMING_WEBHOOK'', lit ''SHORTCUT'']"

definition CONDITION_TYPES :: "jstr list" where
  "CONDITION_TYPES =
     [lit ''WITHIN_BUSINESS_HOURS'', lit ''CONTACT_HAS_TAG'', lit ''CONTACT_LACKS_TAG'', lit ''CONVERSATION_TEAM_IS'',
      lit ''CONTACT_FIELD_EQUALS'', lit ''CONTACT_LIFECYCLE_IS'']"

definition ACTION_TYPES :: "jstr list" where
  "ACTION_TYPES =
     [lit ''ASSIGN_TEAM'', lit ''ASSIGN_USER'', lit ''SEND_MESSAGE'', lit ''SEND_TEMPLATE'', lit ''ADD_TAG'', lit ''REMOVE_TAG'',
      lit ''UPDATE_CONTACT_FIELD'', lit ''SET_LIFECYCLE_STAGE'', lit ''HTTP_WEBHOOK'', lit ''WAIT_DELAY'', lit ''ASK_QUESTION'',
      lit ''CLOSE_CONVERSATION'', lit ''OPEN_CONVERSATION'', lit ''ADD_COMMENT'', lit ''IF_ELSE'', lit ''JUMP_TO'',
      lit ''TRIGGER_WORKFLOW'']"

definition CANVAS_ONLY_ACTIONS :: "jstr list" where
  "CANVAS_ONLY_ACTIONS = [lit ''JUMP_TO'', lit ''TRIGGER_WORKFLOW'']"

definition HTTP_METHODS :: "jstr list" where
  "HTTP_METHODS = [lit ''GET'', lit ''POST'', lit ''PUT'', lit ''PATCH'', lit ''DELETE'']"

definition ANSWER_KINDS :: "jstr list" where
  "ANSWER_KINDS = [lit ''text'', lit ''email'', lit ''phone'', lit ''number'']"

definition MAX_BRANCH_DEPTH :: nat where "MAX_BRANCH_DEPTH = 3"
definition MAX_ACTIONS :: nat where "MAX_ACTIONS = 100"
definition MAX_RUN_DURATION_MS :: int where "MAX_RUN_DURATION_MS = 7 * 24 * 60 * 60 * 1000"
definition MAX_CONDITIONS :: nat where "MAX_CONDITIONS = 10"
definition MAX_DELAY_MINUTES :: nat where "MAX_DELAY_MINUTES = 60 * 24 * 7"
definition DEFAULT_ANSWER_TIMEOUT_MINUTES :: rat where "DEFAULT_ANSWER_TIMEOUT_MINUTES = 1440"
definition DEFAULT_ANSWER_ATTEMPTS :: rat where "DEFAULT_ANSWER_ATTEMPTS = 2"

text \<open>The actions the builder is offered.\<close>

definition offered_actions :: "jstr list" where
  "offered_actions = filter (\<lambda>a. a \<notin> set CANVAS_ONLY_ACTIONS) ACTION_TYPES"

text \<open>\<open>LIST.includes(x)\<close> for a list of strings and a value of any type.\<close>

definition json_in :: "json \<Rightarrow> jstr list \<Rightarrow> bool" where
  "json_in j names = (case j of JStr s \<Rightarrow> s \<in> set names | _ \<Rightarrow> False)"

definition type_of_json :: "json \<Rightarrow> jstr" where
  "type_of_json j = (case get (lit ''type'') j of JStr t \<Rightarrow> t | _ \<Rightarrow> [])"

section \<open>Answers\<close>

text \<open>\<open>/^\S+@\S+\.\S+$/\<close>: the first at sign that has something before it, then a dot with something on both sides.\<close>

definition email_shape :: "jstr \<Rightarrow> bool" where
  "email_shape v \<longleftrightarrow>
     v \<noteq> [] \<and> list_all (\<lambda>c. \<not> is_ws c) v \<and>
     (case dropWhile (\<lambda>c. c \<noteq> 64) (tl v) of
        [] \<Rightarrow> False
      | _ # after \<Rightarrow> after \<noteq> [] \<and> 46 \<in> set (butlast (tl after)))"

definition phone_answer :: "jstr \<Rightarrow> jstr" where
  "phone_answer s =
     (let ds = filter is_digit s in if starts_with (lit ''00'') ds then drop 2 ds else ds)"

definition ascii_digit :: "nat \<Rightarrow> nat" where
  "ascii_digit c = (if 1632 \<le> c \<and> c \<le> 1641 then c - 1632 + 48 else if 1776 \<le> c \<and> c \<le> 1785 then c - 1776 + 48 else c)"

definition number_answer :: "jstr \<Rightarrow> jstr" where
  "number_answer s = filter (\<lambda>c. c \<noteq> 44 \<and> \<not> is_ws c) (map ascii_digit s)"

text \<open>\<open>/^-?\d+(\.\d+)?$/\<close>\<close>

definition number_shape :: "jstr \<Rightarrow> bool" where
  "number_shape v \<longleftrightarrow>
     (let body = (if v \<noteq> [] \<and> hd v = 45 then tl v else v);
          ip = takeWhile is_digit body; rest = dropWhile is_digit body
      in ip \<noteq> [] \<and> (rest = [] \<or> (hd rest = 46 \<and> tl rest \<noteq> [] \<and> list_all is_digit (tl rest))))"

definition parseAnswer :: "jstr \<Rightarrow> jstr \<Rightarrow> jstr option" where
  "parseAnswer kind raw =
     (let txt = js_trim raw in
      if txt = [] then None
      else if kind = lit ''text'' then Some (take 2000 txt)
      else if kind = lit ''email'' then
        (let v = js_lower txt in if email_shape v then Some v else None)
      else if kind = lit ''phone'' then
        (let ds = phone_answer txt in if 8 \<le> length ds \<and> length ds \<le> 15 then Some ds else None)
      else if kind = lit ''number'' then
        (let v = number_answer txt in if number_shape v then Some v else None)
      else None)"

section \<open>Validation\<close>

datatype verr =
    VRequired string
  | VMustBeList
  | VTooManyConditions
  | VUnsupportedCondition jstr
  | VUnsupportedAction jstr
  | VQuestionInBranch
  | VExpects
  | VAnswerWindow
  | VReask
  | VOnTimeout
  | VUrl blocked_url
  | VMethod jstr
  | VAuthType jstr
  | VCaptureAs
  | VDelayInBranch
  | VDelayWhole
  | VDelayTooLong
  | VBranchConditions
  | VBranchEmpty
  | VTooDeep
  | VCanvasOnly jstr
  | VTrailingDelay
  | VTrigger jstr
  | VNotAnObject
  | VNoActions
  | VTooManyActions

fun render_problem :: "blocked_url \<Rightarrow> jstr" where
  "render_problem NotAUrl = lit ''Webhook URL is not a valid URL''"
| "render_problem NotHttps = lit ''Webhook URL must use https''"
| "render_problem HasCredentials = lit ''Webhook URL must not contain credentials''"
| "render_problem NoHost = lit ''Webhook URL has no host''"
| "render_problem (HostNotAllowed h) = lit ''Webhook URL host '' @ [34] @ h @ [34] @ lit '' is not allowed''"
| "render_problem NotFullyQualified = lit ''Webhook URL must use a fully qualified host''"
| "render_problem (PortNotAllowed p) = lit ''Webhook URL port '' @ num_str p @ lit '' is not allowed''"
| "render_problem (NotResolved h) = lit ''Webhook URL host '' @ [34] @ h @ [34] @ lit '' could not be resolved''"
| "render_problem (ResolvedToNothing h) = lit ''Webhook URL host '' @ [34] @ h @ [34] @ lit '' resolved to nothing''"
| "render_problem (ResolvesPrivate h) =
     lit ''Webhook URL host '' @ [34] @ h @ [34] @ lit '' resolves to a private address and is not allowed''"

fun render_verr :: "verr \<Rightarrow> jstr" where
  "render_verr (VRequired label) = lit label @ lit '' is required''"
| "render_verr VMustBeList = lit ''must be a list''"
| "render_verr VTooManyConditions = lit ''at most '' @ dec_digits MAX_CONDITIONS @ lit '' conditions''"
| "render_verr (VUnsupportedCondition t) = lit ''unsupported condition '' @ [34] @ t @ [34]"
| "render_verr (VUnsupportedAction t) = lit ''unsupported action '' @ [34] @ t @ [34]"
| "render_verr VQuestionInBranch = lit ''a question cannot sit inside a branch''"
| "render_verr VExpects = lit ''expects must be one of '' @ join_with (lit '', '') ANSWER_KINDS"
| "render_verr VAnswerWindow = lit ''the answer window must be between 5 minutes and 7 days''"
| "render_verr VReask = lit ''re-ask at most 3 times''"
| "render_verr VOnTimeout = lit ''onTimeout must be STOP or CONTINUE''"
| "render_verr (VUrl problem) = render_problem problem"
| "render_verr (VMethod m) = lit ''unsupported method '' @ [34] @ m @ [34]"
| "render_verr (VAuthType t) = lit ''unsupported auth type '' @ [34] @ t @ [34]"
| "render_verr VCaptureAs = lit ''captureAs must be a simple name (letters, digits, underscore)''"
| "render_verr VDelayInBranch = lit ''a delay cannot sit inside a branch''"
| "render_verr VDelayWhole = lit ''delay must be a whole number of minutes''"
| "render_verr VDelayTooLong = lit ''delay cannot exceed '' @ dec_digits MAX_DELAY_MINUTES @ lit '' minutes''"
| "render_verr VBranchConditions = lit ''a branch needs at least one condition''"
| "render_verr VBranchEmpty = lit ''a branch needs actions on at least one side''"
| "render_verr VTooDeep = lit ''branches may nest at most '' @ dec_digits MAX_BRANCH_DEPTH @ lit '' deep''"
| "render_verr (VCanvasOnly t) =
     [34] @ t @ [34] @ lit '' needs the workflow canvas and cannot be saved from the form builder yet''"
| "render_verr VTrailingDelay = lit ''cannot end with a delay''"
| "render_verr (VTrigger t) = lit ''unsupported trigger '' @ [34] @ t @ [34]"
| "render_verr VNotAnObject = lit ''workflow configuration is not an object''"
| "render_verr VNoActions = lit ''a workflow needs at least one action''"
| "render_verr VTooManyActions = lit ''at most '' @ dec_digits MAX_ACTIONS @ lit '' actions in total, including branches''"

definition render_error :: "jstr \<times> verr \<Rightarrow> jstr" where
  "render_error e = fst e @ lit '': '' @ render_verr (snd e)"

type_synonym verrors = "(jstr \<times> verr) list"

definition requireText :: "json \<Rightarrow> string \<Rightarrow> jstr \<Rightarrow> verrors" where
  "requireText v label path =
     (case v of JStr s \<Rightarrow> if js_trim s = [] then [(path, VRequired label)] else [] | _ \<Rightarrow> [(path, VRequired label)])"

definition at_index :: "jstr \<Rightarrow> nat \<Rightarrow> jstr" where
  "at_index base i = base @ lit ''['' @ dec_digits i @ lit '']''"

definition validateCondition :: "jstr \<Rightarrow> json \<Rightarrow> verrors" where
  "validateCondition path c =
     (let t = get (lit ''type'') c in
      if \<not> json_in t CONDITION_TYPES then [(path, VUnsupportedCondition (js_string t))]
      else
        (if t \<noteq> JStr (lit ''WITHIN_BUSINESS_HOURS'') then requireText (get (lit ''value'') c) ''a value'' path else [])
        @ (if t = JStr (lit ''CONTACT_FIELD_EQUALS'') then requireText (get (lit ''field'') c) ''a field'' path else []))"

definition validateConditions :: "json \<Rightarrow> jstr \<Rightarrow> verrors" where
  "validateConditions raw base =
     (case (if truthy raw then raw else JArr []) of
        JArr conditions \<Rightarrow>
          (if length conditions > MAX_CONDITIONS then [(base, VTooManyConditions)] else [])
          @ concat (map (\<lambda>(i, c). validateCondition (at_index base i) c) (indexed conditions))
      | _ \<Rightarrow> [(base, VMustBeList)])"

definition validateAsk :: "json \<Rightarrow> jstr \<Rightarrow> nat \<Rightarrow> verrors" where
  "validateAsk a path depth =
     (if depth > 0 then [(path, VQuestionInBranch)] else [])
     @ requireText (get (lit ''prompt'') a) ''a question to send'' path
     @ requireText (get (lit ''field'') a) ''a field to store the answer in'' path
     @ (if json_in (get (lit ''expects'') a) ANSWER_KINDS then [] else [(path, VExpects)])
     @ (let j = get (lit ''timeoutMinutes'') a in
        case (if j = JUndef then Fin DEFAULT_ANSWER_TIMEOUT_MINUTES else js_number j) of
          Fin timeout \<Rightarrow> if timeout < 5 \<or> timeout > 10080 then [(path, VAnswerWindow)] else []
        | _ \<Rightarrow> [(path, VAnswerWindow)])
     @ (let j = get (lit ''maxAttempts'') a in
        case (if j = JUndef then Fin DEFAULT_ANSWER_ATTEMPTS else js_number j) of
          Fin attempts \<Rightarrow> if \<not> is_integer attempts \<or> attempts < 1 \<or> attempts > 3 then [(path, VReask)] else []
        | _ \<Rightarrow> [(path, VReask)])
     @ (let j = get (lit ''onTimeout'') a in
        if j \<noteq> JUndef \<and> js_string j \<notin> {lit ''STOP'', lit ''CONTINUE''} then [(path, VOnTimeout)] else [])"

text \<open>\<open>/^[A-Za-z][A-Za-z0-9_]{0,39}$/\<close>\<close>

definition is_letter :: "nat \<Rightarrow> bool" where
  "is_letter c \<longleftrightarrow> (65 \<le> c \<and> c \<le> 90) \<or> (97 \<le> c \<and> c \<le> 122)"

definition is_word :: "nat \<Rightarrow> bool" where
  "is_word c \<longleftrightarrow> is_letter c \<or> is_digit c \<or> c = 95"

definition capture_name :: "jstr \<Rightarrow> bool" where
  "capture_name s \<longleftrightarrow> s \<noteq> [] \<and> is_letter (hd s) \<and> list_all is_word (tl s) \<and> length s \<le> 40"

definition validateWebhook :: "url_env \<Rightarrow> json \<Rightarrow> jstr \<Rightarrow> verrors" where
  "validateWebhook env a path =
     requireText (get (lit ''url'') a) ''a URL'' path
     @ (case get (lit ''url'') a of
          JStr u \<Rightarrow> if js_trim u = [] then [] else
            (case checkWebhookUrlShape env u of None \<Rightarrow> [] | Some problem \<Rightarrow> [(path, VUrl problem)])
        | _ \<Rightarrow> [])
     @ (let m = get (lit ''method'') a in
        if m \<noteq> JUndef \<and> \<not> json_in m HTTP_METHODS then [(path, VMethod (js_string m))] else [])
     @ (let auth = get (lit ''auth'') a; p = path @ lit ''.auth'' in
        if truthy auth then
          let kind = js_string_or_empty (get (lit ''type'') auth) in
          if kind = lit ''bearer'' then requireText (get (lit ''token'') auth) ''a bearer token'' p
          else if kind = lit ''basic'' then
            requireText (get (lit ''username'') auth) ''a username'' p
            @ requireText (get (lit ''password'') auth) ''a password'' p
          else [(p, VAuthType kind)]
        else [])
     @ (case get (lit ''captureAs'') a of
          JUndef \<Rightarrow> []
        | JStr s \<Rightarrow> if capture_name s then [] else [(path, VCaptureAs)]
        | _ \<Rightarrow> [(path, VCaptureAs)])"

definition validateDelay :: "json \<Rightarrow> jstr \<Rightarrow> nat \<Rightarrow> verrors" where
  "validateDelay a path depth =
     (if depth > 0 then [(path, VDelayInBranch)] else [])
     @ (case js_number (get (lit ''minutes'') a) of
          Fin minutes \<Rightarrow>
            if \<not> is_integer minutes \<or> minutes \<le> 0 then [(path, VDelayWhole)]
            else if minutes > of_nat MAX_DELAY_MINUTES then [(path, VDelayTooLong)] else []
        | _ \<Rightarrow> [(path, VDelayWhole)])"

text \<open>Every case of the switch but \<open>IF_ELSE\<close>.\<close>

definition validateLeaf :: "url_env \<Rightarrow> json \<Rightarrow> jstr \<Rightarrow> nat \<Rightarrow> verrors" where
  "validateLeaf env a path depth =
     (let t = type_of_json a in
      if t = lit ''ASSIGN_TEAM'' then requireText (get (lit ''teamId'') a) ''a team'' path
      else if t = lit ''ASSIGN_USER'' then requireText (get (lit ''userId'') a) ''a user'' path
      else if t = lit ''SEND_MESSAGE'' then requireText (get (lit ''body'') a) ''message text'' path
      else if t = lit ''SEND_TEMPLATE'' then requireText (get (lit ''templateId'') a) ''a template'' path
      else if t = lit ''ADD_TAG'' \<or> t = lit ''REMOVE_TAG'' then requireText (get (lit ''tag'') a) ''a tag name'' path
      else if t = lit ''UPDATE_CONTACT_FIELD'' then requireText (get (lit ''field'') a) ''a field'' path
      else if t = lit ''SET_LIFECYCLE_STAGE'' then requireText (get (lit ''stageId'') a) ''a lifecycle stage'' path
      else if t = lit ''ASK_QUESTION'' then validateAsk a path depth
      else if t = lit ''HTTP_WEBHOOK'' then validateWebhook env a path
      else if t = lit ''WAIT_DELAY'' then validateDelay a path depth
      else if t = lit ''ADD_COMMENT'' then requireText (get (lit ''body'') a) ''comment text'' path
      else if t = lit ''JUMP_TO'' \<or> t = lit ''TRIGGER_WORKFLOW'' then [(path, VCanvasOnly t)]
      else [])"

definition nonempty_list :: "json \<Rightarrow> bool" where
  "nonempty_list j = (case j of JArr xs \<Rightarrow> xs \<noteq> [] | _ \<Rightarrow> False)"

definition validateBranchShape :: "json \<Rightarrow> jstr \<Rightarrow> verrors" where
  "validateBranchShape a path =
     validateConditions (get (lit ''conditions'') a) (path @ lit ''.conditions'')
     @ (if nonempty_list (get (lit ''conditions'') a) then [] else [(path, VBranchConditions)])
     @ (if nonempty_list (get (lit ''then'') a) \<or> nonempty_list (get (lit ''else'') a) then [] else [(path, VBranchEmpty)])"

text \<open>The results of steps that share \<open>errors\<close> and \<open>budget\<close>, one after the other.\<close>

definition run_checks :: "(verrors \<times> nat) list \<Rightarrow> verrors \<times> nat" where
  "run_checks rs = (concat (map fst rs), sum_list (map snd rs))"

function (sequential) validateAction :: "url_env \<Rightarrow> json \<Rightarrow> jstr \<Rightarrow> nat \<Rightarrow> verrors \<times> nat"
  and validateActionList :: "url_env \<Rightarrow> json \<Rightarrow> jstr \<Rightarrow> nat \<Rightarrow> verrors \<times> nat" where
  "validateAction env a path depth =
     (if type_of_json a = lit ''IF_ELSE'' then
        run_checks
          [(validateBranchShape a path, 0),
           (if get (lit ''then'') a \<noteq> JUndef
            then validateActionList env (get (lit ''then'') a) (path @ lit ''.then'') (depth + 1) else ([], 0)),
           (if get (lit ''else'') a \<noteq> JUndef
            then validateActionList env (get (lit ''else'') a) (path @ lit ''.else'') (depth + 1) else ([], 0))]
      else (validateLeaf env a path depth, 0))"
| "validateActionList env (JArr actions) base depth =
     (if depth > MAX_BRANCH_DEPTH then ([(base, VTooDeep)], 0)
      else
        run_checks
          (map (\<lambda>(i, a). run_checks [([], 1),
              (if json_in (get (lit ''type'') a) ACTION_TYPES then validateAction env a (at_index base i) depth
               else ([(at_index base i, VUnsupportedAction (js_string (get (lit ''type'') a)))], 0))])
             (indexed actions)
           @ [(if actions \<noteq> [] \<and> get (lit ''type'') (last actions) = JStr (lit ''WAIT_DELAY'')
               then [(base, VTrailingDelay)] else [], 0)]))"
| "validateActionList env _ base depth = ([(base, VMustBeList)], 0)"
  by pat_completeness auto
termination
proof (relation "measure (\<lambda>x. case x of Inl (_, a, _, _) \<Rightarrow> size a | Inr (_, j, _, _) \<Rightarrow> size j)", goal_cases)
  case 4
  then show ?case by (auto dest!: indexed_elem simp: less_Suc_eq_le intro: size_list_estimation')
qed (auto simp: size_get)

definition validateTrigger :: "json \<Rightarrow> json \<Rightarrow> verrors" where
  "validateTrigger triggerType config =
     (let trigger = get (lit ''trigger'') config in
      (if triggerType = JStr (lit ''KEYWORD_MATCHED'')
       then requireText (get (lit ''keyword'') trigger) ''a keyword'' (lit ''trigger'') else [])
      @ (if triggerType = JStr (lit ''TAG_ADDED'') \<or> triggerType = JStr (lit ''TAG_REMOVED'')
         then requireText (get (lit ''tag'') trigger) ''a tag name'' (lit ''trigger'') else [])
      @ (if triggerType = JStr (lit ''CONTACT_FIELD_UPDATED'')
         then requireText (get (lit ''field'') trigger) ''a contact field'' (lit ''trigger'') else []))"

text \<open>The errors; the configuration is valid when there are none.\<close>

definition validateWorkflowConfig :: "url_env \<Rightarrow> json \<Rightarrow> json \<Rightarrow> verrors" where
  "validateWorkflowConfig env triggerType raw =
     (let typeErrors = (if json_in triggerType TRIGGER_TYPES then []
                        else [(lit ''trigger'', VTrigger (js_string triggerType))]) in
      case raw of
        JObj _ \<Rightarrow>
          let errors = typeErrors @ validateTrigger triggerType raw
                @ validateConditions (get (lit ''conditions'') raw) (lit ''conditions'') in
          (case get (lit ''actions'') raw of
             JArr (a # as) \<Rightarrow>
               let (listErrors, spent) = validateActionList env (JArr (a # as)) (lit ''actions'') 0
               in errors @ listErrors @ (if spent > MAX_ACTIONS then [(lit ''actions'', VTooManyActions)] else [])
           | _ \<Rightarrow> errors @ [(lit ''actions'', VNoActions)])
      | _ \<Rightarrow> typeErrors @ [(lit ''config'', VNotAnObject)])"

section \<open>The actions of a configuration\<close>

text \<open>Every action a list contains, branches included, with the depth it stands at.\<close>

function (sequential) subactions :: "nat \<Rightarrow> json \<Rightarrow> (nat \<times> json) list" where
  "subactions d (JArr as) =
     concat (map (\<lambda>a. (d, a) #
         (if type_of_json a = lit ''IF_ELSE'' then
            (if get (lit ''then'') a = JUndef then [] else subactions (d + 1) (get (lit ''then'') a))
            @ (if get (lit ''else'') a = JUndef then [] else subactions (d + 1) (get (lit ''else'') a))
          else [])) as)"
| "subactions d _ = []"
  by pat_completeness auto
termination
proof (relation "measure (\<lambda>(_, j). size j)", goal_cases)
  case (2 d as a)
  with size_get [of "lit ''then''" a] show ?case
    by (auto simp: less_Suc_eq_le intro!: size_list_estimation' [of a])
next
  case (3 d as a)
  with size_get [of "lit ''else''" a] show ?case
    by (auto simp: less_Suc_eq_le intro!: size_list_estimation' [of a])
qed simp

definition below :: "nat \<Rightarrow> json \<Rightarrow> (nat \<times> json) list" where
  "below d a =
     (if type_of_json a = lit ''IF_ELSE'' then
        (if get (lit ''then'') a = JUndef then [] else subactions (d + 1) (get (lit ''then'') a))
        @ (if get (lit ''else'') a = JUndef then [] else subactions (d + 1) (get (lit ''else'') a))
      else [])"

lemma subactions_JArr: "subactions d (JArr as) = concat (map (\<lambda>a. (d, a) # below d a) as)"
  by (simp add: below_def cong: map_cong)

declare subactions.simps [simp del]

definition nonblank :: "json \<Rightarrow> bool" where
  "nonblank j = (case j of JStr s \<Rightarrow> js_trim s \<noteq> [] | _ \<Rightarrow> False)"

lemma requireText_Nil [simp]: "requireText v label path = [] \<longleftrightarrow> nonblank v"
  by (auto simp: requireText_def nonblank_def split: json.splits)

text \<open>What the executor relies on for an action at a depth.\<close>

definition whole_minutes :: "json \<Rightarrow> bool" where
  "whole_minutes j = (case js_number j of Fin m \<Rightarrow> is_integer m \<and> 0 < m \<and> m \<le> 10080 | _ \<Rightarrow> False)"

definition action_ready :: "url_env \<Rightarrow> nat \<times> json \<Rightarrow> bool" where
  "action_ready env da =
     (let (d, a) = da; t = type_of_json a in
      d \<le> MAX_BRANCH_DEPTH \<and> t \<in> set offered_actions
      \<and> (t = lit ''ASSIGN_TEAM'' \<longrightarrow> nonblank (get (lit ''teamId'') a))
      \<and> (t = lit ''ASSIGN_USER'' \<longrightarrow> nonblank (get (lit ''userId'') a))
      \<and> (t = lit ''SEND_MESSAGE'' \<or> t = lit ''ADD_COMMENT'' \<longrightarrow> nonblank (get (lit ''body'') a))
      \<and> (t = lit ''WAIT_DELAY'' \<longrightarrow> d = 0 \<and> whole_minutes (get (lit ''minutes'') a))
      \<and> (t = lit ''ASK_QUESTION'' \<longrightarrow> d = 0 \<and> nonblank (get (lit ''prompt'') a) \<and> nonblank (get (lit ''field'') a)
            \<and> json_in (get (lit ''expects'') a) ANSWER_KINDS)
      \<and> (t = lit ''HTTP_WEBHOOK'' \<longrightarrow> (case get (lit ''url'') a of JStr u \<Rightarrow> checkWebhookUrlShape env u = None | _ \<Rightarrow> False))
      \<and> (t = lit ''IF_ELSE'' \<longrightarrow> nonempty_list (get (lit ''conditions'') a)))"

lemma action_type_cases:
  assumes "json_in (get (lit ''type'') a) ACTION_TYPES"
  shows "get (lit ''type'') a = JStr (type_of_json a)" and "type_of_json a \<in> set ACTION_TYPES"
  using assms by (auto simp: json_in_def type_of_json_def split: json.splits)

lemma validateAsk_Nil:
  "validateAsk a path d = [] \<Longrightarrow> d = 0 \<and> nonblank (get (lit ''prompt'') a) \<and> nonblank (get (lit ''field'') a)
     \<and> json_in (get (lit ''expects'') a) ANSWER_KINDS"
  by (auto simp: validateAsk_def split: if_splits)

lemma validateDelay_Nil: "validateDelay a path d = [] \<Longrightarrow> d = 0 \<and> whole_minutes (get (lit ''minutes'') a)"
  by (auto simp: validateDelay_def whole_minutes_def MAX_DELAY_MINUTES_def split: if_splits jnum.splits)

lemma validateWebhook_Nil:
  "validateWebhook env a path = [] \<Longrightarrow>
     (case get (lit ''url'') a of JStr u \<Rightarrow> checkWebhookUrlShape env u = None | _ \<Rightarrow> False)"
  by (auto simp: validateWebhook_def nonblank_def split: json.splits option.splits if_splits)

lemma validateBranchShape_Nil: "validateBranchShape a path = [] \<Longrightarrow> nonempty_list (get (lit ''conditions'') a)"
  by (auto simp: validateBranchShape_def split: if_splits)

lemma leaf_ready:
  assumes "json_in (get (lit ''type'') a) ACTION_TYPES" and "type_of_json a \<noteq> lit ''IF_ELSE''"
    and "validateLeaf env a path d = []" and "d \<le> MAX_BRANCH_DEPTH"
  shows "action_ready env (d, a)"
proof -
  have t: "type_of_json a \<in> set ACTION_TYPES" using assms(1) by (rule action_type_cases)
  then have off: "type_of_json a \<in> set offered_actions"
    using assms(3) by (auto simp: validateLeaf_def offered_actions_def CANVAS_ONLY_ACTIONS_def Let_def)
  show ?thesis
    using assms(2-4) off validateAsk_Nil [of a path d] validateDelay_Nil [of a path d] validateWebhook_Nil [of env a path]
    unfolding action_ready_def validateLeaf_def Let_def
    by (auto split: if_splits)
qed

lemma run_checks_Nil: "fst (run_checks rs) = [] \<longleftrightarrow> list_all (\<lambda>r. fst r = []) rs"
  by (auto simp: run_checks_def list_all_iff)

lemma run_checks_snd: "snd (run_checks rs) = sum_list (map snd rs)"
  by (simp add: run_checks_def)

lemma indexed_map_snd: "map snd (indexed xs) = xs"
  by (simp add: indexed_def)

lemma validated_actions:
  shows "json_in (get (lit ''type'') a) ACTION_TYPES \<longrightarrow> d \<le> MAX_BRANCH_DEPTH \<longrightarrow> fst (validateAction env a path d) = [] \<longrightarrow>
      snd (validateAction env a path d) = length (below d a) \<and> list_all (action_ready env) ((d, a) # below d a)"
    and "fst (validateActionList env j base d) = [] \<longrightarrow>
      snd (validateActionList env j base d) = length (subactions d j) \<and> list_all (action_ready env) (subactions d j)"
proof (induction env a path d and env j base d rule: validateAction_validateActionList.induct)
  case (1 env a path d)
  show ?case
  proof (intro impI)
    assume t: "json_in (get (lit ''type'') a) ACTION_TYPES" and d: "d \<le> MAX_BRANCH_DEPTH"
      and v: "fst (validateAction env a path d) = []"
    show "snd (validateAction env a path d) = length (below d a) \<and> list_all (action_ready env) ((d, a) # below d a)"
    proof (cases "type_of_json a = lit ''IF_ELSE''")
      case False
      with v have "validateLeaf env a path d = []" by (simp add: validateAction.simps)
      from leaf_ready [OF t False this d] False show ?thesis by (simp add: below_def validateAction.simps)
    next
      case True
      with v have "validateBranchShape a path = []"
        and th: "get (lit ''then'') a \<noteq> JUndef \<Longrightarrow> fst (validateActionList env (get (lit ''then'') a) (path @ lit ''.then'') (d + 1)) = []"
        and el: "get (lit ''else'') a \<noteq> JUndef \<Longrightarrow> fst (validateActionList env (get (lit ''else'') a) (path @ lit ''.else'') (d + 1)) = []"
        by (auto simp: validateAction.simps run_checks_Nil split: if_splits)
      then have "nonempty_list (get (lit ''conditions'') a)" by (simp add: validateBranchShape_Nil)
      with True d have "action_ready env (d, a)"
        by (simp add: action_ready_def offered_actions_def ACTION_TYPES_def CANVAS_ONLY_ACTIONS_def)
      with True th el "1.IH" show ?thesis
        by (simp add: validateAction.simps below_def run_checks_snd)
    qed
  qed
next
  case (2 env actions base d)
  show ?case
  proof
    assume v: "fst (validateActionList env (JArr actions) base d) = []"
    then have d: "d \<le> MAX_BRANCH_DEPTH" by (auto split: if_splits)
    with v have elem: "json_in (get (lit ''type'') a) ACTION_TYPES \<and> fst (validateAction env a (at_index base i) d) = []"
      if "(i, a) \<in> set (indexed actions)" for i a
      using that by (force simp: run_checks_Nil list_all_iff split: if_splits)
    have ok: "snd (validateAction env a (at_index base i) d) = length (below d a) \<and> list_all (action_ready env) ((d, a) # below d a)"
      if "(i, a) \<in> set (indexed actions)" for i a
      using "2.IH" [of "(i, a)" i a] elem [OF that] d that by simp
    have "snd (validateActionList env (JArr actions) base d) =
        sum_list (map (\<lambda>(i, a). Suc (length (below d a))) (indexed actions))"
      using d elem ok by (auto simp: run_checks_snd intro!: arg_cong [where f = sum_list] map_cong)
    also have "\<dots> = sum_list (map (\<lambda>a. Suc (length (below d a))) (map snd (indexed actions)))"
      by (simp add: comp_def case_prod_unfold)
    also have "\<dots> = length (subactions d (JArr actions))"
      by (simp add: indexed_map_snd subactions_JArr length_concat comp_def)
    finally have len: "snd (validateActionList env (JArr actions) base d) = length (subactions d (JArr actions))" .
    have "list_all (action_ready env) ((d, a) # below d a)" if "a \<in> set actions" for a
      using elem_indexed [OF that] ok by blast
    then have "list_all (action_ready env) (subactions d (JArr actions))"
      by (auto simp: subactions_JArr list_all_iff)
    with len show "snd (validateActionList env (JArr actions) base d) = length (subactions d (JArr actions))
        \<and> list_all (action_ready env) (subactions d (JArr actions))" by simp
  qed
qed (simp_all add: subactions.simps)

lemma validated_config:
  assumes "validateWorkflowConfig env triggerType raw = []"
  obtains a as where "get (lit ''actions'') raw = JArr (a # as)" "json_in triggerType TRIGGER_TYPES"
    "list_all (action_ready env) (subactions 0 (JArr (a # as)))" "length (subactions 0 (JArr (a # as))) \<le> MAX_ACTIONS"
proof -
  from assms obtain kvs a as where raw: "raw = JObj kvs" and acts: "get (lit ''actions'') raw = JArr (a # as)"
    by (auto simp: validateWorkflowConfig_def Let_def simp del: get_JObj split: json.splits list.splits)
  with assms have tt: "json_in triggerType TRIGGER_TYPES"
    and v: "fst (validateActionList env (JArr (a # as)) (lit ''actions'') 0) = []"
    and n: "snd (validateActionList env (JArr (a # as)) (lit ''actions'') 0) \<le> MAX_ACTIONS"
    by (auto simp: validateWorkflowConfig_def Let_def simp del: get_JObj validateActionList.simps split: prod.splits if_splits)
  from validated_actions(2) [rule_format, OF v] n tt show ?thesis by (intro that [OF acts]) simp_all
qed

text \<open>C22: what a saved workflow may contain. When the validator reports nothing, the configuration holds between
  one and a hundred actions counted across branches, none nested deeper than three, and every one of them, wherever
  it stands, is of a type the builder offers and carries what its type needs: delays and questions only at the top
  level, delays of one to 10080 whole minutes, webhook URLs of an acceptable shape.\<close>
theorem validated_config_is_ready:
  assumes "validateWorkflowConfig env triggerType raw = []"
  shows "json_in triggerType TRIGGER_TYPES \<and> list_all (action_ready env) (subactions 0 (get (lit ''actions'') raw))
    \<and> length (subactions 0 (get (lit ''actions'') raw)) \<in> {1..MAX_ACTIONS}"
  using assms by (rule validated_config) (auto simp: subactions_JArr)

definition obj :: "(string \<times> json) list \<Rightarrow> json" where
  "obj kvs = JObj (map (\<lambda>(k, v). (lit k, v)) kvs)"

lemma get_obj [simp]: "get (lit k) (obj kvs) = (case map_of kvs k of None \<Rightarrow> JUndef | Some v \<Rightarrow> v)"
proof -
  have "map_of (map (\<lambda>(k, v). (lit k, v)) kvs) (lit k) = map_of kvs k" by (induction kvs) auto
  then show ?thesis by (simp add: obj_def)
qed

definition sample_config :: json where
  "sample_config = obj
     [(''actions'', JArr
        [obj [(''type'', JStr (lit ''IF_ELSE'')),
              (''conditions'', JArr [obj [(''type'', JStr (lit ''CONTACT_HAS_TAG'')), (''value'', JStr (lit ''vip''))]]),
              (''then'', JArr [obj [(''type'', JStr (lit ''ASSIGN_TEAM'')), (''teamId'', JStr (lit ''t1''))]])],
         obj [(''type'', JStr (lit ''WAIT_DELAY'')), (''minutes'', JNum 10)],
         obj [(''type'', JStr (lit ''CLOSE_CONVERSATION''))]])]"

lemma js_trim_lit [simp]:
  "js_trim (lit ''vip'') = lit ''vip''" "js_trim (lit ''t1'') = lit ''t1''"
  by (simp_all add: js_simps js_trim_def is_ws_def)

lemma sample_config_valid: "validateWorkflowConfig env (JStr (lit ''SHORTCUT'')) sample_config = []"
proof -
  have o: "sample_config = JObj (map (\<lambda>(k, v). (lit k, v))
     [(''actions'', get (lit ''actions'') sample_config)])" by (simp add: sample_config_def obj_def)
  show ?thesis
    unfolding validateWorkflowConfig_def
    by (subst (2) o) (simp add: sample_config_def validateTrigger_def validateConditions_def json_in_def TRIGGER_TYPES_def
        run_checks_def indexed_def validateAction.simps type_of_json_def ACTION_TYPES_def validateBranchShape_def
        nonempty_list_def validateCondition_def CONDITION_TYPES_def MAX_CONDITIONS_def nonblank_def validateLeaf_def
        validateDelay_def is_integer_def MAX_DELAY_MINUTES_def MAX_BRANCH_DEPTH_def MAX_ACTIONS_def)
qed

theorem validated_config_is_ready_witness:
  "json_in (JStr (lit ''SHORTCUT'')) TRIGGER_TYPES
    \<and> list_all (action_ready sample_url_env) (subactions 0 (get (lit ''actions'') sample_config))
    \<and> length (subactions 0 (get (lit ''actions'') sample_config)) \<in> {1..MAX_ACTIONS}"
  by (rule validated_config_is_ready) (rule sample_config_valid)

section \<open>Stored answers\<close>

lemma number_answer_no_ws: "list_all (\<lambda>c. \<not> is_ws c) (number_answer s)"
  by (simp add: number_answer_def list_all_iff)

lemma number_shape_number:
  assumes "number_shape v" and "list_all (\<lambda>c. \<not> is_ws c) v"
  shows "\<exists>r. js_number_of_string v = Fin r"
proof -
  define body where "body = (if v \<noteq> [] \<and> hd v = 45 then tl v else v)"
  define rest where "rest = dropWhile is_digit body"
  have t: "js_trim v = v" using assms(2) by (rule js_trim_solid)
  have ip: "takeWhile is_digit body \<noteq> []" and sh: "rest = [] \<or> (hd rest = 46 \<and> list_all is_digit (tl rest))"
    using assms(1) unfolding number_shape_def Let_def body_def [symmetric] rest_def [symmetric] by blast+
  from ip have bd: "body \<noteq> []" "is_digit (hd body)" by (cases body; auto split: if_splits)+
  then have ne: "v \<noteq> []" and same: "body = (if v \<noteq> [] \<and> (hd v = 45 \<or> hd v = 43) then tl v else v)"
    by (auto simp: body_def is_digit_def split: if_splits)
  have inf: "body \<noteq> lit ''Infinity''" using bd by (auto simp: js_simps is_digit_def)
  have dw: "rest \<noteq> [] \<Longrightarrow> dropWhile is_digit (tl rest) = []" using sh by (auto simp: dropWhile_eq_Nil_iff list_all_iff)
  have ex: "parse_exponent (if rest \<noteq> [] \<and> hd rest = 46 then dropWhile is_digit (tl rest) else rest) = Some 0"
    using sh by (cases "rest = []") (simp_all add: parse_exponent_def dw)
  show ?thesis by (rule js_number_finite [OF t ne same inf ip rest_def ex])
qed

text \<open>an accepted answer is what later steps need. A stored number reads back as a finite number (so the filters
  can compare it), a stored phone is eight to fifteen ASCII digits, a stored email has an at sign and a dot and no
  white space, and stored text is at most 2000 code units; none is empty.\<close>
theorem parsed_answers_are_usable:
  assumes "parseAnswer kind raw = Some v"
  shows "v \<noteq> []
    \<and> (kind = lit ''number'' \<longrightarrow> (\<exists>r. js_number_of_string v = Fin r))
    \<and> (kind = lit ''phone'' \<longrightarrow> list_all is_digit v \<and> length v \<in> {8..15})
    \<and> (kind = lit ''email'' \<longrightarrow> 64 \<in> set v \<and> 46 \<in> set v \<and> list_all (\<lambda>c. \<not> is_ws c) v)
    \<and> (kind = lit ''text'' \<longrightarrow> length v \<le> 2000)"
proof -
  have digits: "list_all is_digit (phone_answer s)" for s
    by (auto simp: phone_answer_def Let_def list_all_iff dest: in_set_dropD)
  have email: "64 \<in> set u \<and> 46 \<in> set u \<and> list_all (\<lambda>c. \<not> is_ws c) u" if "email_shape u" for u
  proof -
    from that obtain x after where sp: "dropWhile (\<lambda>c. c \<noteq> 64) (tl u) = x # after" and "46 \<in> set (butlast (tl after))"
      and nw: "list_all (\<lambda>c. \<not> is_ws c) u"
      by (auto simp: email_shape_def split: list.splits)
    then have "46 \<in> set after" by (metis in_set_butlastD list.set_sel(2) list.sel(2))
    moreover from sp have "x = 64" by (metis (full_types) dropWhile_eq_Cons_conv)
    moreover have "set (x # after) \<subseteq> set (tl u)" by (metis set_dropWhileD sp subsetI)
    moreover have "set (tl u) \<subseteq> set u" by (cases u) auto
    ultimately show ?thesis using nw by auto
  qed
  from assms show ?thesis
    using digits email number_shape_number [OF _ number_answer_no_ws]
    by (auto simp: parseAnswer_def Let_def email_shape_def number_shape_def split: if_splits)
qed

theorem parsed_answers_are_usable_witness:
  "parseAnswer (lit ''number'') (lit '' 1,250.5 '') = Some (lit ''1250.5'')
    \<and> (\<exists>r. js_number_of_string (lit ''1250.5'') = Fin r)"
proof -
  have e: "parseAnswer (lit ''number'') (lit '' 1,250.5 '') = Some (lit ''1250.5'')"
    by (simp add: parseAnswer_def js_simps js_trim_def is_ws_def number_answer_def number_shape_def is_digit_def ascii_digit_def)
  with parsed_answers_are_usable [OF e] show ?thesis by simp
qed

end
