(* ===== verification/Workflow_Executor.thy ===== *)
theory Workflow_Executor
  imports Workflow_Schema Assignment
begin

text \<open>
  The workflow executor: \<open>modules/workflows/workflow-executor.ts\<close>, with the session choice of
  \<open>utils/whatsapp-sessions.ts\<close> and the delivery log of \<open>modules/webhooks/webhook-log.service.ts\<close> it uses.

  The state is the conversation world extended with the tables the actions write. What is outside the
  repository is a field: \<open>w_channel\<close> (the provider), \<open>x_http\<close> (the network, as the answer to the n-th request)
  and \<open>x_url\<close> (URL parser and resolver). \<open>ExecutionContext\<close> is a record; its mutable parts, the payload and the
  emitted events, are returned with the world. A thrown error, the two signals that suspend a run among
  them, is the left side of a sum. A database write that names a missing row throws.
\<close>

section \<open>State\<close>

datatype step_outcome = StepOk | StepSkipped | StepFailed

record log_entry =
  le_step :: nat
  le_action :: jstr
  le_outcome :: step_outcome
  le_detail :: "jstr option"
  le_at :: int

datatype exec_status = RUNNING | WAITING | AWAITING_REPLY | COMPLETED | FAILED | TIMED_OUT | SKIPPED

record exec_row =
  ex_workflowId :: jstr
  ex_contactId :: "jstr option"
  ex_conversationId :: "jstr option"
  ex_status :: exec_status
  ex_depth :: nat
  ex_currentStepIndex :: nat
  ex_awaitingUntil :: "int option"
  ex_awaitingAttempts :: nat
  ex_createdAt :: int
  ex_log :: "log_entry list"
  ex_error :: "jstr option"

datatype auth_header = BearerAuth jstr | BasicAuth jstr jstr

record http_request =
  hq_url :: jstr
  hq_host :: jstr
  hq_method :: jstr
  hq_auth :: "auth_header option"
  hq_body :: "jstr option"

text \<open>A response carries what \<open>JSON.parse\<close> makes of its body.\<close>

datatype http_result = HttpError jstr jstr | HttpResponse nat jstr "json option"

record delivery =
  dl_webhookId :: jstr
  dl_eventType :: jstr
  dl_targetHost :: "jstr option"
  dl_statusCode :: "nat option"
  dl_ok :: bool
  dl_errorMessage :: "jstr option"
  dl_requestPayload :: "jstr option"
  dl_responseBody :: "jstr option"

record wworld = aworld +
  x_contactTags :: "(jstr \<times> jstr) list"
  x_tags :: "jstr list"
  x_teamIds :: "jstr list"
  x_fields :: "jstr \<Rightarrow> jstr option"
  x_fieldValues :: "jstr \<times> jstr \<Rightarrow> jstr option option"
  x_stages :: "jstr \<Rightarrow> jstr option"
  x_templates :: "jstr \<Rightarrow> (jstr \<times> bool) option"
  x_hours :: "(bool \<times> bool) option"
  x_url :: url_env
  x_http :: "nat \<Rightarrow> http_request \<Rightarrow> http_result"
  x_requests :: "http_request list"
  x_deliveries :: "delivery list"
  x_execs :: "jstr \<Rightarrow> exec_row option"

datatype tag_event = TagAdded jstr | TagRemoved jstr

record run_ctx =
  rc_workflowId :: jstr
  rc_executionId :: jstr
  rc_triggerType :: jstr
  rc_contactId :: "jstr option"
  rc_conversationId :: "jstr option"
  rc_depth :: nat
  rc_payload :: "(jstr \<times> json) list"
  rc_emitted :: "tag_event list"

definition MAX_DEPTH :: nat where "MAX_DEPTH = 3"
definition MAX_LOG_ENTRIES :: nat where "MAX_LOG_ENTRIES = 50"

text \<open>What an action can throw; a delay that is not a finite number is \<open>None\<close>.\<close>

datatype raised =
    WorkflowPaused nat "rat option"
  | WorkflowAwaitingReply nat "rat option" bool
  | Thrown jstr

definition entry :: "'a wworld_scheme \<Rightarrow> nat \<Rightarrow> jstr \<Rightarrow> step_outcome \<Rightarrow> jstr \<Rightarrow> log_entry" where
  "entry w step action outcome detail =
     \<lparr>le_step = step, le_action = action, le_outcome = outcome, le_detail = Some (take 300 detail), le_at = w_now w\<rparr>"

section \<open>Conditions\<close>

definition present :: "jstr option \<Rightarrow> bool" where
  "present r = truthy_ref r"

text \<open>A filter \<open>{ name: value }\<close>: an absent value does not filter, a value of another type throws.\<close>

definition has_tag :: "jstr \<Rightarrow> json \<Rightarrow> 'a wworld_scheme \<Rightarrow> jstr + bool" where
  "has_tag contactId value w =
     (case value of
        JStr name \<Rightarrow> Inr ((contactId, name) \<in> set (x_contactTags w))
      | JUndef \<Rightarrow> Inr (contactId \<in> fst ` set (x_contactTags w))
      | _ \<Rightarrow> Inl (lit ''invalid filter''))"

definition evaluateCondition :: "json \<Rightarrow> run_ctx \<Rightarrow> 'a wworld_scheme \<Rightarrow> jstr + bool" where
  "evaluateCondition c ctx w =
     (if c = JNull \<or> c = JUndef then Inl (lit ''cannot read type'')
      else
        let t = type_of_json c; value = get (lit ''value'') c; field = get (lit ''field'') c in
        if t = lit ''WITHIN_BUSINESS_HOURS'' then
          Inr (case x_hours w of None \<Rightarrow> True | Some (enabled, openNow) \<Rightarrow> if \<not> enabled then True else openNow)
        else if t = lit ''CONTACT_HAS_TAG'' \<or> t = lit ''CONTACT_LACKS_TAG'' then
          (if \<not> present (rc_contactId ctx) then Inr (t = lit ''CONTACT_LACKS_TAG'')
           else map_sum id (\<lambda>tagged. if t = lit ''CONTACT_HAS_TAG'' then tagged else \<not> tagged)
                  (has_tag (the (rc_contactId ctx)) value w))
        else if t = lit ''CONVERSATION_TEAM_IS'' then
          (if \<not> present (rc_conversationId ctx) then Inr False
           else Inr (value = (case w_convs w (the (rc_conversationId ctx)) of
                                None \<Rightarrow> JUndef
                              | Some v \<Rightarrow> (case cv_teamId v of None \<Rightarrow> JNull | Some tid \<Rightarrow> JStr tid))))
        else if t = lit ''CONTACT_LIFECYCLE_IS'' then
          (if \<not> present (rc_contactId ctx) then Inr False
           else Inr (value = JStr (case w_contacts w (the (rc_contactId ctx)) of
                                     None \<Rightarrow> [] | Some ct \<Rightarrow> (case ct_lifecycleStage ct of None \<Rightarrow> [] | Some s \<Rightarrow> s))))
        else if t = lit ''CONTACT_FIELD_EQUALS'' then
          (if \<not> present (rc_contactId ctx) \<or> \<not> truthy field then Inr False
           else case field of
                  JStr slug \<Rightarrow>
                    let stored = (case x_fields w slug of None \<Rightarrow> [] | Some d \<Rightarrow>
                          (case x_fieldValues w (the (rc_contactId ctx), d) of Some (Some v) \<Rightarrow> v | _ \<Rightarrow> []))
                    in Inr (JStr stored = (if truthy value then value else JStr []))
                | _ \<Rightarrow> Inl (lit ''invalid filter''))
        else Inr False)"

fun all_hold :: "json list \<Rightarrow> run_ctx \<Rightarrow> 'a wworld_scheme \<Rightarrow> jstr + bool" where
  "all_hold [] ctx w = Inr True"
| "all_hold (c # cs) ctx w =
     (case evaluateCondition c ctx w of Inl e \<Rightarrow> Inl e | Inr b \<Rightarrow> if b then all_hold cs ctx w else Inr False)"

definition conditionsHold :: "json \<Rightarrow> run_ctx \<Rightarrow> 'a wworld_scheme \<Rightarrow> jstr + bool" where
  "conditionsHold conditions ctx w =
     (case (if truthy conditions then conditions else JArr []) of
        JArr cs \<Rightarrow> all_hold cs ctx w
      | JStr _ \<Rightarrow> Inr False
      | _ \<Rightarrow> Inl (lit ''conditions is not iterable''))"

section \<open>Text with variables\<close>

text \<open>One step of a dotted path; an array is indexed by its positions and has a length.\<close>

definition member :: "jstr \<Rightarrow> json \<Rightarrow> json" where
  "member k j =
     (case j of
        JObj _ \<Rightarrow> get k j
      | JArr xs \<Rightarrow>
          if k = lit ''length'' then JNum (of_nat (length xs))
          else if k \<noteq> [] \<and> list_all is_digit k \<and> k = dec_digits (digits_value k) \<and> digits_value k < length xs
          then xs ! digits_value k else JUndef
      | _ \<Rightarrow> JUndef)"

definition resolve_path :: "jstr \<Rightarrow> (jstr \<times> json) list \<Rightarrow> json" where
  "resolve_path path vars = fold member (split_on 46 path) (JObj vars)"

definition is_path_char :: "nat \<Rightarrow> bool" where
  "is_path_char c \<longleftrightarrow> is_word c \<or> c = 46"

text \<open>A placeholder at the front of a text: what \<open>/\{\{\s*([\w.]+)\s*\}\}/\<close> matches there, the name and the rest.\<close>

definition placeholder :: "jstr \<Rightarrow> (jstr \<times> jstr \<times> jstr) option" where
  "placeholder s =
     (if take 2 s = [123, 123] then
        let a = dropWhile is_ws (drop 2 s); name = takeWhile is_path_char a;
            b = dropWhile is_ws (dropWhile is_path_char a)
        in if name \<noteq> [] \<and> take 2 b = [125, 125]
           then Some (take (length s - length (drop 2 b)) s, name, drop 2 b) else None
      else None)"

lemma placeholder_shorter: "placeholder s = Some (m, name, rest) \<Longrightarrow> length rest < length s"
proof -
  assume "placeholder s = Some (m, name, rest)"
  then have t: "take 2 s = [123, 123]"
    and r: "rest = drop 2 (dropWhile is_ws (dropWhile is_path_char (dropWhile is_ws (drop 2 s))))"
    by (auto simp: placeholder_def Let_def split: if_splits)
  from t have "2 \<le> length s" by (cases s; cases "tl s") auto
  moreover have "length rest \<le> length (drop 2 s)"
    using length_dropWhile_le [of is_ws "drop 2 s"] length_dropWhile_le [of is_path_char "dropWhile is_ws (drop 2 s)"]
      length_dropWhile_le [of is_ws "dropWhile is_path_char (dropWhile is_ws (drop 2 s))"]
    unfolding r by simp
  ultimately show ?thesis by simp
qed

definition render_value :: "jstr \<Rightarrow> json \<Rightarrow> jstr" where
  "render_value match value =
     (case value of
        JUndef \<Rightarrow> match | JNull \<Rightarrow> match
      | JObj kvs \<Rightarrow> json_stringify value | JArr xs \<Rightarrow> json_stringify value
      | _ \<Rightarrow> js_string value)"

function interpolate :: "jstr \<Rightarrow> (jstr \<times> json) list \<Rightarrow> jstr" where
  "interpolate s vars =
     (case placeholder s of
        Some (match, name, rest) \<Rightarrow> render_value match (resolve_path name vars) @ interpolate rest vars
      | None \<Rightarrow> (case s of [] \<Rightarrow> [] | c # s' \<Rightarrow> c # interpolate s' vars))"
  by pat_completeness auto
termination
  by (relation "measure (\<lambda>(s, _). length s)") (auto dest: placeholder_shorter)

declare interpolate.simps [simp del]

section \<open>Sending\<close>

definition getPrimarySession :: "'a cworld_scheme \<Rightarrow> session_row option" where
  "getPrimarySession w = find ss_isActive (w_sessions w)"

definition getSessionForTeam :: "jstr option \<Rightarrow> 'a cworld_scheme \<Rightarrow> session_row option" where
  "getSessionForTeam teamId w =
     (case (if truthy_ref teamId then find (\<lambda>s. ss_teamId s = teamId \<and> ss_isActive s) (w_sessions w) else None) of
        Some s \<Rightarrow> Some s
      | None \<Rightarrow> getPrimarySession w)"

text \<open>\<open>a || b || ''\<close>\<close>

definition first_of :: "jstr option \<Rightarrow> jstr option \<Rightarrow> jstr" where
  "first_of a b = (if truthy_ref a then the a else if truthy_ref b then the b else [])"

definition send_text :: "jstr \<Rightarrow> jstr \<Rightarrow> jstr \<Rightarrow> 'a cworld_scheme \<Rightarrow> (jstr + jstr) \<times> 'a cworld_scheme" where
  "send_text sessionName phone body w =
     (case w_channel w sessionName phone body of
        Inl e \<Rightarrow> (Inl e, w)
      | Inr providerId \<Rightarrow> (Inr providerId, w\<lparr>w_sent := w_sent w @ [(sessionName, phone, body)]\<rparr>))"

definition session_for_run :: "run_ctx \<Rightarrow> 'a cworld_scheme \<Rightarrow> session_row option" where
  "session_for_run ctx w =
     (case (if present (rc_conversationId ctx) then w_convs w (the (rc_conversationId ctx)) else None) of
        None \<Rightarrow> getSessionForTeam None w
      | Some c \<Rightarrow> if cv_sessionId c \<noteq> [] then session_by_id (cv_sessionId c) w else getSessionForTeam (cv_teamId c) w)"

definition contact_vars :: "contact_row \<Rightarrow> run_ctx \<Rightarrow> (jstr \<times> json) list" where
  "contact_vars ct ctx =
     rc_payload ctx @
       [(lit ''contactName'', JStr (first_of (ct_name ct) (ct_firstName ct))),
        (lit ''firstName'', JStr (first_of (ct_firstName ct) (ct_name ct))),
        (lit ''phone'', JStr (ct_phone ct))]"

definition sendToContact :: "run_ctx \<Rightarrow> jstr \<Rightarrow> 'a cworld_scheme \<Rightarrow> (jstr + jstr) \<times> 'a cworld_scheme" where
  "sendToContact ctx body w =
     (if \<not> present (rc_contactId ctx) then (Inr (lit ''skipped: no contact''), w)
      else case w_contacts w (the (rc_contactId ctx)) of
             None \<Rightarrow> (Inr (lit ''skipped: contact not found''), w)
           | Some ct \<Rightarrow>
               if ct_consent ct = OPTED_OUT then (Inr (lit ''skipped: contact opted out''), w)
               else case session_for_run ctx w of
                      None \<Rightarrow> (Inr (lit ''skipped: no WhatsApp session''), w)
                    | Some session \<Rightarrow>
                        (case send_text (ss_sessionName session) (ct_phone ct) (interpolate body (contact_vars ct ctx)) w of
                           (Inl e, w') \<Rightarrow> (Inl e, w')
                         | (Inr _, w') \<Rightarrow> (Inr (lit ''sent''), w')))"

section \<open>Outbound requests\<close>

definition RETRY_DELAYS_MS :: "nat list" where
  "RETRY_DELAYS_MS = [500, 1500]"

definition http_retryable :: "nat \<Rightarrow> bool" where
  "http_retryable status \<longleftrightarrow> status = 429 \<or> status \<ge> 500"

text \<open>The loop of attempts; the number counts the retries that are left.\<close>

primrec fetch_loop :: "nat \<Rightarrow> http_request \<Rightarrow> 'a wworld_scheme \<Rightarrow> http_result \<times> 'a wworld_scheme" where
  "fetch_loop 0 req w = (x_http w (length (x_requests w)) req, w\<lparr>x_requests := x_requests w @ [req]\<rparr>)"
| "fetch_loop (Suc n) req w =
     (let r = x_http w (length (x_requests w)) req; w' = w\<lparr>x_requests := x_requests w @ [req]\<rparr> in
      case r of
        HttpResponse status _ _ \<Rightarrow> if http_retryable status then fetch_loop n req w' else (r, w')
      | HttpError name _ \<Rightarrow> if name = lit ''AbortError'' then (r, w') else fetch_loop n req w')"

definition fetchWithBackoff :: "http_request \<Rightarrow> 'a wworld_scheme \<Rightarrow> http_result \<times> 'a wworld_scheme" where
  "fetchWithBackoff req w = fetch_loop (length RETRY_DELAYS_MS) req w"

definition MAX_BODY_CHARS :: nat where "MAX_BODY_CHARS = 2000"

definition truncate_body :: "jstr \<Rightarrow> jstr" where
  "truncate_body v =
     (if length v > MAX_BODY_CHARS then take MAX_BODY_CHARS v @ [8230] @ lit ''[truncated]'' else v)"

definition webhookIdentity :: "jstr \<Rightarrow> nat \<Rightarrow> jstr" where
  "webhookIdentity workflowId stepIndex = lit ''wf--'' @ workflowId @ lit ''--step--'' @ dec_digits stepIndex"

definition safeHost :: "url_env \<Rightarrow> jstr \<Rightarrow> jstr option" where
  "safeHost env url = (if url = [] then None else map_option pu_host (ue_parse env url))"

definition recordDelivery ::
  "run_ctx \<Rightarrow> nat \<Rightarrow> jstr \<Rightarrow> nat option \<Rightarrow> bool \<Rightarrow> jstr option \<Rightarrow> jstr option \<Rightarrow> jstr option \<Rightarrow>
     'a wworld_scheme \<Rightarrow> 'a wworld_scheme" where
  "recordDelivery ctx stepIndex targetUrl status ok errorMessage request response w =
     w\<lparr>x_deliveries := x_deliveries w @
       [\<lparr>dl_webhookId = webhookIdentity (rc_workflowId ctx) stepIndex, dl_eventType = rc_triggerType ctx,
         dl_targetHost = safeHost (x_url w) targetUrl, dl_statusCode = status, dl_ok = ok,
         dl_errorMessage = map_option truncate_body errorMessage,
         dl_requestPayload = map_option truncate_body request,
         dl_responseBody = map_option truncate_body response\<rparr>]\<rparr>"

section \<open>Actions\<close>

type_synonym 'w step_result = "(raised + log_entry) \<times> run_ctx \<times> 'w"

definition send_entry :: "nat \<Rightarrow> jstr \<Rightarrow> run_ctx \<Rightarrow> (jstr + jstr) \<times> 'a wworld_scheme \<Rightarrow> 'a wworld_scheme step_result" where
  "send_entry i t ctx r =
     (case r of
        (Inl e, w) \<Rightarrow> (Inl (Thrown e), ctx, w)
      | (Inr outcome, w) \<Rightarrow>
          (Inr (entry w i t (if outcome = lit ''sent'' then StepOk else StepSkipped) outcome), ctx, w))"

text \<open>A handler whose first line skips without a contact, or without a conversation.\<close>

definition with_ref ::
  "jstr option \<Rightarrow> string \<Rightarrow> nat \<Rightarrow> jstr \<Rightarrow> run_ctx \<Rightarrow> 'a wworld_scheme \<Rightarrow> (jstr \<Rightarrow> 'a wworld_scheme step_result)
     \<Rightarrow> 'a wworld_scheme step_result" where
  "with_ref r missing i t ctx w body =
     (if present r then body (the r) else (Inr (entry w i t StepSkipped (lit missing)), ctx, w))"

definition run_assign_team :: "json \<Rightarrow> run_ctx \<Rightarrow> nat \<Rightarrow> 'a wworld_scheme \<Rightarrow> 'a wworld_scheme step_result" where
  "run_assign_team a ctx i w =
     (let t = lit ''ASSIGN_TEAM''; teamId = js_string (get (lit ''teamId'') a) in
      with_ref (rc_conversationId ctx) ''no conversation'' i t ctx w (\<lambda>cid.
        case w_convs w cid of
          None \<Rightarrow> (Inl (Thrown (lit ''record not found'')), ctx, w)
        | Some c \<Rightarrow>
            if teamId \<notin> set (x_teamIds w) then (Inl (Thrown (lit ''foreign key'')), ctx, w)
            else (Inr (entry w i t StepOk teamId), ctx,
                  w\<lparr>w_convs := (w_convs w)(cid \<mapsto> c\<lparr>cv_teamId := Some teamId\<rparr>)\<rparr>)))"

definition run_assign_user :: "json \<Rightarrow> run_ctx \<Rightarrow> nat \<Rightarrow> 'a wworld_scheme \<Rightarrow> 'a wworld_scheme step_result" where
  "run_assign_user a ctx i w =
     (let t = lit ''ASSIGN_USER''; userId = js_string (get (lit ''userId'') a) in
      with_ref (rc_conversationId ctx) ''no conversation'' i t ctx w (\<lambda>cid.
        case w_convs w cid of
          None \<Rightarrow> (Inl (Thrown (lit ''record not found'')), ctx, w)
        | Some c \<Rightarrow>
            if w_users w userId = None then (Inl (Thrown (lit ''foreign key'')), ctx, w)
            else (Inr (entry w i t StepOk userId), ctx,
                  w\<lparr>w_convs := (w_convs w)(cid \<mapsto> c\<lparr>cv_assignedToId := Some userId\<rparr>)\<rparr>)))"

definition run_ask :: "json \<Rightarrow> run_ctx \<Rightarrow> nat \<Rightarrow> 'a wworld_scheme \<Rightarrow> 'a wworld_scheme step_result" where
  "run_ask a ctx i w =
     (case sendToContact ctx (js_string (get (lit ''prompt'') a)) w of
        (Inl e, w') \<Rightarrow> (Inl (Thrown e), ctx, w')
      | (Inr outcome, w') \<Rightarrow>
          if outcome \<noteq> lit ''sent''
          then (Inr (entry w' i (lit ''ASK_QUESTION'') StepSkipped (lit ''question not sent: '' @ outcome)), ctx, w')
          else
            let timeoutMinutes = (if get (lit ''timeoutMinutes'') a = JUndef then Fin DEFAULT_ANSWER_TIMEOUT_MINUTES
                                  else js_number (get (lit ''timeoutMinutes'') a))
            in (Inl (WorkflowAwaitingReply (i + 1) (case timeoutMinutes of Fin m \<Rightarrow> Some (m * 60000) | _ \<Rightarrow> None)
                  (get (lit ''onTimeout'') a = JStr (lit ''CONTINUE''))), ctx, w'))"

definition run_send_template :: "json \<Rightarrow> run_ctx \<Rightarrow> nat \<Rightarrow> 'a wworld_scheme \<Rightarrow> 'a wworld_scheme step_result" where
  "run_send_template a ctx i w =
     (case x_templates w (js_string (get (lit ''templateId'') a)) of
        Some (body, True) \<Rightarrow> send_entry i (lit ''SEND_TEMPLATE'') ctx (sendToContact ctx body w)
      | _ \<Rightarrow> (Inr (entry w i (lit ''SEND_TEMPLATE'') StepSkipped (lit ''template missing or inactive'')), ctx, w))"

definition run_add_tag :: "json \<Rightarrow> run_ctx \<Rightarrow> nat \<Rightarrow> 'a wworld_scheme \<Rightarrow> 'a wworld_scheme step_result" where
  "run_add_tag a ctx i w =
     (let t = lit ''ADD_TAG''; name = js_trim (js_string (get (lit ''tag'') a)) in
      with_ref (rc_contactId ctx) ''no contact'' i t ctx w (\<lambda>contactId.
        let w1 = (if name \<in> set (x_tags w) then w else w\<lparr>x_tags := x_tags w @ [name]\<rparr>) in
        if w_contacts w contactId = None then (Inl (Thrown (lit ''foreign key'')), ctx, w1)
        else if (contactId, name) \<in> set (x_contactTags w1) then (Inr (entry w i t StepOk name), ctx, w1)
        else (Inr (entry w i t StepOk name), ctx\<lparr>rc_emitted := rc_emitted ctx @ [TagAdded name]\<rparr>,
              w1\<lparr>x_contactTags := x_contactTags w1 @ [(contactId, name)]\<rparr>)))"

definition run_remove_tag :: "json \<Rightarrow> run_ctx \<Rightarrow> nat \<Rightarrow> 'a wworld_scheme \<Rightarrow> 'a wworld_scheme step_result" where
  "run_remove_tag a ctx i w =
     (let t = lit ''REMOVE_TAG''; name = js_trim (js_string (get (lit ''tag'') a)) in
      with_ref (rc_contactId ctx) ''no contact'' i t ctx w (\<lambda>contactId.
        let n = length (filter (\<lambda>ct. ct = (contactId, name)) (x_contactTags w));
            ctx' = (if n > 0 then ctx\<lparr>rc_emitted := rc_emitted ctx @ [TagRemoved name]\<rparr> else ctx)
        in (Inr (entry w i t StepOk (name @ lit '' ('' @ dec_digits n @ lit '')'')), ctx',
            w\<lparr>x_contactTags := filter (\<lambda>ct. ct \<noteq> (contactId, name)) (x_contactTags w)\<rparr>)))"

definition run_update_field :: "json \<Rightarrow> run_ctx \<Rightarrow> nat \<Rightarrow> 'a wworld_scheme \<Rightarrow> 'a wworld_scheme step_result" where
  "run_update_field a ctx i w =
     (let t = lit ''UPDATE_CONTACT_FIELD''; slug = js_string (get (lit ''field'') a); v = get (lit ''value'') a;
          value = (if v = JNull \<or> v = JUndef then None else Some (js_string v)) in
      with_ref (rc_contactId ctx) ''no contact'' i t ctx w (\<lambda>contactId.
        case x_fields w slug of
          None \<Rightarrow> (Inr (entry w i t StepSkipped (lit ''unknown field '' @ slug)), ctx, w)
        | Some d \<Rightarrow>
            if w_contacts w contactId = None then (Inl (Thrown (lit ''foreign key'')), ctx, w)
            else (Inr (entry w i t StepOk (slug @ lit ''='' @ (case value of None \<Rightarrow> [] | Some s \<Rightarrow> s))), ctx,
                  w\<lparr>x_fieldValues := (x_fieldValues w)((contactId, d) \<mapsto> value)\<rparr>)))"

definition run_set_stage :: "json \<Rightarrow> run_ctx \<Rightarrow> nat \<Rightarrow> 'a wworld_scheme \<Rightarrow> 'a wworld_scheme step_result" where
  "run_set_stage a ctx i w =
     (let t = lit ''SET_LIFECYCLE_STAGE''; stageId = js_string (get (lit ''stageId'') a) in
      with_ref (rc_contactId ctx) ''no contact'' i t ctx w (\<lambda>contactId.
        case x_stages w stageId of
          None \<Rightarrow> (Inr (entry w i t StepSkipped (lit ''unknown stage '' @ stageId)), ctx, w)
        | Some name \<Rightarrow>
            (case w_contacts w contactId of
               None \<Rightarrow> (Inl (Thrown (lit ''record not found'')), ctx, w)
             | Some ct \<Rightarrow> (Inr (entry w i t StepOk name), ctx,
                 w\<lparr>w_contacts := (w_contacts w)(contactId \<mapsto> ct\<lparr>ct_lifecycleStage := Some name\<rparr>)\<rparr>))))"

definition workflow_close_input :: "json \<Rightarrow> jstr \<Rightarrow> close_input" where
  "workflow_close_input a cid =
     \<lparr>ci_conversationId = cid, ci_source = WORKFLOW,
      ci_categoryId = (case get (lit ''categoryId'') a of JStr s \<Rightarrow> Some s | _ \<Rightarrow> None),
      ci_summary = (case get (lit ''summary'') a of JStr s \<Rightarrow> Some s | _ \<Rightarrow> None),
      ci_actorId = None, ci_actorName = None, ci_enforceManualPolicy = False, ci_sendClosingReply = True\<rparr>"

definition lifecycle_message :: "lifecycle_error \<Rightarrow> jstr" where
  "lifecycle_message e =
     (case e of
        SummaryTooLong \<Rightarrow> lit ''Closing summary must be 2,000 characters or fewer''
      | ConversationNotFound \<Rightarrow> lit ''Conversation not found''
      | ClosingCategoryNotFound \<Rightarrow> lit ''Closing category not found''
      | ClosingCategoryRequired \<Rightarrow> lit ''A closing category is required''
      | ClosingSummaryRequired \<Rightarrow> lit ''A closing summary is required'')"

definition run_close :: "json \<Rightarrow> run_ctx \<Rightarrow> nat \<Rightarrow> 'a wworld_scheme \<Rightarrow> 'a wworld_scheme step_result" where
  "run_close a ctx i w =
     (let t = lit ''CLOSE_CONVERSATION'' in
      with_ref (rc_conversationId ctx) ''no conversation'' i t ctx w (\<lambda>cid.
        case closeConversation (workflow_close_input a cid) w of
          (Inl e, w') \<Rightarrow> (Inl (Thrown (lifecycle_message e)), ctx, w')
        | (Inr _, w') \<Rightarrow> (Inr (entry w' i t StepOk (lit ''resolved'')), ctx, w')))"

definition run_open :: "run_ctx \<Rightarrow> nat \<Rightarrow> 'a wworld_scheme \<Rightarrow> 'a wworld_scheme step_result" where
  "run_open ctx i w =
     (let t = lit ''OPEN_CONVERSATION'' in
      with_ref (rc_conversationId ctx) ''no conversation'' i t ctx w (\<lambda>cid.
        case reopenConversation cid w of
          (Inl e, w') \<Rightarrow> (Inl (Thrown (lifecycle_message e)), ctx, w')
        | (Inr (_, changed), w') \<Rightarrow>
            (Inr (entry w' i t StepOk (if changed then lit ''reopened'' else lit ''already open'')), ctx, w')))"

definition run_comment :: "json \<Rightarrow> run_ctx \<Rightarrow> nat \<Rightarrow> 'a wworld_scheme \<Rightarrow> 'a wworld_scheme step_result" where
  "run_comment a ctx i w =
     (let t = lit ''ADD_COMMENT'';
          body = take 4000 (interpolate (js_trim (js_string_or_empty (get (lit ''body'') a))) (rc_payload ctx)) in
      with_ref (rc_conversationId ctx) ''no conversation'' i t ctx w (\<lambda>cid.
        if body = [] then (Inr (entry w i t StepSkipped (lit ''empty comment'')), ctx, w)
        else if w_convs w cid = None then (Inl (Thrown (lit ''foreign key'')), ctx, w)
        else (Inr (entry w i t StepOk (lit ''comment added'')), ctx,
              w\<lparr>w_messages := w_messages w @
                [\<lparr>sm_conversationId = cid, sm_body = body, sm_isInternal = True,
                  sm_autoType = lit ''workflow-comment'', sm_waMessageId = None, sm_direction = OUTBOUND, sm_isAuto = True,
                  sm_status = MSG_SENT, sm_timestamp = w_now w\<rparr>]\<rparr>)))"

section \<open>The HTTP action\<close>

definition ref_json :: "jstr option \<Rightarrow> json" where
  "ref_json r = (case r of None \<Rightarrow> JNull | Some s \<Rightarrow> JStr s)"

definition webhook_body :: "json \<Rightarrow> run_ctx \<Rightarrow> jstr" where
  "webhook_body a ctx =
     (let b = get (lit ''body'') a in
      if truthy b then interpolate (js_string b) (rc_payload ctx)
      else json_stringify (JObj
        [(lit ''workflowId'', JStr (rc_workflowId ctx)), (lit ''executionId'', JStr (rc_executionId ctx)),
         (lit ''contactId'', ref_json (rc_contactId ctx)), (lit ''conversationId'', ref_json (rc_conversationId ctx)),
         (lit ''payload'', JObj (rc_payload ctx))]))"

text \<open>The encoding of the \<open>Authorization\<close> header is left out; what goes into it is kept.\<close>

definition webhook_auth :: "json \<Rightarrow> auth_header option" where
  "webhook_auth auth =
     (let kind = get (lit ''type'') auth in
      if kind = JStr (lit ''bearer'') \<and> truthy (get (lit ''token'') auth)
      then Some (BearerAuth (js_string (get (lit ''token'') auth)))
      else if kind = JStr (lit ''basic'') \<and> truthy (get (lit ''username'') auth)
      then Some (BasicAuth (js_string (get (lit ''username'') auth)) (js_string_nullish (get (lit ''password'') auth)))
      else None)"

definition webhook_request :: "json \<Rightarrow> run_ctx \<Rightarrow> safe_target \<Rightarrow> http_request" where
  "webhook_request a ctx target =
     (let m = js_upper (if truthy (get (lit ''method'') a) then js_string (get (lit ''method'') a) else lit ''POST'') in
      \<lparr>hq_url = st_url target, hq_host = st_hostHeader target, hq_method = m,
       hq_auth = webhook_auth (get (lit ''auth'') a),
       hq_body = (if m \<noteq> lit ''GET'' \<and> m \<noteq> lit ''DELETE'' then Some (webhook_body a ctx) else None)\<rparr>)"

definition response_ok :: "nat \<Rightarrow> bool" where
  "response_ok status \<longleftrightarrow> 200 \<le> status \<and> status \<le> 299"

definition capture :: "json \<Rightarrow> nat \<Rightarrow> jstr \<Rightarrow> json option \<Rightarrow> run_ctx \<Rightarrow> run_ctx" where
  "capture a status body parsed ctx =
     (case get (lit ''captureAs'') a of
        JStr name \<Rightarrow>
          if response_ok status \<and> name \<noteq> []
          then ctx\<lparr>rc_payload := obj_set name (case parsed of Some j \<Rightarrow> j | None \<Rightarrow> JStr body) (rc_payload ctx)\<rparr>
          else ctx
      | _ \<Rightarrow> ctx)"

definition run_webhook :: "json \<Rightarrow> run_ctx \<Rightarrow> nat \<Rightarrow> 'a wworld_scheme \<Rightarrow> 'a wworld_scheme step_result" where
  "run_webhook a ctx i w =
     (let t = lit ''HTTP_WEBHOOK''; url = js_string (get (lit ''url'') a) in
      case assertSafeWebhookUrl (x_url w) url of
        Inl problem \<Rightarrow>
          (let message = render_problem problem;
               w' = recordDelivery ctx i url None False (Some message) None None w
           in (Inr (entry w' i t StepFailed message), ctx, w'))
      | Inr target \<Rightarrow>
          (let body = webhook_body a ctx; (r, w1) = fetchWithBackoff (webhook_request a ctx target) w in
           case r of
             HttpResponse status responseBody parsed \<Rightarrow>
               (let w2 = recordDelivery ctx i url (Some status) (response_ok status) None (Some body) (Some responseBody) w1
                in (Inr (entry w2 i t (if response_ok status then StepOk else StepFailed) (lit ''HTTP '' @ dec_digits status)),
                    capture a status responseBody parsed ctx, w2))
           | HttpError _ message \<Rightarrow>
               (let w2 = recordDelivery ctx i url None False (Some message) (Some body) None w1
                in (Inr (entry w2 i t StepFailed (take 200 message)), ctx, w2))))"

section \<open>One action\<close>

definition runLeaf :: "json \<Rightarrow> run_ctx \<Rightarrow> nat \<Rightarrow> 'a wworld_scheme \<Rightarrow> 'a wworld_scheme step_result" where
  "runLeaf a ctx i w =
     (if a = JNull \<or> a = JUndef then (Inl (Thrown (lit ''cannot read type'')), ctx, w)
      else
        let t = type_of_json a in
        if t = lit ''WAIT_DELAY'' then
          (Inl (WorkflowPaused (i + 1)
             (case js_number (get (lit ''minutes'') a) of Fin m \<Rightarrow> Some (m * 60000) | _ \<Rightarrow> None)), ctx, w)
        else if t = lit ''ASSIGN_TEAM'' then run_assign_team a ctx i w
        else if t = lit ''ASSIGN_USER'' then run_assign_user a ctx i w
        else if t = lit ''SEND_MESSAGE'' then send_entry i t ctx (sendToContact ctx (js_string (get (lit ''body'') a)) w)
        else if t = lit ''ASK_QUESTION'' then run_ask a ctx i w
        else if t = lit ''SEND_TEMPLATE'' then run_send_template a ctx i w
        else if t = lit ''ADD_TAG'' then run_add_tag a ctx i w
        else if t = lit ''REMOVE_TAG'' then run_remove_tag a ctx i w
        else if t = lit ''UPDATE_CONTACT_FIELD'' then run_update_field a ctx i w
        else if t = lit ''SET_LIFECYCLE_STAGE'' then run_set_stage a ctx i w
        else if t = lit ''CLOSE_CONVERSATION'' then run_close a ctx i w
        else if t = lit ''OPEN_CONVERSATION'' then run_open ctx i w
        else if t = lit ''ADD_COMMENT'' then run_comment a ctx i w
        else if t = lit ''HTTP_WEBHOOK'' then run_webhook a ctx i w
        else (Inr (entry w i (js_string (get (lit ''type'') a)) StepSkipped (lit ''unsupported action'')), ctx, w))"

text \<open>The entries of a branch, or what interrupted it. Its outcome is the parent's entry.\<close>

definition branch_entry :: "'a wworld_scheme \<Rightarrow> nat \<Rightarrow> jstr \<Rightarrow> log_entry list \<Rightarrow> log_entry" where
  "branch_entry w i label results =
     (let failed = length (filter (\<lambda>r. le_outcome r = StepFailed) results) in
      entry w i (lit ''IF_ELSE'') (if failed > 0 then StepFailed else StepOk)
        (label @ lit '': '' @ dec_digits (length results) @ lit '' action(s)''
         @ (if failed > 0 then lit '', '' @ dec_digits failed @ lit '' failed'' else [])))"

function (sequential) runAction :: "json \<Rightarrow> run_ctx \<Rightarrow> nat \<Rightarrow> 'a wworld_scheme \<Rightarrow> 'a wworld_scheme step_result"
  and runBranch :: "json list \<Rightarrow> run_ctx \<Rightarrow> nat \<Rightarrow> 'a wworld_scheme \<Rightarrow>
        (raised + log_entry list) \<times> run_ctx \<times> 'a wworld_scheme" where
  "runAction a ctx i w =
     (if type_of_json a = lit ''IF_ELSE'' then
        (case conditionsHold (get (lit ''conditions'') a) ctx w of
           Inl e \<Rightarrow> (Inl (Thrown e), ctx, w)
         | Inr held \<Rightarrow>
             let label = (if held then lit ''then'' else lit ''else'') in
             (case get label a of
                JArr (b # bs) \<Rightarrow>
                  (case runBranch (b # bs) ctx i w of
                     (Inl e, ctx', w') \<Rightarrow> (Inl e, ctx', w')
                   | (Inr results, ctx', w') \<Rightarrow> (Inr (branch_entry w' i label results), ctx', w'))
              | _ \<Rightarrow> (Inr (entry w i (lit ''IF_ELSE'') StepOk (label @ lit '': no actions'')), ctx, w)))
      else runLeaf a ctx i w)"
| "runBranch [] ctx i w = (Inr [], ctx, w)"
| "runBranch (a # as) ctx i w =
     (case runAction a ctx i w of
        (Inl e, ctx', w') \<Rightarrow> (Inl e, ctx', w')
      | (Inr r, ctx', w') \<Rightarrow>
          (case runBranch as ctx' i w' of
             (Inl e, ctx'', w'') \<Rightarrow> (Inl e, ctx'', w'')
           | (Inr rs, ctx'', w'') \<Rightarrow> (Inr (r # rs), ctx'', w'')))"
  by pat_completeness auto
termination
proof (relation "measure (\<lambda>x. case x of Inl (a, _, _, _) \<Rightarrow> size a | Inr (as, _, _, _) \<Rightarrow> size_list size as)", goal_cases)
  case (2 a ctx i w held label b bs)
  then show ?case using size_get [of label a] by simp
qed simp_all

declare runAction.simps [simp del]

section \<open>A run\<close>

definition appendLog :: "jstr \<Rightarrow> log_entry list \<Rightarrow> 'a wworld_scheme \<Rightarrow> 'a wworld_scheme option" where
  "appendLog executionId entries w =
     (case x_execs w executionId of
        None \<Rightarrow> None
      | Some e \<Rightarrow> Some (w\<lparr>x_execs := (x_execs w)(executionId \<mapsto>
          e\<lparr>ex_log := slice_last MAX_LOG_ENTRIES (ex_log e @ entries)\<rparr>)\<rparr>))"

definition updateExecution :: "jstr \<Rightarrow> (exec_row \<Rightarrow> exec_row) \<Rightarrow> 'a wworld_scheme \<Rightarrow> 'a wworld_scheme option" where
  "updateExecution executionId f w =
     (case x_execs w executionId of
        None \<Rightarrow> None
      | Some e \<Rightarrow> Some (w\<lparr>x_execs := (x_execs w)(executionId \<mapsto> f e)\<rparr>))"

text \<open>\<open>Escaped\<close>: an error outside the \<open>try\<close>, which the caller of the run sees (the execution row is gone, or a
  deadline that is not a date).\<close>

datatype run_result =
    RunCompleted
  | RunWaiting nat "rat option"
  | RunAwaitingReply nat rat bool
  | RunFailed
  | Escaped

definition finish_run ::
  "run_ctx \<Rightarrow> log_entry list \<Rightarrow> (exec_row \<Rightarrow> exec_row) \<Rightarrow> run_result \<Rightarrow> 'a wworld_scheme \<Rightarrow> run_result \<times> 'a wworld_scheme" where
  "finish_run ctx entries upd result w =
     (case appendLog (rc_executionId ctx) entries w of
        None \<Rightarrow> (Escaped, w)
      | Some w1 \<Rightarrow> (case updateExecution (rc_executionId ctx) upd w1 of None \<Rightarrow> (Escaped, w1) | Some w2 \<Rightarrow> (result, w2)))"

definition round_minutes :: "rat \<Rightarrow> jstr" where
  "round_minutes delayMs = num_str (of_int \<lfloor>delayMs / 60000 + 1 / 2\<rfloor>)"

text \<open>The three ways a raised signal ends the loop.\<close>

definition stop_run ::
  "raised \<Rightarrow> json \<Rightarrow> nat \<Rightarrow> log_entry list \<Rightarrow> run_ctx \<Rightarrow> 'a wworld_scheme \<Rightarrow> run_result \<times> 'a wworld_scheme" where
  "stop_run r a index entries ctx w =
     (case r of
        WorkflowPaused resumeAt delayMs \<Rightarrow>
          finish_run ctx
            (entries @ [entry w index (lit ''WAIT_DELAY'') StepOk
               ((case delayMs of Some d \<Rightarrow> round_minutes d | None \<Rightarrow> lit ''NaN'') @ lit ''m'')])
            (\<lambda>e. e\<lparr>ex_status := WAITING, ex_currentStepIndex := resumeAt\<rparr>) (RunWaiting resumeAt delayMs) w
      | WorkflowAwaitingReply resumeAt timeoutMs continueOnTimeout \<Rightarrow>
          (case timeoutMs of
             None \<Rightarrow> (Escaped, w)
           | Some ms \<Rightarrow>
               let until = w_now w + \<lfloor>ms\<rfloor> in
               finish_run ctx
                 (entries @ [entry w index (lit ''ASK_QUESTION'') StepOk (lit ''awaiting reply until '' @ iso_time until)])
                 (\<lambda>e. e\<lparr>ex_status := AWAITING_REPLY, ex_currentStepIndex := resumeAt,
                         ex_awaitingUntil := Some until, ex_awaitingAttempts := 0\<rparr>)
                 (RunAwaitingReply resumeAt ms continueOnTimeout) w)
      | Thrown message \<Rightarrow>
          let m = take 400 message in
          finish_run ctx (entries @ [entry w index (js_string (get (lit ''type'') a)) StepFailed m])
            (\<lambda>e. e\<lparr>ex_status := FAILED, ex_currentStepIndex := index, ex_error := Some m\<rparr>) RunFailed w)"

fun run_from ::
  "json list \<Rightarrow> nat \<Rightarrow> log_entry list \<Rightarrow> run_ctx \<Rightarrow> 'a wworld_scheme \<Rightarrow> run_result \<times> run_ctx \<times> 'a wworld_scheme" where
  "run_from [] index entries ctx w =
     (let (r, w') = finish_run ctx entries (\<lambda>e. e\<lparr>ex_status := COMPLETED, ex_currentStepIndex := index\<rparr>) RunCompleted w
      in (r, ctx, w'))"
| "run_from (a # as) index entries ctx w =
     (case runAction a ctx index w of
        (Inr result, ctx', w') \<Rightarrow> run_from as (index + 1) (entries @ [result]) ctx' w'
      | (Inl e, ctx', w') \<Rightarrow> (let (r, w'') = stop_run e a index entries ctx' w' in (r, ctx', w'')))"

definition config_actions :: "json \<Rightarrow> json list" where
  "config_actions config = (case get (lit ''actions'') config of JArr as \<Rightarrow> as | _ \<Rightarrow> [])"

text \<open>\<open>fromStep\<close> past the end runs nothing and completes.\<close>

definition runWorkflowActions ::
  "json \<Rightarrow> run_ctx \<Rightarrow> nat \<Rightarrow> 'a wworld_scheme \<Rightarrow> run_result \<times> run_ctx \<times> 'a wworld_scheme" where
  "runWorkflowActions config ctx fromStep w =
     (let actions = config_actions config in
      if fromStep \<le> length actions then run_from (drop fromStep actions) fromStep [] ctx w
      else
        let (r, w') = finish_run ctx [] (\<lambda>e. e\<lparr>ex_status := COMPLETED, ex_currentStepIndex := length actions\<rparr>) RunCompleted w
        in (r, ctx, w'))"

end
