(* ===== verification/Workflow_Executor_Props.thy ===== *)
theory Workflow_Executor_Props
  imports Workflow_Executor
begin

text \<open>
  What a workflow run guarantees. Everything an action can do to the conversation world is one of a few
  effects (\<open>leaf_effect\<close>); an invariant that the effects keep is kept by whole runs, which is proved once in the
  locale \<open>run_invariant\<close> and interpreted for the consent rule, the conversation invariant and the bound on
  execution logs. The rest is about branches that cannot be interrupted, requests and failures.
\<close>

section \<open>The effects of an action\<close>

definition same_ids :: "run_ctx \<Rightarrow> run_ctx \<Rightarrow> bool" where
  "same_ids ctx ctx' \<longleftrightarrow> rc_contactId ctx' = rc_contactId ctx \<and> rc_conversationId ctx' = rc_conversationId ctx
     \<and> rc_executionId ctx' = rc_executionId ctx \<and> rc_workflowId ctx' = rc_workflowId ctx"

lemma same_ids_simps [simp]:
  "same_ids ctx ctx" "same_ids ctx (ctx\<lparr>rc_payload := p\<rparr>)" "same_ids ctx (ctx\<lparr>rc_emitted := e\<rparr>)"
  by (simp_all add: same_ids_def)

lemma same_ids_trans: "same_ids a b \<Longrightarrow> same_ids b c \<Longrightarrow> same_ids a c"
  by (simp add: same_ids_def)

inductive leaf_effect :: "run_ctx \<Rightarrow> 'a wworld_scheme \<Rightarrow> 'a wworld_scheme \<Rightarrow> bool" for ctx w where
  Core: "cworld.truncate w' = cworld.truncate w \<Longrightarrow> x_execs w' = x_execs w \<Longrightarrow> wworld.more w' = wworld.more w \<Longrightarrow> leaf_effect ctx w w'"
| Sent: "rc_contactId ctx = Some k \<Longrightarrow> w_contacts w k = Some ct \<Longrightarrow> ct_consent ct \<noteq> OPTED_OUT \<Longrightarrow> p = ct_phone ct \<Longrightarrow>
    leaf_effect ctx w (w\<lparr>w_sent := w_sent w @ [(s, p, body)]\<rparr>)"
| Routed: "w_convs w cid = Some c \<Longrightarrow> leaf_effect ctx w (w\<lparr>w_convs := (w_convs w)(cid \<mapsto> c\<lparr>cv_teamId := t, cv_assignedToId := u\<rparr>)\<rparr>)"
| Staged: "w_contacts w k = Some ct \<Longrightarrow>
    leaf_effect ctx w (w\<lparr>w_contacts := (w_contacts w)(k \<mapsto> ct\<lparr>ct_lifecycleStage := s\<rparr>)\<rparr>)"
| Noted: "leaf_effect ctx w (w\<lparr>w_messages := ms\<rparr>)"
| Closed: "leaf_effect ctx w (snd (closeConversation i w))"
| Reopened: "leaf_effect ctx w (snd (reopenConversation cid w))"

lemma effect_refl [simp]: "leaf_effect ctx w w"
  by (rule Core) simp_all

lemma send_effect: "leaf_effect ctx w (snd (sendToContact ctx body w))"
proof (cases "snd (sendToContact ctx body w) = w")
  case False
  then obtain k ct s b where "rc_contactId ctx = Some k" "w_contacts w k = Some ct" "ct_consent ct \<noteq> OPTED_OUT"
    and w': "snd (sendToContact ctx body w) = w\<lparr>w_sent := w_sent w @ [(s, ct_phone ct, b)]\<rparr>"
    by (auto simp: sendToContact_def send_text_def present_def truthy_ref_def split: option.splits sum.splits if_splits)
  then show ?thesis unfolding w' by (intro Sent) auto
qed simp

definition effects :: "run_ctx \<Rightarrow> 'a wworld_scheme \<Rightarrow> 'a wworld_scheme step_result \<Rightarrow> bool" where
  "effects ctx w r \<longleftrightarrow> same_ids ctx (fst (snd r)) \<and> leaf_effect ctx w (snd (snd r))"

lemma effects_simp [simp]: "effects ctx w (x, ctx', w') \<longleftrightarrow> same_ids ctx ctx' \<and> leaf_effect ctx w w'"
  by (simp add: effects_def)

lemma effects_if: "effects ctx w x \<Longrightarrow> effects ctx w y \<Longrightarrow> effects ctx w (if b then x else y)"
  by simp

lemma with_ref_effect: "(\<And>k. r = Some k \<Longrightarrow> effects ctx w (body k)) \<Longrightarrow> effects ctx w (with_ref r m i t ctx w body)"
  by (auto simp: with_ref_def present_def truthy_ref_def split: option.splits)

lemma send_entry_effect: "leaf_effect ctx w (snd r) \<Longrightarrow> effects ctx w (send_entry i t ctx r)"
  by (auto simp: send_entry_def split: prod.splits sum.splits)

lemma fetch_loop_core:
  "cworld.truncate (snd (fetch_loop n req w)) = cworld.truncate w \<and> x_execs (snd (fetch_loop n req w)) = x_execs w
    \<and> wworld.more (snd (fetch_loop n req w)) = wworld.more w"
proof (induction n arbitrary: w)
  case 0
  then show ?case by (simp add: cworld.truncate_def)
next
  case (Suc n)
  have "cworld.truncate (w\<lparr>x_requests := rs\<rparr>) = cworld.truncate w" for rs by (simp add: cworld.truncate_def)
  with Suc show ?case by (auto simp: Let_def split: http_result.splits)
qed

lemma recordDelivery_core [simp]:
  "cworld.truncate (recordDelivery ctx i u s ok e q r w) = cworld.truncate w" "x_execs (recordDelivery ctx i u s ok e q r w) = x_execs w"
  "wworld.more (recordDelivery ctx i u s ok e q r w) = wworld.more w"
  by (simp_all add: recordDelivery_def cworld.truncate_def)

lemma capture_ids [simp]: "same_ids ctx (capture a s b p ctx)"
  by (auto simp: capture_def split: json.splits)

lemma webhook_effect:
  "effects ctx w (run_webhook a ctx i w)"
  using fetch_loop_core [of _ _ w]
  by (auto simp: run_webhook_def Let_def fetchWithBackoff_def split: sum.splits prod.splits http_result.splits intro!: Core)
    (metis snd_conv)+

lemma routed_team: "w_convs w cid = Some c \<Longrightarrow> leaf_effect ctx w (w\<lparr>w_convs := (w_convs w)(cid \<mapsto> c\<lparr>cv_teamId := t\<rparr>)\<rparr>)"
  using Routed [where t = t and u = "cv_assignedToId c" and ctx = ctx] by fastforce

lemma routed_user: "w_convs w cid = Some c \<Longrightarrow> leaf_effect ctx w (w\<lparr>w_convs := (w_convs w)(cid \<mapsto> c\<lparr>cv_assignedToId := u\<rparr>)\<rparr>)"
  using Routed [where t = "cv_teamId c" and u = u and ctx = ctx] by fastforce

lemma assign_team_effect:
  "effects ctx w (run_assign_team a ctx i w)"
  unfolding run_assign_team_def Let_def by (rule with_ref_effect) (simp add: routed_team split: option.splits)

lemma assign_user_effect:
  "effects ctx w (run_assign_user a ctx i w)"
  unfolding run_assign_user_def Let_def by (rule with_ref_effect) (simp add: routed_user split: option.splits)

lemma ask_effect: "effects ctx w (run_ask a ctx i w)"
  using send_effect [of ctx w "js_string (get (lit ''prompt'') a)"]
  by (auto simp: run_ask_def Let_def split: sum.splits prod.splits)

lemma template_effect:
  "effects ctx w (run_send_template a ctx i w)"
proof (cases "\<exists>body. x_templates w (js_string (get (lit ''templateId'') a)) = Some (body, True)")
  case True
  then obtain body where "x_templates w (js_string (get (lit ''templateId'') a)) = Some (body, True)" by blast
  with send_entry_effect [OF send_effect] show ?thesis by (simp add: run_send_template_def)
qed (auto simp: run_send_template_def split: option.splits bool.splits)

lemma add_tag_effect: "effects ctx w (run_add_tag a ctx i w)"
  unfolding run_add_tag_def Let_def by (rule with_ref_effect) (auto simp: cworld.truncate_def intro!: Core)

lemma remove_tag_effect:
  "effects ctx w (run_remove_tag a ctx i w)"
  unfolding run_remove_tag_def Let_def by (rule with_ref_effect) (auto simp: cworld.truncate_def intro!: Core)

lemma update_field_effect:
  "effects ctx w (run_update_field a ctx i w)"
  unfolding run_update_field_def Let_def
  by (rule with_ref_effect) (auto simp: cworld.truncate_def split: option.splits intro!: Core)

lemma set_stage_effect:
  "effects ctx w (run_set_stage a ctx i w)"
  unfolding run_set_stage_def Let_def by (rule with_ref_effect) (simp add: Staged split: option.splits)

lemma close_effect: "effects ctx w (run_close a ctx i w)"
  unfolding run_close_def Let_def
proof (rule with_ref_effect)
  fix k
  show "effects ctx w (case closeConversation (workflow_close_input a k) w of
          (Inl e, w') \<Rightarrow> (Inl (Thrown (lifecycle_message e)), ctx, w')
        | (Inr _, w') \<Rightarrow> (Inr (entry w' i (lit ''CLOSE_CONVERSATION'') StepOk (lit ''resolved'')), ctx, w'))"
    using Closed [of ctx w "workflow_close_input a k"] by (auto split: prod.splits sum.splits)
qed

lemma open_effect: "effects ctx w (run_open ctx i w)"
  unfolding run_open_def Let_def
proof (rule with_ref_effect)
  fix k
  show "effects ctx w (case reopenConversation k w of
          (Inl e, w') \<Rightarrow> (Inl (Thrown (lifecycle_message e)), ctx, w')
        | (Inr (_, changed), w') \<Rightarrow>
            (Inr (entry w' i (lit ''OPEN_CONVERSATION'') StepOk (if changed then lit ''reopened'' else lit ''already open'')), ctx, w'))"
    using Reopened [of ctx w k] by (auto split: prod.splits sum.splits)
qed

lemma comment_effect: "effects ctx w (run_comment a ctx i w)"
  unfolding run_comment_def Let_def by (rule with_ref_effect) (simp add: Noted)

lemmas leaf_effects = assign_team_effect assign_user_effect ask_effect template_effect add_tag_effect remove_tag_effect
  update_field_effect set_stage_effect close_effect open_effect comment_effect webhook_effect

lemma runLeaf_effects: "effects ctx w (runLeaf a ctx i w)"
  unfolding runLeaf_def Let_def
  by (intro effects_if leaf_effects send_entry_effect send_effect) simp_all

section \<open>Induction over actions\<close>

text \<open>Actions and the lists in their branches, and the four ways an action can go.\<close>

lemma action_induct:
  assumes leaf: "\<And>a. type_of_json a \<noteq> lit ''IF_ELSE'' \<Longrightarrow> P a"
    and branch: "\<And>a. type_of_json a = lit ''IF_ELSE'' \<Longrightarrow> (\<And>label b bs. get label a = JArr (b # bs) \<Longrightarrow> Q (b # bs)) \<Longrightarrow> P a"
    and nil: "Q []" and cons: "\<And>a as. P a \<Longrightarrow> Q as \<Longrightarrow> Q (a # as)"
  shows "P a" and "Q as"
proof -
  have both: "(\<forall>a. size a = n \<longrightarrow> P a) \<and> (\<forall>as. size_list size as = n \<longrightarrow> Q as)" for n
  proof (induction n rule: less_induct)
    case (less n)
    have "P a" if n: "size a = n" for a
    proof (cases "type_of_json a = lit ''IF_ELSE''")
      case True
      then show ?thesis
      proof (rule branch)
        fix label b bs
        assume g: "get label a = JArr (b # bs)"
        then have "size_list size (b # bs) < n" using size_get [of label a] n by simp
        with less show "Q (b # bs)" by blast
      qed
    qed (rule leaf)
    moreover have "Q as" if n: "size_list size as = n" for as
    proof (cases as)
      case (Cons a as')
      with n have "size a < n" "size_list size as' < n" by simp_all
      with less Cons show ?thesis by (simp add: cons)
    qed (simp add: nil)
    ultimately show ?case by blast
  qed
  show "P a" "Q as" using both by blast+
qed

lemma runAction_cases:
  obtains (Leaf) "type_of_json a \<noteq> lit ''IF_ELSE''" "runAction a ctx i w = runLeaf a ctx i w"
  | (Refused) e where "type_of_json a = lit ''IF_ELSE''" "runAction a ctx i w = (Inl (Thrown e), ctx, w)"
  | (Empty) label where "type_of_json a = lit ''IF_ELSE''"
      "runAction a ctx i w = (Inr (entry w i (lit ''IF_ELSE'') StepOk (label @ lit '': no actions'')), ctx, w)"
  | (Interrupted) label b bs e ctx' w' where "type_of_json a = lit ''IF_ELSE''" "label \<in> {lit ''then'', lit ''else''}"
      "get label a = JArr (b # bs)" "runBranch (b # bs) ctx i w = (Inl e, ctx', w')" "runAction a ctx i w = (Inl e, ctx', w')"
  | (Branch) label b bs rs ctx' w' where "type_of_json a = lit ''IF_ELSE''" "label \<in> {lit ''then'', lit ''else''}"
      "get label a = JArr (b # bs)" "runBranch (b # bs) ctx i w = (Inr rs, ctx', w')"
      "runAction a ctx i w = (Inr (branch_entry w' i label rs), ctx', w')"
proof (cases "type_of_json a = lit ''IF_ELSE''")
  case False
  with Leaf show ?thesis by (simp add: runAction.simps)
next
  case True
  show ?thesis
  proof (cases "conditionsHold (get (lit ''conditions'') a) ctx w")
    case (Inl e)
    with True show ?thesis by (intro Refused) (simp_all add: runAction.simps)
  next
    case (Inr held)
    let ?label = "if held then lit ''then'' else lit ''else''"
    have l: "?label \<in> {lit ''then'', lit ''else''}" by simp
    show ?thesis
    proof (cases "\<exists>b bs. get ?label a = JArr (b # bs)")
      case False
      with True Inr show ?thesis
        by (intro Empty [of ?label]) (auto simp: runAction.simps Let_def split: json.splits list.splits)
    next
      case ex: True
      then obtain b bs where g: "get ?label a = JArr (b # bs)" by blast
      obtain r ctx' w' where r: "runBranch (b # bs) ctx i w = (r, ctx', w')" by (cases "runBranch (b # bs) ctx i w") auto
      have eq: "runAction a ctx i w = (case runBranch (b # bs) ctx i w of
          (Inl e, ctx', w') \<Rightarrow> (Inl e, ctx', w')
        | (Inr results, ctx', w') \<Rightarrow> (Inr (branch_entry w' i ?label results), ctx', w'))"
        unfolding runAction.simps [of a] Let_def using True Inr g by (simp only: refl if_True sum.case json.case list.case)
      show ?thesis
      proof (cases r)
        case (Inl e)
        with True l g r eq show ?thesis by (intro Interrupted [of ?label b bs e ctx' w']) (simp_all only: prod.case sum.case)
      next
        case (Inr rs)
        with True l g r eq show ?thesis by (intro Branch [of ?label b bs rs ctx' w']) (simp_all only: prod.case sum.case)
      qed
    qed
  qed
qed

section \<open>Invariants of a run\<close>

text \<open>What an update of an execution row during a run leaves alone.\<close>

definition same_run :: "exec_row \<Rightarrow> exec_row \<Rightarrow> bool" where
  "same_run e e' \<longleftrightarrow> ex_log e' = ex_log e \<and> ex_workflowId e' = ex_workflowId e \<and> ex_contactId e' = ex_contactId e
     \<and> ex_conversationId e' = ex_conversationId e \<and> ex_depth e' = ex_depth e \<and> ex_createdAt e' = ex_createdAt e"

locale run_invariant =
  fixes inv :: "run_ctx \<Rightarrow> 'a wworld_scheme \<Rightarrow> bool"
  assumes inv_ids: "same_ids ctx ctx' \<Longrightarrow> inv ctx w \<Longrightarrow> inv ctx' w"
    and inv_effect: "leaf_effect ctx w w' \<Longrightarrow> inv ctx w \<Longrightarrow> inv ctx w'"
    and inv_log: "appendLog execution es w = Some w' \<Longrightarrow> inv ctx w \<Longrightarrow> inv ctx w'"
    and inv_exec: "updateExecution execution f w = Some w' \<Longrightarrow> (\<And>e. same_run e (f e)) \<Longrightarrow> inv ctx w \<Longrightarrow> inv ctx w'"
begin

lemma leaf_inv: "inv ctx w \<Longrightarrow> inv (fst (snd (runLeaf a ctx i w))) (snd (snd (runLeaf a ctx i w)))"
  using runLeaf_effects [of ctx w a i] inv_ids inv_effect unfolding effects_def by blast

lemma action_inv:
  "\<forall>ctx w. inv ctx w \<longrightarrow> inv (fst (snd (runAction a ctx i w))) (snd (snd (runAction a ctx i w)))"
  "\<forall>ctx w. inv ctx w \<longrightarrow> inv (fst (snd (runBranch as ctx i w))) (snd (snd (runBranch as ctx i w)))"
proof (induction rule: action_induct)
  case (1 a)
  then show ?case by (simp add: runAction.simps leaf_inv)
next
  case (2 a)
  show ?case
  proof (intro allI impI)
    fix ctx w
    assume "inv ctx w"
    then show "inv (fst (snd (runAction a ctx i w))) (snd (snd (runAction a ctx i w)))"
      by (cases rule: runAction_cases [of a ctx i w]) (use 2 in force)+
  qed
next
  case (4 a as)
  show ?case
  proof (intro allI impI)
    fix ctx w
    assume "inv ctx w"
    with 4(1) have i: "inv (fst (snd (runAction a ctx i w))) (snd (snd (runAction a ctx i w)))" by blast
    obtain r ctx' w' where r: "runAction a ctx i w = (r, ctx', w')" by (cases "runAction a ctx i w") auto
    obtain s ctx'' w'' where s: "runBranch as ctx' i w' = (s, ctx'', w'')" by (cases "runBranch as ctx' i w'") auto
    from 4(2) i r s have "inv ctx'' w''" by fastforce
    with i r s show "inv (fst (snd (runBranch (a # as) ctx i w))) (snd (snd (runBranch (a # as) ctx i w)))"
      by (simp split: sum.splits)
  qed
qed simp

lemma finish_inv:
  "inv ctx w \<Longrightarrow> (\<And>e. same_run e (f e)) \<Longrightarrow> inv ctx (snd (finish_run ctx es f r w))"
  by (auto simp: finish_run_def split: option.splits intro: inv_log inv_exec)

lemma stop_inv: "inv ctx w \<Longrightarrow> inv ctx (snd (stop_run r a index es ctx w))"
  by (cases r) (auto simp: stop_run_def Let_def same_run_def intro!: finish_inv split: option.splits)

lemma run_from_inv: "inv ctx w \<Longrightarrow> inv (fst (snd (run_from as index es ctx w))) (snd (snd (run_from as index es ctx w)))"
proof (induction as index es ctx w rule: run_from.induct)
  case (1 index es ctx w)
  then show ?case
    using finish_inv [of ctx w "\<lambda>e. e\<lparr>ex_status := COMPLETED, ex_currentStepIndex := index\<rparr>" es RunCompleted]
    by (auto simp: Let_def same_run_def split: prod.splits)
next
  case (2 a as index es ctx w)
  obtain r ctx' w' where a: "runAction a ctx index w = (r, ctx', w')" by (cases "runAction a ctx index w") auto
  with action_inv(1) [rule_format, OF 2(2), of a index] have i: "inv ctx' w'" by simp
  show ?case
  proof (cases r)
    case (Inl e)
    with a stop_inv [OF i, of e a index es] show ?thesis by (auto simp: Let_def split: prod.splits)
  next
    case (Inr entry)
    from 2(1) [OF a [symmetric] Inr refl i] a Inr show ?thesis by simp
  qed
qed

lemma run_inv: "inv ctx w \<Longrightarrow> inv (fst (snd (runWorkflowActions config ctx from w))) (snd (snd (runWorkflowActions config ctx from w)))"
  using run_from_inv finish_inv
    [of ctx w "\<lambda>e. e\<lparr>ex_status := COMPLETED, ex_currentStepIndex := length (config_actions config)\<rparr>" "[]" RunCompleted]
  by (auto simp: runWorkflowActions_def Let_def same_run_def split: prod.splits)

end

text \<open>The fields of the world behind a core that is unchanged.\<close>

lemma truncate_fields:
  assumes "cworld.truncate w' = cworld.truncate w"
  shows "w_now w' = w_now w" "w_convs w' = w_convs w" "w_contacts w' = w_contacts w" "w_closures w' = w_closures w"
    "w_sent w' = w_sent w" "w_auto_replies w' = w_auto_replies w" "w_config w' = w_config w"
  using assms by (simp_all add: cworld.truncate_def)

lemma exec_frame:
  "appendLog e es w = Some w' \<Longrightarrow> cworld.truncate w' = cworld.truncate w"
  "updateExecution e f w = Some w' \<Longrightarrow> cworld.truncate w' = cworld.truncate w"
  by (auto simp: appendLog_def updateExecution_def cworld.truncate_def split: option.splits)

subsection \<open>The conversation invariant\<close>

lemma lifecycle_ok_core: "cworld.truncate w' = cworld.truncate w \<Longrightarrow> lifecycle_ok w \<Longrightarrow> lifecycle_ok w'"
  using truncate_fields [of w' w] by (auto simp: lifecycle_ok_def)

lemma lifecycle_ok_effect: "leaf_effect ctx w w' \<Longrightarrow> lifecycle_ok w \<Longrightarrow> lifecycle_ok w'"
proof (induction rule: leaf_effect.induct)
  case (Core w')
  then show ?case by (simp add: lifecycle_ok_core)
next
  case (Routed cid c u t)
  then have "conv_ok (w_now w) (c\<lparr>cv_teamId := t, cv_assignedToId := u\<rparr>)" by (auto simp: lifecycle_ok_def conv_ok_def)
  with Routed(2) show ?case by (rule lifecycle_ok_upd) simp_all
next
  case (Closed i)
  then show ?case by (simp add: closeConversation_ok)
next
  case (Reopened cid)
  then show ?case by (simp add: reopenConversation_ok)
qed (simp_all add: lifecycle_ok_def)

interpretation lifecycle_run: run_invariant "\<lambda>_ w. lifecycle_ok w"
  by unfold_locales (auto intro: lifecycle_ok_effect lifecycle_ok_core dest: exec_frame)

subsection \<open>Consent\<close>

text \<open>The contact of the run has opted out and no reply goes out on closing; nothing has been sent beyond \<open>sent\<close>.\<close>

definition silenced :: "(jstr \<times> jstr \<times> jstr) list \<Rightarrow> run_ctx \<Rightarrow> 'a cworld_scheme \<Rightarrow> bool" where
  "silenced sent ctx w \<longleftrightarrow>
     (\<exists>k ct. rc_contactId ctx = Some k \<and> w_contacts w k = Some ct \<and> ct_consent ct = OPTED_OUT)
     \<and> resolve_auto_reply (lit ''CONVERSATION_CLOSED'') w = None \<and> w_sent w = sent"

lemma closing_reply_none:
  "resolve_auto_reply (lit ''CONVERSATION_CLOSED'') w = None \<Longrightarrow> send_conversation_closing_reply cid w = w"
  by (simp add: send_conversation_closing_reply_def split: option.splits)

lemma silenced_close:
  assumes "silenced sent ctx w"
  shows "silenced sent ctx (snd (closeConversation i w))"
proof -
  have "resolve_auto_reply (lit ''CONVERSATION_CLOSED'') (w\<lparr>w_convs := x, w_closures := y, w_events := z\<rparr>) = None" for x y z
    using assms by (simp add: silenced_def resolve_auto_reply_def)
  then have "silenced sent ctx (snd (close_commit i snap w))" for snap
    using assms
    by (auto simp: close_commit_def Let_def closing_reply_none silenced_def resolve_auto_reply_def split: option.splits)
  moreover have "snd (closeConversation i w) = w \<or> (\<exists>snap. snd (closeConversation i w) = snd (close_commit i snap w))"
    by (auto simp: closeConversation_def case_prod_unfold Let_def split: sum.splits)
  ultimately show ?thesis using assms by auto
qed

lemma silenced_reopen: "silenced sent ctx w \<Longrightarrow> silenced sent ctx (snd (reopenConversation cid w))"
  by (auto simp: reopenConversation_def reopen_commit_def Let_def silenced_def resolve_auto_reply_def
      split: sum.splits option.splits)

lemma silenced_core: "cworld.truncate w' = cworld.truncate w \<Longrightarrow> silenced sent ctx w \<Longrightarrow> silenced sent ctx w'"
  using truncate_fields [of w' w] by (auto simp: silenced_def resolve_auto_reply_def)

lemma silenced_effect: "leaf_effect ctx w w' \<Longrightarrow> silenced sent ctx w \<Longrightarrow> silenced sent ctx w'"
proof (induction rule: leaf_effect.induct)
  case (Core w')
  then show ?case by (simp add: silenced_core)
next
  case (Sent k ct p s body)
  then show ?case by (simp add: silenced_def)
next
  case (Closed i)
  then show ?case by (simp add: silenced_close)
next
  case (Reopened cid)
  then show ?case by (simp add: silenced_reopen)
next
  case (Staged k ct s)
  then obtain j cj where j: "rc_contactId ctx = Some j" "w_contacts w j = Some cj" "ct_consent cj = OPTED_OUT"
    and rest: "resolve_auto_reply (lit ''CONVERSATION_CLOSED'') w = None" "w_sent w = sent"
    by (auto simp: silenced_def)
  have "\<exists>ct'. ((w_contacts w)(k \<mapsto> ct\<lparr>ct_lifecycleStage := s\<rparr>)) j = Some ct' \<and> ct_consent ct' = OPTED_OUT"
    using j Staged(1) by (cases "k = j") simp_all
  with j(1) rest show ?case by (simp add: silenced_def resolve_auto_reply_def)
qed (simp_all add: silenced_def resolve_auto_reply_def)

lemma silenced_ids: "same_ids ctx ctx' \<Longrightarrow> silenced sent ctx w \<Longrightarrow> silenced sent ctx' w"
  by (simp add: silenced_def same_ids_def)

interpretation consent: run_invariant "silenced sent" for sent
  by unfold_locales
    (blast intro: silenced_ids silenced_effect silenced_core dest: exec_frame)+

subsection \<open>Logs\<close>

definition logs_bounded :: "'a wworld_scheme \<Rightarrow> bool" where
  "logs_bounded w \<longleftrightarrow> (\<forall>x e. x_execs w x = Some e \<longrightarrow> length (ex_log e) \<le> MAX_LOG_ENTRIES)"

lemma conversation_execs:
  "x_execs (snd (closeConversation i w)) = x_execs w" "x_execs (snd (reopenConversation cid w)) = x_execs w"
  "x_execs (send_conversation_closing_reply cid w) = x_execs w"
proof -
  show r: "x_execs (send_conversation_closing_reply cid w) = x_execs w" for cid and w :: "'a wworld_scheme"
    by (simp add: send_conversation_closing_reply_def split: option.splits sum.splits)
  show "x_execs (snd (closeConversation i w)) = x_execs w"
    by (simp add: closeConversation_def close_commit_def Let_def r split: sum.splits option.splits prod.splits)
  show "x_execs (snd (reopenConversation cid w)) = x_execs w"
    by (simp add: reopenConversation_def reopen_commit_def Let_def split: sum.splits option.splits)
qed

lemma effect_execs: "leaf_effect ctx w w' \<Longrightarrow> x_execs w' = x_execs w"
  by (induction rule: leaf_effect.induct) (simp_all add: conversation_execs)

lemma logs_append: "appendLog x es w = Some w' \<Longrightarrow> logs_bounded w \<Longrightarrow> logs_bounded w'"
  by (auto simp: logs_bounded_def appendLog_def length_slice_last split: option.splits if_splits)

lemma logs_update:
  "updateExecution x f w = Some w' \<Longrightarrow> (\<And>e. same_run e (f e)) \<Longrightarrow> logs_bounded w \<Longrightarrow> logs_bounded w'"
  by (auto simp: logs_bounded_def updateExecution_def same_run_def split: option.splits if_splits)

interpretation logs: run_invariant "\<lambda>_ w. logs_bounded w"
proof unfold_locales
  fix ctx and w w' :: "'a wworld_scheme"
  assume "leaf_effect ctx w w'" "logs_bounded w"
  then show "logs_bounded w'" by (simp add: logs_bounded_def effect_execs)
qed (assumption | rule logs_append logs_update)+

subsection \<open>What a run cannot change\<close>

definition same_origin :: "exec_row \<Rightarrow> exec_row \<Rightarrow> bool" where
  "same_origin e e' \<longleftrightarrow> ex_workflowId e' = ex_workflowId e \<and> ex_contactId e' = ex_contactId e
     \<and> ex_depth e' = ex_depth e \<and> ex_createdAt e' = ex_createdAt e"

lemma same_origin_refl [simp]: "same_origin e e"
  by (simp add: same_origin_def)

lemma same_origin_trans: "same_origin a b \<Longrightarrow> same_origin b c \<Longrightarrow> same_origin a c"
  by (simp add: same_origin_def)

text \<open>The clock, the tables outside the executor, and where each execution came from.\<close>

definition frame_of ::
  "(jstr \<Rightarrow> exec_row option) \<Rightarrow> int \<Rightarrow> 'a \<Rightarrow> run_ctx \<Rightarrow> 'a wworld_scheme \<Rightarrow> bool" where
  "frame_of execs now rest ctx w \<longleftrightarrow>
     w_now w = now \<and> wworld.more w = rest \<and> (\<forall>x. rel_option same_origin (execs x) (x_execs w x))"

lemma conversation_more:
  "wworld.more (send_conversation_closing_reply cid w) = wworld.more w"
  "wworld.more (snd (closeConversation i w)) = wworld.more w" "wworld.more (snd (reopenConversation cid w)) = wworld.more w"
  "w_now (snd (closeConversation i w)) = w_now w" "w_now (snd (reopenConversation cid w)) = w_now w"
proof -
  show r: "wworld.more (send_conversation_closing_reply cid w) = wworld.more w" for cid and w :: "'a wworld_scheme"
    by (simp add: send_conversation_closing_reply_def split: option.splits sum.splits)
  show "wworld.more (snd (closeConversation i w)) = wworld.more w"
    by (simp add: closeConversation_def close_commit_def Let_def r split: sum.splits option.splits prod.splits)
  have n: "w_now (snd (close_commit i snap w)) = w_now w" for snap
    by (simp add: close_commit_def Let_def frame_simps split: option.splits)
  show "w_now (snd (closeConversation i w)) = w_now w"
    by (simp add: closeConversation_def case_prod_unfold Let_def n split: sum.splits)
qed (simp_all add: reopenConversation_def reopen_commit_def Let_def split: sum.splits option.splits)

lemma effect_frame: "leaf_effect ctx w w' \<Longrightarrow> w_now w' = w_now w \<and> wworld.more w' = wworld.more w"
proof (induction rule: leaf_effect.induct)
  case (Core w')
  then show ?case using truncate_fields(1) by blast
qed (simp_all add: conversation_more)

lemma frame_of_upd:
  assumes "frame_of execs now rest ctx w" and "x_execs w y = Some e" and "same_origin e e'"
  shows "frame_of execs now rest ctx (w\<lparr>x_execs := (x_execs w)(y \<mapsto> e')\<rparr>)"
proof -
  have "rel_option same_origin (execs y) (Some e)" using assms(1,2) by (metis frame_of_def)
  then obtain e0 where "execs y = Some e0" "same_origin e0 e" by (auto simp: option_rel_Some2)
  with assms(3) have "rel_option same_origin (execs y) (Some e')" by (auto intro: same_origin_trans)
  with assms(1) show ?thesis by (simp add: frame_of_def)
qed

interpretation frame: run_invariant "frame_of execs now rest" for execs now rest
proof unfold_locales
  fix ctx and w w' :: "'a wworld_scheme"
  assume "leaf_effect ctx w w'" "frame_of execs now rest ctx w"
  then show "frame_of execs now rest ctx w'" by (simp add: frame_of_def effect_frame effect_execs)
next
  fix x es ctx and w w' :: "'a wworld_scheme"
  assume "appendLog x es w = Some w'" "frame_of execs now rest ctx w"
  then show "frame_of execs now rest ctx w'"
    by (auto simp: appendLog_def same_origin_def split: option.splits intro!: frame_of_upd)
next
  fix x f ctx and w w' :: "'a wworld_scheme"
  assume "updateExecution x f w = Some w'" "\<And>e. same_run e (f e)" "frame_of execs now rest ctx w"
  then show "frame_of execs now rest ctx w'"
    by (auto simp: updateExecution_def same_origin_def same_run_def split: option.splits intro!: frame_of_upd)
qed (simp add: frame_of_def)

section \<open>Signals\<close>

text \<open>Where a signal that suspends the run can come from.\<close>

primrec is_signal :: "raised + 'r \<Rightarrow> bool" where
  "is_signal (Inl e) = (case e of Thrown _ \<Rightarrow> False | _ \<Rightarrow> True)"
| "is_signal (Inr _) = False"

lemma with_ref_quiet: "(\<And>k. \<not> is_signal (fst (body k))) \<Longrightarrow> \<not> is_signal (fst (with_ref r m i t ctx w body))"
  by (simp add: with_ref_def)

lemma quiet_if: "\<not> is_signal (fst x) \<Longrightarrow> \<not> is_signal (fst y) \<Longrightarrow> \<not> is_signal (fst (if b then x else y))"
  by simp

lemma quiet_leaves:
  "\<not> is_signal (fst (send_entry i t ctx r))"
  "\<not> is_signal (fst (run_assign_team a ctx i w))" "\<not> is_signal (fst (run_assign_user a ctx i w))"
  "\<not> is_signal (fst (run_add_tag a ctx i w))" "\<not> is_signal (fst (run_remove_tag a ctx i w))"
  "\<not> is_signal (fst (run_update_field a ctx i w))" "\<not> is_signal (fst (run_set_stage a ctx i w))"
  "\<not> is_signal (fst (run_close a ctx i w))" "\<not> is_signal (fst (run_open ctx i w))"
  "\<not> is_signal (fst (run_comment a ctx i w))"
  unfolding send_entry_def run_assign_team_def run_assign_user_def run_add_tag_def run_remove_tag_def run_update_field_def
    run_set_stage_def run_close_def run_open_def run_comment_def Let_def
  by (auto intro!: with_ref_quiet split: option.splits sum.splits prod.splits if_split_asm)

lemma quiet_template: "\<not> is_signal (fst (run_send_template a ctx i w))"
  by (auto simp: run_send_template_def quiet_leaves split: option.splits bool.splits)

lemma quiet_webhook: "\<not> is_signal (fst (run_webhook a ctx i w))"
  by (auto simp: run_webhook_def Let_def split: sum.splits prod.splits http_result.splits)

lemma quiet_leaf:
  assumes "type_of_json a \<noteq> lit ''WAIT_DELAY''" and "type_of_json a \<noteq> lit ''ASK_QUESTION''"
  shows "\<not> is_signal (fst (runLeaf a ctx i w))"
  unfolding runLeaf_def Let_def if_not_P [OF assms(1)] if_not_P [OF assms(2)]
  by (intro quiet_if quiet_leaves quiet_template quiet_webhook) simp_all

lemma ready_delay: "action_ready env (d, a) \<Longrightarrow> type_of_json a = lit ''WAIT_DELAY'' \<Longrightarrow> d = 0 \<and> whole_minutes (get (lit ''minutes'') a)"
  by (simp add: action_ready_def)

lemma ready_ask: "action_ready env (d, a) \<Longrightarrow> type_of_json a = lit ''ASK_QUESTION'' \<Longrightarrow> d = 0"
  by (simp add: action_ready_def)

lemma below_branch:
  assumes "type_of_json a = lit ''IF_ELSE''" and "label \<in> {lit ''then'', lit ''else''}" and "get label a = JArr bs"
    and "list_all P (below d a)"
  shows "list_all P (subactions (Suc d) (JArr bs))"
  using assms(4) unfolding below_def if_P [OF assms(1)] using assms(2,3) by auto

text \<open>Inside a branch that passed validation nothing suspends the run.\<close>

lemma ready_branch_quiet:
  "\<forall>d ctx (w :: 'w wworld_scheme). 0 < d \<longrightarrow> list_all (action_ready env) ((d, a) # below d a) \<longrightarrow> \<not> is_signal (fst (runAction a ctx i w))"
  "\<forall>d ctx (w :: 'w wworld_scheme). 0 < d \<longrightarrow> list_all (action_ready env) (subactions d (JArr as)) \<longrightarrow> \<not> is_signal (fst (runBranch as ctx i w))"
proof (induction rule: action_induct)
  case (1 a)
  show ?case
  proof (intro allI impI)
    fix d :: nat and ctx and w :: "'w wworld_scheme"
    assume "0 < d" and "list_all (action_ready env) ((d, a) # below d a)"
    then have "type_of_json a \<noteq> lit ''WAIT_DELAY''" "type_of_json a \<noteq> lit ''ASK_QUESTION''"
      using ready_delay ready_ask by fastforce+
    with 1 show "\<not> is_signal (fst (runAction a ctx i w))" by (simp add: runAction.simps quiet_leaf)
  qed
next
  case (2 a)
  show ?case
  proof (intro allI impI)
    fix d :: nat and ctx and w :: "'w wworld_scheme"
    assume d: "0 < d" and r: "list_all (action_ready env) ((d, a) # below d a)"
    show "\<not> is_signal (fst (runAction a ctx i w))"
    proof (cases rule: runAction_cases [of a ctx i w])
      case (Interrupted label b bs e ctx' w')
      then have "list_all (action_ready env) (subactions (Suc d) (JArr (b # bs)))"
        using r below_branch [of a label "b # bs" "action_ready env" d] by simp
      with 2(2) [OF Interrupted(3)] Interrupted(4) have "\<not> is_signal (Inl e :: raised + log_entry list)"
        by (metis fst_conv zero_less_Suc)
      with Interrupted(5) show ?thesis by simp
    qed (use 2(1) in simp_all)
  qed
next
  case (4 a as)
  show ?case
  proof (intro allI impI)
    fix d :: nat and ctx and w :: "'w wworld_scheme"
    assume d: "0 < d" and r: "list_all (action_ready env) (subactions d (JArr (a # as)))"
    then have ra: "list_all (action_ready env) ((d, a) # below d a)" and ras: "list_all (action_ready env) (subactions d (JArr as))"
      by (simp_all add: subactions_JArr)
    obtain x ctx' w' where x: "runAction a ctx i w = (x, ctx', w')" by (cases "runAction a ctx i w") auto
    from 4(1) d ra x have "\<not> is_signal x" by (metis fst_conv)
    moreover obtain y ctx'' w'' where y: "runBranch as ctx' i w' = (y, ctx'', w'')" by (cases "runBranch as ctx' i w'") auto
    moreover from 4(2) d ras y have "\<not> is_signal y" by (metis fst_conv)
    ultimately show "\<not> is_signal (fst (runBranch (a # as) ctx i w))"
      using x by (auto split: sum.splits)
  qed
qed simp

lemma ready_signal:
  assumes "list_all (action_ready env) ((0, a) # below 0 a)" and r: "runAction a ctx i w = (Inl e, ctx', w')"
    and e: "is_signal (Inl e :: raised + unit)"
  shows "(type_of_json a = lit ''WAIT_DELAY'' \<and> whole_minutes (get (lit ''minutes'') a)
      \<and> (\<exists>m. js_number (get (lit ''minutes'') a) = Fin m \<and> e = WorkflowPaused (i + 1) (Some (m * 60000))))
    \<or> (type_of_json a = lit ''ASK_QUESTION'' \<and> (\<exists>t c. e = WorkflowAwaitingReply (i + 1) t c))"
proof (cases "type_of_json a = lit ''IF_ELSE''")
  case True
  show ?thesis
  proof (cases rule: runAction_cases [of a ctx i w])
    case (Interrupted label b bs e' c' v')
    then have "list_all (action_ready env) (subactions (Suc 0) (JArr (b # bs)))"
      using assms(1) below_branch [of a label "b # bs" "action_ready env" 0] by simp
    then have "\<not> is_signal (fst (runBranch (b # bs) ctx i w))" using ready_branch_quiet(2) [rule_format, OF zero_less_Suc] by blast
    moreover have "runBranch (b # bs) ctx i w = (Inl e, c', v')" using Interrupted(4,5) r by simp
    ultimately have "\<not> is_signal (Inl e :: raised + log_entry list)" by simp
    with e show ?thesis by simp
  next
    case (Refused m)
    with r e show ?thesis by auto
  qed (use True r in simp_all)
next
  case False
  then have l: "runLeaf a ctx i w = (Inl e, ctx', w')" using r by (simp add: runAction.simps)
  then have s: "is_signal (fst (runLeaf a ctx i w))" using e by simp
  then have t: "type_of_json a = lit ''WAIT_DELAY'' \<or> type_of_json a = lit ''ASK_QUESTION''" using quiet_leaf by blast
  have n: "a \<noteq> JNull" "a \<noteq> JUndef" using t by (auto simp: type_of_json_def)
  from t show ?thesis
  proof
    assume w: "type_of_json a = lit ''WAIT_DELAY''"
    have m: "whole_minutes (get (lit ''minutes'') a)" using ready_delay [OF _ w, of env 0] assms(1) by simp
    then obtain k where k: "js_number (get (lit ''minutes'') a) = Fin k" by (auto simp: whole_minutes_def split: jnum.splits)
    with w l n have "e = WorkflowPaused (i + 1) (Some (k * 60000))" by (simp add: runLeaf_def)
    with w m k show ?thesis by blast
  next
    assume w: "type_of_json a = lit ''ASK_QUESTION''"
    with l n have "run_ask a ctx i w = (Inl e, ctx', w')" by (simp add: runLeaf_def)
    with w e show ?thesis by (auto simp: run_ask_def Let_def split: sum.splits prod.splits if_splits)
  qed
qed

lemma stop_run_result:
  "fst (stop_run e a index es ctx w) = RunWaiting k d \<Longrightarrow> e = WorkflowPaused k d"
  "fst (stop_run e a index es ctx w) = RunAwaitingReply k ms c \<Longrightarrow> e = WorkflowAwaitingReply k (Some ms) c"
  by (auto simp: stop_run_def finish_run_def Let_def split: raised.splits option.splits)

definition resumable :: "json list \<Rightarrow> run_result \<Rightarrow> bool" where
  "resumable actions r =
     (case r of
        RunWaiting k d \<Rightarrow> 0 < k \<and> k \<le> length actions \<and> type_of_json (actions ! (k - 1)) = lit ''WAIT_DELAY''
          \<and> (\<exists>m. d = Some (m * 60000) \<and> 0 < m \<and> m \<le> 10080)
      | RunAwaitingReply k _ _ \<Rightarrow> 0 < k \<and> k \<le> length actions \<and> type_of_json (actions ! (k - 1)) = lit ''ASK_QUESTION''
      | _ \<Rightarrow> True)"

lemma finish_run_result: "fst (finish_run ctx es f r w) \<in> {r, Escaped}"
  by (simp add: finish_run_def split: option.splits)

lemma run_from_resumable:
  assumes "list_all (\<lambda>a. list_all (action_ready env) ((0, a) # below 0 a)) as" and "as = drop index actions" and "index \<le> length actions"
  shows "resumable actions (fst (run_from as index es ctx w))"
  using assms
proof (induction as index es ctx w rule: run_from.induct)
  case (1 index es ctx w)
  then show ?case
    using finish_run_result [of ctx es "\<lambda>e. e\<lparr>ex_status := COMPLETED, ex_currentStepIndex := index\<rparr>" RunCompleted w]
    by (auto simp: Let_def resumable_def split: prod.splits)
next
  case (2 a as index es ctx w)
  obtain r ctx' w' where r: "runAction a ctx index w = (r, ctx', w')" by (cases "runAction a ctx index w") auto
  have lt: "index < length actions" using 2(3) by (cases "index < length actions") auto
  then have a: "actions ! index = a" and as: "as = drop (index + 1) actions"
    using 2(3) Cons_nth_drop_Suc [OF lt] by (metis list.inject, metis list.inject Suc_eq_plus1)
  have ready: "list_all (action_ready env) ((0, a) # below 0 a)" using 2(2) by simp
  show ?case
  proof (cases r)
    case (Inr entry)
    from 2(1) [OF r [symmetric] Inr refl] 2(2) as lt r Inr show ?thesis by simp
  next
    case (Inl e)
    have res: "fst (run_from (a # as) index es ctx w) = fst (stop_run e a index es ctx' w')"
      using r Inl by (simp add: Let_def split: prod.splits)
    show ?thesis
    proof (cases "is_signal (Inl e :: raised + unit)")
      case False
      with stop_run_result [of e a index es ctx' w'] show ?thesis
        unfolding res by (cases "fst (stop_run e a index es ctx' w')") (auto simp: resumable_def)
    next
      case True
      from ready_signal [OF ready r [unfolded Inl] True] stop_run_result [of e a index es ctx' w'] lt a
      show ?thesis
        unfolding res by (cases "fst (stop_run e a index es ctx' w')") (auto simp: resumable_def whole_minutes_def)
    qed
  qed
qed

section \<open>Properties\<close>

text \<open>a paused run can be resumed. A run of a configuration that passed validation only ever pauses at a
  top-level delay or question: the step before the one it will resume at is that delay (of more than zero and at
  most 10080 minutes) or that question, so nothing is skipped on resume and the answer handler finds the question.\<close>
theorem validated_runs_pause_at_top_level:
  assumes "validateWorkflowConfig env triggerType config = []"
  shows "resumable (config_actions config) (fst (runWorkflowActions config ctx fromStep w))"
proof -
  from assms have all: "list_all (action_ready env) (subactions 0 (JArr (config_actions config)))"
    by (rule validated_config) (simp add: config_actions_def)
  then have "list_all (\<lambda>a. list_all (action_ready env) ((0, a) # below 0 a)) (config_actions config)"
    by (auto simp: subactions_JArr list_all_iff)
  then have d: "list_all (\<lambda>a. list_all (action_ready env) ((0, a) # below 0 a)) (drop fromStep (config_actions config))"
    by (auto simp: list_all_iff dest: in_set_dropD)
  show ?thesis
  proof (cases "fromStep \<le> length (config_actions config)")
    case True
    with run_from_resumable [OF d refl True] show ?thesis by (simp add: runWorkflowActions_def Let_def)
  next
    case False
    with finish_run_result [of ctx "[]"
        "\<lambda>e. e\<lparr>ex_status := COMPLETED, ex_currentStepIndex := length (config_actions config)\<rparr>" RunCompleted w]
    show ?thesis by (auto simp: runWorkflowActions_def Let_def resumable_def split: prod.splits)
  qed
qed

definition sample_wworld :: wworld where
  "sample_wworld = aworld.extend (sample_aworld\<lparr>w_convs := w_convs sample_world\<rparr>)
     \<lparr>x_contactTags = [], x_tags = [], x_teamIds = [lit ''t1''], x_fields = Map.empty, x_fieldValues = Map.empty,
      x_stages = Map.empty, x_templates = Map.empty, x_hours = None, x_url = sample_url_env,
      x_http = (\<lambda>_ _. HttpResponse 200 [] None), x_requests = [], x_deliveries = [],
      x_execs = [lit ''e1'' \<mapsto> \<lparr>ex_workflowId = lit ''wf1'', ex_contactId = Some (lit ''p1''), ex_conversationId = Some (lit ''c1''),
        ex_status = RUNNING, ex_depth = 0, ex_currentStepIndex = 0, ex_awaitingUntil = None, ex_awaitingAttempts = 0,
        ex_createdAt = 1000, ex_log = [], ex_error = None\<rparr>]\<rparr>"

definition sample_ctx :: run_ctx where
  "sample_ctx = \<lparr>rc_workflowId = lit ''wf1'', rc_executionId = lit ''e1'', rc_triggerType = lit ''SHORTCUT'',
     rc_contactId = Some (lit ''p1''), rc_conversationId = Some (lit ''c1''), rc_depth = 0, rc_payload = [], rc_emitted = []\<rparr>"

theorem validated_runs_pause_at_top_level_witness:
  "resumable (config_actions sample_config) (fst (runWorkflowActions sample_config sample_ctx 0 sample_wworld))"
  by (rule validated_runs_pause_at_top_level) (rule sample_config_valid [of sample_url_env])

text \<open>a workflow cannot outrun consent. As long as no reply is configured for closing a conversation, a run for a
  contact who opted out sends nothing, whatever its actions, its branches and the step it starts from.\<close>
theorem opted_out_contact_is_not_messaged:
  assumes "rc_contactId ctx = Some k" and "w_contacts w k = Some ct" and "ct_consent ct = OPTED_OUT"
    and "resolve_auto_reply (lit ''CONVERSATION_CLOSED'') w = None"
  shows "w_sent (snd (snd (runWorkflowActions config ctx fromStep w))) = w_sent w"
proof -
  from assms have "silenced (w_sent w) ctx w" by (simp add: silenced_def)
  from consent.run_inv [OF this] show ?thesis by (simp add: silenced_def)
qed

definition opted_out_world :: wworld where
  "opted_out_world = sample_wworld\<lparr>w_contacts := [lit ''p1'' \<mapsto> \<lparr>ct_phone = lit ''972'', ct_name = None, ct_firstName = None,
     ct_consent = OPTED_OUT, ct_lifecycleStage = None, ct_blockedAt = None\<rparr>]\<rparr>"

lemmas sample_wworld_simps = sample_wworld_def sample_aworld_def sample_world_def aworld.extend_def cworld.extend_def

theorem opted_out_contact_is_not_messaged_witness:
  "w_sent (snd (snd (runWorkflowActions
     (obj [(''actions'', JArr [obj [(''type'', JStr (lit ''SEND_MESSAGE'')), (''body'', JStr (lit ''hello''))]])])
     sample_ctx 0 opted_out_world))) = []"
  using opted_out_contact_is_not_messaged [where ctx = sample_ctx and k = "lit ''p1''" and w = opted_out_world and ct =
      "\<lparr>ct_phone = lit ''972'', ct_name = None, ct_firstName = None, ct_consent = OPTED_OUT, ct_lifecycleStage = None, ct_blockedAt = None\<rparr>"]
  by (simp add: sample_ctx_def opted_out_world_def sample_wworld_simps resolve_auto_reply_def trim_or_null_def)

text \<open>closing does not ask for consent. A \<open>CLOSE_CONVERSATION\<close> step sends the configured closing reply to the
  contact of the conversation, also when that contact opted out of messages.\<close>
theorem closing_step_messages_opted_out_contact:
  assumes "type_of_json a = lit ''CLOSE_CONVERSATION''" and "get (lit ''categoryId'') a = JUndef" and "get (lit ''summary'') a = JUndef"
    and "rc_conversationId ctx = Some cid" and "cid \<noteq> []" and "w_convs w cid = Some c" and "cv_status c \<noteq> RESOLVED"
    and "w_contacts w (cv_contactId c) = Some ct" and "ct_consent ct = OPTED_OUT"
    and "session_by_id (cv_sessionId c) w = Some session"
    and "resolve_auto_reply (lit ''CONVERSATION_CLOSED'') w = Some reply"
    and "w_channel w (ss_sessionName session) (ct_phone ct) reply = Inr providerId"
  shows "w_sent (snd (snd (runAction a ctx i w))) = w_sent w @ [(ss_sessionName session, ct_phone ct, reply)]"
proof -
  let ?in = "workflow_close_input a cid"
  have n: "a \<noteq> JNull" "a \<noteq> JUndef" using assms(1) by (auto simp: type_of_json_def)
  have chk: "close_check ?in w = Inr \<lparr>sn_conversation = c, sn_categoryId = None, sn_categoryName = None, sn_summary = None\<rparr>"
    using assms(2,3,6) by (simp add: close_check_def workflow_close_input_def normalize_summary_def trim_or_null_def)
  let ?w2 = "w\<lparr>w_convs := x, w_closures := y, w_events := z\<rparr>"
  have same: "session_by_id sid (w\<lparr>w_convs := x, w_closures := y, w_events := z\<rparr>) = session_by_id sid w"
    "resolve_auto_reply kind (w\<lparr>w_convs := x, w_closures := y, w_events := z\<rparr>) = resolve_auto_reply kind w" for sid kind x y z
    by (simp_all add: session_by_id_def resolve_auto_reply_def)
  have "w_sent (snd (close_commit ?in snap w)) = w_sent w @ [(ss_sessionName session, ct_phone ct, reply)]" for snap
    using assms(6-12)
    by (simp add: close_commit_def workflow_close_input_def Let_def send_conversation_closing_reply_def same
        resolved_conversation_def)
  then have "w_sent (snd (closeConversation ?in w)) = w_sent w @ [(ss_sessionName session, ct_phone ct, reply)]"
    using chk assms(7) by (simp add: closeConversation_def case_prod_unfold Let_def)
  moreover have "snd (snd (runAction a ctx i w)) = snd (closeConversation ?in w)"
    using assms(1,4,5) n
    by (auto simp: runAction.simps runLeaf_def run_close_def with_ref_def present_def split: prod.splits sum.splits)
  ultimately show ?thesis by simp
qed

definition closing_world :: wworld where
  "closing_world = opted_out_world\<lparr>w_auto_replies := [(lit ''CONVERSATION_CLOSED'', lit ''vip'')]\<rparr>"

theorem closing_step_messages_opted_out_contact_witness:
  "w_sent (snd (snd (runAction (obj [(''type'', JStr (lit ''CLOSE_CONVERSATION''))]) sample_ctx 0 closing_world)))
     = [(lit ''main'', lit ''972'', lit ''vip'')]"
  using closing_step_messages_opted_out_contact [of "obj [(''type'', JStr (lit ''CLOSE_CONVERSATION''))]" sample_ctx "lit ''c1''"
      closing_world sample_conversation
      "\<lparr>ct_phone = lit ''972'', ct_name = None, ct_firstName = None, ct_consent = OPTED_OUT, ct_lifecycleStage = None, ct_blockedAt = None\<rparr>"
      "\<lparr>ss_id = lit ''s1'', ss_sessionName = lit ''main'', ss_teamId = None, ss_isActive = True\<rparr>" "lit ''vip''" "lit ''wa1''" 0]
  by (simp add: type_of_json_def sample_ctx_def closing_world_def opted_out_world_def sample_wworld_simps sample_conversation_def
      session_by_id_def resolve_auto_reply_def trim_or_null_def)

text \<open>workflows keep the conversations well formed and their own trail short. A run, whatever its configuration,
  preserves the invariant of conversation rows and closures, and no execution's log ever exceeds fifty entries.\<close>
theorem runs_keep_rows_and_logs:
  assumes "lifecycle_ok w" and "logs_bounded w"
  shows "lifecycle_ok (snd (snd (runWorkflowActions config ctx fromStep w)))
    \<and> logs_bounded (snd (snd (runWorkflowActions config ctx fromStep w)))"
  using lifecycle_run.run_inv [OF assms(1)] logs.run_inv [OF assms(2)] by blast

theorem runs_keep_rows_and_logs_witness:
  "lifecycle_ok (snd (snd (runWorkflowActions sample_config sample_ctx 0 sample_wworld)))
    \<and> logs_bounded (snd (snd (runWorkflowActions sample_config sample_ctx 0 sample_wworld)))"
  by (rule runs_keep_rows_and_logs)
    (simp_all add: lifecycle_ok_def logs_bounded_def sample_wworld_simps conv_ok_def sample_conversation_def)

lemma fetch_loop_requests:
  "\<exists>k. 1 \<le> k \<and> k \<le> Suc n \<and> x_requests (snd (fetch_loop n req w)) = x_requests w @ replicate k req"
proof (induction n arbitrary: w)
  case 0
  then show ?case by (intro exI [of _ 1]) simp
next
  case (Suc n)
  let ?w = "w\<lparr>x_requests := x_requests w @ [req]\<rparr>"
  from Suc [of ?w] obtain k where "1 \<le> k" "k \<le> Suc n" "x_requests (snd (fetch_loop n req ?w)) = x_requests w @ replicate (Suc k) req"
    by auto
  then have "\<exists>k. 1 \<le> k \<and> k \<le> Suc (Suc n) \<and> x_requests (snd (fetch_loop n req ?w)) = x_requests w @ replicate k req"
    by (intro exI [of _ "Suc k"]) auto
  moreover have "\<exists>k. 1 \<le> k \<and> k \<le> Suc (Suc n) \<and> x_requests ?w = x_requests w @ replicate k req"
    by (intro exI [of _ 1]) simp
  ultimately show ?case by (auto simp: Let_def split: http_result.splits)
qed

lemma recordDelivery_requests [simp]: "x_requests (recordDelivery ctx i u s ok e q r w) = x_requests w"
  by (simp add: recordDelivery_def)

text \<open>where a webhook step connects. All requests of a webhook step are the one request built for the target that
  the guard approved, sent at most three times; when the guard refuses the URL there is no request at all.\<close>
theorem webhook_only_reaches_approved_target:
  "\<exists>k \<le> 3. x_requests (snd (snd (run_webhook a ctx i w))) = x_requests w @
    (case assertSafeWebhookUrl (x_url w) (js_string (get (lit ''url'') a)) of
       Inl _ \<Rightarrow> [] | Inr target \<Rightarrow> replicate k (webhook_request a ctx target))"
proof (cases "assertSafeWebhookUrl (x_url w) (js_string (get (lit ''url'') a))")
  case (Inl p)
  then show ?thesis by (intro exI [of _ 0]) (simp add: run_webhook_def Let_def)
next
  case (Inr target)
  from fetch_loop_requests [of 2 "webhook_request a ctx target" w] obtain k where "k \<le> 3"
    "x_requests (snd (fetch_loop 2 (webhook_request a ctx target) w)) = x_requests w @ replicate k (webhook_request a ctx target)"
    by auto
  with Inr show ?thesis
    by (intro exI [of _ k])
      (auto simp: run_webhook_def Let_def fetchWithBackoff_def RETRY_DELAYS_MS_def numeral_2_eq_2 split: prod.splits http_result.splits)
qed

text \<open>a failed webhook does not stop the run. A webhook step whose URL the guard refuses is logged as failed, and
  the run goes on with the next step.\<close>
theorem refused_webhook_is_skipped_over:
  assumes "type_of_json a = lit ''HTTP_WEBHOOK''"
    and "assertSafeWebhookUrl (x_url w) (js_string (get (lit ''url'') a)) = Inl problem"
  shows "\<exists>e w'. le_outcome e = StepFailed \<and> x_requests w' = x_requests w
    \<and> run_from (a # as) index es ctx w = run_from as (index + 1) (es @ [e]) ctx w'"
proof -
  have n: "a \<noteq> JNull" "a \<noteq> JUndef" using assms(1) by (auto simp: type_of_json_def)
  let ?w' = "recordDelivery ctx index (js_string (get (lit ''url'') a)) None False (Some (render_problem problem)) None None w"
  have "runAction a ctx index w = (Inr (entry ?w' index (lit ''HTTP_WEBHOOK'') StepFailed (render_problem problem)), ctx, ?w')"
    using assms n by (simp add: runAction.simps runLeaf_def run_webhook_def Let_def)
  then show ?thesis
    by (intro exI [of _ "entry ?w' index (lit ''HTTP_WEBHOOK'') StepFailed (render_problem problem)"] exI [of _ ?w'])
      (simp add: entry_def)
qed

theorem refused_webhook_is_skipped_over_witness:
  "\<exists>e w'. le_outcome e = StepFailed \<and> x_requests w' = []
    \<and> run_from [obj [(''type'', JStr (lit ''HTTP_WEBHOOK'')), (''url'', JStr (lit ''x''))]] 0 [] sample_ctx
        (sample_wworld\<lparr>x_url := sample_url_env\<lparr>ue_parse := \<lambda>_. None\<rparr>\<rparr>)
      = run_from [] 1 [e] sample_ctx w'"
  using refused_webhook_is_skipped_over [of "obj [(''type'', JStr (lit ''HTTP_WEBHOOK'')), (''url'', JStr (lit ''x''))]"
      "sample_wworld\<lparr>x_url := sample_url_env\<lparr>ue_parse := \<lambda>_. None\<rparr>\<rparr>" NotAUrl "[]" 0 "[]" sample_ctx]
  by (simp add: type_of_json_def sample_wworld_simps assertSafeWebhookUrl_def parseWebhookUrl_def)

end
