(* ===== verification/Workflow_Run.thy ===== *)
theory Workflow_Run
  imports Workflow_Executor_Props
begin

text \<open>
  Starting, resuming and abandoning runs: \<open>modules/workflows/workflow-dispatcher.ts\<close>, the job handler and
  \<open>dispatchWorkflowEvent\<close> of \<open>workers/workflow.worker.ts\<close>, and \<open>modules/workflows/answer-resume.service.ts\<close>.

  The world grows by the workflow rows (in the order the database returns them), the ids of the executions
  in the order they were created, the source of new ids and the queue. The queue keeps the first job of an
  id, as its documentation says; a delayed job carries the time it is due. Executions are found by their
  ids; a handler runs to its end before the next one starts.
\<close>

section \<open>State\<close>

record workflow_row =
  wf_id :: jstr
  wf_triggerType :: jstr
  wf_isActive :: bool
  wf_config :: json

datatype job_kind = RunJob | AnswerTimeout

record workflow_job =
  jb_kind :: job_kind
  jb_id :: jstr
  jb_workflowId :: jstr
  jb_executionId :: jstr
  jb_fromStep :: nat
  jb_depth :: nat
  jb_payload :: "(jstr \<times> json) list"
  jb_continue :: bool
  jb_due :: int

record rworld = wworld +
  r_workflows :: "workflow_row list"
  r_execIds :: "jstr list"
  r_newId :: "nat \<Rightarrow> jstr"
  r_queue :: "workflow_job list"

record trigger_event =
  ev_triggerType :: jstr
  ev_contactId :: "jstr option"
  ev_conversationId :: "jstr option"
  ev_payload :: "(jstr \<times> json) list"
  ev_depth :: nat

definition REENTRY_WINDOW_MS :: int where "REENTRY_WINDOW_MS = 60000"

section \<open>Dispatch\<close>

definition lower_text :: "json \<Rightarrow> jstr" where
  "lower_text j = js_lower (js_string_or_empty j)"

definition lower_trimmed :: "json \<Rightarrow> jstr" where
  "lower_trimmed j = js_lower (js_trim (js_string_or_empty j))"

definition matchesTrigger :: "trigger_event \<Rightarrow> jstr \<Rightarrow> json \<Rightarrow> bool" where
  "matchesTrigger ev triggerType config =
     (let trigger = get (lit ''trigger'') config; payload = JObj (ev_payload ev) in
      if triggerType \<noteq> ev_triggerType ev then False
      else if triggerType = lit ''KEYWORD_MATCHED'' then
        (let keyword = lower_trimmed (get (lit ''keyword'') trigger) in
         if keyword = [] then False else js_includes keyword (lower_text (get (lit ''text'') payload)))
      else if triggerType = lit ''TAG_ADDED'' \<or> triggerType = lit ''TAG_REMOVED'' then
        (let tag = lower_trimmed (get (lit ''tag'') trigger) in tag \<noteq> [] \<and> lower_text (get (lit ''tag'') payload) = tag)
      else if triggerType = lit ''LIFECYCLE_UPDATED'' then
        (let stage = lower_trimmed (get (lit ''stage'') trigger) in
         if stage = [] then True else lower_text (get (lit ''to'') payload) = stage)
      else if triggerType = lit ''CONTACT_FIELD_UPDATED'' then
        (let field = lower_trimmed (get (lit ''field'') trigger) in
         if field = [] then False else lower_text (get (lit ''field'') payload) = field)
      else True)"

text \<open>An execution of the workflow for the contact inside the window.\<close>

definition is_recent :: "jstr \<Rightarrow> jstr \<Rightarrow> 'a rworld_scheme \<Rightarrow> jstr \<Rightarrow> bool" where
  "is_recent workflowId contactId w x =
     (case x_execs w x of
        None \<Rightarrow> False
      | Some e \<Rightarrow> ex_workflowId e = workflowId \<and> ex_contactId e = Some contactId
          \<and> ex_createdAt e \<ge> w_now w - REENTRY_WINDOW_MS)"

definition reentered :: "jstr \<Rightarrow> jstr option \<Rightarrow> 'a rworld_scheme \<Rightarrow> bool" where
  "reentered workflowId contactId w \<longleftrightarrow>
     truthy_ref contactId \<and> list_ex (is_recent workflowId (the contactId) w) (r_execIds w)"

definition new_execution :: "trigger_event \<Rightarrow> jstr \<Rightarrow> int \<Rightarrow> exec_row" where
  "new_execution ev workflowId now =
     \<lparr>ex_workflowId = workflowId, ex_contactId = ev_contactId ev, ex_conversationId = ev_conversationId ev,
      ex_status = RUNNING, ex_depth = ev_depth ev, ex_currentStepIndex = 0, ex_awaitingUntil = None,
      ex_awaitingAttempts = 0, ex_createdAt = now, ex_log = [], ex_error = None\<rparr>"

definition collect_one ::
  "trigger_event \<Rightarrow> workflow_row \<Rightarrow> (jstr \<times> jstr) list \<times> 'a rworld_scheme \<Rightarrow> (jstr \<times> jstr) list \<times> 'a rworld_scheme" where
  "collect_one ev flow s =
     (let (runs, w) = s in
      if \<not> matchesTrigger ev (wf_triggerType flow) (if truthy (wf_config flow) then wf_config flow else JObj []) then s
      else if reentered (wf_id flow) (ev_contactId ev) w then s
      else
        let x = r_newId w (length (r_execIds w)) in
        (runs @ [(wf_id flow, x)],
         w\<lparr>x_execs := (x_execs w)(x \<mapsto> new_execution ev (wf_id flow) (w_now w)), r_execIds := r_execIds w @ [x]\<rparr>))"

definition collectTriggeredRuns :: "trigger_event \<Rightarrow> 'a rworld_scheme \<Rightarrow> (jstr \<times> jstr) list \<times> 'a rworld_scheme" where
  "collectTriggeredRuns ev w =
     (if ev_depth ev \<ge> MAX_DEPTH then ([], w)
      else fold (collect_one ev)
             (filter (\<lambda>flow. wf_triggerType flow = ev_triggerType ev \<and> wf_isActive flow) (r_workflows w)) ([], w))"

definition queue_add :: "workflow_job \<Rightarrow> 'a rworld_scheme \<Rightarrow> 'a rworld_scheme" where
  "queue_add job w =
     (if jb_id job \<in> jb_id ` set (r_queue w) then w else w\<lparr>r_queue := r_queue w @ [job]\<rparr>)"

definition run_job_id :: "jstr \<Rightarrow> nat \<Rightarrow> jstr" where
  "run_job_id executionId step = lit ''wf--'' @ executionId @ lit ''--'' @ dec_digits step"

definition dispatchWorkflowEvent :: "bool \<Rightarrow> trigger_event \<Rightarrow> 'a rworld_scheme \<Rightarrow> nat \<times> 'a rworld_scheme" where
  "dispatchWorkflowEvent disabled ev w =
     (if disabled then (0, w)
      else
        let (runs, w') = collectTriggeredRuns ev w in
        (length runs,
         fold (\<lambda>(workflowId, x). queue_add
                 \<lparr>jb_kind = RunJob, jb_id = run_job_id x 0, jb_workflowId = workflowId, jb_executionId = x,
                  jb_fromStep = 0, jb_depth = ev_depth ev, jb_payload = ev_payload ev, jb_continue = False,
                  jb_due = w_now w\<rparr>) runs w'))"

section \<open>The job handler\<close>

datatype job_outcome = SkippedJob string | RanJob run_result

text \<open>The checks before the run: the outcome when the job stops here, and the row as they leave it.\<close>

definition timed_out :: "string \<Rightarrow> exec_row \<Rightarrow> exec_row" where
  "timed_out reason e = e\<lparr>ex_status := TIMED_OUT, ex_awaitingUntil := None, ex_error := Some (lit reason)\<rparr>"

definition gate_question :: "workflow_job \<Rightarrow> int \<Rightarrow> exec_row \<Rightarrow> string option \<times> exec_row" where
  "gate_question job now e =
     (if jb_kind job = AnswerTimeout then
        if ex_status e \<noteq> AWAITING_REPLY then (Some ''answered before the deadline'', e)
        else if (case ex_awaitingUntil e of None \<Rightarrow> False | Some t \<Rightarrow> t > now + 1000)
          then (Some ''a later question is waiting; this deadline is stale'', e)
        else if \<not> jb_continue job then
          (Some ''no answer, run stopped'', timed_out ''the contact did not answer in time'' e)
        else (None, e\<lparr>ex_status := RUNNING, ex_awaitingUntil := None\<rparr>)
      else if ex_status e = AWAITING_REPLY then (Some ''awaiting a reply'', e)
      else (None, e))"

definition find_workflow :: "jstr \<Rightarrow> 'a rworld_scheme \<Rightarrow> workflow_row option" where
  "find_workflow wid w = find (\<lambda>flow. wf_id flow = wid) (r_workflows w)"

definition gate_job :: "workflow_job \<Rightarrow> exec_row \<Rightarrow> 'a rworld_scheme \<Rightarrow> string option \<times> exec_row" where
  "gate_job job e w =
     (if ex_status e = COMPLETED \<or> ex_status e = FAILED then (Some ''already finished'', e)
      else
        (case gate_question job (w_now w) e of
           (Some r, e') \<Rightarrow> (Some r, e')
         | (None, e') \<Rightarrow>
             if ex_createdAt e + MAX_RUN_DURATION_MS < w_now w
             then (Some ''run older than the deadline'', timed_out ''the run exceeded the seven-day limit'' e')
             else if (case find_workflow (jb_workflowId job) w of None \<Rightarrow> True | Some flow \<Rightarrow> \<not> wf_isActive flow)
             then (Some ''workflow inactive'', e'\<lparr>ex_status := SKIPPED, ex_error := Some (lit ''workflow inactive or deleted'')\<rparr>)
             else (None, e')))"

definition tag_trigger :: "exec_row \<Rightarrow> tag_event \<Rightarrow> trigger_event" where
  "tag_trigger e te =
     \<lparr>ev_triggerType = (case te of TagAdded _ \<Rightarrow> lit ''TAG_ADDED'' | TagRemoved _ \<Rightarrow> lit ''TAG_REMOVED''),
      ev_contactId = ex_contactId e, ev_conversationId = ex_conversationId e,
      ev_payload = [(lit ''tag'', JStr (case te of TagAdded t \<Rightarrow> t | TagRemoved t \<Rightarrow> t))],
      ev_depth = ex_depth e + 1\<rparr>"

text \<open>What a pause or a question puts on the queue.\<close>

definition enqueue_next :: "workflow_job \<Rightarrow> run_result \<Rightarrow> (jstr \<times> json) list \<Rightarrow> 'a rworld_scheme \<Rightarrow> 'a rworld_scheme" where
  "enqueue_next job result payload w =
     (case result of
        RunWaiting k delayMs \<Rightarrow>
          queue_add (job\<lparr>jb_kind := RunJob, jb_id := run_job_id (jb_executionId job) k, jb_fromStep := k,
            jb_payload := payload,
            jb_due := w_now w + (case delayMs of Some d \<Rightarrow> \<lfloor>d\<rfloor> | None \<Rightarrow> 0)\<rparr>) w
      | RunAwaitingReply k ms continueOnTimeout \<Rightarrow>
          queue_add (job\<lparr>jb_kind := AnswerTimeout,
            jb_id := lit ''wf--'' @ jb_executionId job @ lit ''--timeout--'' @ dec_digits k, jb_fromStep := k,
            jb_payload := payload, jb_continue := continueOnTimeout, jb_due := w_now w + \<lfloor>ms\<rfloor>\<rparr>) w
      | _ \<Rightarrow> w)"

definition job_context :: "workflow_job \<Rightarrow> workflow_row \<Rightarrow> exec_row \<Rightarrow> run_ctx" where
  "job_context job flow e =
     \<lparr>rc_workflowId = jb_workflowId job, rc_executionId = jb_executionId job, rc_triggerType = wf_triggerType flow,
      rc_contactId = ex_contactId e, rc_conversationId = ex_conversationId e, rc_depth = ex_depth e,
      rc_payload = jb_payload job, rc_emitted = []\<rparr>"

definition processWorkflowJob :: "bool \<Rightarrow> workflow_job \<Rightarrow> 'a rworld_scheme \<Rightarrow> job_outcome \<times> 'a rworld_scheme" where
  "processWorkflowJob disabled job w =
     (case x_execs w (jb_executionId job) of
        None \<Rightarrow> (SkippedJob ''execution missing'', w)
      | Some e \<Rightarrow>
          (case gate_job job e w of
             (Some reason, e') \<Rightarrow> (SkippedJob reason, w\<lparr>x_execs := (x_execs w)(jb_executionId job \<mapsto> e')\<rparr>)
           | (None, e') \<Rightarrow>
               let flow = the (find_workflow (jb_workflowId job) w);
                   config = (if truthy (wf_config flow) then wf_config flow else JObj []);
                   w1 = w\<lparr>x_execs := (x_execs w)(jb_executionId job \<mapsto> e')\<rparr>;
                   (result, ctx, w2) = runWorkflowActions config (job_context job flow e) (jb_fromStep job) w1;
                   w3 = (if result = Escaped then w2
                         else fold (\<lambda>te w. snd (dispatchWorkflowEvent disabled (tag_trigger e te) w)) (rc_emitted ctx) w2)
               in (RanJob result, enqueue_next job result (rc_payload ctx) w3)))"

section \<open>Answers\<close>

definition questionAt :: "json \<Rightarrow> nat \<Rightarrow> json option" where
  "questionAt config resumeAtStep =
     (let as = config_actions config in
      if 0 < resumeAtStep \<and> resumeAtStep \<le> length as \<and> type_of_json (as ! (resumeAtStep - 1)) = lit ''ASK_QUESTION''
      then Some (as ! (resumeAtStep - 1)) else None)"

definition awaiting_ids :: "jstr \<Rightarrow> 'a rworld_scheme \<Rightarrow> jstr list" where
  "awaiting_ids contactId w =
     sort_key (\<lambda>x. case x_execs w x of None \<Rightarrow> 0 | Some e \<Rightarrow> ex_createdAt e)
       (filter (\<lambda>x. case x_execs w x of None \<Rightarrow> False
          | Some e \<Rightarrow> ex_contactId e = Some contactId \<and> ex_status e = AWAITING_REPLY) (r_execIds w))"

definition set_exec :: "jstr \<Rightarrow> exec_row \<Rightarrow> 'a wworld_scheme \<Rightarrow> 'a wworld_scheme" where
  "set_exec x e w = w\<lparr>x_execs := (x_execs w)(x \<mapsto> e)\<rparr>"

definition fail_exec :: "jstr \<Rightarrow> exec_row \<Rightarrow> exec_row" where
  "fail_exec reason e = e\<lparr>ex_status := FAILED, ex_awaitingUntil := None, ex_error := Some reason\<rparr>"

definition attempts_exhausted :: "json \<Rightarrow> nat \<Rightarrow> bool" where
  "attempts_exhausted question attempts =
     (case (if get (lit ''maxAttempts'') question = JUndef then Fin DEFAULT_ANSWER_ATTEMPTS
            else js_number (get (lit ''maxAttempts'') question)) of
        Fin m \<Rightarrow> of_nat attempts \<ge> m
      | Infinite negative \<Rightarrow> negative
      | NaN \<Rightarrow> False)"

definition retry_context :: "jstr \<Rightarrow> jstr \<Rightarrow> exec_row \<Rightarrow> run_ctx" where
  "retry_context x contactId e =
     \<lparr>rc_workflowId = ex_workflowId e, rc_executionId = x, rc_triggerType = lit ''ANSWER_RETRY'',
      rc_contactId = Some contactId, rc_conversationId = ex_conversationId e, rc_depth = ex_depth e,
      rc_payload = [], rc_emitted = []\<rparr>"

definition retry_prompt :: "json \<Rightarrow> jstr" where
  "retry_prompt question =
     (case get (lit ''invalidPrompt'') question of
        JStr s \<Rightarrow> if js_trim s \<noteq> [] then s else js_string (get (lit ''prompt'') question)
      | _ \<Rightarrow> js_string (get (lit ''prompt'') question))"

text \<open>An answer that does not parse: counted, then asked again or given up.\<close>

definition reject_answer ::
  "jstr \<Rightarrow> exec_row \<Rightarrow> json \<Rightarrow> jstr \<Rightarrow> 'a rworld_scheme \<Rightarrow> (jstr + bool) \<times> 'a rworld_scheme" where
  "reject_answer x e question contactId w =
     (let attempts = ex_awaitingAttempts e + 1 in
      if attempts_exhausted question attempts then
        (Inr False, set_exec x
          (fail_exec (lit ''no usable answer after '' @ dec_digits attempts @ lit '' attempt(s)'') (e\<lparr>ex_awaitingAttempts := attempts\<rparr>)) w)
      else
        (case sendToContact (retry_context x contactId e) (retry_prompt question) (set_exec x (e\<lparr>ex_awaitingAttempts := attempts\<rparr>) w) of
           (Inl err, w') \<Rightarrow> (Inl err, w')
         | (Inr _, w') \<Rightarrow> (Inr True, w')))"

definition accept_answer ::
  "jstr \<Rightarrow> exec_row \<Rightarrow> json \<Rightarrow> jstr \<Rightarrow> jstr \<Rightarrow> 'a rworld_scheme \<Rightarrow> (jstr + bool) \<times> 'a rworld_scheme" where
  "accept_answer x e question contactId value w =
     (case x_fields w (js_string (get (lit ''field'') question)) of
        None \<Rightarrow>
          (Inr False, set_exec x
            (fail_exec (lit ''the field '' @ [34] @ js_string (get (lit ''field'') question) @ [34] @ lit '' no longer exists'') e) w)
      | Some d \<Rightarrow>
          let w1 = w\<lparr>x_fieldValues := (x_fieldValues w)((contactId, d) \<mapsto> Some value)\<rparr>;
              w2 = set_exec x (e\<lparr>ex_status := RUNNING, ex_awaitingUntil := None\<rparr>) w1
          in (Inr True, queue_add
                \<lparr>jb_kind = RunJob, jb_id = run_job_id x (ex_currentStepIndex e), jb_workflowId = ex_workflowId e,
                 jb_executionId = x, jb_fromStep = ex_currentStepIndex e, jb_depth = ex_depth e,
                 jb_payload = [(lit ''answer'', JStr value)], jb_continue = False, jb_due = w_now w\<rparr> w2))"

definition resumeAwaitingWorkflows :: "jstr \<Rightarrow> jstr \<Rightarrow> 'a rworld_scheme \<Rightarrow> (jstr + bool) \<times> 'a rworld_scheme" where
  "resumeAwaitingWorkflows contactId body w =
     (case awaiting_ids contactId w of
        [] \<Rightarrow> (Inr False, w)
      | x # _ \<Rightarrow>
          let e = the (x_execs w x) in
          if (case ex_awaitingUntil e of None \<Rightarrow> False | Some t \<Rightarrow> t < w_now w) then (Inr False, w)
          else
            (case find_workflow (ex_workflowId e) w of
               None \<Rightarrow> (Inr False, w)
             | Some flow \<Rightarrow>
                 if \<not> wf_isActive flow then (Inr False, w)
                 else
                   (case questionAt (if truthy (wf_config flow) then wf_config flow else JObj []) (ex_currentStepIndex e) of
                      None \<Rightarrow> (Inr False, set_exec x (fail_exec (lit ''the question step was edited away while waiting'') e) w)
                    | Some question \<Rightarrow>
                        let kind = (if truthy (get (lit ''expects'') question) then get (lit ''expects'') question
                                    else JStr (lit ''text'')) in
                        if js_trim body \<noteq> [] \<and> \<not> json_in kind ANSWER_KINDS then (Inl (lit ''cannot read ok''), w)
                        else
                          (case parseAnswer (js_string kind) body of
                             None \<Rightarrow> reject_answer x e question contactId w
                           | Some value \<Rightarrow> accept_answer x e question contactId value w))))"

end
