(* ===== verification/Workflow_Run_Props.thy ===== *)
theory Workflow_Run_Props
  imports Workflow_Run
begin

text \<open>
  What the engine guarantees over whole histories of events, jobs and answers: chains of workflows end, the same
  workflow is not started twice for a contact within a minute, finished runs stay finished, answers are stored
  and counted, and the limit on the age of a run.
\<close>

section \<open>Histories\<close>

datatype run_event =
    Dispatch trigger_event
  | Job workflow_job
  | Answer jstr jstr
  | Wait nat

definition run_step :: "bool \<Rightarrow> run_event \<Rightarrow> 'a rworld_scheme \<Rightarrow> 'a rworld_scheme" where
  "run_step disabled ev w =
     (case ev of
        Dispatch te \<Rightarrow> snd (dispatchWorkflowEvent disabled te w)
      | Job job \<Rightarrow> snd (processWorkflowJob disabled job w)
      | Answer contactId body \<Rightarrow> snd (resumeAwaitingWorkflows contactId body w)
      | Wait n \<Rightarrow> w\<lparr>w_now := w_now w + int n\<rparr>)"

text \<open>Two executions of a workflow for one contact, the first of them older.\<close>

definition spaced :: "exec_row \<Rightarrow> exec_row \<Rightarrow> bool" where
  "spaced e e' \<longleftrightarrow> (ex_workflowId e = ex_workflowId e' \<and> ex_contactId e = ex_contactId e' \<and> truthy_ref (ex_contactId e) \<longrightarrow>
     ex_createdAt e + REENTRY_WINDOW_MS < ex_createdAt e')"

definition runs_ok :: "'a rworld_scheme \<Rightarrow> bool" where
  "runs_ok w \<longleftrightarrow>
     inj (r_newId w) \<and> r_execIds w = map (r_newId w) [0..<length (r_execIds w)]
     \<and> dom (x_execs w) = set (r_execIds w)
     \<and> (\<forall>x e. x_execs w x = Some e \<longrightarrow> ex_depth e < MAX_DEPTH \<and> ex_createdAt e \<le> w_now w)
     \<and> (\<forall>i j e e'. i < j \<longrightarrow> j < length (r_execIds w) \<longrightarrow> x_execs w (r_execIds w ! i) = Some e \<longrightarrow>
          x_execs w (r_execIds w ! j) = Some e' \<longrightarrow> spaced e e')"

lemma runs_okD:
  assumes "runs_ok w"
  shows "inj (r_newId w)" "r_execIds w = map (r_newId w) [0..<length (r_execIds w)]" "dom (x_execs w) = set (r_execIds w)"
    "\<And>x e. x_execs w x = Some e \<Longrightarrow> ex_depth e < MAX_DEPTH \<and> ex_createdAt e \<le> w_now w"
    "\<And>i j e e'. i < j \<Longrightarrow> j < length (r_execIds w) \<Longrightarrow> x_execs w (r_execIds w ! i) = Some e \<Longrightarrow>
       x_execs w (r_execIds w ! j) = Some e' \<Longrightarrow> spaced e e'"
  using assms unfolding runs_ok_def by blast+

text \<open>The invariant only looks at where executions came from.\<close>

lemma runs_ok_origin:
  assumes "runs_ok w" and "r_newId w' = r_newId w" and "r_execIds w' = r_execIds w" and "w_now w \<le> w_now w'"
    and "\<forall>x. rel_option same_origin (x_execs w x) (x_execs w' x)"
  shows "runs_ok w'"
proof -
  have o: "\<exists>e0. x_execs w x = Some e0 \<and> same_origin e0 e" if "x_execs w' x = Some e" for x e
    using assms(5) that by (metis option_rel_Some2)
  have d: "dom (x_execs w') = dom (x_execs w)"
    using assms(5) by (auto simp: dom_def) (metis option.rel_distinct(1,2) not_Some_eq)+
  show ?thesis
    unfolding runs_ok_def
  proof (intro conjI allI impI)
    show "inj (r_newId w')" "r_execIds w' = map (r_newId w') [0..<length (r_execIds w')]" "dom (x_execs w') = set (r_execIds w')"
      using runs_okD(1-3) [OF assms(1)] assms(2,3) d by simp_all
  next
    fix x e assume "x_execs w' x = Some e"
    with o obtain e0 where "x_execs w x = Some e0" "same_origin e0 e" by blast
    with runs_okD(4) [OF assms(1)] assms(4) show "ex_depth e < MAX_DEPTH" "ex_createdAt e \<le> w_now w'"
      by (fastforce simp: same_origin_def)+
  next
    fix i j e e'
    assume ij: "i < j" "j < length (r_execIds w')" and "x_execs w' (r_execIds w' ! i) = Some e" "x_execs w' (r_execIds w' ! j) = Some e'"
    with o obtain a b where "x_execs w (r_execIds w ! i) = Some a" "same_origin a e" "x_execs w (r_execIds w ! j) = Some b" "same_origin b e'"
      unfolding assms(3) by blast
    with runs_okD(5) [OF assms(1), of i j a b] ij assms(3) show "spaced e e'"
      by (auto simp: spaced_def same_origin_def)
  qed
qed

lemma collect_one_ok:
  assumes "runs_ok w" and "ev_depth ev < MAX_DEPTH"
  shows "runs_ok (snd (collect_one ev flow (runs, w)))"
proof (cases "\<not> matchesTrigger ev (wf_triggerType flow) (if truthy (wf_config flow) then wf_config flow else JObj [])
    \<or> reentered (wf_id flow) (ev_contactId ev) w")
  case True
  with assms show ?thesis by (auto simp: collect_one_def)
next
  case False
  let ?n = "length (r_execIds w)" and ?x = "r_newId w (length (r_execIds w))" and ?e = "new_execution ev (wf_id flow) (w_now w)"
  let ?w = "w\<lparr>x_execs := (x_execs w)(?x \<mapsto> ?e), r_execIds := r_execIds w @ [?x]\<rparr>"
  note ok = runs_okD [OF assms(1)]
  have old: "r_execIds w ! i = r_newId w i" if "i < ?n" for i using that ok(2) by (metis add_0 diff_zero nth_map_upt)
  have fresh: "r_newId w i \<noteq> ?x" if "i < ?n" for i using that ok(1) by (auto dest: injD)
  then have new: "?x \<notin> set (r_execIds w)" using old by (metis in_set_conv_nth)
  have late: "spaced e ?e" if "x_execs w x = Some e" for x e
  proof -
    from that ok(3) have "x \<in> set (r_execIds w)" by (metis domI)
    with False that have "\<not> (truthy_ref (ev_contactId ev) \<and> is_recent (wf_id flow) (the (ev_contactId ev)) w x)"
      by (auto simp: reentered_def list_ex_iff)
    with that show ?thesis
      by (cases "ev_contactId ev") (auto simp: spaced_def new_execution_def is_recent_def)
  qed
  have "runs_ok ?w"
    unfolding runs_ok_def
  proof (intro conjI allI impI)
    show "inj (r_newId ?w)" using ok(1) by simp
    show "r_execIds ?w = map (r_newId ?w) [0..<length (r_execIds ?w)]" using ok(2) by simp
    show "dom (x_execs ?w) = set (r_execIds ?w)" using ok(3) by auto
  next
    fix x e assume "x_execs ?w x = Some e"
    then show "ex_depth e < MAX_DEPTH" "ex_createdAt e \<le> w_now ?w"
      using ok(4) assms(2) by (auto simp: new_execution_def split: if_splits)
  next
    fix i j e e'
    assume ij: "i < j" "j < length (r_execIds ?w)" and e: "x_execs ?w (r_execIds ?w ! i) = Some e"
      and e': "x_execs ?w (r_execIds ?w ! j) = Some e'"
    from ij have i: "i < ?n" by simp
    with e old fresh have ei: "x_execs w (r_execIds w ! i) = Some e" by (simp add: nth_append)
    show "spaced e e'"
    proof (cases "j < ?n")
      case True
      with e' old fresh have "x_execs w (r_execIds w ! j) = Some e'" by (simp add: nth_append)
      with ok(5) ij(1) True ei show ?thesis by blast
    next
      case False
      with ij e' have "e' = ?e" by (simp add: nth_append)
      with late ei show ?thesis by blast
    qed
  qed
  with False show ?thesis by (simp add: collect_one_def Let_def)
qed

lemma collect_ok: "runs_ok w \<Longrightarrow> runs_ok (snd (collectTriggeredRuns ev w))"
proof -
  have "ev_depth ev < MAX_DEPTH \<Longrightarrow> runs_ok (snd s) \<Longrightarrow> runs_ok (snd (fold (collect_one ev) flows s))"
    for flows and s :: "(jstr \<times> jstr) list \<times> 'a rworld_scheme"
    by (induction flows arbitrary: s) (simp_all, metis collect_one_ok prod.collapse)
  then show "runs_ok w \<Longrightarrow> runs_ok (snd (collectTriggeredRuns ev w))"
    by (simp add: collectTriggeredRuns_def)
qed

lemma queue_add_frame [simp]:
  "x_execs (queue_add j w) = x_execs w" "r_execIds (queue_add j w) = r_execIds w" "r_newId (queue_add j w) = r_newId w"
  "w_now (queue_add j w) = w_now w" "r_workflows (queue_add j w) = r_workflows w"
  by (simp_all add: queue_add_def)

lemma runs_ok_cong:
  "x_execs w' = x_execs w \<Longrightarrow> r_execIds w' = r_execIds w \<Longrightarrow> r_newId w' = r_newId w \<Longrightarrow> w_now w' = w_now w \<Longrightarrow>
     runs_ok w' \<longleftrightarrow> runs_ok w"
  by (simp add: runs_ok_def)

lemma queue_add_ok [simp]: "runs_ok (queue_add j w) \<longleftrightarrow> runs_ok w"
  by (rule runs_ok_cong) simp_all

lemma enqueue_ok [simp]: "runs_ok (enqueue_next job r p w) \<longleftrightarrow> runs_ok w"
  by (simp add: enqueue_next_def split: run_result.splits)

lemma dispatch_ok: "runs_ok w \<Longrightarrow> runs_ok (snd (dispatchWorkflowEvent disabled ev w))"
proof -
  have f: "runs_ok (fold (\<lambda>(workflowId, x). queue_add (job workflowId x)) runs w) \<longleftrightarrow> runs_ok w"
    for runs :: "(jstr \<times> jstr) list" and job and w :: "'a rworld_scheme"
  proof (induction runs arbitrary: w)
    case (Cons r runs)
    show ?case by (cases r) (simp only: fold.simps comp_def prod.case Cons.IH queue_add_ok)
  qed simp
  assume w: "runs_ok w"
  obtain runs w' where c: "collectTriggeredRuns ev w = (runs, w')" by (cases "collectTriggeredRuns ev w") auto
  with collect_ok [OF w, of ev] have "runs_ok w'" by simp
  with w show ?thesis
    by (simp add: dispatchWorkflowEvent_def c f)
qed

lemma dispatch_all_ok: "runs_ok w \<Longrightarrow> runs_ok (fold (\<lambda>te w. snd (dispatchWorkflowEvent disabled (tag_trigger e te) w)) tes w)"
  by (induction tes arbitrary: w) (simp_all add: dispatch_ok)

lemma rworld_more:
  assumes "wworld.more w' = wworld.more (w :: 'a rworld_scheme)"
  shows "r_execIds w' = r_execIds w" "r_newId w' = r_newId w" "r_workflows w' = r_workflows w" "r_queue w' = r_queue w"
  using assms by (cases w; cases w'; simp)+

lemma run_ok:
  assumes "runs_ok w"
  shows "runs_ok (snd (snd (runWorkflowActions config ctx from w)))"
proof -
  let ?w = "snd (snd (runWorkflowActions config ctx from w))"
  have "frame_of (x_execs w) (w_now w) (wworld.more w) ctx w"
    by (simp add: frame_of_def rel_option_iff split: option.splits)
  then have "frame_of (x_execs w) (w_now w) (wworld.more w) (fst (snd (runWorkflowActions config ctx from w))) ?w"
    by (rule frame.run_inv)
  then have "wworld.more ?w = wworld.more w" "w_now ?w = w_now w" "\<forall>x. rel_option same_origin (x_execs w x) (x_execs ?w x)"
    by (simp_all add: frame_of_def)
  with assms rworld_more(1,2) [of ?w w] show ?thesis by (intro runs_ok_origin [of w ?w]) simp_all
qed

lemma set_exec_ok:
  assumes "runs_ok w" and "x_execs w x = Some e" and "same_origin e e'"
  shows "runs_ok (w\<lparr>x_execs := (x_execs w)(x \<mapsto> e')\<rparr>)"
  using assms by (intro runs_ok_origin [OF assms(1)]) (auto simp: rel_option_iff split: option.splits)

lemma gate_origin: "same_origin e (snd (gate_job job e w))"
  by (auto simp: gate_job_def gate_question_def timed_out_def same_origin_def split: prod.splits option.splits)

lemma process_ok:
  assumes "runs_ok w"
  shows "runs_ok (snd (processWorkflowJob disabled job w))"
proof (cases "x_execs w (jb_executionId job)")
  case None
  with assms show ?thesis by (simp add: processWorkflowJob_def)
next
  case (Some e)
  obtain r e' where g: "gate_job job e w = (r, e')" by (cases "gate_job job e w") auto
  with gate_origin [of e job w] have "same_origin e e'" by simp
  with assms Some have ok: "runs_ok (w\<lparr>x_execs := (x_execs w)(jb_executionId job \<mapsto> e')\<rparr>)" by (rule set_exec_ok)
  show ?thesis
  proof (cases r)
    case (Some reason)
    with g ok \<open>x_execs w _ = Some e\<close> show ?thesis by (simp add: processWorkflowJob_def)
  next
    case None
    let ?flow = "the (find_workflow (jb_workflowId job) w)"
    let ?config = "if truthy (wf_config ?flow) then wf_config ?flow else JObj []"
    let ?w = "w\<lparr>x_execs := (x_execs w)(jb_executionId job \<mapsto> e')\<rparr>"
    obtain res ctx w2 where run: "runWorkflowActions ?config (job_context job ?flow e) (jb_fromStep job) ?w = (res, ctx, w2)"
      by (cases "runWorkflowActions ?config (job_context job ?flow e) (jb_fromStep job) ?w") auto
    with run_ok [OF ok, of ?config "job_context job ?flow e" "jb_fromStep job"] have "runs_ok w2" by simp
    then show ?thesis
      using g \<open>x_execs w _ = Some e\<close> None run by (simp add: processWorkflowJob_def Let_def dispatch_all_ok)
  qed
qed

lemma send_frame:
  "x_execs (snd (sendToContact ctx body w)) = x_execs w" "w_now (snd (sendToContact ctx body w)) = w_now w"
  "r_execIds (snd (sendToContact ctx body w)) = r_execIds w" "r_newId (snd (sendToContact ctx body w)) = r_newId w"
  for w :: "'a rworld_scheme"
  using send_effect [of ctx w body] effect_execs effect_frame rworld_more(1,2) by blast+

lemma set_exec_frame [simp]:
  "x_execs (set_exec x e w) = (x_execs w)(x \<mapsto> e)" "w_now (set_exec x e w) = w_now w"
  "w_sent (set_exec x e w) = w_sent w" "w_contacts (set_exec x e w) = w_contacts w"
  by (simp_all add: set_exec_def)

lemma set_exec_runs [simp]:
  "r_execIds (set_exec x e w) = r_execIds w" "r_newId (set_exec x e w) = r_newId w" "r_queue (set_exec x e w) = r_queue w"
  for w :: "'a rworld_scheme"
  by (simp_all add: set_exec_def)

lemma set_exec_runs_ok: "runs_ok w \<Longrightarrow> x_execs w x = Some e \<Longrightarrow> same_origin e e' \<Longrightarrow> runs_ok (set_exec x e' w)"
  unfolding set_exec_def by (rule set_exec_ok)

lemma awaiting_ids_exec:
  "x \<in> set (awaiting_ids contactId w) \<Longrightarrow>
     \<exists>e. x_execs w x = Some e \<and> ex_contactId e = Some contactId \<and> ex_status e = AWAITING_REPLY \<and> x \<in> set (r_execIds w)"
  by (auto simp: awaiting_ids_def split: option.splits)

lemma reject_ok:
  assumes "runs_ok w" and "x_execs w x = Some e"
  shows "runs_ok (snd (reject_answer x e q contactId w))"
proof (cases "attempts_exhausted q (ex_awaitingAttempts e + 1)")
  case True
  with assms show ?thesis
    by (simp add: reject_answer_def) (rule set_exec_runs_ok [OF assms], simp add: fail_exec_def same_origin_def)
next
  case False
  let ?w = "set_exec x (e\<lparr>ex_awaitingAttempts := ex_awaitingAttempts e + 1\<rparr>) w"
  have "runs_ok ?w" by (rule set_exec_runs_ok [OF assms]) (simp add: same_origin_def)
  then have "runs_ok (snd (sendToContact (retry_context x contactId e) (retry_prompt q) ?w))"
    by (subst runs_ok_cong [OF send_frame(1,3,4,2)])
  with False show ?thesis by (auto simp: reject_answer_def split: prod.splits sum.splits)
qed

lemma accept_ok:
  assumes "runs_ok w" and "x_execs w x = Some e"
  shows "runs_ok (snd (accept_answer x e q contactId v w))"
proof (cases "x_fields w (js_string (get (lit ''field'') q))")
  case None
  then show ?thesis
    by (simp add: accept_answer_def) (rule set_exec_runs_ok [OF assms], simp add: fail_exec_def same_origin_def)
next
  case (Some d)
  have "runs_ok (w\<lparr>x_fieldValues := f\<rparr>)" for f using assms(1) by (subst runs_ok_cong) simp_all
  then have "runs_ok (set_exec x (e\<lparr>ex_status := RUNNING, ex_awaitingUntil := None\<rparr>) (w\<lparr>x_fieldValues := f\<rparr>))" for f
    by (rule set_exec_runs_ok [where e = e]) (simp_all add: same_origin_def assms(2))
  with Some show ?thesis by (simp add: accept_answer_def Let_def)
qed

lemma resume_ok:
  assumes "runs_ok w"
  shows "runs_ok (snd (resumeAwaitingWorkflows contactId body w))"
proof (cases "awaiting_ids contactId w")
  case Nil
  with assms show ?thesis by (simp add: resumeAwaitingWorkflows_def)
next
  case (Cons x xs)
  then obtain e where e: "x_execs w x = Some e" using awaiting_ids_exec [of x contactId w] by auto
  have "runs_ok (set_exec x (fail_exec m e) w)" for m
    by (rule set_exec_runs_ok [OF assms e]) (simp add: fail_exec_def same_origin_def)
  with assms reject_ok [OF assms e] accept_ok [OF assms e] show ?thesis
    unfolding resumeAwaitingWorkflows_def Cons list.case Let_def e option.sel
    by (simp split: option.split)
qed

interpretation runs: safe_system "run_step disabled" runs_ok for disabled
proof
  fix w :: "'a rworld_scheme" and ev
  assume w: "runs_ok w"
  show "runs_ok (run_step disabled ev w)"
  proof (cases ev)
    case (Wait n)
    have "runs_ok (w\<lparr>w_now := w_now w + int n\<rparr>)"
      by (rule runs_ok_origin [OF w]) (simp_all add: rel_option_iff split: option.splits)
    with Wait show ?thesis by (simp add: run_step_def)
  qed (simp_all add: run_step_def w dispatch_ok process_ok resume_ok)
qed

section \<open>Properties\<close>


definition sample_rworld :: rworld where
  "sample_rworld = wworld.extend (sample_wworld\<lparr>x_execs := Map.empty\<rparr>)
     \<lparr>r_workflows = [\<lparr>wf_id = lit ''wf1'', wf_triggerType = lit ''SHORTCUT'', wf_isActive = True, wf_config = sample_config\<rparr>],
      r_execIds = [], r_newId = (\<lambda>n. replicate n 101), r_queue = []\<rparr>"

lemmas sample_rworld_simps = sample_rworld_def sample_wworld_simps wworld.extend_def


text \<open>which jobs run. The handler only runs actions for an execution that exists and has not finished, of a workflow
  that is still active, and that is no older than seven days; a run job never continues an execution that
  awaits a reply, and a deadline job only continues one that does, past its deadline, and when the author chose
  to continue.\<close>
theorem worker_runs_only_live_executions:
  assumes "processWorkflowJob disabled job w = (RanJob r, w')"
  shows "\<exists>e flow. x_execs w (jb_executionId job) = Some e \<and> ex_status e \<notin> {COMPLETED, FAILED}
    \<and> find_workflow (jb_workflowId job) w = Some flow \<and> wf_isActive flow
    \<and> w_now w \<le> ex_createdAt e + MAX_RUN_DURATION_MS
    \<and> (if jb_kind job = RunJob then ex_status e \<noteq> AWAITING_REPLY
       else ex_status e = AWAITING_REPLY \<and> jb_continue job
         \<and> (case ex_awaitingUntil e of None \<Rightarrow> True | Some t \<Rightarrow> t \<le> w_now w + 1000))"
proof -
  from assms obtain e e' where e: "x_execs w (jb_executionId job) = Some e" and g: "gate_job job e w = (None, e')"
    by (auto simp: processWorkflowJob_def split: option.splits prod.splits)
  from g obtain e1 where q: "gate_question job (w_now w) e = (None, e1)" and st: "ex_status e \<notin> {COMPLETED, FAILED}"
    and age: "w_now w \<le> ex_createdAt e + MAX_RUN_DURATION_MS"
    and fl: "\<not> (case find_workflow (jb_workflowId job) w of None \<Rightarrow> True | Some fl \<Rightarrow> \<not> wf_isActive fl)"
    by (auto simp: gate_job_def split: if_splits prod.splits option.split_asm)
  from fl obtain flow where "find_workflow (jb_workflowId job) w = Some flow" "wf_isActive flow" by (auto split: option.splits)
  moreover from q have "if jb_kind job = RunJob then ex_status e \<noteq> AWAITING_REPLY
       else ex_status e = AWAITING_REPLY \<and> jb_continue job
         \<and> (case ex_awaitingUntil e of None \<Rightarrow> True | Some t \<Rightarrow> t \<le> w_now w + 1000)"
    by (cases "jb_kind job") (auto simp: gate_question_def split: if_splits option.splits)
  ultimately show ?thesis using e st age by blast
qed

definition sample_exec :: exec_row where
  "sample_exec = \<lparr>ex_workflowId = lit ''wf1'', ex_contactId = Some (lit ''p1''), ex_conversationId = None, ex_status = WAITING,
     ex_depth = 0, ex_currentStepIndex = 2, ex_awaitingUntil = None, ex_awaitingAttempts = 0, ex_createdAt = 1000,
     ex_log = [], ex_error = None\<rparr>"

definition waiting_rworld :: rworld where
  "waiting_rworld = sample_rworld\<lparr>x_execs := [lit ''e1'' \<mapsto> sample_exec], r_execIds := [lit ''e1'']\<rparr>"

definition resume_job :: workflow_job where
  "resume_job = \<lparr>jb_kind = RunJob, jb_id = lit ''j'', jb_workflowId = lit ''wf1'', jb_executionId = lit ''e1'', jb_fromStep = 3,
     jb_depth = 0, jb_payload = [], jb_continue = False, jb_due = 1000\<rparr>"

lemma sample_actions: "length (config_actions sample_config) = 3"
  by (simp add: config_actions_def sample_config_def)

lemma resume_job_runs:
  "\<exists>w'. processWorkflowJob False resume_job waiting_rworld = (RanJob RunCompleted, w')"
proof -
  have t: "truthy sample_config" by (simp add: sample_config_def obj_def)
  show ?thesis
    using sample_actions
    by (simp add: processWorkflowJob_def waiting_rworld_def sample_rworld_simps resume_job_def gate_job_def gate_question_def
        sample_exec_def find_workflow_def MAX_RUN_DURATION_MS_def t runWorkflowActions_def finish_run_def
        appendLog_def updateExecution_def job_context_def enqueue_next_def Let_def)
qed

theorem worker_runs_only_live_executions_witness:
  "\<exists>e flow. x_execs waiting_rworld (lit ''e1'') = Some e \<and> ex_status e \<notin> {COMPLETED, FAILED}
    \<and> find_workflow (lit ''wf1'') waiting_rworld = Some flow \<and> wf_isActive flow
    \<and> w_now waiting_rworld \<le> ex_createdAt e + MAX_RUN_DURATION_MS \<and> ex_status e \<noteq> AWAITING_REPLY"
proof -
  obtain w' where "processWorkflowJob False resume_job waiting_rworld = (RanJob RunCompleted, w')" using resume_job_runs by blast
  from worker_runs_only_live_executions [OF this] show ?thesis by (simp add: resume_job_def)
qed

text \<open>the longest delay never resumes. The validator accepts a delay of 10080 minutes, which is the limit on the age
  of a run: whenever the run paused, a job handled after that delay has passed finds the run too old, marks it
  timed out and runs nothing.\<close>
theorem longest_delay_always_expires:
  assumes "x_execs w (jb_executionId job) = Some e" and "jb_kind job = RunJob" and "ex_status e = WAITING"
    and "ex_createdAt e \<le> pausedAt" and "pausedAt + 10080 * 60000 < w_now w"
  shows "validateDelay (obj [(''type'', JStr (lit ''WAIT_DELAY'')), (''minutes'', JNum 10080)]) path 0 = []
    \<and> processWorkflowJob disabled job w =
      (SkippedJob ''run older than the deadline'',
       w\<lparr>x_execs := (x_execs w)(jb_executionId job \<mapsto> timed_out ''the run exceeded the seven-day limit'' e)\<rparr>)"
proof
  show "validateDelay (obj [(''type'', JStr (lit ''WAIT_DELAY'')), (''minutes'', JNum 10080)]) path 0 = []"
    by (simp add: validateDelay_def is_integer_def MAX_DELAY_MINUTES_def)
  have "gate_job job e w = (Some ''run older than the deadline'', timed_out ''the run exceeded the seven-day limit'' e)"
    using assms(2-5) by (simp add: gate_job_def gate_question_def MAX_RUN_DURATION_MS_def)
  with assms(1) show "processWorkflowJob disabled job w =
      (SkippedJob ''run older than the deadline'',
       w\<lparr>x_execs := (x_execs w)(jb_executionId job \<mapsto> timed_out ''the run exceeded the seven-day limit'' e)\<rparr>)"
    by (simp add: processWorkflowJob_def)
qed

theorem longest_delay_always_expires_witness:
  "fst (processWorkflowJob False resume_job (waiting_rworld\<lparr>w_now := 604801001\<rparr>)) = SkippedJob ''run older than the deadline''"
  using longest_delay_always_expires [of "waiting_rworld\<lparr>w_now := 604801001\<rparr>" resume_job sample_exec 1000 "[]" False]
  by (simp add: waiting_rworld_def resume_job_def sample_exec_def)

text \<open>an accepted answer is kept and cannot time out. It is stored in the custom field the question names, the run
  is marked running before its job is queued, a job that continues after the question is on the queue, and every
  deadline job for that run is from then on a no-op.\<close>
theorem accepted_answer_is_stored_and_safe:
  assumes "accept_answer x e question contactId v w = (Inr True, w')"
    and "run_job_id x (ex_currentStepIndex e) \<notin> jb_id ` set (r_queue w)"
    and "jb_kind job = AnswerTimeout" and "jb_executionId job = x"
  shows "\<exists>d. x_fields w (js_string (get (lit ''field'') question)) = Some d
    \<and> x_fieldValues w' (contactId, d) = Some (Some v)
    \<and> (\<exists>j. j \<in> set (r_queue w') \<and> jb_kind j = RunJob \<and> jb_executionId j = x \<and> jb_fromStep j = ex_currentStepIndex e
          \<and> jb_payload j = [(lit ''answer'', JStr v)])
    \<and> processWorkflowJob disabled job w' = (SkippedJob ''answered before the deadline'', w')"
proof -
  from assms(1) obtain d where d: "x_fields w (js_string (get (lit ''field'') question)) = Some d"
    by (auto simp: accept_answer_def split: option.splits)
  let ?e = "e\<lparr>ex_status := RUNNING, ex_awaitingUntil := None\<rparr>"
  define j where "j = \<lparr>jb_kind = RunJob, jb_id = run_job_id x (ex_currentStepIndex e), jb_workflowId = ex_workflowId e,
        jb_executionId = x, jb_fromStep = ex_currentStepIndex e, jb_depth = ex_depth e,
        jb_payload = [(lit ''answer'', JStr v)], jb_continue = False, jb_due = w_now w\<rparr>"
  from assms(1) d have w': "w' = queue_add j
       (set_exec x ?e (w\<lparr>x_fieldValues := (x_fieldValues w)((contactId, d) \<mapsto> Some v)\<rparr>))"
    by (simp add: accept_answer_def Let_def j_def)
  have ex: "x_execs w' x = Some ?e" by (simp add: w')
  then have "gate_job job ?e w' = (Some ''answered before the deadline'', ?e)"
    using assms(3) by (simp add: gate_job_def gate_question_def)
  moreover have "w'\<lparr>x_execs := (x_execs w')(x \<mapsto> ?e)\<rparr> = w'" using ex by (simp add: fun_upd_idem)
  ultimately have "processWorkflowJob disabled job w' = (SkippedJob ''answered before the deadline'', w')"
    using ex assms(4) by (simp add: processWorkflowJob_def)
  moreover have "x_fieldValues w' (contactId, d) = Some (Some v)" by (simp add: w' queue_add_def set_exec_def)
  moreover have "(\<exists>j. j \<in> set (r_queue w') \<and> jb_kind j = RunJob \<and> jb_executionId j = x \<and> jb_fromStep j = ex_currentStepIndex e
          \<and> jb_payload j = [(lit ''answer'', JStr v)])"
    using assms(2) by (intro exI [of _ j]) (simp add: w' queue_add_def set_exec_def, simp add: j_def)
  ultimately show ?thesis using d by blast
qed

definition sample_question :: json where
  "sample_question = obj [(''type'', JStr (lit ''ASK_QUESTION'')), (''field'', JStr (lit ''size'')), (''expects'', JStr (lit ''number''))]"

theorem accepted_answer_is_stored_and_safe_witness:
  "\<exists>w'. accept_answer (lit ''e1'') (sample_exec\<lparr>ex_status := AWAITING_REPLY\<rparr>) sample_question (lit ''p1'') (lit ''42'')
        (waiting_rworld\<lparr>x_fields := [lit ''size'' \<mapsto> lit ''f1'']\<rparr>) = (Inr True, w')
    \<and> x_fieldValues w' (lit ''p1'', lit ''f1'') = Some (Some (lit ''42''))
    \<and> processWorkflowJob False (resume_job\<lparr>jb_kind := AnswerTimeout\<rparr>) w' = (SkippedJob ''answered before the deadline'', w')"
proof -
  let ?w = "waiting_rworld\<lparr>x_fields := [lit ''size'' \<mapsto> lit ''f1'']\<rparr>"
  obtain w' where a: "accept_answer (lit ''e1'') (sample_exec\<lparr>ex_status := AWAITING_REPLY\<rparr>) sample_question (lit ''p1'') (lit ''42'') ?w
      = (Inr True, w')"
    by (auto simp: accept_answer_def sample_question_def Let_def)
  from accepted_answer_is_stored_and_safe [OF a, of "resume_job\<lparr>jb_kind := AnswerTimeout\<rparr>" False]
  have "\<exists>d. x_fields ?w (js_string (get (lit ''field'') sample_question)) = Some d \<and> x_fieldValues w' (lit ''p1'', d) = Some (Some (lit ''42''))
      \<and> processWorkflowJob False (resume_job\<lparr>jb_kind := AnswerTimeout\<rparr>) w' = (SkippedJob ''answered before the deadline'', w')"
    by (auto simp: resume_job_def waiting_rworld_def sample_rworld_simps sample_question_def)
  with a show ?thesis by (auto simp: sample_question_def)
qed

text \<open>how often a question is repeated. An unusable answer is counted; unless the count has reached the author's
  limit the question is sent again, at most once, and when it has, the run fails and nothing is sent.\<close>
theorem unusable_answers_are_counted:
  assumes "attempts_exhausted question n \<longleftrightarrow> limit \<le> n" and "n = ex_awaitingAttempts e + 1"
  shows "\<exists>e'. x_execs (snd (reject_answer x e question contactId w)) x = Some e' \<and> ex_awaitingAttempts e' = n
    \<and> (if n < limit
       then ex_status e' = ex_status e \<and> length (w_sent (snd (reject_answer x e question contactId w))) \<le> Suc (length (w_sent w))
       else ex_status e' = FAILED \<and> w_sent (snd (reject_answer x e question contactId w)) = w_sent w)"
proof (cases "n < limit")
  case False
  with assms show ?thesis by (simp add: reject_answer_def fail_exec_def)
next
  case True
  let ?w = "set_exec x (e\<lparr>ex_awaitingAttempts := n\<rparr>) w"
  have r: "snd (reject_answer x e question contactId w) =
      snd (sendToContact (retry_context x contactId e) (retry_prompt question) ?w)"
    using assms True by (auto simp: reject_answer_def split: prod.splits sum.splits)
  have "length (w_sent (snd (sendToContact ctx body v))) \<le> Suc (length (w_sent v))" for ctx body and v :: "'a rworld_scheme"
    by (auto simp: sendToContact_def send_text_def split: option.splits sum.splits)
  from this [of _ _ ?w] True show ?thesis unfolding r send_frame(1) by simp
qed

theorem unusable_answers_are_counted_witness:
  "\<exists>e'. x_execs (snd (reject_answer (lit ''e1'') sample_exec sample_question (lit ''p1'') waiting_rworld)) (lit ''e1'') = Some e'
    \<and> ex_awaitingAttempts e' = 1"
proof -
  have "attempts_exhausted sample_question 1 \<longleftrightarrow> (2::nat) \<le> 1"
    by (simp add: attempts_exhausted_def sample_question_def DEFAULT_ANSWER_ATTEMPTS_def)
  from unusable_answers_are_counted [OF this, of sample_exec "lit ''e1''" "lit ''p1''" waiting_rworld]
  show ?thesis by (auto simp: sample_exec_def)
qed

end
