(* ===== verification/Editions.thy ===== *)
theory Editions
  imports Prelude "HOL-Library.List_Lexorder" "HOL-Library.Product_Lexorder"
begin

text \<open>
  The edition catalogue: \<open>modules/billing/plans.ts\<close> and \<open>modules/billing/editions.service.ts\<close>.

  The catalogue tables are a list of plans, each with its versions and their prices (\<open>plan_row\<close>,
  \<open>version_row\<close>, \<open>price_row\<close>); a version is named by its plan's code and its number. An edit is the flat
  map of fields the console sends: one optional value per column, and the names of the keys that
  belong to no table. A transaction that throws leaves the tables as they were and is the left side of
  a sum. The process-wide cache (\<open>cache\<close>, \<open>activeCodes\<close>, \<open>lastLoadedAt\<close> and what is published to
  \<open>plans.ts\<close>) is the record \<open>catalogue\<close>.
\<close>

section \<open>Editions\<close>

datatype pricing_model = FREE | FIXED | NEGOTIATED

datatype billing_interval = MONTHLY | YEARLY

text \<open>The order of the enum, which \<open>orderBy interval\<close> follows.\<close>

instantiation billing_interval :: linorder
begin

definition less_eq_billing_interval :: "billing_interval \<Rightarrow> billing_interval \<Rightarrow> bool" where
  "less_eq_billing_interval a b \<longleftrightarrow> a = MONTHLY \<or> b = YEARLY"

definition less_billing_interval :: "billing_interval \<Rightarrow> billing_interval \<Rightarrow> bool" where
  "less_billing_interval a b \<longleftrightarrow> a = MONTHLY \<and> b = YEARLY"

instance
proof
  fix x y z :: billing_interval
  show "x < y \<longleftrightarrow> x \<le> y \<and> \<not> y \<le> x"
    by (cases x; cases y) (simp_all add: less_eq_billing_interval_def less_billing_interval_def)
  show "x \<le> x" by (cases x) (simp_all add: less_eq_billing_interval_def)
  show "x \<le> y \<Longrightarrow> y \<le> z \<Longrightarrow> x \<le> z"
    by (cases x; cases z) (auto simp: less_eq_billing_interval_def)
  show "x \<le> y \<Longrightarrow> y \<le> x \<Longrightarrow> x = y"
    by (cases x; cases y) (simp_all add: less_eq_billing_interval_def)
  show "x \<le> y \<or> y \<le> x"
    by (cases x; cases y) (simp_all add: less_eq_billing_interval_def)
qed

end

text \<open>The numeric columns and the boolean ones, by name.\<close>

datatype limit_field =
    MonthlyActiveContacts | MonthlyOutboundMessages | MonthlyCampaignSends | CustomFields | Users
  | MaxWorkspaces | Workflows | MonthlyAiTokensIn | MonthlyAiTokensOut

datatype feature = CustomDomain | WhiteLabel | MaskContactDetails | AutoProvisionGateway

record edition =
  ed_code :: jstr
  ed_name :: jstr
  ed_priceCents :: int
  ed_currency :: jstr
  ed_pricingModel :: pricing_model
  ed_interval :: billing_interval
  ed_limit :: "limit_field \<Rightarrow> int option"
  ed_rateMax :: int
  ed_rateDurationMs :: int
  ed_feature :: "feature \<Rightarrow> bool"
  ed_channels :: "jstr list"

definition limits_of ::
  "int option \<Rightarrow> int option \<Rightarrow> int option \<Rightarrow> int option \<Rightarrow> int option \<Rightarrow> int option \<Rightarrow> int option \<Rightarrow> int option
   \<Rightarrow> int option \<Rightarrow> limit_field \<Rightarrow> int option" where
  "limits_of contacts out camp cfs us ws wfs ai_in ai_out f =
     (case f of
        MonthlyActiveContacts \<Rightarrow> contacts | MonthlyOutboundMessages \<Rightarrow> out | MonthlyCampaignSends \<Rightarrow> camp
      | CustomFields \<Rightarrow> cfs | Users \<Rightarrow> us | MaxWorkspaces \<Rightarrow> ws | Workflows \<Rightarrow> wfs
      | MonthlyAiTokensIn \<Rightarrow> ai_in | MonthlyAiTokensOut \<Rightarrow> ai_out)"

definition OPENWA :: jstr where "OPENWA = lit ''OPENWA''"
definition WHATSAPP_CLOUD :: jstr where "WHATSAPP_CLOUD = lit ''WHATSAPP_CLOUD''"

text \<open>The shipped editions.\<close>

definition EDITION_FREE :: edition where
  "EDITION_FREE =
     \<lparr>ed_code = lit ''FREE'', ed_name = lit ''Free'', ed_priceCents = 0, ed_currency = lit ''USD'',
      ed_pricingModel = FREE, ed_interval = MONTHLY,
      ed_limit = limits_of (Some 100) (Some 100) (Some 0) (Some 5) (Some 1) (Some 1) (Some 1) None None,
      ed_rateMax = 1, ed_rateDurationMs = 2000, ed_feature = (\<lambda>_. False),
      ed_channels = [OPENWA, WHATSAPP_CLOUD]\<rparr>"

definition EDITION_STANDARD :: edition where
  "EDITION_STANDARD =
     \<lparr>ed_code = lit ''STANDARD'', ed_name = lit ''Standard'', ed_priceCents = 1900, ed_currency = lit ''USD'',
      ed_pricingModel = FIXED, ed_interval = MONTHLY,
      ed_limit = limits_of (Some 500) (Some 2000) (Some 0) (Some 5) (Some 2) (Some 1) (Some 1) None None,
      ed_rateMax = 1, ed_rateDurationMs = 1500, ed_feature = (\<lambda>f. f = AutoProvisionGateway),
      ed_channels = [OPENWA, WHATSAPP_CLOUD]\<rparr>"

definition EDITION_GROWTH :: edition where
  "EDITION_GROWTH =
     \<lparr>ed_code = lit ''GROWTH'', ed_name = lit ''Growth'', ed_priceCents = 4900, ed_currency = lit ''USD'',
      ed_pricingModel = FIXED, ed_interval = MONTHLY,
      ed_limit = limits_of (Some 2500) (Some 10000) (Some 5000) (Some 20) (Some 5) (Some 1) (Some 10) None None,
      ed_rateMax = 1, ed_rateDurationMs = 1500, ed_feature = (\<lambda>f. f = AutoProvisionGateway),
      ed_channels = [WHATSAPP_CLOUD]\<rparr>"

definition EDITION_BUSINESS :: edition where
  "EDITION_BUSINESS =
     \<lparr>ed_code = lit ''BUSINESS'', ed_name = lit ''Business'', ed_priceCents = 19900, ed_currency = lit ''USD'',
      ed_pricingModel = FIXED, ed_interval = MONTHLY,
      ed_limit = limits_of (Some 10000) (Some 50000) (Some 25000) (Some 50) (Some 25) (Some 5) (Some 50) None None,
      ed_rateMax = 1, ed_rateDurationMs = 1000, ed_feature = (\<lambda>_. True),
      ed_channels = [WHATSAPP_CLOUD]\<rparr>"

definition EDITION_ENTERPRISE :: edition where
  "EDITION_ENTERPRISE =
     \<lparr>ed_code = lit ''ENTERPRISE'', ed_name = lit ''Enterprise'', ed_priceCents = 0, ed_currency = lit ''USD'',
      ed_pricingModel = NEGOTIATED, ed_interval = MONTHLY,
      ed_limit = (\<lambda>_. None),
      ed_rateMax = 2, ed_rateDurationMs = 1000, ed_feature = (\<lambda>_. True),
      ed_channels = [WHATSAPP_CLOUD]\<rparr>"

definition PLAN_ENTITLEMENTS :: "edition list" where
  "PLAN_ENTITLEMENTS = [EDITION_FREE, EDITION_STANDARD, EDITION_GROWTH, EDITION_BUSINESS, EDITION_ENTERPRISE]"

definition UNLIMITED_SENTINEL :: int where "UNLIMITED_SENTINEL = 1000000000"

definition DEFAULT_PACING_MAX :: int where "DEFAULT_PACING_MAX = 1"
definition DEFAULT_PACING_MS :: int where "DEFAULT_PACING_MS = 2000"

definition RESERVED_PLAN_CODES :: "jstr list" where "RESERVED_PLAN_CODES = [lit ''FREE'']"

definition monthlyEquivalentCents :: "edition \<Rightarrow> int" where
  "monthlyEquivalentCents e =
     (if ed_interval e = YEARLY then \<lfloor>of_int (ed_priceCents e) / 12 + (1 / 2 :: rat)\<rfloor> else ed_priceCents e)"

text \<open>\<open>/^[A-Z][A-Z0-9_]{1,23}$/\<close>\<close>

definition plan_code_ok :: "jstr \<Rightarrow> bool" where
  "plan_code_ok s \<longleftrightarrow>
     (case s of
        [] \<Rightarrow> False
      | c # cs \<Rightarrow> 65 \<le> c \<and> c \<le> 90 \<and> 1 \<le> length cs \<and> length cs \<le> 23
          \<and> list_all (\<lambda>d. (65 \<le> d \<and> d \<le> 90) \<or> is_digit d \<or> d = 95) cs)"

section \<open>The catalogue held in memory\<close>

record catalogue =
  ca_cache :: "(jstr \<times> edition) list option"
  ca_activeCodes :: "jstr list option"
  ca_lastLoadedAt :: "int option"
  ca_knownPlanCodes :: "jstr list option"
  ca_planPricingModels :: "(jstr \<times> pricing_model) list option"

definition STALE_AFTER_MS :: int where "STALE_AFTER_MS = 600000"

definition RESTRICTED_FLOOR :: edition where
  "RESTRICTED_FLOOR =
     \<lparr>ed_code = lit ''FREE'', ed_name = lit ''Unavailable'', ed_priceCents = 0, ed_currency = lit ''USD'',
      ed_pricingModel = FREE, ed_interval = MONTHLY,
      ed_limit = limits_of (Some 0) (Some 0) (Some 0) (Some 0) (Some 0) (Some 1) (Some 0) (Some 0) (Some 0),
      ed_rateMax = 1, ed_rateDurationMs = 2000, ed_feature = (\<lambda>_. False), ed_channels = []\<rparr>"

datatype edition_error =
    InvalidPlanCode jstr | UnknownPlanCode jstr | MalformedRowCode jstr | EditionNotFound jstr
  | NoCurrentVersion jstr | NoActivePrice jstr | UnknownField jstr | FreeMustBeZero | FixedMustBePositive
  | Disappeared jstr | DuplicateCode jstr

definition normalizePlanCode :: "catalogue \<Rightarrow> jstr \<Rightarrow> edition_error + jstr" where
  "normalizePlanCode c value =
     (let code = js_upper (js_trim value)
      in if \<not> plan_code_ok code then Inl (InvalidPlanCode value)
         else case ca_knownPlanCodes c of
                Some known \<Rightarrow> if code \<in> set known then Inr code else Inl (UnknownPlanCode code)
              | None \<Rightarrow> Inr code)"

definition isPaidPlan :: "catalogue \<Rightarrow> jstr \<Rightarrow> bool" where
  "isPaidPlan c code =
     (case Option.bind (ca_planPricingModels c) (\<lambda>ms. map_of ms code) of
        Some model \<Rightarrow> model \<noteq> FREE
      | None \<Rightarrow> code \<noteq> lit ''FREE'')"

definition isCatalogueStale :: "int \<Rightarrow> catalogue \<Rightarrow> bool" where
  "isCatalogueStale now c =
     (case ca_lastLoadedAt c of None \<Rightarrow> True | Some t \<Rightarrow> \<not> now - t \<le> STALE_AFTER_MS)"

definition getEdition :: "int \<Rightarrow> catalogue \<Rightarrow> jstr \<Rightarrow> edition" where
  "getEdition now c code =
     (if isCatalogueStale now c then RESTRICTED_FLOOR
      else case Option.bind (ca_cache c) (\<lambda>m. map_of m code) of
             Some e \<Rightarrow> e | None \<Rightarrow> RESTRICTED_FLOOR)"

definition getEditions :: "int \<Rightarrow> catalogue \<Rightarrow> edition list" where
  "getEditions now c =
     (case ca_cache c of
        None \<Rightarrow> []
      | Some m \<Rightarrow>
          if isCatalogueStale now c then []
          else map snd (filter (\<lambda>(code, _). case ca_activeCodes c of None \<Rightarrow> True | Some a \<Rightarrow> code \<in> set a) m))"

text \<open>\<open>findIndex\<close>, with \<open>None\<close> for \<open>-1\<close>.\<close>

fun find_index :: "('a \<Rightarrow> bool) \<Rightarrow> 'a list \<Rightarrow> nat option" where
  "find_index P [] = None"
| "find_index P (x # xs) = (if P x then Some 0 else map_option Suc (find_index P xs))"

definition ladder_start :: "edition list \<Rightarrow> jstr \<Rightarrow> nat" where
  "ladder_start ladder asking =
     (case find_index (\<lambda>e. ed_code e = asking) ladder of Some i \<Rightarrow> i + 1 | None \<Rightarrow> 0)"

definition cheapestUpgradeGranting :: "edition list \<Rightarrow> jstr \<Rightarrow> (edition \<Rightarrow> bool) \<Rightarrow> jstr option" where
  "cheapestUpgradeGranting ladder asking grants =
     map_option ed_name (find grants (drop (ladder_start ladder asking) ladder))"

section \<open>The catalogue in the database\<close>

record price_row =
  pr_amountCents :: int
  pr_currency :: jstr
  pr_interval :: billing_interval
  pr_pricingModel :: pricing_model
  pr_isActive :: bool

record version_row =
  pv_version :: int
  pv_isCurrent :: bool
  pv_limit :: "limit_field \<Rightarrow> int option"
  pv_rateMax :: "int option"
  pv_rateDurationMs :: "int option"
  pv_feature :: "feature \<Rightarrow> bool"
  pv_channels :: "jstr list"
  pv_prices :: "price_row list"

text \<open>An edit: \<open>None\<close> where the map lacks the key. \<open>e_unknown\<close> holds the keys no table has.\<close>

record edit =
  e_name :: "jstr option"
  e_isActive :: "bool option"
  e_sortOrder :: "int option"
  e_archivedAt :: "int option option"
  e_priceCents :: "int option"
  e_pricingModel :: "pricing_model option"
  e_interval :: "billing_interval option"
  e_currency :: "jstr option"
  e_limit :: "limit_field \<Rightarrow> int option option"
  e_rateMax :: "int option option"
  e_rateDurationMs :: "int option option"
  e_feature :: "feature \<Rightarrow> bool option"
  e_channels :: "jstr list option"
  e_unknown :: "jstr list"

record plan_row =
  pl_code :: jstr
  pl_name :: jstr
  pl_isActive :: bool
  pl_sortOrder :: int
  pl_archivedAt :: "int option"
  pl_scheduledFrom :: "int option"
  pl_scheduledChanges :: "edit option"
  pl_versions :: "version_row list"

type_synonym edition_db = "plan_row list"

definition empty_edit :: edit where
  "empty_edit =
     \<lparr>e_name = None, e_isActive = None, e_sortOrder = None, e_archivedAt = None, e_priceCents = None,
      e_pricingModel = None, e_interval = None, e_currency = None, e_limit = (\<lambda>_. None), e_rateMax = None,
      e_rateDurationMs = None, e_feature = (\<lambda>_. None), e_channels = None, e_unknown = []\<rparr>"

text \<open>\<open>ACTIVE_PRICE_QUERY\<close>: the first active price by interval and currency.\<close>

definition active_price :: "version_row \<Rightarrow> price_row option" where
  "active_price v =
     (case sort_key (\<lambda>p. (pr_interval p, pr_currency p)) (filter pr_isActive (pv_prices v)) of
        [] \<Rightarrow> None | p # _ \<Rightarrow> Some p)"

definition rowToEdition :: "edition \<Rightarrow> edition_error + edition" where
  "rowToEdition row =
     (let code = js_upper (js_trim (ed_code row))
      in if plan_code_ok code then Inr (row\<lparr>ed_code := code\<rparr>) else Inl (MalformedRowCode (ed_code row)))"

definition versionedEditionOf :: "jstr \<Rightarrow> jstr \<Rightarrow> version_row \<Rightarrow> edition_error + edition" where
  "versionedEditionOf code name v =
     (case active_price v of
        None \<Rightarrow> Inl (NoActivePrice code)
      | Some p \<Rightarrow>
          rowToEdition
            \<lparr>ed_code = code, ed_name = name, ed_priceCents = pr_amountCents p, ed_currency = pr_currency p,
             ed_pricingModel = pr_pricingModel p, ed_interval = pr_interval p, ed_limit = pv_limit v,
             ed_rateMax = (case pv_rateMax v of None \<Rightarrow> DEFAULT_PACING_MAX | Some n \<Rightarrow> n),
             ed_rateDurationMs = (case pv_rateDurationMs v of None \<Rightarrow> DEFAULT_PACING_MS | Some n \<Rightarrow> n),
             ed_feature = pv_feature v, ed_channels = pv_channels v\<rparr>)"

definition current_version :: "plan_row \<Rightarrow> version_row option" where
  "current_version pl = find pv_isCurrent (pl_versions pl)"

definition flattenEdition :: "plan_row \<Rightarrow> edition_error + edition" where
  "flattenEdition pl =
     (case current_version pl of
        None \<Rightarrow> Inl (NoCurrentVersion (pl_code pl))
      | Some v \<Rightarrow> versionedEditionOf (pl_code pl) (pl_name pl) v)"

definition find_plan :: "jstr \<Rightarrow> edition_db \<Rightarrow> plan_row option" where
  "find_plan code db = find (\<lambda>pl. pl_code pl = code) db"

definition plan_version :: "edition_db \<Rightarrow> jstr \<Rightarrow> int \<Rightarrow> version_row option" where
  "plan_version db code n = Option.bind (find_plan code db) (\<lambda>pl. find (\<lambda>v. pv_version v = n) (pl_versions pl))"

text \<open>The edition of a subscription that pins version \<open>n\<close> of a plan (\<open>subscriptionEditionOf\<close>).\<close>

definition subscriptionEditionOf :: "edition_db \<Rightarrow> jstr \<times> int \<Rightarrow> edition_error + edition option" where
  "subscriptionEditionOf db pin =
     (case pin of (code, n) \<Rightarrow>
        (case find_plan code db of
           None \<Rightarrow> Inr None
         | Some pl \<Rightarrow>
             (case plan_version db code n of
                None \<Rightarrow> Inr None
              | Some v \<Rightarrow> (case versionedEditionOf (pl_code pl) (pl_name pl) v of
                            Inl e \<Rightarrow> Inl e | Inr ed \<Rightarrow> Inr (Some ed)))))"

definition readEdition :: "edition_db \<Rightarrow> jstr \<Rightarrow> edition_error + edition option" where
  "readEdition db code =
     (case find_plan code db of
        None \<Rightarrow> Inr None
      | Some pl \<Rightarrow> (case flattenEdition pl of Inl e \<Rightarrow> Inl e | Inr ed \<Rightarrow> Inr (Some ed)))"

section \<open>Publishing a change\<close>

definition applyEditionPricingInvariant ::
  "edit \<Rightarrow> (pricing_model \<times> int) option \<Rightarrow> edition_error + edit" where
  "applyEditionPricingInvariant d current =
     (let model = (case e_pricingModel d of Some m \<Rightarrow> m | None \<Rightarrow> (case current of Some (m, _) \<Rightarrow> m | None \<Rightarrow> FIXED));
          price = (case e_priceCents d of Some p \<Rightarrow> p | None \<Rightarrow> (case current of Some (_, p) \<Rightarrow> p | None \<Rightarrow> 0))
      in if model = NEGOTIATED then Inr (d\<lparr>e_priceCents := Some 0\<rparr>)
         else if model = FREE \<and> price \<noteq> 0 then Inl FreeMustBeZero
         else if model = FIXED \<and> price \<le> 0 then Inl FixedMustBePositive
         else Inr d)"

text \<open>What \<open>routeEditionFields\<close> sends to each of the three tables, as the update it causes there.\<close>

definition or_old :: "'a \<Rightarrow> 'a option \<Rightarrow> 'a" where
  "or_old old new = (case new of Some x \<Rightarrow> x | None \<Rightarrow> old)"

definition plan_data :: "edit \<Rightarrow> plan_row \<Rightarrow> plan_row" where
  "plan_data d pl =
     pl\<lparr>pl_name := or_old (pl_name pl) (e_name d), pl_isActive := or_old (pl_isActive pl) (e_isActive d),
        pl_sortOrder := or_old (pl_sortOrder pl) (e_sortOrder d),
        pl_archivedAt := or_old (pl_archivedAt pl) (e_archivedAt d)\<rparr>"

definition version_data :: "edit \<Rightarrow> version_row \<Rightarrow> version_row" where
  "version_data d v =
     v\<lparr>pv_limit := (\<lambda>f. or_old (pv_limit v f) (e_limit d f)), pv_rateMax := or_old (pv_rateMax v) (e_rateMax d),
       pv_rateDurationMs := or_old (pv_rateDurationMs v) (e_rateDurationMs d),
       pv_feature := (\<lambda>f. or_old (pv_feature v f) (e_feature d f)),
       pv_channels := or_old (pv_channels v) (e_channels d)\<rparr>"

definition price_data :: "edit \<Rightarrow> price_row \<Rightarrow> price_row" where
  "price_data d p =
     p\<lparr>pr_amountCents := or_old (pr_amountCents p) (e_priceCents d),
       pr_pricingModel := or_old (pr_pricingModel p) (e_pricingModel d),
       pr_interval := or_old (pr_interval p) (e_interval d), pr_currency := or_old (pr_currency p) (e_currency d)\<rparr>"

definition routeEditionFields :: "edit \<Rightarrow> edition_error + edit" where
  "routeEditionFields d = (case e_unknown d of [] \<Rightarrow> Inr d | k # _ \<Rightarrow> Inl (UnknownField k))"

text \<open>The column defaults of a version and a price that is created without a value for the column.\<close>

definition default_version :: version_row where
  "default_version =
     \<lparr>pv_version = 1, pv_isCurrent = True, pv_limit = (\<lambda>_. None),
      pv_rateMax = None, pv_rateDurationMs = None, pv_feature = (\<lambda>_. False), pv_channels = [OPENWA], pv_prices = []\<rparr>"

definition default_price :: price_row where
  "default_price =
     \<lparr>pr_amountCents = 0, pr_currency = lit ''USD'', pr_interval = MONTHLY, pr_pricingModel = FIXED, pr_isActive = True\<rparr>"

text \<open>
  \<open>createEditionRows\<close> writes three rows one after the other on the client it is given. Both callers give
  it the plain client, so every write stands on its own: \<open>create_edition_rows n\<close> is what is stored
  after the first \<open>n\<close> of them, and a process that stops in between leaves that behind.
\<close>

definition new_plan :: "jstr \<Rightarrow> edit \<Rightarrow> plan_row" where
  "new_plan code d =
     plan_data d
       \<lparr>pl_code = code, pl_name = (case e_name d of Some n \<Rightarrow> n | None \<Rightarrow> code), pl_isActive = True, pl_sortOrder = 0,
        pl_archivedAt = None, pl_scheduledFrom = None, pl_scheduledChanges = None, pl_versions = []\<rparr>"

definition create_edition_rows :: "nat \<Rightarrow> jstr \<Rightarrow> edit \<Rightarrow> edition_db \<Rightarrow> edition_error + edition_db" where
  "create_edition_rows n code fs db =
     (case applyEditionPricingInvariant fs None of
        Inl e \<Rightarrow> Inl e
      | Inr fs' \<Rightarrow>
          (case routeEditionFields fs' of
             Inl e \<Rightarrow> Inl e
           | Inr d \<Rightarrow>
               if find_plan code db \<noteq> None then Inl (DuplicateCode code) else
               let pl = new_plan code d; v = version_data d default_version; p = price_data d default_price
               in Inr (db @ (if n = 0 then []
                             else if n = 1 then [pl]
                             else if n = 2 then [pl\<lparr>pl_versions := [v]\<rparr>]
                             else [pl\<lparr>pl_versions := [v\<lparr>pv_prices := [p]\<rparr>]\<rparr>]))))"

definition createEditionRows :: "jstr \<Rightarrow> edit \<Rightarrow> edition_db \<Rightarrow> edition_error + edition_db" where
  "createEditionRows = create_edition_rows 3"

definition seed_fields :: "nat \<Rightarrow> edition \<Rightarrow> edit" where
  "seed_fields i e =
     \<lparr>e_name = Some (ed_name e), e_isActive = None, e_sortOrder = Some (int i), e_archivedAt = None,
      e_priceCents = Some (ed_priceCents e), e_pricingModel = Some (ed_pricingModel e),
      e_interval = Some (ed_interval e), e_currency = Some (ed_currency e),
      e_limit = (\<lambda>f. Some (ed_limit e f)), e_rateMax = Some (Some (ed_rateMax e)),
      e_rateDurationMs = Some (Some (ed_rateDurationMs e)), e_feature = (\<lambda>f. Some (ed_feature e f)),
      e_channels = Some (ed_channels e), e_unknown = []\<rparr>"

fun ensure_plans :: "(nat \<times> edition) list \<Rightarrow> edition_db \<Rightarrow> edition_error + edition_db" where
  "ensure_plans [] db = Inr db"
| "ensure_plans ((i, e) # es) db =
     (if find_plan (ed_code e) db \<noteq> None then ensure_plans es db
      else case createEditionRows (ed_code e) (seed_fields i e) db of
             Inl err \<Rightarrow> Inl err | Inr db' \<Rightarrow> ensure_plans es db')"

definition ensurePlans :: "edition_db \<Rightarrow> edition_error + edition_db" where
  "ensurePlans db = ensure_plans (indexed PLAN_ENTITLEMENTS) db"

definition set_plan :: "plan_row \<Rightarrow> edition_db \<Rightarrow> edition_db" where
  "set_plan pl db = map (\<lambda>q. if pl_code q = pl_code pl then pl else q) db"

record publication =
  pb_before :: edition
  pb_after :: edition
  pb_fromVersion :: int
  pb_toVersion :: int

definition latest_version :: "plan_row \<Rightarrow> int" where
  "latest_version pl = Max (set (map pv_version (pl_versions pl)))"

definition supersede :: "version_row \<Rightarrow> price_row \<Rightarrow> edit \<Rightarrow> plan_row \<Rightarrow> plan_row" where
  "supersede cur price d pl =
     (let next = (version_data d cur)
                   \<lparr>pv_version := latest_version pl + 1, pv_isCurrent := True,
                    pv_prices := [price_data d (price\<lparr>pr_isActive := True\<rparr>)]\<rparr>
      in (plan_data d pl)
           \<lparr>pl_versions :=
              map (\<lambda>v. if pv_version v = pv_version cur then v\<lparr>pv_isCurrent := False\<rparr> else v) (pl_versions pl)
              @ [next]\<rparr>)"

text \<open>
  \<open>applyEditionChanges\<close>: the row lock serializes publications of a plan, so a call is one step.
\<close>

definition publishEditionChangesLocked ::
  "jstr \<Rightarrow> edit \<Rightarrow> edition_db \<Rightarrow> edition_error + edition_db \<times> publication" where
  "publishEditionChangesLocked code data db =
     (case find_plan code db of
        None \<Rightarrow> Inl (EditionNotFound code)
      | Some pl \<Rightarrow>
     (case current_version pl of
        None \<Rightarrow> Inl (NoCurrentVersion code)
      | Some cur \<Rightarrow>
     (case active_price cur of
        None \<Rightarrow> Inl (NoActivePrice code)
      | Some price \<Rightarrow>
     (case flattenEdition pl of
        Inl e \<Rightarrow> Inl e
      | Inr before \<Rightarrow>
     (case (if e_pricingModel data \<noteq> None \<or> e_priceCents data \<noteq> None
            then applyEditionPricingInvariant data (Some (ed_pricingModel before, ed_priceCents before))
            else Inr data) of
        Inl e \<Rightarrow> Inl e
      | Inr data' \<Rightarrow>
     (case routeEditionFields data' of
        Inl e \<Rightarrow> Inl e
      | Inr d \<Rightarrow>
          let db' = set_plan (supersede cur price d pl) db
          in (case readEdition db' code of
                Inl e \<Rightarrow> Inl e
              | Inr None \<Rightarrow> Inl (Disappeared code)
              | Inr (Some after) \<Rightarrow>
                  Inr (db', \<lparr>pb_before = before, pb_after = after, pb_fromVersion = pv_version cur,
                             pb_toVersion = latest_version pl + 1\<rparr>))))))))"

definition applyEditionChanges :: "jstr \<Rightarrow> edit \<Rightarrow> edition_db \<Rightarrow> edition_error + edition_db \<times> publication" where
  "applyEditionChanges code data db =
     (if find_plan code db = None then Inl (EditionNotFound code) else publishEditionChangesLocked code data db)"

section \<open>Scheduled changes\<close>

definition SCHEDULABLE_COLUMNS :: "edit \<Rightarrow> edit" where
  "SCHEDULABLE_COLUMNS d = d\<lparr>e_archivedAt := None, e_unknown := []\<rparr>"

text \<open>One due schedule: claimed, cleared and published in one transaction.\<close>

definition apply_schedule :: "int \<Rightarrow> jstr \<Rightarrow> edition_db \<Rightarrow> edition_error + edition_db \<times> bool" where
  "apply_schedule now code db =
     (case find_plan code db of
        None \<Rightarrow> Inl (EditionNotFound code)
      | Some pl \<Rightarrow>
          (case pl_scheduledFrom pl of
             None \<Rightarrow> Inr (db, False)
           | Some t \<Rightarrow>
               if t > now then Inr (db, False)
               else let data = SCHEDULABLE_COLUMNS (case pl_scheduledChanges pl of None \<Rightarrow> empty_edit | Some d \<Rightarrow> d);
                        db1 = set_plan (pl\<lparr>pl_scheduledChanges := None, pl_scheduledFrom := None\<rparr>) db
                    in (case publishEditionChangesLocked code data db1 of
                          Inl e \<Rightarrow> Inl e
                        | Inr (db2, _) \<Rightarrow> Inr (db2, True))))"

text \<open>The loop: a transaction that throws leaves the loop, and what was committed before it stays.\<close>

fun apply_due :: "int \<Rightarrow> jstr list \<Rightarrow> nat \<Rightarrow> edition_db \<Rightarrow> (edition_error + nat) \<times> edition_db" where
  "apply_due now [] n db = (Inr n, db)"
| "apply_due now (code # codes) n db =
     (case apply_schedule now code db of
        Inl e \<Rightarrow> (Inl e, db)
      | Inr (db', published) \<Rightarrow> apply_due now codes (if published then n + 1 else n) db')"

definition due_codes :: "int \<Rightarrow> edition_db \<Rightarrow> jstr list" where
  "due_codes now db =
     map pl_code (filter (\<lambda>pl. case pl_scheduledFrom pl of None \<Rightarrow> False | Some t \<Rightarrow> t \<le> now) db)"

definition applyDueSchedules :: "int \<Rightarrow> edition_db \<Rightarrow> (edition_error + nat) \<times> edition_db" where
  "applyDueSchedules now db = apply_due now (due_codes now db) 0 db"

section \<open>Refreshing the cache\<close>

fun load_rows :: "plan_row list \<Rightarrow> edition_error + (jstr \<times> edition) list" where
  "load_rows [] = Inr []"
| "load_rows (pl # pls) =
     (case flattenEdition pl of
        Inl e \<Rightarrow> Inl e
      | Inr flat \<Rightarrow>
          (case rowToEdition flat of
             Inl e \<Rightarrow> Inl e
           | Inr ed \<Rightarrow> (case load_rows pls of Inl e \<Rightarrow> Inl e | Inr m \<Rightarrow> Inr ((pl_code pl, ed) # m))))"

definition ladder_order :: "edition_db \<Rightarrow> edition_db" where
  "ladder_order db = sort_key (\<lambda>pl. (pl_sortOrder pl, pl_code pl)) db"

definition load_catalogue :: "int \<Rightarrow> edition_db \<Rightarrow> catalogue \<Rightarrow> catalogue" where
  "load_catalogue now db c =
     (let rows = ladder_order db
      in if rows = [] then c
         else case load_rows rows of
                Inl _ \<Rightarrow> c
              | Inr next \<Rightarrow>
                  \<lparr>ca_cache = Some next,
                   ca_activeCodes = Some (map pl_code (filter (\<lambda>pl. pl_isActive pl \<and> pl_archivedAt pl = None) rows)),
                   ca_lastLoadedAt = Some now, ca_knownPlanCodes = Some (map fst next),
                   ca_planPricingModels = Some (map (\<lambda>(code, e). (code, ed_pricingModel e)) next)\<rparr>)"

definition refreshEditions :: "int \<Rightarrow> edition_db \<times> catalogue \<Rightarrow> edition_db \<times> catalogue" where
  "refreshEditions now s = (case s of (db, c) \<Rightarrow> let (_, db') = applyDueSchedules now db in (db', load_catalogue now db' c))"

definition loadEditionCatalogueOrThrow :: "int \<Rightarrow> edition_db \<times> catalogue \<Rightarrow> (edition_db \<times> catalogue) option" where
  "loadEditionCatalogueOrThrow now s =
     (let (db, c) = refreshEditions now s
      in if (case ca_cache c of None \<Rightarrow> True | Some m \<Rightarrow> m = []) \<or> ca_lastLoadedAt c = None then None
         else Some (db, c))"

end
