(* ===== verification/Editions_Props.thy ===== *)
theory Editions_Props
  imports Editions
begin

text \<open>
  The catalogue over its histories: edits, new editions (with the point at which the process may have
  stopped), boots, schedules and refreshes. Published terms never change afterwards, a plan has one
  current version, an edition whose rows were only partly written freezes the cache, and the upgrade
  named to a customer lies above where the customer is.
\<close>

section \<open>Histories\<close>

datatype catalogue_event =
    Edit_Edition jstr edit
  | Create_Edition nat jstr edit
  | Boot
  | Schedule jstr edit int
  | Refresh int

definition ok_or :: "'a \<Rightarrow> edition_error + 'a \<Rightarrow> 'a" where
  "ok_or old r = (case r of Inl _ \<Rightarrow> old | Inr x \<Rightarrow> x)"

fun catalogue_step :: "catalogue_event \<Rightarrow> edition_db \<times> catalogue \<Rightarrow> edition_db \<times> catalogue" where
  "catalogue_step (Edit_Edition code d) (db, c) =
     ((case applyEditionChanges code d db of Inl _ \<Rightarrow> db | Inr (db', _) \<Rightarrow> db'), c)"
| "catalogue_step (Create_Edition n code d) (db, c) = (ok_or db (create_edition_rows n code d db), c)"
| "catalogue_step Boot (db, c) = (ok_or db (ensurePlans db), c)"
| "catalogue_step (Schedule code d t) (db, c) =
     ((case find_plan code db of
         None \<Rightarrow> db
       | Some pl \<Rightarrow> set_plan (pl\<lparr>pl_scheduledChanges := Some d, pl_scheduledFrom := Some t\<rparr>) db), c)"
| "catalogue_step (Refresh now) s = refreshEditions now s"

section \<open>Lookups after updates\<close>

lemma find_plan_code: "find_plan code db = Some pl \<Longrightarrow> pl_code pl = code \<and> pl \<in> set db"
  unfolding find_plan_def by (induction db) (auto split: if_splits)

lemma find_plan_set_plan:
  "find_plan code (set_plan pl db) =
     (if code = pl_code pl \<and> find_plan code db \<noteq> None then Some pl else find_plan code db)"
  unfolding find_plan_def set_plan_def by (induction db) auto

lemma find_plan_append:
  "find_plan code (db @ db') = (case find_plan code db of Some pl \<Rightarrow> Some pl | None \<Rightarrow> find_plan code db')"
  unfolding find_plan_def by (induction db) auto

lemma set_set_plan: "q \<in> set (set_plan pl db) \<Longrightarrow> q = pl \<or> q \<in> set db"
  by (auto simp: set_plan_def split: if_splits)

lemma plan_data_simps [simp]:
  "pl_code (plan_data d pl) = pl_code pl" "pl_versions (plan_data d pl) = pl_versions pl"
  by (simp_all add: plan_data_def)

lemma supersede_simps [simp]: "pl_code (supersede cur p d pl) = pl_code pl"
  by (simp add: supersede_def Let_def)

text \<open>What a successful publication, schedule and creation did to the tables.\<close>

lemma publishE:
  assumes "publishEditionChangesLocked code data db = Inr (db', pb)"
  obtains pl cur price d where "find_plan code db = Some pl" "current_version pl = Some cur"
    "active_price cur = Some price" "db' = set_plan (supersede cur price d pl) db"
  using assms by (auto simp: publishEditionChangesLocked_def Let_def split: option.splits sum.splits prod.splits)

lemma apply_scheduleE:
  assumes "apply_schedule now code db = Inr (db', b)"
  obtains (same) "db' = db"
    | (published) pl d pb where "find_plan code db = Some pl"
        "publishEditionChangesLocked code d (set_plan (pl\<lparr>pl_scheduledChanges := None, pl_scheduledFrom := None\<rparr>) db)
           = Inr (db', pb)"
  using assms by (auto simp: apply_schedule_def Let_def split: option.splits sum.splits prod.splits if_splits)

lemma createE:
  assumes "create_edition_rows n code fs db = Inr db'"
  obtains (none) "db' = db"
    | (row) pl where "find_plan code db = None" "db' = db @ [pl]" "pl_code pl = code"
        "pl_versions pl = [] \<or> (\<exists>v. pl_versions pl = [v] \<and> pv_isCurrent v)"
  using assms
  by (auto simp: create_edition_rows_def Let_def new_plan_def version_data_def default_version_def
      split: option.splits sum.splits if_splits)

section \<open>A property of the tables that every step keeps\<close>

text \<open>
  The tables only change by a publication, a schedule set or cleared, and a new row. A property kept
  by these three is kept by every step, and so along every history.
\<close>

locale catalogue_property =
  fixes P :: "edition_db \<Rightarrow> bool"
  assumes keeps_publication:
      "\<lbrakk>P db; find_plan code db = Some pl; current_version pl = Some cur; active_price cur = Some price\<rbrakk>
         \<Longrightarrow> P (set_plan (supersede cur price d pl) db)"
    and keeps_schedule:
      "\<lbrakk>P db; find_plan code db = Some pl\<rbrakk>
         \<Longrightarrow> P (set_plan (pl\<lparr>pl_scheduledChanges := ch, pl_scheduledFrom := t\<rparr>) db)"
    and keeps_creation:
      "\<lbrakk>P db; find_plan (pl_code pl) db = None; pl_versions pl = [] \<or> (\<exists>v. pl_versions pl = [v] \<and> pv_isCurrent v)\<rbrakk>
         \<Longrightarrow> P (db @ [pl])"
begin

lemma publish: "publishEditionChangesLocked code d db = Inr (db', pb) \<Longrightarrow> P db \<Longrightarrow> P db'"
  by (erule publishE) (simp add: keeps_publication)

lemma create: "create_edition_rows n code d db = Inr db' \<Longrightarrow> P db \<Longrightarrow> P db'"
  by (erule createE) (auto intro: keeps_creation)

lemma ensure: "ensure_plans es db = Inr db' \<Longrightarrow> P db \<Longrightarrow> P db'"
  by (induction es db rule: ensure_plans.induct)
    (auto simp: createEditionRows_def split: if_splits sum.splits dest: create)

lemma schedule: "apply_schedule now code db = Inr (db', b) \<Longrightarrow> P db \<Longrightarrow> P db'"
  by (erule apply_scheduleE) (auto dest: publish intro: keeps_schedule)

lemma due: "P db \<Longrightarrow> P (snd (apply_due now codes n db))"
proof (induction codes arbitrary: n db)
  case (Cons code codes)
  show ?case
  proof (cases "apply_schedule now code db")
    case (Inr r)
    then obtain db' b where r: "apply_schedule now code db = Inr (db', b)" by (cases r) auto
    from schedule [OF r Cons.prems] have "P db'" .
    with Cons.IH show ?thesis by (simp add: r)
  qed (simp add: Cons.prems)
qed simp

lemma step: "P (fst s) \<Longrightarrow> P (fst (catalogue_step e s))"
proof (cases s)
  case (Pair db c)
  assume "P (fst s)"
  with Pair have P: "P db" by simp
  show ?thesis
  proof (cases e)
    case (Edit_Edition code d)
    with Pair P show ?thesis
      by (auto simp: applyEditionChanges_def split: if_splits sum.splits dest: publish)
  next
    case (Create_Edition n code d)
    with Pair P show ?thesis by (auto simp: ok_or_def split: sum.splits dest: create)
  next
    case Boot
    with Pair P show ?thesis by (auto simp: ok_or_def ensurePlans_def split: sum.splits dest: ensure)
  next
    case (Schedule code d t)
    with Pair P show ?thesis by (auto split: option.splits intro: keeps_schedule)
  next
    case (Refresh now)
    with Pair P show ?thesis
      using due [OF P, of now "due_codes now db" 0]
      by (auto simp: refreshEditions_def applyDueSchedules_def split: prod.splits)
  qed
qed

end

sublocale catalogue_property \<subseteq> histories: safe_system catalogue_step "\<lambda>s. P (fst s)"
  by unfold_locales (rule step)

section \<open>One current version\<close>

definition versions_ok :: "version_row list \<Rightarrow> bool" where
  "versions_ok vs \<longleftrightarrow> vs = [] \<or> (distinct (map pv_version vs) \<and> length (filter pv_isCurrent vs) = 1)"

definition catalogue_ok :: "edition_db \<Rightarrow> bool" where
  "catalogue_ok db \<longleftrightarrow> distinct (map pl_code db) \<and> list_all (\<lambda>pl. versions_ok (pl_versions pl)) db"

lemma single_current:
  "\<lbrakk>length (filter P vs) = 1; v \<in> set vs; P v; w \<in> set vs; P w\<rbrakk> \<Longrightarrow> v = w"
  by (induction vs) (auto split: if_splits simp: filter_empty_conv)

lemma versions_ok_supersede:
  assumes ok: "versions_ok (pl_versions pl)" and cur: "current_version pl = Some cur"
  shows "versions_ok (pl_versions (supersede cur price d pl))"
proof -
  let ?vs = "pl_versions pl"
  let ?old = "map (\<lambda>v. if pv_version v = pv_version cur then v\<lparr>pv_isCurrent := False\<rparr> else v) ?vs"
  from cur have c: "cur \<in> set ?vs" "pv_isCurrent cur"
    unfolding current_version_def by (auto simp: find_Some_iff)
  with ok have d: "distinct (map pv_version ?vs)" and one: "length (filter pv_isCurrent ?vs) = 1"
    by (auto simp: versions_ok_def)
  have vsn: "map pv_version ?old = map pv_version ?vs" by simp
  have "\<forall>v \<in> set ?vs. pv_version v < latest_version pl + 1"
    by (auto simp: latest_version_def intro: le_imp_less_Suc zle_add1_eq_le [THEN iffD2] Max_ge)
  then have "latest_version pl + 1 \<notin> set (map pv_version ?vs)" by force
  moreover have "filter pv_isCurrent ?old = []"
    using single_current [OF one c] by (auto simp: filter_empty_conv)
  ultimately show ?thesis
    using d by (simp add: versions_ok_def supersede_def Let_def vsn o_def if_distrib cong: if_cong)
qed

lemma catalogue_ok_plan: "catalogue_ok db \<Longrightarrow> find_plan code db = Some pl \<Longrightarrow> versions_ok (pl_versions pl)"
  by (auto simp: catalogue_ok_def list_all_iff dest: find_plan_code)

lemma catalogue_ok_set_plan: "catalogue_ok db \<Longrightarrow> versions_ok (pl_versions pl) \<Longrightarrow> catalogue_ok (set_plan pl db)"
proof -
  have "map pl_code (set_plan pl db) = map pl_code db" by (simp add: set_plan_def)
  then show "catalogue_ok db \<Longrightarrow> versions_ok (pl_versions pl) \<Longrightarrow> ?thesis"
    by (auto simp: catalogue_ok_def list_all_iff dest: set_set_plan)
qed

interpretation ok: catalogue_property catalogue_ok
proof unfold_locales
  fix db code pl cur price d
  assume "catalogue_ok db" "find_plan code db = Some pl" "current_version pl = Some cur"
  then show "catalogue_ok (set_plan (supersede cur price d pl) db)"
    by (intro catalogue_ok_set_plan versions_ok_supersede catalogue_ok_plan)
next
  fix db code pl ch t
  assume "catalogue_ok db" "find_plan code db = Some pl"
  then show "catalogue_ok (set_plan (pl\<lparr>pl_scheduledChanges := ch, pl_scheduledFrom := t\<rparr>) db)"
    by (intro catalogue_ok_set_plan) (auto dest: catalogue_ok_plan)
next
  fix db and pl :: plan_row
  assume "catalogue_ok db" "find_plan (pl_code pl) db = None"
    and v: "pl_versions pl = [] \<or> (\<exists>v. pl_versions pl = [v] \<and> pv_isCurrent v)"
  moreover from v have "versions_ok (pl_versions pl)" by (auto simp: versions_ok_def)
  ultimately show "catalogue_ok (db @ [pl])"
    by (auto simp: catalogue_ok_def list_all_iff find_plan_def find_None_iff)
qed

section \<open>Sold terms stay\<close>

definition same_terms :: "version_row \<Rightarrow> version_row \<Rightarrow> bool" where
  "same_terms v w \<longleftrightarrow> w\<lparr>pv_isCurrent := pv_isCurrent v\<rparr> = v"

definition holds_terms :: "jstr \<Rightarrow> int \<Rightarrow> version_row \<Rightarrow> edition_db \<Rightarrow> bool" where
  "holds_terms code n v db \<longleftrightarrow> (\<exists>w. plan_version db code n = Some w \<and> same_terms v w)"

lemma find_map_same:
  assumes "\<And>x. Q (f x) = Q x"
  shows "find Q (map f xs) = map_option f (find Q xs)"
  using assms by (induction xs) auto

lemma find_snoc: "find Q (xs @ [x]) = (case find Q xs of Some y \<Rightarrow> Some y | None \<Rightarrow> if Q x then Some x else None)"
  by (induction xs) auto

lemma plan_version_supersede:
  assumes "find (\<lambda>v. pv_version v = n) (pl_versions pl) = Some w"
  shows "\<exists>w'. find (\<lambda>v. pv_version v = n) (pl_versions (supersede cur price d pl)) = Some w'
           \<and> (\<exists>b. w' = w\<lparr>pv_isCurrent := b\<rparr>)"
proof -
  let ?f = "\<lambda>v. if pv_version v = pv_version cur then v\<lparr>pv_isCurrent := False\<rparr> else v"
  have "find (\<lambda>v. pv_version v = n) (map ?f (pl_versions pl)) = Some (?f w)"
    using assms by (subst find_map_same) auto
  moreover have "\<exists>b. ?f w = w\<lparr>pv_isCurrent := b\<rparr>"
    by (cases "pv_version w = pv_version cur") (auto intro: exI [of _ "pv_isCurrent w"])
  ultimately show ?thesis by (simp add: supersede_def Let_def find_snoc)
qed

lemma same_terms_current [simp]: "same_terms v (w\<lparr>pv_isCurrent := b\<rparr>) = same_terms v w"
  by (simp add: same_terms_def)

interpretation sold: catalogue_property "holds_terms code n v" for code n v
proof unfold_locales
  fix db code' pl cur price d
  assume h: "holds_terms code n v db" and pl: "find_plan code' db = Some pl"
  show "holds_terms code n v (set_plan (supersede cur price d pl) db)"
  proof (cases "code = code'")
    case True
    from find_plan_code [OF pl] have c: "pl_code pl = code'" by simp
    from h True pl obtain w where "find (\<lambda>v. pv_version v = n) (pl_versions pl) = Some w" "same_terms v w"
      by (auto simp: holds_terms_def plan_version_def)
    with plan_version_supersede [of n pl w cur price d] True pl c show ?thesis
      by (auto simp: holds_terms_def plan_version_def find_plan_set_plan)
  next
    case False
    with h find_plan_code [OF pl] show ?thesis
      by (auto simp: holds_terms_def plan_version_def find_plan_set_plan)
  qed
next
  fix db code' pl ch t
  assume "holds_terms code n v db" and pl: "find_plan code' db = Some pl"
  with find_plan_code [OF pl]
  show "holds_terms code n v (set_plan (pl\<lparr>pl_scheduledChanges := ch, pl_scheduledFrom := t\<rparr>) db)"
    by (auto simp: holds_terms_def plan_version_def find_plan_set_plan)
next
  fix db and pl :: plan_row
  assume "holds_terms code n v db" "find_plan (pl_code pl) db = None"
  then show "holds_terms code n v (db @ [pl])"
    by (auto simp: holds_terms_def plan_version_def find_plan_append split: bind_splits)
qed

lemma active_price_current [simp]: "active_price (w\<lparr>pv_isCurrent := b\<rparr>) = active_price w"
  by (simp add: active_price_def)

lemma versionedEditionOf_current [simp]:
  "versionedEditionOf code name (w\<lparr>pv_isCurrent := b\<rparr>) = versionedEditionOf code name w"
  by (simp add: versionedEditionOf_def split: option.split)

lemma same_terms_edition:
  assumes "same_terms v w" and "versionedEditionOf code name v = Inr e"
  shows "versionedEditionOf code name' w = Inr (e\<lparr>ed_name := name'\<rparr>)"
proof -
  from assms(1) have "versionedEditionOf code name (w\<lparr>pv_isCurrent := pv_isCurrent v\<rparr>) = versionedEditionOf code name v"
    by (simp only: same_terms_def)
  with assms(2) have "versionedEditionOf code name w = Inr e" by simp
  then show ?thesis
    by (auto simp: versionedEditionOf_def rowToEdition_def Let_def split: option.splits if_splits)
qed

lemma subscriptionEditionE:
  assumes "subscriptionEditionOf db (code, n) = Inr (Some e)"
  obtains pl v where "find_plan code db = Some pl" "plan_version db code n = Some v"
    "versionedEditionOf code (pl_name pl) v = Inr e"
  using assms by (auto simp: subscriptionEditionOf_def split: option.splits sum.splits dest: find_plan_code)

text \<open>C7: Over every history of edits, new editions, boots, schedules and refreshes, what a subscription
  bought stays what it is: the edition its pinned version resolves to keeps every limit, feature,
  channel, pace and price, and only the edition's display name may change. The invariant of the tables
  (unique codes, unique version numbers, one current version per plan) is kept as well.\<close>
theorem sold_terms_never_change:
  assumes "catalogue_ok db" and "subscriptionEditionOf db (code, n) = Inr (Some e)"
  shows "catalogue_ok (fst (fold catalogue_step es (db, c)))
    \<and> (\<exists>name. subscriptionEditionOf (fst (fold catalogue_step es (db, c))) (code, n)
         = Inr (Some (e\<lparr>ed_name := name\<rparr>)))"
proof
  let ?db = "fst (fold catalogue_step es (db, c))"
  show "catalogue_ok ?db" using ok.histories.run_inv [of "(db, c)" es] assms(1) by simp
  from assms(2) obtain pl v where "find_plan code db = Some pl" and v: "plan_version db code n = Some v"
    "versionedEditionOf code (pl_name pl) v = Inr e" by (rule subscriptionEditionE)
  then have "holds_terms code n v db" by (simp add: holds_terms_def same_terms_def)
  then have "holds_terms code n v ?db" using sold.histories.run_inv [where s = "(db, c)"] by simp
  then obtain w where w: "plan_version ?db code n = Some w" "same_terms v w" by (auto simp: holds_terms_def)
  then obtain pl' where pl': "find_plan code ?db = Some pl'" by (auto simp: plan_version_def bind_eq_Some_conv)
  from find_plan_code [OF this] have "pl_code pl' = code" by simp
  with w same_terms_edition [OF w(2) v(2)] pl' show "\<exists>name. subscriptionEditionOf ?db (code, n) = Inr (Some (e\<lparr>ed_name := name\<rparr>))"
    by (auto simp: subscriptionEditionOf_def)
qed

definition seeded_db :: edition_db where
  "seeded_db = ok_or [] (createEditionRows (lit ''GROWTH'') (seed_fields 0 EDITION_GROWTH) [])"

definition dearer :: edit where
  "dearer = empty_edit\<lparr>e_priceCents := Some 9900, e_limit := (\<lambda>f. if f = Users then Some (Some 3) else None)\<rparr>"

lemmas edition_simps = seeded_db_def createEditionRows_def create_edition_rows_def seed_fields_def
  EDITION_GROWTH_def applyEditionPricingInvariant_def routeEditionFields_def new_plan_def plan_data_def
  version_data_def price_data_def default_version_def default_price_def ok_or_def Let_def or_old_def find_plan_def

lemmas read_simps = subscriptionEditionOf_def plan_version_def versionedEditionOf_def active_price_def
  rowToEdition_def plan_code_ok_def js_upper_def upper_unit_def js_trim_def is_ws_def is_digit_def js_simps

lemma seeded_db_ok: "catalogue_ok seeded_db"
  by (simp add: edition_simps catalogue_ok_def versions_ok_def)

lemma seeded_growth: "\<exists>e. subscriptionEditionOf seeded_db (lit ''GROWTH'', 1) = Inr (Some e) \<and> ed_priceCents e = 4900"
  by (simp add: edition_simps read_simps)

theorem sold_terms_never_change_witness:
  "\<exists>name e. subscriptionEditionOf
      (fst (fold catalogue_step [Edit_Edition (lit ''GROWTH'') dearer, Boot, Refresh 0]
         (seeded_db, \<lparr>ca_cache = None, ca_activeCodes = None, ca_lastLoadedAt = None, ca_knownPlanCodes = None,
                      ca_planPricingModels = None\<rparr>)))
      (lit ''GROWTH'', 1) = Inr (Some (e\<lparr>ed_name := name\<rparr>)) \<and> ed_priceCents e = 4900"
proof -
  obtain e where "subscriptionEditionOf seeded_db (lit ''GROWTH'', 1) = Inr (Some e)" "ed_priceCents e = 4900"
    using seeded_growth by blast
  from sold_terms_never_change [OF seeded_db_ok this(1),
      of "[Edit_Edition (lit ''GROWTH'') dearer, Boot, Refresh 0]"
         "\<lparr>ca_cache = None, ca_activeCodes = None, ca_lastLoadedAt = None, ca_knownPlanCodes = None,
           ca_planPricingModels = None\<rparr>"] this(2)
  show ?thesis by blast
qed

section \<open>A half-written edition\<close>

definition half_written :: "jstr \<Rightarrow> edition_db \<Rightarrow> bool" where
  "half_written code db \<longleftrightarrow>
     (\<exists>pl. find_plan code db = Some pl \<and> (pl_versions pl = [] \<or> (\<exists>v. pl_versions pl = [v] \<and> pv_prices v = [])))"

lemma half_written_unpublishable:
  assumes "pl_versions pl = [] \<or> (\<exists>v. pl_versions pl = [v] \<and> pv_prices v = [])"
    and "current_version pl = Some cur"
  shows "active_price cur = None"
  using assms by (auto simp: current_version_def active_price_def split: if_splits)

interpretation half: catalogue_property "half_written code" for code
proof unfold_locales
  fix db code' pl cur price d
  assume h: "half_written code db" and pl: "find_plan code' db = Some pl"
    and cur: "current_version pl = Some cur" "active_price cur = Some price"
  have "code \<noteq> code'"
  proof
    assume "code = code'"
    with h pl have "pl_versions pl = [] \<or> (\<exists>v. pl_versions pl = [v] \<and> pv_prices v = [])"
      by (auto simp: half_written_def)
    from half_written_unpublishable [OF this cur(1)] cur(2) show False by simp
  qed
  with h find_plan_code [OF pl] show "half_written code (set_plan (supersede cur price d pl) db)"
    by (simp add: half_written_def find_plan_set_plan)
next
  fix db code' pl ch t
  assume "half_written code db" and pl: "find_plan code' db = Some pl"
  with find_plan_code [OF pl]
  show "half_written code (set_plan (pl\<lparr>pl_scheduledChanges := ch, pl_scheduledFrom := t\<rparr>) db)"
    by (auto simp: half_written_def find_plan_set_plan)
next
  fix db and pl :: plan_row
  assume "half_written code db"
  then show "half_written code (db @ [pl])" by (auto simp: half_written_def find_plan_append)
qed

lemma load_rows_fails: "pl \<in> set rows \<Longrightarrow> flattenEdition pl = Inl e \<Longrightarrow> \<exists>e'. load_rows rows = Inl e'"
  by (induction rows) (auto split: sum.splits)

lemma half_written_blocks_load: "half_written code db \<Longrightarrow> load_catalogue now db c = c"
proof -
  assume "half_written code db"
  then obtain pl where pl: "find_plan code db = Some pl"
    and half: "pl_versions pl = [] \<or> (\<exists>v. pl_versions pl = [v] \<and> pv_prices v = [])"
    by (auto simp: half_written_def)
  from half have "\<exists>e. flattenEdition pl = Inl e"
    by (auto simp: flattenEdition_def current_version_def versionedEditionOf_def active_price_def split: if_splits)
  moreover from find_plan_code [OF pl] have "pl \<in> set (ladder_order db)" by (simp add: ladder_order_def)
  ultimately show ?thesis
    using load_rows_fails by (fastforce simp: load_catalogue_def Let_def)
qed

interpretation frozen: safe_system catalogue_step "\<lambda>s. half_written code (fst s) \<and> snd s = c" for code c
proof unfold_locales
  fix s e
  assume s: "half_written code (fst s) \<and> snd s = c"
  then have h: "half_written code (fst (catalogue_step e s))" by (intro half.step) simp
  moreover have "snd (catalogue_step e s) = c"
  proof (cases "\<exists>now. e = Refresh now")
    case True
    with h s show ?thesis
      by (cases s) (auto simp: refreshEditions_def Let_def half_written_blocks_load split: prod.splits)
  next
    case False
    with s show ?thesis by (cases s; cases e) auto
  qed
  ultimately show "half_written code (fst (catalogue_step e s)) \<and> snd (catalogue_step e s) = c" ..
qed

lemma half_written_created:
  assumes "create_edition_rows n code fs db = Inr db'" and "0 < n" "n < 3"
  shows "half_written code db'"
proof -
  from assms have "n = 1 \<or> n = 2" by linarith
  with assms(1) obtain pl where "find_plan code db = None" "db' = db @ [pl]" "pl_code pl = code"
    "pl_versions pl = [] \<or> (\<exists>v. pl_versions pl = [v] \<and> pv_prices v = [])"
    by (auto simp: create_edition_rows_def Let_def new_plan_def version_data_def default_version_def
        split: sum.splits if_splits)
  then show ?thesis by (simp add: half_written_def find_plan_append) (simp add: find_plan_def)
qed

text \<open>The three rows of a new edition are written one by one, outside a transaction. When the process
  stops after the first or the second of them, no later event repairs the edition: over every history of
  edits, boots (seeding skips an existing code), schedules and refreshes the cache is never loaded again,
  and ten minutes after its last load every code reads as the restricted floor and nothing is on sale.\<close>
theorem half_written_edition_freezes_the_catalogue:
  assumes "create_edition_rows n code d db = Inr db'" and "0 < n" "n < 3"
    and late: "ca_lastLoadedAt c = Some t" "t + STALE_AFTER_MS < now"
  shows "snd (fold catalogue_step es (db', c)) = c
    \<and> getEdition now (snd (fold catalogue_step es (db', c))) other = RESTRICTED_FLOOR
    \<and> getEditions now (snd (fold catalogue_step es (db', c))) = []"
proof (intro conjI)
  from half_written_created [OF assms(1-3)] have "half_written code db'" .
  then show same: "snd (fold catalogue_step es (db', c)) = c"
    using frozen.run_inv [of code "(db', c)" c es] by simp
  from late have "isCatalogueStale now c" by (simp add: isCatalogueStale_def)
  with same show "getEdition now (snd (fold catalogue_step es (db', c))) other = RESTRICTED_FLOOR"
    and "getEditions now (snd (fold catalogue_step es (db', c))) = []"
    by (simp_all add: getEdition_def getEditions_def split: option.splits)
qed

definition just_loaded :: catalogue where
  "just_loaded = load_catalogue 1000 seeded_db
     \<lparr>ca_cache = None, ca_activeCodes = None, ca_lastLoadedAt = None, ca_knownPlanCodes = None, ca_planPricingModels = None\<rparr>"

lemmas load_simps = just_loaded_def load_catalogue_def ladder_order_def flattenEdition_def current_version_def
  getEdition_def isCatalogueStale_def STALE_AFTER_MS_def

lemma just_loaded_growth:
  "ca_lastLoadedAt just_loaded = Some 1000" "ed_priceCents (getEdition 2000 just_loaded (lit ''GROWTH'')) = 4900"
  by (simp_all add: edition_simps read_simps load_simps)

lemma half_created:
  "\<exists>db'. create_edition_rows 1 (lit ''PRO'') (seed_fields 1 EDITION_GROWTH) seeded_db = Inr db'"
  by (simp add: edition_simps)

theorem half_written_edition_freezes_the_catalogue_witness:
  "\<exists>db'. create_edition_rows 1 (lit ''PRO'') (seed_fields 1 EDITION_GROWTH) seeded_db = Inr db'
    \<and> getEdition 601001 (snd (fold catalogue_step [Boot, Refresh 2000, Refresh 300000] (db', just_loaded)))
        (lit ''GROWTH'') = RESTRICTED_FLOOR"
proof -
  obtain db' where db': "create_edition_rows 1 (lit ''PRO'') (seed_fields 1 EDITION_GROWTH) seeded_db = Inr db'"
    using half_created by blast
  have now: "1000 + STALE_AFTER_MS < 601001" by (simp add: STALE_AFTER_MS_def)
  have n: "0 < (1::nat)" "(1::nat) < 3" by simp_all
  note floor = half_written_edition_freezes_the_catalogue [OF db' n just_loaded_growth(1) now, THEN conjunct2, THEN conjunct1]
  show ?thesis by (intro exI [of _ db'] conjI db' floor)
qed

section \<open>Upgrades\<close>

lemma find_index_Some: "find_index P xs = Some i \<Longrightarrow> i < length xs \<and> P (xs ! i)"
  by (induction xs arbitrary: i) (auto split: if_splits)

lemma find_index_None: "find_index P xs = None \<longleftrightarrow> (\<forall>x \<in> set xs. \<not> P x)"
  by (induction xs) auto

lemma ladder_start_le: "ladder_start ladder asking \<le> length ladder"
  by (auto simp: ladder_start_def Suc_le_eq dest: find_index_Some split: option.splits)

lemma ladder_start_above: "i < length ladder \<Longrightarrow> ed_code (ladder ! i) = asking \<Longrightarrow> 0 < ladder_start ladder asking"
  by (cases "find_index (\<lambda>e. ed_code e = asking) ladder")
    (auto simp: ladder_start_def find_index_None dest: nth_mem)

lemma upgrade_first:
  assumes "cheapestUpgradeGranting ladder asking grants = Some name"
  shows "\<exists>k. ladder_start ladder asking \<le> k \<and> k < length ladder \<and> ed_name (ladder ! k) = name \<and> grants (ladder ! k)
    \<and> (\<forall>j. ladder_start ladder asking \<le> j \<and> j < k \<longrightarrow> \<not> grants (ladder ! j))"
proof -
  let ?s = "ladder_start ladder asking"
  from assms obtain e where "find grants (drop ?s ladder) = Some e" and n: "ed_name e = name"
    by (auto simp: cheapestUpgradeGranting_def)
  then obtain i where i: "i < length ladder - ?s" "grants (drop ?s ladder ! i)" "drop ?s ladder ! i = e"
    "\<forall>j < i. \<not> grants (drop ?s ladder ! j)" by (auto simp: find_Some_iff)
  have nth: "drop ?s ladder ! j = ladder ! (?s + j)" for j by (simp add: ladder_start_le)
  have "\<not> grants (ladder ! j)" if "?s \<le> j" "j < ?s + i" for j
  proof -
    from that have "j - ?s < i" "?s + (j - ?s) = j" by linarith+
    with i(4) nth [of "j - ?s"] show ?thesis by (metis (no_types))
  qed
  with i n nth show ?thesis by (intro exI [of _ "?s + i"]) auto
qed

lemma upgrade_None:
  assumes "cheapestUpgradeGranting ladder asking grants = None" and "ladder_start ladder asking \<le> j" "j < length ladder"
  shows "\<not> grants (ladder ! j)"
proof -
  from assms(2,3) have "ladder ! j \<in> set (drop (ladder_start ladder asking) ladder)"
    by (auto simp: set_conv_nth intro!: exI [of _ "j - ladder_start ladder asking"])
  with assms(1) show ?thesis by (auto simp: cheapestUpgradeGranting_def find_None_iff)
qed

end
