(* ===== verification/Platform.thy ===== *)
theory Platform
  imports Editions
begin

text \<open>
  The platform's own records of its subscribers, and the small services every billing flow goes
  through: settings and trials (\<open>modules/billing/trial.service.ts\<close>), the mail outbox
  (\<open>modules/mail/mail.service.ts\<close>), gateway jobs (\<open>workers/gateway-provisioning.queue.ts\<close>), the one place
  where a gateway observation becomes state (\<open>modules/provisioning/gateway-state.ts\<close>), the access gate
  (\<open>middleware/access-gate.middleware.ts\<close>) and the banner (\<open>modules/billing/service-state.service.ts\<close>).

  The record \<open>platform\<close> is the part of the database, the queue and the process state they touch.
  \<open>pf_now\<close> is the clock \<open>new Date()\<close> reads; a function with a parameter \<open>now\<close> takes it apart from that.
\<close>

section \<open>Rows\<close>

datatype org_status = ORG_ACTIVE | ORG_SUSPENDED | ORG_PROVISIONING

datatype subscription_status =
  SUB_PENDING | SUB_ACTIVE | SUB_PAST_DUE | SUB_CANCELED | SUB_TRIALING | SUB_MANUAL_REVIEW

datatype invoice_status = INV_OPEN | INV_PAID | INV_VOID

datatype gateway_state = GW_PENDING | GW_PROVISIONING | GW_AWAITING_QR | GW_ACTIVE | GW_SUSPENDED | GW_FAILED

datatype gateway_step =
    ALLOCATE_RESOURCES | START_GATEWAY | WAIT_FOR_PROVIDER | CREATE_SESSION | REGISTER_WEBHOOK | AWAIT_CONNECTION
  | SUSPEND_GATEWAY | RESUME_GATEWAY | RESTART_GATEWAY | DESTROY_GATEWAY | COMPLETE

datatype gateway_action = Provision | Monitor | Suspend | Resume | Restart | Destroy

datatype usage_metric =
    Messages_Inbound | Messages_Outbound | Active_Contacts | Ai_Tokens_In | Ai_Tokens_Out | Campaign_Sends

datatype mail_status = MAIL_PENDING | MAIL_SENDING | MAIL_SENT | MAIL_FAILED

record organization =
  og_name :: jstr
  og_slug :: jstr
  og_status :: org_status
  og_suspendAt :: "int option"
  og_suspendReason :: "jstr option"
  og_paymentProvider :: jstr
  og_paymentCustomerRef :: "jstr option"
  og_downgradeGraceEndsAt :: "int option"
  og_downgradeGraceReason :: "jstr option"
  og_planOverride :: "jstr option"
  og_macQuotaOverride :: "int option"
  og_discountPercent :: "int option"
  og_creditCents :: int
  og_overrideReason :: "jstr option"
  og_overrideExpiresAt :: "int option"
  og_overrideSetBy :: "jstr option"
  og_overrideSetAt :: "int option"

record subscription =
  sb_id :: nat
  sb_organizationId :: jstr
  sb_pin :: "jstr \<times> int"
  sb_provider :: jstr
  sb_subscriptionRef :: "jstr option"
  sb_customerRef :: "jstr option"
  sb_externalRef :: "jstr option"
  sb_status :: subscription_status
  sb_periodStart :: "int option"
  sb_periodEnd :: "int option"
  sb_trialEndsAt :: "int option"
  sb_activatedAt :: "int option"
  sb_canceledAt :: "int option"
  sb_createdAt :: int

record invoice =
  iv_id :: nat
  iv_organizationId :: jstr
  iv_reference :: jstr
  iv_status :: invoice_status
  iv_amountDueCents :: int
  iv_amountPaidCents :: int
  iv_currency :: jstr
  iv_dueAt :: "int option"
  iv_paidAt :: "int option"

record receipt =
  rc_organizationId :: jstr
  rc_invoiceId :: nat
  rc_reference :: jstr
  rc_amountCents :: int
  rc_currency :: jstr
  rc_method :: jstr
  rc_paidAt :: int

record account =
  ac_organizationId :: jstr
  ac_isAdmin :: bool
  ac_isActive :: bool
  ac_email :: jstr

record whatsapp_session =
  ws_sessionName :: jstr
  ws_isActive :: bool
  ws_phoneNumber :: "jstr option"

record channel =
  ch_baseUrl :: jstr
  ch_apiKeyEnc :: jstr
  ch_webhookToken :: jstr
  ch_status :: jstr
  ch_provisioningState :: gateway_state
  ch_provisioningStep :: "gateway_step option"
  ch_failureReason :: "jstr option"
  ch_failureStep :: "gateway_step option"
  ch_managed :: bool
  ch_deploymentName :: "jstr option"
  ch_apiPort :: "int option"
  ch_dashboardPort :: "int option"
  ch_dataVolumeName :: "jstr option"
  ch_redisVolumeName :: "jstr option"
  ch_provisioningStartedAt :: "int option"
  ch_provisionedAt :: "int option"
  ch_connectedAt :: "int option"
  ch_suspendedAt :: "int option"
  ch_deletionRequestedAt :: "int option"
  ch_lastCheckedAt :: "int option"
  ch_updatedAt :: int

text \<open>The results of the gateway probes, oldest first.\<close>

datatype health_probe = Status_Probe | Self_Send

record health_check =
  hc_organizationId :: jstr
  hc_probe :: health_probe
  hc_ok :: bool
  hc_createdAt :: int

record alert =
  al_organizationId :: "jstr option"
  al_type :: jstr
  al_severity :: jstr
  al_message :: jstr
  al_resolvedAt :: "int option"

record mail =
  ml_id :: nat
  ml_organizationId :: "jstr option"
  ml_to :: jstr
  ml_kind :: jstr
  ml_subject :: jstr
  ml_body :: jstr
  ml_status :: mail_status
  ml_attempts :: nat
  ml_lastError :: "jstr option"
  ml_sentAt :: "int option"
  ml_sendAfter :: int
  ml_dedupeKey :: "jstr option"

record gateway_job =
  gj_organizationId :: jstr
  gj_action :: gateway_action
  gj_delay :: int
  gj_attemptsMade :: nat
  gj_failed :: bool

record usage_event =
  ue_organizationId :: jstr
  ue_metric :: usage_metric
  ue_quantity :: int
  ue_subjectId :: "jstr option"
  ue_occurredAt :: int

text \<open>The limit columns of \<open>OrganizationConfig\<close>, by the meter they bound (\<open>METRIC_LIMIT_FIELDS\<close>).\<close>

type_synonym plan_config = "usage_metric \<Rightarrow> int option"

record platform =
  pf_now :: int
  pf_ids :: "jstr list"
  pf_orgs :: "jstr \<Rightarrow> organization option"
  pf_config :: "jstr \<Rightarrow> plan_config option"
  pf_subscriptions :: "subscription list"
  pf_invoices :: "invoice list"
  pf_receipts :: "receipt list"
  pf_sequences :: "jstr \<Rightarrow> jstr \<Rightarrow> nat"
  pf_accounts :: "account list"
  pf_openwa :: "jstr \<Rightarrow> channel option"
  pf_sessions :: "jstr \<Rightarrow> whatsapp_session list"
  pf_health :: "health_check list"
  pf_settings :: "jstr \<Rightarrow> jstr option"
  pf_outbox :: "mail list"
  pf_alerts :: "alert list"
  pf_jobs :: "gateway_job list"
  pf_usage :: "usage_event list"
  pf_paymentEvents :: "(jstr \<times> jstr) list"
  pf_editions :: edition_db
  pf_catalogue :: catalogue
  pf_provider :: jstr

definition upd_org :: "jstr \<Rightarrow> (organization \<Rightarrow> organization) \<Rightarrow> platform \<Rightarrow> platform" where
  "upd_org i f w = w\<lparr>pf_orgs := (pf_orgs w)(i := map_option f (pf_orgs w i))\<rparr>"

text \<open>\<open>updatedAt\<close> is stamped on every write of a channel row.\<close>

definition upd_openwa :: "jstr \<Rightarrow> (channel \<Rightarrow> channel) \<Rightarrow> platform \<Rightarrow> platform" where
  "upd_openwa i f w = w\<lparr>pf_openwa := (pf_openwa w)(i := map_option (\<lambda>ch. (f ch)\<lparr>ch_updatedAt := pf_now w\<rparr>) (pf_openwa w i))\<rparr>"

definition upd_subscriptions :: "(subscription \<Rightarrow> bool) \<Rightarrow> (subscription \<Rightarrow> subscription) \<Rightarrow> platform \<Rightarrow> platform" where
  "upd_subscriptions P f w =
     w\<lparr>pf_subscriptions := map (\<lambda>s. if P s then f s else s) (pf_subscriptions w)\<rparr>"

definition raise_alert :: "jstr \<Rightarrow> jstr \<Rightarrow> jstr \<Rightarrow> jstr \<Rightarrow> platform \<Rightarrow> platform" where
  "raise_alert i ty sev msg w =
     w\<lparr>pf_alerts := pf_alerts w @ [\<lparr>al_organizationId = Some i, al_type = ty, al_severity = sev, al_message = msg,
                                   al_resolvedAt = None\<rparr>]\<rparr>"

text \<open>The newest of an organization's subscriptions among some statuses (the last created of two as old).\<close>

definition newest :: "subscription list \<Rightarrow> subscription option" where
  "newest ss = (case ss of [] \<Rightarrow> None
     | s # rest \<Rightarrow> Some (fold (\<lambda>x best. if sb_createdAt best < sb_createdAt x then x else best) rest s))"

definition newest_subscription :: "subscription_status list \<Rightarrow> platform \<Rightarrow> jstr \<Rightarrow> subscription option" where
  "newest_subscription sts w i =
     newest (filter (\<lambda>s. sb_organizationId s = i \<and> sb_status s \<in> set sts) (pf_subscriptions w))"

section \<open>Things kept once\<close>

text \<open>
  A store that keeps the first value offered under a key: the outbox with its unique \<open>dedupeKey\<close>, and
  the gateway queue with its job ids.
\<close>

locale write_once =
  fixes add :: "'k \<Rightarrow> 'v \<Rightarrow> 's \<Rightarrow> 's" and has :: "'k \<Rightarrow> 's \<Rightarrow> bool"
  assumes has_add: "has k (add k v s)"
    and add_has: "has k s \<Longrightarrow> add k v s = s"
    and has_mono: "has k s \<Longrightarrow> has k (add k' v s)"
begin

lemma add_all: "fold (add k) vs s = (case vs of [] \<Rightarrow> s | v # _ \<Rightarrow> add k v s)"
proof (cases vs)
  case (Cons v vs')
  have "has k t \<Longrightarrow> fold (add k) vs' t = t" for t by (induction vs') (auto simp: add_has)
  with Cons show ?thesis by (simp add: has_add)
qed simp

lemma add_twice: "add k v (add k u s) = add k u s"
  by (simp add: add_has has_add)

lemma has_fold: "has k s \<Longrightarrow> has k (fold (\<lambda>(k', v). add k' v) kvs s)"
  by (induction kvs arbitrary: s) (auto intro: has_mono)

end

section \<open>The outbox\<close>

definition MAX_ATTEMPTS :: nat where "MAX_ATTEMPTS = 5"

definition BACKOFF_MINUTES :: "int list" where "BACKOFF_MINUTES = [1, 5, 25, 125]"

record mail_draft =
  md_to :: jstr
  md_subject :: jstr
  md_body :: jstr
  md_kind :: jstr
  md_organizationId :: "jstr option"
  md_sendAfter :: "int option"

definition new_mail :: "nat \<Rightarrow> int \<Rightarrow> jstr option \<Rightarrow> mail_draft \<Rightarrow> mail" where
  "new_mail i now key d =
     \<lparr>ml_id = i, ml_organizationId = md_organizationId d, ml_to = md_to d, ml_kind = md_kind d,
      ml_subject = md_subject d, ml_body = md_body d, ml_status = MAIL_PENDING, ml_attempts = 0,
      ml_lastError = None, ml_sentAt = None,
      ml_sendAfter = (case md_sendAfter d of None \<Rightarrow> now | Some t \<Rightarrow> t), ml_dedupeKey = key\<rparr>"

text \<open>\<open>false\<close> when the unique key is taken.\<close>

definition queueMail :: "jstr option \<Rightarrow> mail_draft \<Rightarrow> platform \<Rightarrow> bool \<times> platform" where
  "queueMail key d w =
     (if key \<noteq> None \<and> (\<exists>m \<in> set (pf_outbox w). ml_dedupeKey m = key) then (False, w)
      else (True, w\<lparr>pf_outbox := pf_outbox w @ [new_mail (length (pf_outbox w)) (pf_now w) key d]\<rparr>))"

definition keyed_mail :: "jstr \<Rightarrow> mail_draft \<Rightarrow> platform \<Rightarrow> platform" where
  "keyed_mail key d w = snd (queueMail (Some key) d w)"

interpretation outbox: write_once keyed_mail "\<lambda>key w. \<exists>m \<in> set (pf_outbox w). ml_dedupeKey m = Some key"
  by unfold_locales (auto simp: keyed_mail_def queueMail_def new_mail_def)

text \<open>
  One pass of the outbox worker. The provider answers for the \<open>n\<close>-th message it is handed whether it
  threw. \<open>claim_mail\<close> and \<open>settle_mail\<close> are the two writes around the provider call; a process that stops between
  them leaves the row in \<open>SENDING\<close>.
\<close>

definition upd_mail :: "nat \<Rightarrow> (mail \<Rightarrow> mail) \<Rightarrow> mail list \<Rightarrow> mail list" where
  "upd_mail i f ms = map (\<lambda>m. if ml_id m = i then f m else m) ms"

definition due_mail :: "int \<Rightarrow> nat \<Rightarrow> mail list \<Rightarrow> mail list" where
  "due_mail now limit ms =
     take limit (sort_key ml_sendAfter (filter (\<lambda>m. ml_status m = MAIL_PENDING \<and> ml_sendAfter m \<le> now) ms))"

definition claim_mail :: "nat \<Rightarrow> mail list \<Rightarrow> (nat \<times> mail list)" where
  "claim_mail i ms =
     (length (filter (\<lambda>m. ml_id m = i \<and> ml_status m = MAIL_PENDING) ms),
      map (\<lambda>m. if ml_id m = i \<and> ml_status m = MAIL_PENDING
               then m\<lparr>ml_status := MAIL_SENDING, ml_attempts := ml_attempts m + 1\<rparr> else m) ms)"

definition settle_mail :: "int \<Rightarrow> int \<Rightarrow> mail \<Rightarrow> jstr option \<Rightarrow> mail list \<Rightarrow> mail list" where
  "settle_mail now clock row failure ms =
     (case failure of
        None \<Rightarrow> upd_mail (ml_id row) (\<lambda>m. m\<lparr>ml_status := MAIL_SENT, ml_sentAt := Some clock, ml_lastError := None\<rparr>) ms
      | Some err \<Rightarrow>
          let attempts = ml_attempts row + 1;
              exhausted = attempts \<ge> MAX_ATTEMPTS;
              wait = BACKOFF_MINUTES ! min (attempts - 1) (length BACKOFF_MINUTES - 1)
          in upd_mail (ml_id row)
               (\<lambda>m. m\<lparr>ml_status := (if exhausted then MAIL_FAILED else MAIL_PENDING), ml_lastError := Some (take 500 err),
                      ml_sendAfter := (if exhausted then ml_sendAfter row else now + wait * 60000)\<rparr>) ms)"

record flush_result =
  fr_sent :: nat
  fr_failed :: nat
  fr_retried :: nat

definition count_settled :: "mail \<Rightarrow> jstr option \<Rightarrow> flush_result \<Rightarrow> flush_result" where
  "count_settled row failure r =
     (case failure of
        None \<Rightarrow> r\<lparr>fr_sent := fr_sent r + 1\<rparr>
      | Some _ \<Rightarrow> if ml_attempts row + 1 \<ge> MAX_ATTEMPTS then r\<lparr>fr_failed := fr_failed r + 1\<rparr>
                 else r\<lparr>fr_retried := fr_retried r + 1\<rparr>)"

text \<open>The provider: what it answers for a message, by recipient, subject and body (\<open>None\<close> when it accepts it).\<close>

type_synonym mail_provider = "jstr \<Rightarrow> jstr \<Rightarrow> jstr \<Rightarrow> jstr option"

fun flush_rows :: "mail_provider \<Rightarrow> int \<Rightarrow> int \<Rightarrow> mail list \<Rightarrow> flush_result \<times> mail list \<Rightarrow> flush_result \<times> mail list" where
  "flush_rows send now clock [] acc = acc"
| "flush_rows send now clock (row # rows) (r, ms) =
     (let (n, ms1) = claim_mail (ml_id row) ms
      in if n = 0 then flush_rows send now clock rows (r, ms)
         else let failure = send (ml_to row) (ml_subject row) (ml_body row)
              in flush_rows send now clock rows (count_settled row failure r, settle_mail now clock row failure ms1))"

definition flushOutbox :: "mail_provider \<Rightarrow> nat \<Rightarrow> int \<Rightarrow> platform \<Rightarrow> flush_result \<times> platform" where
  "flushOutbox send limit now w =
     (let (r, ms) = flush_rows send now (pf_now w) (due_mail now limit (pf_outbox w))
                      (\<lparr>fr_sent = 0, fr_failed = 0, fr_retried = 0\<rparr>, pf_outbox w)
      in (r, w\<lparr>pf_outbox := ms\<rparr>))"

section \<open>Gateway jobs\<close>

text \<open>A completed job is removed and a failed one is kept, so a job of the id that has not failed is waiting or running.\<close>

definition same_job :: "jstr \<Rightarrow> gateway_action \<Rightarrow> gateway_job \<Rightarrow> bool" where
  "same_job i a j \<longleftrightarrow> gj_organizationId j = i \<and> gj_action j = a"

definition queueGatewayAction :: "jstr \<Rightarrow> gateway_action \<Rightarrow> int \<Rightarrow> platform \<Rightarrow> platform" where
  "queueGatewayAction i a delay w =
     (case find (same_job i a) (pf_jobs w) of
        Some j \<Rightarrow>
          if gj_failed j
          then w\<lparr>pf_jobs := filter (\<lambda>k. \<not> same_job i a k) (pf_jobs w)
                  @ [\<lparr>gj_organizationId = i, gj_action = a, gj_delay = delay, gj_attemptsMade = 0, gj_failed = False\<rparr>]\<rparr>
          else w
      | None \<Rightarrow> w\<lparr>pf_jobs := pf_jobs w @ [\<lparr>gj_organizationId = i, gj_action = a, gj_delay = delay, gj_attemptsMade = 0, gj_failed = False\<rparr>]\<rparr>)"

definition job_waiting :: "jstr \<times> gateway_action \<Rightarrow> platform \<Rightarrow> bool" where
  "job_waiting k w \<longleftrightarrow> (\<exists>j. find (same_job (fst k) (snd k)) (pf_jobs w) = Some j \<and> \<not> gj_failed j)"

lemma find_filter_other: "(\<And>x. P x \<Longrightarrow> Q x) \<Longrightarrow> find P (filter Q xs) = find P xs"
  by (induction xs) auto

lemma find_filter_same: "find P (filter (\<lambda>x. \<not> P x) xs) = None"
  by (induction xs) auto

lemma job_waiting_queue: "job_waiting (i, a) (queueGatewayAction i a d w)"
proof -
  have new: "same_job i a \<lparr>gj_organizationId = i, gj_action = a, gj_delay = d, gj_attemptsMade = 0, gj_failed = False\<rparr>"
    by (simp add: same_job_def)
  show ?thesis
  proof (cases "find (same_job i a) (pf_jobs w)")
    case (Some j)
    with new show ?thesis
      by (cases "gj_failed j") (simp_all add: job_waiting_def queueGatewayAction_def find_append find_filter_same)
  qed (simp add: new job_waiting_def queueGatewayAction_def find_append)
qed

lemma job_waiting_keep: "job_waiting (i, a) w \<Longrightarrow> queueGatewayAction i a d w = w"
  by (auto simp: job_waiting_def queueGatewayAction_def)

lemma job_waiting_other: "job_waiting k w \<Longrightarrow> job_waiting k (queueGatewayAction i a d w)"
proof (cases "k = (i, a)")
  case False
  assume h: "job_waiting k w"
  from False have "find (same_job (fst k) (snd k)) (filter (\<lambda>x. \<not> same_job i a x) xs) = find (same_job (fst k) (snd k)) xs" for xs
    by (intro find_filter_other) (auto simp: same_job_def prod_eq_iff)
  with h show ?thesis by (auto simp: job_waiting_def queueGatewayAction_def find_append split: option.splits)
qed (simp add: job_waiting_queue)

interpretation jobs: write_once "\<lambda>k d. queueGatewayAction (fst k) (snd k) d" job_waiting
  by unfold_locales (simp_all add: job_waiting_queue job_waiting_keep job_waiting_other split_paired_all)

section \<open>Settings\<close>

datatype platform_error = TrialLengthOutOfRange | TrialNeedsPaidPlan edition_error | TrialPlanUnpaid | GraceOutOfRange

definition TRIAL_HOURS_KEY :: jstr where "TRIAL_HOURS_KEY = lit ''billing.trialHours''"
definition TRIAL_PLAN_KEY :: jstr where "TRIAL_PLAN_KEY = lit ''billing.trialPlan''"
definition GRACE_DAYS_KEY :: jstr where "GRACE_DAYS_KEY = lit ''dunningGraceDays''"

definition TRIAL_HOURS_DEFAULT :: rat where "TRIAL_HOURS_DEFAULT = 3"
definition TRIAL_HOURS_MAX :: rat where "TRIAL_HOURS_MAX = 24 * 365"
definition TRIAL_PLAN_DEFAULT :: jstr where "TRIAL_PLAN_DEFAULT = lit ''STANDARD''"
definition GRACE_DAYS_DEFAULT :: int where "GRACE_DAYS_DEFAULT = 7"

text \<open>\<open>Number(row?.value)\<close>, and the upsert of a setting.\<close>

definition setting_number :: "platform \<Rightarrow> jstr \<Rightarrow> jnum" where
  "setting_number w key = (case pf_settings w key of None \<Rightarrow> NaN | Some v \<Rightarrow> js_number_of_string v)"

definition put_setting :: "jstr \<Rightarrow> jstr \<Rightarrow> platform \<Rightarrow> platform" where
  "put_setting key v w = w\<lparr>pf_settings := (pf_settings w)(key := Some v)\<rparr>"

definition js_round :: "rat \<Rightarrow> int" where "js_round r = \<lfloor>r + 1 / 2\<rfloor>"

definition getTrialHours :: "platform \<Rightarrow> rat" where
  "getTrialHours w =
     (case setting_number w TRIAL_HOURS_KEY of
        Fin r \<Rightarrow> if r \<le> 0 \<or> r > TRIAL_HOURS_MAX then TRIAL_HOURS_DEFAULT else r
      | _ \<Rightarrow> TRIAL_HOURS_DEFAULT)"

definition setTrialHours :: "jnum \<Rightarrow> platform \<Rightarrow> platform_error + rat \<times> platform" where
  "setTrialHours hours w =
     (case hours of
        Fin r \<Rightarrow> if r \<le> 0 \<or> r > TRIAL_HOURS_MAX then Inl TrialLengthOutOfRange
                 else Inr (r, put_setting TRIAL_HOURS_KEY (num_str r) w)
      | _ \<Rightarrow> Inl TrialLengthOutOfRange)"

text \<open>\<open>getTrialPlanCode\<close> throws what \<open>normalizePlanCode\<close> throws.\<close>

definition getTrialPlanCode :: "platform \<Rightarrow> edition_error + jstr" where
  "getTrialPlanCode w =
     (case pf_settings w TRIAL_PLAN_KEY of
        None \<Rightarrow> Inr TRIAL_PLAN_DEFAULT
      | Some [] \<Rightarrow> Inr TRIAL_PLAN_DEFAULT
      | Some v \<Rightarrow>
          (case normalizePlanCode (pf_catalogue w) v of
             Inl e \<Rightarrow> Inl e
           | Inr code \<Rightarrow> Inr (if isPaidPlan (pf_catalogue w) code then code else TRIAL_PLAN_DEFAULT)))"

definition setTrialPlanCode :: "jstr \<Rightarrow> platform \<Rightarrow> platform_error + jstr \<times> platform" where
  "setTrialPlanCode input w =
     (case normalizePlanCode (pf_catalogue w) input of
        Inl e \<Rightarrow> Inl (TrialNeedsPaidPlan e)
      | Inr code \<Rightarrow> if isPaidPlan (pf_catalogue w) code then Inr (code, put_setting TRIAL_PLAN_KEY code w)
                    else Inl TrialPlanUnpaid)"

text \<open>\<open>new Date(x)\<close> drops the fraction of a millisecond.\<close>

definition js_trunc :: "rat \<Rightarrow> int" where "js_trunc r = (if 0 \<le> r then \<lfloor>r\<rfloor> else \<lceil>r\<rceil>)"

definition trialDeadlineFrom :: "int \<Rightarrow> platform \<Rightarrow> int" where
  "trialDeadlineFrom start w = js_trunc (of_int start + getTrialHours w * 3600000)"

definition getDunningGraceDays :: "platform \<Rightarrow> int" where
  "getDunningGraceDays w =
     (case setting_number w GRACE_DAYS_KEY of
        Fin r \<Rightarrow> if r < 0 \<or> r > 365 then GRACE_DAYS_DEFAULT else js_round r
      | _ \<Rightarrow> GRACE_DAYS_DEFAULT)"

definition setDunningGraceDays :: "jnum \<Rightarrow> platform \<Rightarrow> platform_error + int \<times> platform" where
  "setDunningGraceDays days w =
     (case days of
        Fin r \<Rightarrow> if r < 0 \<or> r > 365 then Inl GraceOutOfRange
                 else Inr (js_round r, put_setting GRACE_DAYS_KEY (num_str (of_int (js_round r))) w)
      | _ \<Rightarrow> Inl GraceOutOfRange)"

section \<open>Trials\<close>

datatype trial_state = NoTrial | TrialActive int int | TrialExpired int

definition trialStateOf :: "subscription option \<Rightarrow> int \<Rightarrow> trial_state" where
  "trialStateOf sub now =
     (case sub of
        None \<Rightarrow> NoTrial
      | Some s \<Rightarrow>
          if sb_status s \<noteq> SUB_TRIALING then NoTrial
          else case sb_trialEndsAt s of
                 None \<Rightarrow> NoTrial
               | Some endsAt \<Rightarrow>
                   let msRemaining = endsAt - now
                   in if msRemaining > 0 then TrialActive endsAt msRemaining else TrialExpired endsAt)"

definition TRIAL_SUBSCRIPTION_STATUSES :: "subscription_status list" where
  "TRIAL_SUBSCRIPTION_STATUSES = [SUB_ACTIVE, SUB_TRIALING, SUB_PAST_DUE, SUB_MANUAL_REVIEW, SUB_PENDING]"

definition ACCESS_GRANTING_SUBSCRIPTION_STATUSES :: "subscription_status list" where
  "ACCESS_GRANTING_SUBSCRIPTION_STATUSES = [SUB_ACTIVE, SUB_TRIALING]"

definition resolveTrial :: "platform \<Rightarrow> jstr \<Rightarrow> int \<Rightarrow> trial_state" where
  "resolveTrial w i now = trialStateOf (newest_subscription TRIAL_SUBSCRIPTION_STATUSES w i) now"

section \<open>The access gate\<close>

datatype gate_decision = Allowed | Refused_Trial int | Refused_Suspended

datatype gate_response = Next | Forbidden gate_decision

definition ALLOWED_WHEN_GATED :: "jstr list" where
  "ALLOWED_WHEN_GATED =
     [lit ''/auth/me'', lit ''/auth/logout'', lit ''/billing'', lit ''/branding/public'', lit ''/branding/assets'']"

definition isAllowedWhenGated :: "jstr \<Rightarrow> bool" where
  "isAllowedWhenGated path \<longleftrightarrow>
     list_ex (\<lambda>prefix. path = prefix \<or> starts_with (prefix @ lit ''/'') path) ALLOWED_WHEN_GATED"

definition decideAccess :: "platform \<Rightarrow> jstr \<Rightarrow> int \<Rightarrow> gate_decision" where
  "decideAccess w i now =
     (case pf_orgs w i of
        None \<Rightarrow> Allowed
      | Some og \<Rightarrow>
          if og_status og = ORG_SUSPENDED then Refused_Suspended
          else case trialStateOf (newest_subscription TRIAL_SUBSCRIPTION_STATUSES w i) now of
                 TrialExpired endsAt \<Rightarrow> Refused_Trial endsAt
               | _ \<Rightarrow> Allowed)"

text \<open>\<open>decide\<close> is the read of the decision, on the left when the database threw.\<close>

definition enforceAccess :: "('e + gate_decision) \<Rightarrow> jstr option \<Rightarrow> jstr \<Rightarrow> gate_response" where
  "enforceAccess decide organizationId path =
     (if \<not> truthy_ref organizationId then Next
      else if isAllowedWhenGated path then Next
      else case decide of
             Inl _ \<Rightarrow> Next
           | Inr Allowed \<Rightarrow> Next
           | Inr d \<Rightarrow> Forbidden d)"

datatype service_state = ServiceOk | ServiceOverdue int "jstr option" | ServiceSuspended "jstr option" | ServiceTrialExpired

definition getServiceState :: "platform \<Rightarrow> jstr \<Rightarrow> service_state" where
  "getServiceState w i =
     (case pf_orgs w i of
        None \<Rightarrow> ServiceOk
      | Some og \<Rightarrow>
          if og_status og = ORG_SUSPENDED then ServiceSuspended (og_suspendReason og)
          else let trialEndsAt = Option.bind (newest_subscription [SUB_TRIALING] w i) sb_trialEndsAt
               in if (case trialEndsAt of None \<Rightarrow> False | Some t \<Rightarrow> t \<le> pf_now w) then ServiceTrialExpired
                  else case og_suspendAt og of
                         Some t \<Rightarrow> if t > pf_now w then ServiceOverdue t (og_suspendReason og) else ServiceOk
                       | None \<Rightarrow> ServiceOk)"

section \<open>Gateway observations\<close>

definition CONNECTED :: "jstr list" where
  "CONNECTED = [lit ''connected'', lit ''authenticated'', lit ''working'', lit ''ready'']"

definition UNPAIRED :: "jstr list" where
  "UNPAIRED = [lit ''qr_ready'', lit ''disconnected'', lit ''failed'', lit ''action_required'', lit ''stopped'']"

definition TRANSIENT :: "jstr list" where
  "TRANSIENT = [lit ''created'', lit ''initializing'', lit ''starting'', lit ''authenticating'']"

definition or_empty :: "jstr option \<Rightarrow> jstr" where "or_empty v = (case v of None \<Rightarrow> [] | Some s \<Rightarrow> s)"

definition isConnectedState :: "jstr option \<Rightarrow> bool" where
  "isConnectedState v \<longleftrightarrow> js_lower (or_empty v) \<in> set CONNECTED"

definition isUnpairedState :: "jstr option \<Rightarrow> bool" where
  "isUnpairedState v \<longleftrightarrow> js_lower (or_empty v) \<in> set UNPAIRED"

definition isTransientState :: "jstr option \<Rightarrow> bool" where
  "isTransientState v \<longleftrightarrow> js_lower (or_empty v) \<in> set TRANSIENT"

record observation =
  ob_reported :: "jstr option"
  ob_connected :: "bool option"

datatype observation_outcome = Promoted | Demoted | Unchanged | NoEvidence

definition GATEWAY_PROVISIONING_FAILED :: jstr where
  "GATEWAY_PROVISIONING_FAILED = lit ''GATEWAY_PROVISIONING_FAILED''"

definition markGatewayActive :: "jstr \<Rightarrow> platform \<Rightarrow> platform" where
  "markGatewayActive i w =
     (let w1 = upd_openwa i (\<lambda>ch. ch\<lparr>ch_status := lit ''ACTIVE'', ch_provisioningState := GW_ACTIVE,
                 ch_provisioningStep := Some COMPLETE, ch_failureReason := None, ch_failureStep := None,
                 ch_connectedAt := Some (pf_now w), ch_lastCheckedAt := Some (pf_now w), ch_suspendedAt := None\<rparr>) w;
          w2 = upd_org i (\<lambda>og. og\<lparr>og_status := ORG_ACTIVE\<rparr>) w1
      in w2\<lparr>pf_alerts :=
              map (\<lambda>a. if al_organizationId a = Some i \<and> al_type a = GATEWAY_PROVISIONING_FAILED \<and> al_resolvedAt a = None
                       then a\<lparr>al_resolvedAt := Some (pf_now w)\<rparr> else a) (pf_alerts w2)\<rparr>)"

definition touch_channel :: "jstr \<Rightarrow> platform \<Rightarrow> platform" where
  "touch_channel i w = upd_openwa i (\<lambda>ch. ch\<lparr>ch_lastCheckedAt := Some (pf_now w)\<rparr>) w"

definition recordGatewayObservation :: "jstr \<Rightarrow> observation \<Rightarrow> platform \<Rightarrow> observation_outcome \<times> platform" where
  "recordGatewayObservation i ob w =
     (let connected = (case ob_connected ob of Some b \<Rightarrow> b | None \<Rightarrow> isConnectedState (ob_reported ob));
          unpaired = (ob_connected ob = Some False \<or> isUnpairedState (ob_reported ob))
      in if \<not> connected \<and> \<not> unpaired then (NoEvidence, w)
         else case pf_openwa w i of
                None \<Rightarrow> (NoEvidence, w)
              | Some ch \<Rightarrow>
                  if connected then
                    (if ch_provisioningState ch = GW_ACTIVE then (Unchanged, touch_channel i w)
                     else (Promoted, markGatewayActive i w))
                  else if ch_provisioningState ch \<noteq> GW_ACTIVE then (Unchanged, touch_channel i w)
                  else (Demoted,
                        upd_openwa i (\<lambda>ch. ch\<lparr>ch_provisioningState := GW_AWAITING_QR,
                           ch_provisioningStep := Some AWAIT_CONNECTION, ch_status := lit ''PENDING'',
                           ch_lastCheckedAt := Some (pf_now w), ch_failureStep := None,
                           ch_failureReason := Some (lit ''The WhatsApp session is no longer connected. Scan the QR code again to reconnect this number.'')\<rparr>) w))"

end
