(* ===== verification/Entitlements.thy ===== *)
theory Entitlements
  imports Platform
begin

text \<open>
  What an organization is entitled to: the resolver (\<open>modules/billing/entitlements.resolver.ts\<close>), the
  capability facade (\<open>modules/billing/capabilities.ts\<close>, \<open>entitlement-facade.ts\<close>) and the metered sends
  (\<open>modules/usage/usage.service.ts\<close>, \<open>modules/usage/entitlements.ts\<close>).
\<close>

section \<open>Meters\<close>

definition USAGE_METRICS :: "usage_metric list" where
  "USAGE_METRICS = [Messages_Inbound, Messages_Outbound, Active_Contacts, Ai_Tokens_In, Ai_Tokens_Out, Campaign_Sends]"

text \<open>The edition column of a meter; none for inbound messages.\<close>

definition PLAN_METRIC_FIELDS :: "usage_metric \<Rightarrow> limit_field option" where
  "PLAN_METRIC_FIELDS m =
     (case m of
        Messages_Inbound \<Rightarrow> None
      | Messages_Outbound \<Rightarrow> Some MonthlyOutboundMessages
      | Active_Contacts \<Rightarrow> Some MonthlyActiveContacts
      | Campaign_Sends \<Rightarrow> Some MonthlyCampaignSends
      | Ai_Tokens_In \<Rightarrow> Some MonthlyAiTokensIn
      | Ai_Tokens_Out \<Rightarrow> Some MonthlyAiTokensOut)"

section \<open>The resolver\<close>

datatype entitlement_source = FromOverride | FromSubscription | FromDefault

record override_info =
  ov_plan :: "jstr option"
  ov_macQuota :: "int option"
  ov_discountPercent :: "int option"
  ov_creditCents :: int
  ov_reason :: "jstr option"
  ov_expiresAt :: "int option"
  ov_expired :: bool
  ov_setBy :: "jstr option"
  ov_setAt :: "int option"

record entitlements =
  en_plan :: jstr
  en_planName :: jstr
  en_edition :: edition
  en_planOfRecord :: jstr
  en_editionOfRecord :: edition
  en_source :: entitlement_source
  en_limits :: "usage_metric \<Rightarrow> int option"
  en_seatLimit :: "int option"
  en_maxWorkspaces :: "int option"
  en_isOverridden :: bool
  en_override :: override_info
  en_listPriceCents :: int
  en_effectivePriceCents :: int

datatype resolve_error = MissingOrganizationId | UnknownOrganization jstr | BrokenEdition edition_error

definition normalizeLimit :: "int option \<Rightarrow> int option" where
  "normalizeLimit raw = (case raw of None \<Rightarrow> None | Some v \<Rightarrow> if v \<ge> UNLIMITED_SENTINEL then None else Some v)"

text \<open>\<open>planLimits\<close>: the outer option is whether the map has the meter at all.\<close>

definition planLimits :: "edition \<Rightarrow> usage_metric \<Rightarrow> int option option" where
  "planLimits e m = map_option (ed_limit e) (PLAN_METRIC_FIELDS m)"

definition effectiveLimits ::
  "plan_config option \<Rightarrow> jstr option \<Rightarrow> int option \<Rightarrow> (jstr \<Rightarrow> edition) \<Rightarrow> usage_metric \<Rightarrow> int option" where
  "effectiveLimits config overridePlan macQuota edition =
     (let fromPlan = (case overridePlan of None \<Rightarrow> (\<lambda>_. None) | Some p \<Rightarrow> planLimits (edition p));
          limits = (\<lambda>m. case fromPlan m of
                      Some planValue \<Rightarrow> normalizeLimit planValue
                    | None \<Rightarrow> normalizeLimit (Option.bind config (\<lambda>c. c m)))
      in (case macQuota of None \<Rightarrow> limits | Some q \<Rightarrow> limits(Active_Contacts := Some q)))"

definition safePlanCode :: "catalogue \<Rightarrow> jstr option \<Rightarrow> jstr option" where
  "safePlanCode c value =
     (case value of
        None \<Rightarrow> None
      | Some [] \<Rightarrow> None
      | Some v \<Rightarrow> (case normalizePlanCode c v of Inl _ \<Rightarrow> None | Inr code \<Rightarrow> Some code))"

definition LIVE_SUBSCRIPTION_STATUSES :: "subscription_status list" where
  "LIVE_SUBSCRIPTION_STATUSES = [SUB_ACTIVE, SUB_TRIALING]"

definition has_override :: "organization \<Rightarrow> bool" where
  "has_override og \<longleftrightarrow> og_planOverride og \<noteq> None \<or> og_macQuotaOverride og \<noteq> None \<or> og_discountPercent og \<noteq> None"

definition override_expired :: "organization \<Rightarrow> int \<Rightarrow> bool" where
  "override_expired og now \<longleftrightarrow>
     has_override og \<and> (case og_overrideExpiresAt og of None \<Rightarrow> False | Some t \<Rightarrow> t \<le> now)"

definition override_live :: "organization \<Rightarrow> int \<Rightarrow> bool" where
  "override_live og now \<longleftrightarrow> has_override og \<and> \<not> override_expired og now"

definition discounted :: "int \<Rightarrow> int option \<Rightarrow> int" where
  "discounted listPrice discount =
     (case discount of
        None \<Rightarrow> listPrice
      | Some d \<Rightarrow> if d = 0 then listPrice else js_round (of_int (listPrice * (100 - d)) / 100))"

text \<open>The lookup of the consequence preview answers one code with a proposed edition.\<close>

definition edition_lookup :: "int \<Rightarrow> catalogue \<Rightarrow> edition option \<Rightarrow> jstr \<Rightarrow> edition" where
  "edition_lookup clock c editionOverride code =
     (case editionOverride of
        Some e \<Rightarrow> if ed_code e = code then e else getEdition clock c code
      | None \<Rightarrow> getEdition clock c code)"

definition resolveEntitlements ::
  "platform \<Rightarrow> jstr \<Rightarrow> int \<Rightarrow> edition option \<Rightarrow> resolve_error + entitlements" where
  "resolveEntitlements w i now editionOverride =
     (let c = pf_catalogue w; edition = edition_lookup (pf_now w) c editionOverride
      in if i = [] then Inl MissingOrganizationId
         else case pf_orgs w i of
           None \<Rightarrow> Inl (UnknownOrganization i)
         | Some og \<Rightarrow>
             let live = override_live og now;
                 overridePlan = (if live then safePlanCode c (og_planOverride og) else None);
                 sub = newest_subscription LIVE_SUBSCRIPTION_STATUSES w i;
                 subscriptionPlan = safePlanCode c (map_option (fst \<circ> sb_pin) sub)
             in (case (if subscriptionPlan = None then Inr None
                       else case sub of None \<Rightarrow> Inr None | Some s \<Rightarrow> subscriptionEditionOf (pf_editions w) (sb_pin s)) of
                   Inl e \<Rightarrow> Inl (BrokenEdition e)
                 | Inr pinnedEdition \<Rightarrow>
                     let planOfRecord = (case subscriptionPlan of Some p \<Rightarrow> p | None \<Rightarrow> lit ''FREE'');
                         plan = (case overridePlan of Some p \<Rightarrow> p | None \<Rightarrow> planOfRecord);
                         editionOfRecord = (case pinnedEdition of Some e \<Rightarrow> e | None \<Rightarrow> edition (lit ''FREE''));
                         effective = (case overridePlan of Some p \<Rightarrow> edition p | None \<Rightarrow> editionOfRecord);
                         macQuota = (if live then og_macQuotaOverride og else None);
                         discount = (if live then og_discountPercent og else None)
                     in Inr
                       \<lparr>en_plan = plan, en_planName = ed_name effective, en_edition = effective,
                        en_planOfRecord = planOfRecord, en_editionOfRecord = editionOfRecord,
                        en_source = (if overridePlan \<noteq> None then FromOverride
                                     else if subscriptionPlan \<noteq> None then FromSubscription else FromDefault),
                        en_limits = effectiveLimits (pf_config w i) overridePlan macQuota edition,
                        en_seatLimit = ed_limit effective Users, en_maxWorkspaces = ed_limit effective MaxWorkspaces,
                        en_isOverridden = live,
                        en_override =
                          \<lparr>ov_plan = safePlanCode c (og_planOverride og), ov_macQuota = og_macQuotaOverride og,
                           ov_discountPercent = og_discountPercent og, ov_creditCents = og_creditCents og,
                           ov_reason = og_overrideReason og, ov_expiresAt = og_overrideExpiresAt og,
                           ov_expired = override_expired og now, ov_setBy = og_overrideSetBy og,
                           ov_setAt = og_overrideSetAt og\<rparr>,
                        en_listPriceCents = ed_priceCents effective,
                        en_effectivePriceCents = discounted (ed_priceCents effective) discount\<rparr>))"

text \<open>\<open>applyPlanLimits\<close>: what an edition writes into the enforced columns.\<close>

definition or_sentinel :: "int option \<Rightarrow> int" where
  "or_sentinel v = (case v of None \<Rightarrow> UNLIMITED_SENTINEL | Some n \<Rightarrow> n)"

definition applied_limits :: "edition \<Rightarrow> plan_config \<Rightarrow> plan_config" where
  "applied_limits e old m =
     (case m of
        Messages_Inbound \<Rightarrow> old Messages_Inbound
      | Active_Contacts \<Rightarrow> Some (or_sentinel (ed_limit e MonthlyActiveContacts))
      | Messages_Outbound \<Rightarrow> Some (or_sentinel (ed_limit e MonthlyOutboundMessages))
      | Campaign_Sends \<Rightarrow> Some (or_sentinel (ed_limit e MonthlyCampaignSends))
      | Ai_Tokens_In \<Rightarrow> ed_limit e MonthlyAiTokensIn
      | Ai_Tokens_Out \<Rightarrow> ed_limit e MonthlyAiTokensOut)"

definition applyPlanLimits :: "jstr \<Rightarrow> jstr \<Rightarrow> platform \<Rightarrow> platform" where
  "applyPlanLimits i code w =
     w\<lparr>pf_config := (pf_config w)(i := Some (applied_limits (getEdition (pf_now w) (pf_catalogue w) code)
                       (case pf_config w i of None \<Rightarrow> (\<lambda>_. None) | Some c \<Rightarrow> c)))\<rparr>"

section \<open>Capabilities\<close>

datatype counted_limit = Seats | Workspaces | Custom_Fields | Workflow_Count

datatype capability = Feature feature | Counted counted_limit | Meter usage_metric | Unknown_Capability jstr

definition CAPABILITY_NAMES :: "(jstr \<times> capability) list" where
  "CAPABILITY_NAMES =
     [(lit ''customDomain'', Feature CustomDomain), (lit ''whiteLabel'', Feature WhiteLabel),
      (lit ''maskContactDetails'', Feature MaskContactDetails), (lit ''autoProvisionGateway'', Feature AutoProvisionGateway),
      (lit ''seats'', Counted Seats), (lit ''workspaces'', Counted Workspaces),
      (lit ''customFields'', Counted Custom_Fields), (lit ''workflows'', Counted Workflow_Count),
      (lit ''messages_inbound'', Meter Messages_Inbound), (lit ''messages_outbound'', Meter Messages_Outbound),
      (lit ''active_contacts'', Meter Active_Contacts), (lit ''ai_tokens_in'', Meter Ai_Tokens_In),
      (lit ''ai_tokens_out'', Meter Ai_Tokens_Out), (lit ''campaign_sends'', Meter Campaign_Sends)]"

definition capability_of :: "jstr \<Rightarrow> capability" where
  "capability_of name = (case map_of CAPABILITY_NAMES name of Some c \<Rightarrow> c | None \<Rightarrow> Unknown_Capability name)"

definition limitOf :: "entitlements \<Rightarrow> capability \<Rightarrow> int option" where
  "limitOf en cap =
     (case cap of
        Unknown_Capability _ \<Rightarrow> Some 0
      | Feature _ \<Rightarrow> None
      | Counted Seats \<Rightarrow> en_seatLimit en
      | Counted Workspaces \<Rightarrow> en_maxWorkspaces en
      | Counted Custom_Fields \<Rightarrow> ed_limit (en_edition en) CustomFields
      | Counted Workflow_Count \<Rightarrow> ed_limit (en_edition en) Workflows
      | Meter m \<Rightarrow> en_limits en m)"

definition editionLimitOf :: "edition \<Rightarrow> capability \<Rightarrow> int option" where
  "editionLimitOf e cap =
     (case cap of
        Unknown_Capability _ \<Rightarrow> Some 0
      | Feature _ \<Rightarrow> None
      | Counted Seats \<Rightarrow> ed_limit e Users
      | Counted Workspaces \<Rightarrow> ed_limit e MaxWorkspaces
      | Counted Custom_Fields \<Rightarrow> ed_limit e CustomFields
      | Counted Workflow_Count \<Rightarrow> ed_limit e Workflows
      | Meter m \<Rightarrow> Option.bind (PLAN_METRIC_FIELDS m) (ed_limit e))"

definition some_of_it :: "int option \<Rightarrow> bool" where
  "some_of_it limit = (case limit of None \<Rightarrow> True | Some n \<Rightarrow> n > 0)"

definition grantsCapability :: "edition \<Rightarrow> capability \<Rightarrow> bool" where
  "grantsCapability e cap =
     (case cap of
        Unknown_Capability _ \<Rightarrow> False
      | Feature f \<Rightarrow> ed_feature e f
      | _ \<Rightarrow> some_of_it (editionLimitOf e cap))"

record decision =
  dc_granted :: bool
  dc_capability :: capability
  dc_plan :: jstr
  dc_planName :: jstr
  dc_requiredPlan :: "jstr option"
  dc_limit :: "int option"

text \<open>\<open>ladder\<close> is the published catalogue, \<open>getEditions()\<close>.\<close>

definition decide :: "edition list \<Rightarrow> entitlements \<Rightarrow> capability \<Rightarrow> decision" where
  "decide ladder en cap =
     (case cap of
        Unknown_Capability _ \<Rightarrow>
          \<lparr>dc_granted = False, dc_capability = cap, dc_plan = en_plan en, dc_planName = en_planName en,
           dc_requiredPlan = None, dc_limit = Some 0\<rparr>
      | _ \<Rightarrow>
          let limit = limitOf en cap;
              granted = (case cap of Feature f \<Rightarrow> ed_feature (en_edition en) f | _ \<Rightarrow> some_of_it limit)
          in \<lparr>dc_granted = granted, dc_capability = cap, dc_plan = en_plan en, dc_planName = en_planName en,
              dc_requiredPlan = (if granted then None
                                 else cheapestUpgradeGranting ladder (en_plan en) (\<lambda>e. grantsCapability e cap)),
              dc_limit = limit\<rparr>)"

datatype entitlement_error = CapabilityRefused decision | LimitReached decision int | Unresolved resolve_error

definition assertCanFrom :: "edition list \<Rightarrow> entitlements \<Rightarrow> capability \<Rightarrow> entitlement_error + decision" where
  "assertCanFrom ladder en cap =
     (let d = decide ladder en cap in if \<not> dc_granted d then Inl (CapabilityRefused d) else Inr d)"

datatype limit_state = LimitOk | LimitFull | NotIncluded

definition limitState :: "edition list \<Rightarrow> entitlements \<Rightarrow> capability \<Rightarrow> int \<Rightarrow> limit_state" where
  "limitState ladder en cap current =
     (let d = decide ladder en cap
      in if \<not> dc_granted d then NotIncluded
         else case dc_limit d of None \<Rightarrow> LimitOk | Some n \<Rightarrow> if current < n then LimitOk else LimitFull)"

definition withinLimit :: "edition list \<Rightarrow> entitlements \<Rightarrow> capability \<Rightarrow> int \<Rightarrow> bool" where
  "withinLimit ladder en cap current \<longleftrightarrow> limitState ladder en cap current = LimitOk"

definition assertWithinLimitFrom ::
  "edition list \<Rightarrow> entitlements \<Rightarrow> capability \<Rightarrow> int \<Rightarrow> entitlement_error + decision" where
  "assertWithinLimitFrom ladder en cap current =
     (case assertCanFrom ladder en cap of
        Inl e \<Rightarrow> Inl e
      | Inr d \<Rightarrow>
          if limitState ladder en cap current = LimitOk then Inr d
          else let required = cheapestUpgradeGranting ladder (en_plan en)
                     (\<lambda>e. case editionLimitOf e cap of None \<Rightarrow> True | Some n \<Rightarrow> n > current)
               in Inl (LimitReached (d\<lparr>dc_granted := False, dc_requiredPlan := required\<rparr>) current))"

definition entitlement_status :: "entitlement_error \<Rightarrow> int" where
  "entitlement_status e = (case e of CapabilityRefused _ \<Rightarrow> 402 | LimitReached _ _ \<Rightarrow> 402 | Unresolved _ \<Rightarrow> 500)"

text \<open>The wrappers of the facade.\<close>

definition platform_ladder :: "platform \<Rightarrow> edition list" where
  "platform_ladder w = getEditions (pf_now w) (pf_catalogue w)"

definition can :: "platform \<Rightarrow> jstr \<Rightarrow> capability \<Rightarrow> resolve_error + bool" where
  "can w i cap =
     (case resolveEntitlements w i (pf_now w) None of
        Inl e \<Rightarrow> Inl e | Inr en \<Rightarrow> Inr (dc_granted (decide (platform_ladder w) en cap)))"

definition assertWithinLimit :: "platform \<Rightarrow> jstr \<Rightarrow> capability \<Rightarrow> int \<Rightarrow> entitlement_error + decision" where
  "assertWithinLimit w i cap current =
     (case resolveEntitlements w i (pf_now w) None of
        Inl e \<Rightarrow> Inl (Unresolved e)
      | Inr en \<Rightarrow> assertWithinLimitFrom (platform_ladder w) en cap current)"

definition assertSeatAvailable :: "platform \<Rightarrow> jstr \<Rightarrow> entitlement_error + decision" where
  "assertSeatAvailable w i =
     assertWithinLimit w i (Counted Seats)
       (int (length (filter (\<lambda>a. ac_organizationId a = i \<and> ac_isActive a) (pf_accounts w))))"

section \<open>Metered sends\<close>

text \<open>The first instant of the month of a time and of the month after it, in UTC.\<close>

definition days_from_civil :: "int \<Rightarrow> int \<Rightarrow> int \<Rightarrow> int" where
  "days_from_civil y m d =
     (let y' = (if m \<le> 2 then y - 1 else y); era = y' div 400; yoe = y' - era * 400;
          doy = (153 * (if m > 2 then m - 3 else m + 9) + 2) div 5 + d - 1;
          doe = yoe * 365 + yoe div 4 - yoe div 100 + doy
      in era * 146097 + doe - 719468)"

definition monthRange :: "int \<Rightarrow> int \<times> int" where
  "monthRange t =
     (let (y, m, _) = civil_date (t div 86400000)
      in (days_from_civil y m 1 * 86400000,
          (if m = 12 then days_from_civil (y + 1) 1 1 else days_from_civil y (m + 1) 1) * 86400000))"

definition in_month :: "int \<Rightarrow> usage_event \<Rightarrow> bool" where
  "in_month t e \<longleftrightarrow> fst (monthRange t) \<le> ue_occurredAt e \<and> ue_occurredAt e < snd (monthRange t)"

definition countMonthlyActiveContacts :: "platform \<Rightarrow> jstr \<Rightarrow> int \<Rightarrow> int" where
  "countMonthlyActiveContacts w i t =
     int (length (remdups (map ue_subjectId
       (filter (\<lambda>e. ue_organizationId e = i \<and> ue_metric e = Active_Contacts \<and> in_month t e \<and> ue_subjectId e \<noteq> None)
          (pf_usage w)))))"

definition getMetricUsage :: "platform \<Rightarrow> jstr \<Rightarrow> usage_metric \<Rightarrow> int \<Rightarrow> int" where
  "getMetricUsage w i m t =
     (if m = Active_Contacts then countMonthlyActiveContacts w i t
      else sum_list (map ue_quantity
             (filter (\<lambda>e. ue_organizationId e = i \<and> ue_metric e = m \<and> in_month t e) (pf_usage w))))"

definition blocksOutbound :: "usage_metric \<Rightarrow> bool" where
  "blocksOutbound m \<longleftrightarrow> m \<noteq> Messages_Inbound"

datatype quota_error =
    CapabilityNotIncluded usage_metric jstr "jstr option"
  | QuotaExceeded usage_metric int int int
  | QuotaUnresolved resolve_error

definition assertMetricAvailable :: "platform \<Rightarrow> jstr \<Rightarrow> usage_metric \<Rightarrow> int \<Rightarrow> int \<Rightarrow> quota_error option" where
  "assertMetricAvailable w i m quantity reference =
     (if \<not> blocksOutbound m then None
      else case resolveEntitlements w i reference None of
             Inl e \<Rightarrow> Some (QuotaUnresolved e)
           | Inr en \<Rightarrow>
               let d = decide (platform_ladder w) en (Meter m)
               in if \<not> dc_granted d then Some (CapabilityNotIncluded m (dc_planName d) (dc_requiredPlan d))
                  else case dc_limit d of
                         None \<Rightarrow> None
                       | Some limit \<Rightarrow>
                           let current = getMetricUsage w i m reference
                           in if current + quantity > limit
                              then Some (QuotaExceeded m current limit (snd (monthRange reference))) else None)"

datatype usage_state = UsageNormal | UsageWarning | UsageExceeded | UsageUnlimited

definition usageState :: "int \<Rightarrow> int option \<Rightarrow> usage_state" where
  "usageState current limit =
     (case limit of
        None \<Rightarrow> UsageUnlimited
      | Some l \<Rightarrow> if current \<ge> l then UsageExceeded
                  else if l > 0 \<and> current * 100 \<ge> l * 80 then UsageWarning else UsageNormal)"

definition normalizedDirectAddress :: "jstr \<Rightarrow> jstr option" where
  "normalizedDirectAddress address =
     (if js_includes (lit ''@g.us'') address then None
      else let a1 = strip_suffix (lit ''@c.us'') address;
               a2 = strip_suffix (lit ''@s.whatsapp.net'') a1;
               a3 = strip_suffix (lit ''@lid'') a2;
               a4 = (if starts_with (lit ''+'') a3 then tl a3 else a3)
           in if a4 = [] then None else Some a4)"

record send_options =
  so_campaign :: bool
  so_campaignSubjectId :: "jstr option"
  so_internal :: bool

definition contactIsActiveThisMonth :: "platform \<Rightarrow> jstr \<Rightarrow> jstr \<Rightarrow> bool" where
  "contactIsActiveThisMonth w i contact \<longleftrightarrow>
     list_ex (\<lambda>e. ue_organizationId e = i \<and> ue_metric e = Active_Contacts \<and> ue_subjectId e = Some contact
                  \<and> in_month (pf_now w) e) (pf_usage w)"

text \<open>\<open>contacts\<close> is the contact of a phone number in the current workspace.\<close>

definition prepareOutboundSend ::
  "(jstr \<Rightarrow> jstr option) \<Rightarrow> platform \<Rightarrow> jstr \<Rightarrow> jstr \<Rightarrow> send_options \<Rightarrow> quota_error + jstr option" where
  "prepareOutboundSend contacts w i address opts =
     (if so_internal opts then Inr None
      else case assertMetricAvailable w i Messages_Outbound 1 (pf_now w) of
        Some e \<Rightarrow> Inl e
      | None \<Rightarrow>
     (case (if so_campaign opts then assertMetricAvailable w i Campaign_Sends 1 (pf_now w) else None) of
        Some e \<Rightarrow> Inl e
      | None \<Rightarrow>
          let contact = Option.bind (normalizedDirectAddress address) contacts
          in (case (case contact of
                      None \<Rightarrow> None
                    | Some c \<Rightarrow> if contactIsActiveThisMonth w i c then None
                                else assertMetricAvailable w i Active_Contacts 1 (pf_now w)) of
                Some e \<Rightarrow> Inl e
              | None \<Rightarrow> Inr contact)))"

definition use :: "jstr \<Rightarrow> usage_metric \<Rightarrow> jstr option \<Rightarrow> platform \<Rightarrow> platform" where
  "use i m subject w =
     w\<lparr>pf_usage := pf_usage w @ [\<lparr>ue_organizationId = i, ue_metric = m, ue_quantity = 1, ue_subjectId = subject,
                                 ue_occurredAt = pf_now w\<rparr>]\<rparr>"

definition recordMessageUsage :: "jstr \<Rightarrow> bool \<Rightarrow> jstr option \<Rightarrow> jstr option \<Rightarrow> platform \<Rightarrow> platform" where
  "recordMessageUsage i inbound contact messageSubject w =
     (let w1 = use i (if inbound then Messages_Inbound else Messages_Outbound) messageSubject w
      in case contact of None \<Rightarrow> w1 | Some c \<Rightarrow> use i Active_Contacts (Some c) w1)"

definition recordSuccessfulOutboundSend ::
  "jstr \<Rightarrow> jstr option \<Rightarrow> jstr option \<Rightarrow> send_options \<Rightarrow> platform \<Rightarrow> platform" where
  "recordSuccessfulOutboundSend i contact messageSubject opts w =
     (if so_internal opts then w
      else let w1 = recordMessageUsage i False contact messageSubject w
           in if so_campaign opts
              then use i Campaign_Sends (case so_campaignSubjectId opts of Some s \<Rightarrow> Some s | None \<Rightarrow> messageSubject) w1
              else w1)"

end
