(* ===== verification/Billing.thy ===== *)
theory Billing
  imports Entitlements
begin

text \<open>
  Money and what follows from it: finance documents (\<open>modules/platform/finance.service.ts\<close> and the payment
  endpoint of \<open>modules/platform/platform.routes.ts\<close>), activation, failure, cancellation, payment events and
  reconciliation (\<open>modules/billing/billing.service.ts\<close>), and dunning (\<open>modules/billing/dunning.service.ts\<close>).

  An operation that may throw returns a sum and the platform it leaves, because what it wrote before it
  threw stays. The payment provider's answers are parameters.
\<close>

section \<open>Finance documents\<close>

datatype finance_error =
    InvoiceNotFound | AlreadyVoid | HasPayments | AlreadySettled | AmountNotPositive | ExceedsBalance int | InvoiceIsVoid
  | ReferenceTaken

definition finance_status :: "finance_error \<Rightarrow> int" where
  "finance_status e =
     (case e of InvoiceNotFound \<Rightarrow> 404 | AlreadyVoid \<Rightarrow> 409 | HasPayments \<Rightarrow> 409 | AlreadySettled \<Rightarrow> 409
      | AmountNotPositive \<Rightarrow> 400 | ExceedsBalance _ \<Rightarrow> 400 | InvoiceIsVoid \<Rightarrow> 409 | ReferenceTaken \<Rightarrow> 500)"

datatype document_kind = INV | RCPT

definition SEQUENCE_KIND :: "document_kind \<Rightarrow> jstr" where
  "SEQUENCE_KIND k = (case k of INV \<Rightarrow> lit ''invoiceRef'' | RCPT \<Rightarrow> lit ''receiptRef'')"

definition kind_prefix :: "document_kind \<Rightarrow> jstr" where
  "kind_prefix k = (case k of INV \<Rightarrow> lit ''INV'' | RCPT \<Rightarrow> lit ''RCPT'')"

text \<open>The row's value after the upsert, and the platform with it.\<close>

definition nextOrgSequence :: "jstr \<Rightarrow> jstr \<Rightarrow> platform \<Rightarrow> nat \<times> platform" where
  "nextOrgSequence i kind w =
     (let v = pf_sequences w i kind + 1
      in (v, w\<lparr>pf_sequences := (pf_sequences w)(i := (pf_sequences w i)(kind := v))\<rparr>))"

text \<open>The server's clock runs in UTC.\<close>

definition nextReference :: "document_kind \<Rightarrow> jstr \<Rightarrow> platform \<Rightarrow> jstr \<times> platform" where
  "nextReference k i w =
     (let (year, _, _) = civil_date (pf_now w div 86400000); (v, w') = nextOrgSequence i (SEQUENCE_KIND k) w
      in (kind_prefix k @ lit ''-'' @ dec_digits (nat year) @ lit ''-'' @ js_upper (slice_last 4 i) @ lit ''-'' @ pad 4 (int v), w'))"

definition createInvoice :: "jstr \<Rightarrow> int \<Rightarrow> jstr \<Rightarrow> int option \<Rightarrow> platform \<Rightarrow> platform" where
  "createInvoice i amountCents currency dueAt w =
     (let (ref, w') = nextReference INV i w
      in w'\<lparr>pf_invoices := pf_invoices w'
             @ [\<lparr>iv_id = length (pf_invoices w'), iv_organizationId = i, iv_reference = ref, iv_status = INV_OPEN,
                 iv_amountDueCents = amountCents, iv_amountPaidCents = 0, iv_currency = currency, iv_dueAt = dueAt,
                 iv_paidAt = None\<rparr>]\<rparr>)"

definition find_invoice :: "jstr \<Rightarrow> nat \<Rightarrow> platform \<Rightarrow> invoice option" where
  "find_invoice i n w = find (\<lambda>v. iv_id v = n \<and> iv_organizationId v = i) (pf_invoices w)"

definition upd_invoice :: "nat \<Rightarrow> (invoice \<Rightarrow> invoice) \<Rightarrow> platform \<Rightarrow> platform" where
  "upd_invoice n f w = w\<lparr>pf_invoices := map (\<lambda>v. if iv_id v = n then f v else v) (pf_invoices w)\<rparr>"

definition voidInvoice :: "jstr \<Rightarrow> nat \<Rightarrow> platform \<Rightarrow> finance_error + platform" where
  "voidInvoice i n w =
     (case find_invoice i n w of
        None \<Rightarrow> Inl InvoiceNotFound
      | Some v \<Rightarrow>
          if iv_status v = INV_VOID then Inl AlreadyVoid
          else if iv_amountPaidCents v > 0 then Inl HasPayments
          else Inr (upd_invoice n (\<lambda>v. v\<lparr>iv_status := INV_VOID\<rparr>) w))"

text \<open>
  The reference of a receipt is unique in its table (\<open>PaymentReceipt.reference\<close> in \<open>schema.prisma\<close>); the
  reference of an invoice only within its organization, whose own sequence never repeats.
\<close>

text \<open>
  A payment reads the invoice and checks it, and then writes in a transaction that computes from what was
  read: another request may write in between.
\<close>

definition payment_check :: "jstr \<Rightarrow> nat \<Rightarrow> int \<Rightarrow> platform \<Rightarrow> finance_error + invoice" where
  "payment_check i n amountCents w =
     (case find_invoice i n w of
        None \<Rightarrow> Inl InvoiceNotFound
      | Some v \<Rightarrow>
          let outstanding = iv_amountDueCents v - iv_amountPaidCents v
          in if outstanding \<le> 0 then Inl AlreadySettled
             else if amountCents \<le> 0 then Inl AmountNotPositive
             else if amountCents > outstanding then Inl (ExceedsBalance outstanding)
             else if iv_status v = INV_VOID then Inl InvoiceIsVoid
             else Inr v)"

definition payment_commit :: "jstr \<Rightarrow> invoice \<Rightarrow> int \<Rightarrow> jstr \<Rightarrow> int \<Rightarrow> platform \<Rightarrow> finance_error + platform" where
  "payment_commit i v amountCents method paidAt w =
     (let paid = iv_amountPaidCents v + amountCents;
          fullySettled = paid \<ge> iv_amountDueCents v;
          (ref, w1) = nextReference RCPT i w;
          taken = (\<exists>r \<in> set (pf_receipts w1). rc_reference r = ref);
          w2 = w1\<lparr>pf_receipts := pf_receipts w1
                 @ [\<lparr>rc_organizationId = i, rc_invoiceId = iv_id v, rc_reference = ref, rc_amountCents = amountCents,
                     rc_currency = iv_currency v, rc_method = method, rc_paidAt = paidAt\<rparr>]\<rparr>
      in if taken then Inl ReferenceTaken
         else Inr (upd_invoice (iv_id v)
                (\<lambda>r. r\<lparr>iv_amountPaidCents := paid, iv_status := (if fullySettled then INV_PAID else iv_status v),
                       iv_paidAt := (if fullySettled then Some paidAt else iv_paidAt v)\<rparr>) w2))"

definition recordPayment :: "jstr \<Rightarrow> nat \<Rightarrow> int \<Rightarrow> jstr \<Rightarrow> int \<Rightarrow> platform \<Rightarrow> finance_error + platform" where
  "recordPayment i n amountCents method paidAt w =
     (case payment_check i n amountCents w of
        Inl e \<Rightarrow> Inl e
      | Inr v \<Rightarrow> payment_commit i v amountCents method paidAt w)"

definition overdue :: "int \<Rightarrow> invoice \<Rightarrow> bool" where
  "overdue now v \<longleftrightarrow>
     iv_status v \<noteq> INV_PAID \<and> iv_status v \<noteq> INV_VOID \<and> (case iv_dueAt v of None \<Rightarrow> False | Some t \<Rightarrow> t < now)
     \<and> iv_amountDueCents v - iv_amountPaidCents v > 0"

definition hasOverdueBalance :: "jstr \<Rightarrow> int \<Rightarrow> platform \<Rightarrow> bool" where
  "hasOverdueBalance i now w \<longleftrightarrow> (\<exists>v \<in> set (pf_invoices w). iv_organizationId v = i \<and> overdue now v)"

text \<open>The deadline is withdrawn, and what dunning stopped is restored.\<close>

definition dunned :: "int \<Rightarrow> organization \<Rightarrow> bool" where
  "dunned now og \<longleftrightarrow> og_status og = ORG_SUSPENDED \<and> (case og_suspendAt og of None \<Rightarrow> False | Some t \<Rightarrow> t \<le> now)"

definition withdraw_deadline :: "int \<Rightarrow> organization \<Rightarrow> organization \<Rightarrow> organization" where
  "withdraw_deadline now seen og =
     og\<lparr>og_suspendAt := None, og_suspendReason := None,
        og_status := (if dunned now seen then ORG_ACTIVE else og_status og)\<rparr>"

definition restore_subscriptions :: "jstr \<Rightarrow> platform \<Rightarrow> platform" where
  "restore_subscriptions i =
     upd_subscriptions (\<lambda>s. sb_organizationId s = i \<and> sb_status s = SUB_PAST_DUE) (\<lambda>s. s\<lparr>sb_status := SUB_ACTIVE\<rparr>)"

text \<open>The payment endpoint: the payment, then the way out of dunning.\<close>

definition pay_invoice_route :: "jstr \<Rightarrow> nat \<Rightarrow> int \<Rightarrow> jstr \<Rightarrow> int \<Rightarrow> platform \<Rightarrow> finance_error + platform" where
  "pay_invoice_route i n amountCents method paidAt w =
     (case recordPayment i n amountCents (take 40 method) paidAt w of
        Inl e \<Rightarrow> Inl e
      | Inr w1 \<Rightarrow>
          (case pf_orgs w1 i of
             None \<Rightarrow> Inr w1
           | Some before \<Rightarrow>
               if hasOverdueBalance i (pf_now w1) w1 \<or> og_suspendAt before = None then Inr w1
               else let w2 = upd_org i (withdraw_deadline (pf_now w1) before) w1
                    in Inr (if dunned (pf_now w1) before
                            then queueGatewayAction i Resume 0 (restore_subscriptions i w2) else w2)))"

section \<open>Dunning\<close>

text \<open>\<open>new Set\<close> keeps the first occurrence of each.\<close>

definition js_set :: "'a list \<Rightarrow> 'a list" where "js_set xs = rev (remdups (rev xs))"

lemma set_js_set [simp]: "set (js_set xs) = set xs" and distinct_js_set [simp]: "distinct (js_set xs)"
  by (simp_all add: js_set_def)

definition billingContacts :: "jstr \<Rightarrow> platform \<Rightarrow> jstr list" where
  "billingContacts i w =
     js_set (filter (\<lambda>e. e \<noteq> [])
       (map ac_email (filter (\<lambda>a. ac_organizationId a = i \<and> ac_isAdmin a \<and> ac_isActive a) (pf_accounts w))))"

definition organizationsWithOverdueInvoices :: "int \<Rightarrow> platform \<Rightarrow> jstr list" where
  "organizationsWithOverdueInvoices now w = js_set (map iv_organizationId (filter (overdue now) (pf_invoices w)))"

definition lines_of :: "jstr list \<Rightarrow> jstr" where "lines_of ls = join_with [10] ls"

definition restored_mail :: "jstr \<Rightarrow> organization \<Rightarrow> jstr \<Rightarrow> mail_draft" where
  "restored_mail i og email =
     \<lparr>md_to = email, md_subject = lit ''Your RabiTech workspace is back'',
      md_body = lines_of
        [lit ''Hello,'', [],
         lit ''Payment for '' @ og_name og @ lit '' came through and your workspace is'',
         lit ''active again. Nothing was lost while it was paused.'', [],
         lit ''Your WhatsApp number is reconnecting now. Messages that arrived while'',
         lit ''the workspace was paused are in the inbox waiting for a reply.''],
      md_kind = lit ''dunning.restored'', md_organizationId = Some i, md_sendAfter = None\<rparr>"

definition warning_mail :: "jstr \<Rightarrow> organization \<Rightarrow> jstr \<Rightarrow> jstr \<Rightarrow> mail_draft" where
  "warning_mail i og deadline email =
     \<lparr>md_to = email, md_subject = lit ''Action needed: your RabiTech service stops on '' @ deadline,
      md_body = lines_of
        [lit ''Hello,'', [],
         lit ''An invoice for '' @ og_name og @ lit '' is past its due date.'', [],
         lit ''If the balance is not cleared by '' @ deadline @ lit '', access to your workspace'',
         lit ''will stop. Your conversations, contacts and settings are not deleted '' @ [8212],
         lit ''everything is exactly where you left it, and access returns the moment'',
         lit ''payment goes through.'', [],
         lit ''You can settle the balance from Billing inside your workspace.''],
      md_kind = lit ''dunning.warning'', md_organizationId = Some i, md_sendAfter = None\<rparr>"

definition suspended_mail :: "jstr \<Rightarrow> organization \<Rightarrow> jstr \<Rightarrow> mail_draft" where
  "suspended_mail i og email =
     \<lparr>md_to = email, md_subject = lit ''Your RabiTech workspace has been paused'',
      md_body = lines_of
        [lit ''Hello,'', [],
         lit ''Access to '' @ og_name og @ lit '' has been paused because the balance is'',
         lit ''still unpaid.'', [],
         lit ''Nothing has been deleted. Your conversations, contacts and settings are'',
         lit ''intact, and access is restored automatically as soon as payment is'',
         lit ''received '' @ [8212] @ lit '' you do not need to ask anyone.'', [],
         lit ''Incoming WhatsApp messages are not being answered while the workspace'',
         lit ''is paused.''],
      md_kind = lit ''dunning.suspended'', md_organizationId = Some i, md_sendAfter = None\<rparr>"

definition mail_contacts :: "jstr \<Rightarrow> jstr \<Rightarrow> (jstr \<Rightarrow> mail_draft) \<Rightarrow> platform \<Rightarrow> platform" where
  "mail_contacts i key draft w = fold (keyed_mail key) (map draft (billingContacts i w)) w"

record dunning_result =
  dr_warned :: nat
  dr_suspended :: nat
  dr_cleared :: nat

definition no_result :: dunning_result where "no_result = \<lparr>dr_warned = 0, dr_suspended = 0, dr_cleared = 0\<rparr>"

text \<open>One organization of the first loop, as the query that precedes the loop saw it.\<close>

definition clear_one :: "int \<Rightarrow> jstr \<times> organization \<Rightarrow> dunning_result \<times> platform \<Rightarrow> dunning_result \<times> platform" where
  "clear_one now row acc =
     (let (i, seen) = row; (r, w) = acc;
          w1 = upd_org i (withdraw_deadline now seen) w;
          w2 = (if dunned now seen
                then let w' = restore_subscriptions i (queueGatewayAction i Resume 0 w1)
                     in mail_contacts i
                          (lit ''dunning.restored:'' @ i @ lit '':''
                             @ iso_time (case og_suspendAt seen of Some t \<Rightarrow> t | None \<Rightarrow> 0))
                          (restored_mail i seen) w'
                else w1)
      in (r\<lparr>dr_cleared := dr_cleared r + 1\<rparr>,
          raise_alert i (lit ''DUNNING_CLEARED'') (lit ''INFO'') (og_name seen @ lit '' settled their balance'') w2))"

definition suspend_reason :: "int \<Rightarrow> jstr" where
  "suspend_reason suspendAt =
     lit ''Unpaid invoice past its due date. Service stops on '' @ take 10 (iso_time suspendAt)
     @ lit '' unless the balance is cleared.''"

definition warn_one :: "int \<Rightarrow> int \<Rightarrow> jstr \<Rightarrow> organization \<Rightarrow> platform \<Rightarrow> platform" where
  "warn_one now graceDays i og w =
     (let suspendAt = now + graceDays * 24 * 3600000;
          reason = suspend_reason suspendAt;
          deadline = take 10 (iso_time suspendAt);
          w1 = upd_org i (\<lambda>og. og\<lparr>og_suspendAt := Some suspendAt, og_suspendReason := Some reason\<rparr>) w;
          w2 = raise_alert i (lit ''DUNNING_OVERDUE'') (lit ''WARNING'') (og_name og @ lit '': '' @ reason) w1
      in mail_contacts i (lit ''dunning.warning:'' @ i @ lit '':'' @ deadline) (warning_mail i og deadline) w2)"

definition suspend_one :: "int \<Rightarrow> jstr \<Rightarrow> organization \<Rightarrow> platform \<Rightarrow> platform" where
  "suspend_one suspendAt i og w =
     (let w1 = upd_org i (\<lambda>og. og\<lparr>og_status := ORG_SUSPENDED\<rparr>) w;
          w2 = upd_subscriptions (\<lambda>s. sb_organizationId s = i \<and> sb_status s = SUB_ACTIVE) (\<lambda>s. s\<lparr>sb_status := SUB_PAST_DUE\<rparr>) w1;
          w3 = raise_alert i (lit ''DUNNING_SUSPENDED'') (lit ''ERROR'') (og_name og @ lit '' suspended: balance unpaid past the deadline'') w2;
          w4 = queueGatewayAction i Suspend 0 w3
      in mail_contacts i (lit ''dunning.suspended:'' @ i @ lit '':'' @ iso_time suspendAt) (suspended_mail i og) w4)"

definition overdue_one :: "int \<Rightarrow> int \<Rightarrow> jstr \<Rightarrow> dunning_result \<times> platform \<Rightarrow> dunning_result \<times> platform" where
  "overdue_one now graceDays i acc =
     (let (r, w) = acc
      in case pf_orgs w i of
           None \<Rightarrow> (r, w)
         | Some og \<Rightarrow>
             if og_status og = ORG_SUSPENDED then (r, w)
             else case og_suspendAt og of
                    None \<Rightarrow> (r\<lparr>dr_warned := dr_warned r + 1\<rparr>, warn_one now graceDays i og w)
                  | Some t \<Rightarrow>
                      if t \<le> now then (r\<lparr>dr_suspended := dr_suspended r + 1\<rparr>, suspend_one t i og w) else (r, w))"

definition in_grace :: "platform \<Rightarrow> (jstr \<times> organization) list" where
  "in_grace w =
     concat (map (\<lambda>i. case pf_orgs w i of
        Some og \<Rightarrow> if og_suspendAt og \<noteq> None then [(i, og)] else [] | None \<Rightarrow> []) (pf_ids w))"

definition runDunning :: "int \<Rightarrow> platform \<Rightarrow> dunning_result \<times> platform" where
  "runDunning now w =
     (let graceDays = getDunningGraceDays w;
          overdueOrgs = organizationsWithOverdueInvoices now w;
          acc = fold (clear_one now) (filter (\<lambda>row. fst row \<notin> set overdueOrgs) (in_grace w)) (no_result, w)
      in fold (overdue_one now graceDays) overdueOrgs acc)"

section \<open>Activation\<close>

datatype billing_error =
    PlanError edition_error | NoCurrentPlanVersion jstr | OrganizationMissing | InvalidSignature | ProviderFailed

text \<open>\<open>setUTCMonth(m + 1)\<close> and \<open>setUTCFullYear(y + 1)\<close>: a day past the end of the month runs into the next.\<close>

definition plus_month :: "int \<Rightarrow> int" where
  "plus_month t =
     (let (y, m, d) = civil_date (t div 86400000)
      in ((if m = 12 then days_from_civil (y + 1) 1 1 else days_from_civil y (m + 1) 1) + d - 1) * 86400000 + t mod 86400000)"

definition plus_year :: "int \<Rightarrow> int" where
  "plus_year t =
     (let (y, m, d) = civil_date (t div 86400000)
      in (days_from_civil (y + 1) m 1 + d - 1) * 86400000 + t mod 86400000)"

text \<open>\<open>a || b\<close> on strings that may be absent.\<close>

definition or_ref :: "jstr option \<Rightarrow> jstr option \<Rightarrow> jstr option" where
  "or_ref a b = (if truthy_ref a then a else b)"

record identifiers =
  id_subscriptionRef :: "jstr option"
  id_customerRef :: "jstr option"

definition any_status :: "subscription_status list" where
  "any_status = [SUB_PENDING, SUB_ACTIVE, SUB_PAST_DUE, SUB_CANCELED, SUB_TRIALING, SUB_MANUAL_REVIEW]"

text \<open>\<open>currentVersionIdForPlan\<close>\<close>

definition current_pin :: "platform \<Rightarrow> jstr \<Rightarrow> (jstr \<times> int) option" where
  "current_pin w code =
     (case Option.bind (find_plan code (pf_editions w)) current_version of
        None \<Rightarrow> None | Some v \<Rightarrow> Some (code, pv_version v))"

definition int_str :: "int \<Rightarrow> jstr" where "int_str n = num_str (of_int n)"

definition activateManualSubscription ::
  "jstr \<Rightarrow> jstr \<Rightarrow> identifiers \<Rightarrow> platform \<Rightarrow> (billing_error + unit) \<times> platform" where
  "activateManualSubscription i planInput ids w =
     (case normalizePlanCode (pf_catalogue w) planInput of
        Inl e \<Rightarrow> (Inl (PlanError e), w)
      | Inr planCode \<Rightarrow>
          let now = pf_now w;
              edition = getEdition (pf_now w) (pf_catalogue w) planCode;
              periodEnd = (if ed_interval edition = YEARLY then plus_year now else plus_month now);
              existing = newest_subscription any_status w i;
              providerName = (case existing of Some s \<Rightarrow> if sb_provider s \<noteq> [] then sb_provider s else pf_provider w
                              | None \<Rightarrow> pf_provider w);
              synthetic = lit ''manual_subscription_'' @ i;
              subscriptionRef = or_ref (id_subscriptionRef ids)
                (or_ref (Option.bind existing sb_subscriptionRef) (Some synthetic));
              customerRef = or_ref (id_customerRef ids)
                (or_ref (Option.bind existing sb_customerRef) (Some (lit ''manual_customer_'' @ i)));
              currentMac = getMetricUsage w i Active_Contacts now;
              targetLimit = ed_limit edition MonthlyActiveContacts;
              overLimit = (case targetLimit of None \<Rightarrow> False | Some l \<Rightarrow> currentMac > l)
          in (case current_pin w planCode of
                None \<Rightarrow> (Inl (NoCurrentPlanVersion planCode), w)
              | Some pin \<Rightarrow>
                  if pf_orgs w i = None then (Inl OrganizationMissing, w) else
                  let w1 = (case existing of
                         Some s \<Rightarrow>
                           upd_subscriptions (\<lambda>x. sb_id x = sb_id s)
                             (\<lambda>x. x\<lparr>sb_pin := pin, sb_provider := providerName, sb_status := SUB_ACTIVE,
                                    sb_customerRef := customerRef, sb_subscriptionRef := subscriptionRef,
                                    sb_activatedAt := Some now, sb_canceledAt := None, sb_periodStart := Some now,
                                    sb_periodEnd := Some periodEnd\<rparr>) w
                       | None \<Rightarrow>
                           w\<lparr>pf_subscriptions := pf_subscriptions w
                              @ [\<lparr>sb_id = length (pf_subscriptions w), sb_organizationId = i, sb_pin = pin,
                                  sb_provider = providerName, sb_subscriptionRef = subscriptionRef,
                                  sb_customerRef = customerRef, sb_externalRef = None, sb_status = SUB_ACTIVE,
                                  sb_periodStart = Some now, sb_periodEnd = Some periodEnd, sb_trialEndsAt = None,
                                  sb_activatedAt = Some now, sb_canceledAt = None, sb_createdAt = now\<rparr>]\<rparr>);
                      w2 = applyPlanLimits i planCode w1;
                      w3 = upd_org i (\<lambda>og. og\<lparr>og_paymentProvider := providerName, og_paymentCustomerRef := customerRef,
                             og_downgradeGraceEndsAt := (if overLimit then Some (pf_now w + 30 * 24 * 60 * 60 * 1000) else None),
                             og_downgradeGraceReason :=
                               (case targetLimit of
                                  Some l \<Rightarrow>
                                    if overLimit
                                    then Some (lit ''Current monthly active contacts ('' @ int_str currentMac @ lit '') exceed ''
                                               @ planCode @ lit '' limit ('' @ int_str l
                                               @ lit ''). Outbound is blocked until usage is reduced or plan is upgraded.'')
                                    else None
                                | None \<Rightarrow> None)\<rparr>) w2;
                      w4 = (if subscriptionRef = Some synthetic \<and> providerName \<noteq> lit ''manual''
                            then raise_alert i (lit ''PAYMENT_REFS_MISSING'') (lit ''WARNING'')
                                   (lit ''Subscription activated for '' @ i @ lit '' on provider '' @ providerName
                                    @ lit '' with a synthetic reference: the provider supplied none. Cancellation through the provider ''
                                    @ lit ''will not work for this subscription until a real reference is recorded.'') w3
                            else w3)
                  in (Inr (), w4)))"

text \<open>A write for an organization that does not exist throws, and its transaction leaves nothing.\<close>

definition markPaymentFailed :: "jstr \<Rightarrow> jstr \<Rightarrow> platform \<Rightarrow> (billing_error + unit) \<times> platform" where
  "markPaymentFailed i reason w =
     (if pf_orgs w i = None then (Inl OrganizationMissing, w) else
      let w1 = upd_subscriptions (\<lambda>s. sb_organizationId s = i \<and> sb_status s = SUB_ACTIVE) (\<lambda>s. s\<lparr>sb_status := SUB_PAST_DUE\<rparr>) w;
          w2 = upd_org i (\<lambda>og. og\<lparr>og_status := ORG_SUSPENDED\<rparr>) w1;
          w3 = raise_alert i (lit ''PAYMENT_FAILED'') (lit ''ERROR'') reason w2
      in (Inr (), queueGatewayAction i Suspend 0 w3))"

text \<open>\<open>remote\<close> is whether the provider of that name cancels the reference, or throws.\<close>

definition cancelCurrentSubscription ::
  "(jstr \<Rightarrow> jstr \<Rightarrow> bool) \<Rightarrow> bool \<Rightarrow> jstr \<Rightarrow> platform \<Rightarrow> (billing_error + unit) \<times> platform" where
  "cancelCurrentSubscription remote fromProvider i w =
     (case newest_subscription [SUB_ACTIVE, SUB_TRIALING, SUB_MANUAL_REVIEW, SUB_PENDING] w i of
        None \<Rightarrow> (Inr (), w)
      | Some s \<Rightarrow>
          if (case sb_subscriptionRef s of
                Some ref \<Rightarrow> ref \<noteq> [] \<and> \<not> fromProvider \<and> \<not> remote (sb_provider s) ref
              | None \<Rightarrow> False)
          then (Inl ProviderFailed, w)
          else (Inr (), applyPlanLimits i (lit ''FREE'')
                 (upd_subscriptions (\<lambda>x. sb_id x = sb_id s)
                    (\<lambda>x. x\<lparr>sb_status := SUB_CANCELED, sb_canceledAt := Some (pf_now w)\<rparr>) w)))"

section \<open>Payment events\<close>

datatype payment_kind = SubscriptionActivated | PaymentFailed | SubscriptionCanceled | UnknownKind

record payment_event =
  pe_valid :: bool
  pe_eventId :: jstr
  pe_type :: jstr
  pe_kind :: payment_kind
  pe_organizationId :: jstr
  pe_planCode :: "jstr option"
  pe_reason :: jstr
  pe_ids :: identifiers

definition park :: "jstr \<Rightarrow> subscription option \<Rightarrow> jstr \<Rightarrow> platform \<Rightarrow> platform" where
  "park i sub reason w =
     raise_alert i (lit ''PAYMENT_EVENT_NEEDS_REVIEW'') (lit ''ERROR'') reason
       (case sub of
          Some s \<Rightarrow> if sb_status s \<noteq> SUB_ACTIVE
                    then upd_subscriptions (\<lambda>x. sb_id x = sb_id s) (\<lambda>x. x\<lparr>sb_status := SUB_MANUAL_REVIEW\<rparr>) w else w
        | None \<Rightarrow> w)"

definition activateFromPaymentEvent ::
  "jstr \<Rightarrow> jstr option \<Rightarrow> identifiers \<Rightarrow> platform \<Rightarrow> (billing_error + bool) \<times> platform" where
  "activateFromPaymentEvent i namedPlan ids w =
     (let sub = newest_subscription any_status w i
      in if pf_orgs w i = None then (Inl OrganizationMissing, w)
         else case sub of
           None \<Rightarrow> (Inr False, park i None (lit ''Payment event names an organization with no subscription to activate.'') w)
         | Some s \<Rightarrow>
             (case namedPlan of
                None \<Rightarrow> (Inr False, park i sub (lit ''Payment event activated a subscription without naming a plan.'') w)
              | Some [] \<Rightarrow> (Inr False, park i sub (lit ''Payment event activated a subscription without naming a plan.'') w)
              | Some named \<Rightarrow>
                  (case normalizePlanCode (pf_catalogue w) named of
                     Inl _ \<Rightarrow> (Inr False, park i sub (lit ''Payment event named a plan the catalogue does not carry: '' @ named) w)
                   | Inr requested \<Rightarrow>
                       let ofRecord = js_upper (js_trim (fst (sb_pin s)))
                       in if requested \<noteq> ofRecord
                          then (Inr False, park i sub (lit ''Payment event names '' @ requested
                                  @ lit '' but the subscription of record is ''
                                  @ (if ofRecord = [] then lit ''unset'' else ofRecord) @ lit ''.'') w)
                          else (case activateManualSubscription i requested ids w of
                                  (Inl e, w') \<Rightarrow> (Inl e, w') | (Inr _, w') \<Rightarrow> (Inr True, w')))))"

datatype webhook_result = WebhookDuplicate | WebhookProcessed

definition handlePaymentWebhook ::
  "(jstr \<Rightarrow> jstr \<Rightarrow> bool) \<Rightarrow> payment_event \<Rightarrow> platform \<Rightarrow> (billing_error + webhook_result) \<times> platform" where
  "handlePaymentWebhook remote ev w =
     (if \<not> pe_valid ev \<or> pe_eventId ev = [] \<or> pe_type ev = [] then (Inl InvalidSignature, w)
      else if (pf_provider w, pe_eventId ev) \<in> set (pf_paymentEvents w) then (Inr WebhookDuplicate, w)
      else let w1 = w\<lparr>pf_paymentEvents := pf_paymentEvents w @ [(pf_provider w, pe_eventId ev)]\<rparr>; i = pe_organizationId ev
           in if i = [] then (Inr WebhookProcessed, w1)
              else case pe_kind ev of
                SubscriptionActivated \<Rightarrow>
                  (case activateFromPaymentEvent i (pe_planCode ev) (pe_ids ev) w1 of
                     (Inl e, w2) \<Rightarrow> (Inl e, w2) | (Inr _, w2) \<Rightarrow> (Inr WebhookProcessed, w2))
              | PaymentFailed \<Rightarrow>
                  (case markPaymentFailed i (if pe_reason ev = [] then lit ''Payment failed'' else pe_reason ev) w1 of
                     (Inl e, w2) \<Rightarrow> (Inl e, w2) | (Inr _, w2) \<Rightarrow> (Inr WebhookProcessed, w2))
              | SubscriptionCanceled \<Rightarrow>
                  (case cancelCurrentSubscription remote True i w1 of
                     (Inl e, w2) \<Rightarrow> (Inl e, w2) | (Inr _, w2) \<Rightarrow> (Inr WebhookProcessed, w2))
              | UnknownKind \<Rightarrow> (Inr WebhookProcessed, w1))"

section \<open>Reconciliation\<close>

datatype checkout_status = CheckoutPending | CheckoutPaid identifiers | CheckoutFailed | CheckoutCanceled

record reconcile_result =
  rr_checked :: nat
  rr_repaired :: nat
  rr_alerted :: nat

text \<open>\<open>checkout\<close> is what the provider reports for a reference, \<open>None\<close> when it throws; the alert's text, the error, is left out.\<close>

definition reconcile_one ::
  "(jstr \<Rightarrow> checkout_status option) \<Rightarrow> subscription \<Rightarrow> reconcile_result \<times> platform \<Rightarrow> reconcile_result \<times> platform" where
  "reconcile_one checkout s acc =
     (let (r, w) = acc; i = sb_organizationId s;
          failed = (\<lambda>r w. (r\<lparr>rr_alerted := rr_alerted r + 1\<rparr>,
                           raise_alert i (lit ''BILLING_RECONCILIATION_FAILED'') (lit ''ERROR'') [] w))
      in case checkout (case sb_externalRef s of Some ref \<Rightarrow> ref | None \<Rightarrow> []) of
           None \<Rightarrow> failed r w
         | Some (CheckoutPaid ids) \<Rightarrow>
             if sb_status s \<noteq> SUB_ACTIVE
             then (case activateManualSubscription i (fst (sb_pin s)) ids w of
                     (Inl e, w') \<Rightarrow> failed r w' | (Inr _, w') \<Rightarrow> (r\<lparr>rr_repaired := rr_repaired r + 1\<rparr>, w'))
             else (r, w)
         | Some CheckoutFailed \<Rightarrow>
             if sb_status s \<noteq> SUB_PAST_DUE
             then (case markPaymentFailed i (lit ''Reconciliation detected payment failure'') w of
                     (Inl e, w') \<Rightarrow> failed r w' | (Inr _, w') \<Rightarrow> (r\<lparr>rr_repaired := rr_repaired r + 1\<rparr>, w'))
             else (r, w)
         | Some _ \<Rightarrow> (r, w))"

definition reconcileBilling :: "(jstr \<Rightarrow> checkout_status option) \<Rightarrow> platform \<Rightarrow> reconcile_result \<times> platform" where
  "reconcileBilling checkout w =
     (let subs = filter (\<lambda>s. sb_provider s = pf_provider w \<and> sb_externalRef s \<noteq> None
                   \<and> sb_status s \<in> {SUB_PENDING, SUB_MANUAL_REVIEW, SUB_ACTIVE, SUB_PAST_DUE}) (pf_subscriptions w);
          (r, w') = fold (reconcile_one checkout) subs (\<lparr>rr_checked = 0, rr_repaired = 0, rr_alerted = 0\<rparr>, w)
      in (r\<lparr>rr_checked := length subs\<rparr>, w'))"

text \<open>The half-hourly job: reconciliation, then dunning.\<close>

definition billing_pass :: "(jstr \<Rightarrow> checkout_status option) \<Rightarrow> platform \<Rightarrow> platform" where
  "billing_pass checkout w =
     (let w1 = snd (reconcileBilling checkout w) in snd (runDunning (pf_now w1) w1))"

end
