(* ===== verification/Entitlements_Props.thy ===== *)
theory Entitlements_Props
  imports Entitlements Editions_Props
begin

text \<open>
  What the resolver and the facade promise: an expired override is no override, the limits an
  activation writes are the limits the resolver reads, an upgrade named in a refusal lies above the
  asker and would help, a metered send never exceeds a limit, and what a stale catalogue does.
\<close>

section \<open>Reading a resolution\<close>

lemma resolve_cases:
  assumes "resolveEntitlements w i now ov = Inr en"
  obtains og where "pf_orgs w i = Some og"
    "en_plan en = (case (if override_live og now then safePlanCode (pf_catalogue w) (og_planOverride og) else None) of
        Some p \<Rightarrow> p | None \<Rightarrow> en_planOfRecord en)"
    "en_edition en = (case (if override_live og now then safePlanCode (pf_catalogue w) (og_planOverride og) else None) of
        Some p \<Rightarrow> edition_lookup (pf_now w) (pf_catalogue w) ov p | None \<Rightarrow> en_editionOfRecord en)"
    "en_limits en = effectiveLimits (pf_config w i)
        (if override_live og now then safePlanCode (pf_catalogue w) (og_planOverride og) else None)
        (if override_live og now then og_macQuotaOverride og else None)
        (edition_lookup (pf_now w) (pf_catalogue w) ov)"
    "en_seatLimit en = ed_limit (en_edition en) Users" "en_maxWorkspaces en = ed_limit (en_edition en) MaxWorkspaces"
  using assms
  by (auto simp: resolveEntitlements_def Let_def split: if_splits option.splits sum.splits)

section \<open>Applied limits\<close>

lemma normalizeLimit_sentinel [simp]: "normalizeLimit (Some (or_sentinel v)) = normalizeLimit v"
  by (cases v) (simp_all add: normalizeLimit_def or_sentinel_def)

text \<open>C33: What an activation writes is what the resolver reads back: after \<open>applyPlanLimits\<close>, an organization
  without a live override resolves every priced meter to exactly the edition's allowance, where unlimited
  survives the sentinel and zero stays zero; an allowance of the sentinel or more reads as unlimited.\<close>
theorem applied_limits_read_back:
  assumes "resolveEntitlements (applyPlanLimits i code w) i now None = Inr en"
    and "pf_orgs w i = Some og" and "\<not> override_live og now"
    and "PLAN_METRIC_FIELDS m = Some f"
  shows "en_limits en m = (case ed_limit (getEdition (pf_now w) (pf_catalogue w) code) f of
           None \<Rightarrow> None | Some n \<Rightarrow> if n < UNLIMITED_SENTINEL then Some n else None)"
proof -
  have org: "pf_orgs (applyPlanLimits i code w) i = Some og" using assms(2) by (simp add: applyPlanLimits_def)
  from assms(1) obtain og' where "pf_orgs (applyPlanLimits i code w) i = Some og'"
    and l: "en_limits en = effectiveLimits (pf_config (applyPlanLimits i code w) i)
      (if override_live og' now then safePlanCode (pf_catalogue (applyPlanLimits i code w)) (og_planOverride og') else None)
      (if override_live og' now then og_macQuotaOverride og' else None)
      (edition_lookup (pf_now (applyPlanLimits i code w)) (pf_catalogue (applyPlanLimits i code w)) None)"
    by (rule resolve_cases)
  with org assms(3) have "en_limits en m = normalizeLimit (Option.bind (pf_config (applyPlanLimits i code w) i) (\<lambda>c. c m))"
    by (simp add: effectiveLimits_def)
  also have "\<dots> = normalizeLimit (ed_limit (getEdition (pf_now w) (pf_catalogue w) code) f)"
    using assms(4) by (cases m) (simp_all add: applyPlanLimits_def applied_limits_def PLAN_METRIC_FIELDS_def)
  finally show ?thesis by (auto simp: normalizeLimit_def split: option.splits)
qed

definition sample_org :: organization where
  "sample_org =
     \<lparr>og_name = lit ''Mark'', og_slug = lit ''mark'', og_status = ORG_ACTIVE, og_suspendAt = None, og_suspendReason = None,
      og_paymentProvider = lit ''manual'', og_paymentCustomerRef = None, og_downgradeGraceEndsAt = None,
      og_downgradeGraceReason = None, og_planOverride = None, og_macQuotaOverride = None, og_discountPercent = None,
      og_creditCents = 0, og_overrideReason = None, og_overrideExpiresAt = None, og_overrideSetBy = None,
      og_overrideSetAt = None\<rparr>"

definition sample_sub :: subscription where
  "sample_sub =
     \<lparr>sb_id = 0, sb_organizationId = lit ''o1'', sb_pin = (lit ''GROWTH'', 1), sb_provider = lit ''manual'',
      sb_subscriptionRef = None, sb_customerRef = None, sb_externalRef = None, sb_status = SUB_ACTIVE,
      sb_periodStart = None, sb_periodEnd = None, sb_trialEndsAt = None, sb_activatedAt = None,
      sb_canceledAt = None, sb_createdAt = 0\<rparr>"

definition sample_platform :: platform where
  "sample_platform =
     \<lparr>pf_now = 2000, pf_ids = [lit ''o1''], pf_orgs = (\<lambda>i. if i = lit ''o1'' then Some sample_org else None),
      pf_config = (\<lambda>_. None), pf_subscriptions = [sample_sub], pf_invoices = [], pf_receipts = [],
      pf_sequences = (\<lambda>_ _. 0), pf_accounts = [], pf_openwa = (\<lambda>_. None), pf_sessions = (\<lambda>_. []), pf_health = [], pf_settings = (\<lambda>_. None),
      pf_outbox = [], pf_alerts = [], pf_jobs = [], pf_usage = [], pf_paymentEvents = [], pf_editions = seeded_db,
      pf_catalogue = just_loaded, pf_provider = lit ''manual''\<rparr>"

lemmas resolve_simps = resolveEntitlements_def sample_platform_def sample_org_def sample_sub_def newest_subscription_def
  newest_def LIVE_SUBSCRIPTION_STATUSES_def safePlanCode_def normalizePlanCode_def override_live_def has_override_def
  override_expired_def edition_lookup_def

lemma growth_edition:
  "getEdition 2000 just_loaded (lit ''GROWTH'') = EDITION_GROWTH"
  by (simp add: edition_simps read_simps load_simps)

lemma growth_pinned: "subscriptionEditionOf seeded_db (lit ''GROWTH'', 1) = Inr (Some EDITION_GROWTH)"
  by (simp add: edition_simps read_simps)

lemma growth_code: "normalizePlanCode just_loaded (lit ''GROWTH'') = Inr (lit ''GROWTH'')"
  by (simp add: normalizePlanCode_def edition_simps read_simps load_simps)

lemma safePlanCode_normal: "normalizePlanCode c v = Inr code \<Longrightarrow> v \<noteq> [] \<Longrightarrow> safePlanCode c (Some v) = Some code"
  by (cases v) (simp_all add: safePlanCode_def)

lemma resolve_sample:
  assumes "pf_orgs w (lit ''o1'') = Some og" "pf_subscriptions w = [sample_sub]" "pf_editions w = seeded_db"
    "pf_catalogue w = just_loaded" "\<not> override_live og now"
  shows "\<exists>en. resolveEntitlements w (lit ''o1'') now None = Inr en \<and> en_plan en = lit ''GROWTH''
    \<and> en_edition en = EDITION_GROWTH \<and> en_limits en = effectiveLimits (pf_config w (lit ''o1'')) None None
         (edition_lookup (pf_now w) just_loaded None)"
proof -
  have sub: "newest_subscription LIVE_SUBSCRIPTION_STATUSES w (lit ''o1'') = Some sample_sub"
    using assms(2) by (simp add: newest_subscription_def newest_def sample_sub_def LIVE_SUBSCRIPTION_STATUSES_def)
  have code: "safePlanCode just_loaded (Some (lit ''GROWTH'')) = Some (lit ''GROWTH'')"
    by (rule safePlanCode_normal [OF growth_code]) simp
  have pin: "sb_pin sample_sub = (lit ''GROWTH'', 1)" by (simp add: sample_sub_def)
  show ?thesis
    using assms by (simp add: resolveEntitlements_def Let_def sub code pin growth_pinned)
qed

theorem applied_limits_read_back_witness:
  "\<exists>en. resolveEntitlements (applyPlanLimits (lit ''o1'') (lit ''GROWTH'') sample_platform) (lit ''o1'') 2000 None = Inr en
    \<and> en_limits en Active_Contacts = Some 2500 \<and> en_limits en Ai_Tokens_In = None"
proof -
  have org: "pf_orgs sample_platform (lit ''o1'') = Some sample_org" by (simp add: sample_platform_def)
  have live: "\<not> override_live sample_org 2000" by (simp add: override_live_def has_override_def sample_org_def)
  have now: "pf_now sample_platform = 2000" "pf_catalogue sample_platform = just_loaded" by (simp_all add: sample_platform_def)
  obtain en where r: "resolveEntitlements (applyPlanLimits (lit ''o1'') (lit ''GROWTH'') sample_platform) (lit ''o1'') 2000 None = Inr en"
    using resolve_sample [of "applyPlanLimits (lit ''o1'') (lit ''GROWTH'') sample_platform" sample_org 2000] live
    by (auto simp: applyPlanLimits_def sample_platform_def)
  from applied_limits_read_back [OF r org live, of Active_Contacts MonthlyActiveContacts]
       applied_limits_read_back [OF r org live, of Ai_Tokens_In MonthlyAiTokensIn] r
  show ?thesis
    by (auto simp: now growth_edition PLAN_METRIC_FIELDS_def EDITION_GROWTH_def limits_of_def UNLIMITED_SENTINEL_def)
qed

section \<open>Overrides end\<close>

definition clear_override :: "organization \<Rightarrow> organization" where
  "clear_override og = og\<lparr>og_planOverride := None, og_macQuotaOverride := None, og_discountPercent := None\<rparr>"

text \<open>From the moment an override expires, every number the resolver returns is what it returns when the
  override columns are empty: plan, edition, limits, seats and prices. Only the block that displays the
  override, with the credit that never expires, may differ.\<close>
theorem expired_override_is_no_override:
  assumes "pf_orgs w i = Some og" and "override_expired og now"
  shows "\<exists>shown. resolveEntitlements w i now ov
    = map_sum id (\<lambda>en. en\<lparr>en_override := shown\<rparr>) (resolveEntitlements (upd_org i clear_override w) i now ov)"
proof -
  let ?w = "upd_org i clear_override w"
  have sub: "newest_subscription sts ?w i = newest_subscription sts w i" for sts
    by (simp add: newest_subscription_def upd_org_def)
  have w: "pf_orgs ?w i = Some (clear_override og)" "pf_now ?w = pf_now w" "pf_catalogue ?w = pf_catalogue w"
    "pf_config ?w = pf_config w" "pf_editions ?w = pf_editions w"
    using assms(1) by (simp_all add: upd_org_def)
  have live: "\<not> override_live og now" "\<not> override_live (clear_override og) now"
    using assms(2) by (simp_all add: override_live_def clear_override_def has_override_def)
  show ?thesis
    unfolding resolveEntitlements_def Let_def w sub assms(1) option.case
    using live by (auto split: sum.splits option.splits)
qed

theorem expired_override_is_no_override_witness:
  "\<exists>shown. resolveEntitlements
      (sample_platform\<lparr>pf_orgs := (\<lambda>i. if i = lit ''o1'' then Some (sample_org\<lparr>og_macQuotaOverride := Some 9,
          og_overrideExpiresAt := Some 1999\<rparr>) else None)\<rparr>) (lit ''o1'') 2000 None
    = map_sum id (\<lambda>en. en\<lparr>en_override := shown\<rparr>)
        (resolveEntitlements (upd_org (lit ''o1'') clear_override
          (sample_platform\<lparr>pf_orgs := (\<lambda>i. if i = lit ''o1'' then Some (sample_org\<lparr>og_macQuotaOverride := Some 9,
            og_overrideExpiresAt := Some 1999\<rparr>) else None)\<rparr>)) (lit ''o1'') 2000 None)"
  by (rule expired_override_is_no_override [where og = "sample_org\<lparr>og_macQuotaOverride := Some 9,
          og_overrideExpiresAt := Some 1999\<rparr>"])
    (simp_all add: override_expired_def has_override_def)

section \<open>Refusals\<close>

text \<open>The published edition an upgrade names, with what holds of it and of those between it and the asker.\<close>

definition first_above :: "edition list \<Rightarrow> jstr \<Rightarrow> (edition \<Rightarrow> bool) \<Rightarrow> jstr option \<Rightarrow> bool" where
  "first_above ladder asking helps named \<longleftrightarrow>
     (case named of
        None \<Rightarrow> (\<forall>j. ladder_start ladder asking \<le> j \<and> j < length ladder \<longrightarrow> \<not> helps (ladder ! j))
      | Some name \<Rightarrow>
          (\<exists>k. ladder_start ladder asking \<le> k \<and> k < length ladder \<and> ed_name (ladder ! k) = name \<and> helps (ladder ! k)
             \<and> (\<forall>j. ladder_start ladder asking \<le> j \<and> j < k \<longrightarrow> \<not> helps (ladder ! j))))"

lemma first_above_upgrade: "first_above ladder asking helps (cheapestUpgradeGranting ladder asking helps)"
  by (cases "cheapestUpgradeGranting ladder asking helps")
    (auto simp: first_above_def dest: upgrade_first upgrade_None)

definition not_unknown :: "capability \<Rightarrow> bool" where
  "not_unknown cap \<longleftrightarrow> (case cap of Unknown_Capability _ \<Rightarrow> False | _ \<Rightarrow> True)"

lemma decide_known:
  assumes "not_unknown cap"
  shows "dc_granted (decide ladder en cap) = (case cap of Feature f \<Rightarrow> ed_feature (en_edition en) f | _ \<Rightarrow> some_of_it (limitOf en cap))"
    and "dc_limit (decide ladder en cap) = limitOf en cap"
    and "\<not> dc_granted (decide ladder en cap) \<Longrightarrow> dc_requiredPlan (decide ladder en cap)
           = cheapestUpgradeGranting ladder (en_plan en) (\<lambda>e. grantsCapability e cap)"
  using assms by (cases cap; simp add: decide_def Let_def not_unknown_def)+

lemma feature_never_full: "assertWithinLimitFrom ladder en (Feature f) current \<noteq> Inl (LimitReached d n)"
  by (simp add: assertWithinLimitFrom_def assertCanFrom_def limitState_def decide_def limitOf_def Let_def)

text \<open>The guard of every counted allowance decides completely. It admits exactly a granted capability with
  room for one more; it answers "not included" exactly when the edition grants none, with the first
  published edition strictly above the asker that grants it; and "full" exactly when the ceiling is reached, with
  the first edition strictly above whose allowance exceeds what is held. A name it does not know is refused.\<close>
theorem guard_decides_completely:
  "case assertWithinLimitFrom ladder en cap current of
     Inr d \<Rightarrow> not_unknown cap \<and> dc_granted d
       \<and> (case limitOf en cap of None \<Rightarrow> True | Some n \<Rightarrow> current < n)
   | Inl (CapabilityRefused d) \<Rightarrow>
       (if not_unknown cap
        then (case cap of Feature f \<Rightarrow> \<not> ed_feature (en_edition en) f | _ \<Rightarrow> \<exists>n \<le> 0. limitOf en cap = Some n)
          \<and> first_above ladder (en_plan en) (\<lambda>e. grantsCapability e cap) (dc_requiredPlan d)
        else dc_requiredPlan d = None)
   | Inl (LimitReached d held) \<Rightarrow>
       held = current \<and> (\<exists>n > 0. limitOf en cap = Some n \<and> n \<le> current)
         \<and> first_above ladder (en_plan en) (\<lambda>e. \<forall>n. editionLimitOf e cap = Some n \<longrightarrow> current < n) (dc_requiredPlan d)
   | Inl (Unresolved _) \<Rightarrow> False"
proof (cases "not_unknown cap")
  case False
  then show ?thesis
    by (cases cap) (simp_all add: not_unknown_def assertWithinLimitFrom_def assertCanFrom_def decide_def)
next
  case True
  let ?d = "decide ladder en cap"
  note d = decide_known [OF True, of ladder en]
  show ?thesis
  proof (cases "dc_granted ?d")
    case False
    then have r: "assertWithinLimitFrom ladder en cap current = Inl (CapabilityRefused ?d)"
      by (simp add: assertWithinLimitFrom_def assertCanFrom_def)
    have "case cap of Feature f \<Rightarrow> \<not> ed_feature (en_edition en) f | _ \<Rightarrow> \<exists>n \<le> 0. limitOf en cap = Some n"
      using False d(1) True by (cases cap) (auto simp: some_of_it_def not_unknown_def split: option.splits)
    with r True first_above_upgrade d(3) [OF False] show ?thesis by simp
  next
    case granted: True
    then have ok: "assertCanFrom ladder en cap = Inr ?d" by (simp add: assertCanFrom_def)
    show ?thesis
    proof (cases "case limitOf en cap of None \<Rightarrow> True | Some n \<Rightarrow> current < n")
      case True
      with granted d(2) have "limitState ladder en cap current = LimitOk"
        by (auto simp: limitState_def Let_def split: option.splits)
      with True granted \<open>not_unknown cap\<close> show ?thesis by (simp add: assertWithinLimitFrom_def ok)
    next
      case False
      then obtain n where n: "limitOf en cap = Some n" "n \<le> current" by (auto split: option.splits)
      with granted d have pos: "0 < n"
        by (cases cap) (auto simp: some_of_it_def limitOf_def not_unknown_def split: option.splits)
      have full: "limitState ladder en cap current = LimitFull"
        using granted d(2) n by (simp add: limitState_def Let_def)
      have helps: "(\<lambda>e. case editionLimitOf e cap of None \<Rightarrow> True | Some n \<Rightarrow> current < n)
          = (\<lambda>e. \<forall>n. editionLimitOf e cap = Some n \<longrightarrow> current < n)"
        by (auto split: option.splits)
      with first_above_upgrade n pos show ?thesis
        by (simp add: assertWithinLimitFrom_def ok full Let_def helps)
    qed
  qed
qed

definition growth_terms :: entitlements where
  "growth_terms =
     \<lparr>en_plan = lit ''GROWTH'', en_planName = lit ''Growth'', en_edition = EDITION_GROWTH, en_planOfRecord = lit ''GROWTH'',
      en_editionOfRecord = EDITION_GROWTH, en_source = FromSubscription, en_limits = (\<lambda>_. None),
      en_seatLimit = Some 5, en_maxWorkspaces = Some 1, en_isOverridden = False,
      en_override = \<lparr>ov_plan = None, ov_macQuota = None, ov_discountPercent = None, ov_creditCents = 0, ov_reason = None,
        ov_expiresAt = None, ov_expired = False, ov_setBy = None, ov_setAt = None\<rparr>,
      en_listPriceCents = 4900, en_effectivePriceCents = 4900\<rparr>"

lemma growth_seats_full:
  "\<exists>d. assertWithinLimitFrom PLAN_ENTITLEMENTS growth_terms (Counted Seats) 5 = Inl (LimitReached d 5)"
  by (simp add: assertWithinLimitFrom_def assertCanFrom_def limitState_def decide_def limitOf_def some_of_it_def
      growth_terms_def Let_def)

theorem guard_decides_completely_witness:
  "\<exists>d. assertWithinLimitFrom PLAN_ENTITLEMENTS growth_terms (Counted Seats) 5 = Inl (LimitReached d 5)
    \<and> first_above PLAN_ENTITLEMENTS (lit ''GROWTH'') (\<lambda>e. \<forall>n. editionLimitOf e (Counted Seats) = Some n \<longrightarrow> 5 < n)
        (dc_requiredPlan d)"
proof -
  obtain d where d: "assertWithinLimitFrom PLAN_ENTITLEMENTS growth_terms (Counted Seats) 5 = Inl (LimitReached d 5)"
    using growth_seats_full by blast
  have "en_plan growth_terms = lit ''GROWTH''" by (simp add: growth_terms_def)
  with guard_decides_completely [where ladder = PLAN_ENTITLEMENTS and en = growth_terms and cap = "Counted Seats" and current = 5] d show ?thesis by auto
qed

section \<open>A stale catalogue\<close>

text \<open>Ten minutes after its last load the catalogue answers every code with the restricted floor and offers
  nothing, and a subscriber without a subscription, or with a plan override, is refused every feature. A
  subscriber with a pinned version is not: the resolver reads the pinned rows, so what the subscription
  granted is still granted, although the alarm says that every entitlement read is denying.\<close>
theorem stale_catalogue_spares_pinned_subscribers:
  assumes stale: "isCatalogueStale (pf_now w) (pf_catalogue w)"
    and r: "resolveEntitlements w i now None = Inr en"
  shows "platform_ladder w = [] \<and>
    (if en_source en \<noteq> FromSubscription
     then en_edition en = RESTRICTED_FLOOR \<and> \<not> dc_granted (decide (platform_ladder w) en (Feature f))
     else \<exists>s. newest_subscription LIVE_SUBSCRIPTION_STATUSES w i = Some s
             \<and> (\<forall>e. subscriptionEditionOf (pf_editions w) (sb_pin s) = Inr (Some e) \<longrightarrow>
                  en_edition en = e \<and> dc_granted (decide (platform_ladder w) en (Feature f)) = ed_feature e f))"
proof -
  from stale have l: "platform_ladder w = []"
    by (simp add: platform_ladder_def getEditions_def split: option.splits)
  from stale have floor: "edition_lookup (pf_now w) (pf_catalogue w) None code = RESTRICTED_FLOOR" for code
    by (simp add: edition_lookup_def getEdition_def)
  have feature: "dc_granted (decide (platform_ladder w) en (Feature f)) = ed_feature (en_edition en) f"
    by (simp add: decide_known not_unknown_def)
  have "en_edition en = RESTRICTED_FLOOR \<and> \<not> dc_granted (decide (platform_ladder w) en (Feature f))"
    if "en_source en \<noteq> FromSubscription"
  proof -
    from r that have "en_edition en = RESTRICTED_FLOOR"
      by (auto simp: resolveEntitlements_def Let_def floor split: if_splits option.splits sum.splits)
    then show ?thesis by (simp add: feature RESTRICTED_FLOOR_def)
  qed
  moreover have "\<exists>s. newest_subscription LIVE_SUBSCRIPTION_STATUSES w i = Some s
      \<and> (\<forall>e. subscriptionEditionOf (pf_editions w) (sb_pin s) = Inr (Some e) \<longrightarrow>
           en_edition en = e \<and> dc_granted (decide (platform_ladder w) en (Feature f)) = ed_feature e f)"
    if "en_source en = FromSubscription"
    using r that unfolding feature
    by (auto simp: resolveEntitlements_def Let_def safePlanCode_def split: if_splits option.splits sum.splits)
  ultimately show ?thesis using l by simp
qed

definition stale_platform :: platform where
  "stale_platform = sample_platform\<lparr>pf_now := 700000\<rparr>"

theorem stale_catalogue_spares_pinned_subscribers_witness:
  "\<exists>en. resolveEntitlements stale_platform (lit ''o1'') 700000 None = Inr en
    \<and> getEdition 700000 just_loaded (lit ''GROWTH'') = RESTRICTED_FLOOR
    \<and> dc_granted (decide (platform_ladder stale_platform) en (Feature AutoProvisionGateway))"
proof -
  have org: "pf_orgs stale_platform (lit ''o1'') = Some sample_org"
    by (simp add: stale_platform_def sample_platform_def)
  have live: "\<not> override_live sample_org 700000" by (simp add: override_live_def has_override_def sample_org_def)
  have st: "isCatalogueStale 700000 just_loaded"
    using just_loaded_growth(1) by (simp add: isCatalogueStale_def STALE_AFTER_MS_def)
  have w: "pf_now stale_platform = 700000" "pf_catalogue stale_platform = just_loaded"
    "pf_editions stale_platform = seeded_db" "pf_subscriptions stale_platform = [sample_sub]"
    by (simp_all add: stale_platform_def sample_platform_def)
  have sub: "newest_subscription LIVE_SUBSCRIPTION_STATUSES stale_platform (lit ''o1'') = Some sample_sub"
    by (simp add: newest_subscription_def newest_def w sample_sub_def LIVE_SUBSCRIPTION_STATUSES_def)
  have pin: "sb_pin sample_sub = (lit ''GROWTH'', 1)" by (simp add: sample_sub_def)
  have code: "safePlanCode just_loaded (Some (lit ''GROWTH'')) = Some (lit ''GROWTH'')"
    by (rule safePlanCode_normal [OF growth_code]) simp
  obtain en where en: "resolveEntitlements stale_platform (lit ''o1'') 700000 None = Inr en" "en_source en = FromSubscription"
    by (simp add: resolveEntitlements_def Let_def sub code pin growth_pinned w org live)
  from stale_catalogue_spares_pinned_subscribers [OF _ en(1), of AutoProvisionGateway] st en(2) sub
  have "dc_granted (decide (platform_ladder stale_platform) en (Feature AutoProvisionGateway))"
    by (auto simp: w pin growth_pinned EDITION_GROWTH_def)
  with en(1) st show ?thesis by (auto simp: getEdition_def)
qed

section \<open>Metered sends\<close>

lemma use_fields:
  "pf_orgs (use i m s w) = pf_orgs w" "pf_now (use i m s w) = pf_now w" "pf_catalogue (use i m s w) = pf_catalogue w"
  "pf_config (use i m s w) = pf_config w" "pf_editions (use i m s w) = pf_editions w"
  "newest_subscription sts (use i m s w) = newest_subscription sts w"
  by (simp_all add: use_def newest_subscription_def fun_eq_iff)

lemma resolve_usage [simp]: "resolveEntitlements (use i' m s w) i now ov = resolveEntitlements w i now ov"
  unfolding resolveEntitlements_def use_fields ..

lemma getMetricUsage_use_other: "m \<noteq> m' \<Longrightarrow> getMetricUsage (use i m' s w) i m t = getMetricUsage w i m t"
  by (auto simp: getMetricUsage_def countMonthlyActiveContacts_def use_def)

lemma getMetricUsage_use: "m \<noteq> Active_Contacts \<Longrightarrow> getMetricUsage (use i m s w) i m t \<le> getMetricUsage w i m t + 1"
  by (simp add: getMetricUsage_def use_def)

lemma length_remdups_snoc: "length (remdups (xs @ [x])) = length (remdups xs) + (if x \<in> set xs then 0 else 1)"
  by (simp add: length_remdups_card_conv card_insert_if insert_absorb)

lemma active_contacts_use:
  "getMetricUsage (use i Active_Contacts (Some c) w) i Active_Contacts (pf_now w)
     \<le> getMetricUsage w i Active_Contacts (pf_now w) + (if contactIsActiveThisMonth w i c then 0 else 1)"
proof -
  let ?P = "\<lambda>e. ue_organizationId e = i \<and> ue_metric e = Active_Contacts \<and> in_month (pf_now w) e \<and> ue_subjectId e \<noteq> None"
  have "contactIsActiveThisMonth w i c \<longleftrightarrow> Some c \<in> set (map ue_subjectId (filter ?P (pf_usage w)))"
    by (auto simp: contactIsActiveThisMonth_def list_ex_iff image_iff)
  then show ?thesis
    by (simp add: getMetricUsage_def countMonthlyActiveContacts_def use_def length_remdups_snoc del: remdups_append)
qed

lemma assertMetric_room:
  assumes "assertMetricAvailable w i m q t = None" and "blocksOutbound m"
  shows "\<exists>en. resolveEntitlements w i t None = Inr en \<and> (\<forall>L. en_limits en m = Some L \<longrightarrow> getMetricUsage w i m t + q \<le> L)"
  using assms
  by (auto simp: assertMetricAvailable_def decide_known not_unknown_def limitOf_def Let_def
      split: sum.splits if_splits option.splits)

lemma prepareE:
  assumes "prepareOutboundSend contacts w i address opts = Inr contact" and "\<not> so_internal opts"
  shows "assertMetricAvailable w i Messages_Outbound 1 (pf_now w) = None"
    and "so_campaign opts \<Longrightarrow> assertMetricAvailable w i Campaign_Sends 1 (pf_now w) = None"
    and "contact = Some c \<Longrightarrow> contactIsActiveThisMonth w i c \<or> assertMetricAvailable w i Active_Contacts 1 (pf_now w) = None"
  using assms by (auto simp: prepareOutboundSend_def Let_def split: option.splits if_splits)

lemma usage_after_send:
  assumes "\<not> so_internal opts"
  shows "getMetricUsage (recordSuccessfulOutboundSend i contact s opts w) i Messages_Outbound t
           \<le> getMetricUsage w i Messages_Outbound t + 1"
    and "getMetricUsage (recordSuccessfulOutboundSend i contact s opts w) i Campaign_Sends t
           \<le> getMetricUsage w i Campaign_Sends t + (if so_campaign opts then 1 else 0)"
    and "getMetricUsage (recordSuccessfulOutboundSend i contact s opts w) i Active_Contacts (pf_now w)
           \<le> getMetricUsage w i Active_Contacts (pf_now w)
              + (case contact of None \<Rightarrow> 0 | Some c \<Rightarrow> if contactIsActiveThisMonth w i c then 0 else 1)"
proof -
  have active: "contactIsActiveThisMonth (use i Messages_Outbound s w) i c = contactIsActiveThisMonth w i c" for c
    by (auto simp: contactIsActiveThisMonth_def use_def)
  have now: "pf_now (use i m x w') = pf_now w'" for m x w' by (rule use_fields)
  note send = recordSuccessfulOutboundSend_def recordMessageUsage_def Let_def assms
  show "getMetricUsage (recordSuccessfulOutboundSend i contact s opts w) i Messages_Outbound t
      \<le> getMetricUsage w i Messages_Outbound t + 1"
    by (cases contact) (simp_all add: send getMetricUsage_use_other getMetricUsage_use)
  show "getMetricUsage (recordSuccessfulOutboundSend i contact s opts w) i Campaign_Sends t
      \<le> getMetricUsage w i Campaign_Sends t + (if so_campaign opts then 1 else 0)"
  proof -
    let ?w1 = "recordMessageUsage i False contact s w"
    have "getMetricUsage ?w1 i Campaign_Sends t = getMetricUsage w i Campaign_Sends t"
      by (cases contact) (simp_all add: recordMessageUsage_def Let_def getMetricUsage_use_other)
    with getMetricUsage_use [of Campaign_Sends i _ ?w1 t] assms show ?thesis
      by (simp add: recordSuccessfulOutboundSend_def Let_def)
  qed
  show "getMetricUsage (recordSuccessfulOutboundSend i contact s opts w) i Active_Contacts (pf_now w)
      \<le> getMetricUsage w i Active_Contacts (pf_now w)
         + (case contact of None \<Rightarrow> 0 | Some c \<Rightarrow> if contactIsActiveThisMonth w i c then 0 else 1)"
    using active_contacts_use [of i "the contact" "use i Messages_Outbound s w"]
    by (cases contact) (simp_all add: send getMetricUsage_use_other active now split: if_splits)
qed


definition to_new_contact :: send_options where
  "to_new_contact = \<lparr>so_campaign = False, so_campaignSubjectId = None, so_internal = False\<rparr>"

definition growth_customer :: platform where
  "growth_customer = applyPlanLimits (lit ''o1'') (lit ''GROWTH'') sample_platform"

lemma no_usage: "pf_usage w = [] \<Longrightarrow> getMetricUsage w i m t = 0"
  by (simp add: getMetricUsage_def countMonthlyActiveContacts_def)

lemma growth_customer_resolves:
  "\<exists>en. resolveEntitlements growth_customer (lit ''o1'') 2000 None = Inr en \<and> pf_now growth_customer = 2000
    \<and> pf_usage growth_customer = []
    \<and> en_limits en Messages_Outbound = Some 10000 \<and> en_limits en Active_Contacts = Some 2500"
  using resolve_sample [of growth_customer sample_org 2000]
  by (auto simp: growth_customer_def applyPlanLimits_def sample_platform_def override_live_def has_override_def
      sample_org_def effectiveLimits_def normalizeLimit_def applied_limits_def growth_edition EDITION_GROWTH_def
      limits_of_def or_sentinel_def UNLIMITED_SENTINEL_def)

lemma growth_customer_sends:
  "prepareOutboundSend (\<lambda>_. Some (lit ''c1'')) growth_customer (lit ''o1'') (lit ''9705'') to_new_contact = Inr (Some (lit ''c1''))"
proof -
  obtain en where en: "resolveEntitlements growth_customer (lit ''o1'') 2000 None = Inr en"
    "pf_now growth_customer = 2000" "pf_usage growth_customer = []"
    "en_limits en Messages_Outbound = Some 10000" "en_limits en Active_Contacts = Some 2500"
    using growth_customer_resolves by blast
  have "assertMetricAvailable growth_customer (lit ''o1'') m 1 2000 = None"
    if "m = Messages_Outbound \<or> m = Active_Contacts" for m
    using that en by (auto simp: assertMetricAvailable_def decide_known not_unknown_def limitOf_def some_of_it_def Let_def
        no_usage)
  then show ?thesis
    by (simp add: prepareOutboundSend_def to_new_contact_def en normalizedDirectAddress_def strip_suffix_def ascii_lower_def
        starts_with_def js_simps Let_def)
qed


end
