(* ===== verification/Billing_Props.thy ===== *)
theory Billing_Props
  imports Billing Entitlements_Props
begin

text \<open>
  Billing over its histories: what a dunning pass does to every organization, that a second pass does
  nothing, who is told, who is let in, and what lifts a suspension.
\<close>

section \<open>What the helpers leave alone\<close>

lemma queueGatewayAction_fields [frame_simps]:
  "pf_orgs (queueGatewayAction i a d w) = pf_orgs w" "pf_ids (queueGatewayAction i a d w) = pf_ids w"
  "pf_invoices (queueGatewayAction i a d w) = pf_invoices w" "pf_settings (queueGatewayAction i a d w) = pf_settings w"
  "pf_accounts (queueGatewayAction i a d w) = pf_accounts w" "pf_outbox (queueGatewayAction i a d w) = pf_outbox w"
  "pf_subscriptions (queueGatewayAction i a d w) = pf_subscriptions w" "pf_now (queueGatewayAction i a d w) = pf_now w"
  by (simp_all add: queueGatewayAction_def split: option.splits)

lemma upd_subscriptions_fields [frame_simps]:
  "pf_orgs (upd_subscriptions P f w) = pf_orgs w" "pf_ids (upd_subscriptions P f w) = pf_ids w"
  "pf_invoices (upd_subscriptions P f w) = pf_invoices w" "pf_settings (upd_subscriptions P f w) = pf_settings w"
  "pf_accounts (upd_subscriptions P f w) = pf_accounts w" "pf_outbox (upd_subscriptions P f w) = pf_outbox w"
  "pf_now (upd_subscriptions P f w) = pf_now w"
  by (simp_all add: upd_subscriptions_def)

lemma raise_alert_fields [frame_simps]:
  "pf_orgs (raise_alert i t s m w) = pf_orgs w" "pf_ids (raise_alert i t s m w) = pf_ids w"
  "pf_invoices (raise_alert i t s m w) = pf_invoices w" "pf_settings (raise_alert i t s m w) = pf_settings w"
  "pf_accounts (raise_alert i t s m w) = pf_accounts w" "pf_outbox (raise_alert i t s m w) = pf_outbox w"
  "pf_subscriptions (raise_alert i t s m w) = pf_subscriptions w" "pf_now (raise_alert i t s m w) = pf_now w"
  by (simp_all add: raise_alert_def)

lemma upd_org_fields [frame_simps]:
  "pf_orgs (upd_org i f w) = (pf_orgs w)(i := map_option f (pf_orgs w i))" "pf_ids (upd_org i f w) = pf_ids w"
  "pf_invoices (upd_org i f w) = pf_invoices w" "pf_settings (upd_org i f w) = pf_settings w"
  "pf_accounts (upd_org i f w) = pf_accounts w" "pf_outbox (upd_org i f w) = pf_outbox w"
  "pf_subscriptions (upd_org i f w) = pf_subscriptions w" "pf_now (upd_org i f w) = pf_now w"
  by (simp_all add: upd_org_def)

lemma mail_contacts_shape:
  "mail_contacts i key draft w =
     (case billingContacts i w of [] \<Rightarrow> w | email # _ \<Rightarrow> keyed_mail key (draft email) w)"
  by (simp add: mail_contacts_def outbox.add_all split: list.split)

lemma keyed_mail_fields [frame_simps]:
  "pf_orgs (keyed_mail key d w) = pf_orgs w" "pf_ids (keyed_mail key d w) = pf_ids w"
  "pf_invoices (keyed_mail key d w) = pf_invoices w" "pf_settings (keyed_mail key d w) = pf_settings w"
  "pf_accounts (keyed_mail key d w) = pf_accounts w" "pf_subscriptions (keyed_mail key d w) = pf_subscriptions w"
  "pf_now (keyed_mail key d w) = pf_now w"
  by (simp_all add: keyed_mail_def queueMail_def)

lemma mail_contacts_fields [frame_simps]:
  "pf_orgs (mail_contacts i key draft w) = pf_orgs w" "pf_ids (mail_contacts i key draft w) = pf_ids w"
  "pf_invoices (mail_contacts i key draft w) = pf_invoices w" "pf_settings (mail_contacts i key draft w) = pf_settings w"
  "pf_accounts (mail_contacts i key draft w) = pf_accounts w"
  "pf_subscriptions (mail_contacts i key draft w) = pf_subscriptions w" "pf_now (mail_contacts i key draft w) = pf_now w"
  by (simp_all add: mail_contacts_shape frame_simps split: list.split)

text \<open>Both loops of a pass keep these fields.\<close>

definition same_books :: "platform \<Rightarrow> platform \<Rightarrow> bool" where
  "same_books w w' \<longleftrightarrow> pf_ids w' = pf_ids w \<and> pf_invoices w' = pf_invoices w \<and> pf_settings w' = pf_settings w
     \<and> pf_accounts w' = pf_accounts w \<and> pf_now w' = pf_now w"

lemma same_books_refl [simp]: "same_books w w" by (simp add: same_books_def)

lemma same_books_trans: "same_books a b \<Longrightarrow> same_books b c \<Longrightarrow> same_books a c" by (simp add: same_books_def)

lemma clear_one_books: "same_books (snd acc) (snd (clear_one now row acc))"
  by (simp add: clear_one_def same_books_def restore_subscriptions_def Let_def frame_simps split: prod.splits)

lemma overdue_one_books: "same_books (snd acc) (snd (overdue_one now g i acc))"
  by (simp add: overdue_one_def warn_one_def suspend_one_def same_books_def Let_def frame_simps
      split: prod.splits option.splits)

lemma fold_books:
  assumes "\<And>x acc. same_books (snd acc) (snd (f x acc))"
  shows "same_books (snd acc) (snd (fold f xs acc))"
proof (induction xs arbitrary: acc)
  case (Cons x xs)
  from same_books_trans [OF assms Cons.IH] show ?case by simp
qed simp

lemma runDunning_books: "same_books w (snd (runDunning now w))"
proof -
  let ?acc = "fold (clear_one now) (filter (\<lambda>row. fst row \<notin> set (organizationsWithOverdueInvoices now w)) (in_grace w)) (no_result, w)"
  have "same_books w (snd ?acc)" using fold_books [OF clear_one_books, of "(no_result, w)"] by simp
  from same_books_trans [OF this fold_books [OF overdue_one_books]] show ?thesis
    by (simp add: runDunning_def Let_def)
qed

section \<open>A pass, organization by organization\<close>

lemma fold_keyed:
  assumes step: "\<And>row acc. obs (f row acc) = (obs acc)(key row := map_option (g row) (obs acc (key row)))"
    and "distinct (map key rows)"
  shows "obs (fold f rows acc) i =
     (case map_of (map (\<lambda>r. (key r, r)) rows) i of None \<Rightarrow> obs acc i | Some row \<Rightarrow> map_option (g row) (obs acc i))"
  using assms(2)
proof (induction rows arbitrary: acc)
  case (Cons row rows)
  have "i = key row \<Longrightarrow> map_of (map (\<lambda>r. (key r, r)) rows) i = None"
    using Cons.prems by (auto simp: map_of_eq_None_iff image_image)
  with Cons show ?case by (auto simp: step split: option.splits)
qed simp

text \<open>What the pass is meant to do to one organization, given whether it owes anything overdue.\<close>

definition dunning_spec :: "int \<Rightarrow> int \<Rightarrow> bool \<Rightarrow> organization \<Rightarrow> organization" where
  "dunning_spec now graceDays owes og =
     (if owes then
        (if og_status og = ORG_SUSPENDED then og
         else case og_suspendAt og of
                None \<Rightarrow> og\<lparr>og_suspendAt := Some (now + graceDays * 86400000),
                           og_suspendReason := Some (suspend_reason (now + graceDays * 86400000))\<rparr>
              | Some t \<Rightarrow> if t \<le> now then og\<lparr>og_status := ORG_SUSPENDED\<rparr> else og)
      else if og_suspendAt og = None then og else withdraw_deadline now og og)"

definition well_keyed :: "platform \<Rightarrow> bool" where
  "well_keyed w \<longleftrightarrow> distinct (pf_ids w) \<and> set (pf_ids w) = dom (pf_orgs w)"

lemma clear_one_orgs:
  "pf_orgs (snd (clear_one now row acc)) =
     (pf_orgs (snd acc))(fst row := map_option (withdraw_deadline now (snd row)) (pf_orgs (snd acc) (fst row)))"
  by (simp add: clear_one_def restore_subscriptions_def Let_def frame_simps split: prod.splits)

lemma overdue_one_orgs:
  "pf_orgs (snd (overdue_one now g i acc)) =
     (pf_orgs (snd acc))(i := map_option (dunning_spec now g True) (pf_orgs (snd acc) i))"
  by (auto simp: overdue_one_def warn_one_def suspend_one_def dunning_spec_def Let_def frame_simps fun_eq_iff
      mult.assoc split: prod.splits option.splits)

lemma set_in_grace:
  "(i, og) \<in> set (in_grace w) \<longleftrightarrow> i \<in> set (pf_ids w) \<and> pf_orgs w i = Some og \<and> og_suspendAt og \<noteq> None"
  by (auto simp: in_grace_def split: option.splits if_splits)

lemma fst_image_iff: "i \<in> fst ` S \<longleftrightarrow> (\<exists>x. (i, x) \<in> S)"
  by force

lemma in_grace_keys: "map fst (in_grace w) = filter (\<lambda>i. i \<in> fst ` set (in_grace w)) (pf_ids w)"
proof -
  have "map fst (concat (map (\<lambda>i. case pf_orgs w i of
          Some og \<Rightarrow> if og_suspendAt og \<noteq> None then [(i, og)] else [] | None \<Rightarrow> []) ids))
      = filter (\<lambda>i. \<exists>og. pf_orgs w i = Some og \<and> og_suspendAt og \<noteq> None) ids" for ids
    by (induction ids) (auto split: option.splits)
  then have "map fst (in_grace w) = filter (\<lambda>i. \<exists>og. pf_orgs w i = Some og \<and> og_suspendAt og \<noteq> None) (pf_ids w)"
    by (simp add: in_grace_def)
  moreover have "i \<in> set (pf_ids w) \<Longrightarrow>
      (i \<in> fst ` set (in_grace w)) = (\<exists>og. pf_orgs w i = Some og \<and> og_suspendAt og \<noteq> None)" for i
    by (auto simp: fst_image_iff set_in_grace)
  ultimately show ?thesis by (simp cong: filter_cong)
qed

lemma overdue_orgs: "i \<in> set (organizationsWithOverdueInvoices now w) \<longleftrightarrow> hasOverdueBalance i now w"
  by (auto simp: organizationsWithOverdueInvoices_def hasOverdueBalance_def)

lemma map_of_keys: "map_of (map (\<lambda>r. (fst r, r)) rows) i = (case map_of rows i of None \<Rightarrow> None | Some x \<Rightarrow> Some (i, x))"
  by (induction rows) auto

lemma map_of_selves: "map_of (map (\<lambda>i. (i, i)) is) i = (if i \<in> set is then Some i else None)"
  by (induction "is") auto

lemma dunning_orgs:
  assumes "well_keyed w"
  shows "pf_orgs (snd (runDunning now w)) i =
    map_option (dunning_spec now (getDunningGraceDays w) (hasOverdueBalance i now w)) (pf_orgs w i)"
proof -
  let ?od = "organizationsWithOverdueInvoices now w"
  let ?rows = "filter (\<lambda>row. fst row \<notin> set ?od) (in_grace w)"
  let ?acc = "fold (clear_one now) ?rows (no_result, w)"
  have dist: "distinct (map fst (in_grace w))"
    using assms by (subst in_grace_keys) (simp add: well_keyed_def)
  then have drows: "distinct (map fst ?rows)" by (simp add: distinct_map_filter)
  have first: "pf_orgs (snd ?acc) i =
      (case map_of ?rows i of None \<Rightarrow> pf_orgs w i | Some seen \<Rightarrow> map_option (withdraw_deadline now seen) (pf_orgs w i))"
    using fold_keyed [where obs = "\<lambda>acc. pf_orgs (snd acc)" and f = "clear_one now" and key = fst, OF clear_one_orgs drows]
    by (simp add: map_of_keys split: option.splits)
  have second: "pf_orgs (snd (runDunning now w)) i =
      (if i \<in> set ?od then map_option (dunning_spec now (getDunningGraceDays w) True) (pf_orgs (snd ?acc) i)
       else pf_orgs (snd ?acc) i)"
    using fold_keyed [where obs = "\<lambda>acc. pf_orgs (snd acc)" and f = "overdue_one now (getDunningGraceDays w)"
        and key = "\<lambda>i. i" and g = "\<lambda>_. dunning_spec now (getDunningGraceDays w) True" and rows = ?od and acc = ?acc
        and i = i, OF overdue_one_orgs]
    by (simp add: runDunning_def Let_def organizationsWithOverdueInvoices_def map_of_selves)
  show ?thesis
  proof (cases "i \<in> set ?od")
    case True
    then have "map_of ?rows i = None" by (auto simp: map_of_eq_None_iff)
    with True first second show ?thesis by (simp add: overdue_orgs [symmetric])
  next
    case False
    show ?thesis
    proof (cases "map_of ?rows i")
      case None
      then have "pf_orgs w i = Some og \<Longrightarrow> og_suspendAt og = None" for og
        using False assms by (force simp: map_of_eq_None_iff well_keyed_def set_in_grace image_iff)
      with None False first second show ?thesis
        by (cases "pf_orgs w i") (simp_all add: overdue_orgs [symmetric] dunning_spec_def)
    next
      case (Some seen)
      then have "(i, seen) \<in> set (in_grace w)" by (auto dest: map_of_SomeD)
      then have "pf_orgs w i = Some seen" "og_suspendAt seen \<noteq> None" by (auto simp: set_in_grace)
      with Some False first second show ?thesis by (auto simp: overdue_orgs [symmetric] dunning_spec_def)
    qed
  qed
qed


definition late_invoice :: invoice where
  "late_invoice =
     \<lparr>iv_id = 0, iv_organizationId = lit ''o1'', iv_reference = [], iv_status = INV_OPEN, iv_amountDueCents = 4900,
      iv_amountPaidCents = 0, iv_currency = lit ''USD'', iv_dueAt = Some 1000, iv_paidAt = None\<rparr>"

definition admin :: "jstr \<Rightarrow> account" where
  "admin email = \<lparr>ac_organizationId = lit ''o1'', ac_isAdmin = True, ac_isActive = True, ac_email = email\<rparr>"

definition late_platform :: "org_status \<Rightarrow> int option \<Rightarrow> platform" where
  "late_platform st deadline =
     sample_platform\<lparr>pf_invoices := [late_invoice], pf_accounts := [admin (lit ''a@x''), admin (lit ''b@x'')],
       pf_orgs := (\<lambda>i. if i = lit ''o1'' then Some (sample_org\<lparr>og_status := st, og_suspendAt := deadline\<rparr>) else None)\<rparr>"

lemma late_simps [simp]:
  "well_keyed (late_platform st d)" "getDunningGraceDays (late_platform st d) = 7"
  "pf_orgs (late_platform st d) (lit ''o1'') = Some (sample_org\<lparr>og_status := st, og_suspendAt := d\<rparr>)"
  "hasOverdueBalance (lit ''o1'') 2000 (late_platform st d)" "pf_now (late_platform st d) = 2000"
  by (auto simp: late_platform_def sample_platform_def well_keyed_def getDunningGraceDays_def setting_number_def
      GRACE_DAYS_DEFAULT_def hasOverdueBalance_def late_invoice_def overdue_def dom_def split: if_splits)


section \<open>A second pass\<close>

lemma overdue_one_settled:
  assumes "pf_orgs (snd acc) i = Some og" and "og_status og = ORG_SUSPENDED \<or> (\<exists>t > now. og_suspendAt og = Some t)"
  shows "overdue_one now g i acc = acc"
  using assms by (cases acc) (auto simp: overdue_one_def)

lemma fold_settled: "(\<And>x. x \<in> set xs \<Longrightarrow> f x acc = acc) \<Longrightarrow> fold f xs acc = acc"
  by (induction xs) auto

lemma same_books_overdue:
  assumes "same_books w w'"
  shows "hasOverdueBalance i now w' = hasOverdueBalance i now w" "getDunningGraceDays w' = getDunningGraceDays w"
    "organizationsWithOverdueInvoices now w' = organizationsWithOverdueInvoices now w"
  using assms
  by (simp_all add: same_books_def hasOverdueBalance_def getDunningGraceDays_def setting_number_def
      organizationsWithOverdueInvoices_def)

lemma overdue_one_missing: "pf_orgs (snd acc) i = None \<Longrightarrow> overdue_one now g i acc = acc"
  by (cases acc) (simp add: overdue_one_def)

lemma spec_deadline: "og_suspendAt (dunning_spec now g owes og) = Some t \<Longrightarrow> owes"
  by (auto simp: dunning_spec_def withdraw_deadline_def split: if_splits)

lemma spec_settles:
  "0 < g \<Longrightarrow> og_status (dunning_spec now g True og) = ORG_SUSPENDED
     \<or> (\<exists>t > now. og_suspendAt (dunning_spec now g True og) = Some t)"
  by (cases "og_suspendAt og") (auto simp: dunning_spec_def not_le)

text \<open>A second pass at the same moment does nothing at all, provided the grace period is at least a day:
  no status, no deadline, no alert, no job, no message, and its result counts nothing. With the grace
  period set to zero, which the setting accepts, the second pass suspends whom the first one warned.\<close>
theorem second_dunning_pass_does_nothing:
  assumes "well_keyed w"
  shows "if 0 < getDunningGraceDays w
    then runDunning now (snd (runDunning now w)) = (no_result, snd (runDunning now w))
    else getDunningGraceDays w = 0 \<and> hasOverdueBalance i now w \<and> pf_orgs w i = Some og \<and> og_status og = ORG_ACTIVE
      \<and> og_suspendAt og = None \<longrightarrow>
      map_option og_status (pf_orgs (snd (runDunning now (snd (runDunning now w)))) i) = Some ORG_SUSPENDED"
proof (split if_split, intro conjI impI)
  let ?w' = "snd (runDunning now w)"
  note books = same_books_overdue [OF runDunning_books [of w now]]
  note orgs = dunning_orgs [OF assms, of now]
  have keyed: "well_keyed ?w'"
    using assms runDunning_books [of w now] by (auto simp: well_keyed_def same_books_def dom_def orgs)
  show "runDunning now ?w' = (no_result, ?w')" if grace: "0 < getDunningGraceDays w"
  proof -
    have "filter (\<lambda>row. fst row \<notin> set (organizationsWithOverdueInvoices now ?w')) (in_grace ?w') = []"
      by (auto simp: filter_empty_conv set_in_grace overdue_orgs books orgs dest: spec_deadline)
    moreover have "overdue_one now (getDunningGraceDays ?w') i (no_result, ?w') = (no_result, ?w')"
      if "i \<in> set (organizationsWithOverdueInvoices now ?w')" for i
    proof (cases "pf_orgs ?w' i")
      case None
      then show ?thesis by (simp add: overdue_one_missing)
    next
      case (Some og')
      from that have "hasOverdueBalance i now w" by (simp add: overdue_orgs books)
      with Some grace orgs [of i] have "og_status og' = ORG_SUSPENDED \<or> (\<exists>t > now. og_suspendAt og' = Some t)"
        by (auto dest: spec_settles)
      with Some show ?thesis by (intro overdue_one_settled) simp_all
    qed
    ultimately show ?thesis
      by (simp add: runDunning_def Let_def fold_settled)
  qed
  show "map_option og_status (pf_orgs (snd (runDunning now ?w')) i) = Some ORG_SUSPENDED"
    if "getDunningGraceDays w = 0 \<and> hasOverdueBalance i now w \<and> pf_orgs w i = Some og \<and> og_status og = ORG_ACTIVE
      \<and> og_suspendAt og = None"
    using that by (simp add: dunning_orgs [OF keyed] orgs books dunning_spec_def)
qed

theorem second_dunning_pass_does_nothing_witness:
  "runDunning 2000 (snd (runDunning 2000 (late_platform ORG_ACTIVE None)))
     = (no_result, snd (runDunning 2000 (late_platform ORG_ACTIVE None)))"
  using second_dunning_pass_does_nothing [of "late_platform ORG_ACTIVE None" 2000] by simp

section \<open>Who is told\<close>

lemma mail_contacts_outbox:
  "\<exists>ms. pf_outbox (mail_contacts i key draft w) = pf_outbox w @ ms
     \<and> (ms = [] \<or> (\<exists>m email. ms = [m] \<and> ml_organizationId m = md_organizationId (draft email)))"
  by (auto simp: mail_contacts_shape keyed_mail_def queueMail_def new_mail_def split: list.splits)

definition one_mail :: "jstr \<Rightarrow> platform \<Rightarrow> platform \<Rightarrow> bool" where
  "one_mail i w w' \<longleftrightarrow> (\<exists>ms. pf_outbox w' = pf_outbox w @ ms \<and> (ms = [] \<or> (\<exists>m. ms = [m] \<and> ml_organizationId m = Some i)))"

lemma mail_contacts_one:
  assumes "\<And>email. md_organizationId (draft email) = Some i" and "pf_outbox w' = pf_outbox w"
  shows "one_mail i w (mail_contacts i key draft w')"
  using mail_contacts_outbox [of i key draft w'] assms by (fastforce simp: one_mail_def)

lemma clear_one_mail: "one_mail (fst row) (snd acc) (snd (clear_one now row acc))"
proof (cases acc)
  case (Pair r w)
  obtain i seen where row: "row = (i, seen)" by (cases row)
  show ?thesis
  proof (cases "dunned now seen")
    case True
    let ?w = "restore_subscriptions i (queueGatewayAction i Resume 0 (upd_org i (withdraw_deadline now seen) w))"
    have "one_mail i w (mail_contacts i key (restored_mail i seen) ?w)" for key
      by (rule mail_contacts_one) (simp_all add: restored_mail_def restore_subscriptions_def frame_simps)
    with True Pair row show ?thesis by (simp add: clear_one_def Let_def one_mail_def frame_simps)
  next
    case False
    with Pair row show ?thesis by (simp add: clear_one_def Let_def one_mail_def frame_simps)
  qed
qed

lemma overdue_one_mail: "one_mail i (snd acc) (snd (overdue_one now g i acc))"
proof (cases acc)
  case (Pair r w)
  have "one_mail i w (warn_one now g i og w)" for og
    unfolding warn_one_def Let_def by (rule mail_contacts_one) (simp_all add: warning_mail_def frame_simps)
  moreover have "one_mail i w (suspend_one t i og w)" for og t
    unfolding suspend_one_def Let_def by (rule mail_contacts_one) (simp_all add: suspended_mail_def frame_simps)
  moreover have "one_mail i w w" by (simp add: one_mail_def)
  ultimately show ?thesis using Pair by (simp add: overdue_one_def split: option.splits)
qed

lemma fold_one_mail:
  assumes "\<And>x acc. one_mail (key x) (snd acc) (snd (f x acc))" and "distinct (map key xs)"
  shows "\<exists>ms. pf_outbox (snd (fold f xs acc)) = pf_outbox (snd acc) @ ms
     \<and> distinct (map ml_organizationId ms) \<and> set (map ml_organizationId ms) \<subseteq> Some ` key ` set xs"
  using assms(2)
proof (induction xs arbitrary: acc)
  case (Cons x xs)
  from assms(1) [of x acc] obtain ms1 where ms1: "pf_outbox (snd (f x acc)) = pf_outbox (snd acc) @ ms1"
    "ms1 = [] \<or> (\<exists>m. ms1 = [m] \<and> ml_organizationId m = Some (key x))" by (auto simp: one_mail_def)
  from Cons.IH [of "f x acc"] Cons.prems obtain ms2 where ms2: "pf_outbox (snd (fold f xs (f x acc))) = pf_outbox (snd (f x acc)) @ ms2"
    "distinct (map ml_organizationId ms2)" "set (map ml_organizationId ms2) \<subseteq> Some ` key ` set xs" by auto
  show ?case
    using ms1 ms2 Cons.prems by (intro exI [of _ "ms1 @ ms2"]) auto
qed simp

lemma distinct_key_once: "distinct (map g xs) \<Longrightarrow> length (filter (\<lambda>x. g x = k) xs) \<le> 1"
  by (induction xs) (auto simp: filter_empty_conv image_iff)

text \<open>However many administrators an organization has, a dunning pass puts at most one message for it into
  the outbox: the key that keeps a message from being repeated carries the organization and the deadline
  but not the recipient, so every administrator after the first is taken for a repetition.\<close>
theorem one_administrator_is_told:
  assumes "well_keyed w"
  shows "length (filter (\<lambda>m. ml_organizationId m = Some i)
           (drop (length (pf_outbox w)) (pf_outbox (snd (runDunning now w))))) \<le> 1"
proof -
  let ?od = "organizationsWithOverdueInvoices now w"
  let ?rows = "filter (\<lambda>row. fst row \<notin> set ?od) (in_grace w)"
  let ?acc = "fold (clear_one now) ?rows (no_result, w)"
  have "distinct (map fst (in_grace w))" using assms by (subst in_grace_keys) (simp add: well_keyed_def)
  then have "distinct (map fst ?rows)" by (simp add: distinct_map_filter)
  from fold_one_mail [of fst "clear_one now", OF clear_one_mail this] obtain ms1
    where ms1: "pf_outbox (snd ?acc) = pf_outbox w @ ms1" "distinct (map ml_organizationId ms1)"
      "set (map ml_organizationId ms1) \<subseteq> Some ` fst ` set ?rows" by fastforce
  have "distinct (map (\<lambda>i. i) ?od)" by (simp add: organizationsWithOverdueInvoices_def)
  from fold_one_mail [of "\<lambda>i. i" "overdue_one now (getDunningGraceDays w)", OF overdue_one_mail this, of ?acc] obtain ms2
    where ms2: "pf_outbox (snd (runDunning now w)) = pf_outbox (snd ?acc) @ ms2" "distinct (map ml_organizationId ms2)"
      "set (map ml_organizationId ms2) \<subseteq> Some ` set ?od" by (auto simp: runDunning_def Let_def)
  have "distinct (map ml_organizationId (ms1 @ ms2))" using ms1 ms2 by fastforce
  then have "length (filter (\<lambda>m. ml_organizationId m = Some i) (ms1 @ ms2)) \<le> 1" by (rule distinct_key_once)
  with ms1(1) ms2(1) show ?thesis by simp
qed

theorem one_administrator_is_told_witness:
  "length (billingContacts (lit ''o1'') (late_platform ORG_ACTIVE None)) = 2
   \<and> length (filter (\<lambda>m. ml_organizationId m = Some (lit ''o1''))
           (drop 0 (pf_outbox (snd (runDunning 2000 (late_platform ORG_ACTIVE None)))))) \<le> 1"
proof
  show "length (billingContacts (lit ''o1'') (late_platform ORG_ACTIVE None)) = 2"
    by (simp add: billingContacts_def js_set_def late_platform_def admin_def)
  have "pf_outbox (late_platform ORG_ACTIVE None) = []" by (simp add: late_platform_def sample_platform_def)
  with one_administrator_is_told [of "late_platform ORG_ACTIVE None" "lit ''o1''" 2000]
  show "length (filter (\<lambda>m. ml_organizationId m = Some (lit ''o1''))
      (drop 0 (pf_outbox (snd (runDunning 2000 (late_platform ORG_ACTIVE None)))))) \<le> 1" by simp
qed

end
