(* ===== verification/Access_Props.thy ===== *)
theory Access_Props
  imports Billing_Props
begin

text \<open>
  Who may use the product, and what changes that: payments, payment events, dunning and gateway
  observations composed with the access gate.
\<close>

section \<open>The gate\<close>

lemma gate_suspended:
  assumes "pf_orgs w i = Some og" and "og_status og = ORG_SUSPENDED"
  shows "decideAccess w i now = Refused_Suspended"
  using assms by (simp add: decideAccess_def)

lemma gate_not_suspended:
  assumes "pf_orgs w i = Some og" and "og_status og \<noteq> ORG_SUSPENDED"
  shows "decideAccess w i now \<noteq> Refused_Suspended"
  using assms by (auto simp: decideAccess_def split: trial_state.split)

lemma enforce_refused:
  assumes "i \<noteq> []" and "\<not> isAllowedWhenGated path" and "d \<noteq> Allowed"
  shows "enforceAccess (Inr d) (Some i) path = Forbidden d"
  using assms by (cases d) (simp_all add: enforceAccess_def)

section \<open>Paying\<close>

lemma nextReference_fields [frame_simps]:
  "pf_orgs (snd (nextReference k i w)) = pf_orgs w" "pf_now (snd (nextReference k i w)) = pf_now w"
  "pf_invoices (snd (nextReference k i w)) = pf_invoices w" "pf_openwa (snd (nextReference k i w)) = pf_openwa w"
  "pf_jobs (snd (nextReference k i w)) = pf_jobs w" "pf_receipts (snd (nextReference k i w)) = pf_receipts w"
  by (simp_all add: nextReference_def nextOrgSequence_def Let_def split: prod.splits)

lemma recordPayment_frame:
  "recordPayment i n a m p w = Inr w' \<Longrightarrow> pf_orgs w' = pf_orgs w \<and> pf_now w' = pf_now w
     \<and> pf_openwa w' = pf_openwa w \<and> pf_jobs w' = pf_jobs w"
  using nextReference_fields [of RCPT i w]
  by (auto simp: recordPayment_def payment_commit_def upd_invoice_def Let_def split: sum.splits if_splits prod.splits)

lemma invoices_only:
  "pf_invoices w' = pf_invoices w \<Longrightarrow> hasOverdueBalance i now w' = hasOverdueBalance i now w"
  by (simp add: hasOverdueBalance_def)

lemma restored_none_due:
  "\<forall>s \<in> set (pf_subscriptions (upd_subscriptions (\<lambda>s. sb_organizationId s = i \<and> sb_status s = SUB_PAST_DUE)
      (\<lambda>s. s\<lparr>sb_status := SUB_ACTIVE\<rparr>) w)). sb_organizationId s = i \<longrightarrow> sb_status s \<noteq> SUB_PAST_DUE"
  by (simp add: upd_subscriptions_def ball_Un)

text \<open>What the payment endpoint leaves behind, and what it leaves when dunning had stopped the organization.\<close>

lemma paid_result:
  assumes "pay_invoice_route i n amount how paidAt w = Inr w'" and "pf_orgs w i = Some og"
  shows "\<exists>w1. recordPayment i n amount (take 40 how) paidAt w = Inr w1 \<and> pf_orgs w1 = pf_orgs w \<and> pf_now w1 = pf_now w
     \<and> pf_openwa w1 = pf_openwa w \<and> pf_jobs w1 = pf_jobs w
     \<and> w' = (if hasOverdueBalance i (pf_now w) w1 \<or> og_suspendAt og = None then w1
             else if dunned (pf_now w) og
             then queueGatewayAction i Resume 0 (restore_subscriptions i (upd_org i (withdraw_deadline (pf_now w) og) w1))
             else upd_org i (withdraw_deadline (pf_now w) og) w1)"
proof -
  from assms(1) obtain w1 where w1: "recordPayment i n amount (take 40 how) paidAt w = Inr w1"
    by (auto simp: pay_invoice_route_def split: sum.splits)
  from recordPayment_frame [OF w1] assms(2) have o1: "pf_orgs w1 i = Some og" "pf_now w1 = pf_now w" by simp_all
  show ?thesis
    using assms(1) recordPayment_frame [OF w1] unfolding pay_invoice_route_def w1 o1 sum.case option.case Let_def
    by (intro exI [of _ w1]) (auto simp: o1 split: if_splits)
qed

lemma paid_dunned:
  assumes "pay_invoice_route i n amount how paidAt w = Inr w'" and "pf_orgs w i = Some og" and "\<not> hasOverdueBalance i (pf_now w) w'"
    and "dunned (pf_now w) og"
  shows "\<exists>w1. pf_orgs w1 = pf_orgs w \<and> pf_openwa w1 = pf_openwa w \<and> pf_jobs w1 = pf_jobs w
     \<and> w' = queueGatewayAction i Resume 0 (restore_subscriptions i (upd_org i (withdraw_deadline (pf_now w) og) w1))"
proof -
  from paid_result [OF assms(1,2)] obtain w1 where w1: "pf_orgs w1 = pf_orgs w" "pf_openwa w1 = pf_openwa w" "pf_jobs w1 = pf_jobs w"
    "w' = (if hasOverdueBalance i (pf_now w) w1 \<or> og_suspendAt og = None then w1
           else if dunned (pf_now w) og
           then queueGatewayAction i Resume 0 (restore_subscriptions i (upd_org i (withdraw_deadline (pf_now w) og) w1))
           else upd_org i (withdraw_deadline (pf_now w) og) w1)" by blast
  have "\<not> hasOverdueBalance i (pf_now w) w1"
  proof
    assume "hasOverdueBalance i (pf_now w) w1"
    with w1(4) assms(3) show False by simp
  qed
  moreover have "og_suspendAt og \<noteq> None" using assms(4) by (auto simp: dunned_def split: option.splits)
  ultimately have "w' = queueGatewayAction i Resume 0 (restore_subscriptions i (upd_org i (withdraw_deadline (pf_now w) og) w1))"
    using w1(4) assms(4) by (simp only: if_True if_False simp_thms)
  with w1 show ?thesis by blast
qed

text \<open>C5: The payment that clears the last overdue invoice of an organization dunning had stopped takes effect
  in the same request: the organization is active without a deadline, none of its subscriptions is past
  due, the job that resumes its gateway is waiting, and the gate no longer refuses it as suspended. An
  organization stopped in any other way keeps its status.\<close>
theorem payment_reopens_what_dunning_stopped:
  assumes paid: "pay_invoice_route i n amount how paidAt w = Inr w'"
    and og: "pf_orgs w i = Some og" and clear: "\<not> hasOverdueBalance i (pf_now w) w'"
  shows "\<exists>og'. pf_orgs w' i = Some og' \<and>
    (if dunned (pf_now w) og
     then og_status og' = ORG_ACTIVE \<and> og_suspendAt og' = None \<and> job_waiting (i, Resume) w'
       \<and> (\<forall>s \<in> set (pf_subscriptions w'). sb_organizationId s = i \<longrightarrow> sb_status s \<noteq> SUB_PAST_DUE)
       \<and> decideAccess w' i now \<noteq> Refused_Suspended
     else og_status og' = og_status og)"
proof (cases "dunned (pf_now w) og")
  case False
  with paid_result [OF paid og] og show ?thesis by (auto simp: frame_simps withdraw_deadline_def)
next
  case True
  from paid_dunned [OF paid og clear True] obtain w1 where w1: "pf_orgs w1 = pf_orgs w"
    and w3: "w' = queueGatewayAction i Resume 0 (restore_subscriptions i (upd_org i (withdraw_deadline (pf_now w) og) w1))" by blast
  have org: "pf_orgs w' i = Some (withdraw_deadline (pf_now w) og og)"
    using w1 og by (simp add: w3 restore_subscriptions_def frame_simps)
  moreover have "og_status (withdraw_deadline (pf_now w) og og) = ORG_ACTIVE"
    "og_suspendAt (withdraw_deadline (pf_now w) og og) = None" using True by (simp_all add: withdraw_deadline_def)
  moreover have "job_waiting (i, Resume) w'" by (simp add: w3 job_waiting_queue)
  moreover have "\<forall>s \<in> set (pf_subscriptions w'). sb_organizationId s = i \<longrightarrow> sb_status s \<noteq> SUB_PAST_DUE"
    unfolding w3 queueGatewayAction_fields restore_subscriptions_def by (rule restored_none_due)
  moreover have "decideAccess w' i now \<noteq> Refused_Suspended"
    using gate_not_suspended [OF org] True by (simp add: withdraw_deadline_def)
  ultimately show ?thesis using True by simp
qed

text \<open>The only invoice there is, open and unpaid, is settled by its amount.\<close>

lemma settled_in_full:
  assumes "pf_invoices w = [v]" "pf_receipts w = []" and v: "iv_amountPaidCents v = 0" "iv_status v = INV_OPEN" "0 < iv_amountDueCents v"
  shows "\<exists>w1. recordPayment (iv_organizationId v) (iv_id v) (iv_amountDueCents v) how t w = Inr w1
     \<and> pf_invoices w1 = [v\<lparr>iv_amountPaidCents := iv_amountDueCents v, iv_status := INV_PAID, iv_paidAt := Some t\<rparr>]"
proof -
  have found: "find_invoice (iv_organizationId v) (iv_id v) w = Some v"
    by (simp add: find_invoice_def assms)
  obtain ref w1 where r: "nextReference RCPT (iv_organizationId v) w = (ref, w1)" by fastforce
  then have "pf_invoices w1 = [v]" "pf_receipts w1 = []"
    using nextReference_fields(3,6) [of RCPT "iv_organizationId v" w] by (simp_all add: assms)
  then show ?thesis
    unfolding recordPayment_def payment_check_def payment_commit_def found option.case Let_def r prod.case
    by (simp add: v(1,2) not_le [THEN iffD2, OF v(3)] upd_invoice_def)
qed

lemma late_paid:
  assumes "pf_invoices w = [late_invoice]" "pf_receipts w = []" and "pf_orgs w (lit ''o1'') = Some og" and "pf_now w = 2000"
  shows "\<exists>w'. pay_invoice_route (lit ''o1'') 0 4900 (lit ''cash'') 1900 w = Inr w' \<and> \<not> hasOverdueBalance (lit ''o1'') 2000 w'"
proof -
  obtain w1 where w1: "recordPayment (lit ''o1'') 0 4900 (take 40 (lit ''cash'')) 1900 w = Inr w1"
    "pf_invoices w1 = [late_invoice\<lparr>iv_amountPaidCents := 4900, iv_status := INV_PAID, iv_paidAt := Some 1900\<rparr>]"
    using settled_in_full [OF assms(1,2)] by (fastforce simp: late_invoice_def)
  from recordPayment_frame [OF w1(1)] assms
  have o1: "pf_orgs w1 (lit ''o1'') = Some og" "pf_now w1 = 2000" by simp_all
  have clear: "\<not> hasOverdueBalance (lit ''o1'') 2000 w" if "pf_invoices w = pf_invoices w1" for w
    by (simp add: hasOverdueBalance_def that w1(2) overdue_def)
  show ?thesis
    unfolding pay_invoice_route_def w1(1) sum.case o1 option.case Let_def
    using clear by (simp add: restore_subscriptions_def frame_simps)
qed

lemma late_invoices [simp]: "pf_invoices (late_platform st d) = [late_invoice]" "pf_receipts (late_platform st d) = []"
  by (simp_all add: late_platform_def sample_platform_def)

theorem payment_reopens_what_dunning_stopped_witness:
  "\<exists>w' og'. pay_invoice_route (lit ''o1'') 0 4900 (lit ''cash'') 1900 (late_platform ORG_SUSPENDED (Some 1500)) = Inr w'
     \<and> pf_orgs w' (lit ''o1'') = Some og' \<and> og_status og' = ORG_ACTIVE
     \<and> decideAccess (late_platform ORG_SUSPENDED (Some 1500)) (lit ''o1'') 2000 = Refused_Suspended"
proof -
  let ?w = "late_platform ORG_SUSPENDED (Some 1500)"
  obtain w' where w': "pay_invoice_route (lit ''o1'') 0 4900 (lit ''cash'') 1900 ?w = Inr w'"
    "\<not> hasOverdueBalance (lit ''o1'') (pf_now ?w) w'" using late_paid [of ?w] by auto
  from payment_reopens_what_dunning_stopped [OF w'(1) late_simps(3) w'(2)] w'(1) show ?thesis
    by (auto simp: dunned_def decideAccess_def)
qed

section \<open>A failed payment\<close>

datatype billing_event =
    Tick int
  | Payment_Event payment_event
  | Pay_Invoice jstr nat int jstr int
  | Void_Invoice jstr nat
  | New_Invoice jstr int jstr "int option"
  | Activate jstr jstr identifiers
  | Cancel bool jstr
  | Billing_Pass "jstr \<Rightarrow> checkout_status option"

fun billing_step :: "(jstr \<Rightarrow> jstr \<Rightarrow> bool) \<Rightarrow> billing_event \<Rightarrow> platform \<Rightarrow> platform" where
  "billing_step remote (Tick t) w = w\<lparr>pf_now := t\<rparr>"
| "billing_step remote (Payment_Event ev) w = snd (handlePaymentWebhook remote ev w)"
| "billing_step remote (Pay_Invoice i n a m p) w = (case pay_invoice_route i n a m p w of Inl _ \<Rightarrow> w | Inr w' \<Rightarrow> w')"
| "billing_step remote (Void_Invoice i n) w = (case voidInvoice i n w of Inl _ \<Rightarrow> w | Inr w' \<Rightarrow> w')"
| "billing_step remote (New_Invoice i a c d) w = createInvoice i a c d w"
| "billing_step remote (Activate i p ids) w = snd (activateManualSubscription i p ids w)"
| "billing_step remote (Cancel b i) w = snd (cancelCurrentSubscription remote b i w)"
| "billing_step remote (Billing_Pass checkout) w = billing_pass checkout w"

text \<open>Stopped, and not by a deadline.\<close>

definition locked :: "jstr \<Rightarrow> platform \<Rightarrow> bool" where
  "locked i w \<longleftrightarrow> (\<exists>og. pf_orgs w i = Some og \<and> og_status og = ORG_SUSPENDED \<and> og_suspendAt og = None)"

lemma locked_same: "pf_orgs w' = pf_orgs w \<Longrightarrow> locked i w' = locked i w"
  by (simp add: locked_def)

lemma locked_upd_org:
  assumes "locked i w" and "\<And>og. og_status og = ORG_SUSPENDED \<Longrightarrow> og_suspendAt og = None \<Longrightarrow>
      og_status (f og) = ORG_SUSPENDED \<and> og_suspendAt (f og) = None"
  shows "locked i (upd_org j f w)"
  using assms by (auto simp: locked_def frame_simps)

lemma applyPlanLimits_fields [frame_simps]:
  "pf_orgs (applyPlanLimits i c w) = pf_orgs w" "pf_subscriptions (applyPlanLimits i c w) = pf_subscriptions w"
  by (simp_all add: applyPlanLimits_def)

lemma locked_frames [simp]:
  "locked i (queueGatewayAction j a d w) = locked i w" "locked i (upd_subscriptions P f w) = locked i w"
  "locked i (raise_alert j t s m w) = locked i w" "locked i (applyPlanLimits j c w) = locked i w"
  "locked i (mail_contacts j key draft w) = locked i w" "locked i (restore_subscriptions j w) = locked i w"
  "locked i (w\<lparr>pf_subscriptions := ss\<rparr>) = locked i w" "locked i (w\<lparr>pf_now := now\<rparr>) = locked i w"
  "locked i (w\<lparr>pf_paymentEvents := es\<rparr>) = locked i w" "locked i (w\<lparr>pf_invoices := vs\<rparr>) = locked i w"
  by (simp_all add: locked_def frame_simps restore_subscriptions_def)

lemma locked_activate:
  assumes "locked i w"
  shows "locked i (snd (activateManualSubscription j p ids w))"
proof (cases "normalizePlanCode (pf_catalogue w) p")
  case (Inl e)
  with assms show ?thesis by (simp add: activateManualSubscription_def)
next
  case (Inr code)
  show ?thesis
  proof (cases "current_pin w code")
    case None
    with Inr assms show ?thesis by (simp add: activateManualSubscription_def Let_def)
  next
    case (Some pin)
    show ?thesis
    proof (cases "pf_orgs w j = None")
      case True
      with Inr Some assms show ?thesis by (simp add: activateManualSubscription_def Let_def)
    next
      case False
      show ?thesis
        unfolding activateManualSubscription_def Inr sum.case Let_def Some option.case
        apply (simp only: False if_False snd_conv if_distrib [of "locked i"] locked_frames if_cancel)
        apply (rule locked_upd_org)
         apply (cases "newest_subscription any_status w j")
          apply (simp_all only: option.case locked_frames assms)
        apply simp
        done
    qed
  qed
qed

lemma locked_markFailed: "locked i w \<Longrightarrow> locked i (snd (markPaymentFailed j reason w))"
  by (auto simp: markPaymentFailed_def Let_def intro!: locked_upd_org)

lemma locked_cancel: "locked i w \<Longrightarrow> locked i (snd (cancelCurrentSubscription remote b j w))"
  by (auto simp: cancelCurrentSubscription_def split: option.splits)

lemma locked_park: "locked i w \<Longrightarrow> locked i (park j s r w)"
  by (auto simp: park_def split: option.splits)

text \<open>A caller that only renames the outcome passes the platform on.\<close>

lemma snd_relabel [simp]:
  "snd (case x of (Inl e, w') \<Rightarrow> (Inl e, w') | (Inr _, w') \<Rightarrow> (Inr b, w')) = snd x"
  by (cases x; cases "fst x") auto

lemma fromEvent_cases:
  "snd (activateFromPaymentEvent j p ids w) = w
   \<or> (\<exists>s r. snd (activateFromPaymentEvent j p ids w) = park j s r w)
   \<or> (\<exists>q. snd (activateFromPaymentEvent j p ids w) = snd (activateManualSubscription j q ids w))"
proof (cases "pf_orgs w j = None \<or> newest_subscription any_status w j = None")
  case True
  then have "snd (activateFromPaymentEvent j p ids w) = w \<or> (\<exists>r. snd (activateFromPaymentEvent j p ids w) = park j None r w)"
    unfolding activateFromPaymentEvent_def Let_def by (cases "pf_orgs w j") auto
  then show ?thesis by blast
next
  case False
  then obtain og s where w: "pf_orgs w j = Some og" "newest_subscription any_status w j = Some s" by auto
  show ?thesis
  proof (cases "p = None \<or> p = Some []")
    case True
    then have "\<exists>r. snd (activateFromPaymentEvent j p ids w) = park j (Some s) r w"
      unfolding activateFromPaymentEvent_def Let_def w by auto
    then show ?thesis by blast
  next
    case False
    then obtain c cs where p: "p = Some (c # cs)" by (metis list.exhaust option.exhaust)
    show ?thesis
    proof (cases "normalizePlanCode (pf_catalogue w) (c # cs)")
      case (Inl e)
      have "\<exists>r. snd (activateFromPaymentEvent j p ids w) = park j (Some s) r w"
        unfolding activateFromPaymentEvent_def Let_def w p option.case list.case Inl sum.case by auto
      then show ?thesis by blast
    next
      case (Inr q)
      have "(\<exists>r. snd (activateFromPaymentEvent j p ids w) = park j (Some s) r w)
         \<or> snd (activateFromPaymentEvent j p ids w) = snd (activateManualSubscription j q ids w)"
        unfolding activateFromPaymentEvent_def Let_def w p option.case list.case Inr sum.case
        by (cases "q \<noteq> js_upper (js_trim (fst (sb_pin s)))") auto
      then show ?thesis by blast
    qed
  qed
qed

lemma locked_fromEvent: "locked i w \<Longrightarrow> locked i (snd (activateFromPaymentEvent j p ids w))"
  using fromEvent_cases [of j p ids w] locked_park locked_activate by metis

lemma locked_webhook: "locked i w \<Longrightarrow> locked i (snd (handlePaymentWebhook remote ev w))"
  by (simp add: handlePaymentWebhook_def Let_def locked_fromEvent locked_markFailed locked_cancel
      split: payment_kind.split)

lemma locked_pay: "locked i w \<Longrightarrow> pay_invoice_route j n a m p w = Inr w' \<Longrightarrow> locked i w'"
proof -
  assume l: "locked i w" and p: "pay_invoice_route j n a m p w = Inr w'"
  then obtain w1 where w1: "recordPayment j n a (take 40 m) p w = Inr w1"
    by (auto simp: pay_invoice_route_def split: sum.splits)
  from recordPayment_frame [OF w1] l have l1: "locked i w1" by (simp add: locked_def)
  show ?thesis
  proof (cases "i = j")
    case True
    with p w1 l1 show ?thesis by (auto simp: pay_invoice_route_def locked_def split: option.splits if_splits)
  next
    case False
    with l1 have "locked i (upd_org j f w1)" for f by (simp add: locked_def frame_simps)
    with p w1 l1 show ?thesis by (auto simp: pay_invoice_route_def Let_def split: option.splits if_splits)
  qed
qed

lemma locked_clear: "fst row \<noteq> i \<Longrightarrow> locked i (snd acc) \<Longrightarrow> locked i (snd (clear_one now row acc))"
  by (simp add: locked_def clear_one_orgs)

lemma locked_overdue: "locked i (snd acc) \<Longrightarrow> locked i (snd (overdue_one now g j acc))"
  by (auto simp: locked_def overdue_one_orgs dunning_spec_def)

lemma fold_keeps: "(\<And>x acc. x \<in> set xs \<Longrightarrow> Q acc \<Longrightarrow> Q (f x acc)) \<Longrightarrow> Q acc \<Longrightarrow> Q (fold f xs acc)"
  by (induction xs arbitrary: acc) auto

lemma locked_dunning: "locked i w \<Longrightarrow> locked i (snd (runDunning now w))"
proof -
  assume l: "locked i w"
  then have no_row: "row \<in> set (in_grace w) \<Longrightarrow> fst row \<noteq> i" for row
    by (cases row) (auto simp: locked_def set_in_grace)
  let ?rows = "filter (\<lambda>row. fst row \<notin> set (organizationsWithOverdueInvoices now w)) (in_grace w)"
  have "locked i (snd (fold (clear_one now) ?rows (no_result, w)))"
    by (rule fold_keeps [where Q = "\<lambda>acc. locked i (snd acc)"]) (auto intro!: locked_clear simp: l dest: no_row)
  then show ?thesis
    unfolding runDunning_def Let_def
    by (rule fold_keeps [where Q = "\<lambda>acc. locked i (snd acc)", rotated]) (rule locked_overdue)
qed

text \<open>What the repairs of a reconciliation keep, the reconciliation keeps.\<close>

locale repair_frame =
  fixes Q :: "platform \<Rightarrow> bool"
  assumes keep_alert: "Q w \<Longrightarrow> Q (raise_alert j t s m w)"
    and keep_activate: "Q w \<Longrightarrow> Q (snd (activateManualSubscription j p ids w))"
    and keep_markFailed: "Q w \<Longrightarrow> Q (snd (markPaymentFailed j reason w))"
begin

lemma keep_outcome:
  "Q (snd x) \<Longrightarrow> Q (snd (case x of (Inl e, w') \<Rightarrow> (r, raise_alert j t s m w') | (Inr _, w') \<Rightarrow> (r', w')))"
  by (cases x; cases "fst x") (auto intro: keep_alert)

lemma keep_one:
  assumes v: "Q v"
  shows "Q (snd (reconcile_one checkout s (r, v)))"
proof (cases "checkout (case sb_externalRef s of Some ref \<Rightarrow> ref | None \<Rightarrow> [])")
  case None
  show ?thesis unfolding reconcile_one_def Let_def prod.case None option.case by (simp add: v keep_alert)
next
  case (Some c)
  note step = reconcile_one_def Let_def prod.case Some option.case
  show ?thesis
  proof (cases c)
    case (CheckoutPaid ids)
    show ?thesis unfolding step CheckoutPaid checkout_status.case
      by (cases "sb_status s = SUB_ACTIVE")
        (simp_all only: simp_thms if_True if_False snd_conv v keep_outcome keep_activate)
  next
    case CheckoutFailed
    show ?thesis unfolding step CheckoutFailed checkout_status.case
      by (cases "sb_status s = SUB_PAST_DUE")
        (simp_all only: simp_thms if_True if_False snd_conv v keep_outcome keep_markFailed)
  next
    case CheckoutPending
    show ?thesis unfolding step CheckoutPending checkout_status.case snd_conv by (rule v)
  next
    case CheckoutCanceled
    show ?thesis unfolding step CheckoutCanceled checkout_status.case snd_conv by (rule v)
  qed
qed

lemma keep_reconcile: "Q w \<Longrightarrow> Q (snd (reconcileBilling checkout w))"
proof -
  assume "Q w"
  then have "Q (snd (fold (reconcile_one checkout) subs (r, w)))" for subs r
    by (intro fold_keeps [where Q = "\<lambda>acc. Q (snd acc)"]) (auto intro: keep_one)
  then show ?thesis by (simp only: reconcileBilling_def Let_def case_prod_beta snd_conv)
qed

end

interpretation locked_repair: repair_frame "locked i" for i
  by unfold_locales (simp_all add: locked_activate locked_markFailed)

interpretation lockout: safe_system "billing_step remote" "locked i" for remote i
proof unfold_locales
  fix w e assume l: "locked i w"
  show "locked i (billing_step remote e w)"
  proof (cases e)
    case (Pay_Invoice j n a m p)
    with l show ?thesis by (auto split: sum.splits dest: locked_pay)
  next
    case (Void_Invoice j n)
    with l show ?thesis
      by (auto simp: voidInvoice_def upd_invoice_def split: sum.splits option.splits if_splits)
  next
    case (New_Invoice j a c d)
    with l show ?thesis using nextReference_fields(1) [of INV j w]
      by (auto simp: createInvoice_def locked_def split: prod.splits)
  next
    case (Billing_Pass checkout)
    with l show ?thesis by (simp add: billing_pass_def Let_def locked_dunning locked_repair.keep_reconcile)
  qed (simp_all add: l locked_webhook locked_activate locked_cancel)
qed


definition paid_event :: payment_event where
  "paid_event =
     \<lparr>pe_valid = True, pe_eventId = lit ''e2'', pe_type = lit ''paid'', pe_kind = SubscriptionActivated,
      pe_organizationId = lit ''o1'', pe_planCode = Some (lit ''GROWTH''), pe_reason = [],
      pe_ids = \<lparr>id_subscriptionRef = None, id_customerRef = None\<rparr>\<rparr>"


end
