(* ===== verification/Finance_Props.thy ===== *)
theory Finance_Props
  imports Access_Props
begin

text \<open>
  The ledger: over every history of billing events each invoice has been paid exactly what its receipts
  add up to, and its documents are told apart by their references; what breaks when two payments
  interleave, and when two organizations' ids end alike.
\<close>

section \<open>The part of the platform that is the ledger\<close>

definition ledger :: "platform \<Rightarrow> int \<times> invoice list \<times> receipt list \<times> (jstr \<Rightarrow> jstr \<Rightarrow> nat)" where
  "ledger w = (pf_now w, pf_invoices w, pf_receipts w, pf_sequences w)"

lemma ledger_frames [simp]:
  "ledger (queueGatewayAction i a d w) = ledger w" "ledger (upd_subscriptions P f w) = ledger w"
  "ledger (raise_alert i t s m w) = ledger w" "ledger (upd_org i g w) = ledger w"
  "ledger (applyPlanLimits i c w) = ledger w" "ledger (restore_subscriptions i w) = ledger w"
  "ledger (w\<lparr>pf_subscriptions := ss\<rparr>) = ledger w" "ledger (w\<lparr>pf_paymentEvents := es\<rparr>) = ledger w"
  by (simp_all add: ledger_def queueGatewayAction_def upd_subscriptions_def raise_alert_def upd_org_def
      applyPlanLimits_def restore_subscriptions_def split: option.splits)

lemma ledger_mail [simp]: "ledger (mail_contacts i key draft w) = ledger w"
  by (simp add: mail_contacts_shape keyed_mail_def queueMail_def ledger_def split: list.split)

lemma ledger_activate [simp]: "ledger (snd (activateManualSubscription j p ids w)) = ledger w"
proof (cases "normalizePlanCode (pf_catalogue w) p")
  case (Inl e)
  then show ?thesis by (simp add: activateManualSubscription_def)
next
  case (Inr code)
  show ?thesis
  proof (cases "current_pin w code")
    case None
    with Inr show ?thesis by (simp add: activateManualSubscription_def Let_def)
  next
    case (Some pin)
    show ?thesis
      unfolding activateManualSubscription_def Inr sum.case Let_def Some option.case
      by (simp only: snd_conv if_distrib [of ledger] if_distrib [of snd] ledger_frames if_cancel split: option.split) simp
  qed
qed

lemma ledger_markFailed [simp]: "ledger (snd (markPaymentFailed j reason w)) = ledger w"
  by (simp add: markPaymentFailed_def Let_def)

lemma ledger_cancel [simp]: "ledger (snd (cancelCurrentSubscription remote b j w)) = ledger w"
  by (simp add: cancelCurrentSubscription_def split: option.split)

lemma ledger_park [simp]: "ledger (park j s r w) = ledger w"
  by (simp add: park_def split: option.split)

lemma ledger_fromEvent [simp]: "ledger (snd (activateFromPaymentEvent j p ids w)) = ledger w"
  using fromEvent_cases [of j p ids w] by auto

lemma ledger_webhook [simp]: "ledger (snd (handlePaymentWebhook remote ev w)) = ledger w"
  by (simp add: handlePaymentWebhook_def Let_def split: payment_kind.split)

lemma ledger_clear [simp]: "ledger (snd (clear_one now row acc)) = ledger (snd acc)"
  by (simp add: clear_one_def Let_def split: prod.split)

lemma ledger_overdue [simp]: "ledger (snd (overdue_one now g i acc)) = ledger (snd acc)"
  by (simp add: overdue_one_def warn_one_def suspend_one_def Let_def split: prod.split option.split)

interpretation ledger_repair: repair_frame "\<lambda>w. ledger w = l" for l
  by unfold_locales simp_all

lemma ledger_reconcileBilling [simp]: "ledger (snd (reconcileBilling checkout w)) = ledger w"
  by (rule ledger_repair.keep_reconcile) simp

lemma ledger_fold:
  assumes "\<And>x acc. ledger (snd (f x acc)) = ledger (snd acc)"
  shows "ledger (snd (fold f xs acc)) = ledger (snd acc)"
  using assms by (induction xs arbitrary: acc) simp_all

lemma ledger_billing_pass [simp]: "ledger (billing_pass checkout w) = ledger w"
  by (simp add: billing_pass_def runDunning_def Let_def ledger_fold)

section \<open>The books\<close>

definition received :: "nat \<Rightarrow> receipt list \<Rightarrow> int" where
  "received n rs = sum_list (map rc_amountCents (filter (\<lambda>r. rc_invoiceId r = n) rs))"

definition invoice_ok :: "receipt list \<Rightarrow> invoice \<Rightarrow> bool" where
  "invoice_ok rs v \<longleftrightarrow>
     iv_amountPaidCents v = received (iv_id v) rs \<and> iv_amountPaidCents v \<le> max 0 (iv_amountDueCents v)
     \<and> (iv_status v = INV_PAID \<longrightarrow> iv_amountPaidCents v = iv_amountDueCents v)
     \<and> (iv_status v = INV_VOID \<longrightarrow> iv_amountPaidCents v = 0)"

text \<open>A reference ends in a number the sequence of its organization has given out.\<close>

definition issued :: "nat \<Rightarrow> jstr \<Rightarrow> bool" where
  "issued n ref \<longleftrightarrow> (\<exists>p m. ref = p @ lit ''-'' @ pad 4 (int m) \<and> m \<le> n)"

definition ledger_ok :: "int \<times> invoice list \<times> receipt list \<times> (jstr \<Rightarrow> jstr \<Rightarrow> nat) \<Rightarrow> bool" where
  "ledger_ok l \<longleftrightarrow> (case l of (_, vs, rs, sq) \<Rightarrow>
     map iv_id vs = [0..<length vs]
     \<and> (\<forall>v \<in> set vs. invoice_ok rs v \<and> issued (sq (iv_organizationId v) (SEQUENCE_KIND INV)) (iv_reference v))
     \<and> (\<forall>r \<in> set rs. rc_invoiceId r < length vs \<and> 0 < rc_amountCents r)
     \<and> distinct (map (\<lambda>v. (iv_organizationId v, iv_reference v)) vs) \<and> distinct (map rc_reference rs))"

lemma pad_digits: "list_all is_digit (pad n k)"
  by (simp add: pad_def Let_def list_all_dec_digits) (simp add: list_all_iff is_digit_def)

lemma digits_value_zeros: "digits_value (replicate n 48 @ ds) = digits_value ds"
  by (induction n) (simp_all add: digits_value_def)

lemma digits_value_pad [simp]: "digits_value (pad n (int m)) = m"
  by (simp add: pad_def Let_def digits_value_zeros)

lemma takeWhile_sep: "c \<notin> set a \<Longrightarrow> takeWhile (\<lambda>x. x \<noteq> c) (a @ c # b) = a"
  by (induction a) auto

lemma split_last_sep:
  assumes "p @ [c] @ a = q @ [c] @ b" and "c \<notin> set a" "c \<notin> set b"
  shows "a = b"
proof -
  from assms(1) have "rev a @ c # rev p = rev b @ c # rev q" by (metis append_Cons append_Nil append_assoc rev_append rev_singleton_conv)
  with takeWhile_sep [of c "rev a" "rev p"] takeWhile_sep [of c "rev b" "rev q"] assms(2,3) show ?thesis by simp
qed

lemma reference_number:
  assumes "p @ lit ''-'' @ pad 4 (int m) = q @ lit ''-'' @ pad 4 (int m')"
  shows "m = m'"
proof -
  have no_sep: "45 \<notin> set (pad 4 k)" for k
    using pad_digits [of 4 k] by (auto simp: list_all_iff is_digit_def)
  have "pad 4 (int m) = pad 4 (int m')"
    by (rule split_last_sep [where c = 45, OF _ no_sep no_sep]) (use assms in \<open>simp add: lit_def\<close>)
  then show ?thesis by (metis digits_value_pad)
qed

lemma nextReference_ledger:
  assumes "nextReference k i w = (ref, w1)"
  shows "\<exists>p. ref = p @ lit ''-'' @ pad 4 (int (pf_sequences w i (SEQUENCE_KIND k) + 1))
     \<and> ledger w1 = (pf_now w, pf_invoices w, pf_receipts w,
          (pf_sequences w)(i := (pf_sequences w i)(SEQUENCE_KIND k := pf_sequences w i (SEQUENCE_KIND k) + 1)))"
  using assms by (auto simp: nextReference_def nextOrgSequence_def Let_def ledger_def split: prod.splits)

lemma issued_mono: "issued m ref \<Longrightarrow> m \<le> n \<Longrightarrow> issued n ref"
  by (auto simp: issued_def intro: order_trans)

lemma issued_fresh: "issued n ref \<Longrightarrow> ref \<noteq> p @ lit ''-'' @ pad 4 (int (n + 1))"
  by (auto simp: issued_def simp del: of_nat_add of_nat_Suc dest!: reference_number)

lemma received_snoc: "received n (rs @ [r]) = received n rs + (if rc_invoiceId r = n then rc_amountCents r else 0)"
  by (simp add: received_def)

lemma received_none: "\<forall>r \<in> set rs. rc_invoiceId r \<noteq> n \<Longrightarrow> received n rs = 0"
  by (induction rs) (simp_all add: received_def)

lemma received_nonneg: "\<forall>r \<in> set rs. 0 < rc_amountCents r \<Longrightarrow> 0 \<le> received n rs"
  by (induction rs) (simp_all add: received_def)

lemma ledger_okE:
  assumes "ledger_ok (ledger w)"
  obtains "map iv_id (pf_invoices w) = [0..<length (pf_invoices w)]"
    and "\<And>v. v \<in> set (pf_invoices w) \<Longrightarrow> invoice_ok (pf_receipts w) v"
    and "\<And>v. v \<in> set (pf_invoices w) \<Longrightarrow> issued (pf_sequences w (iv_organizationId v) (SEQUENCE_KIND INV)) (iv_reference v)"
    and "\<forall>r \<in> set (pf_receipts w). rc_invoiceId r < length (pf_invoices w)"
    and "\<forall>r \<in> set (pf_receipts w). 0 < rc_amountCents r"
    and "distinct (map (\<lambda>v. (iv_organizationId v, iv_reference v)) (pf_invoices w))"
    and "distinct (map rc_reference (pf_receipts w))"
  using assms by (auto simp: ledger_ok_def ledger_def)

lemma ids_inj:
  assumes "map iv_id vs = [0..<length vs]" "v \<in> set vs" "v' \<in> set vs" "iv_id v = iv_id v'"
  shows "v = v'"
proof -
  from assms(1) have "distinct (map iv_id vs)" by simp
  with assms(2-) show ?thesis by (auto simp: distinct_map dest: inj_onD)
qed

lemma ids_below: "map iv_id vs = [0..<length vs] \<Longrightarrow> v \<in> set vs \<Longrightarrow> iv_id v < length vs"
  by (metis atLeastLessThan_iff image_eqI list.set_map set_upt)

lemma create_keeps_books:
  assumes ok: "ledger_ok (ledger w)"
  shows "ledger_ok (ledger (createInvoice i amount currency dueAt w))"
  using ok
proof (rule ledger_okE)
  obtain ref w1 where r: "nextReference INV i w = (ref, w1)" by fastforce
  from nextReference_ledger [OF r] obtain p where
    p: "ref = p @ lit ''-'' @ pad 4 (int (pf_sequences w i (SEQUENCE_KIND INV) + 1))"
    and l: "pf_invoices w1 = pf_invoices w" "pf_receipts w1 = pf_receipts w"
      "pf_sequences w1 = (pf_sequences w)(i := (pf_sequences w i)(SEQUENCE_KIND INV := pf_sequences w i (SEQUENCE_KIND INV) + 1))"
    by (auto simp: ledger_def)
  assume b: "map iv_id (pf_invoices w) = [0..<length (pf_invoices w)]"
    "\<And>v. v \<in> set (pf_invoices w) \<Longrightarrow> invoice_ok (pf_receipts w) v"
    "\<And>v. v \<in> set (pf_invoices w) \<Longrightarrow> issued (pf_sequences w (iv_organizationId v) (SEQUENCE_KIND INV)) (iv_reference v)"
    "\<forall>r \<in> set (pf_receipts w). rc_invoiceId r < length (pf_invoices w)" "\<forall>r \<in> set (pf_receipts w). 0 < rc_amountCents r"
    "distinct (map (\<lambda>v. (iv_organizationId v, iv_reference v)) (pf_invoices w))" "distinct (map rc_reference (pf_receipts w))"
  from b(4) have "received (length (pf_invoices w)) (pf_receipts w) = 0" by (intro received_none) auto
  then have new: "invoice_ok (pf_receipts w)
      \<lparr>iv_id = length (pf_invoices w), iv_organizationId = i, iv_reference = ref, iv_status = INV_OPEN,
        iv_amountDueCents = amount, iv_amountPaidCents = 0, iv_currency = currency, iv_dueAt = dueAt, iv_paidAt = None\<rparr>"
    by (simp add: invoice_ok_def)
  have fresh: "(i, ref) \<notin> (\<lambda>v. (iv_organizationId v, iv_reference v)) ` set (pf_invoices w)"
  proof
    assume "(i, ref) \<in> (\<lambda>v. (iv_organizationId v, iv_reference v)) ` set (pf_invoices w)"
    then obtain v where "v \<in> set (pf_invoices w)" "iv_organizationId v = i" "iv_reference v = ref" by auto
    with issued_fresh [OF b(3), of v p] show False unfolding p by simp
  qed
  have "issued (pf_sequences w i (SEQUENCE_KIND INV) + 1) ref" unfolding p issued_def by blast
  moreover have "issued (pf_sequences w1 (iv_organizationId v) (SEQUENCE_KIND INV)) (iv_reference v)"
    if "v \<in> set (pf_invoices w)" for v
    using issued_mono [OF b(3) [OF that]] by (simp add: l)
  moreover have "rc_invoiceId r < Suc (length (pf_invoices w))" if "r \<in> set (pf_receipts w)" for r
    using b(4) that by auto
  ultimately show ?thesis
    using b(1,2,5,6,7) fresh new unfolding ledger_ok_def ledger_def createInvoice_def r
    by (simp add: l)
qed

text \<open>A row rewritten under its id: its own part of the invariant, and nobody else's, is to be shown.\<close>

lemma rewrite_keeps_books:
  assumes ids: "map iv_id (pf_invoices w) = [0..<length (pf_invoices w)]" and v: "v \<in> set (pf_invoices w)"
    and same: "\<And>x. iv_id (f x) = iv_id x \<and> iv_organizationId (f x) = iv_organizationId x \<and> iv_reference (f x) = iv_reference x"
    and mine: "invoice_ok (pf_receipts w) (f v)"
    and others: "\<And>x. x \<in> set (pf_invoices w) \<Longrightarrow> x \<noteq> v \<Longrightarrow> invoice_ok (pf_receipts w) x"
    and refs: "\<And>x. x \<in> set (pf_invoices w) \<Longrightarrow> issued (pf_sequences w (iv_organizationId x) (SEQUENCE_KIND INV)) (iv_reference x)"
    and receipts: "\<forall>r \<in> set (pf_receipts w). rc_invoiceId r < length (pf_invoices w)" "\<forall>r \<in> set (pf_receipts w). 0 < rc_amountCents r"
      "distinct (map rc_reference (pf_receipts w))"
    and uniq: "distinct (map (\<lambda>v. (iv_organizationId v, iv_reference v)) (pf_invoices w))"
  shows "ledger_ok (ledger (upd_invoice (iv_id v) f w))"
proof -
  let ?g = "\<lambda>x. if iv_id x = iv_id v then f x else x"
  have rows: "pf_invoices (upd_invoice (iv_id v) f w) = map ?g (pf_invoices w)"
    "pf_receipts (upd_invoice (iv_id v) f w) = pf_receipts w" "pf_sequences (upd_invoice (iv_id v) f w) = pf_sequences w"
    by (simp_all add: upd_invoice_def)
  have keys: "map iv_id (map ?g xs) = map iv_id xs"
    "map (\<lambda>x. (iv_organizationId x, iv_reference x)) (map ?g xs) = map (\<lambda>x. (iv_organizationId x, iv_reference x)) xs" for xs
    using same by simp_all
  have all: "invoice_ok (pf_receipts w) (?g x)
      \<and> issued (pf_sequences w (iv_organizationId (?g x)) (SEQUENCE_KIND INV)) (iv_reference (?g x))"
    if "x \<in> set (pf_invoices w)" for x
    using mine others [OF that] ids_inj [OF ids that v] refs [OF that] same by auto
  have "\<forall>x \<in> set (map ?g (pf_invoices w)). invoice_ok (pf_receipts w) x
      \<and> issued (pf_sequences w (iv_organizationId x) (SEQUENCE_KIND INV)) (iv_reference x)"
    unfolding set_map by (intro ballI, elim imageE) (simp only: all)
  then show ?thesis
    unfolding ledger_ok_def ledger_def prod.case rows keys length_map using ids receipts uniq by (intro conjI) simp_all
qed

lemma void_keeps_books:
  assumes ok: "ledger_ok (ledger w)" and void: "voidInvoice i n w = Inr w'"
  shows "ledger_ok (ledger w')"
  using ok
proof (rule ledger_okE)
  assume b: "map iv_id (pf_invoices w) = [0..<length (pf_invoices w)]"
    "\<And>v. v \<in> set (pf_invoices w) \<Longrightarrow> invoice_ok (pf_receipts w) v"
    "\<And>v. v \<in> set (pf_invoices w) \<Longrightarrow> issued (pf_sequences w (iv_organizationId v) (SEQUENCE_KIND INV)) (iv_reference v)"
    "\<forall>r \<in> set (pf_receipts w). rc_invoiceId r < length (pf_invoices w)" "\<forall>r \<in> set (pf_receipts w). 0 < rc_amountCents r"
    "distinct (map (\<lambda>v. (iv_organizationId v, iv_reference v)) (pf_invoices w))" "distinct (map rc_reference (pf_receipts w))"
  from void obtain v where v: "v \<in> set (pf_invoices w)" "\<not> iv_amountPaidCents v > 0"
    and w': "w' = upd_invoice (iv_id v) (\<lambda>v. v\<lparr>iv_status := INV_VOID\<rparr>) w"
    by (auto simp: voidInvoice_def find_invoice_def find_Some_iff in_set_conv_nth split: option.splits if_splits)
  have "iv_amountPaidCents v = 0"
    using v b(2) [OF v(1)] received_nonneg [OF b(5)] by (auto simp: invoice_ok_def intro: antisym)
  then have mine: "invoice_ok (pf_receipts w) (v\<lparr>iv_status := INV_VOID\<rparr>)"
    using b(2) [OF v(1)] by (simp add: invoice_ok_def)
  show ?thesis unfolding w' by (rule rewrite_keeps_books) (use b mine v(1) in simp_all)
qed

lemma pay_keeps_books:
  assumes ok: "ledger_ok (ledger w)" and pay: "recordPayment i n amount how paidAt w = Inr w'"
  shows "ledger_ok (ledger w')"
  using ok
proof (rule ledger_okE)
  assume b: "map iv_id (pf_invoices w) = [0..<length (pf_invoices w)]"
    "\<And>v. v \<in> set (pf_invoices w) \<Longrightarrow> invoice_ok (pf_receipts w) v"
    "\<And>v. v \<in> set (pf_invoices w) \<Longrightarrow> issued (pf_sequences w (iv_organizationId v) (SEQUENCE_KIND INV)) (iv_reference v)"
    "\<forall>r \<in> set (pf_receipts w). rc_invoiceId r < length (pf_invoices w)" "\<forall>r \<in> set (pf_receipts w). 0 < rc_amountCents r"
    "distinct (map (\<lambda>v. (iv_organizationId v, iv_reference v)) (pf_invoices w))" "distinct (map rc_reference (pf_receipts w))"
  from pay obtain v where check: "payment_check i n amount w = Inr v" and commit: "payment_commit i v amount how paidAt w = Inr w'"
    by (auto simp: recordPayment_def split: sum.splits)
  from check have v: "v \<in> set (pf_invoices w)" "0 < amount" "amount \<le> iv_amountDueCents v - iv_amountPaidCents v"
      "iv_status v \<noteq> INV_VOID"
    by (auto simp: payment_check_def find_invoice_def find_Some_iff in_set_conv_nth Let_def split: option.splits if_splits)
  obtain ref w1 where r: "nextReference RCPT i w = (ref, w1)" by fastforce
  from nextReference_ledger [OF r] have l: "pf_invoices w1 = pf_invoices w" "pf_receipts w1 = pf_receipts w"
      "pf_sequences w1 = (pf_sequences w)(i := (pf_sequences w i)(SEQUENCE_KIND RCPT := pf_sequences w i (SEQUENCE_KIND RCPT) + 1))"
    by (auto simp: ledger_def)
  let ?r = "\<lparr>rc_organizationId = i, rc_invoiceId = iv_id v, rc_reference = ref, rc_amountCents = amount,
      rc_currency = iv_currency v, rc_method = how, rc_paidAt = paidAt\<rparr>"
  let ?paid = "iv_amountPaidCents v + amount"
  let ?w2 = "w1\<lparr>pf_receipts := pf_receipts w @ [?r]\<rparr>"
  let ?f = "\<lambda>x. x\<lparr>iv_amountPaidCents := ?paid, iv_status := (if ?paid \<ge> iv_amountDueCents v then INV_PAID else iv_status v),
                 iv_paidAt := (if ?paid \<ge> iv_amountDueCents v then Some paidAt else iv_paidAt v)\<rparr>"
  from commit have new: "ref \<notin> rc_reference ` set (pf_receipts w)" and w': "w' = upd_invoice (iv_id v) ?f ?w2"
    by (auto simp: payment_commit_def Let_def r l split: if_splits)
  have seq: "pf_sequences w1 j (SEQUENCE_KIND INV) = pf_sequences w j (SEQUENCE_KIND INV)" for j
    by (simp add: l SEQUENCE_KIND_def lit_def)
  have mine: "invoice_ok (pf_receipts ?w2) (?f v)"
    using b(2) [OF v(1)] v by (auto simp: invoice_ok_def received_snoc)
  have others: "invoice_ok (pf_receipts ?w2) x" if "x \<in> set (pf_invoices ?w2)" "x \<noteq> v" for x
    using b(2) [of x] ids_inj [OF b(1) _ v(1), of x] that by (auto simp: invoice_ok_def received_snoc l)
  show ?thesis
    unfolding w'
    by (rule rewrite_keeps_books; (rule mine | rule others)?)
      (use b v new seq ids_below [OF b(1) v(1)] in \<open>simp_all add: l\<close>)
qed

lemma route_ledger:
  assumes "pay_invoice_route i n amount how paidAt w = Inr w'"
  shows "\<exists>w1. recordPayment i n amount (take 40 how) paidAt w = Inr w1 \<and> ledger w' = ledger w1"
  using assms by (auto simp: pay_invoice_route_def Let_def split: sum.splits option.splits if_splits)

lemma route_answers:
  "recordPayment i n amount (take 40 how) paidAt w = Inr w1 \<Longrightarrow> \<exists>w'. pay_invoice_route i n amount how paidAt w = Inr w'"
  by (simp add: pay_invoice_route_def Let_def split: option.split)

interpretation books: safe_system "billing_step remote" "\<lambda>w. ledger_ok (ledger w)" for remote
proof unfold_locales
  fix w e assume ok: "ledger_ok (ledger w)"
  show "ledger_ok (ledger (billing_step remote e w))"
  proof (cases e)
    case (Pay_Invoice j n a m p)
    with ok show ?thesis by (auto split: sum.splits dest!: route_ledger intro: pay_keeps_books)
  next
    case (Void_Invoice j n)
    with ok show ?thesis by (auto split: sum.splits intro: void_keeps_books)
  next
    case (New_Invoice j a c d)
    with ok show ?thesis by (simp add: create_keeps_books)
  next
    case (Tick t)
    with ok show ?thesis by (simp add: ledger_ok_def ledger_def)
  qed (simp_all add: ok)
qed

lemma received_zero:
  assumes "received n rs = 0" and "\<forall>r \<in> set rs. 0 < rc_amountCents r"
  shows "\<forall>r \<in> set rs. rc_invoiceId r \<noteq> n"
  using assms
proof (induction rs)
  case (Cons x rs)
  have "0 \<le> received n rs" using Cons.prems(2) by (intro received_nonneg) simp
  moreover have "received n (x # rs) = (if rc_invoiceId x = n then rc_amountCents x else 0) + received n rs"
    by (simp add: received_def)
  ultimately have "rc_invoiceId x \<noteq> n" "received n rs = 0" using Cons.prems by (auto split: if_splits)
  with Cons.IH Cons.prems(2) show ?case by simp
qed simp

lemma invoice_ok_reads:
  assumes "invoice_ok rs v" and "\<forall>r \<in> set rs. 0 < rc_amountCents r"
  shows "iv_amountPaidCents v = received (iv_id v) rs \<and> iv_amountPaidCents v \<le> max 0 (iv_amountDueCents v)
    \<and> (iv_status v = INV_PAID \<longrightarrow> iv_amountPaidCents v = iv_amountDueCents v)
    \<and> (iv_status v = INV_VOID \<longrightarrow> (\<forall>r \<in> set rs. rc_invoiceId r \<noteq> iv_id v))"
  using assms(1) received_zero [OF _ assms(2)] by (auto simp: invoice_ok_def)


definition a_sale :: "billing_event list" where
  "a_sale = [New_Invoice (lit ''o1'') 4900 (lit ''USD'') None, Pay_Invoice (lit ''o1'') 0 4900 (lit ''cash'') 5]"

lemma first_invoice:
  assumes "pf_invoices w = []"
  shows "\<exists>ref. pf_invoices (createInvoice i a c d w) =
    [\<lparr>iv_id = 0, iv_organizationId = i, iv_reference = ref, iv_status = INV_OPEN, iv_amountDueCents = a,
      iv_amountPaidCents = 0, iv_currency = c, iv_dueAt = d, iv_paidAt = None\<rparr>]"
    and "pf_receipts (createInvoice i a c d w) = pf_receipts w"
  using assms nextReference_fields [of INV i w] by (auto simp: createInvoice_def split: prod.splits)


section \<open>Reading a payment\<close>

lemma check_reads:
  "payment_check i n amount w = Inr v \<Longrightarrow> v \<in> set (pf_invoices w) \<and> iv_id v = n \<and> iv_organizationId v = i"
  by (auto simp: payment_check_def find_invoice_def find_Some_iff in_set_conv_nth Let_def split: option.splits if_splits)

lemma commit_writes:
  assumes "payment_commit i v amount how paidAt w = Inr w'"
  shows "received n (pf_receipts w') = received n (pf_receipts w) + (if iv_id v = n then amount else 0)"
    and "\<forall>x \<in> set (pf_invoices w'). iv_id x = iv_id v \<longrightarrow> iv_amountPaidCents x = iv_amountPaidCents v + amount
          \<and> iv_status x = (if iv_amountPaidCents v + amount \<ge> iv_amountDueCents v then INV_PAID else iv_status v)"
  using assms nextReference_fields [of RCPT i w]
  by (auto simp: payment_commit_def Let_def upd_invoice_def received_snoc split: prod.splits if_splits)

section \<open>Ids that end alike\<close>

definition year_of :: "int \<Rightarrow> int" where
  "year_of t = (case civil_date (t div 86400000) of (y, _, _) \<Rightarrow> y)"

definition in_year :: "int \<Rightarrow> billing_event \<Rightarrow> bool" where
  "in_year y e = (case e of Tick t \<Rightarrow> year_of t = y | _ \<Rightarrow> True)"

text \<open>The reference the organization's next receipt would carry.\<close>

definition next_receipt :: "jstr \<Rightarrow> platform \<Rightarrow> jstr" where "next_receipt i w = fst (nextReference RCPT i w)"

lemma next_receipt_reads:
  "next_receipt i w = lit ''RCPT'' @ lit ''-'' @ dec_digits (nat (year_of (pf_now w))) @ lit ''-''
     @ js_upper (slice_last 4 i) @ lit ''-'' @ pad 4 (int (pf_sequences w i (SEQUENCE_KIND RCPT) + 1))"
  by (simp add: next_receipt_def nextReference_def nextOrgSequence_def year_of_def kind_prefix_def Let_def split: prod.split)

definition blocked :: "int \<Rightarrow> jstr \<Rightarrow> platform \<Rightarrow> bool" where
  "blocked y i w \<longleftrightarrow> year_of (pf_now w) = y \<and> next_receipt i w \<in> rc_reference ` set (pf_receipts w)"

lemma commit_ledger:
  assumes "payment_commit j v amount how paidAt w = Inr w'"
  shows "\<exists>r. rc_reference r = next_receipt j w \<and> pf_receipts w' = pf_receipts w @ [r]
    \<and> pf_now w' = pf_now w \<and> (\<forall>i. i \<noteq> j \<longrightarrow> pf_sequences w' i = pf_sequences w i)
    \<and> pf_sequences w' j (SEQUENCE_KIND RCPT) = pf_sequences w j (SEQUENCE_KIND RCPT) + 1"
proof -
  obtain ref w1 where r: "nextReference RCPT j w = (ref, w1)" by fastforce
  with nextReference_ledger [OF r] assms show ?thesis
    by (auto simp: payment_commit_def Let_def upd_invoice_def ledger_def next_receipt_def split: if_splits)
qed

lemma commit_succeeds:
  assumes "next_receipt j w \<notin> rc_reference ` set (pf_receipts w)"
  shows "\<exists>w'. payment_commit j v amount how paidAt w = Inr w'"
proof -
  obtain ref w1 where r: "nextReference RCPT j w = (ref, w1)" by fastforce
  with assms nextReference_fields(6) [of RCPT j w] show ?thesis
    by (auto simp: payment_commit_def Let_def next_receipt_def)
qed

lemma blocked_payment:
  assumes "blocked y i w"
  shows "recordPayment i n amount how paidAt w
    = (case payment_check i n amount w of Inl e \<Rightarrow> Inl e | Inr _ \<Rightarrow> Inl ReferenceTaken)"
proof -
  obtain ref w1 where r: "nextReference RCPT i w = (ref, w1)" by fastforce
  have "ref \<in> rc_reference ` set (pf_receipts w)" "pf_receipts w1 = pf_receipts w"
    using assms nextReference_fields(6) [of RCPT i w] by (simp_all add: blocked_def next_receipt_def r)
  then have "payment_commit i v amount how paidAt w = Inl ReferenceTaken" for v
    by (auto simp: payment_commit_def Let_def r)
  then show ?thesis by (simp add: recordPayment_def split: sum.split)
qed

lemma payment_ledger:
  assumes "recordPayment j n amount how paidAt w = Inr w'"
  shows "\<exists>r. rc_reference r = next_receipt j w \<and> pf_receipts w' = pf_receipts w @ [r]
    \<and> pf_now w' = pf_now w \<and> (\<forall>i. i \<noteq> j \<longrightarrow> pf_sequences w' i = pf_sequences w i)"
  using assms by (auto simp: recordPayment_def dest: commit_ledger split: sum.splits)

lemma blocked_ledger: "ledger w' = ledger w \<Longrightarrow> blocked y i w' = blocked y i w"
  by (simp add: blocked_def next_receipt_reads ledger_def)

lemma blocked_grows:
  assumes "blocked y i w" and "pf_now w' = pf_now w" "pf_sequences w' i (SEQUENCE_KIND RCPT) = pf_sequences w i (SEQUENCE_KIND RCPT)"
    and "set (pf_receipts w) \<subseteq> set (pf_receipts w')"
  shows "blocked y i w'"
  using assms by (auto simp: blocked_def next_receipt_reads)

lemma blocked_step:
  assumes b: "blocked y i w" and "in_year y e"
  shows "blocked y i (billing_step remote e w)"
proof (cases e)
  case (Tick t)
  with assms show ?thesis by (auto simp: blocked_def next_receipt_reads in_year_def)
next
  case (Pay_Invoice j n a m p)
  show ?thesis
  proof (cases "pay_invoice_route j n a m p w")
    case (Inr w')
    from route_ledger [OF Inr] obtain w1 where w1: "recordPayment j n a (take 40 m) p w = Inr w1" "ledger w' = ledger w1" by blast
    with blocked_payment [OF b, of n a "take 40 m" p] have "i \<noteq> j" by (auto split: sum.splits)
    with payment_ledger [OF w1(1)] have k: "pf_now w1 = pf_now w"
      "pf_sequences w1 i (SEQUENCE_KIND RCPT) = pf_sequences w i (SEQUENCE_KIND RCPT)"
      "set (pf_receipts w) \<subseteq> set (pf_receipts w1)" by auto
    have "blocked y i w1" by (rule blocked_grows [OF b k])
    with blocked_ledger [OF w1(2)] Inr Pay_Invoice show ?thesis by simp
  qed (simp add: Pay_Invoice b)
next
  case (Void_Invoice j n)
  have "blocked y i (upd_invoice n f w)" for f
    by (rule blocked_grows [OF b]) (simp_all add: upd_invoice_def)
  with b Void_Invoice show ?thesis by (auto simp: voidInvoice_def split: option.split)
next
  case (New_Invoice j a c d)
  obtain ref w1 where r: "nextReference INV j w = (ref, w1)" by fastforce
  have "SEQUENCE_KIND RCPT \<noteq> SEQUENCE_KIND INV" by (simp add: SEQUENCE_KIND_def lit_def)
  with nextReference_ledger [OF r] have "blocked y i (createInvoice j a c d w)"
    by (intro blocked_grows [OF b]) (auto simp: createInvoice_def r ledger_def)
  with New_Invoice show ?thesis by simp
qed (auto intro: blocked_ledger [THEN iffD2, OF _ b])

text \<open>A receipt's reference carries the last four characters of the organization's id, in capitals, and is
  unique over the whole platform. Of two organizations whose ids end alike and that have issued equally
  many receipts, the one that is paid first shuts the other out: whatever happens for the rest of the
  year, no payment of the other can be recorded.\<close>
theorem shared_tail_blocks_receipts:
  assumes "i \<noteq> j" and tail: "js_upper (slice_last 4 i) = js_upper (slice_last 4 j)"
    and level: "pf_sequences w i (SEQUENCE_KIND RCPT) = pf_sequences w j (SEQUENCE_KIND RCPT)"
    and paid: "recordPayment j m b how t w = Inr w1"
    and year: "\<forall>e \<in> set es. in_year (year_of (pf_now w)) e"
    and w2: "w2 = fold (billing_step remote) es w1"
  shows "recordPayment i n a how' t' w2 = (case payment_check i n a w2 of Inl e \<Rightarrow> Inl e | Inr _ \<Rightarrow> Inl ReferenceTaken)"
proof -
  from payment_ledger [OF paid] assms(1) have "blocked (year_of (pf_now w)) i w1"
    by (auto simp: blocked_def next_receipt_reads tail level)
  then have "blocked (year_of (pf_now w)) i w2"
    unfolding w2 by (rule fold_keeps [rotated]) (use year blocked_step in blast)
  then show ?thesis by (rule blocked_payment)
qed

definition tail_invoice :: invoice where
  "tail_invoice = late_invoice\<lparr>iv_organizationId := lit ''cma1x7k9''\<rparr>"

theorem shared_tail_blocks_receipts_witness:
  "\<exists>w1 v. recordPayment (lit ''cma1x7k9'') 0 4900 (lit ''cash'') 1900 (sample_platform\<lparr>pf_invoices := [tail_invoice]\<rparr>) = Inr w1
     \<and> payment_check (lit ''cmb2x7k9'') 1 100 (billing_step (\<lambda>_ _. True) (New_Invoice (lit ''cmb2x7k9'') 100 (lit ''USD'') None) w1) = Inr v
     \<and> recordPayment (lit ''cmb2x7k9'') 1 100 (lit ''card'') 2000
         (billing_step (\<lambda>_ _. True) (New_Invoice (lit ''cmb2x7k9'') 100 (lit ''USD'') None) w1) = Inl ReferenceTaken"
proof -
  let ?w = "sample_platform\<lparr>pf_invoices := [tail_invoice]\<rparr>" and ?e = "New_Invoice (lit ''cmb2x7k9'') 100 (lit ''USD'') None"
  have inv: "pf_invoices ?w = [tail_invoice]" "pf_receipts ?w = []" "iv_amountPaidCents tail_invoice = 0"
    "iv_status tail_invoice = INV_OPEN" "0 < iv_amountDueCents tail_invoice"
    "iv_organizationId tail_invoice = lit ''cma1x7k9''" "iv_id tail_invoice = 0" "iv_amountDueCents tail_invoice = 4900"
    by (simp_all add: sample_platform_def tail_invoice_def late_invoice_def)
  from settled_in_full [OF inv(1-5), of "lit ''cash''" 1900] obtain w1 v1 where
    w1: "recordPayment (lit ''cma1x7k9'') 0 4900 (lit ''cash'') 1900 ?w = Inr w1" "pf_invoices w1 = [v1]" "iv_id v1 = 0"
    by (auto simp: inv(6-8))
  have apart: "lit ''cmb2x7k9'' \<noteq> lit ''cma1x7k9''" and tail: "js_upper (slice_last 4 (lit ''cmb2x7k9'')) = js_upper (slice_last 4 (lit ''cma1x7k9''))"
    by (simp_all add: lit_def slice_last_def)
  have level: "pf_sequences ?w (lit ''cmb2x7k9'') (SEQUENCE_KIND RCPT) = pf_sequences ?w (lit ''cma1x7k9'') (SEQUENCE_KIND RCPT)"
    by (simp add: sample_platform_def)
  have "\<exists>v. payment_check (lit ''cmb2x7k9'') 1 100 (billing_step (\<lambda>_ _. True) ?e w1) = Inr v"
    using w1(2,3) nextReference_fields(3) [of INV "lit ''cmb2x7k9''" w1]
    by (cases "nextReference INV (lit ''cmb2x7k9'') w1") (simp add: payment_check_def find_invoice_def createInvoice_def)
  then obtain v where v: "payment_check (lit ''cmb2x7k9'') 1 100 (billing_step (\<lambda>_ _. True) ?e w1) = Inr v" by blast
  have es: "billing_step (\<lambda>_ _. True) ?e w1 = fold (billing_step (\<lambda>_ _. True)) [?e] w1" by simp
  from shared_tail_blocks_receipts [OF apart tail level w1(1) _ es, of 1 100 "lit ''card''" 2000]
  have "recordPayment (lit ''cmb2x7k9'') 1 100 (lit ''card'') 2000 (billing_step (\<lambda>_ _. True) ?e w1) = Inl ReferenceTaken"
    unfolding v by (simp add: in_year_def)
  with w1(1) v show ?thesis by blast
qed

section \<open>Two payments at once\<close>

text \<open>The balance is checked before the transaction that takes the payment, and what the transaction writes
  is computed from what was read then. When two payments of one invoice are both checked before either is
  written, both get their receipt, but the invoice records only the later one: it has been paid twice and
  reads as paid once.\<close>
theorem interleaved_payments_lose_one:
  assumes checks: "payment_check i n a w = Inr v" "payment_check i n b w = Inr v'"
    and commits: "payment_commit i v a how t w = Inr w1" "payment_commit i v' b how' t' w1 = Inr w2"
  shows "received n (pf_receipts w2) = received n (pf_receipts w) + a + b
    \<and> (\<forall>x \<in> set (pf_invoices w2). iv_id x = n \<longrightarrow> iv_amountPaidCents x = iv_amountPaidCents v + b)"
proof -
  have "v' = v" using checks by (auto simp: payment_check_def Let_def split: option.splits if_splits)
  with check_reads [OF checks(1)] commit_writes [OF commits(1)] commit_writes [OF commits(2)] show ?thesis by simp
qed

lemma next_receipt_number: "\<exists>p. next_receipt i w = p @ lit ''-'' @ pad 4 (int (pf_sequences w i (SEQUENCE_KIND RCPT) + 1))"
  unfolding next_receipt_reads append_assoc [symmetric] by blast

lemma next_receipt_differs:
  assumes "pf_sequences w' i (SEQUENCE_KIND RCPT) = pf_sequences w i (SEQUENCE_KIND RCPT) + 1"
  shows "next_receipt i w' \<noteq> next_receipt i w"
proof
  assume same: "next_receipt i w' = next_receipt i w"
  obtain p p' where "next_receipt i w = p @ lit ''-'' @ pad 4 (int (pf_sequences w i (SEQUENCE_KIND RCPT) + 1))"
    "next_receipt i w' = p' @ lit ''-'' @ pad 4 (int (pf_sequences w' i (SEQUENCE_KIND RCPT) + 1))"
    using next_receipt_number by meson
  with same reference_number [of p' "pf_sequences w' i (SEQUENCE_KIND RCPT) + 1" p] show False by (metis assms n_not_Suc_n Suc_eq_plus1)
qed

theorem interleaved_payments_lose_one_witness:
  "\<exists>v w1 w2. payment_check (lit ''o1'') 0 4900 (late_platform ORG_ACTIVE None) = Inr v
     \<and> payment_commit (lit ''o1'') v 4900 (lit ''cash'') 1900 (late_platform ORG_ACTIVE None) = Inr w1
     \<and> payment_commit (lit ''o1'') v 4900 (lit ''card'') 1900 w1 = Inr w2
     \<and> received 0 (pf_receipts w2) = 9800
     \<and> (\<forall>x \<in> set (pf_invoices w2). iv_id x = 0 \<longrightarrow> iv_amountPaidCents x = 4900)"
proof -
  let ?w = "late_platform ORG_ACTIVE None"
  have check: "payment_check (lit ''o1'') 0 4900 ?w = Inr late_invoice"
    by (simp add: payment_check_def find_invoice_def late_invoice_def)
  from commit_succeeds [of "lit ''o1''" ?w late_invoice 4900 "lit ''cash''" 1900] obtain w1 where
    w1: "payment_commit (lit ''o1'') late_invoice 4900 (lit ''cash'') 1900 ?w = Inr w1" by auto
  from commit_ledger [OF w1] have l: "rc_reference ` set (pf_receipts w1) = {next_receipt (lit ''o1'') ?w}"
    "pf_sequences w1 (lit ''o1'') (SEQUENCE_KIND RCPT) = pf_sequences ?w (lit ''o1'') (SEQUENCE_KIND RCPT) + 1" by auto
  from commit_succeeds [of "lit ''o1''" w1 late_invoice 4900 "lit ''card''" 1900] next_receipt_differs [OF l(2)] obtain w2 where
    w2: "payment_commit (lit ''o1'') late_invoice 4900 (lit ''card'') 1900 w1 = Inr w2" unfolding l by auto
  from interleaved_payments_lose_one [OF check check w1 w2] check w1 w2 show ?thesis
    by (auto simp: received_def late_invoice_def)
qed

end
