(* ===== verification/Gateway.thy ===== *)
theory Gateway
  imports Entitlements
begin

text \<open>
  A subscriber's own WhatsApp gateway: the state machine that builds, stops and destroys it
  (\<open>modules/provisioning/gateway-provisioning.service.ts\<close>), the worker that runs its jobs and reconciles
  them (\<open>workers/gateway-provisioning.worker.ts\<close>), the request that starts it (\<open>maybeProvisionGateway\<close> of
  \<open>modules/billing/billing.service.ts\<close> with \<open>modules/channels/channel-entitlement.ts\<close>), the owner's actions
  (\<open>modules/platform/platform.routes.ts\<close>) and the health monitor (\<open>modules/gateway/health-monitor.ts\<close>).

  The container runtime, the gateway's HTTP interface and the random keys are a parameter, \<open>gateway_env\<close>:
  what the call of each step answers.
\<close>

section \<open>The outside\<close>

datatype gateway_error =
    ChannelMissing | OrgRowMissing | NoPortPair | AllocationConflict | AllocationIncomplete | CallFailed jstr
  | GuardExceeded | NoWhatsAppSession

record gateway_env =
  ge_call :: "gateway_step \<Rightarrow> jstr option"
  ge_sessionStatus :: "jstr + jstr"
  ge_host :: jstr
  ge_secret :: jstr
  ge_token :: jstr
  ge_conflicts :: nat

text \<open>A write is made or throws; what earlier writes did stays. \<open>after\<close> goes on where the first part returned.\<close>

type_synonym 'a gateway_result = "(gateway_error + 'a) \<times> platform"

definition after :: "'a gateway_result \<Rightarrow> ('a \<Rightarrow> platform \<Rightarrow> 'b gateway_result) \<Rightarrow> 'b gateway_result" where
  "after r k = (case r of (Inl e, w) \<Rightarrow> (Inl e, w) | (Inr x, w) \<Rightarrow> k x w)"

definition call :: "gateway_env \<Rightarrow> gateway_step \<Rightarrow> platform \<Rightarrow> unit gateway_result" where
  "call env step w = (case ge_call env step of None \<Rightarrow> (Inr (), w) | Some err \<Rightarrow> (Inl (CallFailed err), w))"

definition channelFor :: "jstr \<Rightarrow> platform \<Rightarrow> channel gateway_result" where
  "channelFor i w = (case pf_openwa w i of None \<Rightarrow> (Inl ChannelMissing, w) | Some ch \<Rightarrow> (Inr ch, w))"

section \<open>Provisioning\<close>

definition set_step :: "int \<Rightarrow> gateway_state \<Rightarrow> gateway_step \<Rightarrow> channel \<Rightarrow> channel" where
  "set_step now st step ch =
     ch\<lparr>ch_provisioningState := st, ch_provisioningStep := Some step, ch_failureReason := None, ch_failureStep := None,
        ch_provisioningStartedAt := (if st = GW_PROVISIONING then Some now else ch_provisioningStartedAt ch),
        ch_suspendedAt := (if st = GW_SUSPENDED then Some now else ch_suspendedAt ch)\<rparr>"

definition persistStep ::
  "jstr \<Rightarrow> gateway_state \<Rightarrow> gateway_step \<Rightarrow> org_status option \<Rightarrow> platform \<Rightarrow> unit gateway_result" where
  "persistStep i st step organizationStatus w =
     (if pf_openwa w i = None then (Inl ChannelMissing, w)
      else if organizationStatus \<noteq> None \<and> pf_orgs w i = None then (Inl OrgRowMissing, w)
      else let w1 = upd_openwa i (set_step (pf_now w) st step) w
           in (Inr (), case organizationStatus of None \<Rightarrow> w1 | Some s \<Rightarrow> upd_org i (\<lambda>og. og\<lparr>og_status := s\<rparr>) w1))"

definition PORT_START :: int where "PORT_START = 3100"
definition PORT_END :: int where "PORT_END = 3999"

function free_pair :: "int \<Rightarrow> int list \<Rightarrow> int option" where
  "free_pair candidate used =
     (if candidate < PORT_END
      then if candidate \<notin> set used \<and> candidate + 1 \<notin> set used then Some candidate else free_pair (candidate + 2) used
      else None)"
  by pat_completeness auto
termination by (relation "measure (\<lambda>(c, _). nat (PORT_END - c))") auto

declare free_pair.simps [simp del]

definition port_list :: "int option \<Rightarrow> int list" where
  "port_list p = (case p of None \<Rightarrow> [] | Some n \<Rightarrow> if n = 0 then [] else [n])"

definition channel_ports :: "channel \<Rightarrow> int list" where
  "channel_ports ch = port_list (ch_apiPort ch) @ port_list (ch_dashboardPort ch)"

definition used_ports :: "platform \<Rightarrow> int list" where
  "used_ports w = concat (map (\<lambda>i. case pf_openwa w i of None \<Rightarrow> [] | Some ch \<Rightarrow> channel_ports ch) (pf_ids w))"

definition has_port :: "int option \<Rightarrow> bool" where "has_port p \<longleftrightarrow> port_list p \<noteq> []"

definition allocated :: "channel \<Rightarrow> bool" where
  "allocated ch \<longleftrightarrow>
     has_port (ch_apiPort ch) \<and> has_port (ch_dashboardPort ch) \<and> truthy_ref (ch_deploymentName ch)
     \<and> truthy_ref (ch_dataVolumeName ch) \<and> truthy_ref (ch_redisVolumeName ch) \<and> ch_apiKeyEnc ch \<noteq> [] \<and> ch_baseUrl ch \<noteq> []"

definition allocation :: "gateway_env \<Rightarrow> jstr \<Rightarrow> int \<Rightarrow> channel \<Rightarrow> channel" where
  "allocation env slug port ch =
     ch\<lparr>ch_managed := True, ch_deploymentName := Some (lit ''rabitech-'' @ slug @ lit ''-gateway''),
        ch_apiPort := Some port, ch_dashboardPort := Some (port + 1),
        ch_dataVolumeName := Some (lit ''rabitech_'' @ slug @ lit ''_openwa_data''),
        ch_redisVolumeName := Some (lit ''rabitech_'' @ slug @ lit ''_openwa_redis''),
        ch_baseUrl := lit ''http://'' @ ge_host env @ lit '':'' @ num_str (of_int port),
        ch_apiKeyEnc := (if ch_apiKeyEnc ch = [] then ge_secret env else ch_apiKeyEnc ch),
        ch_webhookToken := (if ch_webhookToken ch = [] then ge_token env else ch_webhookToken ch)\<rparr>"

definition allocate_once :: "gateway_env \<Rightarrow> jstr \<Rightarrow> platform \<Rightarrow> unit gateway_result" where
  "allocate_once env i w =
     (case (pf_openwa w i, pf_orgs w i) of
        (Some ch, Some og) \<Rightarrow>
          if allocated ch then (Inr (), w)
          else (case free_pair PORT_START (used_ports w) of
                  None \<Rightarrow> (Inl NoPortPair, w)
                | Some port \<Rightarrow> (Inr (), upd_openwa i (allocation env (og_slug og) port) w))
      | _ \<Rightarrow> (Inl ChannelMissing, w))"

text \<open>The serializable transaction is aborted \<open>conflicts\<close> times in a row, and tried five times at most.\<close>

fun allocate_attempts :: "nat \<Rightarrow> nat \<Rightarrow> gateway_env \<Rightarrow> jstr \<Rightarrow> platform \<Rightarrow> unit gateway_result" where
  "allocate_attempts attempt 0 env i w = allocate_once env i w"
| "allocate_attempts attempt (Suc conflicts) env i w =
     (if attempt < 4 then allocate_attempts (attempt + 1) conflicts env i w else (Inl AllocationConflict, w))"

definition allocateResources :: "gateway_env \<Rightarrow> jstr \<Rightarrow> platform \<Rightarrow> unit gateway_result" where
  "allocateResources env i w = allocate_attempts 0 (ge_conflicts env) env i w"

definition deployable :: "channel \<Rightarrow> bool" where
  "deployable ch \<longleftrightarrow>
     truthy_ref (ch_deploymentName ch) \<and> has_port (ch_apiPort ch) \<and> has_port (ch_dashboardPort ch)
     \<and> truthy_ref (ch_dataVolumeName ch) \<and> truthy_ref (ch_redisVolumeName ch)"

definition with_deployment :: "gateway_env \<Rightarrow> gateway_step \<Rightarrow> channel \<Rightarrow> platform \<Rightarrow> unit gateway_result" where
  "with_deployment env step ch w = (if deployable ch then call env step w else (Inl AllocationIncomplete, w))"

definition completeAwaitingQr :: "jstr \<Rightarrow> platform \<Rightarrow> unit gateway_result" where
  "completeAwaitingQr i w =
     (if pf_openwa w i = None then (Inl ChannelMissing, w)
      else if pf_orgs w i = None then (Inl OrgRowMissing, w)
      else (Inr (), upd_org i (\<lambda>og. og\<lparr>og_status := ORG_PROVISIONING\<rparr>)
             (upd_openwa i (\<lambda>ch. ch\<lparr>ch_status := lit ''ACTIVE'', ch_provisioningState := GW_AWAITING_QR,
                ch_provisioningStep := Some AWAIT_CONNECTION, ch_provisionedAt := Some (pf_now w),
                ch_lastCheckedAt := Some (pf_now w)\<rparr>) w)))"

text \<open>One turn of the loop; \<open>True\<close> where the function returns.\<close>

definition goes_on :: "unit gateway_result \<Rightarrow> bool gateway_result" where
  "goes_on r = after r (\<lambda>_ w. (Inr False, w))"

definition provision_step :: "gateway_env \<Rightarrow> jstr \<Rightarrow> channel \<Rightarrow> platform \<Rightarrow> bool gateway_result" where
  "provision_step env i ch w =
     (case ch_provisioningStep ch of
        Some ALLOCATE_RESOURCES \<Rightarrow>
          goes_on (after (allocateResources env i w) (\<lambda>_. persistStep i GW_PROVISIONING START_GATEWAY None))
      | Some START_GATEWAY \<Rightarrow>
          goes_on (after (with_deployment env START_GATEWAY ch w) (\<lambda>_. persistStep i GW_PROVISIONING WAIT_FOR_PROVIDER None))
      | Some RESUME_GATEWAY \<Rightarrow>
          goes_on (after (with_deployment env RESUME_GATEWAY ch w) (\<lambda>_. persistStep i GW_PROVISIONING WAIT_FOR_PROVIDER None))
      | Some RESTART_GATEWAY \<Rightarrow>
          goes_on (after (with_deployment env RESTART_GATEWAY ch w) (\<lambda>_. persistStep i GW_PROVISIONING WAIT_FOR_PROVIDER None))
      | Some WAIT_FOR_PROVIDER \<Rightarrow>
          goes_on (after (call env WAIT_FOR_PROVIDER w) (\<lambda>_. persistStep i GW_PROVISIONING CREATE_SESSION None))
      | Some CREATE_SESSION \<Rightarrow>
          goes_on (after (call env CREATE_SESSION w) (\<lambda>_. persistStep i GW_PROVISIONING REGISTER_WEBHOOK None))
      | Some REGISTER_WEBHOOK \<Rightarrow>
          goes_on (after (call env REGISTER_WEBHOOK w) (\<lambda>_. persistStep i GW_PROVISIONING AWAIT_CONNECTION None))
      | Some AWAIT_CONNECTION \<Rightarrow> after (completeAwaitingQr i w) (\<lambda>_ w. (Inr True, w))
      | Some COMPLETE \<Rightarrow> (Inr True, w)
      | _ \<Rightarrow> goes_on (persistStep i GW_PROVISIONING ALLOCATE_RESOURCES (Some ORG_PROVISIONING) w))"

fun provision_loop :: "nat \<Rightarrow> gateway_env \<Rightarrow> jstr \<Rightarrow> platform \<Rightarrow> unit gateway_result" where
  "provision_loop 0 env i w = (Inl GuardExceeded, w)"
| "provision_loop (Suc n) env i w =
     after (channelFor i w) (\<lambda>ch w. after (provision_step env i ch w)
       (\<lambda>done w. if done then (Inr (), w) else provision_loop n env i w))"

definition TRANSITION_GUARD :: nat where "TRANSITION_GUARD = 12"

definition retry_step :: "channel \<Rightarrow> gateway_step" where
  "retry_step ch =
     (case ch_failureStep ch of Some s \<Rightarrow> s
      | None \<Rightarrow> (case ch_provisioningStep ch of Some s \<Rightarrow> s | None \<Rightarrow> ALLOCATE_RESOURCES))"

definition processProvision :: "gateway_env \<Rightarrow> jstr \<Rightarrow> platform \<Rightarrow> unit gateway_result" where
  "processProvision env i w =
     after (channelFor i w) (\<lambda>ch w.
       after (if \<not> ch_managed ch \<or> \<not> has_port (ch_apiPort ch)
              then persistStep i GW_PROVISIONING ALLOCATE_RESOURCES (Some ORG_PROVISIONING) w
              else if ch_provisioningState ch = GW_FAILED
              then persistStep i GW_PROVISIONING (retry_step ch) (Some ORG_PROVISIONING) w
              else (Inr (), w))
         (\<lambda>_. provision_loop TRANSITION_GUARD env i))"

definition isConnectedStatus :: "jstr \<Rightarrow> bool" where
  "isConnectedStatus v \<longleftrightarrow> js_lower v \<in> set [lit ''connected'', lit ''authenticated'', lit ''working'', lit ''ready'']"

definition monitorConnection :: "gateway_env \<Rightarrow> jstr \<Rightarrow> platform \<Rightarrow> bool gateway_result" where
  "monitorConnection env i w =
     after (channelFor i w) (\<lambda>ch w.
       if ch_provisioningState ch \<notin> {GW_AWAITING_QR, GW_ACTIVE} then (Inr False, w)
       else if pf_sessions w i = [] then (Inl NoWhatsAppSession, w)
       else case ge_sessionStatus env of
              Inl err \<Rightarrow> (Inl (CallFailed err), w)
            | Inr status \<Rightarrow>
                (Inr (isConnectedStatus status),
                 snd (recordGatewayObservation i \<lparr>ob_reported = Some status, ob_connected = None\<rparr> w)))"

definition suspendGateway :: "gateway_env \<Rightarrow> jstr \<Rightarrow> platform \<Rightarrow> unit gateway_result" where
  "suspendGateway env i w =
     after (persistStep i GW_SUSPENDED SUSPEND_GATEWAY (Some ORG_SUSPENDED) w) (\<lambda>_ w.
       after (channelFor i w) (\<lambda>ch w.
         after (if truthy_ref (ch_deploymentName ch) then with_deployment env SUSPEND_GATEWAY ch w else (Inr (), w))
           (\<lambda>_. persistStep i GW_SUSPENDED COMPLETE (Some ORG_SUSPENDED))))"

text \<open>The database deletes an organization and what belongs to it; \<open>erase\<close> is that deletion.\<close>

definition destroyGateway ::
  "(jstr \<Rightarrow> platform \<Rightarrow> unit gateway_result) \<Rightarrow> gateway_env \<Rightarrow> jstr \<Rightarrow> platform \<Rightarrow> unit gateway_result" where
  "destroyGateway erase env i w =
     after (persistStep i GW_PROVISIONING DESTROY_GATEWAY (Some ORG_SUSPENDED) w) (\<lambda>_ w.
       after (channelFor i w) (\<lambda>ch w.
         after (if truthy_ref (ch_deploymentName ch) then with_deployment env DESTROY_GATEWAY ch w else (Inr (), w))
           (\<lambda>_. erase i)))"

definition processGatewayAction ::
  "(jstr \<Rightarrow> platform \<Rightarrow> unit gateway_result) \<Rightarrow> gateway_env \<Rightarrow> jstr \<Rightarrow> gateway_action \<Rightarrow> platform \<Rightarrow> bool gateway_result" where
  "processGatewayAction erase env i action w =
     (case action of
        Provision \<Rightarrow> goes_on (processProvision env i w)
      | Monitor \<Rightarrow> monitorConnection env i w
      | Suspend \<Rightarrow> goes_on (suspendGateway env i w)
      | Resume \<Rightarrow> goes_on (after (persistStep i GW_PROVISIONING RESUME_GATEWAY (Some ORG_PROVISIONING) w)
                             (\<lambda>_. processProvision env i))
      | Restart \<Rightarrow> goes_on (after (persistStep i GW_PROVISIONING RESTART_GATEWAY (Some ORG_PROVISIONING) w)
                              (\<lambda>_. processProvision env i))
      | Destroy \<Rightarrow> goes_on (destroyGateway erase env i w))"

definition markGatewayFailed :: "jstr \<Rightarrow> jstr \<Rightarrow> platform \<Rightarrow> platform" where
  "markGatewayFailed i reason w =
     (case pf_openwa w i of
        None \<Rightarrow> w
      | Some ch \<Rightarrow>
          raise_alert i GATEWAY_PROVISIONING_FAILED (lit ''ERROR'') (take 1000 reason)
            (upd_openwa i (\<lambda>ch. ch\<lparr>ch_provisioningState := GW_FAILED, ch_failureStep := ch_provisioningStep ch,
                                   ch_failureReason := Some (take 1000 reason)\<rparr>) w))"

section \<open>The worker\<close>

text \<open>A job is tried three times; the queue keeps it, failed, after the last. A job that completes is removed.\<close>

definition JOB_ATTEMPTS :: nat where "JOB_ATTEMPTS = 3"

definition error_message :: "gateway_error \<Rightarrow> jstr" where
  "error_message e =
     (case e of
        CallFailed err \<Rightarrow> err
      | NoPortPair \<Rightarrow> lit ''No gateway port pair is available''
      | AllocationIncomplete \<Rightarrow> lit ''Gateway resource allocation is incomplete''
      | GuardExceeded \<Rightarrow> lit ''Gateway provisioning exceeded its transition guard''
      | NoWhatsAppSession \<Rightarrow> lit ''Organization has no WhatsApp session''
      | _ \<Rightarrow> [])"

definition processJob ::
  "(jstr \<Rightarrow> platform \<Rightarrow> unit gateway_result) \<Rightarrow> gateway_env \<Rightarrow> gateway_job \<Rightarrow> platform \<Rightarrow> bool gateway_result" where
  "processJob erase env j w =
     (case processGatewayAction erase env (gj_organizationId j) (gj_action j) w of
        (Inr c, w') \<Rightarrow> (Inr c, w')
      | (Inl e, w') \<Rightarrow>
          (Inl e, if gj_attemptsMade j + 1 \<ge> JOB_ATTEMPTS then markGatewayFailed (gj_organizationId j) (error_message e) w' else w'))"

definition upd_job :: "jstr \<Rightarrow> gateway_action \<Rightarrow> (gateway_job \<Rightarrow> gateway_job) \<Rightarrow> platform \<Rightarrow> platform" where
  "upd_job i a f w = w\<lparr>pf_jobs := map (\<lambda>j. if same_job i a j then f j else j) (pf_jobs w)\<rparr>"

definition run_job ::
  "(jstr \<Rightarrow> platform \<Rightarrow> unit gateway_result) \<Rightarrow> gateway_env \<Rightarrow> jstr \<Rightarrow> gateway_action \<Rightarrow> platform \<Rightarrow> platform" where
  "run_job erase env i a w =
     (case find (same_job i a) (pf_jobs w) of
        None \<Rightarrow> w
      | Some j \<Rightarrow>
          if gj_failed j then w
          else case processJob erase env j w of
                 (Inr _, w') \<Rightarrow> w'\<lparr>pf_jobs := filter (\<lambda>k. \<not> same_job i a k) (pf_jobs w')\<rparr>
               | (Inl _, w') \<Rightarrow> upd_job i a (\<lambda>k. k\<lparr>gj_attemptsMade := gj_attemptsMade k + 1,
                                   gj_failed := (gj_attemptsMade k + 1 \<ge> JOB_ATTEMPTS)\<rparr>) w')"

definition PAIRING_WINDOW_MS :: int where "PAIRING_WINDOW_MS = 2 * 60 * 60 * 1000"

definition unpaired_too_long :: "int \<Rightarrow> channel \<Rightarrow> bool" where
  "unpaired_too_long now ch \<longleftrightarrow>
     ch_managed ch \<and> ch_provisioningState ch = GW_AWAITING_QR \<and> ch_deletionRequestedAt ch = None
     \<and> (case ch_provisionedAt ch of Some t \<Rightarrow> t < now - PAIRING_WINDOW_MS | None \<Rightarrow> ch_updatedAt ch < now - PAIRING_WINDOW_MS)"

definition stale_channels :: "int \<Rightarrow> platform \<Rightarrow> jstr list" where
  "stale_channels now w =
     filter (\<lambda>i. case pf_openwa w i of None \<Rightarrow> False | Some ch \<Rightarrow> unpaired_too_long now ch) (pf_ids w)"

definition QR_NEVER_SCANNED :: jstr where
  "QR_NEVER_SCANNED =
     lit ''The WhatsApp QR code was never scanned, so this gateway was never connected. Start provisioning again to get a fresh code.''"

definition retire :: "jstr \<Rightarrow> platform \<Rightarrow> platform" where
  "retire i = upd_openwa i (\<lambda>ch. ch\<lparr>ch_provisioningState := GW_FAILED, ch_failureStep := Some AWAIT_CONNECTION,
                                   ch_failureReason := Some QR_NEVER_SCANNED\<rparr>)"

definition expireUnpairedGateways :: "int \<Rightarrow> platform \<Rightarrow> jstr list \<times> platform" where
  "expireUnpairedGateways now w = (let stale = stale_channels now w in (stale, fold retire stale w))"

definition reconciled :: "channel \<Rightarrow> bool" where
  "reconciled ch \<longleftrightarrow>
     ch_managed ch \<and> (ch_provisioningState ch \<in> {GW_PENDING, GW_PROVISIONING, GW_AWAITING_QR, GW_ACTIVE}
       \<or> ch_provisioningState ch = GW_SUSPENDED \<and> ch_provisioningStep ch = Some SUSPEND_GATEWAY)"

definition reconcile_action :: "channel \<Rightarrow> gateway_action" where
  "reconcile_action ch =
     (if ch_deletionRequestedAt ch \<noteq> None \<or> ch_provisioningStep ch = Some DESTROY_GATEWAY then Destroy
      else if ch_provisioningState ch = GW_AWAITING_QR then Monitor
      else if ch_provisioningState ch = GW_ACTIVE then Monitor
      else if ch_provisioningState ch = GW_SUSPENDED then Suspend
      else Provision)"

definition reconcile_channel :: "jstr list \<Rightarrow> jstr \<Rightarrow> platform \<Rightarrow> platform" where
  "reconcile_channel retired i w =
     (case pf_openwa w i of
        None \<Rightarrow> w
      | Some ch \<Rightarrow> if reconciled ch \<and> i \<notin> set retired then queueGatewayAction i (reconcile_action ch) 0 w else w)"

definition reconcileProvisioning :: "platform \<Rightarrow> platform" where
  "reconcileProvisioning w =
     (let (retired, w1) = expireUnpairedGateways (pf_now w) w in fold (reconcile_channel retired) (pf_ids w1) w1)"

text \<open>The timer set when a job completes.\<close>

definition monitor_recheck :: "jstr \<Rightarrow> platform \<Rightarrow> platform" where
  "monitor_recheck i w =
     (case pf_openwa w i of
        None \<Rightarrow> w
      | Some ch \<Rightarrow> if ch_managed ch \<and> ch_provisioningState ch \<in> {GW_PROVISIONING, GW_AWAITING_QR}
                  then queueGatewayAction i Monitor 0 w else w)"

definition wants_recheck :: "gateway_action \<Rightarrow> bool \<Rightarrow> bool" where
  "wants_recheck a paired \<longleftrightarrow> a \<in> {Provision, Resume, Restart, Monitor} \<and> \<not> paired"


section \<open>Asking for a gateway\<close>

text \<open>May this organization obtain the channel? On the left what reading its entitlements throws.\<close>

record grant_refusal =
  gr_planName :: jstr
  gr_requiredPlan :: "jstr option"

definition alreadyEstablished :: "jstr \<Rightarrow> platform \<Rightarrow> bool" where
  "alreadyEstablished i w \<longleftrightarrow> (case pf_openwa w i of None \<Rightarrow> False | Some ch \<Rightarrow> ch_status ch = lit ''ACTIVE'')"

definition channelGrantRefusal :: "jstr \<Rightarrow> platform \<Rightarrow> resolve_error + grant_refusal option" where
  "channelGrantRefusal i w =
     (if alreadyEstablished i w then Inr None
      else case resolveEntitlements w i (pf_now w) None of
        Inl e \<Rightarrow> Inl e
      | Inr en \<Rightarrow>
          if OPENWA \<in> set (ed_channels (en_edition en)) then Inr None
          else Inr (Some \<lparr>gr_planName = en_planName en,
                 gr_requiredPlan = cheapestUpgradeGranting (platform_ladder w) (en_plan en) (\<lambda>e. OPENWA \<in> set (ed_channels e))\<rparr>))"

datatype provision_outcome =
    Queued | UnknownOrg | PlanUpgradeRequired jstr "jstr option" | ChannelNotPermitted jstr "jstr option"
  | NoChannelRow | AlreadyInFlight gateway_state

definition maybeProvisionGateway :: "jstr \<Rightarrow> bool \<Rightarrow> platform \<Rightarrow> (resolve_error + provision_outcome) \<times> platform" where
  "maybeProvisionGateway i explicitAdminRequest w =
     (if pf_orgs w i = None then (Inr UnknownOrg, w)
      else case resolveEntitlements w i (pf_now w) None of
        Inl e \<Rightarrow> (Inl e, w)
      | Inr en \<Rightarrow>
          let edition = en_edition en; upgrade = cheapestUpgradeGranting (platform_ladder w) (en_plan en)
          in if ed_pricingModel edition = FREE \<and> \<not> explicitAdminRequest
             then (Inr (PlanUpgradeRequired (ed_name edition)
                     (upgrade (\<lambda>e. ed_pricingModel e \<noteq> FREE \<and> ed_feature e AutoProvisionGateway))), w)
             else if \<not> ed_feature edition AutoProvisionGateway \<and> \<not> explicitAdminRequest
             then (Inr (PlanUpgradeRequired (ed_name edition) (upgrade (\<lambda>e. ed_feature e AutoProvisionGateway))), w)
             else case channelGrantRefusal i w of
               Inl e \<Rightarrow> (Inl e, w)
             | Inr (Some r) \<Rightarrow> (Inr (ChannelNotPermitted (gr_planName r) (gr_requiredPlan r)), w)
             | Inr None \<Rightarrow>
                 (case pf_openwa w i of
                    None \<Rightarrow> (Inr NoChannelRow, w)
                  | Some ch \<Rightarrow>
                      if ch_provisioningState ch \<in> {GW_ACTIVE, GW_AWAITING_QR, GW_PROVISIONING}
                      then (Inr (AlreadyInFlight (ch_provisioningState ch)), w)
                      else (Inr Queued, queueGatewayAction i Provision 0
                             (upd_openwa i (set_step (pf_now w) GW_PROVISIONING ALLOCATE_RESOURCES)
                               (upd_org i (\<lambda>og. og\<lparr>og_status := ORG_PROVISIONING\<rparr>) w)))))"

section \<open>The owner's actions\<close>

datatype owner_response = Accepted gateway_action | Updated | GatewayNotFound | NotManaged | BadStatus | OnlyFailed

definition queueOwnerAction :: "jstr \<Rightarrow> gateway_action \<Rightarrow> platform \<Rightarrow> owner_response \<times> platform" where
  "queueOwnerAction i action w =
     (case pf_openwa w i of
        None \<Rightarrow> (GatewayNotFound, w)
      | Some ch \<Rightarrow> if ch_managed ch then (Accepted action, queueGatewayAction i action 0 w) else (NotManaged, w))"

definition set_subscriber_status :: "jstr \<Rightarrow> jstr \<Rightarrow> platform \<Rightarrow> owner_response \<times> platform" where
  "set_subscriber_status i input w =
     (let status = js_upper input
      in if status \<notin> {lit ''ACTIVE'', lit ''SUSPENDED''} then (BadStatus, w)
         else case pf_openwa w i of
           None \<Rightarrow> (GatewayNotFound, w)
         | Some ch \<Rightarrow>
             if \<not> ch_managed ch
             then (Updated, upd_org i (\<lambda>og. og\<lparr>og_status := (if status = lit ''SUSPENDED'' then ORG_SUSPENDED else ORG_ACTIVE)\<rparr>) w)
             else let action = (if status = lit ''SUSPENDED'' then Suspend else Resume)
                  in (Accepted action, queueGatewayAction i action 0 w))"

definition retry_gateway :: "jstr \<Rightarrow> platform \<Rightarrow> owner_response \<times> platform" where
  "retry_gateway i w =
     (case pf_openwa w i of
        None \<Rightarrow> (GatewayNotFound, w)
      | Some ch \<Rightarrow>
          if \<not> ch_managed ch \<or> ch_provisioningState ch \<noteq> GW_FAILED then (OnlyFailed, w)
          else let action = (if ch_deletionRequestedAt ch \<noteq> None then Destroy
                             else if ch_failureStep ch = Some SUSPEND_GATEWAY then Suspend else Provision)
               in (Accepted action, queueGatewayAction i action 0 w))"

section \<open>The health monitor\<close>

definition WINDOW_SIZE :: nat where "WINDOW_SIZE = 3"
definition FAILURE_THRESHOLD :: nat where "FAILURE_THRESHOLD = 2"
definition RETENTION_DAYS :: int where "RETENTION_DAYS = 7"
definition GATEWAY_UNHEALTHY :: jstr where "GATEWAY_UNHEALTHY = lit ''GATEWAY_UNHEALTHY''"
definition NOT_A_FAULT :: "gateway_state set" where
  "NOT_A_FAULT = {GW_PENDING, GW_PROVISIONING, GW_AWAITING_QR, GW_SUSPENDED}"

record probe_candidate =
  ca_organizationId :: jstr
  ca_organizationName :: jstr
  ca_sessionName :: jstr
  ca_phoneNumber :: "jstr option"

definition eligible :: "platform \<Rightarrow> jstr \<Rightarrow> probe_candidate option" where
  "eligible w i =
     (case (pf_orgs w i, pf_openwa w i) of
        (Some og, Some ch) \<Rightarrow>
          if og_status og \<noteq> ORG_ACTIVE \<or> ch_provisioningState ch \<in> NOT_A_FAULT then None
          else (case filter ws_isActive (pf_sessions w i) of
                  [] \<Rightarrow> None
                | s # _ \<Rightarrow> Some \<lparr>ca_organizationId = i, ca_organizationName = og_name og,
                                ca_sessionName = ws_sessionName s, ca_phoneNumber = ws_phoneNumber s\<rparr>)
      | _ \<Rightarrow> None)"

definition eligibleOrganizations :: "platform \<Rightarrow> probe_candidate list" where
  "eligibleOrganizations w = concat (map (\<lambda>i. case eligible w i of None \<Rightarrow> [] | Some c \<Rightarrow> [c]) (pf_ids w))"

definition record_check :: "jstr \<Rightarrow> health_probe \<Rightarrow> bool \<Rightarrow> platform \<Rightarrow> platform" where
  "record_check i probe ok w =
     w\<lparr>pf_health := pf_health w @ [\<lparr>hc_organizationId = i, hc_probe = probe, hc_ok = ok, hc_createdAt = pf_now w\<rparr>]\<rparr>"

definition shouldAlert :: "jstr \<Rightarrow> health_probe \<Rightarrow> platform \<Rightarrow> bool" where
  "shouldAlert i probe w \<longleftrightarrow>
     length (filter (\<lambda>r. \<not> hc_ok r)
       (take WINDOW_SIZE (rev (sort_key hc_createdAt
          (filter (\<lambda>r. hc_organizationId r = i \<and> hc_probe r = probe) (pf_health w)))))) \<ge> FAILURE_THRESHOLD"

definition open_alert :: "jstr \<Rightarrow> jstr \<Rightarrow> alert \<Rightarrow> bool" where
  "open_alert i type a \<longleftrightarrow> al_organizationId a = Some i \<and> al_type a = type \<and> al_resolvedAt a = None"

definition probe_name :: "health_probe \<Rightarrow> jstr" where
  "probe_name p = (case p of Status_Probe \<Rightarrow> lit ''status'' | Self_Send \<Rightarrow> lit ''selfSend'')"

text \<open>An alert already open only has its metadata rewritten, which the model leaves out.\<close>

definition raiseAlert :: "probe_candidate \<Rightarrow> health_probe \<Rightarrow> platform \<Rightarrow> platform" where
  "raiseAlert c probe w =
     (if (\<exists>a \<in> set (pf_alerts w). open_alert (ca_organizationId c) GATEWAY_UNHEALTHY a) then w
      else raise_alert (ca_organizationId c) GATEWAY_UNHEALTHY (lit ''CRITICAL'')
             (lit ''WhatsApp gateway unhealthy for '' @ ca_organizationName c @ lit '' ('' @ probe_name probe @ lit '' probe)'') w)"

definition resolveAlerts :: "jstr \<Rightarrow> platform \<Rightarrow> platform" where
  "resolveAlerts i w =
     w\<lparr>pf_alerts := map (\<lambda>a. if open_alert i GATEWAY_UNHEALTHY a then a\<lparr>al_resolvedAt := Some (pf_now w)\<rparr> else a) (pf_alerts w)\<rparr>"

definition clear_failure :: "channel \<Rightarrow> channel" where
  "clear_failure ch = ch\<lparr>ch_provisioningState := GW_ACTIVE, ch_failureReason := None, ch_failureStep := None\<rparr>"

definition clearStaleFailure :: "jstr \<Rightarrow> platform \<Rightarrow> platform" where
  "clearStaleFailure i w =
     (case pf_openwa w i of
        None \<Rightarrow> w | Some ch \<Rightarrow> if ch_provisioningState ch = GW_FAILED then upd_openwa i clear_failure w else w)"

datatype health_outcome = Probe_Ok | Probe_Failed | Probe_Skipped

text \<open>What the gateway answers to the two probes; the status word is absent when neither field is set.\<close>

record probe_env =
  pb_status :: "jstr \<Rightarrow> jstr + jstr option"
  pb_sendSelf :: "jstr \<Rightarrow> jstr \<Rightarrow> jstr option"
  pb_reachable :: "jstr \<Rightarrow> bool"

definition probe_attempt :: "probe_env \<Rightarrow> probe_candidate \<Rightarrow> health_probe \<Rightarrow> platform \<Rightarrow> bool \<times> platform" where
  "probe_attempt env c probe w =
     (case probe of
        Status_Probe \<Rightarrow>
          (case pb_status env (ca_sessionName c) of
             Inl _ \<Rightarrow> (False, w)
           | Inr reported \<Rightarrow>
               (isConnectedStatus (or_empty reported),
                snd (recordGatewayObservation (ca_organizationId c)
                       \<lparr>ob_reported = Some (or_empty reported), ob_connected = None\<rparr> w)))
      | Self_Send \<Rightarrow> (pb_sendSelf env (ca_sessionName c) (or_empty (ca_phoneNumber c)) = None, w))"

definition runProbe :: "probe_env \<Rightarrow> probe_candidate \<Rightarrow> health_probe \<Rightarrow> platform \<Rightarrow> health_outcome \<times> platform" where
  "runProbe env c probe w =
     (if probe = Self_Send \<and> \<not> truthy_ref (ca_phoneNumber c) then (Probe_Skipped, w)
      else let i = ca_organizationId c; (ok, w1) = probe_attempt env c probe w
           in if ok then (Probe_Ok, clearStaleFailure i (resolveAlerts i (record_check i probe True w1)))
              else let w2 = record_check i probe False w1
                   in (Probe_Failed, if shouldAlert i probe w2 then raiseAlert c probe w2 else w2))"

definition probeOrganization :: "probe_env \<Rightarrow> jstr \<Rightarrow> health_probe \<Rightarrow> platform \<Rightarrow> health_outcome \<times> platform" where
  "probeOrganization env i probe w =
     (case find (\<lambda>c. ca_organizationId c = i) (eligibleOrganizations w) of
        None \<Rightarrow> (Probe_Skipped, w) | Some c \<Rightarrow> runProbe env c probe w)"

definition reconcile_failure :: "probe_env \<Rightarrow> jstr \<Rightarrow> platform \<Rightarrow> platform" where
  "reconcile_failure env i w =
     (case pf_openwa w i of
        None \<Rightarrow> w
      | Some ch \<Rightarrow> if ch_baseUrl ch \<noteq> [] \<and> pb_reachable env (ch_baseUrl ch)
                  then resolveAlerts i (upd_openwa i clear_failure w) else w)"

definition reconcileProvisioningFailures :: "probe_env \<Rightarrow> platform \<Rightarrow> platform" where
  "reconcileProvisioningFailures env w =
     fold (reconcile_failure env)
       (filter (\<lambda>i. case pf_openwa w i of None \<Rightarrow> False | Some ch \<Rightarrow> ch_provisioningState ch = GW_FAILED) (pf_ids w)) w"

record health_totals =
  ht_checked :: nat
  ht_failed :: nat
  ht_skipped :: nat

definition run_candidate ::
  "probe_env \<Rightarrow> health_probe \<Rightarrow> probe_candidate \<Rightarrow> health_totals \<times> platform \<Rightarrow> health_totals \<times> platform" where
  "run_candidate env probe c acc =
     (case runProbe env c probe (snd acc) of (outcome, w) \<Rightarrow>
        ((fst acc)\<lparr>ht_failed := ht_failed (fst acc) + (if outcome = Probe_Failed then 1 else 0),
                   ht_skipped := ht_skipped (fst acc) + (if outcome = Probe_Skipped then 1 else 0)\<rparr>, w))"

definition runHealthChecks :: "probe_env \<Rightarrow> health_probe \<Rightarrow> platform \<Rightarrow> health_totals \<times> platform" where
  "runHealthChecks env probe w =
     (let cs = eligibleOrganizations w;
          (totals, w1) = fold (run_candidate env probe) cs (\<lparr>ht_checked = length cs, ht_failed = 0, ht_skipped = 0\<rparr>, w)
      in (totals, reconcileProvisioningFailures env w1))"

definition sweepHealthChecks :: "platform \<Rightarrow> nat \<times> platform" where
  "sweepHealthChecks w =
     (let old = (\<lambda>r. hc_createdAt r < pf_now w - RETENTION_DAYS * 86400000)
      in (length (filter old (pf_health w)), w\<lparr>pf_health := filter (\<lambda>r. \<not> old r) (pf_health w)\<rparr>))"

end
