(* ===== verification/Gateway_Props.thy ===== *)
theory Gateway_Props
  imports Gateway Access_Props
begin

text \<open>
  The gateway's state machine over its histories: that provisioning ends and where, that two gateways never
  share a port, what becomes of a gateway that drops, and what its jobs do to a subscriber's access.
\<close>

section \<open>Results\<close>

lemma after_Inr: "after r k = (Inr x, w') \<longleftrightarrow> (\<exists>y v. r = (Inr y, v) \<and> k y v = (Inr x, w'))"
  by (auto simp: after_def split: prod.splits sum.splits)

lemma after_error: "fst (after r k) = Inl e \<longleftrightarrow> fst r = Inl e \<or> (\<exists>y v. r = (Inr y, v) \<and> fst (k y v) = Inl e)"
  by (auto simp: after_def split: prod.splits sum.splits)

lemma after_simps [simp]: "after (Inr x, w) k = k x w" "after (Inl e, w) k = (Inl e, w)"
  by (simp_all add: after_def)

lemma goes_on_eq: "goes_on r = (case r of (Inl e, w) \<Rightarrow> (Inl e, w) | (Inr _, w) \<Rightarrow> (Inr False, w))"
  by (simp add: goes_on_def after_def)

lemma snd_goes_on [simp]: "snd (goes_on r) = snd r"
  by (auto simp: goes_on_eq split: prod.splits sum.splits)

lemma upd_openwa_fields [frame_simps]:
  "pf_orgs (upd_openwa i f w) = pf_orgs w" "pf_ids (upd_openwa i f w) = pf_ids w" "pf_now (upd_openwa i f w) = pf_now w"
  "pf_jobs (upd_openwa i f w) = pf_jobs w" "pf_sessions (upd_openwa i f w) = pf_sessions w"
  "pf_openwa (upd_openwa i f w) =
     (pf_openwa w)(i := map_option (\<lambda>ch. (f ch)\<lparr>ch_updatedAt := pf_now w\<rparr>) (pf_openwa w i))"
  by (simp_all add: upd_openwa_def)

lemma upd_org_gateway [frame_simps]:
  "pf_openwa (upd_org i f w) = pf_openwa w" "pf_jobs (upd_org i f w) = pf_jobs w" "pf_sessions (upd_org i f w) = pf_sessions w"
  by (simp_all add: upd_org_def)

lemma raise_alert_gateway [frame_simps]:
  "pf_openwa (raise_alert i t s m w) = pf_openwa w" "pf_jobs (raise_alert i t s m w) = pf_jobs w"
  "pf_sessions (raise_alert i t s m w) = pf_sessions w"
  by (simp_all add: raise_alert_def)

lemma queue_gateway [frame_simps]:
  "pf_openwa (queueGatewayAction i a d w) = pf_openwa w" "pf_sessions (queueGatewayAction i a d w) = pf_sessions w"
  by (simp_all add: queueGatewayAction_def split: option.splits)

section \<open>The transition guard\<close>

text \<open>How many turns the loop has left at a step.\<close>

definition turns :: "gateway_step option \<Rightarrow> nat" where
  "turns s =
     (case s of
        Some ALLOCATE_RESOURCES \<Rightarrow> 6
      | Some START_GATEWAY \<Rightarrow> 5 | Some RESUME_GATEWAY \<Rightarrow> 5 | Some RESTART_GATEWAY \<Rightarrow> 5
      | Some WAIT_FOR_PROVIDER \<Rightarrow> 4 | Some CREATE_SESSION \<Rightarrow> 3 | Some REGISTER_WEBHOOK \<Rightarrow> 2
      | Some AWAIT_CONNECTION \<Rightarrow> 1 | Some COMPLETE \<Rightarrow> 1
      | _ \<Rightarrow> 7)"

lemma turns_bound: "turns s \<le> 7" "0 < turns s"
  by (auto simp: turns_def split: option.split gateway_step.split)

lemma persistStep_Inr:
  "persistStep i st step o' w = (Inr u, w') \<Longrightarrow> \<exists>ch. pf_openwa w' i = Some ch \<and> ch_provisioningStep ch = Some step"
  by (auto simp: persistStep_def Let_def frame_simps set_step_def split: if_splits option.splits)

lemma persistStep_error: "fst (persistStep i st step o' w) \<noteq> Inl GuardExceeded"
  by (auto simp: persistStep_def Let_def)

lemma call_error: "fst (call env s w) \<noteq> Inl GuardExceeded"
  by (simp add: call_def split: option.split)

lemma deployment_error: "fst (with_deployment env s ch w) \<noteq> Inl GuardExceeded"
  by (simp add: with_deployment_def call_error)

lemma allocate_error: "fst (allocate_attempts a c env i w) \<noteq> Inl GuardExceeded"
  by (induction a c env i w rule: allocate_attempts.induct) (auto simp: allocate_once_def split: option.splits)

lemma awaiting_error: "fst (completeAwaitingQr i w) \<noteq> Inl GuardExceeded"
  by (simp add: completeAwaitingQr_def)

lemmas no_guard_errors = persistStep_error call_error deployment_error allocate_error awaiting_error

lemma provision_step_error: "fst (provision_step env i ch w) \<noteq> Inl GuardExceeded"
  by (auto simp: provision_step_def goes_on_def after_error no_guard_errors allocateResources_def
      split: option.split gateway_step.split)

lemma turns_simps [simp]:
  "turns None = 7" "turns (Some SUSPEND_GATEWAY) = 7" "turns (Some DESTROY_GATEWAY) = 7"
  "turns (Some ALLOCATE_RESOURCES) = 6" "turns (Some START_GATEWAY) = 5" "turns (Some RESUME_GATEWAY) = 5"
  "turns (Some RESTART_GATEWAY) = 5" "turns (Some WAIT_FOR_PROVIDER) = 4" "turns (Some CREATE_SESSION) = 3"
  "turns (Some REGISTER_WEBHOOK) = 2" "turns (Some AWAIT_CONNECTION) = 1" "turns (Some COMPLETE) = 1"
  by (simp_all add: turns_def)

lemma stepped:
  assumes "goes_on (after r (\<lambda>_. persistStep i st step o')) = (Inr False, w')"
  shows "\<exists>ch'. pf_openwa w' i = Some ch' \<and> ch_provisioningStep ch' = Some step"
  using assms by (auto simp: goes_on_def after_Inr dest!: persistStep_Inr)

lemmas stepped_at_once = stepped [of "(Inr (), w)" for w, unfolded after_simps]

lemma provision_step_moves:
  assumes "provision_step env i ch w = (Inr False, w')"
  shows "\<exists>ch'. pf_openwa w' i = Some ch' \<and> turns (ch_provisioningStep ch') < turns (ch_provisioningStep ch)"
proof (cases "ch_provisioningStep ch")
  case None
  with assms show ?thesis by (auto simp: provision_step_def dest!: stepped_at_once)
next
  case (Some s)
  with assms show ?thesis
    by (cases s) (auto simp: provision_step_def after_Inr dest!: stepped stepped_at_once)
qed

lemma provision_loop_guard:
  "pf_openwa w i = Some ch \<Longrightarrow> turns (ch_provisioningStep ch) \<le> n \<Longrightarrow> fst (provision_loop n env i w) \<noteq> Inl GuardExceeded"
proof (induction n arbitrary: w ch)
  case 0
  then show ?case using turns_bound(2) by (metis less_le_not_le)
next
  case (Suc n)
  show ?case
  proof (cases "provision_step env i ch w")
    case (Pair r v)
    show ?thesis
    proof (cases "r = Inr False")
      case True
      with Pair provision_step_moves [of env i ch w v] obtain ch' where ch': "pf_openwa v i = Some ch'"
        "turns (ch_provisioningStep ch') < turns (ch_provisioningStep ch)" by auto
      with Suc.prems Suc.IH [OF ch'(1)] Pair True show ?thesis by (simp add: channelFor_def)
    next
      case False
      with Pair Suc.prems provision_step_error [of env i ch w] show ?thesis
        by (cases r) (auto simp: channelFor_def)
    qed
  qed
qed

text \<open>C18: Provisioning always ends within its twelve transitions, whatever the runtime, the gateway and the
  database answer and whatever state the row was left in: the guard error at the end of the loop is never
  raised. At most seven turns are taken.\<close>
theorem provisioning_never_exceeds_its_guard:
  "fst (processProvision env i w) \<noteq> Inl GuardExceeded"
proof -
  have "fst (provision_loop TRANSITION_GUARD env i v) \<noteq> Inl GuardExceeded" for v
  proof (cases "pf_openwa v i")
    case None
    then show ?thesis by (simp add: TRANSITION_GUARD_def numeral_eq_Suc channelFor_def)
  next
    case (Some ch)
    with turns_bound(1) [of "ch_provisioningStep ch"] show ?thesis
      by (intro provision_loop_guard) (auto simp: TRANSITION_GUARD_def)
  qed
  then show ?thesis
    by (auto simp: processProvision_def after_error channelFor_def persistStep_error split: option.splits)
qed


section \<open>Where provisioning ends\<close>

definition obliging :: "gateway_env \<Rightarrow> bool" where
  "obliging env \<longleftrightarrow> (\<forall>s. ge_call env s = None) \<and> ge_conflicts env < 5"

text \<open>The step the loop starts at.\<close>

definition entry_step :: "channel \<Rightarrow> gateway_step option" where
  "entry_step ch =
     (if \<not> ch_managed ch \<or> \<not> has_port (ch_apiPort ch) then Some ALLOCATE_RESOURCES
      else if ch_provisioningState ch = GW_FAILED then Some (retry_step ch) else ch_provisioningStep ch)"

lemma set_step_simps [simp]:
  "channel_ports (set_step now st step ch) = channel_ports ch" "deployable (set_step now st step ch) = deployable ch"
  "ch_provisioningStep (set_step now st step ch) = Some step" "ch_provisioningState (set_step now st step ch) = st"
  by (simp_all add: set_step_def channel_ports_def deployable_def)

lemma stamp_simps [simp]:
  "channel_ports (ch\<lparr>ch_updatedAt := t\<rparr>) = channel_ports ch" "deployable (ch\<lparr>ch_updatedAt := t\<rparr>) = deployable ch"
  by (simp_all add: channel_ports_def deployable_def)

lemma used_ports_upd_openwa:
  assumes "\<And>ch. pf_openwa w i = Some ch \<Longrightarrow> channel_ports (f ch) = channel_ports ch"
  shows "used_ports (upd_openwa i f w) = used_ports w"
  using assms unfolding used_ports_def by (intro arg_cong [where f = concat] map_cong) (auto simp: frame_simps split: option.splits)

lemma used_ports_upd_org [simp]: "used_ports (upd_org i f w) = used_ports w"
  by (simp add: used_ports_def frame_simps)

lemma allocation_deployable:
  "PORT_START \<le> p \<Longrightarrow> deployable (allocation env slug p ch)"
  by (simp add: allocation_def deployable_def has_port_def port_list_def PORT_START_def truthy_ref_def)

lemma allocated_deployable: "allocated ch \<Longrightarrow> deployable ch"
  by (simp add: allocated_def deployable_def)

lemma free_pair_Some:
  "free_pair c used = Some p \<Longrightarrow> c \<le> p \<and> p < PORT_END \<and> p \<notin> set used \<and> p + 1 \<notin> set used"
proof (induction c used rule: free_pair.induct)
  case (1 c used)
  from 1(2) have "c < PORT_END" by (subst (asm) free_pair.simps) (auto split: if_splits)
  with 1(2) show ?case
    by (subst (asm) free_pair.simps) (use 1(1) in \<open>auto split: if_splits\<close>)
qed

lemma allocate_attempts_obliging:
  "a + c \<le> 4 \<Longrightarrow> allocate_attempts a c env i w = allocate_once env i w"
  by (induction a c env i w rule: allocate_attempts.induct) auto

lemma allocate_succeeds:
  assumes "obliging env" and "pf_openwa w i = Some ch" and "pf_orgs w i = Some og"
    and "free_pair PORT_START (used_ports w) \<noteq> None"
  shows "\<exists>w1 ch1. allocateResources env i w = (Inr (), w1) \<and> pf_openwa w1 i = Some ch1 \<and> deployable ch1
     \<and> pf_orgs w1 = pf_orgs w \<and> pf_now w1 = pf_now w"
proof -
  have once: "allocateResources env i w = allocate_once env i w"
    using assms(1) by (simp add: allocateResources_def obliging_def allocate_attempts_obliging)
  obtain p where p: "free_pair PORT_START (used_ports w) = Some p" using assms(4) by blast
  from free_pair_Some [OF p] have "deployable (allocation env (og_slug og) p ch)" by (simp add: allocation_deployable)
  with once p assms show ?thesis
    by (cases "allocated ch") (auto simp: allocate_once_def allocated_deployable frame_simps)
qed

lemma persistStep_row:
  assumes "pf_openwa w i = Some ch" and "pf_orgs w i = Some og"
  shows "persistStep i st step o' w =
    (Inr (), case o' of None \<Rightarrow> upd_openwa i (set_step (pf_now w) st step) w
             | Some s \<Rightarrow> upd_org i (\<lambda>og. og\<lparr>og_status := s\<rparr>) (upd_openwa i (set_step (pf_now w) st step) w))"
  using assms by (simp add: persistStep_def Let_def)

text \<open>What the loop needs at a step to go on.\<close>

definition ready :: "jstr \<Rightarrow> platform \<Rightarrow> channel \<Rightarrow> bool" where
  "ready i w ch \<longleftrightarrow> pf_openwa w i = Some ch \<and> pf_orgs w i \<noteq> None \<and> ch_provisioningStep ch \<noteq> Some COMPLETE
     \<and> (6 \<le> turns (ch_provisioningStep ch) \<longrightarrow> free_pair PORT_START (used_ports w) \<noteq> None)
     \<and> (turns (ch_provisioningStep ch) = 5 \<longrightarrow> deployable ch)"

definition pairing :: "jstr \<Rightarrow> int \<Rightarrow> platform \<Rightarrow> bool" where
  "pairing i now w \<longleftrightarrow>
     (\<exists>ch og. pf_openwa w i = Some ch \<and> ch_provisioningState ch = GW_AWAITING_QR
        \<and> ch_provisioningStep ch = Some AWAIT_CONNECTION \<and> ch_provisionedAt ch = Some now
        \<and> pf_orgs w i = Some og \<and> og_status og = ORG_PROVISIONING)"

lemma persisted_ready:
  assumes "pf_openwa w i = Some ch" and "pf_orgs w i \<noteq> None" and "step \<noteq> COMPLETE"
    and "6 \<le> turns (Some step) \<longrightarrow> free_pair PORT_START (used_ports w) \<noteq> None" and "turns (Some step) = 5 \<longrightarrow> deployable ch"
  shows "\<exists>w1 ch1. goes_on (persistStep i GW_PROVISIONING step o' w) = (Inr False, w1) \<and> ready i w1 ch1 \<and> pf_now w1 = pf_now w
     \<and> ch_provisioningStep ch1 = Some step"
proof -
  from assms(2) obtain og where og: "pf_orgs w i = Some og" by blast
  have ports: "used_ports (upd_openwa i (set_step t GW_PROVISIONING step) w) = used_ports w" for t
    by (rule used_ports_upd_openwa) simp
  show ?thesis
    using assms og ports by (cases o') (auto simp: persistStep_row goes_on_def ready_def frame_simps)
qed

lemma step_advances:
  assumes r: "ready i w ch" and env: "obliging env" and more: "1 < turns (ch_provisioningStep ch)"
  shows "\<exists>w1 ch1. provision_step env i ch w = (Inr False, w1) \<and> ready i w1 ch1 \<and> pf_now w1 = pf_now w"
proof -
  from r have row: "pf_openwa w i = Some ch" "pf_orgs w i \<noteq> None" by (simp_all add: ready_def)
  have calls: "call env s w = (Inr (), w)" for s using env by (simp add: call_def obliging_def)
  have deps: "with_deployment env s ch w = (Inr (), w)" if "turns (ch_provisioningStep ch) = 5" for s
    using r that calls by (simp add: with_deployment_def ready_def)
  note persisted = persisted_ready [OF row]
  show ?thesis
  proof (cases "ch_provisioningStep ch = Some ALLOCATE_RESOURCES")
    case True
    with r obtain og where "pf_orgs w i = Some og" "free_pair PORT_START (used_ports w) \<noteq> None" by (auto simp: ready_def)
    from allocate_succeeds [OF env row(1) this] obtain w1 ch1 where w1: "allocateResources env i w = (Inr (), w1)"
      "pf_openwa w1 i = Some ch1" "deployable ch1" "pf_orgs w1 = pf_orgs w" "pf_now w1 = pf_now w" by blast
    with True row persisted_ready [OF w1(2), of START_GATEWAY None] show ?thesis
      by (auto simp: provision_step_def)
  next
    case False
    have pairless: "6 \<le> turns (ch_provisioningStep ch) \<longrightarrow> free_pair PORT_START (used_ports w) \<noteq> None"
      using r by (simp add: ready_def)
    show ?thesis
    proof (cases "ch_provisioningStep ch")
      case None
      with pairless persisted [of ALLOCATE_RESOURCES "Some ORG_PROVISIONING"] show ?thesis by (auto simp: provision_step_def)
    next
      case (Some s)
      with False more pairless deps calls persisted [of ALLOCATE_RESOURCES "Some ORG_PROVISIONING"]
        persisted [of WAIT_FOR_PROVIDER None] persisted [of CREATE_SESSION None] persisted [of REGISTER_WEBHOOK None]
        persisted [of AWAIT_CONNECTION None]
      show ?thesis by (cases s) (auto simp: provision_step_def)
    qed
  qed
qed

lemma loop_reaches:
  "ready i w ch \<Longrightarrow> obliging env \<Longrightarrow> turns (ch_provisioningStep ch) \<le> n \<Longrightarrow>
     \<exists>w'. provision_loop n env i w = (Inr (), w') \<and> pairing i (pf_now w) w'"
proof (induction n arbitrary: w ch)
  case 0
  then show ?case using turns_bound(2) [of "ch_provisioningStep ch"] by simp
next
  case (Suc n)
  from Suc.prems(1) have row: "pf_openwa w i = Some ch" "pf_orgs w i \<noteq> None" by (simp_all add: ready_def)
  show ?case
  proof (cases "1 < turns (ch_provisioningStep ch)")
    case True
    from step_advances [OF Suc.prems(1,2) True] obtain w1 ch1 where w1: "provision_step env i ch w = (Inr False, w1)"
      "ready i w1 ch1" "pf_now w1 = pf_now w" by blast
    from provision_step_moves [OF w1(1)] w1(2) Suc.prems(3) have "turns (ch_provisioningStep ch1) \<le> n"
      by (auto simp: ready_def)
    from Suc.IH [OF w1(2) Suc.prems(2) this] w1 row show ?thesis by (simp add: channelFor_def)
  next
    case False
    with Suc.prems(1) have "ch_provisioningStep ch = Some AWAIT_CONNECTION"
      by (auto simp: ready_def turns_def split: option.splits gateway_step.splits)
    with row show ?thesis
      by (auto simp: channelFor_def provision_step_def completeAwaitingQr_def pairing_def frame_simps)
  qed
qed


lemma entry_cases:
  assumes "pf_openwa w i = Some ch" and "pf_orgs w i \<noteq> None"
    and "free_pair PORT_START (used_ports w) \<noteq> None" and "deployable ch \<or> \<not> ch_managed ch \<or> \<not> has_port (ch_apiPort ch)"
  shows "\<exists>w1 ch1. processProvision env i w = provision_loop TRANSITION_GUARD env i w1 \<and> pf_now w1 = pf_now w
     \<and> pf_openwa w1 i = Some ch1 \<and> ch_provisioningStep ch1 = entry_step ch
     \<and> (entry_step ch = Some COMPLETE \<or> ready i w1 ch1)
     \<and> (ch_managed ch \<and> has_port (ch_apiPort ch) \<and> ch_provisioningState ch \<noteq> GW_FAILED \<longrightarrow> w1 = w)"
proof -
  from assms(2) obtain og where og: "pf_orgs w i = Some og" by blast
  have ports: "used_ports (upd_openwa i (set_step t st step) w) = used_ports w" for t st step
    by (rule used_ports_upd_openwa) simp
  show ?thesis
    using assms og ports
    by (auto simp: processProvision_def channelFor_def entry_step_def persistStep_row ready_def frame_simps)
qed

text \<open>C34: When the runtime, the gateway and the database do their part, provisioning gets there: from any step
  the row was left at it ends with a gateway that waits to be scanned, its pairing window opened now, and the
  organization being provisioned. The one exception is a row whose step is already \<open>COMPLETE\<close>: the
  function returns at once, whatever state the row is in.\<close>
theorem provisioning_reaches_pairing:
  assumes row: "pf_openwa w i = Some ch" and org: "pf_orgs w i \<noteq> None" and env: "obliging env"
    and free: "free_pair PORT_START (used_ports w) \<noteq> None"
    and kept: "deployable ch \<or> \<not> ch_managed ch \<or> \<not> has_port (ch_apiPort ch)"
  shows "\<exists>w'. processProvision env i w = (Inr (), w') \<and>
     (if entry_step ch = Some COMPLETE
      then \<exists>ch'. pf_openwa w' i = Some ch' \<and> ch_provisioningStep ch' = Some COMPLETE
             \<and> (ch_provisioningState ch \<noteq> GW_FAILED \<longrightarrow> w' = w)
      else pairing i (pf_now w) w')"
proof -
  from entry_cases [OF row org free kept] obtain w1 ch1 where w1: "processProvision env i w = provision_loop TRANSITION_GUARD env i w1"
    "pf_now w1 = pf_now w" "pf_openwa w1 i = Some ch1" "ch_provisioningStep ch1 = entry_step ch"
    "entry_step ch = Some COMPLETE \<or> ready i w1 ch1"
    "ch_managed ch \<and> has_port (ch_apiPort ch) \<and> ch_provisioningState ch \<noteq> GW_FAILED \<longrightarrow> w1 = w" by blast
  show ?thesis
  proof (cases "entry_step ch = Some COMPLETE")
    case True
    then have "ch_managed ch \<and> has_port (ch_apiPort ch)" by (auto simp: entry_step_def split: if_splits)
    with True w1 show ?thesis
      by (auto simp: TRANSITION_GUARD_def numeral_eq_Suc channelFor_def provision_step_def)
  next
    case False
    with w1(5) have r: "ready i w1 ch1" by simp
    have "turns (ch_provisioningStep ch1) \<le> TRANSITION_GUARD"
      using turns_bound(1) [of "ch_provisioningStep ch1"] by (auto simp: TRANSITION_GUARD_def)
    from loop_reaches [OF r env this] False w1 show ?thesis by auto
  qed
qed

definition fresh_channel :: channel where
  "fresh_channel =
     \<lparr>ch_baseUrl = [], ch_apiKeyEnc = [], ch_webhookToken = [], ch_status = lit ''PENDING'',
      ch_provisioningState = GW_PENDING, ch_provisioningStep = None, ch_failureReason = None, ch_failureStep = None,
      ch_managed = False, ch_deploymentName = None, ch_apiPort = None, ch_dashboardPort = None,
      ch_dataVolumeName = None, ch_redisVolumeName = None, ch_provisioningStartedAt = None,
      ch_provisionedAt = None, ch_connectedAt = None, ch_suspendedAt = None, ch_deletionRequestedAt = None,
      ch_lastCheckedAt = None, ch_updatedAt = 0\<rparr>"

definition calm_env :: gateway_env where
  "calm_env =
     \<lparr>ge_call = (\<lambda>_. None), ge_sessionStatus = Inr (lit ''ready''), ge_host = lit ''h'', ge_secret = lit ''k'',
      ge_token = lit ''t'', ge_conflicts = 2\<rparr>"

definition gateway_platform :: "channel \<Rightarrow> platform" where
  "gateway_platform ch =
     sample_platform\<lparr>pf_openwa := (\<lambda>i. if i = lit ''o1'' then Some ch else None),
       pf_sessions := (\<lambda>_. [\<lparr>ws_sessionName = lit ''s'', ws_isActive = True, ws_phoneNumber = None\<rparr>])\<rparr>"

lemma gateway_platform_simps [simp]:
  "pf_openwa (gateway_platform ch) (lit ''o1'') = Some ch" "pf_orgs (gateway_platform ch) (lit ''o1'') = Some sample_org"
  "pf_now (gateway_platform ch) = 2000" "pf_ids (gateway_platform ch) = [lit ''o1'']" "pf_jobs (gateway_platform ch) = []"
  "used_ports (gateway_platform ch) = channel_ports ch" "pf_sessions (gateway_platform ch) (lit ''o1'') \<noteq> []"
  by (simp_all add: gateway_platform_def sample_platform_def used_ports_def)

theorem provisioning_reaches_pairing_witness:
  "\<exists>w'. processProvision calm_env (lit ''o1'') (gateway_platform fresh_channel) = (Inr (), w') \<and> pairing (lit ''o1'') 2000 w'"
proof -
  have "free_pair PORT_START (used_ports (gateway_platform fresh_channel)) \<noteq> None"
    by (subst free_pair.simps) (simp add: PORT_START_def PORT_END_def fresh_channel_def channel_ports_def port_list_def)
  from provisioning_reaches_pairing [OF gateway_platform_simps(1) _ _ this, of calm_env] show ?thesis
    by (simp add: obliging_def calm_env_def fresh_channel_def entry_step_def)
qed

section \<open>A monitor that cannot reach the gateway\<close>

definition at_complete :: "jstr \<Rightarrow> platform \<Rightarrow> bool" where
  "at_complete i w \<longleftrightarrow>
     (\<exists>ch. pf_openwa w i = Some ch \<and> ch_managed ch \<and> has_port (ch_apiPort ch) \<and> ch_provisioningState ch = GW_PROVISIONING
        \<and> ch_provisioningStep ch = Some COMPLETE)"

lemma at_complete_returns:
  assumes "at_complete i w" and "a \<in> {Provision, Monitor}"
  shows "processGatewayAction erase env i a w = (Inr False, w)"
  using assms
  by (auto simp: at_complete_def processGatewayAction_def processProvision_def channelFor_def TRANSITION_GUARD_def
      numeral_eq_Suc provision_step_def goes_on_def monitorConnection_def)

lemma at_complete_request:
  assumes "at_complete i w"
  shows "snd (maybeProvisionGateway i b w) = w"
proof -
  from assms obtain ch where ch: "pf_openwa w i = Some ch" "ch_provisioningState ch = GW_PROVISIONING"
    by (auto simp: at_complete_def)
  show ?thesis
  proof (cases "pf_orgs w i = None")
    case False
    show ?thesis
    proof (cases "resolveEntitlements w i (pf_now w) None")
      case (Inr en)
      show ?thesis
        unfolding maybeProvisionGateway_def Let_def Inr sum.case ch option.case
        by (simp add: ch split: sum.split option.split)
    qed (simp add: maybeProvisionGateway_def)
  qed (simp add: maybeProvisionGateway_def)
qed

text \<open>A gateway whose monitor could not reach it three times, and which the owner then retries, is stuck.
  The third failure leaves the row failed at the step \<open>COMPLETE\<close>, so it is no longer watched; the retry puts it
  back at \<open>COMPLETE\<close> in the state being-provisioned, where provisioning returns at once and the monitor looks
  away, as often as the worker runs them, and a new request is told that one is already under way.\<close>
theorem retried_monitor_failure_is_stuck:
  assumes row: "pf_openwa w i = Some ch" "ch_provisioningState ch = GW_ACTIVE" "ch_provisioningStep ch = Some COMPLETE"
      "ch_managed ch" "has_port (ch_apiPort ch)" "ch_deletionRequestedAt ch = None"
    and org: "pf_orgs w i \<noteq> None" "pf_sessions w i \<noteq> []"
    and unreachable: "ge_sessionStatus env = Inl err"
    and third: "j = \<lparr>gj_organizationId = i, gj_action = Monitor, gj_delay = d, gj_attemptsMade = 2, gj_failed = False\<rparr>"
  shows "\<exists>ch1 w2. pf_openwa (snd (processJob erase env j w)) i = Some ch1
     \<and> ch_provisioningState ch1 = GW_FAILED \<and> ch_failureStep ch1 = Some COMPLETE \<and> \<not> reconciled ch1
     \<and> fst (retry_gateway i (snd (processJob erase env j w))) = Accepted Provision
     \<and> processGatewayAction erase env2 i Provision (snd (processJob erase env j w)) = (Inr False, w2)
     \<and> at_complete i w2 \<and> snd (maybeProvisionGateway i b w2) = w2
     \<and> (snd ` set runs \<subseteq> {Provision, Monitor}
          \<longrightarrow> fold (\<lambda>(env', a) v. snd (processGatewayAction erase env' i a v)) runs w2 = w2)"
proof -
  let ?w1 = "snd (processJob erase env j w)"
  have job: "?w1 = markGatewayFailed i (error_message (CallFailed err)) w"
    using row org unreachable
    by (simp add: third processJob_def processGatewayAction_def monitorConnection_def channelFor_def JOB_ATTEMPTS_def)
  obtain ch1 where ch1: "pf_openwa ?w1 i = Some ch1" "ch_provisioningState ch1 = GW_FAILED" "ch_failureStep ch1 = Some COMPLETE"
    "ch_managed ch1" "has_port (ch_apiPort ch1)" "ch_deletionRequestedAt ch1 = None"
    using row by (simp add: job markGatewayFailed_def frame_simps)
  have org1: "pf_orgs ?w1 i \<noteq> None" using org row by (simp add: job markGatewayFailed_def frame_simps)
  then obtain og1 where og1: "pf_orgs ?w1 i = Some og1" by blast
  let ?w2 = "upd_org i (\<lambda>og. og\<lparr>og_status := ORG_PROVISIONING\<rparr>) (upd_openwa i (set_step (pf_now ?w1) GW_PROVISIONING COMPLETE) ?w1)"
  have stuck: "at_complete i ?w2" using ch1 by (auto simp: at_complete_def frame_simps set_step_def)
  have "processGatewayAction erase env2 i Provision ?w1 = goes_on (provision_loop TRANSITION_GUARD env2 i ?w2)"
    using ch1 og1 by (simp add: processGatewayAction_def processProvision_def channelFor_def retry_step_def persistStep_row)
  also have "\<dots> = (Inr False, ?w2)"
    using ch1 by (simp add: TRANSITION_GUARD_def numeral_eq_Suc channelFor_def provision_step_def goes_on_def frame_simps)
  finally have retry: "processGatewayAction erase env2 i Provision ?w1 = (Inr False, ?w2)" .
  have runs: "snd ` set runs \<subseteq> {Provision, Monitor} \<longrightarrow>
      fold (\<lambda>(env', a) v. snd (processGatewayAction erase env' i a v)) runs ?w2 = ?w2"
    by (induction runs) (auto simp: at_complete_returns [OF stuck])
  have failed: "\<not> reconciled ch1" "fst (retry_gateway i ?w1) = Accepted Provision"
    using ch1 by (simp_all add: reconciled_def retry_gateway_def)
  show ?thesis
    by (rule exI [of _ ch1], rule exI [of _ ?w2]) (intro conjI ch1 failed retry stuck runs at_complete_request)
qed


definition live_channel :: "int \<Rightarrow> channel" where
  "live_channel t =
     fresh_channel\<lparr>ch_provisioningState := GW_ACTIVE, ch_provisioningStep := Some COMPLETE, ch_managed := True,
       ch_status := lit ''ACTIVE'', ch_apiPort := Some 3100, ch_dashboardPort := Some 3101, ch_deploymentName := Some (lit ''d''),
       ch_dataVolumeName := Some (lit ''v''), ch_redisVolumeName := Some (lit ''r''), ch_baseUrl := lit ''http'',
       ch_provisionedAt := Some t, ch_connectedAt := Some t\<rparr>"

lemma live_channel_simps [simp]:
  "ch_provisioningState (live_channel t) = GW_ACTIVE" "ch_provisioningStep (live_channel t) = Some COMPLETE"
  "ch_managed (live_channel t)" "ch_provisionedAt (live_channel t) = Some t" "ch_deletionRequestedAt (live_channel t) = None"
  "ch_baseUrl (live_channel t) \<noteq> []" "has_port (ch_apiPort (live_channel t))"
  by (simp_all add: live_channel_def fresh_channel_def has_port_def port_list_def)

theorem retried_monitor_failure_is_stuck_witness:
  "\<exists>w2. at_complete (lit ''o1'') w2
     \<and> fold (\<lambda>(env', a) v. snd (processGatewayAction (\<lambda>_ w. (Inr (), w)) env' (lit ''o1'') a v)) [(calm_env, Provision), (calm_env, Monitor)] w2 = w2"
proof -
  have down: "ge_sessionStatus (calm_env\<lparr>ge_sessionStatus := Inl (lit ''down'')\<rparr>) = Inl (lit ''down'')" by simp
  show ?thesis
    using retried_monitor_failure_is_stuck [where i = "lit ''o1''" and w = "gateway_platform (live_channel 0)" and d = 0
        and erase = "\<lambda>_ w. (Inr (), w)" and ?env2.0 = calm_env and b = True
        and runs = "[(calm_env, Provision), (calm_env, Monitor)]", OF gateway_platform_simps(1) _ _ _ _ _ _ _ down refl]
    by auto
qed


section \<open>What the writes of the state machine keep, its actions keep\<close>

text \<open>The writes of the state machine to the rows of organization \<open>i\<close>.\<close>

definition await_row :: "int \<Rightarrow> channel \<Rightarrow> channel" where
  "await_row now ch = ch\<lparr>ch_status := lit ''ACTIVE'', ch_provisioningState := GW_AWAITING_QR,
     ch_provisioningStep := Some AWAIT_CONNECTION, ch_provisionedAt := Some now, ch_lastCheckedAt := Some now\<rparr>"

locale provisioning_writes =
  fixes keep :: "platform \<Rightarrow> bool" and i :: jstr
  assumes keep_step: "keep w \<Longrightarrow> keep (upd_openwa i (set_step t st step) w)"
    and keep_provisioning: "keep w \<Longrightarrow> keep (upd_org i (\<lambda>og. og\<lparr>og_status := ORG_PROVISIONING\<rparr>) w)"
    and keep_allocation: "keep w \<Longrightarrow> free_pair PORT_START (used_ports w) = Some p \<Longrightarrow> keep (upd_openwa i (allocation env slug p) w)"
    and keep_await: "keep w \<Longrightarrow> keep (upd_openwa i (await_row t) w)"
begin

lemma keep_after: "keep (snd r) \<Longrightarrow> (\<And>y v. keep v \<Longrightarrow> keep (snd (k y v))) \<Longrightarrow> keep (snd (after r k))"
  by (auto simp: after_def split: prod.split sum.split)

lemma keep_persist: "keep w \<Longrightarrow> o' \<in> {None, Some ORG_PROVISIONING} \<Longrightarrow> keep (snd (persistStep i st step o' w))"
  by (auto simp: persistStep_def Let_def intro!: keep_provisioning keep_step)

lemma keep_call: "keep w \<Longrightarrow> keep (snd (call env s w))" "keep w \<Longrightarrow> keep (snd (with_deployment env s ch w))"
  by (auto simp: call_def with_deployment_def split: option.split)

lemma keep_channelFor: "keep w \<Longrightarrow> keep (snd (channelFor i w))"
  by (simp add: channelFor_def split: option.split)

lemma keep_allocate: "keep w \<Longrightarrow> keep (snd (allocate_attempts a c env i w))"
  by (induction c arbitrary: a) (auto simp: allocate_once_def split: option.split intro: keep_allocation)

lemma keep_complete: "keep w \<Longrightarrow> keep (snd (completeAwaitingQr i w))"
  using keep_provisioning [OF keep_await, of w "pf_now w"]
  by (simp add: completeAwaitingQr_def await_row_def [abs_def])

lemmas keep_parts = keep_after keep_persist keep_call keep_channelFor keep_complete keep_allocate

lemma keep_provision_step: "keep w \<Longrightarrow> keep (snd (provision_step env i ch w))"
  unfolding provision_step_def allocateResources_def
  by (cases "ch_provisioningStep ch"; cases "the (ch_provisioningStep ch)") (simp_all add: keep_parts)

lemma keep_loop: "keep w \<Longrightarrow> keep (snd (provision_loop n env i w))"
proof (induction n arbitrary: w)
  case (Suc n)
  show ?case
    using Suc.prems by (auto intro!: keep_after keep_channelFor keep_provision_step Suc.IH)
qed simp

lemma keep_provision: "keep w \<Longrightarrow> keep (snd (processProvision env i w))"
  unfolding processProvision_def by (auto intro!: keep_after keep_channelFor keep_persist keep_loop)

lemma keep_start: "keep w \<Longrightarrow> a \<in> {Provision, Resume, Restart} \<Longrightarrow> keep (snd (processGatewayAction erase env i a w))"
  unfolding processGatewayAction_def by (auto intro!: keep_after keep_persist keep_provision)

end

locale gateway_writes = provisioning_writes +
  assumes keep_suspended: "keep w \<Longrightarrow> keep (upd_org i (\<lambda>og. og\<lparr>og_status := ORG_SUSPENDED\<rparr>) w)"
    and keep_observation: "keep w \<Longrightarrow> keep (snd (recordGatewayObservation i ob w))"
begin

lemma keep_stop: "keep w \<Longrightarrow> keep (snd (persistStep i st step (Some ORG_SUSPENDED) w))"
  by (auto simp: persistStep_def Let_def intro!: keep_suspended keep_step)

lemma keep_suspend: "keep w \<Longrightarrow> keep (snd (suspendGateway env i w))"
  unfolding suspendGateway_def by (auto intro!: keep_after keep_channelFor keep_stop keep_call)

lemma keep_monitor: "keep w \<Longrightarrow> keep (snd (monitorConnection env i w))"
  unfolding monitorConnection_def
  by (intro keep_after keep_channelFor) (auto split: sum.split intro: keep_observation)

lemma keep_action:
  assumes "keep w" and "\<And>v. keep v \<Longrightarrow> keep (snd (erase i v))"
  shows "keep (snd (processGatewayAction erase env i a w))"
proof (cases "a \<in> {Provision, Resume, Restart}")
  case True
  with assms(1) show ?thesis by (rule keep_start)
next
  case False
  with assms(1) show ?thesis
    unfolding processGatewayAction_def destroyGateway_def
    by (cases a) (auto intro!: keep_after keep_channelFor keep_stop keep_call keep_suspend keep_monitor assms(2))
qed

end

section \<open>Ports\<close>

definition ports_ok :: "platform \<Rightarrow> bool" where
  "ports_ok w \<longleftrightarrow> dom (pf_openwa w) \<subseteq> set (pf_ids w)
     \<and> (\<forall>j k ch ch'. pf_openwa w j = Some ch \<and> pf_openwa w k = Some ch' \<and> j \<noteq> k
          \<longrightarrow> set (channel_ports ch) \<inter> set (channel_ports ch') = {})"

lemma ports_okI:
  assumes "ports_ok w" and "pf_ids w' = pf_ids w"
    and "\<And>k. k \<noteq> i \<Longrightarrow> pf_openwa w' k = pf_openwa w k"
    and "pf_openwa w' i = map_option f (pf_openwa w i)"
    and "\<And>ch k ch'. pf_openwa w i = Some ch \<Longrightarrow> pf_openwa w k = Some ch' \<Longrightarrow> k \<noteq> i \<Longrightarrow>
        set (channel_ports (f ch)) \<inter> set (channel_ports ch') = {}"
  shows "ports_ok w'"
proof -
  have rows: "\<exists>ch0. pf_openwa w j = Some ch0 \<and> ch = (if j = i then f ch0 else ch0)" if "pf_openwa w' j = Some ch" for j ch
    using that assms(3,4) by (cases "j = i") auto
  have "set (channel_ports ch) \<inter> set (channel_ports ch') = {}"
    if "pf_openwa w' j = Some ch" "pf_openwa w' k = Some ch'" "j \<noteq> k" for j k ch ch'
  proof -
    from rows [OF that(1)] rows [OF that(2)] obtain a b where ab: "pf_openwa w j = Some a" "pf_openwa w k = Some b"
      "ch = (if j = i then f a else a)" "ch' = (if k = i then f b else b)" by auto
    with that(3) assms(1) assms(5) [of a k b] assms(5) [of b j a] show ?thesis
      by (cases "j = i"; cases "k = i") (auto simp: ports_ok_def)
  qed
  moreover have "dom (pf_openwa w') \<subseteq> set (pf_ids w')"
    using assms(1,2) rows by (fastforce simp: ports_ok_def dom_def)
  ultimately show ?thesis unfolding ports_ok_def by blast
qed

lemma ports_ok_upd:
  assumes "ports_ok w" and "\<And>ch. channel_ports (f ch) = channel_ports ch"
  shows "ports_ok (upd_openwa i f w)"
proof (rule ports_okI [OF assms(1)])
  show "pf_openwa (upd_openwa i f w) i = map_option (\<lambda>ch. (f ch)\<lparr>ch_updatedAt := pf_now w\<rparr>) (pf_openwa w i)"
    by (simp add: frame_simps)
next
  fix ch k ch' assume "pf_openwa w i = Some ch" "pf_openwa w k = Some ch'" "k \<noteq> i"
  with assms show "set (channel_ports ((f ch)\<lparr>ch_updatedAt := pf_now w\<rparr>)) \<inter> set (channel_ports ch') = {}"
    unfolding ports_ok_def by simp blast
qed (simp_all add: frame_simps)

lemma ports_ok_cong: "pf_openwa w' = pf_openwa w \<Longrightarrow> pf_ids w' = pf_ids w \<Longrightarrow> ports_ok w' = ports_ok w"
  by (simp add: ports_ok_def)

lemma ports_ok_frames [simp]:
  "ports_ok (upd_org i f w) = ports_ok w" "ports_ok (queueGatewayAction i a d w) = ports_ok w"
  "ports_ok (raise_alert i t s m w) = ports_ok w" "ports_ok (w\<lparr>pf_jobs := js\<rparr>) = ports_ok w"
  "ports_ok (w\<lparr>pf_alerts := as\<rparr>) = ports_ok w" "ports_ok (w\<lparr>pf_health := hs\<rparr>) = ports_ok w"
  "ports_ok (w\<lparr>pf_now := now\<rparr>) = ports_ok w"
  by (rule ports_ok_cong; simp add: frame_simps)+

lemma in_used_ports:
  "pf_openwa w k = Some ch \<Longrightarrow> k \<in> set (pf_ids w) \<Longrightarrow> q \<in> set (channel_ports ch) \<Longrightarrow> q \<in> set (used_ports w)"
  by (force simp: used_ports_def)

lemma ports_ok_allocation:
  assumes ok: "ports_ok w" and p: "free_pair PORT_START (used_ports w) = Some p"
  shows "ports_ok (upd_openwa i (allocation env slug p) w)"
proof (rule ports_okI [OF ok])
  show "pf_openwa (upd_openwa i (allocation env slug p) w) i
      = map_option (\<lambda>ch. (allocation env slug p ch)\<lparr>ch_updatedAt := pf_now w\<rparr>) (pf_openwa w i)" by (simp add: frame_simps)
next
  fix ch k ch' assume k: "pf_openwa w k = Some ch'" "k \<noteq> i"
  from k(1) ok have "k \<in> set (pf_ids w)" by (auto simp: ports_ok_def)
  with k free_pair_Some [OF p] have "p \<notin> set (channel_ports ch')" "p + 1 \<notin> set (channel_ports ch')"
    by (meson in_used_ports)+
  then show "set (channel_ports ((allocation env slug p ch)\<lparr>ch_updatedAt := pf_now w\<rparr>)) \<inter> set (channel_ports ch') = {}"
    by (auto simp: allocation_def channel_ports_def port_list_def split: if_splits)
qed (simp_all add: frame_simps)

lemma ports_ok_observation: "ports_ok w \<Longrightarrow> ports_ok (snd (recordGatewayObservation i ob w))"
  by (auto simp: recordGatewayObservation_def markGatewayActive_def touch_channel_def Let_def channel_ports_def
      split: option.split intro!: ports_ok_upd)

interpretation ports: gateway_writes ports_ok i for i
proof unfold_locales
  fix w t st step assume "ports_ok w"
  then show "ports_ok (upd_openwa i (set_step t st step) w)" by (rule ports_ok_upd) simp
next
  fix w t assume "ports_ok w"
  then show "ports_ok (upd_openwa i (await_row t) w)" by (rule ports_ok_upd) (simp add: await_row_def channel_ports_def)
qed (simp_all add: ports_ok_allocation ports_ok_observation)


datatype gateway_event =
    Gw_Tick int
  | Gw_Job gateway_env jstr gateway_action
  | Gw_Observe jstr observation
  | Gw_Reconcile
  | Gw_Recheck jstr
  | Gw_Ask jstr bool
  | Gw_Owner jstr gateway_action
  | Gw_Status jstr jstr
  | Gw_Retry jstr
  | Gw_Health probe_env health_probe

fun gateway_event_step :: "(jstr \<Rightarrow> platform \<Rightarrow> unit gateway_result) \<Rightarrow> gateway_event \<Rightarrow> platform \<Rightarrow> platform" where
  "gateway_event_step erase (Gw_Tick t) w = w\<lparr>pf_now := t\<rparr>"
| "gateway_event_step erase (Gw_Job env i a) w = run_job erase env i a w"
| "gateway_event_step erase (Gw_Observe i ob) w = snd (recordGatewayObservation i ob w)"
| "gateway_event_step erase Gw_Reconcile w = reconcileProvisioning w"
| "gateway_event_step erase (Gw_Recheck i) w = monitor_recheck i w"
| "gateway_event_step erase (Gw_Ask i b) w = snd (maybeProvisionGateway i b w)"
| "gateway_event_step erase (Gw_Owner i a) w = snd (queueOwnerAction i a w)"
| "gateway_event_step erase (Gw_Status i s) w = snd (set_subscriber_status i s w)"
| "gateway_event_step erase (Gw_Retry i) w = snd (retry_gateway i w)"
| "gateway_event_step erase (Gw_Health env probe) w = snd (runHealthChecks env probe w)"

lemma ports_ok_processJob:
  assumes "ports_ok w" and "\<And>v. ports_ok v \<Longrightarrow> ports_ok (snd (erase (gj_organizationId j) v))"
  shows "ports_ok (snd (processJob erase env j w))"
proof -
  have "ports_ok (markGatewayFailed i reason v)" if "ports_ok v" for i reason v
    using that by (auto simp: markGatewayFailed_def channel_ports_def split: option.split intro!: ports_ok_upd)
  with ports.keep_action [where i = "gj_organizationId j" and erase = erase, OF assms, of env "gj_action j"] show ?thesis
    by (auto simp: processJob_def split: prod.splits sum.splits)
qed

lemma ports_ok_run_job:
  assumes "ports_ok w" and "\<And>v. ports_ok v \<Longrightarrow> ports_ok (snd (erase i v))"
  shows "ports_ok (run_job erase env i a w)"
proof (cases "find (same_job i a) (pf_jobs w)")
  case (Some j)
  then have "gj_organizationId j = i" by (auto simp: find_Some_iff same_job_def)
  with ports_ok_processJob [OF assms(1), of erase j env] assms(2) have "ports_ok (snd (processJob erase env j w))" by simp
  with Some assms(1) show ?thesis by (auto simp: run_job_def upd_job_def split: prod.splits sum.splits)
qed (simp add: run_job_def assms(1))

lemma ports_ok_ask: "ports_ok w \<Longrightarrow> ports_ok (snd (maybeProvisionGateway i b w))"
proof -
  assume w: "ports_ok w"
  then have "ports_ok (upd_openwa i (set_step t st step) (upd_org i f w))" for t st step f
    by (intro ports_ok_upd) simp_all
  with w show ?thesis
    unfolding maybeProvisionGateway_def Let_def
    by (cases "resolveEntitlements w i (pf_now w) None"; cases "channelGrantRefusal i w")
      (auto split: option.split)
qed

lemma ports_ok_reconcile: "ports_ok w \<Longrightarrow> ports_ok (reconcileProvisioning w)"
proof -
  assume w: "ports_ok w"
  have "ports_ok (fold retire is w)" for "is"
    by (rule fold_keeps [where Q = ports_ok, OF _ w]) (auto simp: retire_def channel_ports_def intro!: ports_ok_upd)
  moreover have "ports_ok v \<Longrightarrow> ports_ok (fold (reconcile_channel r) is v)" for r "is" v
    by (rule fold_keeps [where Q = ports_ok]) (auto simp: reconcile_channel_def split: option.split)
  ultimately show ?thesis by (simp add: reconcileProvisioning_def expireUnpairedGateways_def Let_def)
qed

lemma ports_ok_health: "ports_ok w \<Longrightarrow> ports_ok (snd (runHealthChecks env probe w))"
proof -
  have clear: "channel_ports (clear_failure ch) = channel_ports ch" for ch by (simp add: clear_failure_def channel_ports_def)
  have attempt: "ports_ok v \<Longrightarrow> ports_ok (snd (probe_attempt env c probe v))" for c v
    by (auto simp: probe_attempt_def ports_ok_observation split: health_probe.split sum.split)
  have one: "ports_ok v \<Longrightarrow> ports_ok (snd (runProbe env c probe v))" for c v
    using attempt [of v c]
    by (auto simp: runProbe_def Let_def clearStaleFailure_def resolveAlerts_def record_check_def raiseAlert_def clear
        split: prod.splits option.splits intro!: ports_ok_upd)
  assume w: "ports_ok w"
  have "ports_ok (snd (fold (run_candidate env probe) cs (t, w)))" for cs t
    by (rule fold_keeps [where Q = "\<lambda>acc. ports_ok (snd acc)"])
      (simp_all add: run_candidate_def w case_prod_beta one)
  moreover have "ports_ok v \<Longrightarrow> ports_ok (fold (reconcile_failure env) is v)" for "is" v
    by (rule fold_keeps [where Q = ports_ok]) (auto simp: reconcile_failure_def resolveAlerts_def clear split: option.split intro!: ports_ok_upd)
  ultimately show ?thesis
    by (auto simp: runHealthChecks_def Let_def reconcileProvisioningFailures_def case_prod_beta)
qed

text \<open>C20: No two gateways ever share a port, whether as API or dashboard port: over every history of jobs,
  observations, reconciliations, requests, owner actions and probes, whatever the runtime answers, the ports
  of different organizations stay apart, provided the database's own deletion keeps them apart.\<close>
theorem gateway_ports_stay_apart:
  assumes "ports_ok w" and "\<And>i v. ports_ok v \<Longrightarrow> ports_ok (snd (erase i v))"
    and "pf_openwa (fold (gateway_event_step erase) es w) j = Some ch"
    and "pf_openwa (fold (gateway_event_step erase) es w) k = Some ch'" and "j \<noteq> k"
  shows "set (channel_ports ch) \<inter> set (channel_ports ch') = {}"
proof -
  have "ports_ok (gateway_event_step erase e v)" if "ports_ok v" for e v
    using that assms(2)
    by (cases e) (auto simp: ports_ok_run_job ports_ok_observation ports_ok_reconcile ports_ok_ask ports_ok_health
        monitor_recheck_def queueOwnerAction_def set_subscriber_status_def retry_gateway_def Let_def split: option.split)
  then have "ports_ok (fold (gateway_event_step erase) es w)" by (rule fold_keeps [where Q = ports_ok, OF _ assms(1)])
  with assms(3-5) show ?thesis unfolding ports_ok_def by blast
qed


theorem gateway_ports_stay_apart_witness:
  "set (channel_ports (live_channel 0)) \<inter> set (channel_ports (fresh_channel\<lparr>ch_apiPort := Some 3102\<rparr>)) = {}"
proof -
  let ?w = "(gateway_platform (live_channel 0))\<lparr>pf_ids := [lit ''o1'', lit ''o2''],
      pf_openwa := (\<lambda>i. if i = lit ''o1'' then Some (live_channel 0)
        else if i = lit ''o2'' then Some (fresh_channel\<lparr>ch_apiPort := Some 3102\<rparr>) else None)\<rparr>"
  have ne: "lit ''o1'' \<noteq> lit ''o2''" by (simp add: lit_def)
  have "ports_ok ?w"
    by (auto simp: ports_ok_def live_channel_def fresh_channel_def channel_ports_def port_list_def dom_def split: if_splits)
  from gateway_ports_stay_apart [OF this, of "\<lambda>_ w. (Inr (), w)" "[Gw_Tick 3000]" "lit ''o1''" "live_channel 0" "lit ''o2''"
      "fresh_channel\<lparr>ch_apiPort := Some 3102\<rparr>"] ne
  show ?thesis by auto
qed

section \<open>A gateway that drops\<close>

lemma retired_rows:
  "distinct is \<Longrightarrow> pf_openwa (fold retire is w) i =
     (if i \<in> set is then map_option (\<lambda>ch. ch\<lparr>ch_provisioningState := GW_FAILED, ch_failureStep := Some AWAIT_CONNECTION,
        ch_failureReason := Some QR_NEVER_SCANNED, ch_updatedAt := pf_now w\<rparr>) (pf_openwa w i) else pf_openwa w i)
   \<and> pf_now (fold retire is w) = pf_now w \<and> pf_ids (fold retire is w) = pf_ids w"
proof (induction "is" arbitrary: w)
  case (Cons j js)
  then show ?case by (auto simp: retire_def frame_simps)
qed simp

lemma fold_reconcile_rows: "pf_openwa (fold (reconcile_channel r) is w) = pf_openwa w"
proof (induction "is" arbitrary: w)
  case (Cons i js)
  then show ?case by (simp add: reconcile_channel_def frame_simps split: option.split)
qed simp

lemma reconcile_rows:
  assumes "distinct (pf_ids w)" and "i \<in> set (pf_ids w)" and "pf_openwa w i = Some ch"
  shows "pf_openwa (reconcileProvisioning w) i =
     Some (if unpaired_too_long (pf_now w) ch
           then ch\<lparr>ch_provisioningState := GW_FAILED, ch_failureStep := Some AWAIT_CONNECTION,
                  ch_failureReason := Some QR_NEVER_SCANNED, ch_updatedAt := pf_now w\<rparr> else ch)"
  using retired_rows [of "stale_channels (pf_now w) w" w i] assms
  by (simp add: reconcileProvisioning_def expireUnpairedGateways_def Let_def fold_reconcile_rows stale_channels_def)

definition recovered :: "probe_env \<Rightarrow> int \<Rightarrow> channel \<Rightarrow> channel" where
  "recovered env now ch =
     (if ch_baseUrl ch \<noteq> [] \<and> pb_reachable env (ch_baseUrl ch) then (clear_failure ch)\<lparr>ch_updatedAt := now\<rparr> else ch)"

lemma recovered_twice [simp]: "recovered env now (recovered env now ch) = recovered env now ch"
  by (simp add: recovered_def clear_failure_def)

lemma reconcile_failure_one:
  "pf_openwa (reconcile_failure env j w) i =
     (if i = j then map_option (recovered env (pf_now w)) (pf_openwa w i) else pf_openwa w i)"
  "pf_now (reconcile_failure env j w) = pf_now w"
  by (auto simp: reconcile_failure_def resolveAlerts_def recovered_def frame_simps split: option.split)

lemma reconcile_failure_row:
  "pf_openwa (fold (reconcile_failure env) is w) i =
     (if i \<in> set is then map_option (recovered env (pf_now w)) (pf_openwa w i) else pf_openwa w i)"
proof (induction "is" arbitrary: w)
  case (Cons j js)
  then show ?case by (simp add: reconcile_failure_one option.map_comp o_def)
qed simp

text \<open>A gateway that drops after it has been paired for longer than the pairing window gets no window to be
  scanned again: the observation demotes it to waiting-for-a-scan with its old ready time, and the next
  reconciliation retires it as never scanned. If the gateway itself still answers, the next pass over the
  failed rows then sets it back to connected, although nobody has scanned anything.\<close>
theorem dropped_gateway_has_no_pairing_window:
  assumes keyed: "distinct (pf_ids w)" "i \<in> set (pf_ids w)"
    and row: "pf_openwa w i = Some ch" "ch_managed ch" "ch_provisioningState ch = GW_ACTIVE" "ch_deletionRequestedAt ch = None"
      "ch_provisionedAt ch = Some t" "ch_baseUrl ch \<noteq> []"
    and late: "t < pf_now w - PAIRING_WINDOW_MS"
    and dropped: "isUnpairedState reported" "ob = \<lparr>ob_reported = reported, ob_connected = None\<rparr>"
    and answers: "pb_reachable env (ch_baseUrl ch)"
  defines "w1 \<equiv> snd (recordGatewayObservation i ob w)"
  defines "w2 \<equiv> reconcileProvisioning w1"
  shows "fst (recordGatewayObservation i ob w) = Demoted
    \<and> (\<exists>c. pf_openwa w2 i = Some c \<and> ch_provisioningState c = GW_FAILED \<and> ch_failureReason c = Some QR_NEVER_SCANNED)
    \<and> (\<exists>c. pf_openwa (reconcileProvisioningFailures env w2) i = Some c \<and> ch_provisioningState c = GW_ACTIVE)"
proof (intro conjI)
  have "\<not> isConnectedState reported"
    using dropped(1) by (auto simp: isUnpairedState_def isConnectedState_def UNPAIRED_def CONNECTED_def lit_def)
  then have obs: "recordGatewayObservation i ob w = (Demoted, upd_openwa i (\<lambda>ch. ch\<lparr>ch_provisioningState := GW_AWAITING_QR,
      ch_provisioningStep := Some AWAIT_CONNECTION, ch_status := lit ''PENDING'',
      ch_lastCheckedAt := Some (pf_now w), ch_failureStep := None,
      ch_failureReason := Some (lit ''The WhatsApp session is no longer connected. Scan the QR code again to reconnect this number.'')\<rparr>) w)"
    using dropped row by (simp add: recordGatewayObservation_def Let_def)
  then show "fst (recordGatewayObservation i ob w) = Demoted" by simp
  from obs obtain c1 where c1: "pf_openwa w1 i = Some c1" "unpaired_too_long (pf_now w1) c1" "ch_baseUrl c1 = ch_baseUrl ch"
    using row late by (simp add: w1_def frame_simps unpaired_too_long_def)
  have ids: "pf_ids w1 = pf_ids w" using obs by (simp add: w1_def frame_simps)
  have c2: "pf_openwa w2 i = Some (c1\<lparr>ch_provisioningState := GW_FAILED, ch_failureStep := Some AWAIT_CONNECTION,
      ch_failureReason := Some QR_NEVER_SCANNED, ch_updatedAt := pf_now w1\<rparr>)"
    unfolding w2_def using reconcile_rows [of w1 i c1] keyed ids c1 by simp
  then show "\<exists>c. pf_openwa w2 i = Some c \<and> ch_provisioningState c = GW_FAILED \<and> ch_failureReason c = Some QR_NEVER_SCANNED"
    by simp
  have "pf_ids (fold (reconcile_channel r) is v) = pf_ids v" for r "is" v
    by (induction "is" arbitrary: v) (simp_all add: reconcile_channel_def frame_simps split: option.split)
  with retired_rows [of "stale_channels (pf_now w1) w1" w1 i] keyed ids
  have "pf_ids w2 = pf_ids w"
    by (simp add: w2_def reconcileProvisioning_def expireUnpairedGateways_def Let_def stale_channels_def)
  with c2 c1(3) keyed row(6) answers
  show "\<exists>c. pf_openwa (reconcileProvisioningFailures env w2) i = Some c \<and> ch_provisioningState c = GW_ACTIVE"
    by (simp add: reconcileProvisioningFailures_def reconcile_failure_row recovered_def clear_failure_def)
qed

lemma qr_ready_unpaired: "isUnpairedState (Some (lit ''qr_ready''))"
proof -
  have "js_lower (lit ''qr_ready'') = lit ''qr_ready''" by (simp add: lit_def js_simps lower_unit_def)
  then show ?thesis by (simp add: isUnpairedState_def UNPAIRED_def or_empty_def)
qed

theorem dropped_gateway_has_no_pairing_window_witness:
  "fst (recordGatewayObservation (lit ''o1'') \<lparr>ob_reported = Some (lit ''qr_ready''), ob_connected = None\<rparr>
     ((gateway_platform (live_channel 5))\<lparr>pf_now := 7200006\<rparr>)) = Demoted"
proof -
  have row: "pf_openwa ((gateway_platform (live_channel 5))\<lparr>pf_now := 7200006\<rparr>) (lit ''o1'') = Some (live_channel 5)" by simp
  show ?thesis
    by (rule dropped_gateway_has_no_pairing_window [where t = 5
          and env = "\<lparr>pb_status = (\<lambda>_. Inr None), pb_sendSelf = (\<lambda>_ _. None), pb_reachable = (\<lambda>_. True)\<rparr>",
          OF _ _ row _ _ _ _ _ _ qr_ready_unpaired refl, THEN conjunct1])
      (simp_all add: PAIRING_WINDOW_MS_def)
qed


section \<open>What the jobs do to access\<close>

definition undated :: "gateway_job list \<Rightarrow> jstr \<Rightarrow> platform \<Rightarrow> bool" where
  "undated js i w \<longleftrightarrow> pf_jobs w = js \<and> (\<exists>og. pf_orgs w i = Some og \<and> og_suspendAt og = None) \<and> pf_openwa w i \<noteq> None"

lemma undated_frames:
  "undated js i w \<Longrightarrow> undated js i (upd_openwa i f w)"
  "undated js i w \<Longrightarrow> undated js i (upd_org i (\<lambda>og. og\<lparr>og_status := s\<rparr>) w)"
  "undated js i w \<Longrightarrow> undated js i (raise_alert j t sev m w)"
  by (auto simp: undated_def frame_simps)

interpretation undated: gateway_writes "undated js i" i for js i
  by unfold_locales (auto simp: undated_frames, auto simp: undated_def recordGatewayObservation_def markGatewayActive_def
      touch_channel_def Let_def frame_simps split: option.split)

definition not_suspended :: "jstr \<Rightarrow> platform \<Rightarrow> bool" where
  "not_suspended i w \<longleftrightarrow> (\<exists>og. pf_orgs w i = Some og \<and> og_status og \<noteq> ORG_SUSPENDED)"

interpretation opened: provisioning_writes "not_suspended i" i for i
  by unfold_locales (auto simp: not_suspended_def frame_simps)

lemma suspend_locks:
  assumes "undated js i w"
  shows "locked i (snd (suspendGateway env i w))"
proof -
  from assms obtain og ch where og: "pf_orgs w i = Some og" "og_suspendAt og = None" "pf_openwa w i = Some ch"
    by (auto simp: undated_def)
  then show ?thesis
    by (auto simp: suspendGateway_def persistStep_row channelFor_def with_deployment_def call_def after_def locked_def
        persistStep_def Let_def frame_simps split: option.split)
qed

lemma find_same_job: "find (same_job i a) js = Some j \<Longrightarrow> gj_organizationId j = i \<and> gj_action j = a"
  by (auto simp: find_Some_iff same_job_def)

lemma undated_failed: "undated js i w \<Longrightarrow> undated js i (markGatewayFailed i reason w)"
  by (simp add: markGatewayFailed_def undated_frames split: option.split)

lemma find_filter_job: "b \<noteq> a \<Longrightarrow> find (same_job i b) (filter (\<lambda>k. \<not> same_job i a k) js) = find (same_job i b) js"
  by (rule find_filter_other) (auto simp: same_job_def)

lemma find_map_job:
  "b \<noteq> a \<Longrightarrow> (\<And>k. gj_organizationId (f k) = gj_organizationId k \<and> gj_action (f k) = gj_action k) \<Longrightarrow>
     find (same_job i b) (map (\<lambda>k. if same_job i a k then f k else k) js) = find (same_job i b) js"
  by (induction js) (auto simp: same_job_def)

lemma undated_jobs: "undated js i w \<Longrightarrow> undated js' i (w\<lparr>pf_jobs := js'\<rparr>)"
  by (simp add: undated_def)

lemma run_job_undated:
  assumes w: "undated js i w" and a: "a \<in> {Provision, Resume, Restart}"
  shows "\<exists>js'. undated js' i (run_job erase env i a w) \<and> find (same_job i Suspend) js' = find (same_job i Suspend) js"
proof (cases "\<exists>j. find (same_job i a) (pf_jobs w) = Some j \<and> \<not> gj_failed j")
  case True
  then obtain j where j: "find (same_job i a) (pf_jobs w) = Some j" "\<not> gj_failed j" by blast
  have "undated js i (snd (processJob erase env j w))"
    using undated.keep_start [OF w a, of erase env] find_same_job [OF j(1)]
    by (auto simp: processJob_def undated_failed split: prod.splits sum.splits)
  then obtain r v where v: "processJob erase env j w = (r, v)" "undated js i v" by (metis surj_pair snd_conv)
  from v(2) have "pf_jobs v = js" by (simp add: undated_def)
  with v a j have r: "run_job erase env i a w = v\<lparr>pf_jobs := case r of Inr _ \<Rightarrow> filter (\<lambda>k. \<not> same_job i a k) js
      | Inl _ \<Rightarrow> map (\<lambda>k. if same_job i a k then k\<lparr>gj_attemptsMade := gj_attemptsMade k + 1,
                     gj_failed := (gj_attemptsMade k + 1 \<ge> JOB_ATTEMPTS)\<rparr> else k) js\<rparr>"
    by (cases r) (simp_all add: run_job_def upd_job_def)
  from a have "Suspend \<noteq> a" by auto
  with r undated_jobs [OF v(2)] show ?thesis
    by (cases r) (fastforce simp: find_filter_job find_map_job)+
next
  case False
  then have "run_job erase env i a w = w" by (auto simp: run_job_def split: option.splits)
  with w show ?thesis by auto
qed

lemma run_suspend_locks:
  assumes w: "undated js i w" and j: "find (same_job i Suspend) js = Some j" "\<not> gj_failed j"
  shows "locked i (run_job erase env i Suspend w)"
proof -
  have org: "gj_organizationId j = i" "gj_action j = Suspend" using find_same_job [OF j(1)] by simp_all
  have failed: "locked i v \<Longrightarrow> locked i (markGatewayFailed i reason v)" for reason v
    by (auto simp: markGatewayFailed_def locked_def frame_simps split: option.split)
  have "locked i (snd (processJob erase env j w))"
    using suspend_locks [OF w, of env]
    by (auto simp: processJob_def processGatewayAction_def org goes_on_eq failed split: prod.splits sum.splits)
  moreover have "pf_jobs w = js" using w by (simp add: undated_def)
  ultimately show ?thesis
    using j by (auto simp: run_job_def upd_job_def locked_def split: prod.splits sum.splits)
qed

text \<open>A suspension still waiting in the queue when the customer pays undoes the payment. The payment reopens
  the organization and queues the job that resumes its gateway, but takes back no job that suspends it: when
  that one is tried again, after the resumption as well, the organization is suspended without a deadline,
  and from then on no payment, event, reconciliation or dunning pass lets it in.\<close>
theorem waiting_suspension_undoes_a_payment:
  assumes paid: "pay_invoice_route i n amount how paidAt w = Inr w1" and og: "pf_orgs w i = Some og"
    and clear: "\<not> hasOverdueBalance i (pf_now w) w1" and stopped: "dunned (pf_now w) og"
    and job: "find (same_job i Suspend) (pf_jobs w) = Some j" "\<not> gj_failed j" and row: "pf_openwa w i \<noteq> None"
  shows "decideAccess w1 i now \<noteq> Refused_Suspended
    \<and> decideAccess (fold (billing_step remote) es (run_job erase env2 i Suspend (run_job erase env1 i Resume w1))) i now
       = Refused_Suspended"
proof (intro conjI)
  from paid_dunned [OF paid og clear stopped] obtain v where v: "pf_orgs v = pf_orgs w" "pf_openwa v = pf_openwa w" "pf_jobs v = pf_jobs w"
    and w1: "w1 = queueGatewayAction i Resume 0 (restore_subscriptions i (upd_org i (withdraw_deadline (pf_now w) og) v))" by blast
  have org: "pf_orgs w1 i = Some (withdraw_deadline (pf_now w) og og)"
    using v og by (simp add: w1 restore_subscriptions_def frame_simps)
  then show "decideAccess w1 i now \<noteq> Refused_Suspended"
    using stopped by (intro gate_not_suspended) (auto simp: withdraw_deadline_def)
  have jobs: "pf_jobs (restore_subscriptions i (upd_org i f v)) = pf_jobs w" for f
    using v by (simp add: restore_subscriptions_def upd_subscriptions_def frame_simps)
  have "find (same_job i Suspend) (pf_jobs w1) = Some j"
    using job by (auto simp: w1 queueGatewayAction_def jobs find_append find_filter_job split: option.splits)
  moreover have "undated (pf_jobs w1) i w1"
    using org row v by (simp add: undated_def withdraw_deadline_def)
      (simp add: w1 restore_subscriptions_def upd_subscriptions_def frame_simps)
  ultimately obtain js where "undated js i (run_job erase env1 i Resume w1)" "find (same_job i Suspend) js = Some j"
    using run_job_undated [of "pf_jobs w1" i w1 Resume erase env1] by auto
  from lockout.run_inv [OF run_suspend_locks [OF this job(2), of erase env2], of remote es]
  show "decideAccess (fold (billing_step remote) es (run_job erase env2 i Suspend (run_job erase env1 i Resume w1))) i now
      = Refused_Suspended"
    by (auto simp: locked_def gate_suspended)
qed

text \<open>Outside billing, two things lift a suspension as a side effect. A job that restarts or resumes the
  gateway opens the gate before anything is restarted, even when every call then fails; and an observation
  that the gateway is connected makes the organization active, a suspended row included.\<close>
theorem gateway_work_lifts_a_suspension:
  assumes og: "pf_orgs w i = Some og" "og_status og = ORG_SUSPENDED" and row: "pf_openwa w i = Some ch"
    and a: "a \<in> {Restart, Resume}" and seen: "ch_provisioningState ch \<noteq> GW_ACTIVE" "isConnectedState reported"
  shows "decideAccess w i now = Refused_Suspended
    \<and> decideAccess (snd (processGatewayAction erase env i a w)) i now \<noteq> Refused_Suspended
    \<and> decideAccess (snd (recordGatewayObservation i \<lparr>ob_reported = reported, ob_connected = None\<rparr> w)) i now \<noteq> Refused_Suspended"
proof (intro conjI)
  show "decideAccess w i now = Refused_Suspended" using og by (rule gate_suspended)
  have "not_suspended i (snd (persistStep i GW_PROVISIONING step (Some ORG_PROVISIONING) w))" for step
    using og row by (simp add: persistStep_row not_suspended_def frame_simps)
  then have "not_suspended i (snd (processGatewayAction erase env i a w))"
    using a unfolding processGatewayAction_def by (auto intro!: opened.keep_after opened.keep_provision)
  then show "decideAccess (snd (processGatewayAction erase env i a w)) i now \<noteq> Refused_Suspended"
    by (auto simp: not_suspended_def dest: gate_not_suspended)
  have "pf_orgs (snd (recordGatewayObservation i \<lparr>ob_reported = reported, ob_connected = None\<rparr> w)) i
      = Some (og\<lparr>og_status := ORG_ACTIVE\<rparr>)"
    using og row seen by (simp add: recordGatewayObservation_def markGatewayActive_def Let_def frame_simps)
  then show "decideAccess (snd (recordGatewayObservation i \<lparr>ob_reported = reported, ob_connected = None\<rparr> w)) i now \<noteq> Refused_Suspended"
    by (rule gate_not_suspended) simp
qed


definition waiting_suspend :: gateway_job where
  "waiting_suspend = \<lparr>gj_organizationId = lit ''o1'', gj_action = Suspend, gj_delay = 0, gj_attemptsMade = 1, gj_failed = False\<rparr>"

definition stopped_platform :: platform where
  "stopped_platform = (late_platform ORG_SUSPENDED (Some 1500))\<lparr>pf_jobs := [waiting_suspend],
     pf_openwa := (\<lambda>_. Some (live_channel 0))\<rparr>"

theorem waiting_suspension_undoes_a_payment_witness:
  "\<exists>w1. pay_invoice_route (lit ''o1'') 0 4900 (lit ''cash'') 1900 stopped_platform = Inr w1
     \<and> decideAccess w1 (lit ''o1'') 9000 \<noteq> Refused_Suspended
     \<and> decideAccess (fold (billing_step (\<lambda>_ _. True)) [Payment_Event paid_event]
          (run_job (\<lambda>_ w. (Inr (), w)) calm_env (lit ''o1'') Suspend (run_job (\<lambda>_ w. (Inr (), w)) calm_env (lit ''o1'') Resume w1)))
          (lit ''o1'') 9000 = Refused_Suspended"
proof -
  have w: "pf_invoices stopped_platform = [late_invoice]" "pf_receipts stopped_platform = []" "pf_now stopped_platform = 2000"
    "pf_orgs stopped_platform (lit ''o1'') = Some (sample_org\<lparr>og_status := ORG_SUSPENDED, og_suspendAt := Some 1500\<rparr>)"
    by (simp_all add: stopped_platform_def)
  from late_paid [OF w(1,2,4,3)] w(3) obtain w1 where
    w1: "pay_invoice_route (lit ''o1'') 0 4900 (lit ''cash'') 1900 stopped_platform = Inr w1"
    "\<not> hasOverdueBalance (lit ''o1'') (pf_now stopped_platform) w1" by auto
  have rest: "dunned (pf_now stopped_platform) (sample_org\<lparr>og_status := ORG_SUSPENDED, og_suspendAt := Some 1500\<rparr>)"
    "find (same_job (lit ''o1'') Suspend) (pf_jobs stopped_platform) = Some waiting_suspend" "\<not> gj_failed waiting_suspend"
    "pf_openwa stopped_platform (lit ''o1'') \<noteq> None"
    by (simp_all add: dunned_def w(3)) (simp_all add: stopped_platform_def same_job_def waiting_suspend_def)
  note undone = waiting_suspension_undoes_a_payment [OF w1(1) w(4) w1(2) rest]
  from w1(1) undone show ?thesis by blast
qed

lemma ready_connected: "isConnectedState (Some (lit ''ready''))"
proof -
  have "js_lower (lit ''ready'') = lit ''ready''" by (simp add: lit_def js_simps lower_unit_def)
  then show ?thesis by (simp add: isConnectedState_def CONNECTED_def or_empty_def)
qed

definition resting_channel :: channel where
  "resting_channel = (live_channel 0)\<lparr>ch_provisioningState := GW_SUSPENDED\<rparr>"

theorem gateway_work_lifts_a_suspension_witness:
  "let w = stopped_platform\<lparr>pf_openwa := (\<lambda>_. Some resting_channel)\<rparr>;
       o1 = lit ''o1'';
       refusing = calm_env\<lparr>ge_call := (\<lambda>_. Some (lit ''no''))\<rparr>
   in decideAccess w o1 9000 = Refused_Suspended
      \<and> decideAccess (snd (processGatewayAction (\<lambda>_ w. (Inr (), w)) refusing o1 Restart w)) o1 9000 \<noteq> Refused_Suspended
      \<and> decideAccess (snd (recordGatewayObservation o1 \<lparr>ob_reported = Some (lit ''ready''), ob_connected = None\<rparr> w)) o1 9000
          \<noteq> Refused_Suspended"
proof -
  let ?w = "stopped_platform\<lparr>pf_openwa := (\<lambda>_. Some resting_channel)\<rparr>"
  have w: "pf_orgs ?w (lit ''o1'') = Some (sample_org\<lparr>og_status := ORG_SUSPENDED, og_suspendAt := Some 1500\<rparr>)"
    "pf_openwa ?w (lit ''o1'') = Some resting_channel" "ch_provisioningState resting_channel \<noteq> GW_ACTIVE"
    by (simp_all add: stopped_platform_def resting_channel_def)
  show ?thesis
    unfolding Let_def by (rule gateway_work_lifts_a_suspension [OF w(1) _ w(2) _ w(3) ready_connected]) simp_all
qed

end
