(* ===== verification/Text_Signals.thy ===== *)
theory Text_Signals
  imports Prelude
begin

text \<open>
  What the inbound pipeline reads in a text: consent keywords (\<open>utils/consent.ts\<close>), ratings and thanks
  (\<open>utils/client-feedback.ts\<close>), the priority keywords (\<open>constants/keywords.ts\<close>), click markers
  (\<open>modules/growth-widgets/widget-token.ts\<close>); and what it is answered with: templates (\<open>utils/template.ts\<close>) and
  working hours (\<open>utils/working-hours.ts\<close>).

  Words that are not ASCII are given as their code units, in the order of the source. What
  \<open>Intl.DateTimeFormat\<close> says of an instant in a time zone is a parameter.
\<close>

section \<open>Whitespace and occurrences\<close>

text \<open>\<open>replace(/\s+/g, ' ')\<close>\<close>

fun collapse_ws :: "jstr \<Rightarrow> jstr" where
  "collapse_ws [] = []"
| "collapse_ws [c] = (if is_ws c then [32] else [c])"
| "collapse_ws (c # d # s) =
     (if is_ws c then (if is_ws d then collapse_ws (d # s) else 32 # collapse_ws (d # s)) else c # collapse_ws (d # s))"

text \<open>\<open>/(^|\s)word(\s|$)/\<close>, tried at every position; \<open>edge\<close> is whether the position is one where a word may start.\<close>

fun whole_word_at :: "bool \<Rightarrow> jstr \<Rightarrow> jstr \<Rightarrow> bool" where
  "whole_word_at edge w [] = (edge \<and> w = [])"
| "whole_word_at edge w (c # s) =
     (edge \<and> starts_with w (c # s) \<and> (case drop (length w) (c # s) of [] \<Rightarrow> True | d # _ \<Rightarrow> is_ws d)
      \<or> whole_word_at (is_ws c) w s)"

section \<open>Consent\<close>

definition OPT_OUT_KEYWORDS :: "jstr list" where
  "OPT_OUT_KEYWORDS =
     [lit ''stop'', lit ''unsubscribe'', lit ''cancel'', [1578, 1608, 1602, 1601], [1573, 1604, 1594, 1575, 1569],
      [1575, 1604, 1594, 1575, 1569], [1575, 1610, 1602, 1575, 1601], [1573, 1610, 1602, 1575, 1601],
      [1604, 1575, 32, 1575, 1585, 1610, 1583], [1604, 1575, 32, 1571, 1585, 1610, 1583], [1492, 1508, 1505, 1511],
      [1492, 1505, 1512], [1489, 1497, 1496, 1493, 1500]]"

definition OPT_IN_KEYWORDS :: "jstr list" where
  "OPT_IN_KEYWORDS =
     [lit ''start'', lit ''subscribe'', [1575, 1588, 1578, 1585, 1575, 1603], [1575, 1576, 1583, 1571],
      [1492, 1512, 1513, 1501], [1492, 1514, 1495, 1500]]"

definition CONSENT_PUNCTUATION :: "nat list" where
  "CONSENT_PUNCTUATION = [46, 33, 63, 1548, 1563, 44, 58, 59, 34, 39, 40, 41, 91, 93, 123, 125, 60, 62, 42, 95, 126, 96, 45]"

definition normalize_signal :: "jstr \<Rightarrow> jstr" where
  "normalize_signal text =
     js_trim (collapse_ws (filter (\<lambda>c. c \<notin> set CONSENT_PUNCTUATION) (js_lower (js_trim text))))"

datatype consent_signal = SignalOut | SignalIn

definition detectConsentSignal :: "jstr \<Rightarrow> consent_signal option" where
  "detectConsentSignal body =
     (let normalized = normalize_signal body
      in if normalized = [] then None
         else if normalized \<in> set OPT_OUT_KEYWORDS then Some SignalOut
         else if normalized \<in> set OPT_IN_KEYWORDS then Some SignalIn
         else None)"

section \<open>Ratings and thanks\<close>

datatype client_feedback = Rating nat | Thanks

text \<open>The Arabic digits one to five.\<close>

definition latin_digit :: "nat \<Rightarrow> nat" where
  "latin_digit c = (if 1633 \<le> c \<and> c \<le> 1637 then c - 1584 else c)"

definition rating_digit :: "nat \<Rightarrow> bool" where "rating_digit c \<longleftrightarrow> 49 \<le> c \<and> c \<le> 53"

definition THANKS_WORDS :: "jstr list" where
  "THANKS_WORDS =
     [[1588, 1603, 1585], [1605, 1605, 1578, 1575, 1586], [1585, 1575, 1574, 1593], [1578, 1605, 1575, 1605],
      [1610, 1593, 1591, 1610, 1603], [1575, 1604, 1604, 1607, 32, 1610, 1576, 1575, 1585, 1603],
      [1576, 1575, 1585, 1603, 32, 1575, 1604, 1604, 1607], [1575, 1581, 1587, 1606], [1571, 1581, 1587, 1606],
      [1605, 1588, 1603, 1608, 1585], [1578, 1587, 1604, 1605], [1605, 1605, 1606, 1608, 1606],
      [1610, 1587, 1604, 1605, 1608], [1575, 1604, 1604, 1607, 32, 1610, 1593, 1591, 1610, 1603],
      [1603, 1601, 1608], lit ''legend'', [55357, 56397], [55357, 56911], [10084], [11088]]"

definition THANKS_EXACT :: "jstr list" where
  "THANKS_EXACT = [lit ''thank'', lit ''thanks'', lit ''thx'', lit ''ok'', lit ''okay'']"

definition ISSUE_WORDS :: "jstr list" where
  "ISSUE_WORDS =
     [[1608, 1575, 1602, 1601], [1575, 1606, 1602, 1591, 1593], [1576, 1591, 1610, 1569],
      [1605, 1588, 1603, 1604, 1577], [1593, 1591, 1604], [1605, 1575, 32, 1601, 1610, 32, 1606, 1578],
      [1605, 1575, 32, 1610, 1588, 1578, 1594, 1604], [1578, 1602, 1606, 1610], [1601, 1606, 1610]]"

text \<open>
  Both patterns for a rating find the first digit from one to five: the second lets words and spaces
  stand before it and asks for nothing around it, only for a text of less than forty characters.
\<close>

definition detectClientFeedback :: "jstr \<Rightarrow> client_feedback option" where
  "detectClientFeedback body =
     (let raw = js_trim body
      in if raw = [] then None
         else let normalized = js_trim (map latin_digit raw)
              in case find rating_digit normalized of
                   Some d \<Rightarrow>
                     if normalized = [d] \<or> length raw < 40 then Some (Rating (d - 48)) else
                     (if \<not> list_ex (\<lambda>w. js_includes w raw) ISSUE_WORDS
                         \<and> (list_ex (\<lambda>w. js_includes w (ascii_lower raw)) THANKS_WORDS \<or> ascii_lower raw \<in> set THANKS_EXACT)
                         \<and> length raw < 160 then Some Thanks else None)
                 | None \<Rightarrow>
                     if \<not> list_ex (\<lambda>w. js_includes w raw) ISSUE_WORDS
                        \<and> (list_ex (\<lambda>w. js_includes w (ascii_lower raw)) THANKS_WORDS \<or> ascii_lower raw \<in> set THANKS_EXACT)
                        \<and> length raw < 160 then Some Thanks else None)"

section \<open>Priority keywords\<close>

datatype keyword_category = KW_CRITICAL | KW_HIGH | KW_MEDIUM | KW_LOW

definition KEYWORDS_CRITICAL :: "jstr list" where
  "KEYWORDS_CRITICAL =
     [[1593, 1575, 1580, 1604], [1590, 1585, 1608, 1585, 1610], [1581, 1575, 1604, 1611, 1575], [1607, 1604, 1575],
      [1605, 1587, 1578, 1593, 1580, 1604], [1588, 1603, 1608, 1609], [1586, 1593, 1604, 1575, 1606],
      [1605, 1588, 32, 1585, 1575, 1590, 1610], [1605, 1575, 32, 1581, 1583, 1575, 32, 1576, 1585, 1583],
      [1589, 1575, 1585, 1604, 1610, 32, 1601, 1578, 1585, 1577],
      [1605, 1588, 1603, 1604, 1577, 32, 1603, 1576, 1610, 1585, 1577], [1582, 1587, 1575, 1585, 1577],
      [1578, 1593, 1591, 1604, 32, 1575, 1604, 1588, 1594, 1604], [1491, 1495, 1493, 1507],
      [1489, 1492, 1493, 1500], [1514, 1511, 1500, 1492, 32, 1490, 1491, 1493, 1500, 1492],
      [1514, 1500, 1493, 1504, 1492], lit ''urgent'', lit ''emergency'', lit ''critical'', lit ''asap'',
      lit ''complaint'', lit ''nothing works'']"

definition KEYWORDS_HIGH :: "jstr list" where
  "KEYWORDS_HIGH =
     [[1605, 1588, 1603, 1604, 1577], [1605, 1588, 32, 1588, 1594, 1575, 1604], [1608, 1575, 1602, 1601],
      [1578, 1593, 1591, 1604], [1604, 1575, 32, 1610, 1593, 1605, 1604], [1605, 1575, 32, 1576, 1586, 1576, 1591],
      [1601, 1610, 32, 1582, 1604, 1604], [1576, 1581, 1575, 1580, 1577, 32, 1605, 1587, 1575, 1593, 1583, 1577],
      [1576, 1583, 1606, 1575, 32, 1581, 1604], [1578, 1608, 1575, 1589, 1604, 1608, 1575, 32, 1605, 1593, 1610],
      [1514, 1511, 1500, 1492], [1500, 1488, 32, 1506, 1493, 1489, 1491], [1489, 1506, 1497, 1492],
      [1510, 1512, 1497, 1498, 32, 1506, 1494, 1512, 1492], lit ''problem'', lit ''broken'', lit ''not working'',
      lit ''need help'', lit ''issue'', lit ''fault'']"

definition KEYWORDS_MEDIUM :: "jstr list" where
  "KEYWORDS_MEDIUM =
     [[1587, 1572, 1575, 1604], [1575, 1587, 1578, 1601, 1587, 1575, 1585], [1605, 1587, 1575, 1593, 1583, 1577],
      [1578, 1608, 1590, 1610, 1581], [1603, 1610, 1601], [1605, 1578, 1609], [1608, 1610, 1606],
      [1605, 1605, 1603, 1606], [1576, 1583, 1610, 32, 1571, 1593, 1585, 1601],
      [1588, 1608, 32, 1575, 1604, 1582, 1591, 1608, 1575, 1578], [1513, 1488, 1500, 1492],
      [1489, 1497, 1512, 1493, 1512], [1506, 1494, 1512, 1492], [1488, 1497, 1498], [1502, 1514, 1497],
      lit ''question'', lit ''how do i'', lit ''when can'', lit ''where can'', lit ''clarify'']"

definition KEYWORDS_LOW :: "jstr list" where
  "KEYWORDS_LOW =
     [[1588, 1603, 1585, 1611, 1575], [1578, 1605, 1575, 1605], [1608, 1589, 1604, 1578],
      [1605, 1605, 1578, 1575, 1586],
      [1610, 1593, 1591, 1610, 1603, 1605, 32, 1575, 1604, 1593, 1575, 1601, 1610, 1577],
      [1605, 1604, 1575, 1581, 1592, 1577], [1575, 1602, 1578, 1585, 1575, 1581], [1514, 1493, 1491, 1492],
      [1502, 1510, 1493, 1497, 1503], [1511, 1497, 1489, 1500, 1514, 1497], [1492, 1506, 1512, 1492],
      lit ''thanks'', lit ''thank you'', lit ''received'', lit ''great'', lit ''suggestion'']"

definition KEYWORDS_ALREADY_TRIED :: "jstr list" where
  "KEYWORDS_ALREADY_TRIED =
     [[1580, 1585, 1576, 1578], [1593, 1605, 1604, 1578], [1587, 1608, 1610, 1578], [1585, 1575, 1580, 1593, 1578],
      [1604, 1587, 1575], [1576, 1585, 1590, 1607], [1605, 1575, 32, 1586, 1576, 1591],
      [1606, 1601, 1587, 32, 1575, 1604, 1588, 1610]]"

definition keyword_char :: "nat \<Rightarrow> bool" where
  "keyword_char c \<longleftrightarrow> (1536 \<le> c \<and> c \<le> 1791) \<or> (1424 \<le> c \<and> c \<le> 1535) \<or> (97 \<le> c \<and> c \<le> 122) \<or> (65 \<le> c \<and> c \<le> 90)
     \<or> is_digit c \<or> is_ws c"

definition normalizeForKeywords :: "jstr \<Rightarrow> jstr" where
  "normalizeForKeywords text =
     js_lower (js_trim (collapse_ws (map (\<lambda>c. if keyword_char c then c else 32) text)))"

definition attaching_script :: "nat \<Rightarrow> bool" where
  "attaching_script c \<longleftrightarrow> (1536 \<le> c \<and> c \<le> 1791) \<or> (1424 \<le> c \<and> c \<le> 1535)"

definition keywordMatches :: "jstr \<Rightarrow> jstr \<Rightarrow> bool" where
  "keywordMatches haystack keyword =
     (let needle = js_lower (js_trim keyword)
      in if needle = [] then False
         else if list_ex attaching_script needle then js_includes needle haystack
         else whole_word_at True needle haystack)"

definition built_in :: "keyword_category \<Rightarrow> jstr list" where
  "built_in c = (case c of KW_CRITICAL \<Rightarrow> KEYWORDS_CRITICAL | KW_HIGH \<Rightarrow> KEYWORDS_HIGH
     | KW_MEDIUM \<Rightarrow> KEYWORDS_MEDIUM | KW_LOW \<Rightarrow> KEYWORDS_LOW)"

text \<open>\<open>custom\<close> is the table of the organization's own keywords.\<close>

definition with_custom :: "(keyword_category \<times> jstr) list \<Rightarrow> keyword_category \<Rightarrow> jstr list" where
  "with_custom custom c = built_in c @ map snd (filter (\<lambda>r. fst r = c) custom)"

definition detectPriority :: "(keyword_category \<times> jstr) list \<Rightarrow> jstr \<Rightarrow> (keyword_category \<times> jstr) option" where
  "detectPriority custom text =
     (let normalized = normalizeForKeywords text;
          check = (\<lambda>ks. find (keywordMatches normalized) ks);
          alreadyTried = check KEYWORDS_ALREADY_TRIED \<noteq> None
      in case check (with_custom custom KW_CRITICAL) of
           Some k \<Rightarrow> Some (KW_CRITICAL, k)
         | None \<Rightarrow>
             (case check (with_custom custom KW_HIGH) of
                Some k \<Rightarrow> Some (KW_HIGH, k)
              | None \<Rightarrow>
                  (case check (with_custom custom KW_MEDIUM) of
                     Some k \<Rightarrow> Some (if alreadyTried then KW_HIGH else KW_MEDIUM, k)
                   | None \<Rightarrow>
                       (case check (with_custom custom KW_LOW) of
                          Some k \<Rightarrow> Some (KW_LOW, k)
                        | None \<Rightarrow> None))))"

section \<open>Click markers\<close>

definition CLICK_ALPHABET :: jstr where "CLICK_ALPHABET = lit ''0123456789abcdefghjkmnpqrstvwxyz''"
definition CLICK_TOKEN_LENGTH :: nat where "CLICK_TOKEN_LENGTH = 10"
definition CLICK_TOKEN_MARKER :: jstr where "CLICK_TOKEN_MARKER = lit ''#gw_''"

text \<open>The token at the front of a text, if a marker is there; all tokens of a text, a matched one left behind.\<close>

definition token_here :: "jstr \<Rightarrow> jstr option" where
  "token_here s =
     (let t = take CLICK_TOKEN_LENGTH (drop (length CLICK_TOKEN_MARKER) s)
      in if starts_with CLICK_TOKEN_MARKER s \<and> length t = CLICK_TOKEN_LENGTH \<and> list_all (\<lambda>c. c \<in> set CLICK_ALPHABET) t
         then Some t else None)"

fun click_tokens :: "nat \<Rightarrow> jstr \<Rightarrow> jstr list" where
  "click_tokens skip [] = []"
| "click_tokens skip (c # s) =
     (if 0 < skip then click_tokens (skip - 1) s
      else case token_here (c # s) of
             Some t \<Rightarrow> t # click_tokens (length CLICK_TOKEN_MARKER + CLICK_TOKEN_LENGTH - 1) s
           | None \<Rightarrow> click_tokens 0 s)"

definition extractClickTokens :: "jstr \<Rightarrow> jstr list" where
  "extractClickTokens body = rev (remdups (rev (click_tokens 0 body)))"

section \<open>Templates\<close>

definition word_char :: "nat \<Rightarrow> bool" where
  "word_char c \<longleftrightarrow> is_digit c \<or> (97 \<le> c \<and> c \<le> 122) \<or> (65 \<le> c \<and> c \<le> 90) \<or> c = 95"

text \<open>
  What \<open>/\{\{(\w+)\}\}/\<close> matches at the front of a text, or \<open>/\{\{\s*(\w+)\s*\}\}/\<close> when \<open>spaced\<close>: the name,
  and the length of the match.
\<close>

definition brace_here :: "bool \<Rightarrow> jstr \<Rightarrow> (jstr \<times> nat) option" where
  "brace_here spaced s =
     (if \<not> starts_with (lit ''{{'') s then None
      else let s1 = drop 2 s;
               s2 = (if spaced then dropWhile is_ws s1 else s1);
               name = takeWhile word_char s2;
               s3 = dropWhile word_char s2;
               s4 = (if spaced then dropWhile is_ws s3 else s3)
           in if name = [] \<or> \<not> starts_with (lit ''}}'') s4 then None
              else Some (name, length s - length s4 + 2))"

fun fill_braces :: "bool \<Rightarrow> (jstr \<Rightarrow> jstr option) \<Rightarrow> nat \<Rightarrow> jstr \<Rightarrow> jstr" where
  "fill_braces spaced vars skip [] = []"
| "fill_braces spaced vars skip (c # s) =
     (if 0 < skip then fill_braces spaced vars (skip - 1) s
      else case brace_here spaced (c # s) of
             None \<Rightarrow> c # fill_braces spaced vars 0 s
           | Some (name, n) \<Rightarrow>
               (case vars name of Some v \<Rightarrow> v | None \<Rightarrow> take n (c # s)) @ fill_braces spaced vars (n - 1) s)"

definition renderTemplate :: "jstr \<Rightarrow> (jstr \<Rightarrow> jstr option) \<Rightarrow> jstr" where
  "renderTemplate body vars = fill_braces False vars 0 body"

section \<open>Working hours\<close>

record working_hours =
  wh_enabled :: bool
  wh_autoReplyEnabled :: bool
  wh_timezone :: jstr
  wh_workDays :: "int list"
  wh_startTime :: jstr
  wh_endTime :: jstr
  wh_outOfHoursTemplate :: "jstr option"

text \<open>\<open>parseInt(n, 10) || 0\<close>\<close>

definition parse_int0 :: "jstr \<Rightarrow> int" where
  "parse_int0 s =
     (let t = dropWhile is_ws s;
          neg = starts_with (lit ''-'') t;
          u = (if neg \<or> starts_with (lit ''+'') t then tl t else t);
          n = int (digits_value (takeWhile is_digit u))
      in if neg then - n else n)"

definition parseTime :: "jstr \<Rightarrow> int" where
  "parseTime v =
     (case split_on 58 v of
        h # m # _ \<Rightarrow> parse_int0 h * 60 + parse_int0 m
      | [h] \<Rightarrow> parse_int0 h * 60
      | [] \<Rightarrow> 0)"

text \<open>The weekday, hour and minute of an instant, as the formatter of the time zone gives them.\<close>

type_synonym local_clock = "jstr \<Rightarrow> int \<Rightarrow> int \<times> int \<times> int"

definition isWithinWorkingHours :: "local_clock \<Rightarrow> working_hours \<Rightarrow> int \<Rightarrow> bool" where
  "isWithinWorkingHours clock wh t =
     (if \<not> wh_enabled wh then True
      else let (day, hour, minute) = clock (wh_timezone wh) t; minutes = hour * 60 + minute
           in if day \<notin> set (wh_workDays wh) then False
              else minutes \<ge> parseTime (wh_startTime wh) \<and> minutes < parseTime (wh_endTime wh))"

definition DAY_LABELS :: "jstr list" where
  "DAY_LABELS =
     [[1575, 1604, 1571, 1581, 1583], [1575, 1604, 1575, 1579, 1606, 1610, 1606],
      [1575, 1604, 1579, 1604, 1575, 1579, 1575, 1569], [1575, 1604, 1571, 1585, 1576, 1593, 1575, 1569],
      [1575, 1604, 1582, 1605, 1610, 1587], [1575, 1604, 1580, 1605, 1593, 1577], [1575, 1604, 1587, 1576, 1578]]"

text \<open>A day without a label joins as nothing.\<close>

definition formatWorkDays :: "int list \<Rightarrow> jstr" where
  "formatWorkDays days =
     join_with [32, 183, 32]
       (map (\<lambda>d. if 0 \<le> d \<and> nat d < length DAY_LABELS then DAY_LABELS ! nat d else []) (sort days))"

end
