(* ===== verification/Inbound.thy ===== *)
theory Inbound
  imports Workflow_Run Text_Signals
begin

text \<open>
  A customer's message, from the queue to everything it sets in motion: the worker
  (\<open>workers/incoming-message.worker.ts\<close>), one thread per contact (\<open>utils/conversation-session.ts\<close>), consent
  (\<open>utils/consent.ts\<close>), ratings (\<open>utils/client-feedback.ts\<close>), replies out of hours (\<open>utils/out-of-hours.ts\<close>),
  escalation (\<open>workers/escalation.worker.ts\<close>), and the merging of contacts (\<open>modules/contacts/contacts.routes.ts\<close>).

  The record \<open>iworld\<close> extends the world of the workflow engine by what these functions touch, in one workspace
  of one organization. A job runs under the lock of its contact and session, so jobs of one stream are
  ordered. Sockets, notifications of agents and log lines are left out, and no conversation is archived: nothing
  in the sources archives one.
\<close>

section \<open>State\<close>

datatype acquisition = AcqUnknown | AcqDirect | AcqGrowthWidget jstr "jstr option"

record click =
  ck_clickToken :: jstr
  ck_widgetId :: jstr
  ck_utmCampaign :: "jstr option"
  ck_claimedBy :: "jstr option"

record consent_event =
  ce_contactId :: jstr
  ce_fromValue :: consent
  ce_toValue :: consent
  ce_source :: jstr
  ce_actor :: "jstr option"

record csat =
  cs_contactId :: jstr
  cs_assignedToId :: "jstr option"
  cs_rating :: "nat option"
  cs_respondedAt :: "int option"

record escalation =
  es_conversationId :: jstr
  es_since :: int
  es_due :: int

datatype inbound_event =
    ContactCreated jstr
  | MessageReceived jstr jstr
  | ConversationOpened jstr nat jstr bool
  | ConsentUpdated jstr consent consent jstr

record iworld = rworld +
  i_contactIds :: "jstr list"
  i_newContact :: "nat \<Rightarrow> jstr"
  i_newConv :: "nat \<Rightarrow> jstr"
  i_sequence :: nat
  i_displayId :: "jstr \<Rightarrow> nat"
  i_archived :: "jstr list"
  i_acquisition :: "jstr \<Rightarrow> acquisition"
  i_clicks :: "click list"
  i_webhooks :: "inbound_event list"
  i_usage :: "jstr list"
  i_hours :: "working_hours option"
  i_oohTemplate :: "jstr option"
  i_clock :: local_clock
  i_keywords :: "(keyword_category \<times> jstr) list"
  i_consentEvents :: "consent_event list"
  i_csat :: "jstr \<Rightarrow> csat option"
  i_escalations :: "escalation list"
  i_escalated :: "(jstr \<times> int) list"

record inbound =
  in_session :: jstr
  in_phone :: jstr
  in_contactName :: "jstr option"
  in_body :: jstr
  in_waMessageId :: "jstr option"
  in_hasMedia :: bool
  in_mediaType :: "jstr option"
  in_fromMe :: bool

section \<open>Messages the system sends by itself\<close>

text \<open>A failed send is stored as failed; \<open>catch(() => null)\<close>.\<close>

definition auto_send :: "jstr \<Rightarrow> jstr \<Rightarrow> jstr \<Rightarrow> jstr \<Rightarrow> jstr \<Rightarrow> 'a cworld_scheme \<Rightarrow> 'a cworld_scheme" where
  "auto_send session phone cid autoType body w =
     (let row = \<lparr>sm_conversationId = cid, sm_body = body, sm_isInternal = False, sm_autoType = autoType,
                 sm_waMessageId = None, sm_direction = OUTBOUND, sm_isAuto = True, sm_status = MSG_FAILED,
                 sm_timestamp = w_now w\<rparr>
      in case w_channel w session phone body of
           Inl _ \<Rightarrow> w\<lparr>w_messages := w_messages w @ [row]\<rparr>
         | Inr providerId \<Rightarrow>
             w\<lparr>w_sent := w_sent w @ [(session, phone, body)],
               w_messages := w_messages w @ [row\<lparr>sm_waMessageId := Some providerId, sm_status := MSG_SENT\<rparr>]\<rparr>)"

section \<open>One thread per contact\<close>

text \<open>
  Every message of the duplicate is looked up by its provider id before it is moved; \<open>seen\<close> and the rest
  of the list are the table at that moment.
\<close>

fun merge_messages :: "jstr \<Rightarrow> jstr \<Rightarrow> stored_message list \<Rightarrow> stored_message list \<Rightarrow> stored_message list" where
  "merge_messages primary dup seen [] = seen"
| "merge_messages primary dup seen (m # ms) =
     (if sm_conversationId m \<noteq> dup then merge_messages primary dup (seen @ [m]) ms
      else if truthy_ref (sm_waMessageId m)
              \<and> list_ex (\<lambda>x. sm_waMessageId x = sm_waMessageId m) (seen @ m # ms)
      then merge_messages primary dup seen ms
      else merge_messages primary dup (seen @ [m\<lparr>sm_conversationId := primary\<rparr>]) ms)"

text \<open>Deleting the conversation takes its survey and its workflow runs with it.\<close>

definition mergeConversationInto :: "jstr \<Rightarrow> jstr \<Rightarrow> 'a iworld_scheme \<Rightarrow> 'a iworld_scheme" where
  "mergeConversationInto primary dup w =
     w\<lparr>w_messages := merge_messages primary dup [] (w_messages w),
       w_closures := map (\<lambda>cl. if cl_conversationId cl = dup then cl\<lparr>cl_conversationId := primary\<rparr> else cl) (w_closures w),
       w_convs := (w_convs w)(dup := None), a_conv_ids := filter (\<lambda>c. c \<noteq> dup) (a_conv_ids w),
       a_lastMessageAt := (a_lastMessageAt w)(dup := None), i_csat := (i_csat w)(dup := None),
       x_execs := (\<lambda>x. case x_execs w x of None \<Rightarrow> None
                      | Some e \<Rightarrow> if ex_conversationId e = Some dup then None else Some e),
       r_execIds := filter (\<lambda>x. case x_execs w x of None \<Rightarrow> True | Some e \<Rightarrow> ex_conversationId e \<noteq> Some dup) (r_execIds w)\<rparr>"

text \<open>The threads of a contact on a session, oldest first.\<close>

definition threads :: "jstr \<Rightarrow> jstr \<Rightarrow> 'a aworld_scheme \<Rightarrow> jstr list" where
  "threads contactId sessionId w =
     filter (\<lambda>c. case w_convs w c of None \<Rightarrow> False
        | Some cv \<Rightarrow> cv_contactId cv = contactId \<and> cv_sessionId cv = sessionId) (a_conv_ids w)"

definition message_count :: "jstr \<Rightarrow> 'a cworld_scheme \<Rightarrow> nat" where
  "message_count cid w = length (filter (\<lambda>m. sm_conversationId m = cid) (w_messages w))"

definition main_thread :: "jstr list \<Rightarrow> 'a cworld_scheme \<Rightarrow> jstr" where
  "main_thread all w =
     fold (\<lambda>c best. if message_count c w > message_count best w then c else best) (tl all) (hd all)"

definition conv_resolved :: "'a cworld_scheme \<Rightarrow> jstr \<Rightarrow> bool" where
  "conv_resolved w c = (case w_convs w c of None \<Rightarrow> False | Some cv \<Rightarrow> cv_status cv = RESOLVED)"

definition latest_message :: "jstr \<Rightarrow> 'a cworld_scheme \<Rightarrow> int option" where
  "latest_message cid w =
     (case map sm_timestamp (filter (\<lambda>m. sm_conversationId m = cid) (w_messages w)) of
        [] \<Rightarrow> None | t # ts \<Rightarrow> Some (fold max ts t))"

definition touch_conversation :: "jstr \<Rightarrow> int \<Rightarrow> 'a aworld_scheme \<Rightarrow> 'a aworld_scheme" where
  "touch_conversation cid t w = w\<lparr>a_lastMessageAt := (a_lastMessageAt w)(cid \<mapsto> t)\<rparr>"

definition consolidateContactThreads :: "jstr \<Rightarrow> jstr \<Rightarrow> 'a iworld_scheme \<Rightarrow> jstr option \<times> 'a iworld_scheme" where
  "consolidateContactThreads contactId sessionId w =
     (case threads contactId sessionId w of
        [] \<Rightarrow> (None, w)
      | [c] \<Rightarrow> (Some c, w)
      | all \<Rightarrow>
          let hadOpenDup = list_ex (\<lambda>c. \<not> conv_resolved w c) all;
              primary = main_thread all w;
              w1 = fold (\<lambda>dup w. if dup = primary then w else mergeConversationInto primary dup w) all w;
              w2 = (if hadOpenDup \<and> conv_resolved w primary then snd (reopenConversation primary w1) else w1)
          in (Some primary,
              case latest_message primary w1 of None \<Rightarrow> w2 | Some t \<Rightarrow> touch_conversation primary t w2))"

definition upd_conv :: "jstr \<Rightarrow> (conversation \<Rightarrow> conversation) \<Rightarrow> 'a cworld_scheme \<Rightarrow> 'a cworld_scheme" where
  "upd_conv cid f w = w\<lparr>w_convs := (w_convs w)(cid := map_option f (w_convs w cid))\<rparr>"

definition new_conversation :: "jstr \<Rightarrow> jstr \<Rightarrow> jstr option \<Rightarrow> bool \<Rightarrow> int \<Rightarrow> conversation" where
  "new_conversation contactId sessionId teamId autoClose now =
     \<lparr>cv_status = OPEN, cv_resolvedAt = None, cv_openedAt = now, cv_firstResponseAt = None,
      cv_autoCloseEligible = autoClose, cv_autoCloseAt = None, cv_lastHumanOutboundAt = None,
      cv_snoozedUntil = None, cv_snoozedByName = None, cv_assignedToId = None,
      cv_teamId = (if truthy_ref teamId then teamId else None), cv_contactId = contactId, cv_sessionId = sessionId\<rparr>"

record active_conversation =
  av_conversationId :: jstr
  av_isNewSession :: bool
  av_reopenedFromResolved :: bool

definition create_conversation ::
  "jstr \<Rightarrow> jstr \<Rightarrow> jstr option \<Rightarrow> 'a iworld_scheme \<Rightarrow> active_conversation \<times> 'a iworld_scheme" where
  "create_conversation contactId sessionId teamId w =
     (let autoClose = (case w_config w of None \<Rightarrow> False | Some k \<Rightarrow> oc_autoCloseEnabled k);
          anyPrior = length (threads contactId sessionId w);
          seq = i_sequence w + 1;
          cid = i_newConv w (length (a_conv_ids w));
          w1 = w\<lparr>w_convs := (w_convs w)(cid \<mapsto> new_conversation contactId sessionId teamId autoClose (w_now w)),
                 a_conv_ids := a_conv_ids w @ [cid], i_sequence := seq, i_displayId := (i_displayId w)(cid := 1000 + seq),
                 a_lastMessageAt := (a_lastMessageAt w)(cid \<mapsto> w_now w),
                 i_webhooks := i_webhooks w @ [ConversationOpened cid (1000 + seq) contactId (anyPrior = 0)]\<rparr>
      in (\<lparr>av_conversationId = cid, av_isNewSession = (anyPrior = 0), av_reopenedFromResolved = False\<rparr>, w1))"

definition getOrCreateActiveConversation ::
  "jstr \<Rightarrow> jstr \<Rightarrow> jstr option \<Rightarrow> 'a iworld_scheme \<Rightarrow> active_conversation \<times> 'a iworld_scheme" where
  "getOrCreateActiveConversation contactId sessionId teamId w =
     (case consolidateContactThreads contactId sessionId w of
        (None, w1) \<Rightarrow> create_conversation contactId sessionId teamId w1
      | (Some cid, w1) \<Rightarrow>
          let set_team = upd_conv cid (\<lambda>c. c\<lparr>cv_teamId := teamId\<rparr>);
              team_missing = (case w_convs w1 cid of None \<Rightarrow> False | Some c \<Rightarrow> \<not> truthy_ref (cv_teamId c));
              w2 = (if truthy_ref teamId \<and> team_missing then set_team w1 else w1);
              found = (\<lambda>reopened. \<lparr>av_conversationId = cid, av_isNewSession = False, av_reopenedFromResolved = reopened\<rparr>)
          in if conv_resolved w2 cid
             then let w3 = snd (reopenConversation cid w2)
                  in (found True, touch_conversation cid (w_now w3) (if truthy_ref teamId then set_team w3 else w3))
             else if (case w_convs w2 cid of None \<Rightarrow> False | Some c \<Rightarrow> cv_snoozedUntil c \<noteq> None)
             then (found False, upd_conv cid (\<lambda>c. c\<lparr>cv_snoozedUntil := None, cv_snoozedByName := None, cv_autoCloseAt := None\<rparr>) w2)
             else (found False, cancel_auto_close cid w2))"

section \<open>Receiving\<close>

definition normalize_phone :: "jstr \<Rightarrow> jstr" where
  "normalize_phone phone =
     (let p = strip_suffix (lit ''@lid'') (strip_suffix (lit ''@s.whatsapp.net'') (strip_suffix (lit ''@c.us'') phone))
      in if starts_with (lit ''+'') p then tl p else p)"

definition contact_by_phone :: "jstr \<Rightarrow> 'a iworld_scheme \<Rightarrow> jstr option" where
  "contact_by_phone phone w =
     find (\<lambda>k. case w_contacts w k of None \<Rightarrow> False | Some ct \<Rightarrow> ct_phone ct = phone) (i_contactIds w)"

definition claimable_click :: "jstr \<Rightarrow> 'a iworld_scheme \<Rightarrow> click option" where
  "claimable_click body w =
     (let candidates = extractClickTokens body
      in if candidates = [] then None
         else find (\<lambda>c. ck_clickToken c \<in> set candidates \<and> ck_claimedBy c = None) (i_clicks w))"

definition claim_click :: "click option \<Rightarrow> jstr \<Rightarrow> 'a iworld_scheme \<Rightarrow> 'a iworld_scheme" where
  "claim_click click contactId w =
     (case click of None \<Rightarrow> w
      | Some c \<Rightarrow> w\<lparr>i_clicks := map (\<lambda>x. if ck_clickToken x = ck_clickToken c then x\<lparr>ck_claimedBy := Some contactId\<rparr> else x)
                                 (i_clicks w)\<rparr>)"

text \<open>The upsert: the contact of the number, or a new one; the name follows what the provider says.\<close>

definition upsert_contact :: "jstr \<Rightarrow> jstr option \<Rightarrow> click option \<Rightarrow> 'a iworld_scheme \<Rightarrow> jstr \<times> 'a iworld_scheme" where
  "upsert_contact phone name click w =
     (case contact_by_phone phone w of
        Some k \<Rightarrow>
          (k, if truthy_ref name
              then w\<lparr>w_contacts := (w_contacts w)(k := map_option (\<lambda>ct. ct\<lparr>ct_name := name\<rparr>) (w_contacts w k))\<rparr> else w)
      | None \<Rightarrow>
          let k = i_newContact w (length (i_contactIds w))
          in (k, w\<lparr>w_contacts := (w_contacts w)(k \<mapsto>
                     \<lparr>ct_phone = phone, ct_name = (if truthy_ref name then name else None), ct_firstName = None,
                      ct_consent = UNKNOWN, ct_lifecycleStage = None, ct_blockedAt = None\<rparr>),
                   i_contactIds := i_contactIds w @ [k],
                   i_acquisition := (i_acquisition w)(k :=
                     (case click of Some c \<Rightarrow> AcqGrowthWidget (ck_widgetId c) (ck_utmCampaign c) | None \<Rightarrow> AcqDirect)),
                   i_webhooks := i_webhooks w @ [ContactCreated k]\<rparr>))"

definition media_label :: "jstr option \<Rightarrow> jstr" where
  "media_label mediaType =
     (if mediaType = Some (lit ''image'') then [91, 1589, 1608, 1585, 1577, 93]
      else if mediaType = Some (lit ''video'') then [91, 1601, 1610, 1583, 1610, 1608, 93]
      else if mediaType = Some (lit ''audio'') \<or> mediaType = Some (lit ''ptt'') then [91, 1585, 1587, 1575, 1604, 1577, 32, 1589, 1608, 1578, 1610, 1577, 93]
      else [91, 1605, 1604, 1601, 93])"

definition message_text :: "inbound \<Rightarrow> jstr" where
  "message_text data =
     (if js_trim (in_body data) \<noteq> [] then js_trim (in_body data)
      else if in_hasMedia data then media_label (in_mediaType data) else [])"

record received =
  rv_contactId :: jstr
  rv_conversationId :: jstr
  rv_isNewSession :: bool
  rv_reopened :: bool
  rv_body :: jstr

text \<open>
  The first half of the handler, up to the stored message; \<open>None\<close> when it stops before (a message already
  stored, a blocked contact, an empty message).
\<close>

definition store_message :: "inbound \<Rightarrow> jstr \<Rightarrow> jstr \<Rightarrow> 'a iworld_scheme \<Rightarrow> 'a iworld_scheme" where
  "store_message data contactId cid w =
     w\<lparr>w_messages := w_messages w @
         [\<lparr>sm_conversationId = cid, sm_body = message_text data, sm_isInternal = False, sm_autoType = [],
           sm_waMessageId = in_waMessageId data, sm_direction = INBOUND, sm_isAuto = False,
           sm_status = MSG_PENDING, sm_timestamp = w_now w\<rparr>],
       i_usage := i_usage w @ [contactId], i_webhooks := i_webhooks w @ [MessageReceived cid contactId],
       a_lastMessageAt := (a_lastMessageAt w)(cid \<mapsto> w_now w)\<rparr>"

definition already_stored :: "inbound \<Rightarrow> 'a cworld_scheme \<Rightarrow> bool" where
  "already_stored data w \<longleftrightarrow>
     truthy_ref (in_waMessageId data) \<and> list_ex (\<lambda>m. sm_waMessageId m = in_waMessageId data) (w_messages w)"

definition receive :: "inbound \<Rightarrow> 'a iworld_scheme \<Rightarrow> (jstr + received option) \<times> 'a iworld_scheme" where
  "receive data w =
     (if already_stored data w then (Inr None, w)
      else case find (\<lambda>s. ss_sessionName s = in_session data) (w_sessions w) of
             None \<Rightarrow> (Inl (lit ''Session '' @ in_session data @ lit '' not found''), w)
           | Some session \<Rightarrow>
               let click = claimable_click (in_body data) w;
                   (contactId, w1) = upsert_contact (normalize_phone (in_phone data)) (in_contactName data) click w;
                   w2 = claim_click click contactId w1
               in if (case w_contacts w2 contactId of None \<Rightarrow> False | Some ct \<Rightarrow> ct_blockedAt ct \<noteq> None)
                  then (Inr None, w2)
                  else let (active, w3) = getOrCreateActiveConversation contactId (ss_id session) (ss_teamId session) w2;
                           cid = av_conversationId active
                       in if message_text data = [] \<and> \<not> in_hasMedia data then (Inr None, w3)
                          else (Inr (Some \<lparr>rv_contactId = contactId, rv_conversationId = cid,
                                          rv_isNewSession = av_isNewSession active,
                                          rv_reopened = av_reopenedFromResolved active, rv_body = message_text data\<rparr>),
                                store_message data contactId cid w3))"

section \<open>Working hours\<close>

definition DEFAULT_HOURS :: "jstr option \<Rightarrow> working_hours" where
  "DEFAULT_HOURS template =
     \<lparr>wh_enabled = True, wh_autoReplyEnabled = True, wh_timezone = lit ''Asia/Jerusalem'', wh_workDays = [0, 1, 2, 3, 4],
      wh_startTime = lit ''08:00'', wh_endTime = lit ''20:00'', wh_outOfHoursTemplate = template\<rparr>"

definition getWorkingHoursConfig :: "'a iworld_scheme \<Rightarrow> working_hours \<times> 'a iworld_scheme" where
  "getWorkingHoursConfig w =
     (case i_hours w of
        Some wh \<Rightarrow> (wh, w)
      | None \<Rightarrow> let wh = DEFAULT_HOURS (i_oohTemplate w) in (wh, w\<lparr>i_hours := Some wh\<rparr>))"

definition hours_vars :: "working_hours \<Rightarrow> jstr \<Rightarrow> jstr option" where
  "hours_vars wh key =
     (if key = lit ''startTime'' then Some (wh_startTime wh)
      else if key = lit ''endTime'' then Some (wh_endTime wh)
      else if key = lit ''workDays'' then Some (formatWorkDays (wh_workDays wh)) else None)"

definition maybeSendOutOfHoursReply :: "jstr \<Rightarrow> jstr \<Rightarrow> jstr \<Rightarrow> 'a iworld_scheme \<Rightarrow> 'a iworld_scheme" where
  "maybeSendOutOfHoursReply session phone cid w0 =
     (let (wh, w) = getWorkingHoursConfig w0
      in case wh_outOfHoursTemplate wh of
           None \<Rightarrow> w
         | Some template \<Rightarrow>
             if \<not> wh_enabled wh \<or> isWithinWorkingHours (i_clock w) wh (w_now w) then w
             else if list_ex (\<lambda>m. sm_conversationId m = cid \<and> sm_autoType m = lit ''out_of_hours''
                               \<and> sm_timestamp m \<ge> w_now w - 12 * 60 * 60 * 1000) (w_messages w) then w
             else auto_send session phone cid (lit ''out_of_hours'') (renderTemplate template (hours_vars wh)) w)"

section \<open>Keywords, consent and ratings\<close>

definition keyword_kind :: "keyword_category \<Rightarrow> jstr" where
  "keyword_kind c = (case c of KW_CRITICAL \<Rightarrow> lit ''KEYWORD_CRITICAL'' | KW_HIGH \<Rightarrow> lit ''KEYWORD_HIGH''
     | KW_MEDIUM \<Rightarrow> lit ''KEYWORD_MEDIUM'' | KW_LOW \<Rightarrow> lit ''KEYWORD_LOW'')"

definition maybeSendKeywordAutoReply ::
  "jstr \<Rightarrow> jstr \<Rightarrow> jstr \<Rightarrow> jstr \<Rightarrow> bool \<Rightarrow> 'a iworld_scheme \<Rightarrow> 'a iworld_scheme" where
  "maybeSendKeywordAutoReply session phone cid body openNow w =
     (if js_trim body = [] \<or> \<not> openNow then w
      else case detectPriority (i_keywords w) body of
             None \<Rightarrow> w
           | Some (c, _) \<Rightarrow>
               (case resolve_auto_reply (keyword_kind c) w of
                  None \<Rightarrow> w
                | Some reply \<Rightarrow> auto_send session phone cid (lit ''keyword'') reply w))"

definition consent_of :: "consent_signal \<Rightarrow> consent" where
  "consent_of s = (case s of SignalOut \<Rightarrow> OPTED_OUT | SignalIn \<Rightarrow> OPTED_IN)"

text \<open>The contact's consent becomes \<open>to\<close>, with a line of history.\<close>

definition write_consent :: "jstr \<Rightarrow> contact_row \<Rightarrow> consent \<Rightarrow> jstr \<Rightarrow> jstr option \<Rightarrow> 'a iworld_scheme \<Rightarrow> 'a iworld_scheme" where
  "write_consent contactId ct value source actor w =
     w\<lparr>w_contacts := (w_contacts w)(contactId \<mapsto> ct\<lparr>ct_consent := value\<rparr>),
       i_consentEvents := (if ct_consent ct = value then i_consentEvents w else i_consentEvents w @
         [\<lparr>ce_contactId = contactId, ce_fromValue = ct_consent ct, ce_toValue = value, ce_source = source, ce_actor = actor\<rparr>])\<rparr>"

definition applyInboundConsentSignal ::
  "jstr \<Rightarrow> jstr \<Rightarrow> 'a iworld_scheme \<Rightarrow> (bool \<times> consent_signal option) \<times> 'a iworld_scheme" where
  "applyInboundConsentSignal contactId body w =
     (case detectConsentSignal body of
        None \<Rightarrow> ((False, None), w)
      | Some signal \<Rightarrow>
          (case w_contacts w contactId of
             None \<Rightarrow> ((False, Some signal), w)
           | Some ct \<Rightarrow>
               if ct_consent ct = consent_of signal then ((False, Some signal), w)
               else ((True, Some signal), write_consent contactId ct (consent_of signal) (lit ''keyword'') None w)))"

text \<open>The agent's toggle and the import; a contact that is not there throws.\<close>

definition setContactConsent ::
  "jstr \<Rightarrow> consent \<Rightarrow> jstr \<Rightarrow> jstr option \<Rightarrow> 'a iworld_scheme \<Rightarrow> (unit + unit) \<times> 'a iworld_scheme" where
  "setContactConsent contactId value source actor w =
     (case w_contacts w contactId of
        None \<Rightarrow> (Inl (), w)
      | Some ct \<Rightarrow>
         let w1 = write_consent contactId ct value source actor w
         in (Inr (), if ct_consent ct = value then w1
               else w1\<lparr>i_webhooks := i_webhooks w1 @ [ConsentUpdated contactId (ct_consent ct) value source]\<rparr>))"

text \<open>The latest closing reply of the thread is less than three days old.\<close>

definition hadRecentResolvePrompt :: "jstr \<Rightarrow> 'a cworld_scheme \<Rightarrow> bool" where
  "hadRecentResolvePrompt cid w =
     (case map sm_timestamp (filter (\<lambda>m. sm_conversationId m = cid \<and> sm_direction m = OUTBOUND
                                      \<and> sm_autoType m = lit ''resolved'') (w_messages w)) of
        [] \<Rightarrow> False
      | t # ts \<Rightarrow> w_now w - fold max ts t < 72 * 3600000)"

definition record_rating :: "jstr \<Rightarrow> nat \<Rightarrow> 'a iworld_scheme \<Rightarrow> 'a iworld_scheme" where
  "record_rating cid score w =
     w\<lparr>i_csat := (i_csat w)(cid \<mapsto>
         (case i_csat w cid of
            Some row \<Rightarrow> row\<lparr>cs_rating := Some score, cs_respondedAt := Some (w_now w)\<rparr>
          | None \<Rightarrow> \<lparr>cs_contactId = (case w_convs w cid of Some c \<Rightarrow> cv_contactId c | None \<Rightarrow> []), cs_assignedToId = None,
                     cs_rating = Some score, cs_respondedAt = Some (w_now w)\<rparr>))\<rparr>"

definition score_vars :: "nat \<Rightarrow> jstr \<Rightarrow> jstr option" where
  "score_vars score key = (if key = lit ''score'' then Some (dec_digits score) else None)"

definition handleClientFeedback ::
  "jstr \<Rightarrow> jstr \<Rightarrow> jstr \<Rightarrow> jstr \<Rightarrow> bool \<Rightarrow> 'a iworld_scheme \<Rightarrow> bool \<times> 'a iworld_scheme" where
  "handleClientFeedback session phone cid body openNow w =
     (case detectClientFeedback body of
        None \<Rightarrow> (False, w)
      | Some feedback \<Rightarrow>
          if \<not> hadRecentResolvePrompt cid w then (False, w)
          else if \<not> openNow then (True, w)
          else
            let template = resolve_auto_reply (lit ''CSAT_THANKS'') w;
                (reply, w1) = (case feedback of
                    Rating score \<Rightarrow> (map_option (fill_braces True (score_vars score) 0) template, record_rating cid score w)
                  | Thanks \<Rightarrow> (template, w));
                w2 = (if truthy_ref reply then auto_send session phone cid (lit ''feedback'') (the reply) w1 else w1)
            in (True, upd_conv cid (\<lambda>c. c\<lparr>cv_status := PENDING_CONV\<rparr>) w2))"

text \<open>The survey that is sent when an agent resolves a conversation.\<close>

definition sendCsatPrompt :: "jstr \<Rightarrow> 'a iworld_scheme \<Rightarrow> 'a iworld_scheme" where
  "sendCsatPrompt cid w =
     (case w_convs w cid of
        None \<Rightarrow> w
      | Some c \<Rightarrow>
          if i_csat w cid \<noteq> None then w
          else case (resolve_auto_reply (lit ''CSAT_PROMPT'') w, session_by_id (cv_sessionId c) w, w_contacts w (cv_contactId c)) of
                 (Some prompt, Some session, Some ct) \<Rightarrow>
                   let w1 = auto_send (ss_sessionName session) (ct_phone ct) cid (lit ''csat'') prompt w
                   in w1\<lparr>i_csat := (i_csat w1)(cid \<mapsto> \<lparr>cs_contactId = cv_contactId c, cs_assignedToId = cv_assignedToId c,
                                             cs_rating = None, cs_respondedAt = None\<rparr>)\<rparr>
               | _ \<Rightarrow> w)"

section \<open>Escalation\<close>

text \<open>The default of \<open>TICKET_ESCALATION_MINUTES\<close>.\<close>

definition ESCALATION_DELAY_MS :: int where "ESCALATION_DELAY_MS = 30 * 60 * 1000"

text \<open>The queue keeps the first job of an id; the id names the conversation.\<close>

definition scheduleConversationEscalation :: "jstr \<Rightarrow> 'a iworld_scheme \<Rightarrow> 'a iworld_scheme" where
  "scheduleConversationEscalation cid w =
     (if cid \<in> es_conversationId ` set (i_escalations w) then w
      else w\<lparr>i_escalations := i_escalations w @
               [\<lparr>es_conversationId = cid, es_since = w_now w, es_due = w_now w + ESCALATION_DELAY_MS\<rparr>]\<rparr>)"

definition agent_replied :: "jstr \<Rightarrow> int \<Rightarrow> 'a cworld_scheme \<Rightarrow> bool" where
  "agent_replied cid since w =
     list_ex (\<lambda>m. sm_conversationId m = cid \<and> sm_direction m = OUTBOUND \<and> \<not> sm_isAuto m \<and> \<not> sm_isInternal m
                \<and> sm_timestamp m > since) (w_messages w)"

definition checkAndEscalate :: "escalation \<Rightarrow> 'a iworld_scheme \<Rightarrow> 'a iworld_scheme" where
  "checkAndEscalate job w =
     (case w_convs w (es_conversationId job) of
        None \<Rightarrow> w
      | Some c \<Rightarrow>
          if cv_status c = RESOLVED then w
          else if agent_replied (es_conversationId job) (es_since job) w then w
          else w\<lparr>i_escalated := i_escalated w @ [(es_conversationId job, w_now w)]\<rparr>)"

text \<open>A job that is due runs once and is removed.\<close>

definition run_escalation :: "jstr \<Rightarrow> 'a iworld_scheme \<Rightarrow> 'a iworld_scheme" where
  "run_escalation cid w =
     (case find (\<lambda>j. es_conversationId j = cid) (i_escalations w) of
        None \<Rightarrow> w
      | Some job \<Rightarrow>
          if es_due job > w_now w then w
          else checkAndEscalate job (w\<lparr>i_escalations := filter (\<lambda>j. es_conversationId j \<noteq> cid) (i_escalations w)\<rparr>))"

section \<open>What a stored message sets in motion\<close>

definition welcome_step :: "inbound \<Rightarrow> received \<Rightarrow> bool \<Rightarrow> 'a iworld_scheme \<Rightarrow> 'a iworld_scheme" where
  "welcome_step data rv autoReply w =
     (if autoReply \<and> rv_isNewSession rv \<and> \<not> in_fromMe data
      then case resolve_auto_reply (lit ''WELCOME'') w of
             None \<Rightarrow> w
           | Some body \<Rightarrow> auto_send (in_session data) (in_phone data) (rv_conversationId rv) (lit ''welcome'') body w
      else w)"

definition confirm_step :: "inbound \<Rightarrow> received \<Rightarrow> bool \<Rightarrow> consent_signal \<Rightarrow> 'a iworld_scheme \<Rightarrow> 'a iworld_scheme" where
  "confirm_step data rv autoReply signal w =
     (if autoReply
      then case resolve_auto_reply (case signal of SignalOut \<Rightarrow> lit ''OPT_OUT_CONFIRM'' | SignalIn \<Rightarrow> lit ''OPT_IN_CONFIRM'') w of
             None \<Rightarrow> w
           | Some body \<Rightarrow> auto_send (in_session data) (in_phone data) (rv_conversationId rv)
                           (case signal of SignalOut \<Rightarrow> lit ''opt_out'' | SignalIn \<Rightarrow> lit ''opt_in'') body w
      else w)"

definition reply_step :: "inbound \<Rightarrow> received \<Rightarrow> bool \<Rightarrow> bool \<Rightarrow> 'a iworld_scheme \<Rightarrow> 'a iworld_scheme" where
  "reply_step data rv autoReply openNow w =
     (if \<not> autoReply then w
      else let (handled, w1) = handleClientFeedback (in_session data) (in_phone data) (rv_conversationId rv) (rv_body rv) openNow w
           in if handled then w1
              else maybeSendKeywordAutoReply (in_session data) (in_phone data) (rv_conversationId rv) (rv_body rv) openNow
                     (if openNow then w1
                      else maybeSendOutOfHoursReply (in_session data) (in_phone data) (rv_conversationId rv) w1))"

definition inbound_trigger :: "string \<Rightarrow> received \<Rightarrow> trigger_event" where
  "inbound_trigger kind rv =
     \<lparr>ev_triggerType = lit kind, ev_contactId = Some (rv_contactId rv), ev_conversationId = Some (rv_conversationId rv),
      ev_payload = [(lit ''text'', JStr (rv_body rv))], ev_depth = 0\<rparr>"

definition automation_step :: "bool \<Rightarrow> received \<Rightarrow> bool \<Rightarrow> 'a iworld_scheme \<Rightarrow> 'a iworld_scheme" where
  "automation_step disabled rv openNow w =
     (let w1 = snd (autoAssignConversation (rv_conversationId rv) w);
          w2 = scheduleConversationEscalation (rv_conversationId rv) w1;
          w3 = (if rv_body rv = [] then w2 else snd (resumeAwaitingWorkflows (rv_contactId rv) (rv_body rv) w2));
          w4 = snd (dispatchWorkflowEvent disabled (inbound_trigger ''CONVERSATION_CREATED'' rv) w3);
          w5 = (if rv_body rv = [] then w4 else snd (dispatchWorkflowEvent disabled (inbound_trigger ''KEYWORD_MATCHED'' rv) w4))
      in if openNow then w5 else snd (dispatchWorkflowEvent disabled (inbound_trigger ''OUT_OF_HOURS'' rv) w5))"

definition respond :: "bool \<Rightarrow> inbound \<Rightarrow> received \<Rightarrow> 'a iworld_scheme \<Rightarrow> 'a iworld_scheme" where
  "respond disabled data rv w0 =
     (let (wh, w) = getWorkingHoursConfig w0;
          openNow = isWithinWorkingHours (i_clock w) wh (w_now w);
          autoReply = wh_autoReplyEnabled wh;
          w1 = welcome_step data rv autoReply w;
          ((changed, signal), w2) = applyInboundConsentSignal (rv_contactId rv) (rv_body rv) w1
      in case signal of
           Some s \<Rightarrow> if changed then confirm_step data rv autoReply s w2 else w2
         | None \<Rightarrow>
             let w3 = reply_step data rv autoReply openNow w2
             in if in_fromMe data then w3 else automation_step disabled rv openNow w3)"

text \<open>A job of the queue. One that throws, or whose process stops, is run again from the start.\<close>

definition processInboundMessage :: "bool \<Rightarrow> inbound \<Rightarrow> 'a iworld_scheme \<Rightarrow> (jstr + unit) \<times> 'a iworld_scheme" where
  "processInboundMessage disabled data w =
     (case receive data w of
        (Inl e, w1) \<Rightarrow> (Inl e, w1)
      | (Inr None, w1) \<Rightarrow> (Inr (), w1)
      | (Inr (Some rv), w1) \<Rightarrow> (Inr (), respond disabled data rv w1))"

section \<open>Merging contacts\<close>

definition merge_contacts :: "jstr \<Rightarrow> jstr \<Rightarrow> 'a iworld_scheme \<Rightarrow> (unit + unit) \<times> 'a iworld_scheme" where
  "merge_contacts primary secondary w =
     (if primary = [] \<or> secondary = [] \<or> primary = secondary then (Inl (), w)
      else if w_contacts w primary = None \<or> w_contacts w secondary = None then (Inl (), w)
      else (Inr (),
        w\<lparr>w_convs := (\<lambda>c. map_option (\<lambda>cv. if cv_contactId cv = secondary then cv\<lparr>cv_contactId := primary\<rparr> else cv) (w_convs w c)),
          x_contactTags := x_contactTags w @
            filter (\<lambda>r. r \<notin> set (x_contactTags w)) (map (\<lambda>(_, t). (primary, t)) (filter (\<lambda>(k, _). k = secondary) (x_contactTags w))),
          x_fieldValues := (\<lambda>(k, d). if k = primary \<and> x_fieldValues w (secondary, d) \<noteq> None
                                     then x_fieldValues w (secondary, d) else x_fieldValues w (k, d)),
          i_archived := i_archived w @ [secondary]\<rparr>))"

end
