(* ===== verification/Inbound_Props.thy ===== *)
theory Inbound_Props
  imports Inbound Workflow_Run_Props
begin

text \<open>
  What a customer can rely on when a message arrives: that there is one thread, that a block and a STOP are
  final, and where the pipeline falls short of that: threads that are merged, jobs that are interrupted,
  escalations and ratings.
\<close>

section \<open>Merging threads\<close>

text \<open>The lookup by provider id finds the message itself, so every message with one is deleted.\<close>

definition lost_in_merge :: "jstr \<Rightarrow> stored_message \<Rightarrow> bool" where
  "lost_in_merge dup m \<longleftrightarrow> sm_conversationId m = dup \<and> truthy_ref (sm_waMessageId m)"

definition moved :: "jstr \<Rightarrow> jstr \<Rightarrow> stored_message \<Rightarrow> stored_message" where
  "moved primary dup m = (if sm_conversationId m = dup then m\<lparr>sm_conversationId := primary\<rparr> else m)"

lemma merge_messages_shape:
  "merge_messages primary dup seen ms = seen @ map (moved primary dup) (filter (\<lambda>m. \<not> lost_in_merge dup m) ms)"
  by (induction ms arbitrary: seen) (auto simp: lost_in_merge_def moved_def)

lemma moved_id [simp]: "sm_waMessageId (moved p d m) = sm_waMessageId m"
  by (simp add: moved_def)

lemma merge_fields [frame_simps]:
  "w_messages (mergeConversationInto p d w) = map (moved p d) (filter (\<lambda>m. \<not> lost_in_merge d m) (w_messages w))"
  "w_convs (mergeConversationInto p d w) = (w_convs w)(d := None)"
  "a_conv_ids (mergeConversationInto p d w) = filter (\<lambda>c. c \<noteq> d) (a_conv_ids w)"
  "w_contacts (mergeConversationInto p d w) = w_contacts w" "w_sent (mergeConversationInto p d w) = w_sent w"
  "w_now (mergeConversationInto p d w) = w_now w"
  by (simp_all add: mergeConversationInto_def merge_messages_shape)

definition merge_all :: "jstr \<Rightarrow> jstr list \<Rightarrow> 'a iworld_scheme \<Rightarrow> 'a iworld_scheme" where
  "merge_all primary = fold (\<lambda>dup w. if dup = primary then w else mergeConversationInto primary dup w)"

lemma merge_all_simps [simp]:
  "merge_all p [] w = w"
  "merge_all p (d # ds) w = merge_all p ds (if d = p then w else mergeConversationInto p d w)"
  by (simp_all add: merge_all_def)

text \<open>Every message left had an original, which was not one of the deleted.\<close>

lemma merge_all_survivors:
  assumes "m \<in> set (w_messages (merge_all p ds w))"
  shows "\<exists>m0 \<in> set (w_messages w). sm_waMessageId m0 = sm_waMessageId m
    \<and> \<not> (sm_conversationId m0 \<in> set ds \<and> sm_conversationId m0 \<noteq> p \<and> truthy_ref (sm_waMessageId m0))"
  using assms
proof (induction ds arbitrary: w)
  case (Cons d ds)
  show ?case
  proof (cases "d = p")
    case True
    with Cons show ?thesis by fastforce
  next
    case False
    with Cons obtain m1 where m1: "m1 \<in> set (w_messages (mergeConversationInto p d w))" "sm_waMessageId m1 = sm_waMessageId m"
      "\<not> (sm_conversationId m1 \<in> set ds \<and> sm_conversationId m1 \<noteq> p \<and> truthy_ref (sm_waMessageId m1))"
      by fastforce
    then obtain m0 where m0: "m0 \<in> set (w_messages w)" "\<not> lost_in_merge d m0" "m1 = moved p d m0"
      by (auto simp: frame_simps)
    with m1 have "\<not> (sm_conversationId m0 \<in> set (d # ds) \<and> sm_conversationId m0 \<noteq> p \<and> truthy_ref (sm_waMessageId m0))"
      by (auto simp: lost_in_merge_def moved_def split: if_splits)
    with m0 m1 show ?thesis by (intro bexI [of _ m0]) simp_all
  qed
qed auto

lemma merge_all_fields:
  "a_conv_ids (merge_all p ds w) = filter (\<lambda>c. c = p \<or> c \<notin> set ds) (a_conv_ids w)"
  "w_convs (merge_all p ds w) = (\<lambda>c. if c \<in> set ds \<and> c \<noteq> p then None else w_convs w c)"
  "w_contacts (merge_all p ds w) = w_contacts w" "w_sent (merge_all p ds w) = w_sent w"
  by (induction ds arbitrary: w) (auto simp: frame_simps fun_eq_iff intro!: filter_cong)

lemma consolidate_shape:
  assumes "1 < length (threads k s w)"
  shows "consolidateContactThreads k s w =
    (let primary = main_thread (threads k s w) w;
         w1 = merge_all primary (threads k s w) w;
         w2 = (if list_ex (\<lambda>c. \<not> conv_resolved w c) (threads k s w) \<and> conv_resolved w primary
               then snd (reopenConversation primary w1) else w1)
     in (Some primary, case latest_message primary w1 of None \<Rightarrow> w2 | Some t \<Rightarrow> touch_conversation primary t w2))"
  using assms by (cases "threads k s w" rule: remdups_adj.cases) (simp_all add: consolidateContactThreads_def merge_all_def Let_def)

lemma main_thread_in: "all \<noteq> [] \<Longrightarrow> main_thread all w \<in> set all"
proof -
  have "fold (\<lambda>c best. if message_count c w > message_count best w then c else best) cs b \<in> insert b (set cs)" for cs b
    by (induction cs arbitrary: b) (auto split: if_splits)
  then show "all \<noteq> [] \<Longrightarrow> ?thesis" by (cases all) (simp_all add: main_thread_def)
qed

lemma reopen_frame [frame_simps]:
  "w_messages (snd (reopenConversation c w)) = w_messages w" "w_contacts (snd (reopenConversation c w)) = w_contacts w"
  "w_sent (snd (reopenConversation c w)) = w_sent w" "w_now (snd (reopenConversation c w)) = w_now w"
  "w_sessions (snd (reopenConversation c w)) = w_sessions w" "cworld.more (snd (reopenConversation c w)) = cworld.more w"
  by (simp_all add: reopenConversation_def reopen_commit_def Let_def split: sum.split option.split)

lemma cancel_frame [frame_simps]:
  "w_messages (cancel_auto_close c w) = w_messages w" "w_contacts (cancel_auto_close c w) = w_contacts w"
  "w_sent (cancel_auto_close c w) = w_sent w" "w_now (cancel_auto_close c w) = w_now w"
  "cworld.more (cancel_auto_close c w) = cworld.more w"
  by (simp_all add: cancel_auto_close_def split: option.split)

lemma upd_conv_frame [frame_simps]:
  "w_messages (upd_conv c f w) = w_messages w" "w_contacts (upd_conv c f w) = w_contacts w"
  "w_sent (upd_conv c f w) = w_sent w" "w_now (upd_conv c f w) = w_now w" "cworld.more (upd_conv c f w) = cworld.more w"
  by (simp_all add: upd_conv_def)

lemma touch_frame [frame_simps]:
  "w_messages (touch_conversation c t w) = w_messages w" "w_contacts (touch_conversation c t w) = w_contacts w"
  "w_sent (touch_conversation c t w) = w_sent w" "w_now (touch_conversation c t w) = w_now w"
  "w_convs (touch_conversation c t w) = w_convs w" "a_conv_ids (touch_conversation c t w) = a_conv_ids w"
  by (simp_all add: touch_conversation_def)

lemma conv_ids_more: "cworld.more w' = cworld.more w \<Longrightarrow> a_conv_ids w' = a_conv_ids w"
  by (cases w; cases w') simp

text \<open>What finding or making the thread does to the messages.\<close>

lemma consolidate_messages:
  assumes "consolidateContactThreads k s w = (r, w')"
  shows "w_messages w' = w_messages (merge_all (main_thread (threads k s w) w) (if 1 < length (threads k s w) then threads k s w else []) w)"
proof (cases "1 < length (threads k s w)")
  case True
  with assms show ?thesis
    unfolding consolidate_shape [OF True] Let_def by (auto simp: frame_simps split: option.splits if_splits)
next
  case False
  with assms show ?thesis
    by (cases "threads k s w" rule: remdups_adj.cases) (simp_all add: consolidateContactThreads_def)
qed

lemma active_messages:
  assumes "getOrCreateActiveConversation k s t w = (av, w')"
  shows "w_messages w' = w_messages (snd (consolidateContactThreads k s w))"
  using assms
  by (auto simp: getOrCreateActiveConversation_def create_conversation_def Let_def frame_simps
      split: prod.splits option.splits if_splits)

lemma active_thread:
  assumes "getOrCreateActiveConversation k s t w = (av, w')" and "threads k s w \<noteq> []"
  shows "av_conversationId av = main_thread (threads k s w) w"
proof -
  have "fst (consolidateContactThreads k s w) = Some (main_thread (threads k s w) w)"
  proof (cases "1 < length (threads k s w)")
    case True
    then show ?thesis by (simp add: consolidate_shape Let_def)
  next
    case False
    with assms(2) show ?thesis
      by (cases "threads k s w" rule: remdups_adj.cases) (simp_all add: consolidateContactThreads_def main_thread_def)
  qed
  then obtain w1 where c: "consolidateContactThreads k s w = (Some (main_thread (threads k s w) w), w1)"
    by (metis prod.collapse)
  from assms(1) show ?thesis
    unfolding getOrCreateActiveConversation_def c by (auto simp: Let_def split: if_splits)
qed

section \<open>Receiving\<close>

lemma upsert_frame [frame_simps]:
  "w_messages (snd (upsert_contact ph nm ck w)) = w_messages w" "w_convs (snd (upsert_contact ph nm ck w)) = w_convs w"
  "w_sent (snd (upsert_contact ph nm ck w)) = w_sent w" "w_now (snd (upsert_contact ph nm ck w)) = w_now w"
  "w_sessions (snd (upsert_contact ph nm ck w)) = w_sessions w" "a_conv_ids (snd (upsert_contact ph nm ck w)) = a_conv_ids w"
  by (simp_all add: upsert_contact_def Let_def split: option.split)

lemma claim_frame [frame_simps]:
  "w_messages (claim_click ck k w) = w_messages w" "w_convs (claim_click ck k w) = w_convs w"
  "w_contacts (claim_click ck k w) = w_contacts w" "w_sent (claim_click ck k w) = w_sent w"
  "w_now (claim_click ck k w) = w_now w" "a_conv_ids (claim_click ck k w) = a_conv_ids w"
  by (simp_all add: claim_click_def split: option.split)

lemma threads_same:
  "w_convs w' = w_convs w \<Longrightarrow> a_conv_ids w' = a_conv_ids w \<Longrightarrow> threads k s w' = threads k s w"
  by (simp add: threads_def)

lemma main_thread_same: "w_messages w' = w_messages w \<Longrightarrow> main_thread all w' = main_thread all w"
  by (simp add: main_thread_def message_count_def)

lemma receive_stored:
  assumes "receive data w = (Inr (Some rv), w')"
  obtains session w2 av w3 where
    "\<not> already_stored data w" "find (\<lambda>s. ss_sessionName s = in_session data) (w_sessions w) = Some session"
    "w2 = claim_click (claimable_click (in_body data) w) (rv_contactId rv)
       (snd (upsert_contact (normalize_phone (in_phone data)) (in_contactName data) (claimable_click (in_body data) w) w))"
    "rv_contactId rv = fst (upsert_contact (normalize_phone (in_phone data)) (in_contactName data) (claimable_click (in_body data) w) w)"
    "\<forall>ct. w_contacts w2 (rv_contactId rv) = Some ct \<longrightarrow> ct_blockedAt ct = None"
    "getOrCreateActiveConversation (rv_contactId rv) (ss_id session) (ss_teamId session) w2 = (av, w3)"
    "rv_conversationId rv = av_conversationId av" "rv_isNewSession rv = av_isNewSession av" "rv_body rv = message_text data"
    "w' = store_message data (rv_contactId rv) (rv_conversationId rv) w3"
proof -
  obtain k w1 where up: "upsert_contact (normalize_phone (in_phone data)) (in_contactName data) (claimable_click (in_body data) w) w = (k, w1)"
    by fastforce
  from assms show thesis
    unfolding receive_def Let_def up prod.case
    by (auto split: if_splits option.splits prod.splits intro!: that simp: up)
qed

definition provider_ids_unique :: "stored_message list \<Rightarrow> bool" where
  "provider_ids_unique ms \<longleftrightarrow> (\<forall>m \<in> set ms. \<forall>m' \<in> set ms. truthy_ref (sm_waMessageId m) \<and> sm_waMessageId m' = sm_waMessageId m \<longrightarrow> m' = m)"

text \<open>The message goes to the thread with the most messages.\<close>

lemma receive_thread:
  assumes rcv: "receive data w = (Inr (Some rv), w')"
    and sess: "find (\<lambda>s. ss_sessionName s = in_session data) (w_sessions w) = Some session"
    and ne: "threads (rv_contactId rv) (ss_id session) w \<noteq> []"
  shows "rv_conversationId rv = main_thread (threads (rv_contactId rv) (ss_id session) w) w"
proof -
  from rcv obtain session' w2 av w3 where r:
    "find (\<lambda>s. ss_sessionName s = in_session data) (w_sessions w) = Some session'"
    "w2 = claim_click (claimable_click (in_body data) w) (rv_contactId rv)
       (snd (upsert_contact (normalize_phone (in_phone data)) (in_contactName data) (claimable_click (in_body data) w) w))"
    "getOrCreateActiveConversation (rv_contactId rv) (ss_id session') (ss_teamId session') w2 = (av, w3)"
    "rv_conversationId rv = av_conversationId av"
    by (rule receive_stored)
  have same: "w_messages w2 = w_messages w" "threads k s w2 = threads k s w" for k s
    by (simp_all add: r(2) frame_simps threads_def)
  show ?thesis using active_thread [OF r(3)] ne sess r(1,4) by (simp add: same main_thread_same [OF same(1)])
qed

text \<open>A message of another thread of the contact is gone once the next message is in.\<close>

lemma receive_loses:
  assumes rcv: "receive data w = (Inr (Some rv), w')"
    and sess: "find (\<lambda>s. ss_sessionName s = in_session data) (w_sessions w) = Some session"
    and m: "m \<in> set (w_messages w)" "sm_conversationId m \<in> set (threads (rv_contactId rv) (ss_id session) w)"
      "sm_conversationId m \<noteq> rv_conversationId rv" "truthy_ref (sm_waMessageId m)"
    and unique: "provider_ids_unique (w_messages w)"
  shows "\<forall>x \<in> set (w_messages w'). sm_waMessageId x \<noteq> sm_waMessageId m"
proof -
  from rcv obtain session' w2 av w3 where r: "\<not> already_stored data w"
    "find (\<lambda>s. ss_sessionName s = in_session data) (w_sessions w) = Some session'"
    "w2 = claim_click (claimable_click (in_body data) w) (rv_contactId rv)
       (snd (upsert_contact (normalize_phone (in_phone data)) (in_contactName data) (claimable_click (in_body data) w) w))"
    "getOrCreateActiveConversation (rv_contactId rv) (ss_id session') (ss_teamId session') w2 = (av, w3)"
    "rv_conversationId rv = av_conversationId av" "w' = store_message data (rv_contactId rv) (rv_conversationId rv) w3"
    by (rule receive_stored)
  let ?k = "rv_contactId rv" and ?s = "ss_id session"
  have [simp]: "session' = session" using r(2) sess by simp
  have same: "w_messages w2 = w_messages w" "threads ?k ?s w2 = threads ?k ?s w"
    by (simp_all add: r(3) frame_simps threads_def)
  let ?all = "threads ?k ?s w" and ?p = "main_thread (threads ?k ?s w) w"
  have ne: "?all \<noteq> []" using m(2) by (intro notI) simp
  have p: "rv_conversationId rv = ?p" by (rule receive_thread [OF rcv sess ne])
  have two: "1 < length ?all"
  proof (cases "threads ?k ?s w" rule: remdups_adj.cases)
    case (2 c)
    with m(2,3) p show ?thesis by (simp add: main_thread_def)
  qed (use m(2) in auto)
  obtain o' w4 where c: "consolidateContactThreads ?k ?s w2 = (o', w4)" by fastforce
  from active_messages [OF r(4)] consolidate_messages [OF c] two
  have "w_messages w3 = w_messages (merge_all ?p ?all w2)"
    by (simp add: c same main_thread_same [OF same(1)])
  moreover have "sm_waMessageId x \<noteq> sm_waMessageId m" if "x \<in> set (w_messages (merge_all ?p ?all w2))" for x
  proof
    assume eq: "sm_waMessageId x = sm_waMessageId m"
    from merge_all_survivors [OF that] obtain m0 where "m0 \<in> set (w_messages w)" "sm_waMessageId m0 = sm_waMessageId m"
      "\<not> (sm_conversationId m0 \<in> set ?all \<and> sm_conversationId m0 \<noteq> ?p \<and> truthy_ref (sm_waMessageId m0))"
      by (auto simp: same eq)
    moreover from this m(1,4) unique have "m0 = m" by (auto simp: provider_ids_unique_def)
    ultimately show False using m p by simp
  qed
  moreover have "in_waMessageId data \<noteq> sm_waMessageId m"
    using r(1) m(1,4) by (auto simp: already_stored_def list_ex_iff)
  ultimately show ?thesis by (simp add: r(6) store_message_def)
qed

lemma main_thread_max: "c \<in> set all \<Longrightarrow> message_count c w \<le> message_count (main_thread all w) w"
proof -
  let ?f = "\<lambda>c best. if message_count c w > message_count best w then c else best"
  have "message_count b w \<le> message_count (fold ?f cs b) w \<and> (\<forall>c \<in> set cs. message_count c w \<le> message_count (fold ?f cs b) w)" for cs b
  proof (induction cs arbitrary: b)
    case (Cons c cs)
    show ?case
    proof (cases "message_count c w > message_count b w")
      case True
      with Cons [of c] show ?thesis by simp
    next
      case False
      with Cons [of b] show ?thesis by (simp add: order.trans [of _ "message_count b w"])
    qed
  qed simp
  then show "c \<in> set all \<Longrightarrow> ?thesis" by (cases all) (auto simp: main_thread_def)
qed

lemma merge_contacts_frame:
  assumes "merge_contacts p s w = (Inr (), w1)"
  shows "w_messages w1 = w_messages w" "w_sessions w1 = w_sessions w" "a_conv_ids w1 = a_conv_ids w"
    "w_convs w1 = (\<lambda>c. map_option (\<lambda>cv. if cv_contactId cv = s then cv\<lparr>cv_contactId := p\<rparr> else cv) (w_convs w c))"
proof -
  from assms have "w1 = snd (merge_contacts p s w)" "p \<noteq> [] \<and> s \<noteq> [] \<and> p \<noteq> s \<and> w_contacts w p \<noteq> None \<and> w_contacts w s \<noteq> None"
    by (auto simp: merge_contacts_def split: if_split_asm)
  then show "w_messages w1 = w_messages w" "w_sessions w1 = w_sessions w" "a_conv_ids w1 = a_conv_ids w"
    "w_convs w1 = (\<lambda>c. map_option (\<lambda>cv. if cv_contactId cv = s then cv\<lparr>cv_contactId := p\<rparr> else cv) (w_convs w c))"
    by (simp_all add: merge_contacts_def)
qed

lemma merged_threads:
  assumes "merge_contacts p s w = (Inr (), w1)"
  shows "set (threads p sid w1) = set (threads p sid w) \<union> set (threads s sid w)"
proof -
  have "c \<in> set (threads p sid w1) \<longleftrightarrow> c \<in> set (threads p sid w) \<or> c \<in> set (threads s sid w)" for c
    by (cases "w_convs w c") (auto simp: threads_def merge_contacts_frame [OF assms])
  then show ?thesis by blast
qed

text \<open>C35: Merging contacts loses conversations. Merging two contacts gives the first one two threads on a session;
  with the next message of that contact the threads are merged into the one with the most messages, and
  every message of the others that has a provider id, that is every message a customer sent and every
  message that was delivered, is deleted: the lookup that should find a clash finds the message itself.\<close>
theorem merged_contacts_lose_messages:
  assumes merged: "merge_contacts p s w = (Inr (), w1)"
    and writes: "receive data w1 = (Inr (Some rv), w2)" and contact: "rv_contactId rv = p"
    and sess: "find (\<lambda>x. ss_sessionName x = in_session data) (w_sessions w) = Some session"
    and m: "m \<in> set (w_messages w)" "sm_conversationId m \<in> set (threads p (ss_id session) w) \<union> set (threads s (ss_id session) w)"
      "sm_conversationId m \<noteq> rv_conversationId rv" "truthy_ref (sm_waMessageId m)"
    and unique: "provider_ids_unique (w_messages w)"
  shows "message_count (sm_conversationId m) w \<le> message_count (rv_conversationId rv) w
    \<and> (\<forall>x \<in> set (w_messages w2). sm_waMessageId x \<noteq> sm_waMessageId m)"
proof
  note same = merge_contacts_frame [OF merged] merged_threads [OF merged]
  have sess1: "find (\<lambda>x. ss_sessionName x = in_session data) (w_sessions w1) = Some session" using sess by (simp add: same)
  have thread: "sm_conversationId m \<in> set (threads (rv_contactId rv) (ss_id session) w1)" using m(2) contact by (simp add: same)
  then have "threads (rv_contactId rv) (ss_id session) w1 \<noteq> []" by (intro notI) simp
  from receive_thread [OF writes sess1 this] main_thread_max [OF thread, of w1]
  show "message_count (sm_conversationId m) w \<le> message_count (rv_conversationId rv) w"
    by (simp add: message_count_def same)
  show "\<forall>x \<in> set (w_messages w2). sm_waMessageId x \<noteq> sm_waMessageId m"
    by (rule receive_loses [OF writes sess1]) (use m unique thread in \<open>simp_all add: same\<close>)
qed

definition text_message :: "jstr \<Rightarrow> jstr \<Rightarrow> message_direction \<Rightarrow> jstr \<Rightarrow> int \<Rightarrow> stored_message" where
  "text_message cid waId dir autoType t =
     \<lparr>sm_conversationId = cid, sm_body = lit ''hi'', sm_isInternal = False, sm_autoType = autoType, sm_waMessageId = Some waId,
      sm_direction = dir, sm_isAuto = (autoType \<noteq> []), sm_status = MSG_SENT, sm_timestamp = t\<rparr>"

definition a_contact :: "jstr \<Rightarrow> contact_row" where
  "a_contact phone = \<lparr>ct_phone = phone, ct_name = None, ct_firstName = None, ct_consent = UNKNOWN,
     ct_lifecycleStage = None, ct_blockedAt = None\<rparr>"

definition a_thread :: "jstr \<Rightarrow> conversation" where
  "a_thread contactId = (new_conversation contactId (lit ''s1'') None False 100)"

text \<open>Two contacts with a thread each, in an organization that is open around the clock.\<close>

definition sample_iworld :: iworld where
  "sample_iworld = rworld.extend
     (sample_rworld\<lparr>w_now := 1000,
        w_contacts := [lit ''p1'' \<mapsto> a_contact (lit ''9721''), lit ''p2'' \<mapsto> a_contact (lit ''9722'')],
        w_convs := [lit ''c1'' \<mapsto> a_thread (lit ''p1''), lit ''c2'' \<mapsto> a_thread (lit ''p2'')], a_conv_ids := [lit ''c1'', lit ''c2''],
        w_messages := [text_message (lit ''c1'') (lit ''wa1'') INBOUND [] 100, text_message (lit ''c1'') (lit ''wa2'') OUTBOUND [] 200,
                       text_message (lit ''c2'') (lit ''wa3'') INBOUND [] 300],
        r_workflows := [], r_execIds := [], x_execs := Map.empty\<rparr>)
     \<lparr>i_contactIds = [lit ''p1'', lit ''p2''], i_newContact = (\<lambda>n. lit ''p'' @ dec_digits (n + 1)),
      i_newConv = (\<lambda>n. lit ''c'' @ dec_digits (n + 1)), i_sequence = 2, i_displayId = (\<lambda>_. 0), i_archived = [],
      i_acquisition = (\<lambda>_. AcqUnknown), i_clicks = [], i_webhooks = [], i_usage = [],
      i_hours = Some \<lparr>wh_enabled = False, wh_autoReplyEnabled = True, wh_timezone = lit ''UTC'', wh_workDays = [],
        wh_startTime = lit ''08:00'', wh_endTime = lit ''20:00'', wh_outOfHoursTemplate = None\<rparr>,
      i_oohTemplate = None, i_clock = (\<lambda>_ _. (0, 0, 0)), i_keywords = [], i_consentEvents = [], i_csat = Map.empty,
      i_escalations = [], i_escalated = []\<rparr>"

definition a_text :: "jstr \<Rightarrow> jstr \<Rightarrow> jstr \<Rightarrow> inbound" where
  "a_text phone waId body =
     \<lparr>in_session = lit ''main'', in_phone = phone, in_contactName = None, in_body = body, in_waMessageId = Some waId,
      in_hasMedia = False, in_mediaType = None, in_fromMe = False\<rparr>"

lemmas sample_iworld_simps = sample_iworld_def sample_rworld_simps rworld.extend_def a_contact_def a_thread_def text_message_def
  new_conversation_def

lemma hello_plain: "extractClickTokens (lit ''hello'') = []"
  by (simp add: extractClickTokens_def token_here_def starts_with_def CLICK_TOKEN_MARKER_def lit_def)

lemma phone_9721: "normalize_phone (lit ''9721@c.us'') = lit ''9721''"
  by (simp add: normalize_phone_def strip_suffix_def ascii_lower_def lit_def Let_def starts_with_def)

lemma js_trim_hello: "js_trim (lit ''hello'') = lit ''hello''"
  by (simp add: js_trim_def lit_def is_ws_def)

definition merged_iworld :: iworld where
  "merged_iworld = snd (merge_contacts (lit ''p1'') (lit ''p2'') sample_iworld)"

lemma merged_sample: "merge_contacts (lit ''p1'') (lit ''p2'') sample_iworld = (Inr (), merged_iworld)"
  by (simp add: merged_iworld_def merge_contacts_def sample_iworld_simps lit_def)

lemma merged_rows:
  "w_convs merged_iworld (lit ''c1'') = Some (a_thread (lit ''p1''))" "w_convs merged_iworld (lit ''c2'') = Some (a_thread (lit ''p1''))"
  "a_conv_ids merged_iworld = [lit ''c1'', lit ''c2'']" "w_messages merged_iworld = w_messages sample_iworld"
  "w_sessions merged_iworld = w_sessions sample_iworld"
  "i_contactIds merged_iworld = [lit ''p1'', lit ''p2'']" "w_contacts merged_iworld (lit ''p1'') = Some (a_contact (lit ''9721''))"
  using merge_contacts_frame [OF merged_sample]
  by (simp_all add: sample_iworld_simps) (simp_all add: merged_iworld_def merge_contacts_def sample_iworld_simps lit_def)

lemma receive_known:
  assumes "\<not> already_stored data w" "find (\<lambda>s. ss_sessionName s = in_session data) (w_sessions w) = Some session"
    "claimable_click (in_body data) w = None" "in_contactName data = None"
    "contact_by_phone (normalize_phone (in_phone data)) w = Some k" "w_contacts w k = Some ct" "ct_blockedAt ct = None"
    "message_text data \<noteq> []"
  shows "\<exists>rv w'. receive data w = (Inr (Some rv), w') \<and> rv_contactId rv = k \<and> rv_body rv = message_text data"
  using assms
  by (cases "getOrCreateActiveConversation k (ss_id session) (ss_teamId session) w")
    (simp add: receive_def upsert_contact_def claim_click_def Let_def)

lemma no_clicks: "i_clicks w = [] \<Longrightarrow> claimable_click body w = None"
  by (simp add: claimable_click_def Let_def)

lemma sample_phone:
  assumes "i_contactIds w = [lit ''p1'', lit ''p2'']" "w_contacts w (lit ''p1'') = Some ct" "ct_phone ct = lit ''9721''"
  shows "contact_by_phone (normalize_phone (lit ''9721@c.us'')) w = Some (lit ''p1'')"
  using assms by (simp add: contact_by_phone_def phone_9721)

lemma a_text_fields [simp]:
  "in_session (a_text ph wa b) = lit ''main''" "in_phone (a_text ph wa b) = ph" "in_contactName (a_text ph wa b) = None"
  "in_body (a_text ph wa b) = b" "in_waMessageId (a_text ph wa b) = Some wa" "in_fromMe (a_text ph wa b) = False"
  "in_hasMedia (a_text ph wa b) = False" "js_trim b \<noteq> [] \<Longrightarrow> message_text (a_text ph wa b) = js_trim b"
  by (simp_all add: a_text_def message_text_def)

lemma sample_session:
  "w_sessions w = w_sessions sample_iworld \<Longrightarrow>
   \<exists>s. find (\<lambda>s. ss_sessionName s = lit ''main'') (w_sessions w) = Some s \<and> ss_id s = lit ''s1''"
  by (simp add: sample_iworld_simps)

lemma sample_received:
  "\<exists>rv w2. receive (a_text (lit ''9721@c.us'') (lit ''wa4'') (lit ''hello'')) merged_iworld = (Inr (Some rv), w2)
     \<and> rv_contactId rv = lit ''p1''"
proof -
  obtain s where s: "find (\<lambda>s. ss_sessionName s = lit ''main'') (w_sessions merged_iworld) = Some s"
    using sample_session [OF merged_rows(5)] by blast
  have fresh: "\<not> already_stored (a_text (lit ''9721@c.us'') (lit ''wa4'') (lit ''hello'')) merged_iworld"
    by (simp add: already_stored_def merged_rows sample_iworld_simps)
  have clicks: "i_clicks merged_iworld = []"
    by (simp add: merged_iworld_def merge_contacts_def sample_iworld_simps)
  have ct: "ct_blockedAt (a_contact (lit ''9721'')) = None" "ct_phone (a_contact (lit ''9721'')) = lit ''9721''" by (simp_all add: a_contact_def)
  show ?thesis
    using receive_known [of "a_text (lit ''9721@c.us'') (lit ''wa4'') (lit ''hello'')" merged_iworld s "lit ''p1''"]
      fresh s no_clicks [OF clicks] sample_phone [OF merged_rows(6,7) ct(2)] merged_rows(7) ct(1)
    by (fastforce simp: js_trim_hello)
qed

theorem merged_contacts_lose_messages_witness:
  "\<exists>rv w2. receive (a_text (lit ''9721@c.us'') (lit ''wa4'') (lit ''hello'')) merged_iworld = (Inr (Some rv), w2)
     \<and> text_message (lit ''c2'') (lit ''wa3'') INBOUND [] 300 \<in> set (w_messages sample_iworld)
     \<and> (\<forall>x \<in> set (w_messages w2). sm_waMessageId x \<noteq> Some (lit ''wa3''))"
proof -
  obtain rv w2 where rv: "receive (a_text (lit ''9721@c.us'') (lit ''wa4'') (lit ''hello'')) merged_iworld = (Inr (Some rv), w2)"
    "rv_contactId rv = lit ''p1''"
    using sample_received by blast
  obtain s where s: "find (\<lambda>s. ss_sessionName s = lit ''main'') (w_sessions sample_iworld) = Some s" "ss_id s = lit ''s1''"
    using sample_session [of sample_iworld] by blast
  have threads: "threads (lit ''p1'') (lit ''s1'') merged_iworld = [lit ''c1'', lit ''c2'']"
    by (simp add: threads_def merged_rows a_thread_def new_conversation_def)
  have ms: "w_messages sample_iworld = [text_message (lit ''c1'') (lit ''wa1'') INBOUND [] 100,
      text_message (lit ''c1'') (lit ''wa2'') OUTBOUND [] 200, text_message (lit ''c2'') (lit ''wa3'') INBOUND [] 300]"
    by (simp add: sample_iworld_def rworld.extend_def)
  have main: "main_thread [lit ''c1'', lit ''c2''] merged_iworld = lit ''c1''"
    by (simp add: main_thread_def message_count_def merged_rows ms text_message_def)
  have cid: "rv_conversationId rv = lit ''c1''"
    using receive_thread [OF rv(1), of s] s by (simp add: merged_rows rv(2) threads main)
  have old: "lit ''c2'' \<in> set (threads (lit ''p2'') (lit ''s1'') sample_iworld)"
    by (simp add: threads_def sample_iworld_simps)
  have in0: "text_message (lit ''c2'') (lit ''wa3'') INBOUND [] 300 \<in> set (w_messages sample_iworld)" by (simp add: ms)
  have "provider_ids_unique (w_messages sample_iworld)" by (simp add: ms provider_ids_unique_def text_message_def)
  moreover have f: "sm_conversationId (text_message c i d a t) = c" "sm_waMessageId (text_message c i d a t) = Some i" for c i d a t
    by (simp_all add: text_message_def)
  ultimately have "\<forall>x \<in> set (w_messages w2). sm_waMessageId x \<noteq> Some (lit ''wa3'')"
    using merged_contacts_lose_messages [OF merged_sample rv(1,2) _ in0, of s] s old by (simp add: cid f)
  with rv(1) in0 show ?thesis by blast
qed

section \<open>What a message leaves alone\<close>

lemma more_fields:
  "cworld.more w' = cworld.more w \<Longrightarrow> a_conv_ids w' = a_conv_ids w \<and> r_queue w' = r_queue w \<and> x_execs w' = x_execs w
     \<and> i_escalations w' = i_escalations w \<and> i_usage w' = i_usage w \<and> i_webhooks w' = i_webhooks w \<and> i_csat w' = i_csat w
     \<and> i_contactIds w' = i_contactIds w \<and> i_newConv w' = i_newConv w \<and> i_hours w' = i_hours w"
  by (cases w; cases w') simp

definition pending_work :: "'a iworld_scheme \<Rightarrow> workflow_job list \<times> escalation list \<times> (jstr \<times> jstr \<times> jstr) list" where
  "pending_work w = (r_queue w, i_escalations w, w_sent w)"

lemma pending_more: "cworld.more w' = cworld.more w \<Longrightarrow> w_sent w' = w_sent w \<Longrightarrow> pending_work w' = pending_work w"
  using more_fields by (auto simp: pending_work_def)

lemma pending_frame [frame_simps]:
  "pending_work (upd_conv c f w) = pending_work w" "pending_work (cancel_auto_close c w) = pending_work w"
  "pending_work (snd (reopenConversation c w)) = pending_work w"
  by (rule pending_more, simp add: frame_simps, simp add: frame_simps)+

lemma pending_frame' [frame_simps]:
  "pending_work (touch_conversation c t w) = pending_work w"
  "pending_work (mergeConversationInto p d w) = pending_work w" "pending_work (claim_click ck k w) = pending_work w"
  "pending_work (snd (upsert_contact ph nm ck w)) = pending_work w" "pending_work (store_message data k c w) = pending_work w"
  by (simp_all add: pending_work_def touch_conversation_def mergeConversationInto_def claim_click_def upsert_contact_def Let_def
      store_message_def split: option.split)

lemma merge_all_pending [frame_simps]: "pending_work (merge_all p ds w) = pending_work w"
  by (induction ds arbitrary: w) (simp_all add: frame_simps)

lemma consolidate_frame:
  "pending_work (snd (consolidateContactThreads k s w)) = pending_work w
   \<and> w_contacts (snd (consolidateContactThreads k s w)) = w_contacts w"
proof (cases "1 < length (threads k s w)")
  case False
  then show ?thesis by (cases "threads k s w" rule: remdups_adj.cases) (simp_all add: consolidateContactThreads_def)
qed (auto simp: consolidate_shape Let_def frame_simps merge_all_fields split: option.split)

lemma create_frame [frame_simps]:
  "pending_work (snd (create_conversation k s t w)) = pending_work w"
  "w_contacts (snd (create_conversation k s t w)) = w_contacts w"
  by (simp_all add: create_conversation_def pending_work_def Let_def)

lemma active_frame:
  assumes "getOrCreateActiveConversation k s t w = (av, w')"
  shows "pending_work w' = pending_work w" "w_contacts w' = w_contacts w"
proof -
  obtain o' w1 where c: "consolidateContactThreads k s w = (o', w1)" by fastforce
  have "pending_work w' = pending_work w1 \<and> w_contacts w' = w_contacts w1"
    using assms create_frame [of k s t w1] unfolding getOrCreateActiveConversation_def c
    by (auto simp: Let_def frame_simps simp del: create_frame split: option.splits if_splits)
  then show "pending_work w' = pending_work w" "w_contacts w' = w_contacts w"
    using consolidate_frame [of k s w] by (simp_all add: c)
qed

lemma find_in: "find P xs = Some x \<Longrightarrow> x \<in> set xs \<and> P x"
  by (auto simp: find_Some_iff)

lemma upsert_present: "\<exists>ct. w_contacts (snd (upsert_contact ph nm ck w)) (fst (upsert_contact ph nm ck w)) = Some ct"
  by (auto simp: upsert_contact_def contact_by_phone_def Let_def split: option.splits dest!: find_in)

lemma receive_frame:
  assumes "receive data w = (Inr (Some rv), w')"
  shows "pending_work w' = pending_work w" "\<exists>ct. w_contacts w' (rv_contactId rv) = Some ct"
    "rv_body rv = message_text data"
    "\<exists>m \<in> set (w_messages w'). sm_waMessageId m = in_waMessageId data"
proof -
  from assms obtain session w2 av w3 where sess: "find (\<lambda>s. ss_sessionName s = in_session data) (w_sessions w) = Some session" and r:
    "w2 = claim_click (claimable_click (in_body data) w) (rv_contactId rv)
       (snd (upsert_contact (normalize_phone (in_phone data)) (in_contactName data) (claimable_click (in_body data) w) w))"
    "rv_contactId rv = fst (upsert_contact (normalize_phone (in_phone data)) (in_contactName data) (claimable_click (in_body data) w) w)"
    "getOrCreateActiveConversation (rv_contactId rv) (ss_id session) (ss_teamId session) w2 = (av, w3)"
    "w' = store_message data (rv_contactId rv) (rv_conversationId rv) w3"
    by (rule receive_stored)
  show "pending_work w' = pending_work w" using active_frame [OF r(3)] by (simp add: r(1,4) frame_simps)
  have "w_contacts w' = w_contacts w2" using active_frame [OF r(3)] by (simp add: r(4) store_message_def)
  then show "\<exists>ct. w_contacts w' (rv_contactId rv) = Some ct"
    using upsert_present unfolding r(1,2) by (simp add: frame_simps)
  show "\<exists>m \<in> set (w_messages w'). sm_waMessageId m = in_waMessageId data" by (simp add: r(4) store_message_def)
qed (use assms in \<open>auto elim: receive_stored\<close>)

section \<open>Consent\<close>

lemma auto_send_frame [frame_simps]:
  "w_contacts (auto_send s ph c a b w) = w_contacts w" "w_convs (auto_send s ph c a b w) = w_convs w"
  "w_now (auto_send s ph c a b w) = w_now w" "cworld.more (auto_send s ph c a b w) = cworld.more w"
  by (simp_all add: auto_send_def Let_def split: sum.split)

text \<open>The steps that answer a message send at most this to its number.\<close>

definition sends_to :: "jstr \<Rightarrow> jstr \<Rightarrow> nat \<Rightarrow> 'a cworld_scheme \<Rightarrow> 'a cworld_scheme \<Rightarrow> bool" where
  "sends_to session phone n w w' \<longleftrightarrow>
     (\<exists>out. w_sent w' = w_sent w @ out \<and> length out \<le> n \<and> (\<forall>x \<in> set out. fst x = session \<and> fst (snd x) = phone))"

lemma sends_none: "w_sent w' = w_sent w \<Longrightarrow> sends_to s ph n w w'"
  by (simp add: sends_to_def)

lemma sends_one: "sends_to s ph (Suc 0) w (auto_send s ph c a b w)"
  by (auto simp: sends_to_def auto_send_def Let_def split: sum.split)

lemma sends_trans: "sends_to s ph m w w1 \<Longrightarrow> sends_to s ph n w1 w2 \<Longrightarrow> sends_to s ph (m + n) w w2"
  by (fastforce simp: sends_to_def)

lemma welcome_sends: "sends_to (in_session data) (in_phone data) (Suc 0) w (welcome_step data rv a w)"
  by (auto simp: welcome_step_def intro: sends_none sends_one split: option.split)

lemma confirm_sends: "sends_to (in_session data) (in_phone data) (Suc 0) w (confirm_step data rv a sg w)"
  by (auto simp: confirm_step_def intro: sends_none sends_one split: option.split)

lemma answer_frame [frame_simps]:
  "w_contacts (welcome_step data rv a w) = w_contacts w" "cworld.more (welcome_step data rv a w) = cworld.more w"
  "w_contacts (confirm_step data rv a sg w) = w_contacts w" "cworld.more (confirm_step data rv a sg w) = cworld.more w"
  by (simp_all add: welcome_step_def confirm_step_def frame_simps split: option.split)

lemma hours_frame:
  assumes "getWorkingHoursConfig w = (wh, w')"
  shows "w_contacts w' = w_contacts w" "w_sent w' = w_sent w" "r_queue w' = r_queue w" "i_escalations w' = i_escalations w"
    "x_execs w' = x_execs w" "w_messages w' = w_messages w" "w_now w' = w_now w" "w_convs w' = w_convs w" "i_csat w' = i_csat w"
  using assms by (auto simp: getWorkingHoursConfig_def Let_def split: option.splits)

lemma write_frame:
  "w_contacts (write_consent k ct v src actor w) = (w_contacts w)(k \<mapsto> ct\<lparr>ct_consent := v\<rparr>)"
  "r_queue (write_consent k ct v src actor w) = r_queue w" "i_escalations (write_consent k ct v src actor w) = i_escalations w"
  "x_execs (write_consent k ct v src actor w) = x_execs w"
  by (simp_all add: write_consent_def)

lemma respond_stop:
  assumes "detectConsentSignal (rv_body rv) = Some SignalOut" and "w_contacts w (rv_contactId rv) = Some ct"
  shows "\<exists>ct'. w_contacts (respond d data rv w) (rv_contactId rv) = Some ct' \<and> ct_consent ct' = OPTED_OUT"
    and "r_queue (respond d data rv w) = r_queue w" and "i_escalations (respond d data rv w) = i_escalations w"
    and "x_execs (respond d data rv w) = x_execs w"
    and "sends_to (in_session data) (in_phone data) 2 w (respond d data rv w)"
proof -
  obtain wh w0 where h: "getWorkingHoursConfig w = (wh, w0)" by fastforce
  note f = hours_frame [OF h]
  let ?w1 = "welcome_step data rv (wh_autoReplyEnabled wh) w0"
  let ?w2 = "write_consent (rv_contactId rv) ct OPTED_OUT (lit ''keyword'') None ?w1"
  have ct: "w_contacts ?w1 (rv_contactId rv) = Some ct" using assms(2) by (simp add: frame_simps f)
  have "respond d data rv w = (if ct_consent ct = OPTED_OUT then ?w1 else confirm_step data rv (wh_autoReplyEnabled wh) SignalOut ?w2)"
    using assms(1) ct by (simp add: respond_def h Let_def applyInboundConsentSignal_def consent_of_def)
  moreover have more: "r_queue ?w1 = r_queue w" "i_escalations ?w1 = i_escalations w" "x_execs ?w1 = x_execs w"
    "r_queue (confirm_step data rv a sg v) = r_queue v" "i_escalations (confirm_step data rv a sg v) = i_escalations v"
    "x_execs (confirm_step data rv a sg v) = x_execs v" for a sg and v :: "'a iworld_scheme"
    using more_fields [of ?w1 w0] more_fields [of "confirm_step data rv a sg v" v] by (simp_all add: frame_simps f)
  moreover have s1: "sends_to (in_session data) (in_phone data) (Suc 0) w ?w1"
    using welcome_sends [of data w0] by (simp add: sends_to_def f)
  moreover from sends_trans [OF this, of "Suc 0"] have "sends_to (in_session data) (in_phone data) 2 w (confirm_step data rv a sg ?w2)" for a sg
    using confirm_sends [of data ?w2] by (simp add: sends_to_def write_consent_def numeral_2_eq_2)
  moreover have "sends_to (in_session data) (in_phone data) 2 w ?w1" using s1 by (auto simp: sends_to_def)
  ultimately show "\<exists>ct'. w_contacts (respond d data rv w) (rv_contactId rv) = Some ct' \<and> ct_consent ct' = OPTED_OUT"
    and "r_queue (respond d data rv w) = r_queue w" and "i_escalations (respond d data rv w) = i_escalations w"
    and "x_execs (respond d data rv w) = x_execs w"
    and "sends_to (in_session data) (in_phone data) 2 w (respond d data rv w)"
    using ct by (simp_all add: write_frame frame_simps)
qed

lemma receive_process: "receive data w = (Inr (Some rv), w1) \<Longrightarrow> processInboundMessage d data w = (Inr (), respond d data rv w1)"
  by (simp add: processInboundMessage_def)


lemma sample_contact: "w_contacts sample_iworld (lit ''p1'') = Some (a_contact (lit ''9721''))"
  "i_contactIds sample_iworld = [lit ''p1'', lit ''p2'']" "i_clicks sample_iworld = []"
  by (simp_all add: sample_iworld_simps)

lemma sample_receives:
  assumes "js_trim body \<noteq> []"
  shows "\<exists>rv w1. receive (a_text (lit ''9721@c.us'') (lit ''wa4'') body) sample_iworld = (Inr (Some rv), w1)
     \<and> rv_contactId rv = lit ''p1'' \<and> rv_body rv = js_trim body"
proof -
  obtain s where s: "find (\<lambda>s. ss_sessionName s = lit ''main'') (w_sessions sample_iworld) = Some s"
    using sample_session [of sample_iworld] by blast
  have fresh: "\<not> already_stored (a_text (lit ''9721@c.us'') (lit ''wa4'') body) sample_iworld"
    by (simp add: already_stored_def sample_iworld_simps)
  have ct: "ct_blockedAt (a_contact (lit ''9721'')) = None" "ct_phone (a_contact (lit ''9721'')) = lit ''9721''" by (simp_all add: a_contact_def)
  show ?thesis
    using receive_known [of "a_text (lit ''9721@c.us'') (lit ''wa4'') body" sample_iworld s "lit ''p1''"]
      assms fresh s no_clicks [OF sample_contact(3)] sample_phone [OF sample_contact(2,1) ct(2)] sample_contact(1) ct(1)
    by fastforce
qed

lemma stop_word: "js_trim (lit ''STOP'') = lit ''STOP''" "detectConsentSignal (lit ''STOP'') = Some SignalOut"
proof -
  show t: "js_trim (lit ''STOP'') = lit ''STOP''" by (simp add: js_trim_def lit_def is_ws_def)
  have "normalize_signal (lit ''STOP'') = lit ''stop''"
    by (simp add: normalize_signal_def t) (simp add: lit_def lower_unit_def CONSENT_PUNCTUATION_def js_trim_def is_ws_def)
  then show "detectConsentSignal (lit ''STOP'') = Some SignalOut"
    by (simp add: detectConsentSignal_def OPT_OUT_KEYWORDS_def)
qed


text \<open>A STOP can get lost. When the process stops after the message is stored and before it is answered, the job is
  run again; the message is then found in the table and nothing happens, so the contact keeps the consent
  of before. The job that is not interrupted opts the contact out.\<close>
theorem interrupted_stop_is_lost:
  assumes stop: "detectConsentSignal (message_text data) = Some SignalOut" and id: "truthy_ref (in_waMessageId data)"
    and stored: "receive data w = (Inr (Some rv), w1)"
  shows "processInboundMessage disabled data w1 = (Inr (), w1)
    \<and> (\<exists>ct. w_contacts (snd (processInboundMessage disabled data w)) (rv_contactId rv) = Some ct \<and> ct_consent ct = OPTED_OUT)"
proof
  from receive_frame(4) [OF stored] id have "already_stored data w1" by (auto simp: already_stored_def list_ex_iff)
  then show "processInboundMessage disabled data w1 = (Inr (), w1)" by (simp add: processInboundMessage_def receive_def)
  from receive_frame(2,3) [OF stored] stop obtain ct where ct: "w_contacts w1 (rv_contactId rv) = Some ct"
    and b: "detectConsentSignal (rv_body rv) = Some SignalOut" by auto
  from respond_stop(1) [OF b ct, where d = disabled and data = data]
  show "\<exists>ct. w_contacts (snd (processInboundMessage disabled data w)) (rv_contactId rv) = Some ct \<and> ct_consent ct = OPTED_OUT"
    by (simp add: receive_process [OF stored])
qed

theorem interrupted_stop_is_lost_witness:
  "\<exists>rv w1. receive (a_text (lit ''9721@c.us'') (lit ''wa4'') (lit ''STOP'')) sample_iworld = (Inr (Some rv), w1)
     \<and> processInboundMessage False (a_text (lit ''9721@c.us'') (lit ''wa4'') (lit ''STOP'')) w1 = (Inr (), w1)"
proof -
  let ?m = "a_text (lit ''9721@c.us'') (lit ''wa4'') (lit ''STOP'')"
  obtain rv w1 where rv: "receive ?m sample_iworld = (Inr (Some rv), w1)"
    using sample_receives [of "lit ''STOP''"] by (auto simp: stop_word)
  have "detectConsentSignal (message_text ?m) = Some SignalOut" "truthy_ref (in_waMessageId ?m)" by (simp_all add: stop_word truthy_ref_def)
  from interrupted_stop_is_lost [OF this rv] rv show ?thesis by blast
qed

section \<open>Blocked contacts\<close>

text \<open>C21: a block holds. A message of a contact who is blocked changes the name on the row and the claim of a click at
  most: no message is stored, no conversation opened or reopened, nothing is sent, metered, scheduled or
  started.\<close>
theorem blocked_contact_leaves_no_trace:
  assumes who: "contact_by_phone (normalize_phone (in_phone data)) w = Some k" and row: "w_contacts w k = Some ct"
    and blocked: "ct_blockedAt ct \<noteq> None" and job: "processInboundMessage disabled data w = (r, w')"
  shows "\<exists>name clicks. w' = w\<lparr>w_contacts := (w_contacts w)(k \<mapsto> ct\<lparr>ct_name := name\<rparr>), i_clicks := clicks\<rparr>"
proof -
  let ?click = "claimable_click (in_body data) w"
  have row_same: "w\<lparr>w_contacts := (w_contacts w)(k \<mapsto> ct\<lparr>ct_name := ct_name ct\<rparr>), i_clicks := i_clicks w\<rparr> = w"
    using row by (simp add: fun_upd_idem)
  obtain w1 where up: "upsert_contact (normalize_phone (in_phone data)) (in_contactName data) ?click w = (k, w1)"
    and w1: "w1 = (if truthy_ref (in_contactName data) then w\<lparr>w_contacts := (w_contacts w)(k \<mapsto> ct\<lparr>ct_name := in_contactName data\<rparr>)\<rparr> else w)"
    using who row by (simp add: upsert_contact_def)
  have "w1 = w\<lparr>w_contacts := (w_contacts w)(k \<mapsto> ct\<lparr>ct_name := if truthy_ref (in_contactName data) then in_contactName data else ct_name ct\<rparr>)\<rparr>"
    using row by (simp add: w1 fun_upd_idem)
  then obtain name where name: "w1 = w\<lparr>w_contacts := (w_contacts w)(k \<mapsto> ct\<lparr>ct_name := name\<rparr>)\<rparr>" by blast
  let ?w2 = "claim_click ?click k w1"
  have "\<exists>clicks. ?w2 = w\<lparr>w_contacts := (w_contacts w)(k \<mapsto> ct\<lparr>ct_name := name\<rparr>), i_clicks := clicks\<rparr>"
    by (cases ?click) (auto simp: claim_click_def name intro: exI [of _ "i_clicks w"])
  moreover have "\<exists>ct. w_contacts ?w2 k = Some ct \<and> ct_blockedAt ct \<noteq> None" using blocked by (simp add: frame_simps name)
  then have "snd (receive data w) \<in> {w, ?w2} \<and> fst (receive data w) \<notin> range (\<lambda>rv. Inr (Some rv))"
    by (auto simp: receive_def Let_def up split: option.split)
  then have "w' \<in> {w, ?w2}" using job
    by (cases "receive data w") (auto simp: processInboundMessage_def split: sum.splits option.splits)
  ultimately show ?thesis using row_same by (metis insertE singletonD)
qed

definition blocked_iworld :: iworld where
  "blocked_iworld = sample_iworld\<lparr>w_contacts := (w_contacts sample_iworld)(lit ''p1'' \<mapsto> (a_contact (lit ''9721''))\<lparr>ct_blockedAt := Some 900\<rparr>)\<rparr>"

theorem blocked_contact_leaves_no_trace_witness:
  "w_messages (snd (processInboundMessage False (a_text (lit ''9721@c.us'') (lit ''wa4'') (lit ''hello'')) blocked_iworld)) = w_messages sample_iworld"
proof -
  let ?m = "a_text (lit ''9721@c.us'') (lit ''wa4'') (lit ''hello'')" and ?ct = "(a_contact (lit ''9721''))\<lparr>ct_blockedAt := Some 900\<rparr>"
  have ct: "w_contacts blocked_iworld (lit ''p1'') = Some ?ct" by (simp add: blocked_iworld_def)
  have "contact_by_phone (normalize_phone (in_phone ?m)) blocked_iworld = Some (lit ''p1'')"
    using sample_phone [OF _ ct] by (simp add: blocked_iworld_def sample_contact a_contact_def)
  from blocked_contact_leaves_no_trace [OF this ct _ surjective_pairing, of False]
  obtain name clicks where "snd (processInboundMessage False ?m blocked_iworld)
      = blocked_iworld\<lparr>w_contacts := (w_contacts blocked_iworld)(lit ''p1'' \<mapsto> ?ct\<lparr>ct_name := name\<rparr>), i_clicks := clicks\<rparr>"
    by auto
  then show ?thesis by (simp add: blocked_iworld_def)
qed

section \<open>Escalation\<close>

text \<open>An escalation can be lost. While the job of an earlier message waits, a second message schedules nothing, and
  the job keeps the time of the first: when the agent answered the first message and not the second, the
  job finds that answer, ends, and nobody is told of the customer who waits.\<close>
theorem second_message_is_never_escalated:
  assumes first: "cid \<notin> es_conversationId ` set (i_escalations w0)" "i_escalations w1 = i_escalations (scheduleConversationEscalation cid w0)"
    and second: "i_escalations w2 = i_escalations (scheduleConversationEscalation cid w1)"
    and answered: "agent_replied cid (w_now w0) w2" and waiting: "\<not> agent_replied cid (w_now w1) w2"
    and due: "w_now w0 + ESCALATION_DELAY_MS \<le> w_now w2"
  shows "i_escalated (run_escalation cid w2) = i_escalated w2 \<and> cid \<notin> es_conversationId ` set (i_escalations (run_escalation cid w2))"
proof -
  let ?job = "\<lparr>es_conversationId = cid, es_since = w_now w0, es_due = w_now w0 + ESCALATION_DELAY_MS\<rparr>"
  have q: "i_escalations w2 = i_escalations w0 @ [?job]"
    using first second by (auto simp: scheduleConversationEscalation_def)
  have "find (\<lambda>j. es_conversationId j = cid) (i_escalations w2) = Some ?job"
    using first(1) by (auto simp: q find_append image_iff split: option.split dest!: find_in)
  moreover have "agent_replied cid s (w2\<lparr>i_escalations := e\<rparr>) = agent_replied cid s w2" for s e
    by (simp add: agent_replied_def)
  ultimately show ?thesis using due answered
    by (auto simp: run_escalation_def checkAndEscalate_def split: option.split)
qed

text \<open>The customer writes at 1000 and again at 3000, the agent answers at 2000.\<close>

definition asked_once :: iworld where "asked_once = scheduleConversationEscalation (lit ''c1'') sample_iworld"

definition asked_twice :: iworld where
  "asked_twice = scheduleConversationEscalation (lit ''c1'') (asked_once\<lparr>w_now := 3000,
     w_messages := w_messages asked_once @ [text_message (lit ''c1'') (lit ''wa5'') OUTBOUND [] 2000]\<rparr>)"

lemma asked_rows:
  "i_escalations asked_once = i_escalations (scheduleConversationEscalation (lit ''c1'') sample_iworld)"
  "w_messages (asked_twice\<lparr>w_now := t\<rparr>) = w_messages sample_iworld @ [text_message (lit ''c1'') (lit ''wa5'') OUTBOUND [] 2000]"
  "i_escalations (asked_twice\<lparr>w_now := t\<rparr>) = i_escalations (scheduleConversationEscalation (lit ''c1'') (asked_once\<lparr>w_now := 3000\<rparr>))"
  by (simp_all add: asked_twice_def asked_once_def scheduleConversationEscalation_def sample_iworld_simps)

theorem second_message_is_never_escalated_witness:
  "i_escalated (run_escalation (lit ''c1'') (asked_twice\<lparr>w_now := 1801000\<rparr>)) = []"
proof -
  have ms: "w_messages (asked_twice\<lparr>w_now := 1801000\<rparr>) = [text_message (lit ''c1'') (lit ''wa1'') INBOUND [] 100,
      text_message (lit ''c1'') (lit ''wa2'') OUTBOUND [] 200, text_message (lit ''c2'') (lit ''wa3'') INBOUND [] 300,
      text_message (lit ''c1'') (lit ''wa5'') OUTBOUND [] 2000]"
    using asked_rows(2) [of 1801000] by (simp add: sample_iworld_def rworld.extend_def)
  have "agent_replied (lit ''c1'') 1000 (asked_twice\<lparr>w_now := 1801000\<rparr>)" "\<not> agent_replied (lit ''c1'') 3000 (asked_twice\<lparr>w_now := 1801000\<rparr>)"
    unfolding agent_replied_def ms by (simp_all add: text_message_def)
  moreover have "w_now sample_iworld = 1000" "i_escalations sample_iworld = []" "i_escalated (asked_twice\<lparr>w_now := 1801000\<rparr>) = []"
    by (simp_all add: sample_iworld_simps asked_twice_def asked_once_def scheduleConversationEscalation_def)
  ultimately show ?thesis
    using second_message_is_never_escalated [of "lit ''c1''" sample_iworld "asked_once\<lparr>w_now := 3000\<rparr>" "asked_twice\<lparr>w_now := 1801000\<rparr>"]
      asked_rows(1) asked_rows(3) [of 1801000] by (simp add: ESCALATION_DELAY_MS_def)
qed

section \<open>Ratings\<close>

lemma prompt_same:
  "w_messages w' = w_messages w \<Longrightarrow> w_now w' = w_now w \<Longrightarrow> hadRecentResolvePrompt c w' = hadRecentResolvePrompt c w"
  by (simp add: hadRecentResolvePrompt_def split: list.split)

lemma auto_send_messages:
  "\<exists>m. w_messages (auto_send s ph c a b w) = w_messages w @ [m] \<and> sm_autoType m = a"
  by (auto simp: auto_send_def Let_def split: sum.split)

lemma survey_prompt_unseen:
  "hadRecentResolvePrompt c (auto_send s ph cid (lit ''csat'') b w) = hadRecentResolvePrompt c w"
proof -
  obtain m where "w_messages (auto_send s ph cid (lit ''csat'') b w) = w_messages w @ [m]" "sm_autoType m = lit ''csat''"
    using auto_send_messages by metis
  then show ?thesis by (simp add: hadRecentResolvePrompt_def frame_simps split: list.split)
qed

text \<open>Answers to the survey are ignored. The survey asks for a rating, but the answer is read only after a recent
  closing reply: where none was sent, no text counts as a rating of the survey just sent, and none is stored.
  With a closing reply, a rating that comes outside working hours is taken for handled and not stored
  either. Inside them it is stored, for the thread it answers.\<close>
theorem survey_answers_are_dropped:
  assumes "sendCsatPrompt cid w = w1"
  shows "(\<not> hadRecentResolvePrompt cid w \<longrightarrow> handleClientFeedback session phone cid body openNow w1 = (False, w1))
    \<and> (hadRecentResolvePrompt cid w \<and> detectClientFeedback body \<noteq> None \<longrightarrow> handleClientFeedback session phone cid body False w1 = (True, w1))
    \<and> (hadRecentResolvePrompt cid w \<and> detectClientFeedback body = Some (Rating score) \<longrightarrow>
         (\<exists>row. i_csat (snd (handleClientFeedback session phone cid body True w1)) cid = Some row
            \<and> cs_rating row = Some score \<and> cs_respondedAt row = Some (w_now w)))"
proof -
  have same: "hadRecentResolvePrompt cid w1 = hadRecentResolvePrompt cid w" "w_now w1 = w_now w"
  proof -
    have up: "hadRecentResolvePrompt cid (v\<lparr>i_csat := x\<rparr>) = hadRecentResolvePrompt cid v" for v :: "'a iworld_scheme" and x
      by (rule prompt_same) simp_all
    show "hadRecentResolvePrompt cid w1 = hadRecentResolvePrompt cid w" "w_now w1 = w_now w"
      unfolding assms [symmetric] sendCsatPrompt_def
      by (auto simp: Let_def up survey_prompt_unseen frame_simps split: option.split)
  qed
  have csat: "i_csat (upd_conv c f v) = i_csat v" "i_csat (auto_send s ph c a b v) = i_csat v" for c f s ph a b and v :: "'a iworld_scheme"
    using more_fields [of "upd_conv c f v" v] more_fields [of "auto_send s ph c a b v" v] by (simp_all add: frame_simps)
  then show ?thesis
    by (auto simp: handleClientFeedback_def same Let_def record_rating_def split: option.split)
qed

theorem survey_answers_are_dropped_witness:
  "handleClientFeedback (lit ''main'') (lit ''9721'') (lit ''c1'') (lit ''5'') True (sendCsatPrompt (lit ''c1'') sample_iworld)
     = (False, sendCsatPrompt (lit ''c1'') sample_iworld)"
proof -
  have "\<not> hadRecentResolvePrompt (lit ''c1'') sample_iworld"
    by (simp add: hadRecentResolvePrompt_def sample_iworld_simps)
  then show ?thesis using survey_answers_are_dropped [OF refl, of "lit ''c1''" sample_iworld] by blast
qed

section \<open>One thread\<close>

text \<open>Who a thread belongs to.\<close>

definition owner :: "'a cworld_scheme \<Rightarrow> jstr \<Rightarrow> (jstr \<times> jstr) option" where
  "owner w c = map_option (\<lambda>cv. (cv_contactId cv, cv_sessionId cv)) (w_convs w c)"

lemma threads_owner: "threads k s w = filter (\<lambda>c. owner w c = Some (k, s)) (a_conv_ids w)"
  by (auto simp: threads_def owner_def intro!: filter_cong split: option.split)

lemma owner_frame [frame_simps]:
  "owner (snd (reopenConversation c w)) = owner w" "owner (cancel_auto_close c w) = owner w"
  "owner (touch_conversation c t w) = owner w" "owner (store_message data k c v) = owner v"
  "(\<And>cv. cv_contactId (f cv) = cv_contactId cv \<and> cv_sessionId (f cv) = cv_sessionId cv) \<Longrightarrow> owner (upd_conv c f w) = owner w"
  by (auto simp: owner_def fun_eq_iff reopenConversation_def reopen_commit_def cancel_auto_close_def touch_conversation_def
      store_message_def upd_conv_def reopened_conversation_def Let_def option.map_comp comp_def split: sum.split option.split)

lemma owner_merge_all: "owner (merge_all p ds w) c = (if c \<in> set ds \<and> c \<noteq> p then None else owner w c)"
  by (simp add: owner_def merge_all_fields)

lemma conv_ids_frame [frame_simps]:
  "a_conv_ids (snd (reopenConversation c w)) = a_conv_ids w" "a_conv_ids (cancel_auto_close c w) = a_conv_ids w"
  "a_conv_ids (upd_conv c f w) = a_conv_ids w" "a_conv_ids (store_message data k c v) = a_conv_ids v"
  by (rule conv_ids_more, simp add: frame_simps)+ (simp add: store_message_def)

text \<open>The ids of conversations are the keys of the table; a new one is not among them.\<close>

definition conv_ids_ok :: "'a iworld_scheme \<Rightarrow> bool" where
  "conv_ids_ok w \<longleftrightarrow> distinct (a_conv_ids w) \<and> i_newConv w (length (a_conv_ids w)) \<notin> set (a_conv_ids w)"

lemma filter_single:
  assumes "distinct xs" "x \<in> set xs" "P x" "\<And>y. y \<in> set xs \<Longrightarrow> P y \<Longrightarrow> y = x"
  shows "filter P xs = [x]"
proof -
  have "distinct ys \<Longrightarrow> x \<in> set ys \<Longrightarrow> filter ((=) x) ys = [x]" for ys
    by (induction ys) (auto simp: filter_empty_conv)
  moreover have "filter P xs = filter ((=) x) xs"
    by (rule filter_cong) (use assms(3,4) in blast)+
  ultimately show ?thesis using assms(1,2) by simp
qed

lemma consolidate_one:
  assumes "distinct (a_conv_ids w)" and "consolidateContactThreads k s w = (Some cid, w1)"
  shows "threads k s w1 = [cid]"
proof (cases "1 < length (threads k s w)")
  case False
  with assms show ?thesis by (cases "threads k s w" rule: remdups_adj.cases) (auto simp: consolidateContactThreads_def)
next
  case True
  let ?all = "threads k s w" and ?p = "main_thread (threads k s w) w"
  let ?m = "merge_all ?p ?all w"
  have p: "?p \<in> set ?all" using True by (intro main_thread_in) auto
  have "owner w1 = owner ?m" "a_conv_ids w1 = a_conv_ids ?m" "cid = ?p"
    using assms(2) by (auto simp: consolidate_shape [OF True] Let_def frame_simps split: option.splits if_splits)
  moreover have "threads k s ?m = [?p]"
    unfolding threads_owner
    by (rule filter_single) (use p assms(1) in \<open>auto simp: owner_merge_all merge_all_fields threads_owner split: if_splits\<close>)
  ultimately show ?thesis by (simp add: threads_owner)
qed

lemma active_one:
  assumes ok: "conv_ids_ok w" and get: "getOrCreateActiveConversation k s t w = (av, w')"
  shows "threads k s w' = [av_conversationId av]"
proof (cases "consolidateContactThreads k s w")
  case (Pair o' w1)
  show ?thesis
  proof (cases o')
    case None
    with Pair have t: "threads k s w = []" "w1 = w"
      by (auto simp: consolidateContactThreads_def Let_def split: list.splits)
    have w': "create_conversation k s t w = (av, w')" using get Pair None t by (simp add: getOrCreateActiveConversation_def)
    then have "av_conversationId av = i_newConv w (length (a_conv_ids w))" "a_conv_ids w' = a_conv_ids w @ [av_conversationId av]"
      "owner w' = (owner w)(av_conversationId av \<mapsto> (k, s))"
      by (auto simp: create_conversation_def Let_def owner_def new_conversation_def fun_eq_iff)
    with ok t(1) show ?thesis by (auto simp: threads_owner conv_ids_ok_def filter_empty_conv)
  next
    case (Some cid)
    have "threads k s w1 = [cid]" using consolidate_one Pair ok Some by (auto simp: conv_ids_ok_def)
    moreover have "owner w' = owner w1 \<and> a_conv_ids w' = a_conv_ids w1 \<and> av_conversationId av = cid"
      using get unfolding getOrCreateActiveConversation_def Pair Some
      by (auto simp: Let_def frame_simps split: option.splits if_splits)
    ultimately show ?thesis by (simp add: threads_owner)
  qed
qed

lemma upsert_new_conv: "i_newConv (snd (upsert_contact ph nm ck w)) = i_newConv w" "i_newConv (claim_click ck k w) = i_newConv w"
  by (simp_all add: upsert_contact_def claim_click_def Let_def split: option.split)

text \<open>C12: There is one thread. However many threads a contact had on a session, once a message of that contact is
  stored there is one, and the message is the last row of the table, under that thread. It holds for
  contacts and threads that are new, resolved, snoozed or duplicated.\<close>
theorem message_lands_in_the_only_thread:
  assumes ok: "conv_ids_ok w" and rcv: "receive data w = (Inr (Some rv), w')"
    and sess: "find (\<lambda>s. ss_sessionName s = in_session data) (w_sessions w) = Some session"
  shows "threads (rv_contactId rv) (ss_id session) w' = [rv_conversationId rv]
    \<and> w_messages w' \<noteq> [] \<and> sm_conversationId (last (w_messages w')) = rv_conversationId rv
    \<and> sm_body (last (w_messages w')) = message_text data \<and> sm_direction (last (w_messages w')) = INBOUND"
proof -
  from rcv obtain session' w2 av w3 where r:
    "find (\<lambda>s. ss_sessionName s = in_session data) (w_sessions w) = Some session'"
    "w2 = claim_click (claimable_click (in_body data) w) (rv_contactId rv)
       (snd (upsert_contact (normalize_phone (in_phone data)) (in_contactName data) (claimable_click (in_body data) w) w))"
    "getOrCreateActiveConversation (rv_contactId rv) (ss_id session') (ss_teamId session') w2 = (av, w3)"
    "rv_conversationId rv = av_conversationId av" "w' = store_message data (rv_contactId rv) (rv_conversationId rv) w3"
    by (rule receive_stored)
  have "conv_ids_ok w2" using ok by (simp add: conv_ids_ok_def r(2) frame_simps upsert_new_conv)
  from active_one [OF this r(3)] show ?thesis
    using r(1,4,5) sess by (simp add: threads_owner frame_simps) (simp add: store_message_def)
qed

theorem message_lands_in_the_only_thread_witness:
  "\<exists>rv w2. receive (a_text (lit ''9721@c.us'') (lit ''wa4'') (lit ''hello'')) merged_iworld = (Inr (Some rv), w2)
     \<and> length (threads (lit ''p1'') (lit ''s1'') merged_iworld) = 2 \<and> length (threads (lit ''p1'') (lit ''s1'') w2) = 1"
proof -
  obtain rv w2 where rv: "receive (a_text (lit ''9721@c.us'') (lit ''wa4'') (lit ''hello'')) merged_iworld = (Inr (Some rv), w2)"
    "rv_contactId rv = lit ''p1''"
    using sample_received by blast
  obtain s where s: "find (\<lambda>s. ss_sessionName s = lit ''main'') (w_sessions merged_iworld) = Some s" "ss_id s = lit ''s1''"
    using sample_session [OF merged_rows(5)] by blast
  have new: "i_newConv merged_iworld n = lit ''c'' @ dec_digits (n + 1)" for n
    by (simp add: merged_iworld_def merge_contacts_def sample_iworld_simps)
  have d: "dec_digits 3 = lit ''3''" by (simp add: dec_digits.simps lit_def)
  have "conv_ids_ok merged_iworld"
    by (simp add: conv_ids_ok_def merged_rows new) (simp add: d lit_def)
  from message_lands_in_the_only_thread [OF this rv(1), of s] s(1)
  have "threads (lit ''p1'') (lit ''s1'') w2 = [rv_conversationId rv]" by (simp add: rv(2) s(2))
  moreover have "threads (lit ''p1'') (lit ''s1'') merged_iworld = [lit ''c1'', lit ''c2'']"
    by (simp add: threads_def merged_rows a_thread_def new_conversation_def)
  ultimately show ?thesis using rv by simp
qed

end
