(* ===== verification/Contact_Filter.thy ===== *)
theory Contact_Filter
  imports Prelude
begin

text \<open>
  The filter language of segments and campaigns (\<open>lib/contact-filter-dsl.ts\<close>): the compiler from stored JSON to a
  database query, the validator, the ids of the campaigns a filter names, and the audience of a campaign
  (\<open>modules/campaigns/campaigns.routes.ts\<close>).

  A filter is whatever JSON a client sent, so the functions here say what the code does with values of any
  shape; \<open>NotAFunction\<close> is the \<open>TypeError\<close> of a method that is not there. The query is a datatype; what it selects is
  stated after the compiler, with the three truth values of SQL. How a text is read as a date, the date so
  many days back and the folding of case in the database are parameters.
\<close>

section \<open>Vocabulary\<close>

datatype filter_type = TextField | DateField | EnumField

record field_spec =
  fs_type :: filter_type
  fs_nullable :: bool
  fs_values :: "jstr list option"

definition MAX_FILTER_DEPTH :: nat where "MAX_FILTER_DEPTH = 3"

definition CONTACT_FIELDS :: "(jstr \<times> field_spec) list" where
  "CONTACT_FIELDS =
     (let text = (\<lambda>n. \<lparr>fs_type = TextField, fs_nullable = n, fs_values = None\<rparr>);
          date = (\<lambda>n. \<lparr>fs_type = DateField, fs_nullable = n, fs_values = None\<rparr>)
      in [(lit ''id'', text False), (lit ''phone'', text False), (lit ''name'', text True), (lit ''firstName'', text True),
          (lit ''lastName'', text True), (lit ''email'', text True), (lit ''language'', text True), (lit ''countryCode'', text True),
          (lit ''lifecycleStage'', text True), (lit ''assigneeId'', text True), (lit ''notes'', text True),
          (lit ''marketingConsent'', \<lparr>fs_type = EnumField, fs_nullable = False,
             fs_values = Some [lit ''UNKNOWN'', lit ''OPTED_IN'', lit ''OPTED_OUT'']\<rparr>),
          (lit ''consentSource'', text True), (lit ''consentUpdatedAt'', date True), (lit ''createdAt'', date False),
          (lit ''updatedAt'', date False)])"

definition OPERATORS_BY_TYPE :: "filter_type \<Rightarrow> jstr list" where
  "OPERATORS_BY_TYPE t =
     (case t of
        TextField \<Rightarrow> [lit ''isEqualTo'', lit ''isNotEqualTo'', lit ''contains'', lit ''notContains'', lit ''startsWith'', lit ''endsWith'',
                     lit ''isOneOf'', lit ''isNoneOf'', lit ''isEmpty'', lit ''isNotEmpty'']
      | EnumField \<Rightarrow> [lit ''isEqualTo'', lit ''isNotEqualTo'', lit ''isOneOf'', lit ''isNoneOf'', lit ''isEmpty'', lit ''isNotEmpty'']
      | DateField \<Rightarrow> [lit ''withinLastDays'', lit ''moreThanDaysAgo'', lit ''before'', lit ''after'', lit ''between'', lit ''isEmpty'', lit ''isNotEmpty''])"

datatype filter_error =
    ListEmpty | NotANumber | BadDate | NegativeDays | EndBeforeStart
  | UnknownField jstr | OperatorNotForField jstr | UnsupportedOperator | BadEnumValue jstr | NeverEmpty jstr
  | UnknownActivity | UnknownBroadcast | TagNeedsName | CustomNeedsSlug | UnknownCategory | TooDeep
  | InvalidFilter | EmptyFilter | NoOrganization | NotAFunction

record filter_env =
  fe_daysBack :: "int \<Rightarrow> int"
  fe_date :: "jstr \<Rightarrow> int option"
  fe_fold :: "jstr \<Rightarrow> jstr"

section \<open>The query\<close>

datatype column_test =
    Is jstr | Has jstr | Starts jstr | Ends jstr | Among "jstr list" | Null | NotNull
  | From int | Until int | Within int int

datatype tag_test = AnyTag | Named jstr | NamedOneOf "jstr list"

text \<open>\<open>WithInbound org since\<close>: a message of the customer, not before \<open>since\<close>. \<open>InStatus\<close> asks for a thread that is not archived.\<close>

datatype conversation_test = WithInbound jstr "int option" | InStatus "jstr list" | RoutedTo jstr

datatype recipient_test = Received jstr | ReadBy jstr | SentSince int | Sent

text \<open>\<open>Both as os\<close> is \<open>{ AND: as, OR: os }\<close>, where a list that is empty is no key. The flag of a relation is \<open>some\<close> or \<open>none\<close>.\<close>

datatype where_input =
    Everything
  | Both "where_input list" "where_input list"
  | Column jstr column_test
  | Negated where_input
  | AnyOf "where_input list"
  | Tags bool jstr tag_test
  | Values bool jstr json "where_input option"
  | Conversations bool jstr conversation_test
  | Recipients bool jstr recipient_test
  | Archived bool

section \<open>Values\<close>

fun mapE :: "('a \<Rightarrow> 'e + 'b) \<Rightarrow> 'a list \<Rightarrow> 'e + 'b list" where
  "mapE f [] = Inr []"
| "mapE f (x # xs) =
     (case f x of Inl e \<Rightarrow> Inl e
      | Inr y \<Rightarrow> (case mapE f xs of Inl e \<Rightarrow> Inl e | Inr ys \<Rightarrow> Inr (y # ys)))"

lemma mapE_cong [fundef_cong]:
  assumes "xs = ys" and "\<And>x. x \<in> set ys \<Longrightarrow> f x = g x"
  shows "mapE f xs = mapE g ys"
  using assms(2) unfolding assms(1) by (induction ys) (auto split: sum.split bool.split)

text \<open>\<open>[...].some(f)\<close> with an \<open>f\<close> that may throw\<close>

fun someE :: "('a \<Rightarrow> 'e + bool) \<Rightarrow> 'a list \<Rightarrow> 'e + bool" where
  "someE f [] = Inr False"
| "someE f (x # xs) = (case f x of Inl e \<Rightarrow> Inl e | Inr True \<Rightarrow> Inr True | Inr False \<Rightarrow> someE f xs)"

lemma someE_cong [fundef_cong]:
  assumes "xs = ys" and "\<And>x. x \<in> set ys \<Longrightarrow> f x = g x"
  shows "someE f xs = someE g ys"
  using assms(2) unfolding assms(1) by (induction ys) (auto split: sum.split bool.split)

definition text_value :: "json \<Rightarrow> jstr" where "text_value v = js_trim (js_string_nullish v)"

definition list_value :: "json \<Rightarrow> filter_error + jstr list" where
  "list_value v =
     (let raw = (case v of JArr xs \<Rightarrow> map text_value xs | _ \<Rightarrow> map js_trim (split_on 44 (text_value v)));
          entries = filter (\<lambda>s. s \<noteq> []) raw
      in if entries = [] then Inl ListEmpty else Inr entries)"

definition number_value :: "json \<Rightarrow> filter_error + rat" where
  "number_value v = (case js_number_of_string (text_value v) of Fin r \<Rightarrow> Inr r | _ \<Rightarrow> Inl NotANumber)"

definition date_value :: "filter_env \<Rightarrow> json \<Rightarrow> filter_error + int" where
  "date_value env v = (case fe_date env (text_value v) of None \<Rightarrow> Inl BadDate | Some t \<Rightarrow> Inr t)"

definition daysAgo :: "filter_env \<Rightarrow> json \<Rightarrow> filter_error + int" where
  "daysAgo env v =
     (case number_value v of
        Inl e \<Rightarrow> Inl e
      | Inr days \<Rightarrow> if days < 0 then Inl NegativeDays else Inr (fe_daysBack env \<lfloor>days\<rfloor>))"

definition ok_map :: "('a \<Rightarrow> 'b) \<Rightarrow> 'e + 'a \<Rightarrow> 'e + 'b" where
  "ok_map f r = (case r of Inl e \<Rightarrow> Inl e | Inr x \<Rightarrow> Inr (f x))"

lemma ok_map_Inr [simp]: "ok_map f r = Inr y \<longleftrightarrow> (\<exists>x. r = Inr x \<and> y = f x)" "ok_map f (Inr x) = Inr (f x)"
  by (auto simp: ok_map_def split: sum.splits)

section \<open>Predicates\<close>

definition op_is :: "json \<Rightarrow> string \<Rightarrow> bool" where "op_is rule name \<longleftrightarrow> get (lit ''operator'') rule = JStr (lit name)"

definition emptyPredicate :: "field_spec \<Rightarrow> jstr \<Rightarrow> bool \<Rightarrow> where_input" where
  "emptyPredicate spec field negate =
     (let blank = Column field (Is []) # (if fs_nullable spec then [Column field Null] else [])
      in if negate then Negated (AnyOf blank) else AnyOf blank)"

definition negatePredicate :: "field_spec \<Rightarrow> jstr \<Rightarrow> where_input \<Rightarrow> where_input" where
  "negatePredicate spec field inner =
     (if fs_nullable spec then AnyOf [Negated inner, Column field Null] else Negated inner)"

definition textPredicate :: "field_spec \<Rightarrow> jstr \<Rightarrow> json \<Rightarrow> filter_error + where_input" where
  "textPredicate spec field rule =
     (let v = get (lit ''value'') rule in
      if op_is rule ''isEqualTo'' then Inr (Column field (Is (text_value v)))
      else if op_is rule ''isNotEqualTo'' then Inr (negatePredicate spec field (Column field (Is (text_value v))))
      else if op_is rule ''contains'' then Inr (Column field (Has (text_value v)))
      else if op_is rule ''notContains'' then Inr (negatePredicate spec field (Column field (Has (text_value v))))
      else if op_is rule ''startsWith'' then Inr (Column field (Starts (text_value v)))
      else if op_is rule ''endsWith'' then Inr (Column field (Ends (text_value v)))
      else if op_is rule ''isOneOf'' then ok_map (\<lambda>vs. Column field (Among vs)) (list_value v)
      else if op_is rule ''isNoneOf'' then ok_map (\<lambda>vs. negatePredicate spec field (Column field (Among vs))) (list_value v)
      else if op_is rule ''isEmpty'' then Inr (emptyPredicate spec field False)
      else if op_is rule ''isNotEmpty'' then Inr (emptyPredicate spec field True)
      else Inl UnsupportedOperator)"

definition enum_value :: "field_spec \<Rightarrow> jstr \<Rightarrow> filter_error + jstr" where
  "enum_value spec v =
     (case fs_values spec of None \<Rightarrow> Inr v | Some vs \<Rightarrow> if v \<in> set vs then Inr v else Inl (BadEnumValue v))"

definition enumPredicate :: "field_spec \<Rightarrow> jstr \<Rightarrow> json \<Rightarrow> filter_error + where_input" where
  "enumPredicate spec field rule =
     (let v = get (lit ''value'') rule;
          one = ok_map (\<lambda>x. Column field (Is x)) (enum_value spec (text_value v));
          many = (case list_value v of Inl e \<Rightarrow> Inl e | Inr vs \<Rightarrow> ok_map (\<lambda>xs. Column field (Among xs)) (mapE (enum_value spec) vs)) in
      if op_is rule ''isOneOf'' then many
      else if op_is rule ''isNoneOf'' then ok_map (negatePredicate spec field) many
      else if op_is rule ''isEqualTo'' then one
      else if op_is rule ''isNotEqualTo'' then ok_map (negatePredicate spec field) one
      else if op_is rule ''isEmpty'' then Inr (emptyPredicate spec field False)
      else if op_is rule ''isNotEmpty'' then Inr (emptyPredicate spec field True)
      else Inl UnsupportedOperator)"

definition datePredicate :: "filter_env \<Rightarrow> field_spec \<Rightarrow> jstr \<Rightarrow> json \<Rightarrow> filter_error + where_input" where
  "datePredicate env spec field rule =
     (let v = get (lit ''value'') rule; col = Column field in
      if op_is rule ''withinLastDays'' then ok_map (\<lambda>t. col (From t)) (daysAgo env v)
      else if op_is rule ''moreThanDaysAgo'' then ok_map (\<lambda>t. col (Until t)) (daysAgo env v)
      else if op_is rule ''before'' then ok_map (\<lambda>t. col (Until t)) (date_value env v)
      else if op_is rule ''after'' then ok_map (\<lambda>t. col (From t)) (date_value env v)
      else if op_is rule ''between'' then
        (case date_value env v of
           Inl e \<Rightarrow> Inl e
         | Inr t0 \<Rightarrow>
             (case date_value env (get (lit ''value2'') rule) of
                Inl e \<Rightarrow> Inl e
              | Inr t1 \<Rightarrow> if t1 < t0 then Inl EndBeforeStart else Inr (col (Within t0 t1))))
      else if op_is rule ''isEmpty'' then (if fs_nullable spec then Inr (col Null) else Inl (NeverEmpty field))
      else if op_is rule ''isNotEmpty'' then Inr (if fs_nullable spec then col NotNull else Everything)
      else Inl UnsupportedOperator)"

definition flagged :: "json \<Rightarrow> where_input \<Rightarrow> where_input" where
  "flagged rule w = (if op_is rule ''isFalse'' then Negated w else w)"

definition activityPredicate :: "filter_env \<Rightarrow> jstr \<Rightarrow> json \<Rightarrow> filter_error + where_input" where
  "activityPredicate env org rule =
     (let v = get (lit ''value'') rule; f = get (lit ''field'') rule in
      if f = JStr (lit ''hasEverReplied'') then Inr (flagged rule (Conversations True org (WithInbound org None)))
      else if f = JStr (lit ''lastInboundAt'') then
        (if op_is rule ''withinLastDays'' then ok_map (\<lambda>t. Conversations True org (WithInbound org (Some t))) (daysAgo env v)
         else if op_is rule ''moreThanDaysAgo'' then ok_map (\<lambda>t. Conversations False org (WithInbound org (Some t))) (daysAgo env v)
         else if op_is rule ''before'' then ok_map (\<lambda>t. Conversations False org (WithInbound org (Some t))) (date_value env v)
         else if op_is rule ''after'' then ok_map (\<lambda>t. Conversations True org (WithInbound org (Some t))) (date_value env v)
         else Inl UnsupportedOperator)
      else if f = JStr (lit ''hasOpenConversation'') then
        Inr (flagged rule (Conversations True org (InStatus [lit ''OPEN'', lit ''PENDING''])))
      else if f = JStr (lit ''conversationStatus'') then Inr (Conversations True org (InStatus [text_value v]))
      else if f = JStr (lit ''teamId'') then Inr (Conversations True org (RoutedTo (text_value v)))
      else Inl UnknownActivity)"

definition broadcastPredicate :: "filter_env \<Rightarrow> jstr \<Rightarrow> json \<Rightarrow> filter_error + where_input" where
  "broadcastPredicate env org rule =
     (let v = get (lit ''value'') rule; f = get (lit ''field'') rule in
      if f = JStr (lit ''receivedCampaign'') then Inr (Recipients True org (Received (text_value v)))
      else if f = JStr (lit ''readCampaign'') then Inr (Recipients True org (ReadBy (text_value v)))
      else if f = JStr (lit ''receivedAnyWithinDays'') then ok_map (\<lambda>t. Recipients True org (SentSince t)) (daysAgo env v)
      else if f = JStr (lit ''hasNoBroadcasts'') then Inr (Recipients False org Sent)
      else Inl UnknownBroadcast)"

section \<open>The compiler\<close>

definition compile_field :: "filter_env \<Rightarrow> json \<Rightarrow> filter_error + where_input" where
  "compile_field env rule =
     (let field = js_string (get (lit ''field'') rule) in
      case map_of CONTACT_FIELDS field of
        None \<Rightarrow> Inl (UnknownField field)
      | Some spec \<Rightarrow>
          if \<not> (case get (lit ''operator'') rule of JStr op \<Rightarrow> op \<in> set (OPERATORS_BY_TYPE (fs_type spec)) | _ \<Rightarrow> False)
          then Inl (OperatorNotForField field)
          else case fs_type spec of
                 TextField \<Rightarrow> textPredicate spec field rule
               | EnumField \<Rightarrow> enumPredicate spec field rule
               | DateField \<Rightarrow> datePredicate env spec field rule)"

definition compile_tag :: "jstr \<Rightarrow> json \<Rightarrow> filter_error + where_input" where
  "compile_tag org rule =
     (let v = get (lit ''value'') rule;
          name = text_value (if truthy v then v else get (lit ''field'') rule);
          many = ok_map (\<lambda>vs. Tags True org (NamedOneOf vs)) (list_value v) in
      if op_is rule ''isEmpty'' then Inr (Tags False org AnyTag)
      else if op_is rule ''isNotEmpty'' then Inr (Tags True org AnyTag)
      else if op_is rule ''isOneOf'' then many
      else if op_is rule ''isNoneOf'' then ok_map Negated many
      else if name = [] then Inl TagNeedsName
      else if op_is rule ''isNotEqualTo'' then Inr (Negated (Tags True org (Named name)))
      else Inr (Tags True org (Named name)))"

definition custom_spec :: field_spec where
  "custom_spec = \<lparr>fs_type = TextField, fs_nullable = True, fs_values = None\<rparr>"

definition compile_custom :: "jstr \<Rightarrow> json \<Rightarrow> filter_error + where_input" where
  "compile_custom org rule =
     (let slug = get (lit ''field'') rule in
      if \<not> truthy slug then Inl CustomNeedsSlug
      else if op_is rule ''isEmpty'' then Inr (Values False org slug None)
      else if op_is rule ''isNotEmpty'' then Inr (Values True org slug (Some (Column (lit ''value'') NotNull)))
      else ok_map (\<lambda>inner. Values True org slug (Some inner)) (textPredicate custom_spec (lit ''value'') rule))"

definition compileRule :: "filter_env \<Rightarrow> jstr \<Rightarrow> json \<Rightarrow> filter_error + where_input" where
  "compileRule env org rule =
     (let c = get (lit ''category'') rule in
      if rule = JNull \<or> rule = JUndef then Inl NotAFunction
      else if c = JStr (lit ''activity'') then activityPredicate env org rule
      else if c = JStr (lit ''broadcast'') then broadcastPredicate env org rule
      else if c = JStr (lit ''contactField'') then compile_field env rule
      else if c = JStr (lit ''tag'') then compile_tag org rule
      else if c = JStr (lit ''customField'') then compile_custom org rule
      else Inl UnknownCategory)"

definition is_array :: "json \<Rightarrow> bool" where "is_array j = (case j of JArr _ \<Rightarrow> True | _ \<Rightarrow> False)"

definition isGroup :: "json \<Rightarrow> bool" where
  "isGroup node \<longleftrightarrow> is_array (get (lit ''$and'') node) \<or> is_array (get (lit ''$or'') node)"

text \<open>\<open>v?.length ? v.map(...) : nothing\<close>\<close>

definition mapped_children :: "json \<Rightarrow> filter_error + json list" where
  "mapped_children v =
     (case v of
        JArr xs \<Rightarrow> Inr xs
      | JStr s \<Rightarrow> if s = [] then Inr [] else Inl NotAFunction
      | JObj _ \<Rightarrow> if truthy (get (lit ''length'') v) then Inl NotAFunction else Inr []
      | _ \<Rightarrow> Inr [])"

definition group_where :: "where_input list \<Rightarrow> where_input list \<Rightarrow> where_input" where
  "group_where as os = (if as = [] \<and> os = [] then Everything else Both as os)"

function (sequential) compileNode :: "filter_env \<Rightarrow> jstr \<Rightarrow> nat \<Rightarrow> json \<Rightarrow> filter_error + where_input"
and compileGroup :: "filter_env \<Rightarrow> jstr \<Rightarrow> nat \<Rightarrow> json \<Rightarrow> filter_error + where_input" where
  "compileNode env org depth node =
     (if depth > MAX_FILTER_DEPTH then Inl TooDeep
      else if isGroup node then compileGroup env org depth node
      else compileRule env org node)"
| "compileGroup env org depth node =
     (case mapped_children (get (lit ''$and'') node) of
        Inl e \<Rightarrow> Inl e
      | Inr as \<Rightarrow>
          (case mapE (compileNode env org (depth + 1)) as of
             Inl e \<Rightarrow> Inl e
           | Inr ands \<Rightarrow>
               (case mapped_children (get (lit ''$or'') node) of
                  Inl e \<Rightarrow> Inl e
                | Inr os \<Rightarrow> ok_map (group_where ands) (mapE (compileNode env org (depth + 1)) os))))"
  by pat_completeness auto
termination
  by (relation "measure (case_sum (\<lambda>(_, _, d, _). if d > MAX_FILTER_DEPTH then 0 else 2 * (MAX_FILTER_DEPTH - d) + 2)
                                  (\<lambda>(_, _, d, _). 2 * (MAX_FILTER_DEPTH - d) + 1))") auto

declare compileNode.simps [simp del] compileGroup.simps [simp del]

definition contactWhereFromFilterDsl :: "filter_env \<Rightarrow> json \<Rightarrow> jstr \<Rightarrow> filter_error + where_input" where
  "contactWhereFromFilterDsl env f org =
     (if \<not> truthy f then Inr Everything
      else if org = [] then Inl NoOrganization
      else compileGroup env org 0 f)"

section \<open>Validation\<close>

text \<open>\<open>...(v || [])\<close>; the elements of a text are texts of one character.\<close>

definition spread_children :: "json \<Rightarrow> filter_error + json list" where
  "spread_children v =
     (if \<not> truthy v then Inr []
      else case v of JArr xs \<Rightarrow> Inr xs | JStr s \<Rightarrow> Inr (map (\<lambda>c. JStr [c]) s) | _ \<Rightarrow> Inl NotAFunction)"

definition group_children :: "json \<Rightarrow> filter_error + json list" where
  "group_children node =
     (case spread_children (get (lit ''$and'') node) of
        Inl e \<Rightarrow> Inl e
      | Inr as \<Rightarrow> ok_map (\<lambda>os. as @ os) (spread_children (get (lit ''$or'') node)))"

lemma size_get_any: "get k j = v \<Longrightarrow> v \<noteq> JUndef \<Longrightarrow> size v < size j"
  using size_get [of k j] by simp

lemma size_elem: "x \<in> set xs \<Longrightarrow> size x < size (JArr xs)"
  by (induction xs) auto

lemma size_spread: "spread_children (get k j) = Inr xs \<Longrightarrow> x \<in> set xs \<Longrightarrow> size x < size j"
proof -
  assume h: "spread_children (get k j) = Inr xs" "x \<in> set xs"
  then have "get k j \<noteq> JUndef" by (auto simp: spread_children_def)
  then have "size (get k j) < size j" by (rule size_get)
  moreover from h have "size x \<le> size (get k j)"
  proof (cases "get k j")
    case (JArr ys)
    with h size_elem [of x ys] show ?thesis by (simp add: spread_children_def)
  qed (auto simp: spread_children_def split: if_splits)
  ultimately show ?thesis by simp
qed

lemma size_group_children: "group_children j = Inr xs \<Longrightarrow> x \<in> set xs \<Longrightarrow> size x < size j"
  by (auto simp: group_children_def size_spread split: sum.splits)

function hasAnyRule :: "json \<Rightarrow> filter_error + bool" where
  "hasAnyRule node =
     (if \<not> truthy node then Inr False
      else if \<not> isGroup node then Inr True
      else case group_children node of Inl e \<Rightarrow> Inl e | Inr xs \<Rightarrow> someE hasAnyRule xs)"
  by pat_completeness auto
termination by (relation "measure size") (auto simp: size_group_children)

declare hasAnyRule.simps [simp del]

definition child_path :: "jstr \<Rightarrow> bool \<Rightarrow> nat \<Rightarrow> jstr" where
  "child_path path or_key i =
     path @ lit ''.'' @ (if or_key then lit ''$or'' else lit ''$and'') @ lit ''['' @ dec_digits i @ lit '']''"

text \<open>Only one of the two lists of a group is visited.\<close>

function collectNodeErrors :: "filter_env \<Rightarrow> jstr \<Rightarrow> nat \<Rightarrow> jstr \<Rightarrow> json \<Rightarrow> filter_error + (jstr \<times> filter_error) list" where
  "collectNodeErrors env org depth path node =
     (if depth > MAX_FILTER_DEPTH then Inr [(path, TooDeep)]
      else if isGroup node then
        let or_key = truthy (get (lit ''$or'') node);
            children = (if or_key then get (lit ''$or'') node else get (lit ''$and'') node) in
        (case children of
           JArr xs \<Rightarrow>
             ok_map concat (mapE (\<lambda>(i, child). collectNodeErrors env org (depth + 1) (child_path path or_key i) child) (indexed xs))
         | _ \<Rightarrow> if truthy children then Inl NotAFunction else Inr [])
      else case compileRule env org node of Inl e \<Rightarrow> Inr [(path, e)] | Inr _ \<Rightarrow> Inr [])"
  by pat_completeness auto
termination by (relation "measure (\<lambda>(_, _, d, _, _). Suc MAX_FILTER_DEPTH - d)") auto

declare collectNodeErrors.simps [simp del]

text \<open>The errors; none is \<open>valid\<close>.\<close>

definition validateContactFilter :: "filter_env \<Rightarrow> json \<Rightarrow> jstr \<Rightarrow> filter_error + (jstr \<times> filter_error) list" where
  "validateContactFilter env f org =
     (if \<not> (case f of JObj _ \<Rightarrow> True | _ \<Rightarrow> False) \<or> \<not> isGroup f then Inr [([], InvalidFilter)]
      else case hasAnyRule f of
             Inl e \<Rightarrow> Inl e
           | Inr False \<Rightarrow> Inr [([], EmptyFilter)]
           | Inr True \<Rightarrow> collectNodeErrors env org 0 (lit ''$'') f)"

section \<open>Campaigns named by a filter\<close>

definition rule_campaign :: "json \<Rightarrow> jstr list" where
  "rule_campaign rule =
     (let f = get (lit ''field'') rule; i = text_value (get (lit ''value'') rule) in
      if get (lit ''category'') rule = JStr (lit ''broadcast'')
         \<and> (f = JStr (lit ''receivedCampaign'') \<or> f = JStr (lit ''readCampaign'')) \<and> i \<noteq> []
      then [i] else [])"

function campaign_walk :: "json \<Rightarrow> filter_error + jstr list" where
  "campaign_walk node =
     (if \<not> truthy node then Inr []
      else if isGroup node then
        (case group_children node of Inl e \<Rightarrow> Inl e | Inr xs \<Rightarrow> ok_map concat (mapE campaign_walk xs))
      else Inr (rule_campaign node))"
  by pat_completeness auto
termination by (relation "measure size") (auto simp: size_group_children)

declare campaign_walk.simps [simp del]

definition campaignIdsInFilter :: "json \<Rightarrow> filter_error + jstr list" where
  "campaignIdsInFilter f = ok_map (\<lambda>ids. rev (remdups (rev ids))) (campaign_walk f)"

text \<open>\<open>campaigns\<close> are the ids of the organization.\<close>

definition missingCampaignIds :: "jstr list \<Rightarrow> json \<Rightarrow> filter_error + jstr list" where
  "missingCampaignIds campaigns f = ok_map (filter (\<lambda>i. i \<notin> set campaigns)) (campaignIdsInFilter f)"

section \<open>The audience of a campaign\<close>

text \<open>The keys of the compiled filter and these stand in one object, which asks for all of them.\<close>

definition opted_out_where :: where_input where
  "opted_out_where = Column (lit ''marketingConsent'') (Is (lit ''OPTED_OUT''))"

definition audienceWhere :: "filter_env \<Rightarrow> json \<Rightarrow> jstr \<Rightarrow> filter_error + where_input" where
  "audienceWhere env f org = ok_map (\<lambda>w. Both [w, Archived False, Negated opted_out_where] []) (contactWhereFromFilterDsl env f org)"

definition excluded_where :: "filter_env \<Rightarrow> json \<Rightarrow> jstr \<Rightarrow> filter_error + where_input" where
  "excluded_where env f org = ok_map (\<lambda>w. Both [w, Archived False, opted_out_where] []) (contactWhereFromFilterDsl env f org)"

section \<open>What a query selects\<close>

text \<open>
  The rows a query sees, each with its organization, and the meaning of the query as the database client
  documents it: a comparison with NULL is unknown, NOT of unknown is unknown, and a row is selected when the
  query is true of it.
\<close>

datatype cell = TextCell jstr | DateCell int

record filter_message =
  fm_organization :: jstr
  fm_inbound :: bool
  fm_timestamp :: int

record filter_conversation =
  fv_organization :: jstr
  fv_status :: jstr
  fv_archived :: bool
  fv_team :: "jstr option"
  fv_messages :: "filter_message list"

record filter_recipient =
  fr_organization :: jstr
  fr_campaign :: jstr
  fr_status :: jstr
  fr_readAt :: "int option"
  fr_sentAt :: "int option"

record crm_contact =
  cc_cell :: "jstr \<Rightarrow> cell option"
  cc_archived :: bool
  cc_tags :: "(jstr \<times> jstr) list"
  cc_values :: "(jstr \<times> json \<times> jstr option) list"
  cc_conversations :: "filter_conversation list"
  cc_recipients :: "filter_recipient list"

definition kleene_all :: "bool option list \<Rightarrow> bool option" where
  "kleene_all xs = (if Some False \<in> set xs then Some False else if None \<in> set xs then None else Some True)"

definition kleene_any :: "bool option list \<Rightarrow> bool option" where
  "kleene_any xs = (if Some True \<in> set xs then Some True else if None \<in> set xs then None else Some False)"

definition ends_with :: "jstr \<Rightarrow> jstr \<Rightarrow> bool" where "ends_with p s \<longleftrightarrow> starts_with (rev p) (rev s)"

definition cell_holds :: "filter_env \<Rightarrow> column_test \<Rightarrow> cell \<Rightarrow> bool" where
  "cell_holds env t c =
     (case (t, c) of
        (Is v, TextCell s) \<Rightarrow> s = v
      | (Has v, TextCell s) \<Rightarrow> js_includes (fe_fold env v) (fe_fold env s)
      | (Starts v, TextCell s) \<Rightarrow> starts_with (fe_fold env v) (fe_fold env s)
      | (Ends v, TextCell s) \<Rightarrow> ends_with (fe_fold env v) (fe_fold env s)
      | (Among vs, TextCell s) \<Rightarrow> s \<in> set vs
      | (From t0, DateCell d) \<Rightarrow> t0 \<le> d
      | (Until t1, DateCell d) \<Rightarrow> d < t1
      | (Within t0 t1, DateCell d) \<Rightarrow> t0 \<le> d \<and> d < t1
      | _ \<Rightarrow> False)"

definition column_holds :: "filter_env \<Rightarrow> column_test \<Rightarrow> cell option \<Rightarrow> bool option" where
  "column_holds env t c =
     (if t = Null then Some (c = None) else if t = NotNull then Some (c \<noteq> None) else map_option (cell_holds env t) c)"

definition tag_holds :: "tag_test \<Rightarrow> jstr \<Rightarrow> bool" where
  "tag_holds t name = (case t of AnyTag \<Rightarrow> True | Named n \<Rightarrow> name = n | NamedOneOf ns \<Rightarrow> name \<in> set ns)"

definition conversation_holds :: "conversation_test \<Rightarrow> filter_conversation \<Rightarrow> bool" where
  "conversation_holds t cv =
     (case t of
        WithInbound org since \<Rightarrow>
          list_ex (\<lambda>m. fm_organization m = org \<and> fm_inbound m \<and> (case since of None \<Rightarrow> True | Some t0 \<Rightarrow> t0 \<le> fm_timestamp m)) (fv_messages cv)
      | InStatus ss \<Rightarrow> fv_status cv \<in> set ss \<and> \<not> fv_archived cv
      | RoutedTo team \<Rightarrow> fv_team cv = Some team)"

definition recipient_holds :: "recipient_test \<Rightarrow> filter_recipient \<Rightarrow> bool" where
  "recipient_holds t r =
     (case t of
        Received i \<Rightarrow> fr_campaign r = i \<and> fr_status r \<in> {lit ''sent'', lit ''delivered'', lit ''read''}
      | ReadBy i \<Rightarrow> fr_campaign r = i \<and> fr_readAt r \<noteq> None
      | SentSince t0 \<Rightarrow> (case fr_sentAt r of None \<Rightarrow> False | Some s \<Rightarrow> t0 \<le> s)
      | Sent \<Rightarrow> fr_sentAt r \<noteq> None)"

text \<open>The row of a custom field, seen by its one column.\<close>

definition value_row :: "jstr option \<Rightarrow> crm_contact" where
  "value_row v = \<lparr>cc_cell = (\<lambda>_. map_option TextCell v), cc_archived = False, cc_tags = [], cc_values = [],
                  cc_conversations = [], cc_recipients = []\<rparr>"

fun selects :: "filter_env \<Rightarrow> where_input \<Rightarrow> crm_contact \<Rightarrow> bool option" where
  "selects env Everything c = Some True"
| "selects env (Both as os) c =
     kleene_all (map (\<lambda>w. selects env w c) as @ (if os = [] then [] else [kleene_any (map (\<lambda>w. selects env w c) os)]))"
| "selects env (Column f t) c = column_holds env t (cc_cell c f)"
| "selects env (Negated w) c = map_option Not (selects env w c)"
| "selects env (AnyOf ws) c = kleene_any (map (\<lambda>w. selects env w c) ws)"
| "selects env (Tags some org t) c = Some (some = list_ex (\<lambda>(g, name). g = org \<and> tag_holds t name) (cc_tags c))"
| "selects env (Values some org slug None) c = Some (some = list_ex (\<lambda>(g, s, v). g = org \<and> s = slug) (cc_values c))"
| "selects env (Values some org slug (Some w)) c =
     Some (some = list_ex (\<lambda>(g, s, v). g = org \<and> s = slug \<and> selects env w (value_row v) = Some True) (cc_values c))"
| "selects env (Conversations some org t) c =
     Some (some = list_ex (\<lambda>cv. fv_organization cv = org \<and> conversation_holds t cv) (cc_conversations c))"
| "selects env (Recipients some org t) c =
     Some (some = list_ex (\<lambda>r. fr_organization r = org \<and> recipient_holds t r) (cc_recipients c))"
| "selects env (Archived b) c = Some (cc_archived c = b)"

definition matches :: "filter_env \<Rightarrow> where_input \<Rightarrow> crm_contact \<Rightarrow> bool" where
  "matches env w c \<longleftrightarrow> selects env w c = Some True"

end
