(* ===== verification/Campaign.thy ===== *)
theory Campaign
  imports Contact_Filter Text_Signals Message_Status
begin

text \<open>
  Campaigns: drawing up the recipients and sending (\<open>modules/campaigns/campaigns.routes.ts\<close>), the scheduler
  (\<open>workers/campaign-scheduler.worker.ts\<close>), the worker (\<open>workers/campaign.worker.ts\<close>), the hours in which nobody
  is written to (\<open>utils/contact-timezone.ts\<close>) and the settings they are read from
  (\<open>PATCH /workspace-settings\<close> of \<open>modules/system/system.routes.ts\<close>).

  The state is one organization's rows, its job queue, the requests that have been checked and not yet committed, and
  the messages the channel took. What the channel answers, whether a lock is had in time, the clock of a time zone,
  the parser of JSON and the ids that are drawn are parameters.
\<close>

section \<open>Local time\<close>

definition COUNTRY_ZONES :: "(jstr \<times> jstr) list" where
  "COUNTRY_ZONES =
     [(lit ''PS'', lit ''Asia/Hebron''), (lit ''IL'', lit ''Asia/Jerusalem''), (lit ''JO'', lit ''Asia/Amman''),
      (lit ''LB'', lit ''Asia/Beirut''), (lit ''SY'', lit ''Asia/Damascus''), (lit ''EG'', lit ''Africa/Cairo''),
      (lit ''SA'', lit ''Asia/Riyadh''), (lit ''AE'', lit ''Asia/Dubai''), (lit ''QA'', lit ''Asia/Qatar''),
      (lit ''KW'', lit ''Asia/Kuwait''), (lit ''BH'', lit ''Asia/Bahrain''), (lit ''OM'', lit ''Asia/Muscat''),
      (lit ''IQ'', lit ''Asia/Baghdad''), (lit ''TR'', lit ''Europe/Istanbul''), (lit ''GB'', lit ''Europe/London''),
      (lit ''IE'', lit ''Europe/Dublin''), (lit ''DE'', lit ''Europe/Berlin''), (lit ''FR'', lit ''Europe/Paris''),
      (lit ''IT'', lit ''Europe/Rome''), (lit ''NL'', lit ''Europe/Amsterdam''), (lit ''BE'', lit ''Europe/Brussels''),
      (lit ''SE'', lit ''Europe/Stockholm''), (lit ''NO'', lit ''Europe/Oslo''), (lit ''DK'', lit ''Europe/Copenhagen'')]"

text \<open>The longest prefixes first.\<close>

definition PREFIX_COUNTRIES :: "(jstr \<times> jstr) list" where
  "PREFIX_COUNTRIES =
     sort_key (\<lambda>(p, _). - int (length p))
       [(lit ''970'', lit ''PS''), (lit ''972'', lit ''IL''), (lit ''962'', lit ''JO''), (lit ''961'', lit ''LB''), (lit ''963'', lit ''SY''),
        (lit ''20'', lit ''EG''), (lit ''966'', lit ''SA''), (lit ''971'', lit ''AE''), (lit ''974'', lit ''QA''), (lit ''965'', lit ''KW''),
        (lit ''973'', lit ''BH''), (lit ''968'', lit ''OM''), (lit ''964'', lit ''IQ''), (lit ''90'', lit ''TR''), (lit ''44'', lit ''GB''),
        (lit ''353'', lit ''IE''), (lit ''49'', lit ''DE''), (lit ''33'', lit ''FR''), (lit ''39'', lit ''IT''), (lit ''31'', lit ''NL''),
        (lit ''32'', lit ''BE''), (lit ''46'', lit ''SE''), (lit ''47'', lit ''NO''), (lit ''45'', lit ''DK'')]"

datatype zone_source = FromCountry | FromPrefix | FromOrganization

definition zone_of_country :: "jstr \<Rightarrow> jstr option" where
  "zone_of_country country = (if country = [] then None else map_of COUNTRY_ZONES country)"

definition resolveContactTimezone :: "jstr option \<Rightarrow> jstr option \<Rightarrow> jstr \<Rightarrow> jstr \<times> zone_source" where
  "resolveContactTimezone countryCode phone organizationTimezone =
     (case Option.bind countryCode (\<lambda>c. zone_of_country (js_upper (js_trim c))) of
        Some zone \<Rightarrow> (zone, FromCountry)
      | None \<Rightarrow>
          let digits = filter is_digit (case phone of None \<Rightarrow> [] | Some p \<Rightarrow> p) in
          (case find (\<lambda>(prefix, country). starts_with prefix digits \<and> zone_of_country country \<noteq> None) PREFIX_COUNTRIES of
             Some (prefix, country) \<Rightarrow> (the (zone_of_country country), FromPrefix)
           | None \<Rightarrow> (organizationTimezone, FromOrganization)))"

text \<open>Hour and minute of an instant; a zone the formatter does not know is an exception.\<close>

type_synonym zone_clock = "jstr \<Rightarrow> int \<Rightarrow> (int \<times> int) option"

definition localMinutes :: "zone_clock \<Rightarrow> int \<Rightarrow> jstr \<Rightarrow> int option" where
  "localMinutes clock t zone = map_option (\<lambda>(hour, minute). hour mod 24 * 60 + minute) (clock zone t)"

text \<open>The remainder of JavaScript has the sign of the dividend.\<close>

definition quiet_time :: "jstr \<Rightarrow> int" where
  "quiet_time v =
     (let parts = map parse_int0 (split_on 58 v);
          h = (case parts of x # _ \<Rightarrow> x | [] \<Rightarrow> 0);
          m = (case parts of _ # y # _ \<Rightarrow> y | _ \<Rightarrow> 0)
      in sgn h * (\<bar>h\<bar> mod 24) * 60 + m)"

definition quietWindow :: "int \<Rightarrow> jstr \<Rightarrow> jstr \<Rightarrow> int option" where
  "quietWindow minutes start_text end_text =
     (let start = quiet_time start_text; stop = quiet_time end_text in
      if start = stop then None
      else if (if start > stop then minutes \<ge> start \<or> minutes < stop else minutes \<ge> start \<and> minutes < stop)
      then Some ((if minutes < stop then stop - minutes else 24 * 60 - minutes + stop) * 60000)
      else None)"

section \<open>Rows\<close>

datatype campaign_status = C_DRAFT | C_SCHEDULED | C_SENDING | C_SENT | C_FAILED

record campaign =
  cp_title :: jstr
  cp_message :: jstr
  cp_mediaUrl :: "jstr option"
  cp_sessionId :: jstr
  cp_status :: campaign_status
  cp_scheduledAt :: "int option"
  cp_sentAt :: "int option"
  cp_audienceFilter :: json
  cp_metaTemplateId :: "jstr option"
  cp_metaTemplateBindings :: json

record campaign_recipient = recipient_row +
  cr_id :: jstr
  cr_campaignId :: jstr
  cr_contactId :: jstr
  cr_sentAt :: "int option"
  cr_error :: "jstr option"
  cr_waMessageId :: "jstr option"

record workspace_config =
  wc_timezone :: jstr
  wc_timeoutMinutes :: rat
  wc_weeklyRecap :: bool
  wc_quietEnabled :: bool
  wc_quietStart :: jstr
  wc_quietEnd :: jstr

record send_data =
  sd_campaignId :: jstr
  sd_recipientId :: jstr
  sd_phone :: jstr
  sd_message :: jstr
  sd_mediaUrl :: "jstr option"
  sd_session :: jstr

datatype send_job_id = SendId jstr jstr | HeldId jstr jstr int

datatype send_job_state = Job_Waits | Job_Done | Job_Dead

record send_job =
  sj_id :: send_job_id
  sj_data :: send_data
  sj_due :: int
  sj_attempts :: nat
  sj_state :: send_job_state

text \<open>\<open>kw_open\<close> are the requests to send that have been checked, each with the jobs it will queue; \<open>kw_outbox\<close> is what the channel took.\<close>

record kworld =
  kw_now :: int
  kw_organizationId :: jstr
  kw_name :: jstr
  kw_config :: "workspace_config option"
  kw_users :: "(jstr \<times> bool) list"
  kw_recapRecipients :: "jstr list"
  kw_contacts :: "(jstr \<times> crm_contact) list"
  kw_sessions :: "(jstr \<times> jstr \<times> bool) list"
  kw_campaigns :: "(jstr \<times> campaign) list"
  kw_recipients :: "campaign_recipient list"
  kw_jobs :: "send_job list"
  kw_open :: "(jstr \<times> send_job list) list"
  kw_outbox :: "send_data list"

definition upd_campaign :: "jstr \<Rightarrow> (campaign \<Rightarrow> campaign) \<Rightarrow> kworld \<Rightarrow> kworld" where
  "upd_campaign i f w = w\<lparr>kw_campaigns := map (\<lambda>(j, c). (j, if j = i then f c else c)) (kw_campaigns w)\<rparr>"

definition upd_recipient :: "jstr \<Rightarrow> (campaign_recipient \<Rightarrow> campaign_recipient) \<Rightarrow> kworld \<Rightarrow> kworld" where
  "upd_recipient i f w = w\<lparr>kw_recipients := map (\<lambda>r. if cr_id r = i then f r else r) (kw_recipients w)\<rparr>"

definition recipient_by_id :: "kworld \<Rightarrow> jstr \<Rightarrow> campaign_recipient option" where
  "recipient_by_id w i = find (\<lambda>r. cr_id r = i) (kw_recipients w)"

definition cell_text :: "crm_contact \<Rightarrow> string \<Rightarrow> jstr option" where
  "cell_text c f = (case cc_cell c (lit f) of Some (TextCell s) \<Rightarrow> Some s | _ \<Rightarrow> None)"

text \<open>The queue ignores a job whose id it knows.\<close>

definition enqueue :: "send_job \<Rightarrow> kworld \<Rightarrow> kworld" where
  "enqueue job w = (if sj_id job \<in> sj_id ` set (kw_jobs w) then w else w\<lparr>kw_jobs := kw_jobs w @ [job]\<rparr>)"

section \<open>Drawing up a campaign\<close>

definition primary_session :: "kworld \<Rightarrow> jstr option" where
  "primary_session w = map_option fst (find (\<lambda>(_, _, active). active) (kw_sessions w))"

datatype campaign_error =
    NoSession | BadFilterText | EveryoneUnconfirmed | FilterRefused filter_error | CampaignNotFound
  | NothingToSay | AlreadySending | NoAllowance

text \<open>\<open>None\<close> is an exception of the parser.\<close>

definition parseContactFilterDsl :: "(jstr \<Rightarrow> json option) \<Rightarrow> json \<Rightarrow> json option" where
  "parseContactFilterDsl parse v =
     (if \<not> truthy v then Some JNull
      else case v of JStr s \<Rightarrow> if js_trim s = [] then Some JNull else parse (js_trim s) | _ \<Rightarrow> Some v)"

definition new_recipient :: "jstr \<Rightarrow> (jstr \<Rightarrow> jstr) \<Rightarrow> jstr \<Rightarrow> campaign_recipient" where
  "new_recipient cid rid contact =
     \<lparr>r_status = lit ''pending'', r_deliveredAt = None, r_readAt = None, cr_id = rid contact, cr_campaignId = cid,
      cr_contactId = contact, cr_sentAt = None, cr_error = None, cr_waMessageId = None\<rparr>"

text \<open>The campaign is written first, so that a filter the compiler refuses leaves it without recipients.\<close>

definition draw_up :: "(int \<Rightarrow> filter_env) \<Rightarrow> jstr \<Rightarrow> (jstr \<Rightarrow> jstr) \<Rightarrow> campaign \<Rightarrow> kworld \<Rightarrow> (campaign_error + nat) \<times> kworld" where
  "draw_up env cid rid c w =
     (let w1 = w\<lparr>kw_campaigns := kw_campaigns w @ [(cid, c)]\<rparr> in
      case audienceWhere (env (kw_now w)) (cp_audienceFilter c) (kw_organizationId w) of
        Inl e \<Rightarrow> (Inl (FilterRefused e), w1)
      | Inr q \<Rightarrow>
          let contacts = map fst (filter (\<lambda>(_, p). matches (env (kw_now w)) q p) (kw_contacts w)) in
          (Inr (length contacts), w1\<lparr>kw_recipients := kw_recipients w @ map (new_recipient cid rid) contacts\<rparr>))"

definition create_campaign ::
  "(int \<Rightarrow> filter_env) \<Rightarrow> (jstr \<Rightarrow> json option) \<Rightarrow> jstr \<Rightarrow> (jstr \<Rightarrow> jstr) \<Rightarrow> jstr \<Rightarrow> jstr \<Rightarrow> jstr option \<Rightarrow> int option \<Rightarrow> json \<Rightarrow> json
   \<Rightarrow> kworld \<Rightarrow> (campaign_error + nat) \<times> kworld" where
  "create_campaign env parse cid rid title message mediaUrl scheduledAt audience confirmAll w =
     (case primary_session w of
        None \<Rightarrow> (Inl NoSession, w)
      | Some session \<Rightarrow>
          (case parseContactFilterDsl parse audience of
             None \<Rightarrow> (Inl BadFilterText, w)
           | Some f \<Rightarrow>
               if \<not> truthy f \<and> confirmAll \<noteq> JBool True then (Inl EveryoneUnconfirmed, w)
               else draw_up env cid rid
                 \<lparr>cp_title = title, cp_message = message, cp_mediaUrl = mediaUrl, cp_sessionId = session, cp_status = C_DRAFT,
                  cp_scheduledAt = scheduledAt, cp_sentAt = None, cp_audienceFilter = f, cp_metaTemplateId = None,
                  cp_metaTemplateBindings = JNull\<rparr> w))"

definition clone_campaign ::
  "(int \<Rightarrow> filter_env) \<Rightarrow> (jstr \<Rightarrow> json option) \<Rightarrow> jstr \<Rightarrow> (jstr \<Rightarrow> jstr) \<Rightarrow> jstr \<Rightarrow> json \<Rightarrow> kworld \<Rightarrow> (campaign_error + nat) \<times> kworld" where
  "clone_campaign env parse cid rid source title w =
     (case map_of (kw_campaigns w) source of
        None \<Rightarrow> (Inl CampaignNotFound, w)
      | Some s \<Rightarrow>
          (case (if cp_sessionId s \<noteq> [] then Some (cp_sessionId s) else primary_session w) of
             None \<Rightarrow> (Inl NoSession, w)
           | Some session \<Rightarrow>
               let requested = take 255 (js_trim (js_string_nullish title)) in
               (case parseContactFilterDsl parse (cp_audienceFilter s) of
                  None \<Rightarrow> (Inl BadFilterText, w)
                | Some f \<Rightarrow>
                    draw_up env cid rid
                      (s\<lparr>cp_title := (if requested \<noteq> [] then requested else cp_title s), cp_sessionId := session,
                         cp_status := C_DRAFT, cp_scheduledAt := None, cp_sentAt := None, cp_audienceFilter := f\<rparr>) w)))"

section \<open>Sending\<close>

definition SEND_SPACING_MS :: int where "SEND_SPACING_MS = 1200"

definition pending_recipients :: "kworld \<Rightarrow> jstr \<Rightarrow> campaign_recipient list" where
  "pending_recipients w i = filter (\<lambda>r. cr_campaignId r = i \<and> r_status r = lit ''pending'') (kw_recipients w)"

definition send_job_for :: "kworld \<Rightarrow> jstr \<Rightarrow> campaign \<Rightarrow> nat \<times> campaign_recipient \<Rightarrow> send_job" where
  "send_job_for w i c = (\<lambda>(n, r).
     \<lparr>sj_id = SendId i (cr_id r),
      sj_data =
        \<lparr>sd_campaignId = i, sd_recipientId = cr_id r,
         sd_phone = (case Option.bind (map_of (kw_contacts w) (cr_contactId r)) (\<lambda>p. cell_text p ''phone'') of None \<Rightarrow> [] | Some p \<Rightarrow> p),
         sd_message = cp_message c, sd_mediaUrl = cp_mediaUrl c,
         sd_session = (case map_of (kw_sessions w) (cp_sessionId c) of None \<Rightarrow> [] | Some (name, _) \<Rightarrow> name)\<rparr>,
      sj_due = kw_now w + int n * SEND_SPACING_MS, sj_attempts = 0, sj_state = Job_Waits\<rparr>)"

definition send_jobs :: "kworld \<Rightarrow> jstr \<Rightarrow> campaign \<Rightarrow> send_job list" where
  "send_jobs w i c = map (send_job_for w i c) (indexed (pending_recipients w i))"

text \<open>The request up to its write, and the write. \<open>allowance\<close> says for how many messages there is room.\<close>

definition send_request :: "(nat \<Rightarrow> bool) \<Rightarrow> jstr \<Rightarrow> kworld \<Rightarrow> campaign_error + send_job list" where
  "send_request allowance i w =
     (case map_of (kw_campaigns w) i of
        None \<Rightarrow> Inl CampaignNotFound
      | Some c \<Rightarrow>
          if js_trim (cp_message c) = [] \<and> \<not> truthy_ref (cp_mediaUrl c) then Inl NothingToSay
          else if cp_status c = C_SENDING then Inl AlreadySending
          else let jobs = send_jobs w i c in if allowance (length jobs) then Inr jobs else Inl NoAllowance)"

definition send_commit :: "jstr \<Rightarrow> send_job list \<Rightarrow> kworld \<Rightarrow> kworld" where
  "send_commit i jobs w = fold enqueue jobs (upd_campaign i (\<lambda>c. c\<lparr>cp_status := C_SENDING\<rparr>) w)"

text \<open>\<open>lost\<close> are the campaigns whose jobs do not reach the queue after the campaign was claimed.\<close>

definition dispatch_one :: "jstr list \<Rightarrow> jstr \<Rightarrow> kworld \<Rightarrow> kworld" where
  "dispatch_one lost i w =
     (case map_of (kw_campaigns w) i of
        None \<Rightarrow> w
      | Some c \<Rightarrow>
          if cp_status c \<noteq> C_DRAFT then w
          else let w1 = upd_campaign i (\<lambda>c. c\<lparr>cp_status := C_SENDING\<rparr>) w; jobs = send_jobs w1 i c in
            if jobs = [] then upd_campaign i (\<lambda>c. c\<lparr>cp_status := C_SENT, cp_sentAt := Some (kw_now w)\<rparr>) w1
            else if i \<in> set lost then w1 else fold enqueue jobs w1)"

definition dispatchDueCampaigns :: "jstr list \<Rightarrow> kworld \<Rightarrow> kworld" where
  "dispatchDueCampaigns lost w =
     fold (dispatch_one lost)
       (take 50 (map fst (filter (\<lambda>(_, c). cp_status c = C_DRAFT \<and> (case cp_scheduledAt c of None \<Rightarrow> False | Some t \<Rightarrow> t \<le> kw_now w)) (kw_campaigns w)))) w"

section \<open>The worker\<close>

text \<open>The hold, in milliseconds. An error of the lookup is no hold.\<close>

definition quietHoursHold :: "zone_clock \<Rightarrow> send_data \<Rightarrow> kworld \<Rightarrow> int option" where
  "quietHoursHold clock d w =
     (case kw_config w of
        None \<Rightarrow> None
      | Some cfg \<Rightarrow>
          if \<not> wc_quietEnabled cfg then None
          else
            let person = (if sd_recipientId d = [] then None
                          else Option.bind (recipient_by_id w (sd_recipientId d)) (\<lambda>r. map_of (kw_contacts w) (cr_contactId r)));
                zone = fst (resolveContactTimezone (Option.bind person (\<lambda>p. cell_text p ''countryCode''))
                              (case Option.bind person (\<lambda>p. cell_text p ''phone'') of None \<Rightarrow> Some (sd_phone d) | Some p \<Rightarrow> Some p)
                              (wc_timezone cfg))
            in Option.bind (localMinutes clock (kw_now w) zone) (\<lambda>m. quietWindow m (wc_quietStart cfg) (wc_quietEnd cfg)))"

datatype send_error = Quota_Exceeded jstr | Capability_Missing jstr | Send_Failed jstr

text \<open>
  What happens to a job beyond the quiet hours: no lock in time; an error before the channel took the message; an
  error after it did (recording the use of the allowance, for one); the provider's id of the message.
\<close>

datatype send_answer = Locked_Out | Refused send_error | Unrecorded send_error | Accepted jstr

datatype send_result = Sent_On | Deferred int | Send_Error

primrec error_text :: "send_error \<Rightarrow> jstr" where
  "error_text (Quota_Exceeded m) = m"
| "error_text (Capability_Missing m) = m"
| "error_text (Send_Failed m) = m"

definition held_job :: "send_data \<Rightarrow> int \<Rightarrow> int \<Rightarrow> send_job" where
  "held_job d t ms =
     \<lparr>sj_id = HeldId (sd_campaignId d) (sd_recipientId d) t, sj_data = d, sj_due = t + ms, sj_attempts = 0, sj_state = Job_Waits\<rparr>"

definition deliver :: "send_data \<Rightarrow> kworld \<Rightarrow> kworld" where
  "deliver d w = w\<lparr>kw_outbox := kw_outbox w @ [d]\<rparr>"

definition mark_failed :: "send_data \<Rightarrow> send_error \<Rightarrow> kworld \<Rightarrow> kworld" where
  "mark_failed d e =
     upd_recipient (sd_recipientId d)
       (\<lambda>r. r\<lparr>r_status := (case e of Quota_Exceeded _ \<Rightarrow> lit ''pending'' | _ \<Rightarrow> lit ''failed''), cr_error := Some (error_text e)\<rparr>)"

text \<open>The update of a recipient that is gone is an error, and so is that of the failed one.\<close>

definition processCampaignJob :: "zone_clock \<Rightarrow> send_answer \<Rightarrow> send_data \<Rightarrow> kworld \<Rightarrow> send_result \<times> kworld" where
  "processCampaignJob clock ans d w =
     (if ans = Locked_Out then (Send_Error, w)
      else case quietHoursHold clock d w of
        Some ms \<Rightarrow> (Deferred ms, enqueue (held_job d (kw_now w) ms) w)
      | None \<Rightarrow>
          (case ans of
             Refused e \<Rightarrow> (Send_Error, mark_failed d e w)
           | Unrecorded e \<Rightarrow> (Send_Error, mark_failed d e (deliver d w))
           | Accepted wid \<Rightarrow>
               let w1 = deliver d w in
               if sd_recipientId d = [] then (Sent_On, w1)
               else if recipient_by_id w (sd_recipientId d) = None then (Send_Error, w1)
               else (Sent_On, upd_recipient (sd_recipientId d)
                       (\<lambda>r. r\<lparr>r_status := lit ''sent'', cr_sentAt := Some (kw_now w), cr_waMessageId := Some wid\<rparr>) w1)
           | Locked_Out \<Rightarrow> (Send_Error, w)))"

definition CAMPAIGN_ATTEMPTS :: nat where "CAMPAIGN_ATTEMPTS = 3"

definition upd_send_job :: "send_job_id \<Rightarrow> (send_job \<Rightarrow> send_job) \<Rightarrow> kworld \<Rightarrow> kworld" where
  "upd_send_job i f w = w\<lparr>kw_jobs := map (\<lambda>j. if sj_id j = i then f j else j) (kw_jobs w)\<rparr>"

text \<open>A failed attempt waits five seconds, then ten.\<close>

definition retry_job :: "int \<Rightarrow> send_job \<Rightarrow> send_job" where
  "retry_job t j =
     (let n = sj_attempts j + 1 in
      j\<lparr>sj_attempts := n, sj_state := (if n \<ge> CAMPAIGN_ATTEMPTS then Job_Dead else Job_Waits), sj_due := t + 5000 * 2 ^ (n - 1)\<rparr>)"

definition campaign_completed :: "jstr \<Rightarrow> kworld \<Rightarrow> kworld" where
  "campaign_completed i w =
     (if i = [] then w
      else if pending_recipients w i = [] then upd_campaign i (\<lambda>c. c\<lparr>cp_status := C_SENT, cp_sentAt := Some (kw_now w)\<rparr>) w
      else w)"

text \<open>A job that is due, and the handler of a completed one.\<close>

definition run_send_job :: "zone_clock \<Rightarrow> send_job_id \<Rightarrow> send_answer \<Rightarrow> kworld \<Rightarrow> kworld" where
  "run_send_job clock i ans w =
     (case find (\<lambda>j. sj_id j = i) (kw_jobs w) of
        None \<Rightarrow> w
      | Some j \<Rightarrow>
          if sj_state j \<noteq> Job_Waits \<or> kw_now w < sj_due j then w
          else case processCampaignJob clock ans (sj_data j) w of
                 (Send_Error, w1) \<Rightarrow> upd_send_job i (retry_job (kw_now w)) w1
               | (_, w1) \<Rightarrow> campaign_completed (sd_campaignId (sj_data j)) (upd_send_job i (\<lambda>j. j\<lparr>sj_state := Job_Done\<rparr>) w1))"

section \<open>Receipts and the report\<close>

definition receive_receipt :: "jstr \<Rightarrow> jstr \<Rightarrow> kworld \<Rightarrow> kworld" where
  "receive_receipt wid incoming w =
     (case find (\<lambda>r. cr_waMessageId r = Some wid) (kw_recipients w) of
        None \<Rightarrow> w
      | Some r \<Rightarrow>
          (case advance_campaign_recipient_status (r_status r) incoming of
             None \<Rightarrow> w
           | Some advanced \<Rightarrow>
               upd_recipient (cr_id r)
                 (\<lambda>r. r\<lparr>r_status := advanced,
                        r_deliveredAt := (if advanced = lit ''delivered'' \<or> advanced = lit ''read'' then Some (kw_now w) else r_deliveredAt r),
                        r_readAt := (if advanced = lit ''read'' then Some (kw_now w) else r_readAt r)\<rparr>) w))"

record report_counts =
  rp_total :: nat
  rp_pending :: nat
  rp_sent :: nat
  rp_delivered :: nat
  rp_read :: nat
  rp_failed :: nat

definition campaign_report :: "kworld \<Rightarrow> jstr \<Rightarrow> report_counts option" where
  "campaign_report w i =
     (let rows = filter (\<lambda>r. cr_campaignId r = i) (kw_recipients w);
          count = (\<lambda>s. length (filter (\<lambda>r. r_status r = lit s) rows)) in
      map_option (\<lambda>_. \<lparr>rp_total = length rows, rp_pending = count ''pending'', rp_sent = count ''sent'', rp_delivered = count ''delivered'',
                       rp_read = count ''read'', rp_failed = count ''failed''\<rparr>) (map_of (kw_campaigns w) i))"

text \<open>Erasing a contact takes its rows as a recipient with it.\<close>

definition erase_contact :: "jstr \<Rightarrow> kworld \<Rightarrow> kworld" where
  "erase_contact i w =
     w\<lparr>kw_contacts := filter (\<lambda>(j, _). j \<noteq> i) (kw_contacts w), kw_recipients := filter (\<lambda>r. cr_contactId r \<noteq> i) (kw_recipients w)\<rparr>"

section \<open>Settings\<close>

datatype settings_error =
    NothingSupplied | BadQuietFlag | BadQuietTime | EmptyQuietWindow | BadName | BadTimezone | BadTimeout
  | BadRecapFlag | BadRecapList | LongRecapList | UnknownRecapUser

definition is_quiet_time :: "jstr \<Rightarrow> bool" where
  "is_quiet_time s =
     (case s of
        [a, b, colon, c, d] \<Rightarrow>
          colon = 58 \<and> ((a = 48 \<or> a = 49) \<and> is_digit b \<or> a = 50 \<and> 48 \<le> b \<and> b \<le> 51) \<and> 48 \<le> c \<and> c \<le> 53 \<and> is_digit d
      | _ \<Rightarrow> False)"

definition isIanaTimezone :: "(jstr \<Rightarrow> bool) \<Rightarrow> jstr \<Rightarrow> bool" where
  "isIanaTimezone known zone \<longleftrightarrow> known zone \<and> 0 < length zone \<and> length zone \<le> 100"

definition default_config :: workspace_config where
  "default_config =
     \<lparr>wc_timezone = lit ''Asia/Jerusalem'', wc_timeoutMinutes = 20, wc_weeklyRecap = False, wc_quietEnabled = False,
      wc_quietStart = lit ''21:00'', wc_quietEnd = lit ''08:00''\<rparr>"

definition supplied_text :: "string \<Rightarrow> json \<Rightarrow> jstr option" where
  "supplied_text k body = (let v = get (lit k) body in if v = JUndef then None else Some (js_trim (js_string v)))"

definition quiet_problem :: "json \<Rightarrow> settings_error option" where
  "quiet_problem body =
     (let flag = get (lit ''quietHoursEnabled'') body;
          start = supplied_text ''quietHoursStart'' body; stop = supplied_text ''quietHoursEnd'' body in
      if flag \<noteq> JUndef \<and> (case flag of JBool _ \<Rightarrow> False | _ \<Rightarrow> True) then Some BadQuietFlag
      else if (case start of None \<Rightarrow> False | Some s \<Rightarrow> \<not> is_quiet_time s) \<or> (case stop of None \<Rightarrow> False | Some s \<Rightarrow> \<not> is_quiet_time s)
      then Some BadQuietTime
      else if start \<noteq> None \<and> start = stop then Some EmptyQuietWindow
      else None)"

text \<open>The ids of the recap, trimmed and each once, or what is wrong with them.\<close>

definition recap_ids :: "json \<Rightarrow> kworld \<Rightarrow> settings_error + jstr list" where
  "recap_ids v w =
     (case v of
        JArr xs \<Rightarrow>
          let ids = rev (remdups (rev (filter (\<lambda>s. s \<noteq> []) (map (\<lambda>x. js_trim (js_string x)) xs)))) in
          if length ids > 100 then Inl LongRecapList
          else if length (filter (\<lambda>(u, active). active \<and> u \<in> set ids) (kw_users w)) \<noteq> length ids then Inl UnknownRecapUser
          else Inr ids
      | _ \<Rightarrow> Inl BadRecapList)"

definition settings_problem :: "(jstr \<Rightarrow> bool) \<Rightarrow> json \<Rightarrow> kworld \<Rightarrow> settings_error option" where
  "settings_problem known body w =
     (let field = (\<lambda>k. get (lit k) body) in
      if \<not> list_ex (\<lambda>k. field k \<noteq> JUndef) [''name'', ''timezone'', ''userInactivityTimeoutMinutes'', ''weeklyRecapEnabled'',
           ''weeklyRecapRecipientIds'', ''quietHoursEnabled'', ''quietHoursStart'', ''quietHoursEnd''] then Some NothingSupplied
      else case quiet_problem body of
        Some e \<Rightarrow> Some e
      | None \<Rightarrow>
          if (case supplied_text ''name'' body of None \<Rightarrow> False | Some s \<Rightarrow> length s < 2 \<or> length s > 120) then Some BadName
          else if (case supplied_text ''timezone'' body of None \<Rightarrow> False | Some s \<Rightarrow> \<not> isIanaTimezone known s) then Some BadTimezone
          else if field ''userInactivityTimeoutMinutes'' \<noteq> JUndef
                  \<and> (case js_number (field ''userInactivityTimeoutMinutes'') of Fin n \<Rightarrow> \<not> is_integer n \<or> n < 5 \<or> n > 7 * 24 * 60 | _ \<Rightarrow> True)
          then Some BadTimeout
          else if field ''weeklyRecapEnabled'' \<noteq> JUndef \<and> (case field ''weeklyRecapEnabled'' of JBool _ \<Rightarrow> False | _ \<Rightarrow> True)
          then Some BadRecapFlag
          else if field ''weeklyRecapRecipientIds'' = JUndef then None
          else case recap_ids (field ''weeklyRecapRecipientIds'') w of Inl e \<Rightarrow> Some e | Inr _ \<Rightarrow> None)"

definition settings_row :: "json \<Rightarrow> workspace_config \<Rightarrow> workspace_config" where
  "settings_row body c =
     c\<lparr>wc_timezone := (case supplied_text ''timezone'' body of None \<Rightarrow> wc_timezone c | Some z \<Rightarrow> z),
       wc_timeoutMinutes := (case js_number (get (lit ''userInactivityTimeoutMinutes'') body) of Fin n \<Rightarrow> n | _ \<Rightarrow> wc_timeoutMinutes c),
       wc_weeklyRecap := (case get (lit ''weeklyRecapEnabled'') body of JBool b \<Rightarrow> b | _ \<Rightarrow> wc_weeklyRecap c)\<rparr>"

text \<open>The row is written when one of six fields is there; three of them are in it.\<close>

definition patch_workspace_settings :: "(jstr \<Rightarrow> bool) \<Rightarrow> json \<Rightarrow> kworld \<Rightarrow> settings_error option \<times> kworld" where
  "patch_workspace_settings known body w =
     (case settings_problem known body w of
        Some e \<Rightarrow> (Some e, w)
      | None \<Rightarrow>
          let w1 = (case supplied_text ''name'' body of None \<Rightarrow> w | Some s \<Rightarrow> w\<lparr>kw_name := s\<rparr>);
              w2 = (if list_ex (\<lambda>k. get (lit k) body \<noteq> JUndef) [''timezone'', ''userInactivityTimeoutMinutes'', ''weeklyRecapEnabled'',
                         ''quietHoursEnabled'', ''quietHoursStart'', ''quietHoursEnd'']
                    then w1\<lparr>kw_config := Some (settings_row body (case kw_config w1 of None \<Rightarrow> default_config | Some c \<Rightarrow> c))\<rparr> else w1)
          in (None, case recap_ids (get (lit ''weeklyRecapRecipientIds'') body) w of
                      Inr ids \<Rightarrow> w2\<lparr>kw_recapRecipients := ids\<rparr> | Inl _ \<Rightarrow> w2))"

section \<open>Histories\<close>

record campaign_env =
  ce_filter :: "int \<Rightarrow> filter_env"
  ce_parse :: "jstr \<Rightarrow> json option"
  ce_rid :: "jstr \<Rightarrow> jstr \<Rightarrow> jstr"
  ce_clock :: zone_clock
  ce_zone :: "jstr \<Rightarrow> bool"

datatype campaign_event =
    Create_Campaign jstr jstr jstr "jstr option" "int option" json json
  | Clone_Campaign jstr jstr json
  | Ask_To_Send "nat \<Rightarrow> bool" jstr
  | Commit_Send nat
  | Scan_Due "jstr list"
  | Run_Job send_job_id send_answer
  | Get_Receipt jstr jstr
  | Save_Contact jstr crm_contact
  | Erase_Contact jstr
  | Save_Settings json
  | Time_Passes nat

text \<open>The ids of new rows are not in use.\<close>

definition fresh_ids :: "campaign_env \<Rightarrow> jstr \<Rightarrow> kworld \<Rightarrow> bool" where
  "fresh_ids env cid w \<longleftrightarrow>
     cid \<notin> fst ` set (kw_campaigns w) \<and> distinct (map (ce_rid env cid \<circ> fst) (kw_contacts w))
     \<and> set (map (ce_rid env cid \<circ> fst) (kw_contacts w)) \<inter> cr_id ` set (kw_recipients w) = {}"

fun campaign_step :: "campaign_env \<Rightarrow> campaign_event \<Rightarrow> kworld \<Rightarrow> kworld" where
  "campaign_step env (Create_Campaign cid title message mediaUrl scheduledAt audience confirmAll) w =
     (if fresh_ids env cid w
      then snd (create_campaign (ce_filter env) (ce_parse env) cid (ce_rid env cid) title message mediaUrl scheduledAt audience confirmAll w) else w)"
| "campaign_step env (Clone_Campaign cid source title) w =
     (if fresh_ids env cid w then snd (clone_campaign (ce_filter env) (ce_parse env) cid (ce_rid env cid) source title w) else w)"
| "campaign_step env (Ask_To_Send allowance i) w =
     (case send_request allowance i w of Inl _ \<Rightarrow> w | Inr jobs \<Rightarrow> w\<lparr>kw_open := kw_open w @ [(i, jobs)]\<rparr>)"
| "campaign_step env (Commit_Send n) w =
     (if n < length (kw_open w)
      then (let (i, jobs) = kw_open w ! n in send_commit i jobs (w\<lparr>kw_open := take n (kw_open w) @ drop (Suc n) (kw_open w)\<rparr>)) else w)"
| "campaign_step env (Scan_Due lost) w = dispatchDueCampaigns lost w"
| "campaign_step env (Run_Job i ans) w = run_send_job (ce_clock env) i ans w"
| "campaign_step env (Get_Receipt wid incoming) w = receive_receipt wid incoming w"
| "campaign_step env (Save_Contact i c) w =
     w\<lparr>kw_contacts := (if i \<in> fst ` set (kw_contacts w) then map (\<lambda>(j, d). (j, if j = i then c else d)) (kw_contacts w)
                      else kw_contacts w @ [(i, c)])\<rparr>"
| "campaign_step env (Erase_Contact i) w = erase_contact i w"
| "campaign_step env (Save_Settings body) w = snd (patch_workspace_settings (ce_zone env) body w)"
| "campaign_step env (Time_Passes n) w = w\<lparr>kw_now := kw_now w + int n\<rparr>"

end
