(* ===== verification/Contact_Filter_Props.thy ===== *)
theory Contact_Filter_Props
  imports Contact_Filter
begin

text \<open>
  What can be relied on when a filter is stored and used: a compiled filter looks at the rows of its own organization,
  negation is a complement, validation is compilation, a campaign never reaches who opted out; and where custom
  fields and groups of two lists fall short of that.
\<close>

section \<open>Truth values\<close>

lemma truth_cases:
  fixes x :: "bool option"
  obtains "x = Some True" | "x = Some False" | "x = None"
  by (cases x) auto

lemma kleene_all_True [simp]: "kleene_all xs = Some True \<longleftrightarrow> (\<forall>x \<in> set xs. x = Some True)"
  unfolding kleene_all_def by (auto split: if_splits) (metis truth_cases)

lemma kleene_any_True [simp]: "kleene_any xs = Some True \<longleftrightarrow> Some True \<in> set xs"
  by (simp add: kleene_any_def)

lemma kleene_any_False: "kleene_any xs = Some False \<longleftrightarrow> (\<forall>x \<in> set xs. x = Some False)"
  unfolding kleene_any_def by (auto split: if_splits) (metis truth_cases)

lemma matches_simps [simp]:
  "matches env Everything c"
  "matches env (Both as os) c \<longleftrightarrow> (\<forall>w \<in> set as. matches env w c) \<and> (os = [] \<or> (\<exists>w \<in> set os. matches env w c))"
  "matches env (AnyOf ws) c \<longleftrightarrow> (\<exists>w \<in> set ws. matches env w c)"
  "matches env (Archived b) c \<longleftrightarrow> cc_archived c = b"
  by (auto simp: matches_def image_iff) metis+

lemma matches_Negated: "matches env (Negated w) c \<longleftrightarrow> selects env w c = Some False"
  by (cases "selects env w c") (auto simp: matches_def)

text \<open>A relation is never unknown, so its negation is its complement.\<close>

lemma matches_Tags [simp]: "matches env (Negated (Tags s g t)) c \<longleftrightarrow> \<not> matches env (Tags s g t) c"
  by (simp add: matches_Negated) (simp add: matches_def)

lemma matches_empty [simp]:
  "matches env (emptyPredicate spec f True) c \<longleftrightarrow> \<not> matches env (emptyPredicate spec f False) c"
  if "fs_nullable spec \<or> cc_cell c f \<noteq> None"
  using that
  by (cases "cc_cell c f") (auto simp: emptyPredicate_def matches_Negated kleene_any_False, auto simp: matches_def column_holds_def)

lemma matches_negate:
  "matches env (negatePredicate spec f (Column f t)) c \<longleftrightarrow> \<not> matches env (Column f t) c"
  if "fs_nullable spec \<or> cc_cell c f \<noteq> None" "t \<noteq> Null" "t \<noteq> NotNull"
  using that by (cases "cc_cell c f") (auto simp: negatePredicate_def matches_Negated, auto simp: matches_def column_holds_def)

section \<open>Sequences of checks\<close>

lemma mapE_all: "(\<exists>ys. mapE f xs = Inr ys) \<longleftrightarrow> (\<forall>x \<in> set xs. \<exists>y. f x = Inr y)"
  by (induction xs) (auto split: sum.splits)

lemma mapE_set: "mapE f xs = Inr ys \<Longrightarrow> y \<in> set ys \<Longrightarrow> \<exists>x \<in> set xs. f x = Inr y"
  by (induction xs arbitrary: ys) (auto split: sum.splits)

lemma mapE_in: "mapE f xs = Inr ys \<Longrightarrow> x \<in> set xs \<Longrightarrow> \<exists>y \<in> set ys. f x = Inr y"
  by (induction xs arbitrary: ys) (auto split: sum.splits)

section \<open>The audience\<close>

lemma consent_matches:
  assumes "cc_cell c (lit ''marketingConsent'') \<noteq> None"
  shows "matches env opted_out_where c \<longleftrightarrow> cc_cell c (lit ''marketingConsent'') = Some (TextCell (lit ''OPTED_OUT''))"
    "matches env (Negated opted_out_where) c \<longleftrightarrow> cc_cell c (lit ''marketingConsent'') \<noteq> Some (TextCell (lit ''OPTED_OUT''))"
  using assms
  by (auto simp: opted_out_where_def matches_Negated, auto simp: matches_def column_holds_def cell_holds_def split: cell.splits)

text \<open>C10: A campaign never reaches a contact who opted out. Whatever the filter is, and even when its rules ask for opted-out or
  archived contacts, the audience holds none of them; and the audience and the contacts reported as
  excluded by consent are, without overlap, the contacts the filter finds that are not archived.\<close>
theorem audience_excludes_opted_out:
  assumes "audienceWhere env f org = Inr a" and "excluded_where env f org = Inr x"
    and consent: "cc_cell c (lit ''marketingConsent'') \<noteq> None"
  shows "\<exists>w. contactWhereFromFilterDsl env f org = Inr w
    \<and> (matches env a c \<longleftrightarrow> matches env w c \<and> \<not> cc_archived c \<and> cc_cell c (lit ''marketingConsent'') \<noteq> Some (TextCell (lit ''OPTED_OUT'')))
    \<and> (matches env x c \<longleftrightarrow> matches env w c \<and> \<not> cc_archived c \<and> cc_cell c (lit ''marketingConsent'') = Some (TextCell (lit ''OPTED_OUT'')))"
  using assms(1,2) by (auto simp: audienceWhere_def excluded_where_def consent_matches [OF consent])

definition rule_of :: "string \<Rightarrow> string \<Rightarrow> string \<Rightarrow> json \<Rightarrow> json" where
  "rule_of category field op v =
     JObj [(lit ''category'', JStr (lit category)), (lit ''field'', JStr (lit field)), (lit ''operator'', JStr (lit op)), (lit ''value'', v)]"

definition group_of :: "string \<Rightarrow> json list \<Rightarrow> json" where
  "group_of key nodes = JObj [(lit key, JArr nodes)]"

definition plain_env :: filter_env where
  "plain_env = \<lparr>fe_daysBack = (\<lambda>n. - n), fe_date = (\<lambda>_. None), fe_fold = js_lower\<rparr>"

lemma rule_of_get [simp]:
  "get (lit ''category'') (rule_of c f op v) = JStr (lit c)" "get (lit ''field'') (rule_of c f op v) = JStr (lit f)"
  "get (lit ''operator'') (rule_of c f op v) = JStr (lit op)" "get (lit ''value'') (rule_of c f op v) = v"
  "isGroup (rule_of c f op v) = False" "rule_of c f op v \<noteq> JNull" "rule_of c f op v \<noteq> JUndef" "truthy (rule_of c f op v)"
  "op_is (rule_of c f op v) op' \<longleftrightarrow> op = op'"
  by (simp_all add: rule_of_def isGroup_def is_array_def op_is_def)

text \<open>\<open>marketingConsent is one of OPTED_IN, OPTED_OUT\<close>, asked about someone who opted out.\<close>

definition consent_filter :: json where
  "consent_filter = group_of ''$and'' [rule_of ''contactField'' ''marketingConsent'' ''isOneOf'' (JArr [JStr (lit ''OPTED_IN''), JStr (lit ''OPTED_OUT'')])]"

definition lost_contact :: crm_contact where
  "lost_contact = \<lparr>cc_cell = [lit ''id'' \<mapsto> TextCell (lit ''p1''), lit ''phone'' \<mapsto> TextCell (lit ''972''),
      lit ''marketingConsent'' \<mapsto> TextCell (lit ''OPTED_OUT''), lit ''createdAt'' \<mapsto> DateCell 5, lit ''updatedAt'' \<mapsto> DateCell 5],
     cc_archived = False, cc_tags = [], cc_values = [], cc_conversations = [], cc_recipients = []\<rparr>"

lemma group_of_simps [simp]:
  "truthy (group_of k xs)" "get (lit k) (group_of k xs) = JArr xs" "k \<noteq> k' \<Longrightarrow> get (lit k') (group_of k xs) = JUndef"
  by (simp_all add: group_of_def)

lemma trim_solid: "\<forall>c \<in> set s. \<not> is_ws c \<Longrightarrow> js_trim s = s"
proof -
  have d: "\<forall>c \<in> set s. \<not> is_ws c \<Longrightarrow> dropWhile is_ws s = s" for s by (cases s) auto
  show "\<forall>c \<in> set s. \<not> is_ws c \<Longrightarrow> js_trim s = s" by (simp add: js_trim_def d)
qed

lemma text_value_lit: "\<forall>c \<in> set (lit s). \<not> is_ws c \<Longrightarrow> text_value (JStr (lit s)) = lit s"
  by (simp add: text_value_def js_string_nullish_def trim_solid)

lemma consent_compiles:
  "contactWhereFromFilterDsl plain_env consent_filter (lit ''o1'')
     = Inr (Both [Column (lit ''marketingConsent'') (Among [lit ''OPTED_IN'', lit ''OPTED_OUT''])] [])"
proof -
  have t: "text_value (JStr (lit ''OPTED_IN'')) = lit ''OPTED_IN''" "text_value (JStr (lit ''OPTED_OUT'')) = lit ''OPTED_OUT''"
    by (rule text_value_lit; simp add: lit_def is_ws_def)+
  have "compileRule plain_env (lit ''o1'') (rule_of ''contactField'' ''marketingConsent'' ''isOneOf'' (JArr [JStr (lit ''OPTED_IN''), JStr (lit ''OPTED_OUT'')]))
    = Inr (Column (lit ''marketingConsent'') (Among [lit ''OPTED_IN'', lit ''OPTED_OUT'']))"
    by (simp add: compileRule_def compile_field_def CONTACT_FIELDS_def Let_def OPERATORS_BY_TYPE_def enumPredicate_def
        list_value_def enum_value_def t)
  then show ?thesis
    by (simp add: contactWhereFromFilterDsl_def consent_filter_def compileGroup.simps compileNode.simps mapped_children_def
        MAX_FILTER_DEPTH_def group_where_def)
qed

theorem audience_excludes_opted_out_witness:
  "\<exists>a w. audienceWhere plain_env consent_filter (lit ''o1'') = Inr a \<and> contactWhereFromFilterDsl plain_env consent_filter (lit ''o1'') = Inr w
     \<and> matches plain_env w lost_contact \<and> \<not> matches plain_env a lost_contact"
proof -
  obtain a x where a: "audienceWhere plain_env consent_filter (lit ''o1'') = Inr a" "excluded_where plain_env consent_filter (lit ''o1'') = Inr x"
    by (simp add: audienceWhere_def excluded_where_def consent_compiles)
  have cell: "cc_cell lost_contact (lit ''marketingConsent'') = Some (TextCell (lit ''OPTED_OUT''))" by (simp add: lost_contact_def)
  from audience_excludes_opted_out [OF a, of lost_contact] cell
  have "\<not> matches plain_env a lost_contact" by auto
  moreover have "matches plain_env (Both [Column (lit ''marketingConsent'') (Among [lit ''OPTED_IN'', lit ''OPTED_OUT''])] []) lost_contact"
    using cell by simp (simp add: matches_def column_holds_def cell_holds_def)
  ultimately show ?thesis using a(1) consent_compiles by blast
qed

section \<open>Negation\<close>

definition OPPOSITES :: "(string \<times> string) list" where
  "OPPOSITES = [(''isEqualTo'', ''isNotEqualTo''), (''contains'', ''notContains''), (''isOneOf'', ''isNoneOf''), (''isEmpty'', ''isNotEmpty'')]"

text \<open>Columns that cannot be NULL are not.\<close>

definition stored_row :: "crm_contact \<Rightarrow> bool" where
  "stored_row c \<longleftrightarrow> list_all (\<lambda>(f, spec). fs_nullable spec \<or> cc_cell c f \<noteq> None) CONTACT_FIELDS"

lemma stored_field: "stored_row c \<Longrightarrow> map_of CONTACT_FIELDS f = Some spec \<Longrightarrow> fs_nullable spec \<or> cc_cell c f \<noteq> None"
  using map_of_SomeD [of CONTACT_FIELDS f spec] by (auto simp: stored_row_def list_all_iff)

lemma text_negation:
  assumes "(p, n) \<in> set OPPOSITES" and "op_is r p" "op_is r' n" and "get (lit ''value'') r' = get (lit ''value'') r"
    and "textPredicate spec f r = Inr w" "textPredicate spec f r' = Inr w'" and null: "fs_nullable spec \<or> cc_cell c f \<noteq> None"
  shows "matches env w' c \<longleftrightarrow> \<not> matches env w c"
  using assms(1-6) by (auto simp: OPPOSITES_def textPredicate_def op_is_def Let_def matches_negate [OF null] matches_empty [OF null])

lemma enum_negation:
  assumes "(p, n) \<in> set OPPOSITES" and "op_is r p" "op_is r' n" and "get (lit ''value'') r' = get (lit ''value'') r"
    and "enumPredicate spec f r = Inr w" "enumPredicate spec f r' = Inr w'" and null: "fs_nullable spec \<or> cc_cell c f \<noteq> None"
  shows "matches env w' c \<longleftrightarrow> \<not> matches env w c"
  using assms(1-6)
  by (auto simp: OPPOSITES_def enumPredicate_def op_is_def Let_def matches_negate [OF null] matches_empty [OF null] split: sum.splits)

lemma date_negation:
  assumes "(p, n) \<in> set OPPOSITES" and "op_is r p" "op_is r' n" and "datePredicate env' spec f r = Inr w" "datePredicate env' spec f r' = Inr w'"
  shows "matches env w' c \<longleftrightarrow> \<not> matches env w c"
  using assms
  by (auto simp: OPPOSITES_def datePredicate_def op_is_def Let_def split: if_splits) (auto simp: matches_def column_holds_def)

text \<open>C30: Negation is a complement. For every column of a contact, a rule and the rule with the opposite operator and the same
  value select, between them, every contact of the table once, those with nothing in the column among them.\<close>
theorem negated_rule_selects_the_rest:
  assumes ops: "(p, n) \<in> set OPPOSITES" "op_is r p" "op_is r' n"
    and same: "get (lit ''category'') r = JStr (lit ''contactField'')" "get (lit ''category'') r' = JStr (lit ''contactField'')"
      "get (lit ''field'') r' = get (lit ''field'') r" "get (lit ''value'') r' = get (lit ''value'') r"
    and compiled: "compileRule env org r = Inr w" "compileRule env org r' = Inr w'" and row: "stored_row c"
  shows "matches env w' c \<longleftrightarrow> \<not> matches env w c"
proof -
  let ?f = "js_string (get (lit ''field'') r)"
  have fields: "compile_field env r = Inr w" "compile_field env r' = Inr w'" using same compiled by (auto simp: compileRule_def Let_def split: if_splits)
  then obtain spec where spec: "map_of CONTACT_FIELDS ?f = Some spec"
    by (auto simp: compile_field_def Let_def split: option.splits)
  note null = stored_field [OF row spec]
  show ?thesis
  proof (cases "fs_type spec")
    case TextField
    with fields spec same(3) show ?thesis
      by (intro text_negation [OF ops same(4) _ _ null, of w w' env]) (auto simp: compile_field_def Let_def split: if_splits)
  next
    case EnumField
    with fields spec same(3) show ?thesis
      by (intro enum_negation [OF ops same(4) _ _ null, of w w' env]) (auto simp: compile_field_def Let_def split: if_splits)
  next
    case DateField
    with fields spec same(3) show ?thesis
      by (intro date_negation [OF ops, of env spec ?f w w']) (auto simp: compile_field_def Let_def split: if_splits)
  qed
qed

theorem negated_rule_selects_the_rest_witness:
  "\<exists>w w'. compileRule plain_env (lit ''o1'') (rule_of ''contactField'' ''lifecycleStage'' ''isEqualTo'' (JStr (lit ''lead''))) = Inr w
     \<and> compileRule plain_env (lit ''o1'') (rule_of ''contactField'' ''lifecycleStage'' ''isNotEqualTo'' (JStr (lit ''lead''))) = Inr w'
     \<and> cc_cell lost_contact (lit ''lifecycleStage'') = None \<and> matches plain_env w' lost_contact"
proof -
  let ?r = "\<lambda>op. rule_of ''contactField'' ''lifecycleStage'' op (JStr (lit ''lead''))"
  have row: "stored_row lost_contact" by (simp add: stored_row_def CONTACT_FIELDS_def lost_contact_def Let_def)
  obtain w w' where w: "compileRule plain_env (lit ''o1'') (?r ''isEqualTo'') = Inr w" "w = Column (lit ''lifecycleStage'') (Is (text_value (JStr (lit ''lead''))))"
    "compileRule plain_env (lit ''o1'') (?r ''isNotEqualTo'') = Inr w'"
    by (simp add: compileRule_def compile_field_def CONTACT_FIELDS_def Let_def OPERATORS_BY_TYPE_def textPredicate_def)
  have none: "cc_cell lost_contact (lit ''lifecycleStage'') = None" by (simp add: lost_contact_def)
  then have "\<not> matches plain_env w lost_contact" by (simp add: w(2) matches_def column_holds_def)
  with negated_rule_selects_the_rest [OF _ _ _ _ _ _ _ w(1,3) row, of "''isEqualTo''" "''isNotEqualTo''"]
  have "matches plain_env w' lost_contact" by (simp add: OPPOSITES_def)
  with w none show ?thesis by blast
qed

lemma text_inner:
  assumes "textPredicate spec f r = Inr inner"
  shows "\<exists>op. op \<in> set (map fst OPPOSITES @ map snd OPPOSITES @ [''startsWith'', ''endsWith'']) \<and> op_is r op"
  using assms by (auto simp: textPredicate_def OPPOSITES_def Let_def split: if_splits)

text \<open>negation of a custom field is not. A contact who has nothing under a custom field is selected by no comparison with
  it, neither by \<open>is\<close> nor by \<open>is not\<close>; and one whose value is NULL is neither empty nor not empty.\<close>
theorem custom_field_negation_misses_contacts:
  assumes custom: "get (lit ''category'') r = JStr (lit ''customField'')"
    and compiled: "compileRule env org r = Inr w"
  shows "(\<not> op_is r ''isEmpty'' \<longrightarrow> get (lit ''field'') r \<notin> (fst \<circ> snd) ` set (cc_values c) \<longrightarrow> \<not> matches env w c)
    \<and> (op_is r ''isEmpty'' \<or> op_is r ''isNotEmpty'' \<longrightarrow> cc_values c = [(org, get (lit ''field'') r, None)] \<longrightarrow> \<not> matches env w c)"
proof -
  have "compile_custom org r = Inr w" using custom compiled by (auto simp: compileRule_def Let_def split: if_splits)
  then show ?thesis
    by (auto simp: compile_custom_def Let_def matches_def list_ex_iff value_row_def column_holds_def image_iff split: if_splits) force+
qed

theorem custom_field_negation_misses_contacts_witness:
  "\<exists>w. compileRule plain_env (lit ''o1'') (rule_of ''customField'' ''stage'' ''isNotEqualTo'' (JStr (lit ''lead''))) = Inr w
     \<and> \<not> matches plain_env w lost_contact"
proof -
  obtain w where "compileRule plain_env (lit ''o1'') (rule_of ''customField'' ''stage'' ''isNotEqualTo'' (JStr (lit ''lead''))) = Inr w"
    by (simp add: compileRule_def compile_custom_def Let_def textPredicate_def)
  with custom_field_negation_misses_contacts [OF rule_of_get(1) this, of lost_contact] show ?thesis
    by (auto simp: lost_contact_def)
qed

section \<open>Tenancy\<close>

text \<open>What an organization owns of the rows around a contact.\<close>

definition own_conversation :: "jstr \<Rightarrow> filter_conversation \<Rightarrow> filter_conversation" where
  "own_conversation org cv = cv\<lparr>fv_messages := filter (\<lambda>m. fm_organization m = org) (fv_messages cv)\<rparr>"

definition own_rows :: "jstr \<Rightarrow> crm_contact \<Rightarrow> crm_contact" where
  "own_rows org c =
     c\<lparr>cc_tags := filter (\<lambda>(g, _). g = org) (cc_tags c), cc_values := filter (\<lambda>(g, _). g = org) (cc_values c),
       cc_conversations := map (own_conversation org) (filter (\<lambda>cv. fv_organization cv = org) (cc_conversations c)),
       cc_recipients := filter (\<lambda>r. fr_organization r = org) (cc_recipients c)\<rparr>"

text \<open>Every relation of the query names the organization, also inside another relation.\<close>

fun scoped :: "jstr \<Rightarrow> where_input \<Rightarrow> bool" where
  "scoped org (Both as os) \<longleftrightarrow> list_all (scoped org) as \<and> list_all (scoped org) os"
| "scoped org (Negated w) \<longleftrightarrow> scoped org w"
| "scoped org (AnyOf ws) \<longleftrightarrow> list_all (scoped org) ws"
| "scoped org (Tags _ g _) \<longleftrightarrow> g = org"
| "scoped org (Values _ g _ _) \<longleftrightarrow> g = org"
| "scoped org (Conversations _ g t) \<longleftrightarrow> g = org \<and> (case t of WithInbound g' _ \<Rightarrow> g' = org | _ \<Rightarrow> True)"
| "scoped org (Recipients _ g _) \<longleftrightarrow> g = org"
| "scoped org Everything \<longleftrightarrow> True"
| "scoped org (Column _ _) \<longleftrightarrow> True"
| "scoped org (Archived _) \<longleftrightarrow> True"

lemma conversation_own:
  "case t of WithInbound g _ \<Rightarrow> g = org | _ \<Rightarrow> True \<Longrightarrow> conversation_holds t (own_conversation org cv) = conversation_holds t cv"
  by (auto simp: conversation_holds_def own_conversation_def list_ex_iff split: conversation_test.split)

lemma list_ex_own: "(\<And>x. P x \<Longrightarrow> Q x) \<Longrightarrow> list_ex P (filter Q xs) = list_ex P xs"
  by (auto simp: list_ex_iff)

lemma scoped_own: "scoped org w \<Longrightarrow> selects env w (own_rows org c) = selects env w c"
proof (induction env w c rule: selects.induct)
  case (2 env as os c)
  have "selects env x (own_rows org c) = selects env x c" if "x \<in> set as \<or> x \<in> set os" for x
    using that 2 by (cases os) (auto simp: list_all_iff)
  then show ?case unfolding selects.simps by (simp cong: map_cong)
next
  case (5 env ws c)
  then show ?case by (simp add: list_all_iff cong: map_cong)
next
  case (9 env some g t c)
  then have "list_ex (\<lambda>cv. fv_organization cv = org \<and> conversation_holds t cv) (map (own_conversation org) (filter (\<lambda>cv. fv_organization cv = org) (cc_conversations c)))
      = list_ex (\<lambda>cv. fv_organization cv = org \<and> conversation_holds t cv) (cc_conversations c)"
    using conversation_own [where t = t and org = org] by (auto simp: list_ex_iff) (auto simp: own_conversation_def)
  with 9 show ?case by (simp add: own_rows_def)
qed (auto simp: own_rows_def list_ex_iff)

lemma flagged_scoped [simp]: "scoped org (flagged rule w) = scoped org w"
  by (simp add: flagged_def)

lemma compileRule_scoped: "compileRule env org r = Inr w \<Longrightarrow> scoped org w"
proof -
  have activity: "activityPredicate env org r = Inr w \<Longrightarrow> scoped org w"
    by (auto simp: activityPredicate_def Let_def split: if_splits)
  have broadcast: "broadcastPredicate env org r = Inr w \<Longrightarrow> scoped org w"
    by (auto simp: broadcastPredicate_def Let_def split: if_splits)
  have tag: "compile_tag org r = Inr w \<Longrightarrow> scoped org w"
    by (auto simp: compile_tag_def Let_def split: if_splits)
  have custom: "compile_custom org r = Inr w \<Longrightarrow> scoped org w"
    by (auto simp: compile_custom_def Let_def split: if_splits)
  have negate: "scoped org (negatePredicate spec f (Column g t))" for spec f g t by (simp add: negatePredicate_def)
  have empty: "scoped org (emptyPredicate spec f b)" for spec f b by (simp add: emptyPredicate_def Let_def)
  have txts: "textPredicate spec f r = Inr w \<Longrightarrow> scoped org w" for spec f
    by (auto simp: textPredicate_def Let_def negate empty split: if_splits)
  have enum: "enumPredicate spec f r = Inr w \<Longrightarrow> scoped org w" for spec f
    by (auto simp: enumPredicate_def Let_def negate empty split: if_splits sum.splits)
  have date: "datePredicate env spec f r = Inr w \<Longrightarrow> scoped org w" for spec f
    by (auto simp: datePredicate_def Let_def split: if_splits sum.splits)
  have field: "compile_field env r = Inr w \<Longrightarrow> scoped org w"
    by (auto simp: compile_field_def Let_def dest: txts enum date split: if_splits option.splits filter_type.splits)
  show "compileRule env org r = Inr w \<Longrightarrow> scoped org w"
    by (auto simp: compileRule_def Let_def dest: activity broadcast field tag custom split: if_splits)
qed

lemma mapE_list_all: "mapE f xs = Inr ys \<Longrightarrow> (\<And>x y. x \<in> set xs \<Longrightarrow> f x = Inr y \<Longrightarrow> P y) \<Longrightarrow> list_all P ys"
  by (auto simp: list_all_iff dest: mapE_set)

lemma compileGroup_Inr:
  "compileGroup env org d node = Inr w \<longleftrightarrow>
     (\<exists>as os vs ws. mapped_children (get (lit ''$and'') node) = Inr as \<and> mapped_children (get (lit ''$or'') node) = Inr os
        \<and> mapE (compileNode env org (d + 1)) as = Inr vs \<and> mapE (compileNode env org (d + 1)) os = Inr ws \<and> w = group_where vs ws)"
  by (auto simp: compileGroup.simps split: sum.splits)

lemma compile_scoped:
  "compileNode env org d node = Inr w \<Longrightarrow> scoped org w"
  "compileGroup env org d node = Inr w \<Longrightarrow> scoped org w"
proof (induction env org d node and env org d node arbitrary: w and w rule: compileNode_compileGroup.induct)
  case (1 env org d node)
  then show ?case by (auto simp: compileNode.simps compileRule_scoped split: if_splits)
next
  case (2 env org d node)
  from "2.prems" obtain as os vs ws where w: "mapped_children (get (lit ''$and'') node) = Inr as" "mapped_children (get (lit ''$or'') node) = Inr os"
    "mapE (compileNode env org (d + 1)) as = Inr vs" "mapE (compileNode env org (d + 1)) os = Inr ws" "w = group_where vs ws"
    unfolding compileGroup_Inr by blast
  have "list_all (scoped org) vs" using w(3) by (rule mapE_list_all) (rule "2.IH"(1) [OF w(1)])
  moreover have "list_all (scoped org) ws" using w(4) by (rule mapE_list_all) (rule "2.IH"(2) [OF w(1,3,2)])
  moreover note w(5)
  ultimately show ?case by (simp add: group_where_def)
qed


text \<open>Another organization's tag of the same name does not count.\<close>

definition vip_filter :: json where
  "vip_filter = group_of ''$and'' [rule_of ''tag'' ''vip'' ''isEqualTo'' (JStr (lit ''vip''))]"

lemma vip_compiles:
  "contactWhereFromFilterDsl plain_env vip_filter (lit ''o1'') = Inr (Both [Tags True (lit ''o1'') (Named (lit ''vip''))] [])"
proof -
  have t: "text_value (JStr (lit ''vip'')) = lit ''vip''" by (rule text_value_lit; simp add: lit_def is_ws_def)
  have "compileRule plain_env (lit ''o1'') (rule_of ''tag'' ''vip'' ''isEqualTo'' (JStr (lit ''vip'')))
    = Inr (Tags True (lit ''o1'') (Named (lit ''vip'')))"
    by (simp add: compileRule_def compile_tag_def Let_def t)
  then show ?thesis
    by (simp add: contactWhereFromFilterDsl_def vip_filter_def compileGroup.simps compileNode.simps mapped_children_def
        MAX_FILTER_DEPTH_def group_where_def)
qed


section \<open>Validation\<close>

text \<open>Every group of the tree has one list.\<close>

function unmixed :: "json \<Rightarrow> bool" where
  "unmixed node =
     (case (get (lit ''$and'') node, get (lit ''$or'') node) of
        (JArr xs, JUndef) \<Rightarrow> list_all unmixed xs
      | (JUndef, JArr xs) \<Rightarrow> list_all unmixed xs
      | (JUndef, JUndef) \<Rightarrow> True
      | _ \<Rightarrow> False)"
  by pat_completeness auto
termination by (relation "measure size") (auto dest!: size_get_elem [OF sym])

declare unmixed.simps [simp del]

lemma unmixed_cases:
  assumes "unmixed node"
  obtains (plain) "\<not> isGroup node" "get (lit ''$and'') node = JUndef" "get (lit ''$or'') node = JUndef"
  | (all) xs where "isGroup node" "get (lit ''$and'') node = JArr xs" "get (lit ''$or'') node = JUndef" "\<forall>x \<in> set xs. unmixed x"
  | (any) xs where "isGroup node" "get (lit ''$and'') node = JUndef" "get (lit ''$or'') node = JArr xs" "\<forall>x \<in> set xs. unmixed x"
  using assms by (cases "get (lit ''$and'') node"; cases "get (lit ''$or'') node")
    (auto simp: unmixed.simps [of node] isGroup_def is_array_def list_all_iff)

lemma mapped_children_simps [simp]: "mapped_children (JArr xs) = Inr xs" "mapped_children JUndef = Inr []"
  by (simp_all add: mapped_children_def)

lemma mapE_Nils: "(\<exists>ys. mapE f xs = Inr ys \<and> (\<forall>y \<in> set ys. y = [])) \<longleftrightarrow> (\<forall>x \<in> set xs. f x = Inr [])"
  by (induction xs) (auto split: sum.splits)

lemma indexed_all: "(\<forall>x \<in> set (indexed xs). P x) \<longleftrightarrow> (\<forall>i < length xs. P (i, xs ! i))"
  by (auto simp: set_indexed Ball_def)

lemma compileGroup_one:
  assumes "get (lit k) node = JArr xs" and "get (lit k') node = JUndef" and "(k, k') = (''$and'', ''$or'') \<or> (k, k') = (''$or'', ''$and'')"
  shows "(\<exists>w. compileGroup env org d node = Inr w) \<longleftrightarrow> (\<forall>x \<in> set xs. \<exists>w. compileNode env org (d + 1) x = Inr w)"
  using assms by (auto simp: compileGroup_Inr mapE_all [symmetric])

lemma indexed_iff:
  "(\<And>i x. (i, x) \<in> set (indexed xs) \<Longrightarrow> P i x \<longleftrightarrow> Q x) \<Longrightarrow> (\<forall>i < length xs. P i (xs ! i)) \<longleftrightarrow> (\<forall>x \<in> set xs. Q x)"
  by (auto simp: set_indexed all_set_conv_all_nth)

text \<open>Validation asks the compiler about every rule, and agrees with it on the whole tree.\<close>

lemma collect_compiles:
  "unmixed node \<Longrightarrow> collectNodeErrors env org d path node = Inr [] \<longleftrightarrow> (\<exists>w. compileNode env org d node = Inr w)"
proof (induction env org d path node rule: collectNodeErrors.induct)
  case (1 env org d path node)
  show ?case
  proof (cases "d > MAX_FILTER_DEPTH")
    case True
    then show ?thesis by (simp add: collectNodeErrors.simps compileNode.simps)
  next
    case depth: False
    from "1.prems" show ?thesis
    proof (cases node rule: unmixed_cases)
      case plain
      with depth show ?thesis by (simp add: collectNodeErrors.simps [of env org d path node] compileNode.simps [of env org d node] split: sum.split)
    next
      case (all xs)
      have "collectNodeErrors env org (d + 1) (child_path path False i) x = Inr [] \<longleftrightarrow> (\<exists>w. compileNode env org (d + 1) x = Inr w)"
        if "(i, x) \<in> set (indexed xs)" for i x
      proof -
        have "(if truthy (get (lit ''$or'') node) then get (lit ''$or'') node else get (lit ''$and'') node) = JArr xs" by (simp add: all(2,3))
        from "1.IH" [OF depth all(1) refl refl this that refl] all(3,4) indexed_elem [OF that] show ?thesis by simp
      qed
      then have "(\<forall>i < length xs. collectNodeErrors env org (d + 1) (child_path path False i) (xs ! i) = Inr [])
        \<longleftrightarrow> (\<forall>x \<in> set xs. \<exists>w. compileNode env org (d + 1) x = Inr w)"
        by (rule indexed_iff)
      with depth all(1-3) show ?thesis
        by (simp add: collectNodeErrors.simps [of env org d path node] compileNode.simps [of env org d node] mapE_Nils indexed_all
            compileGroup_one [OF all(2,3)])
    next
      case (any xs)
      have "collectNodeErrors env org (d + 1) (child_path path True i) x = Inr [] \<longleftrightarrow> (\<exists>w. compileNode env org (d + 1) x = Inr w)"
        if "(i, x) \<in> set (indexed xs)" for i x
      proof -
        have "(if truthy (get (lit ''$or'') node) then get (lit ''$or'') node else get (lit ''$and'') node) = JArr xs" by (simp add: any(2,3))
        from "1.IH" [OF depth any(1) refl refl this that refl] any(3,4) indexed_elem [OF that] show ?thesis by simp
      qed
      then have "(\<forall>i < length xs. collectNodeErrors env org (d + 1) (child_path path True i) (xs ! i) = Inr [])
        \<longleftrightarrow> (\<forall>x \<in> set xs. \<exists>w. compileNode env org (d + 1) x = Inr w)"
        by (rule indexed_iff)
      with depth any(1-3) show ?thesis
        by (simp add: collectNodeErrors.simps [of env org d path node] compileNode.simps [of env org d node] mapE_Nils indexed_all
            compileGroup_one [OF any(3,2)])
    qed
  qed
qed

text \<open>C29: Validation is compilation, where every group has one list. A filter is accepted exactly when it has a rule and the compiler
  takes it, so what was stored as a segment compiles when a campaign uses it.\<close>
theorem validated_filter_compiles:
  assumes "unmixed f" and "org \<noteq> []"
  shows "validateContactFilter env f org = Inr []
     \<longleftrightarrow> isGroup f \<and> hasAnyRule f = Inr True \<and> (\<exists>w. contactWhereFromFilterDsl env f org = Inr w)"
proof -
  have obj: "\<exists>kvs. f = JObj kvs" if "isGroup f" using that by (cases f) (auto simp: isGroup_def get_def is_array_def)
  show ?thesis
  proof (cases "isGroup f")
    case True
    with obj obtain kvs where f: "f = JObj kvs" by blast
    have "compileNode env org 0 f = contactWhereFromFilterDsl env f org"
      using True f assms(2) by (simp add: contactWhereFromFilterDsl_def compileNode.simps)
    with True f collect_compiles [OF assms(1), of env org 0 "lit ''$''"] show ?thesis
      by (auto simp: validateContactFilter_def split: sum.split bool.split)
  qed (simp add: validateContactFilter_def)
qed

theorem validated_filter_compiles_witness:
  "validateContactFilter plain_env consent_filter (lit ''o1'') = Inr []"
proof -
  have g: "isGroup consent_filter" by (simp add: consent_filter_def isGroup_def is_array_def)
  have "unmixed (rule_of a b c v)" for a b c v by (simp add: unmixed.simps rule_of_def)
  then have u: "unmixed consent_filter" by (simp add: unmixed.simps consent_filter_def)
  have "hasAnyRule (rule_of a b c v) = Inr True" for a b c v by (simp add: hasAnyRule.simps)
  then have "hasAnyRule consent_filter = Inr True"
    using g by (simp add: hasAnyRule.simps [of consent_filter]) (simp add: consent_filter_def group_children_def spread_children_def)
  with validated_filter_compiles [OF u, of "lit ''o1''" plain_env] g consent_compiles show ?thesis by simp
qed

text \<open>A group with both lists, and rules that are no groups in the first.\<close>

definition mixed_group :: "json list \<Rightarrow> json list \<Rightarrow> json" where
  "mixed_group as os = JObj [(lit ''$and'', JArr as), (lit ''$or'', JArr os)]"

lemma someE_plain: "(\<forall>x \<in> set xs. f x = Inr True) \<Longrightarrow> someE f xs = Inr (xs \<noteq> [])"
  by (cases xs) auto

lemma someE_append: "someE f xs = Inr b \<Longrightarrow> someE f (xs @ ys) = (if b then Inr True else someE f ys)"
  by (induction xs) (auto split: sum.splits bool.splits)

text \<open>The validator overlooks one of the lists of a group that has both. Whatever rule stands under \<open>$and\<close>, a filter that was
  accepted with its \<open>$or\<close> list alone is accepted with the rule beside it; and when the compiler refuses the rule,
  the filter that was stored as valid cannot be used.\<close>
theorem mixed_group_escapes_validation:
  assumes "validateContactFilter env (group_of ''$or'' os) org = Inr []" and "org \<noteq> []"
    and rule: "truthy rule" "\<not> isGroup rule" and "compileRule env org rule = Inl e"
  shows "validateContactFilter env (mixed_group [rule] os) org = Inr [] \<and> contactWhereFromFilterDsl env (mixed_group [rule] os) org = Inl e"
proof -
  have "hasAnyRule (mixed_group [rule] os) = Inr True"
  proof -
    have "hasAnyRule rule = Inr True" using rule by (simp add: hasAnyRule.simps)
    then show ?thesis
      by (subst hasAnyRule.simps) (simp add: mixed_group_def isGroup_def is_array_def group_children_def spread_children_def)
  qed
  moreover have "collectNodeErrors env org 0 (lit ''$'') (mixed_group [rule] os) = collectNodeErrors env org 0 (lit ''$'') (group_of ''$or'' os)"
    by (simp add: collectNodeErrors.simps [of env org 0 "lit ''$''" "mixed_group [rule] os"]
        collectNodeErrors.simps [of env org 0 "lit ''$''" "group_of ''$or'' os"]) (simp add: mixed_group_def group_of_def isGroup_def is_array_def)
  moreover have "contactWhereFromFilterDsl env (mixed_group [rule] os) org = Inl e"
    using assms(2-5) by (simp add: contactWhereFromFilterDsl_def mixed_group_def compileGroup.simps compileNode.simps [of _ _ "Suc 0" rule] MAX_FILTER_DEPTH_def)
  ultimately show ?thesis
    using assms(1) by (auto simp: validateContactFilter_def mixed_group_def group_of_def isGroup_def is_array_def split: sum.splits bool.splits)
qed

lemma untagged_valid: "validateContactFilter plain_env (group_of ''$or'' [rule_of ''tag'' ''vip'' ''isEmpty'' JUndef]) (lit ''o1'') = Inr []"
  by (simp add: validateContactFilter_def hasAnyRule.simps collectNodeErrors.simps group_of_def isGroup_def is_array_def group_children_def
      spread_children_def MAX_FILTER_DEPTH_def rule_of_def indexed_def compileRule_def compile_tag_def Let_def op_is_def)

theorem mixed_group_escapes_validation_witness:
  "validateContactFilter plain_env (mixed_group [rule_of ''contactField'' ''city'' ''isEmpty'' JUndef] [rule_of ''tag'' ''vip'' ''isEmpty'' JUndef]) (lit ''o1'') = Inr []"
proof -
  have "compileRule plain_env (lit ''o1'') (rule_of ''contactField'' ''city'' ''isEmpty'' JUndef) = Inl (UnknownField (lit ''city''))"
    by (simp add: compileRule_def compile_field_def CONTACT_FIELDS_def Let_def)
  with mixed_group_escapes_validation [OF untagged_valid _ _ _ this] show ?thesis by simp
qed

section \<open>Campaigns\<close>

text \<open>The campaigns a query asks about.\<close>

fun asked_campaigns :: "where_input \<Rightarrow> jstr set" where
  "asked_campaigns (Both as os) = (\<Union>w \<in> set as \<union> set os. asked_campaigns w)"
| "asked_campaigns (Negated w) = asked_campaigns w"
| "asked_campaigns (AnyOf ws) = (\<Union>w \<in> set ws. asked_campaigns w)"
| "asked_campaigns (Recipients _ _ (Received i)) = {i}"
| "asked_campaigns (Recipients _ _ (ReadBy i)) = {i}"
| "asked_campaigns _ = {}"

lemma rule_campaigns: "compileRule env org r = Inr w \<Longrightarrow> asked_campaigns w \<subseteq> insert [] (set (rule_campaign r)) \<and> truthy r"
proof -
  assume c: "compileRule env org r = Inr w"
  have flagged: "asked_campaigns (flagged r x) = asked_campaigns x" for x by (simp add: flagged_def)
  have negate: "asked_campaigns (negatePredicate spec f (Column g t)) = {}" for spec f g t by (simp add: negatePredicate_def)
  have empty: "asked_campaigns (emptyPredicate spec f b) = {}" for spec f b by (simp add: emptyPredicate_def Let_def)
  have activity: "activityPredicate env org r = Inr w \<Longrightarrow> asked_campaigns w = {}"
    by (auto simp: activityPredicate_def Let_def flagged split: if_splits)
  have tag: "compile_tag org r = Inr w \<Longrightarrow> asked_campaigns w = {}"
    by (auto simp: compile_tag_def Let_def split: if_splits)
  have custom: "compile_custom org r = Inr w \<Longrightarrow> asked_campaigns w = {}"
    by (auto simp: compile_custom_def Let_def split: if_splits)
  have txts: "textPredicate spec f r = Inr w \<Longrightarrow> asked_campaigns w = {}" for spec f
    by (auto simp: textPredicate_def Let_def negate empty split: if_splits)
  have enum: "enumPredicate spec f r = Inr w \<Longrightarrow> asked_campaigns w = {}" for spec f
    by (auto simp: enumPredicate_def Let_def negate empty split: if_splits sum.splits)
  have date: "datePredicate env spec f r = Inr w \<Longrightarrow> asked_campaigns w = {}" for spec f
    by (auto simp: datePredicate_def Let_def split: if_splits sum.splits)
  have field: "compile_field env r = Inr w \<Longrightarrow> asked_campaigns w = {}"
    using txts enum date by (auto simp: compile_field_def Let_def split: if_splits option.splits filter_type.splits)
  have broadcast: "broadcastPredicate env org r = Inr w \<Longrightarrow> get (lit ''category'') r = JStr (lit ''broadcast'')
      \<Longrightarrow> asked_campaigns w \<subseteq> insert [] (set (rule_campaign r))"
    by (auto simp: broadcastPredicate_def rule_campaign_def Let_def split: if_splits)
  have "truthy r" using c by (cases r) (auto simp: compileRule_def get_def)
  with c show ?thesis
    by (auto simp: compileRule_def Let_def dest: activity field tag custom broadcast [THEN subsetD] split: if_splits)
qed

lemma spread_mapped: "mapped_children v = Inr xs \<Longrightarrow> spread_children v = Inr ys \<Longrightarrow> set xs \<subseteq> set ys"
  by (cases v) (auto simp: mapped_children_def spread_children_def split: if_splits)

lemma campaign_walk_kids:
  assumes "campaign_walk node = Inr ids" and "isGroup node" and "get k node = v" "k = lit ''$and'' \<or> k = lit ''$or''"
    and "mapped_children v = Inr xs" and "x \<in> set xs"
  shows "\<exists>is. campaign_walk x = Inr is \<and> set is \<subseteq> set ids"
proof -
  have "truthy node" using assms(2) by (cases node) (auto simp: isGroup_def is_array_def get_def)
  with assms(1,2) obtain kids rs where k: "group_children node = Inr kids" "mapE campaign_walk kids = Inr rs" "ids = concat rs"
    by (auto simp: campaign_walk.simps [of node] split: sum.splits)
  from k(1) assms(3-6) have "x \<in> set kids" by (auto simp: group_children_def split: sum.splits dest: spread_mapped [THEN subsetD])
  with k(2) obtain r where "r \<in> set rs" "campaign_walk x = Inr r" using mapE_in by metis
  with k(3) show ?thesis by auto
qed

lemma compile_campaigns:
  "compileNode env org d node = Inr w \<Longrightarrow> campaign_walk node = Inr ids \<Longrightarrow> asked_campaigns w \<subseteq> insert [] (set ids)"
  "compileGroup env org d node = Inr w \<Longrightarrow> isGroup node \<Longrightarrow> campaign_walk node = Inr ids \<Longrightarrow> asked_campaigns w \<subseteq> insert [] (set ids)"
proof (induction env org d node and env org d node arbitrary: w ids and w ids rule: compileNode_compileGroup.induct)
  case (1 env org d node)
  show ?case
  proof (cases "isGroup node")
    case True
    with "1.prems" "1.IH" show ?thesis by (simp add: compileNode.simps [of env org d node] split: if_splits)
  next
    case False
    with "1.prems" have "compileRule env org node = Inr w" by (simp add: compileNode.simps [of env org d node] split: if_splits)
    with False "1.prems"(2) rule_campaigns [OF this] show ?thesis by (simp add: campaign_walk.simps [of node])
  qed
next
  case (2 env org d node)
  from "2.prems"(1) obtain as os vs ws where w: "mapped_children (get (lit ''$and'') node) = Inr as" "mapped_children (get (lit ''$or'') node) = Inr os"
    "mapE (compileNode env org (d + 1)) as = Inr vs" "mapE (compileNode env org (d + 1)) os = Inr ws" "w = group_where vs ws"
    unfolding compileGroup_Inr by blast
  note kids = campaign_walk_kids [OF "2.prems"(3,2) refl]
  have "asked_campaigns v \<subseteq> insert [] (set ids)" if v: "v \<in> set vs" for v
  proof -
    from mapE_set [OF w(3) v] obtain x where x: "x \<in> set as" "compileNode env org (d + 1) x = Inr v" by blast
    from kids [OF disjI1 [OF refl] w(1) x(1)] obtain i where "campaign_walk x = Inr i" "set i \<subseteq> set ids" by blast
    with "2.IH"(1) [OF w(1) x] show ?thesis by blast
  qed
  moreover have "asked_campaigns v \<subseteq> insert [] (set ids)" if v: "v \<in> set ws" for v
  proof -
    from mapE_set [OF w(4) v] obtain x where x: "x \<in> set os" "compileNode env org (d + 1) x = Inr v" by blast
    from kids [OF disjI2 [OF refl] w(2) x(1)] obtain i where "campaign_walk x = Inr i" "set i \<subseteq> set ids" by blast
    with "2.IH"(2) [OF w(1,3,2) x] show ?thesis by blast
  qed
  ultimately show ?case by (auto simp: w(5) group_where_def)
qed

text \<open>A filter that passed the check of its campaigns asks about no campaign of another organization. Of the campaigns the compiled
  query asks about, each is one of the organization's, or the empty id, which no campaign has.\<close>
theorem checked_filter_asks_own_campaigns:
  assumes "missingCampaignIds campaigns f = Inr []" and "contactWhereFromFilterDsl env f org = Inr w"
  shows "asked_campaigns w \<subseteq> insert [] (set campaigns)"
proof (cases "truthy f \<and> isGroup f")
  case True
  with assms obtain ids where ids: "campaign_walk f = Inr ids" "set ids \<subseteq> set campaigns" "compileGroup env org 0 f = Inr w"
    by (auto simp: missingCampaignIds_def campaignIdsInFilter_def contactWhereFromFilterDsl_def filter_empty_conv eq_commute [of "[]"] split: if_splits)
  with compile_campaigns(2) [OF ids(3) _ ids(1)] True show ?thesis by blast
next
  case False
  with assms(2) show ?thesis
    by (auto simp: contactWhereFromFilterDsl_def compileGroup_Inr isGroup_def is_array_def mapped_children_def group_where_def split: if_splits json.splits)
qed

definition readers_filter :: json where
  "readers_filter = group_of ''$and'' [rule_of ''broadcast'' ''readCampaign'' ''isEqualTo'' (JStr (lit ''c1''))]"

theorem checked_filter_asks_own_campaigns_witness:
  "\<exists>w. contactWhereFromFilterDsl plain_env readers_filter (lit ''o1'') = Inr w \<and> asked_campaigns w \<noteq> {} \<and> asked_campaigns w \<subseteq> {[], lit ''c1''}"
proof -
  have t: "text_value (JStr (lit ''c1'')) = lit ''c1''" by (rule text_value_lit; simp add: lit_def is_ws_def)
  have "compileRule plain_env (lit ''o1'') (rule_of ''broadcast'' ''readCampaign'' ''isEqualTo'' (JStr (lit ''c1'')))
    = Inr (Recipients True (lit ''o1'') (ReadBy (lit ''c1'')))"
    by (simp add: compileRule_def broadcastPredicate_def Let_def t)
  then have w: "contactWhereFromFilterDsl plain_env readers_filter (lit ''o1'') = Inr (Both [Recipients True (lit ''o1'') (ReadBy (lit ''c1''))] [])"
    by (simp add: contactWhereFromFilterDsl_def readers_filter_def compileGroup.simps compileNode.simps mapped_children_def
        MAX_FILTER_DEPTH_def group_where_def)
  have "campaign_walk (rule_of ''broadcast'' ''readCampaign'' ''isEqualTo'' (JStr (lit ''c1''))) = Inr [lit ''c1'']"
    by (simp add: campaign_walk.simps rule_campaign_def t Let_def)
  then have "campaign_walk readers_filter = Inr [lit ''c1'']"
    by (subst campaign_walk.simps) (simp add: readers_filter_def isGroup_def is_array_def group_children_def spread_children_def)
  then have "missingCampaignIds [lit ''c1''] readers_filter = Inr []" by (simp add: missingCampaignIds_def campaignIdsInFilter_def)
  from checked_filter_asks_own_campaigns [OF this w] w show ?thesis by auto
qed

end
