(* ===== verification/Campaign_Props.thy ===== *)
theory Campaign_Props
  imports Campaign Contact_Filter_Props
begin

text \<open>
  Campaigns over histories of requests, scans, jobs, receipts and changes of the rows around them: nobody is written to
  twice, the list is drawn from who consents on the day and the report adds up; and a
  campaign whose last job fails never ends, consent is not asked again, quiet hours cannot be switched on, and an
  erased contact is written to again.
\<close>

section \<open>Frames\<close>

lemma upd_campaign_frame [frame_simps]:
  "kw_jobs (upd_campaign i f w) = kw_jobs w" "kw_open (upd_campaign i f w) = kw_open w" "kw_outbox (upd_campaign i f w) = kw_outbox w"
  "kw_recipients (upd_campaign i f w) = kw_recipients w" "kw_contacts (upd_campaign i f w) = kw_contacts w"
  "kw_config (upd_campaign i f w) = kw_config w" "kw_now (upd_campaign i f w) = kw_now w" "kw_sessions (upd_campaign i f w) = kw_sessions w"
  by (simp_all add: upd_campaign_def)

lemma upd_recipient_frame [frame_simps]:
  "kw_jobs (upd_recipient i f w) = kw_jobs w" "kw_open (upd_recipient i f w) = kw_open w" "kw_outbox (upd_recipient i f w) = kw_outbox w"
  "kw_campaigns (upd_recipient i f w) = kw_campaigns w" "kw_contacts (upd_recipient i f w) = kw_contacts w"
  "kw_config (upd_recipient i f w) = kw_config w" "kw_now (upd_recipient i f w) = kw_now w"
  by (simp_all add: upd_recipient_def)

lemma mark_failed_frame [frame_simps]:
  "kw_jobs (mark_failed d e w) = kw_jobs w" "kw_open (mark_failed d e w) = kw_open w" "kw_outbox (mark_failed d e w) = kw_outbox w"
  "kw_campaigns (mark_failed d e w) = kw_campaigns w" "kw_config (mark_failed d e w) = kw_config w" "kw_now (mark_failed d e w) = kw_now w"
  by (simp_all add: mark_failed_def frame_simps)

lemma deliver_frame [frame_simps]:
  "kw_jobs (deliver d w) = kw_jobs w" "kw_open (deliver d w) = kw_open w" "kw_outbox (deliver d w) = kw_outbox w @ [d]"
  "kw_campaigns (deliver d w) = kw_campaigns w" "kw_recipients (deliver d w) = kw_recipients w" "kw_config (deliver d w) = kw_config w"
  "kw_now (deliver d w) = kw_now w"
  by (simp_all add: deliver_def)

lemma enqueue_frame [frame_simps]:
  "kw_open (enqueue j w) = kw_open w" "kw_outbox (enqueue j w) = kw_outbox w" "kw_recipients (enqueue j w) = kw_recipients w"
  "kw_campaigns (enqueue j w) = kw_campaigns w" "kw_config (enqueue j w) = kw_config w" "kw_now (enqueue j w) = kw_now w"
  by (simp_all add: enqueue_def)

lemma fold_enqueue_frame [frame_simps]:
  "kw_open (fold enqueue js w) = kw_open w" "kw_outbox (fold enqueue js w) = kw_outbox w" "kw_recipients (fold enqueue js w) = kw_recipients w"
  "kw_campaigns (fold enqueue js w) = kw_campaigns w" "kw_config (fold enqueue js w) = kw_config w" "kw_now (fold enqueue js w) = kw_now w"
  by (induction js arbitrary: w) (simp_all add: frame_simps)

lemma upd_send_job_frame [frame_simps]:
  "kw_open (upd_send_job i f w) = kw_open w" "kw_outbox (upd_send_job i f w) = kw_outbox w" "kw_recipients (upd_send_job i f w) = kw_recipients w"
  "kw_campaigns (upd_send_job i f w) = kw_campaigns w" "kw_config (upd_send_job i f w) = kw_config w" "kw_now (upd_send_job i f w) = kw_now w"
  by (simp_all add: upd_send_job_def)

lemma campaign_completed_frame [frame_simps]:
  "kw_jobs (campaign_completed i w) = kw_jobs w" "kw_open (campaign_completed i w) = kw_open w" "kw_outbox (campaign_completed i w) = kw_outbox w"
  "kw_recipients (campaign_completed i w) = kw_recipients w" "kw_config (campaign_completed i w) = kw_config w"
  by (simp_all add: campaign_completed_def frame_simps)

lemma draw_up_frame [frame_simps]:
  "kw_jobs (snd (draw_up env cid rid c w)) = kw_jobs w" "kw_open (snd (draw_up env cid rid c w)) = kw_open w"
  "kw_outbox (snd (draw_up env cid rid c w)) = kw_outbox w" "kw_config (snd (draw_up env cid rid c w)) = kw_config w"
  "kw_campaigns (snd (draw_up env cid rid c w)) = kw_campaigns w @ [(cid, c)]"
  "set (kw_recipients w) \<subseteq> set (kw_recipients (snd (draw_up env cid rid c w)))"
  by (auto simp: draw_up_def Let_def split: sum.splits)

text \<open>A request leaves the world or draws a campaign up.\<close>

lemma create_cases:
  assumes "P w" and "\<And>c. cp_status c = C_DRAFT \<Longrightarrow> P (snd (draw_up env cid rid c w))"
  shows "P (snd (create_campaign env parse cid rid title m u t a k w))"
  using assms by (simp add: create_campaign_def split: option.split)

lemma clone_cases:
  assumes "P w" and "\<And>c. cp_status c = C_DRAFT \<Longrightarrow> P (snd (draw_up env cid rid c w))"
  shows "P (snd (clone_campaign env parse cid rid source title w))"
  using assms by (simp add: clone_campaign_def Let_def split: option.split)

lemma patch_frame [frame_simps]:
  "kw_jobs (snd (patch_workspace_settings known body w)) = kw_jobs w" "kw_open (snd (patch_workspace_settings known body w)) = kw_open w"
  "kw_outbox (snd (patch_workspace_settings known body w)) = kw_outbox w" "kw_recipients (snd (patch_workspace_settings known body w)) = kw_recipients w"
  "kw_campaigns (snd (patch_workspace_settings known body w)) = kw_campaigns w" "kw_contacts (snd (patch_workspace_settings known body w)) = kw_contacts w"
  by (simp_all add: patch_workspace_settings_def Let_def split: option.splits sum.splits)

lemma receipt_frame [frame_simps]:
  "kw_jobs (receive_receipt i s w) = kw_jobs w" "kw_open (receive_receipt i s w) = kw_open w" "kw_outbox (receive_receipt i s w) = kw_outbox w"
  "kw_campaigns (receive_receipt i s w) = kw_campaigns w" "kw_config (receive_receipt i s w) = kw_config w"
  by (simp_all add: receive_receipt_def frame_simps split: option.splits)

lemma send_jobs_data:
  "j \<in> set (send_jobs w i c) \<Longrightarrow> \<exists>r \<in> set (kw_recipients w). sd_campaignId (sj_data j) = i \<and> sd_recipientId (sj_data j) = cr_id r
     \<and> sj_id j = SendId i (cr_id r) \<and> sj_state j = Job_Waits"
  by (auto simp: send_jobs_def send_job_for_def pending_recipients_def dest!: indexed_elem)

section \<open>One message each\<close>

definition keyed :: "jstr \<Rightarrow> jstr \<Rightarrow> send_job \<Rightarrow> bool" where
  "keyed c r j \<longleftrightarrow> sd_campaignId (sj_data j) = c \<and> sd_recipientId (sj_data j) = r"

definition open_jobs :: "kworld \<Rightarrow> send_job set" where "open_jobs w = (\<Union>(_, js) \<in> set (kw_open w). set js)"

definition sent_for :: "jstr \<Rightarrow> jstr \<Rightarrow> kworld \<Rightarrow> nat" where
  "sent_for c r w = length (filter (\<lambda>d. sd_campaignId d = c \<and> sd_recipientId d = r) (kw_outbox w))"

definition live_for :: "jstr \<Rightarrow> jstr \<Rightarrow> send_job list \<Rightarrow> nat" where
  "live_for c r js = length (filter (\<lambda>j. keyed c r j \<and> sj_state j \<noteq> Job_Done) js)"

definition first_job_ok :: "send_job \<Rightarrow> bool" where
  "first_job_ok j \<longleftrightarrow> sj_id j = SendId (sd_campaignId (sj_data j)) (sd_recipientId (sj_data j)) \<and> sj_state j = Job_Waits"

definition row_there :: "kworld \<Rightarrow> send_job \<Rightarrow> bool" where
  "row_there w j \<longleftrightarrow> sd_recipientId (sj_data j) \<in> cr_id ` set (kw_recipients w)"

text \<open>
  Of the jobs of a recipient one at most is not done, the first is known to the queue for good, and a message is sent when the
  job that sends it is done.
\<close>

definition jobs_ok :: "jstr \<Rightarrow> jstr \<Rightarrow> kworld \<Rightarrow> bool" where
  "jobs_ok c r w \<longleftrightarrow>
     distinct (map sj_id (kw_jobs w)) \<and> (\<forall>j \<in> set (kw_jobs w) \<union> open_jobs w. row_there w j) \<and> (\<forall>j \<in> open_jobs w. first_job_ok j)
     \<and> (\<forall>j \<in> set (kw_jobs w). keyed c r j \<longrightarrow> SendId c r \<in> sj_id ` set (kw_jobs w))
     \<and> (\<forall>j \<in> set (kw_jobs w). sj_id j = SendId c r \<longrightarrow> keyed c r j)"

definition once :: "jstr \<Rightarrow> jstr \<Rightarrow> kworld \<Rightarrow> bool" where
  "once c r w \<longleftrightarrow>
     jobs_ok c r w \<and> (SendId c r \<notin> sj_id ` set (kw_jobs w) \<longrightarrow> sent_for c r w = 0) \<and> sent_for c r w + live_for c r (kw_jobs w) \<le> 1"

definition calm :: "campaign_event \<Rightarrow> bool" where
  "calm e \<longleftrightarrow> (case e of Run_Job _ (Unrecorded _) \<Rightarrow> False | Erase_Contact _ \<Rightarrow> False | _ \<Rightarrow> True)"

lemma once_cong:
  assumes "once c r w" and "kw_jobs w' = kw_jobs w" "kw_open w' = kw_open w" "kw_outbox w' = kw_outbox w"
    "cr_id ` set (kw_recipients w) \<subseteq> cr_id ` set (kw_recipients w')"
  shows "once c r w'"
proof -
  have "open_jobs w' = open_jobs w" "sent_for c r w' = sent_for c r w" using assms(3,4) by (simp_all add: open_jobs_def sent_for_def)
  moreover have "row_there w j \<Longrightarrow> row_there w' j" for j using assms(5) by (auto simp: row_there_def)
  ultimately show ?thesis using assms(1,2) unfolding once_def jobs_ok_def by simp
qed

lemma once_enqueue:
  assumes "once c r w" and "first_job_ok j" and "row_there w j"
  shows "once c r (enqueue j w)"
proof (cases "sj_id j \<in> sj_id ` set (kw_jobs w)")
  case True
  with assms(1) show ?thesis by (simp add: enqueue_def)
next
  case False
  have "live_for c r (kw_jobs w) = 0 \<and> sent_for c r w = 0" if "keyed c r j"
  proof -
    from that assms(2) False have "SendId c r \<notin> sj_id ` set (kw_jobs w)" by (simp add: first_job_ok_def keyed_def)
    with assms(1) show ?thesis by (auto simp: once_def jobs_ok_def live_for_def filter_empty_conv)
  qed
  moreover have "sj_id j = SendId c r \<longleftrightarrow> keyed c r j" using assms(2) by (auto simp: first_job_ok_def keyed_def)
  moreover have "open_jobs (enqueue j w) = open_jobs w" "sent_for c r (enqueue j w) = sent_for c r w" "row_there (enqueue j w) = row_there w"
    by (simp_all add: open_jobs_def sent_for_def row_there_def frame_simps fun_eq_iff)
  moreover have "kw_jobs (enqueue j w) = kw_jobs w @ [j]" using False by (simp add: enqueue_def)
  ultimately show ?thesis
    using assms False unfolding once_def jobs_ok_def by (auto simp: live_for_def)
qed

lemma once_fold_enqueue:
  "once c r w \<Longrightarrow> (\<And>j. j \<in> set js \<Longrightarrow> first_job_ok j \<and> row_there w j) \<Longrightarrow> once c r (fold enqueue js w)"
proof (induction js arbitrary: w)
  case (Cons j js)
  then show ?case by (auto simp: row_there_def frame_simps intro!: Cons.IH once_enqueue)
qed simp

lemma count_update:
  "distinct (map sj_id js) \<Longrightarrow> j \<in> set js \<Longrightarrow>
     length (filter P (map (\<lambda>x. if sj_id x = sj_id j then f x else x) js)) + (if P j then 1 else 0)
       = length (filter P js) + (if P (f j) then 1 else 0)"
proof (induction js)
  case (Cons x js)
  have same: "map (\<lambda>x. if sj_id x = i then f x else x) js = js" if "i \<notin> sj_id ` set js" for i
    using that by (induction js) auto
  show ?case
  proof (cases "x = j")
    case True
    with Cons.prems same [of "sj_id j"] show ?thesis by simp
  next
    case False
    with Cons.prems have "sj_id x \<noteq> sj_id j" "j \<in> set js" "distinct (map sj_id js)" by auto
    with Cons.IH show ?thesis by simp
  qed
qed simp

lemma map_ids: "(\<And>j. sj_id (f j) = sj_id j) \<Longrightarrow> map sj_id (map (\<lambda>x. if sj_id x = i then f x else x) js) = map sj_id js"
  by (induction js) auto

lemma find_job: "find (\<lambda>j. sj_id j = i) js = Some j \<Longrightarrow> j \<in> set js \<and> sj_id j = i"
  by (induction js) (auto split: if_splits)

text \<open>A turn of a job: it changes, leaves at most the one it is postponed to, and sends at most when it is done.\<close>

definition job_turn :: "send_job \<Rightarrow> (send_job \<Rightarrow> send_job) \<Rightarrow> send_job list \<Rightarrow> bool \<Rightarrow> kworld \<Rightarrow> kworld \<Rightarrow> bool" where
  "job_turn j f extra sent w w' \<longleftrightarrow>
     j \<in> set (kw_jobs w) \<and> sj_state j = Job_Waits \<and> (\<forall>x. sj_id (f x) = sj_id x \<and> sj_data (f x) = sj_data x)
     \<and> kw_jobs w' = map (\<lambda>x. if sj_id x = sj_id j then f x else x) (kw_jobs w) @ extra
     \<and> (extra = [] \<or> (\<exists>t ms. extra = [held_job (sj_data j) t ms]) \<and> sj_id (hd extra) \<notin> sj_id ` set (kw_jobs w) \<and> sj_state (f j) = Job_Done)
     \<and> kw_outbox w' = kw_outbox w @ (if sent then [sj_data j] else []) \<and> (sent \<longrightarrow> sj_state (f j) = Job_Done \<and> extra = [])
     \<and> kw_open w' = kw_open w \<and> cr_id ` set (kw_recipients w') = cr_id ` set (kw_recipients w)"

lemma held_job_simps [simp]:
  "sj_id (held_job d t ms) = HeldId (sd_campaignId d) (sd_recipientId d) t" "sj_data (held_job d t ms) = d" "sj_state (held_job d t ms) = Job_Waits"
  by (simp_all add: held_job_def)

lemma turn_ids:
  assumes "job_turn j f extra sent w w'"
  shows "map sj_id (kw_jobs w') = map sj_id (kw_jobs w) @ map sj_id extra"
proof -
  have "map sj_id (map (\<lambda>x. if sj_id x = sj_id j then f x else x) (kw_jobs w)) = map sj_id (kw_jobs w)"
    using assms by (intro map_ids) (simp add: job_turn_def)
  with assms show ?thesis by (simp only: job_turn_def map_append)
qed

lemma turn_jobs:
  assumes "job_turn j f extra sent w w'" and "x \<in> set (kw_jobs w')"
  shows "(\<exists>y \<in> set (kw_jobs w). sj_id x = sj_id y \<and> sj_data x = sj_data y) \<or> x \<in> set extra \<and> sj_data x = sj_data j \<and> (\<exists>a b t. sj_id x = HeldId a b t)"
proof -
  have keep: "sj_id (f y) = sj_id y" "sj_data (f y) = sj_data y" for y using assms(1) by (simp_all add: job_turn_def)
  from assms consider y where "y \<in> set (kw_jobs w)" "x = (if sj_id y = sj_id j then f y else y)" | "x \<in> set extra"
    by (auto simp only: job_turn_def set_append Un_iff set_map image_iff)
  then show ?thesis
  proof cases
    case 1
    with keep show ?thesis by (intro disjI1 bexI [of _ y]) auto
  next
    case 2
    with assms(1) show ?thesis by (auto simp: job_turn_def)
  qed
qed

lemma turn_jobs_ok:
  assumes inv: "jobs_ok c r w" and turn: "job_turn j f extra sent w w'"
  shows "jobs_ok c r w'"
proof -
  note ids = turn_ids [OF turn]
  have idset: "sj_id ` set (kw_jobs w') = sj_id ` set (kw_jobs w) \<union> sj_id ` set extra"
    using ids by (metis list.set_map set_append)
  have j: "j \<in> set (kw_jobs w)" and opens: "open_jobs w' = open_jobs w" and rows: "row_there w' x \<longleftrightarrow> row_there w x" for x
    using turn by (auto simp: job_turn_def open_jobs_def row_there_def)
  have origin: "\<exists>y \<in> set (kw_jobs w). sj_data x = sj_data y \<and> (sj_id x = SendId c r \<longrightarrow> sj_id y = SendId c r)" if "x \<in> set (kw_jobs w')" for x
    using turn_jobs [OF turn that] j by fastforce
  have "distinct (map sj_id (kw_jobs w'))"
  proof -
    from turn have "extra = [] \<or> (\<exists>h. extra = [h] \<and> sj_id h \<notin> sj_id ` set (kw_jobs w))"
      by (auto simp: job_turn_def simp del: held_job_simps)
    then have "sj_id ` set (kw_jobs w) \<inter> sj_id ` set extra = {}" "distinct (map sj_id extra)"
      by (elim disjE exE conjE; simp)+
    with inv show ?thesis unfolding ids jobs_ok_def by simp
  qed
  moreover have "row_there w' x" if x: "x \<in> set (kw_jobs w') \<union> open_jobs w'" for x
  proof (cases "x \<in> open_jobs w'")
    case True
    with inv show ?thesis unfolding rows opens jobs_ok_def by blast
  next
    case False
    with x origin obtain y where "y \<in> set (kw_jobs w)" "sj_data x = sj_data y" by blast
    moreover from this(1) inv have "row_there w y" unfolding jobs_ok_def by blast
    ultimately show ?thesis unfolding rows by (simp add: row_there_def)
  qed
  moreover have "\<forall>x \<in> open_jobs w'. first_job_ok x" using inv unfolding opens jobs_ok_def by blast
  moreover have "SendId c r \<in> sj_id ` set (kw_jobs w')" if x: "x \<in> set (kw_jobs w')" "keyed c r x" for x
  proof -
    from origin [OF x(1)] x(2) obtain y where "y \<in> set (kw_jobs w)" "keyed c r y" by (auto simp: keyed_def)
    with inv show ?thesis unfolding idset jobs_ok_def by blast
  qed
  moreover have "keyed c r x" if x: "x \<in> set (kw_jobs w')" "sj_id x = SendId c r" for x
  proof -
    from origin [OF x(1)] x(2) obtain y where "y \<in> set (kw_jobs w)" "sj_id y = SendId c r" "sj_data x = sj_data y" by blast
    moreover from this(1,2) inv have "keyed c r y" unfolding jobs_ok_def by blast
    ultimately show ?thesis by (simp add: keyed_def)
  qed
  ultimately show ?thesis unfolding jobs_ok_def by blast
qed

lemma once_turn:
  assumes inv: "once c r w" and turn: "job_turn j f extra sent w w'"
  shows "once c r w'"
proof -
  let ?P = "\<lambda>x. keyed c r x \<and> sj_state x \<noteq> Job_Done" and ?js = "map (\<lambda>x. if sj_id x = sj_id j then f x else x) (kw_jobs w)"
  have ok: "jobs_ok c r w" and dist: "distinct (map sj_id (kw_jobs w))" and j: "j \<in> set (kw_jobs w)" "sj_state j = Job_Waits"
    and jobs: "kw_jobs w' = ?js @ extra" and same: "keyed c r (f j) = keyed c r j"
    using inv turn by (auto simp: once_def jobs_ok_def job_turn_def keyed_def)
  have live: "live_for c r ?js + (if keyed c r j then 1 else 0) = live_for c r (kw_jobs w) + (if keyed c r j \<and> sj_state (f j) \<noteq> Job_Done then 1 else 0)"
    using count_update [OF dist j(1), of ?P f] j(2) same by (simp add: live_for_def)
  have sent: "sent_for c r w' = sent_for c r w + (if sent \<and> keyed c r j then 1 else 0)"
    using turn by (simp add: job_turn_def sent_for_def keyed_def)
  have more: "live_for c r (kw_jobs w') = live_for c r ?js + (if extra \<noteq> [] \<and> keyed c r j then 1 else 0)"
    using turn by (auto simp: jobs job_turn_def live_for_def keyed_def)
  have "sent_for c r w' + live_for c r (kw_jobs w') \<le> 1"
    using inv live turn unfolding sent more once_def job_turn_def by (auto split: if_splits)
  moreover have "sent_for c r w' = 0" if new: "SendId c r \<notin> sj_id ` set (kw_jobs w')"
  proof -
    from new turn_ids [OF turn] have old: "SendId c r \<notin> sj_id ` set (kw_jobs w)" by (metis Un_iff list.set_map set_append)
    with ok j(1) have "\<not> keyed c r j" unfolding jobs_ok_def by blast
    with old inv show ?thesis unfolding sent once_def by simp
  qed
  ultimately show ?thesis using turn_jobs_ok [OF ok turn] unfolding once_def by blast
qed

lemma rows_updated: "(\<And>r. cr_id (f r) = cr_id r) \<Longrightarrow> cr_id ` set (kw_recipients (upd_recipient i f w)) = cr_id ` set (kw_recipients w)"
  by (simp add: upd_recipient_def image_image del: if_image_distrib) (rule image_cong, auto)

lemma once_run:
  assumes inv: "once c r w" and "\<forall>e. ans \<noteq> Unrecorded e"
  shows "once c r (run_send_job clock i ans w)"
proof (cases "find (\<lambda>j. sj_id j = i) (kw_jobs w)")
  case None
  with inv show ?thesis by (simp add: run_send_job_def)
next
  case (Some j)
  note j = find_job [OF Some]
  show ?thesis
  proof (cases "sj_state j \<noteq> Job_Waits \<or> kw_now w < sj_due j")
    case True
    with Some inv show ?thesis by (simp add: run_send_job_def)
  next
    case False
    then have waits: "sj_state j = Job_Waits" by simp
    let ?d = "sj_data j"
    have "row_there w j" using inv j(1) unfolding once_def jobs_ok_def by blast
    then have row: "recipient_by_id w (sd_recipientId ?d) \<noteq> None" by (auto simp: row_there_def recipient_by_id_def find_None_iff)
    have failed_rows: "cr_id ` set (kw_recipients (mark_failed d e w)) = cr_id ` set (kw_recipients w)" for d e w
      by (simp add: mark_failed_def rows_updated)
    have retried: "once c r (upd_send_job i (retry_job t) w')"
      if "kw_jobs w' = kw_jobs w" "kw_open w' = kw_open w" "kw_outbox w' = kw_outbox w" "cr_id ` set (kw_recipients w') = cr_id ` set (kw_recipients w)" for w' t
      using that j by (intro once_turn [OF inv, of j "retry_job t" "[]" False])
        (auto simp: job_turn_def waits upd_send_job_def retry_job_def Let_def)
    let ?done = "upd_send_job i (\<lambda>j. j\<lparr>sj_state := Job_Done\<rparr>)"
    show ?thesis
    proof (cases "quietHoursHold clock ?d w")
      case hold: (Some ms)
      let ?h = "held_job ?d (kw_now w) ms"
      have "once c r (?done (enqueue ?h w))"
      proof (cases "sj_id ?h \<in> sj_id ` set (kw_jobs w)")
        case True
        then show ?thesis using j
          by (intro once_turn [OF inv, of j "\<lambda>j. j\<lparr>sj_state := Job_Done\<rparr>" "[]" False])
            (auto simp: job_turn_def waits upd_send_job_def enqueue_def)
      next
        case False
        then have "sj_id ?h \<noteq> i" using j by auto
        with False show ?thesis using j
          by (intro once_turn [OF inv, of j "\<lambda>j. j\<lparr>sj_state := Job_Done\<rparr>" "[?h]" False])
            (auto simp: job_turn_def waits upd_send_job_def enqueue_def held_job_def)
      qed
      then have "once c r (campaign_completed (sd_campaignId ?d) (?done (enqueue ?h w)))" by (rule once_cong) (simp_all add: frame_simps)
      with Some False hold retried [of w] show ?thesis by (simp add: run_send_job_def processCampaignJob_def)
    next
      case awake: None
      show ?thesis
      proof (cases ans)
        case (Accepted wid)
        let ?w1 = "upd_recipient (sd_recipientId ?d) (\<lambda>r. r\<lparr>r_status := lit ''sent'', cr_sentAt := Some (kw_now w), cr_waMessageId := Some wid\<rparr>) (deliver ?d w)"
        have rows: "cr_id ` set (kw_recipients ?w1) = cr_id ` set (kw_recipients w)" by (simp add: rows_updated frame_simps)
        have marked: "once c r (?done w')" if "w' = ?w1 \<or> w' = deliver ?d w" for w'
          using that j rows by (intro once_turn [OF inv, of j "\<lambda>j. j\<lparr>sj_state := Job_Done\<rparr>" "[]" True])
            (auto simp: job_turn_def waits upd_send_job_def frame_simps)
        have "once c r (campaign_completed (sd_campaignId ?d) (?done w'))" if "w' = ?w1 \<or> w' = deliver ?d w" for w'
          using marked [OF that] by (rule once_cong) (simp_all add: frame_simps)
        with Some False awake Accepted row show ?thesis by (auto simp: run_send_job_def processCampaignJob_def Let_def)
      qed (use Some False awake assms(2) retried failed_rows in \<open>simp_all add: run_send_job_def processCampaignJob_def frame_simps\<close>)
    qed
  qed
qed

lemma once_draw_up: "once c r w \<Longrightarrow> once c r (snd (draw_up env cid rid k w))"
  by (erule once_cong) (simp_all add: frame_simps image_mono)

lemma once_dispatch: "once c r w \<Longrightarrow> once c r (dispatch_one lost i w)"
proof -
  assume inv: "once c r w"
  have claimed: "once c r (upd_campaign i f w)" for f using inv by (rule once_cong) (simp_all add: frame_simps)
  have "once c r (fold enqueue (send_jobs (upd_campaign i f w) i k) (upd_campaign i f w))" for f k
    by (rule once_fold_enqueue [OF claimed]) (auto simp: first_job_ok_def row_there_def frame_simps dest!: send_jobs_data)
  moreover have "once c r (upd_campaign i g (upd_campaign i f w))" for f g using claimed by (rule once_cong) (simp_all add: frame_simps)
  ultimately show ?thesis using inv claimed by (simp add: dispatch_one_def Let_def split: option.split)
qed

lemma once_step: "once c r w \<Longrightarrow> calm e \<Longrightarrow> once c r (campaign_step env e w)"
proof (induction env e w rule: campaign_step.induct)
  case (1 env cid title message mediaUrl scheduledAt audience confirmAll w)
  then show ?case by (simp add: create_cases once_draw_up)
next
  case (2 env cid source title w)
  then show ?case by (simp add: clone_cases once_draw_up)
next
  case (3 env allowance i w)
  have "once c r (w\<lparr>kw_open := kw_open w @ [(i, send_jobs w i k)]\<rparr>)" for k
  proof -
    have "open_jobs (w\<lparr>kw_open := kw_open w @ [(i, send_jobs w i k)]\<rparr>) = open_jobs w \<union> set (send_jobs w i k)" by (auto simp: open_jobs_def)
    moreover have "first_job_ok j \<and> row_there w j" if "j \<in> set (send_jobs w i k)" for j
      using send_jobs_data [OF that] by (auto simp: first_job_ok_def row_there_def)
    ultimately show ?thesis using 3(1) by (auto simp: once_def jobs_ok_def row_there_def sent_for_def)
  qed
  with 3(1) show ?case by (auto simp: send_request_def Let_def split: option.splits sum.splits if_splits)
next
  case (4 env n w)
  show ?case
  proof (cases "n < length (kw_open w)")
    case True
    obtain i js where e: "kw_open w ! n = (i, js)" by fastforce
    with True have "(i, js) \<in> set (kw_open w)" by (metis nth_mem)
    then have js: "first_job_ok j \<and> row_there w j" if "j \<in> set js" for j
      using that 4(1) unfolding once_def jobs_ok_def open_jobs_def by blast
    let ?w = "w\<lparr>kw_open := take n (kw_open w) @ drop (Suc n) (kw_open w)\<rparr>"
    have "open_jobs ?w \<subseteq> open_jobs w" by (auto simp: open_jobs_def dest: in_set_takeD in_set_dropD)
    then have "once c r ?w" using 4(1) unfolding once_def jobs_ok_def row_there_def sent_for_def by auto
    then have "once c r (upd_campaign i f ?w)" for f by (rule once_cong) (simp_all add: frame_simps)
    then have "once c r (send_commit i js ?w)"
      unfolding send_commit_def using js by (intro once_fold_enqueue) (auto simp: row_there_def frame_simps)
    with True e show ?thesis by simp
  qed (use 4 in simp)
next
  case (5 env lost w)
  have "once c r (fold (dispatch_one lost) is w)" for "is"
    using 5(1) by (induction "is" arbitrary: w) (simp_all add: once_dispatch)
  then show ?case by (simp add: dispatchDueCampaigns_def)
next
  case (6 env i ans w)
  then show ?case by (auto simp: calm_def intro!: once_run split: send_answer.splits)
next
  case (7 env wid incoming w)
  have "cr_id ` set (kw_recipients (receive_receipt wid incoming w)) = cr_id ` set (kw_recipients w)"
    by (simp add: receive_receipt_def rows_updated split: option.split)
  then show ?case by (intro once_cong [OF 7(1)]) (simp_all add: frame_simps)
next
  case (8 env i k w)
  then show ?case by (intro once_cong [OF 8(1)]) simp_all
next
  case (10 env body w)
  then show ?case by (intro once_cong [OF 10(1)]) (simp_all add: frame_simps)
next
  case (11 env n w)
  then show ?case by (intro once_cong [OF 11(1)]) simp_all
qed (simp add: calm_def)

interpretation one_message: safe_system "\<lambda>e w. if calm e then campaign_step env e w else w" "once c r" for env c r
  by unfold_locales (simp add: once_step)

lemma run_calm: "list_all calm es \<Longrightarrow> fold (\<lambda>e w. if calm e then campaign_step env e w else w) es w = fold (campaign_step env) es w"
  by (induction es arbitrary: w) simp_all


text \<open>One customer, one number, and a campaign to everyone.\<close>

definition a_customer :: crm_contact where
  "a_customer = \<lparr>cc_cell = [lit ''phone'' \<mapsto> TextCell (lit ''972500''), lit ''marketingConsent'' \<mapsto> TextCell (lit ''OPTED_IN'')],
     cc_archived = False, cc_tags = [], cc_values = [], cc_conversations = [], cc_recipients = []\<rparr>"

definition quiet_world :: kworld where
  "quiet_world = \<lparr>kw_now = 0, kw_organizationId = lit ''o1'', kw_name = lit ''Shop'', kw_config = Some default_config, kw_users = [],
     kw_recapRecipients = [], kw_contacts = [(lit ''p1'', a_customer)], kw_sessions = [(lit ''s1'', lit ''main'', True)],
     kw_campaigns = [], kw_recipients = [], kw_jobs = [], kw_open = [], kw_outbox = []\<rparr>"

definition plain_campaigns :: campaign_env where
  "plain_campaigns = \<lparr>ce_filter = (\<lambda>_. plain_env), ce_parse = (\<lambda>_. None), ce_rid = (\<lambda>c p. p @ c), ce_clock = (\<lambda>_ _. None), ce_zone = (\<lambda>_. True)\<rparr>"

definition to_everyone :: campaign_event where
  "to_everyone = Create_Campaign (lit ''c1'') (lit ''Sale'') (lit ''Hi'') None (Some 0) JNull (JBool True)"

definition the_campaign :: campaign where
  "the_campaign = \<lparr>cp_title = lit ''Sale'', cp_message = lit ''Hi'', cp_mediaUrl = None, cp_sessionId = lit ''s1'', cp_status = C_DRAFT,
     cp_scheduledAt = Some 0, cp_sentAt = None, cp_audienceFilter = JNull, cp_metaTemplateId = None, cp_metaTemplateBindings = JNull\<rparr>"

definition the_data :: send_data where
  "the_data = \<lparr>sd_campaignId = lit ''c1'', sd_recipientId = lit ''p1c1'', sd_phone = lit ''972500'', sd_message = lit ''Hi'', sd_mediaUrl = None,
     sd_session = lit ''main''\<rparr>"

definition the_job :: send_job where
  "the_job = \<lparr>sj_id = SendId (lit ''c1'') (lit ''p1c1''), sj_data = the_data, sj_due = 0, sj_attempts = 0, sj_state = Job_Waits\<rparr>"

definition drawn_world :: kworld where
  "drawn_world = quiet_world\<lparr>kw_campaigns := [(lit ''c1'', the_campaign)],
     kw_recipients := [new_recipient (lit ''c1'') (\<lambda>p. p @ lit ''c1'') (lit ''p1'')]\<rparr>"

lemma everyone_audience: "audienceWhere env JNull org = Inr (Both [Everything, Archived False, Negated opted_out_where] [])"
  by (simp add: audienceWhere_def contactWhereFromFilterDsl_def)

lemma lit_append: "lit a @ lit b = lit (a @ b)"
  by (simp add: lit_def)

lemma drawn [simp]: "campaign_step plain_campaigns to_everyone quiet_world = drawn_world"
proof -
  have "matches plain_env (Both [Everything, Archived False, Negated opted_out_where] []) a_customer"
    by (simp add: matches_Negated opted_out_where_def a_customer_def column_holds_def cell_holds_def)
  then show ?thesis
    by (simp add: to_everyone_def fresh_ids_def plain_campaigns_def quiet_world_def create_campaign_def primary_session_def
        parseContactFilterDsl_def draw_up_def everyone_audience drawn_world_def the_campaign_def)
qed

definition asked_world :: kworld where
  "asked_world = drawn_world\<lparr>kw_open := [(lit ''c1'', [the_job]), (lit ''c1'', [the_job])]\<rparr>"

lemma asked [simp]:
  "campaign_step plain_campaigns (Ask_To_Send (\<lambda>_. True) (lit ''c1'')) (campaign_step plain_campaigns (Ask_To_Send (\<lambda>_. True) (lit ''c1'')) drawn_world)
     = asked_world"
proof -
  have "send_jobs (drawn_world\<lparr>kw_open := js\<rparr>) (lit ''c1'') the_campaign = [the_job]" for js
    by (simp add: send_jobs_def pending_recipients_def drawn_world_def quiet_world_def indexed_def send_job_for_def new_recipient_def
        the_campaign_def the_job_def the_data_def cell_text_def a_customer_def lit_append)
  moreover have "map_of (kw_campaigns (drawn_world\<lparr>kw_open := js\<rparr>)) (lit ''c1'') = Some the_campaign" for js
    by (simp add: drawn_world_def)
  moreover have "js_trim (cp_message the_campaign) \<noteq> []" "cp_status the_campaign = C_DRAFT"
    using trim_solid [of "lit ''Hi''"] by (simp_all add: the_campaign_def is_ws_def lit_def)
  ultimately have r: "send_request (\<lambda>_. True) (lit ''c1'') (drawn_world\<lparr>kw_open := js\<rparr>) = Inr [the_job]" for js
    by (simp add: send_request_def Let_def)
  have none: "drawn_world\<lparr>kw_open := []\<rparr> = drawn_world" by (simp add: drawn_world_def quiet_world_def)
  have "kw_open drawn_world = []" by (simp add: drawn_world_def quiet_world_def)
  with r [of "[]"] r [of "[(lit ''c1'', [the_job])]"] show ?thesis by (simp add: none asked_world_def)
qed

definition queued_world :: kworld where
  "queued_world = drawn_world\<lparr>kw_campaigns := [(lit ''c1'', the_campaign\<lparr>cp_status := C_SENDING\<rparr>)], kw_jobs := [the_job]\<rparr>"

lemma committed [simp]:
  "campaign_step plain_campaigns (Commit_Send 0) (campaign_step plain_campaigns (Commit_Send 0) asked_world) = queued_world"
  by (simp add: asked_world_def queued_world_def drawn_world_def quiet_world_def send_commit_def upd_campaign_def enqueue_def the_job_def)

lemma no_quiet [simp]: "quietHoursHold clock d w = None" if "kw_config w = Some default_config"
  using that by (simp add: quietHoursHold_def default_config_def)

lemma queued_config [simp]: "kw_config queued_world = Some default_config"
  by (simp add: queued_world_def drawn_world_def quiet_world_def)

lemma queued_find [simp]: "find (\<lambda>j. sj_id j = SendId (lit ''c1'') (lit ''p1c1'')) (kw_jobs queued_world) = Some the_job"
  by (simp add: queued_world_def the_job_def)

lemma accepted_world:
  "kw_outbox (run_send_job clock (SendId (lit ''c1'') (lit ''p1c1'')) (Accepted wid) queued_world) = [the_data]"
proof -
  have "sj_state the_job = Job_Waits" "\<not> kw_now queued_world < sj_due the_job" "sj_data the_job = the_data" "kw_outbox queued_world = []"
    by (simp_all add: the_job_def queued_world_def drawn_world_def quiet_world_def)
  moreover have "sd_recipientId the_data \<noteq> []" by (simp add: the_data_def)
  moreover have "recipient_by_id queued_world (sd_recipientId the_data) \<noteq> None"
    by (simp add: recipient_by_id_def queued_world_def drawn_world_def quiet_world_def new_recipient_def the_data_def lit_append)
  ultimately show ?thesis by (simp add: run_send_job_def processCampaignJob_def Let_def frame_simps)
qed

lemma outbox_grows: "length (kw_outbox w) \<le> length (kw_outbox (run_send_job clock i ans w))"
  by (auto simp: run_send_job_def processCampaignJob_def Let_def frame_simps split: option.split send_answer.split)


section \<open>Campaigns that never end\<close>

definition job_campaign :: "send_job \<Rightarrow> jstr" where
  "job_campaign j = (case sj_id j of SendId c _ \<Rightarrow> c | HeldId c _ _ \<Rightarrow> c)"

text \<open>A campaign that is being sent, with no job that waits and no request under way.\<close>

definition stuck :: "jstr \<Rightarrow> kworld \<Rightarrow> bool" where
  "stuck i w \<longleftrightarrow>
     i \<in> fst ` set (kw_campaigns w) \<and> (\<forall>(k, c) \<in> set (kw_campaigns w). k = i \<longrightarrow> cp_status c = C_SENDING)
     \<and> (\<forall>j \<in> set (kw_jobs w). sd_campaignId (sj_data j) = job_campaign j \<and> (job_campaign j = i \<longrightarrow> sj_state j \<noteq> Job_Waits))
     \<and> (\<forall>(k, js) \<in> set (kw_open w). k \<noteq> i \<and> (\<forall>j \<in> set js. sd_campaignId (sj_data j) = k \<and> job_campaign j = k))"

definition sent_of :: "jstr \<Rightarrow> kworld \<Rightarrow> send_data list" where
  "sent_of i w = filter (\<lambda>d. sd_campaignId d = i) (kw_outbox w)"

definition still_stuck :: "jstr \<Rightarrow> send_data list \<Rightarrow> kworld \<Rightarrow> bool" where
  "still_stuck i ds w \<longleftrightarrow> stuck i w \<and> sent_of i w = ds"

lemma still_cong:
  "still_stuck i ds w \<Longrightarrow> kw_jobs w' = kw_jobs w \<Longrightarrow> kw_open w' = kw_open w \<Longrightarrow> kw_outbox w' = kw_outbox w
   \<Longrightarrow> kw_campaigns w' = kw_campaigns w \<Longrightarrow> still_stuck i ds w'"
  by (simp add: still_stuck_def stuck_def sent_of_def)

lemma stuck_campaign:
  assumes "stuck i w" shows "\<exists>c. map_of (kw_campaigns w) i = Some c \<and> cp_status c = C_SENDING"
proof -
  from assms obtain c where "map_of (kw_campaigns w) i = Some c" by (fastforce simp: stuck_def dest: weak_map_of_SomeI)
  with assms map_of_SomeD [OF this] show ?thesis by (auto simp: stuck_def)
qed

lemma upd_campaign_rows:
  "fst ` set (kw_campaigns (upd_campaign k f w)) = fst ` set (kw_campaigns w)"
  "(i, c) \<in> set (kw_campaigns (upd_campaign k f w)) \<Longrightarrow> k \<noteq> i \<Longrightarrow> (i, c) \<in> set (kw_campaigns w)"
  by (auto simp: upd_campaign_def image_image split_beta split: if_splits)

lemma still_upd: "still_stuck i ds w \<Longrightarrow> k \<noteq> i \<Longrightarrow> still_stuck i ds (upd_campaign k f w)"
proof -
  assume h: "still_stuck i ds w" "k \<noteq> i"
  have "cp_status c = C_SENDING" if "(i, c) \<in> set (kw_campaigns (upd_campaign k f w))" for c
    using h upd_campaign_rows(2) [OF that h(2)] by (auto simp: still_stuck_def stuck_def)
  with h show ?thesis by (auto simp: still_stuck_def stuck_def sent_of_def upd_campaign_rows(1) frame_simps)
qed

lemma still_enqueue:
  "still_stuck i ds w \<Longrightarrow> sd_campaignId (sj_data j) = job_campaign j \<Longrightarrow> job_campaign j \<noteq> i \<Longrightarrow> still_stuck i ds (enqueue j w)"
  by (auto simp: still_stuck_def stuck_def sent_of_def enqueue_def)

lemma still_fold_enqueue:
  "still_stuck i ds w \<Longrightarrow> (\<And>j. j \<in> set js \<Longrightarrow> sd_campaignId (sj_data j) = job_campaign j \<and> job_campaign j \<noteq> i)
   \<Longrightarrow> still_stuck i ds (fold enqueue js w)"
  by (induction js arbitrary: w) (simp_all add: still_enqueue)

lemma still_draw_up: "still_stuck i ds w \<Longrightarrow> cid \<notin> fst ` set (kw_campaigns w) \<Longrightarrow> still_stuck i ds (snd (draw_up env cid rid c w))"
  by (auto simp: still_stuck_def stuck_def sent_of_def frame_simps)

lemma send_jobs_campaign: "j \<in> set (send_jobs w k c) \<Longrightarrow> sd_campaignId (sj_data j) = k \<and> job_campaign j = k"
  by (auto simp: job_campaign_def dest!: send_jobs_data)

lemma still_dispatch: "still_stuck i ds w \<Longrightarrow> still_stuck i ds (dispatch_one lost k w)"
proof (cases "k = i")
  case True
  assume "still_stuck i ds w"
  with True stuck_campaign [of i w] show ?thesis by (auto simp: dispatch_one_def still_stuck_def)
next
  case False
  assume "still_stuck i ds w"
  with False show ?thesis
    by (auto simp: dispatch_one_def Let_def still_upd split: option.split intro!: still_fold_enqueue dest: send_jobs_campaign)
qed

lemma still_job:
  assumes "still_stuck i ds w" and "k \<noteq> i" and "\<And>j. sj_id (f j) = sj_id j \<and> sj_data (f j) = sj_data j"
    and "case jid of SendId c _ \<Rightarrow> c = k | HeldId c _ _ \<Rightarrow> c = k"
  shows "still_stuck i ds (upd_send_job jid f w)"
proof -
  have "job_campaign (f j) = job_campaign j" for j using assms(3) by (simp add: job_campaign_def)
  moreover have "job_campaign j = k" if "sj_id j = jid" for j using that assms(4) by (auto simp: job_campaign_def split: send_job_id.splits)
  ultimately show ?thesis using assms(1-3) by (auto simp: still_stuck_def stuck_def sent_of_def upd_send_job_def)
qed

lemma still_run: assumes inv: "still_stuck i ds w" shows "still_stuck i ds (run_send_job clock jid ans w)"
proof (cases "find (\<lambda>j. sj_id j = jid) (kw_jobs w)")
  case None
  with inv show ?thesis by (simp add: run_send_job_def)
next
  case (Some j)
  let ?d = "sj_data j"
  note j = find_job [OF Some]
  show ?thesis
  proof (cases "sj_state j \<noteq> Job_Waits \<or> kw_now w < sj_due j")
    case True
    with Some inv show ?thesis by (simp add: run_send_job_def)
  next
    case False
    with inv j have other: "sd_campaignId ?d \<noteq> i" "job_campaign j = sd_campaignId ?d" by (auto simp: still_stuck_def stuck_def)
    have jid: "case jid of SendId c _ \<Rightarrow> c = sd_campaignId ?d | HeldId c _ _ \<Rightarrow> c = sd_campaignId ?d"
      using other(2) j by (auto simp: job_campaign_def split: send_job_id.splits)
    have "still_stuck i ds (deliver ?d w)" using inv other by (simp add: still_stuck_def stuck_def sent_of_def frame_simps)
    moreover have "still_stuck i ds (mark_failed ?d e w')" if "still_stuck i ds w'" for e w'
      using that by (rule still_cong) (simp_all add: frame_simps)
    moreover have "still_stuck i ds (upd_recipient r f w')" if "still_stuck i ds w'" for r f w'
      using that by (rule still_cong) (simp_all add: frame_simps)
    moreover have "still_stuck i ds (enqueue (held_job ?d t ms) w)" for t ms
      using inv other by (intro still_enqueue) (simp_all add: job_campaign_def)
    ultimately have done1: "still_stuck i ds (snd (processCampaignJob clock ans ?d w))"
      using inv by (simp add: processCampaignJob_def Let_def split: option.split send_answer.split)
    have "still_stuck i ds (upd_send_job jid f w')" if "still_stuck i ds w'" "\<And>j. sj_id (f j) = sj_id j \<and> sj_data (f j) = sj_data j" for f w'
      using that(1) other(1) that(2) jid by (rule still_job)
    moreover have "still_stuck i ds (campaign_completed (sd_campaignId ?d) w')" if "still_stuck i ds w'" for w'
      using that other by (simp add: campaign_completed_def still_upd)
    ultimately show ?thesis using Some False done1
      by (auto simp: run_send_job_def retry_job_def Let_def split: prod.split send_result.split)
  qed
qed

lemma still_step: "still_stuck i ds w \<Longrightarrow> still_stuck i ds (campaign_step env e w)"
proof (induction env e w rule: campaign_step.induct)
  case (1 env cid title message mediaUrl scheduledAt audience confirmAll w)
  then show ?case by (auto simp: fresh_ids_def intro!: create_cases still_draw_up)
next
  case (2 env cid source title w)
  then show ?case by (auto simp: fresh_ids_def intro!: clone_cases still_draw_up)
next
  case (3 env allowance k w)
  show ?case
  proof (cases "k = i")
    case True
    with 3 stuck_campaign [of i w] show ?thesis by (auto simp: still_stuck_def send_request_def)
  next
    case False
    with 3 have "still_stuck i ds (w\<lparr>kw_open := kw_open w @ [(k, send_jobs w k c)]\<rparr>)" for c
      by (auto simp: still_stuck_def stuck_def sent_of_def dest: send_jobs_campaign)
    with 3 show ?thesis by (auto simp: send_request_def Let_def split: option.splits sum.splits if_splits)
  qed
next
  case (4 env n w)
  show ?case
  proof (cases "n < length (kw_open w)")
    case True
    obtain k js where e: "kw_open w ! n = (k, js)" by fastforce
    with True have "(k, js) \<in> set (kw_open w)" by (metis nth_mem)
    with 4 have k: "k \<noteq> i" "\<And>j. j \<in> set js \<Longrightarrow> sd_campaignId (sj_data j) = job_campaign j \<and> job_campaign j \<noteq> i"
      by (auto simp: still_stuck_def stuck_def)
    have "still_stuck i ds (w\<lparr>kw_open := take n (kw_open w) @ drop (Suc n) (kw_open w)\<rparr>)"
      using 4 by (auto simp: still_stuck_def stuck_def sent_of_def dest!: in_set_takeD in_set_dropD)
    with k have "still_stuck i ds (send_commit k js (w\<lparr>kw_open := take n (kw_open w) @ drop (Suc n) (kw_open w)\<rparr>))"
      by (simp add: send_commit_def still_upd still_fold_enqueue)
    with True e show ?thesis by simp
  qed (use 4 in simp)
next
  case (5 env lost w)
  have "still_stuck i ds (fold (dispatch_one lost) ks w)" for ks
    using 5 by (induction ks arbitrary: w) (simp_all add: still_dispatch)
  then show ?case by (simp add: dispatchDueCampaigns_def)
next
  case (6 env j ans w)
  then show ?case by (simp add: still_run)
next
  case (9 env k w)
  then show ?case by (intro still_cong [OF 9]) (simp_all add: erase_contact_def)
qed (erule still_cong; simp add: frame_simps)+

interpretation stranded: safe_system "campaign_step env" "still_stuck i ds" for env i ds
  by unfold_locales (rule still_step)

text \<open>C27: A campaign whose last job is over without completing never ends. It is being sent, a request to send it is refused for that
  reason, the scheduler passes it over, and its status is only looked at when one of its jobs completes: whatever
  happens from then on, it stays as it is and sends nothing, to those left pending until the allowance is renewed too.\<close>
theorem stuck_campaign_never_ends:
  assumes "stuck i w"
  shows "stuck i (fold (campaign_step env) es w) \<and> sent_of i (fold (campaign_step env) es w) = sent_of i w"
proof -
  have "still_stuck i (sent_of i w) w" using assms by (simp add: still_stuck_def)
  from stranded.run_inv [OF this] show ?thesis by (simp add: still_stuck_def)
qed

lemma refused_turn:
  assumes "find (\<lambda>j. sj_id j = i) (kw_jobs w) = Some j" "sj_state j = Job_Waits" "sj_due j \<le> kw_now w" "kw_config w = Some default_config"
  shows "run_send_job clock i (Refused e) w = upd_send_job i (retry_job (kw_now w)) (mark_failed (sj_data j) e w)"
  using assms by (simp add: run_send_job_def processCampaignJob_def)

definition no_allowance :: send_error where "no_allowance = Quota_Exceeded (lit ''full'')"

definition three_refusals :: "campaign_event list" where
  "three_refusals = (let try = Run_Job (SendId (lit ''c1'') (lit ''p1c1'')) (Refused no_allowance) in
     [try, Time_Passes 5000, try, Time_Passes 10000, try])"

definition refused_once :: "int \<Rightarrow> nat \<Rightarrow> send_job_state \<Rightarrow> int \<Rightarrow> kworld" where
  "refused_once t n st due = queued_world\<lparr>kw_now := t, kw_jobs := [the_job\<lparr>sj_attempts := n, sj_state := st, sj_due := due\<rparr>],
     kw_recipients := [(new_recipient (lit ''c1'') (\<lambda>p. p @ lit ''c1'') (lit ''p1''))\<lparr>cr_error := Some (lit ''full'')\<rparr>]\<rparr>"

lemma refuse_again:
  assumes "due \<le> t" and "w = refused_once t n Job_Waits due \<or> w = queued_world \<and> n = 0 \<and> t = 0"
  shows "run_send_job clock (SendId (lit ''c1'') (lit ''p1c1'')) (Refused no_allowance) w
    = refused_once t (Suc n) (if Suc n \<ge> 3 then Job_Dead else Job_Waits) (t + 5000 * 2 ^ n)"
proof -
  have "run_send_job clock (SendId (lit ''c1'') (lit ''p1c1'')) (Refused no_allowance) w
    = upd_send_job (SendId (lit ''c1'') (lit ''p1c1'')) (retry_job (kw_now w)) (mark_failed the_data no_allowance w)"
    using assms
    by (elim disjE conjE; subst refused_turn)
      (auto simp: refused_once_def queued_world_def drawn_world_def quiet_world_def the_job_def)
  then show ?thesis using assms
    by (elim disjE conjE)
      (simp_all add: refused_once_def queued_world_def drawn_world_def quiet_world_def the_job_def upd_send_job_def mark_failed_def
        upd_recipient_def retry_job_def CAMPAIGN_ATTEMPTS_def the_data_def no_allowance_def new_recipient_def lit_append)
qed

lemma stranded_world: "fold (campaign_step plain_campaigns) three_refusals queued_world = refused_once 15000 3 Job_Dead 35000"
proof -
  have "refused_once t n st due\<lparr>kw_now := t'\<rparr> = refused_once t' n st due" "kw_now (refused_once t n st due) = t" for t t' n st due
    by (simp_all add: refused_once_def)
  then show ?thesis
    by (simp add: three_refusals_def Let_def refuse_again [of 0 0 queued_world 0] refuse_again [of 5000 5000 _ "Suc 0"]
        refuse_again [of 15000 15000 _ "Suc (Suc 0)"] numeral_3_eq_3)
qed

lemma stranded_stuck: "stuck (lit ''c1'') (refused_once 15000 3 Job_Dead 35000)"
  by (simp add: stuck_def refused_once_def queued_world_def drawn_world_def quiet_world_def the_job_def the_data_def job_campaign_def)

text \<open>The allowance runs out, three times; the recipient is pending and the campaign cannot be sent any more.\<close>

theorem stuck_campaign_never_ends_witness:
  "let w = fold (campaign_step plain_campaigns) three_refusals queued_world in
     pending_recipients w (lit ''c1'') \<noteq> []
     \<and> sent_of (lit ''c1'') (fold (campaign_step plain_campaigns)
         [Time_Passes 2592000000, Scan_Due [], Ask_To_Send (\<lambda>_. True) (lit ''c1''), Commit_Send 0,
          Run_Job (SendId (lit ''c1'') (lit ''p1c1'')) (Accepted (lit ''m1''))] w) = []"
proof -
  let ?w = "refused_once 15000 3 Job_Dead 35000"
  have "pending_recipients ?w (lit ''c1'') \<noteq> []" "sent_of (lit ''c1'') ?w = []"
    by (simp_all add: pending_recipients_def sent_of_def refused_once_def queued_world_def drawn_world_def quiet_world_def new_recipient_def)
  with stuck_campaign_never_ends [OF stranded_stuck, of plain_campaigns] show ?thesis
    unfolding stranded_world Let_def by metis
qed

section \<open>Consent\<close>

definition with_consent :: "jstr \<Rightarrow> jstr \<Rightarrow> kworld \<Rightarrow> kworld" where
  "with_consent k v w =
     w\<lparr>kw_contacts := map (\<lambda>(i, p). (i, if i = k then p\<lparr>cc_cell := (cc_cell p)(lit ''marketingConsent'' \<mapsto> TextCell v)\<rparr> else p)) (kw_contacts w)\<rparr>"

text \<open>Events that draw up no campaign and do not write the contact.\<close>

definition sends_only :: "jstr \<Rightarrow> campaign_event \<Rightarrow> bool" where
  "sends_only k e \<longleftrightarrow>
     (case e of Create_Campaign _ _ _ _ _ _ _ \<Rightarrow> False | Clone_Campaign _ _ _ \<Rightarrow> False | Save_Contact i _ \<Rightarrow> i \<noteq> k | _ \<Rightarrow> True)"

lemma with_consent_frame [frame_simps]:
  "kw_jobs (with_consent k v w) = kw_jobs w" "kw_open (with_consent k v w) = kw_open w" "kw_outbox (with_consent k v w) = kw_outbox w"
  "kw_campaigns (with_consent k v w) = kw_campaigns w" "kw_recipients (with_consent k v w) = kw_recipients w"
  "kw_config (with_consent k v w) = kw_config w" "kw_now (with_consent k v w) = kw_now w" "kw_sessions (with_consent k v w) = kw_sessions w"
  "kw_users (with_consent k v w) = kw_users w" "kw_name (with_consent k v w) = kw_name w"
  by (simp_all add: with_consent_def)

lemma consent_other:
  assumes "f \<noteq> ''marketingConsent''"
  shows "Option.bind (map_of (kw_contacts (with_consent k v w)) i) (\<lambda>p. cell_text p f) = Option.bind (map_of (kw_contacts w) i) (\<lambda>p. cell_text p f)"
proof -
  have "Option.bind (map_of (map (\<lambda>(i, p). (i, if i = k then p\<lparr>cc_cell := (cc_cell p)(lit ''marketingConsent'' \<mapsto> TextCell v)\<rparr> else p)) cs) i) (\<lambda>p. cell_text p f)
      = Option.bind (map_of cs i) (\<lambda>p. cell_text p f)" for cs
    using assms by (induction cs) (auto simp: cell_text_def)
  then show ?thesis by (simp add: with_consent_def)
qed

lemma consent_jobs: "send_jobs (with_consent k v w) i c = send_jobs w i c"
  by (simp add: send_jobs_def send_job_for_def pending_recipients_def frame_simps consent_other)

lemma consent_hold: "quietHoursHold clock d (with_consent k v w) = quietHoursHold clock d w"
proof -
  have "recipient_by_id (with_consent k v w) i = recipient_by_id w i" for i by (simp add: recipient_by_id_def frame_simps)
  then show ?thesis
    by (cases "sd_recipientId d = []"; cases "recipient_by_id w (sd_recipientId d)"; cases "kw_config w")
      (simp_all add: quietHoursHold_def frame_simps Let_def consent_other)
qed

lemma consent_commutes:
  "upd_campaign i f (with_consent k v w) = with_consent k v (upd_campaign i f w)"
  "upd_recipient i g (with_consent k v w) = with_consent k v (upd_recipient i g w)"
  "enqueue j (with_consent k v w) = with_consent k v (enqueue j w)"
  "deliver d (with_consent k v w) = with_consent k v (deliver d w)"
  "mark_failed d e (with_consent k v w) = with_consent k v (mark_failed d e w)"
  "upd_send_job s h (with_consent k v w) = with_consent k v (upd_send_job s h w)"
  by (simp_all add: with_consent_def upd_campaign_def upd_recipient_def enqueue_def deliver_def mark_failed_def upd_send_job_def)

lemma consent_fold: "fold enqueue js (with_consent k v w) = with_consent k v (fold enqueue js w)"
  by (induction js arbitrary: w) (simp_all add: consent_commutes)

lemma consent_pending: "pending_recipients (with_consent k v w) i = pending_recipients w i"
  by (simp add: pending_recipients_def frame_simps)

lemma consent_completed: "campaign_completed i (with_consent k v w) = with_consent k v (campaign_completed i w)"
  by (simp add: campaign_completed_def consent_pending consent_commutes frame_simps)

lemma consent_process: "processCampaignJob clock ans d (with_consent k v w) = apsnd (with_consent k v) (processCampaignJob clock ans d w)"
  by (simp add: processCampaignJob_def consent_hold consent_commutes recipient_by_id_def frame_simps Let_def split: option.split send_answer.split) auto

lemma consent_run: "run_send_job clock i ans (with_consent k v w) = with_consent k v (run_send_job clock i ans w)"
  by (simp add: run_send_job_def consent_process consent_commutes consent_completed frame_simps split: option.split prod.split send_result.split)

lemma consent_dispatch: "dispatch_one lost i (with_consent k v w) = with_consent k v (dispatch_one lost i w)"
  by (simp add: dispatch_one_def Let_def consent_commutes consent_fold consent_jobs frame_simps split: option.split)

lemma consent_writes:
  "with_consent k v w\<lparr>kw_name := x\<rparr> = with_consent k v (w\<lparr>kw_name := x\<rparr>)"
  "with_consent k v w\<lparr>kw_config := c\<rparr> = with_consent k v (w\<lparr>kw_config := c\<rparr>)"
  "with_consent k v w\<lparr>kw_recapRecipients := rs\<rparr> = with_consent k v (w\<lparr>kw_recapRecipients := rs\<rparr>)"
  "with_consent k v w\<lparr>kw_open := js\<rparr> = with_consent k v (w\<lparr>kw_open := js\<rparr>)"
  by (simp_all add: with_consent_def)

lemma consent_patch:
  "snd (patch_workspace_settings known body (with_consent k v w)) = with_consent k v (snd (patch_workspace_settings known body w))"
proof -
  have r: "recap_ids x (with_consent k v w) = recap_ids x w" for x by (cases x) (simp_all add: recap_ids_def Let_def frame_simps)
  then have "settings_problem known body (with_consent k v w) = settings_problem known body w" by (simp add: settings_problem_def cong: option.case_cong)
  then show ?thesis
    by (cases "settings_problem known body w"; cases "supplied_text ''name'' body"; cases "recap_ids (get (lit ''weeklyRecapRecipientIds'') body) w")
      (simp_all add: patch_workspace_settings_def r consent_writes frame_simps Let_def)
qed

lemma consent_step: "sends_only k e \<Longrightarrow> campaign_step env e (with_consent k v w) = with_consent k v (campaign_step env e w)"
proof (induction env e w rule: campaign_step.induct)
  case (3 env allowance i w)
  then show ?case by (simp add: send_request_def frame_simps consent_jobs Let_def split: option.split) (simp add: with_consent_def)
next
  case (4 env n w)
  have "with_consent k v w\<lparr>kw_open := js\<rparr> = with_consent k v (w\<lparr>kw_open := js\<rparr>)" for js by (simp add: with_consent_def)
  then show ?case by (simp add: send_commit_def consent_commutes consent_fold frame_simps split: prod.split)
next
  case (5 env lost w)
  have "fold (dispatch_one lost) ks (with_consent k v w) = with_consent k v (fold (dispatch_one lost) ks w)" for ks
    by (induction ks arbitrary: w) (simp_all add: consent_dispatch)
  then show ?case by (simp add: dispatchDueCampaigns_def frame_simps cong: option.case_cong)
next
  case (6 env i ans w)
  then show ?case by (simp add: consent_run)
next
  case (7 env wid incoming w)
  then show ?case by (simp add: receive_receipt_def frame_simps consent_commutes cong: if_cong split: option.split)
next
  case (8 env i c w)
  then show ?case by (auto simp: with_consent_def sends_only_def image_image split_beta)
next
  case (9 env i w)
  have "filter (\<lambda>(j, _). j \<noteq> i) (map (\<lambda>(j, p). (j, g j p)) cs) = map (\<lambda>(j, p). (j, g j p)) (filter (\<lambda>(j, _). j \<noteq> i) cs)"
    for g :: "jstr \<Rightarrow> crm_contact \<Rightarrow> crm_contact" and cs by (induction cs) auto
  then show ?case by (simp add: with_consent_def erase_contact_def)
next
  case (10 env body w)
  show ?case by (simp add: consent_patch)
qed (simp_all add: sends_only_def with_consent_def)

text \<open>C28: Consent is read when the recipients are drawn up, and not again. Whatever a contact answers afterwards, a STOP included,
  the same messages leave at the same moments, until a campaign is drawn up anew.\<close>
theorem consent_is_read_once:
  assumes "list_all (sends_only k) es"
  shows "kw_outbox (fold (campaign_step env) es (with_consent k v w)) = kw_outbox (fold (campaign_step env) es w)"
proof -
  have "fold (campaign_step env) es (with_consent k v w) = with_consent k v (fold (campaign_step env) es w)"
    using assms by (induction es arbitrary: w) (simp_all add: consent_step)
  then show ?thesis by (simp add: frame_simps)
qed

theorem consent_is_read_once_witness:
  "kw_outbox (fold (campaign_step plain_campaigns) [Run_Job (SendId (lit ''c1'') (lit ''p1c1'')) (Accepted (lit ''m1''))]
     (with_consent (lit ''p1'') (lit ''OPTED_OUT'') queued_world)) = [the_data]"
  using accepted_world [of _ "lit ''m1''"]
  by (subst consent_is_read_once) (simp_all add: sends_only_def)

section \<open>Quiet hours\<close>

text \<open>Nobody is held and nobody was: the switch is off and the queue knows no postponed job.\<close>

definition never_quiet :: "kworld \<Rightarrow> bool" where
  "never_quiet w \<longleftrightarrow> (case kw_config w of None \<Rightarrow> True | Some c \<Rightarrow> \<not> wc_quietEnabled c)
     \<and> (\<forall>j \<in> set (kw_jobs w) \<union> open_jobs w. \<exists>c r. sj_id j = SendId c r)"

lemma never_cong:
  "never_quiet w \<Longrightarrow> kw_config w' = kw_config w \<Longrightarrow> kw_jobs w' = kw_jobs w \<Longrightarrow> kw_open w' = kw_open w \<Longrightarrow> never_quiet w'"
  by (simp add: never_quiet_def open_jobs_def)

lemma never_fold_enqueue: "never_quiet w \<Longrightarrow> (\<And>j. j \<in> set js \<Longrightarrow> \<exists>c r. sj_id j = SendId c r) \<Longrightarrow> never_quiet (fold enqueue js w)"
proof (induction js arbitrary: w)
  case (Cons j js)
  from Cons.prems have "never_quiet (enqueue j w)" by (auto simp: never_quiet_def enqueue_def open_jobs_def)
  with Cons show ?case by simp
qed simp

lemma never_dispatch: "never_quiet w \<Longrightarrow> never_quiet (dispatch_one lost i w)"
proof -
  assume h: "never_quiet w"
  have claimed: "never_quiet (upd_campaign i f w)" for f using h by (rule never_cong) (simp_all add: frame_simps)
  then have "never_quiet (upd_campaign i g (upd_campaign i f w))" for f g by (rule never_cong) (simp_all add: frame_simps)
  moreover have "never_quiet (fold enqueue (send_jobs u i c) (upd_campaign i f w))" for u c f
    using claimed by (rule never_fold_enqueue) (auto dest: send_jobs_data)
  ultimately show ?thesis using h claimed by (simp add: dispatch_one_def Let_def split: option.split)
qed

lemma never_run: "never_quiet w \<Longrightarrow> never_quiet (run_send_job clock i ans w)"
proof -
  assume h: "never_quiet w"
  then have off: "quietHoursHold clock d w = None" for d by (simp add: never_quiet_def quietHoursHold_def split: option.splits)
  have same: "kw_config (snd (processCampaignJob clock ans d w)) = kw_config w" "kw_jobs (snd (processCampaignJob clock ans d w)) = kw_jobs w"
    "kw_open (snd (processCampaignJob clock ans d w)) = kw_open w" for d
    by (simp_all add: processCampaignJob_def off Let_def frame_simps split: send_answer.split)
  have "never_quiet (upd_send_job i f (snd (processCampaignJob clock ans d w)))" if "\<And>j. sj_id (f j) = sj_id j" for f d
  proof -
    have "open_jobs (upd_send_job i f (snd (processCampaignJob clock ans d w))) = open_jobs w" by (simp add: open_jobs_def frame_simps same)
    with h that show ?thesis by (auto simp: never_quiet_def frame_simps same upd_send_job_def)
  qed
  note updated = this
  moreover have "never_quiet (campaign_completed k (upd_send_job i f (snd (processCampaignJob clock ans d w))))"
    if "\<And>j. sj_id (f j) = sj_id j" for f d k
    using updated [OF that] by (rule never_cong) (simp_all add: frame_simps)
  ultimately show ?thesis using h
    by (auto simp: run_send_job_def retry_job_def Let_def split: option.split prod.split send_result.split dest!: arg_cong [of _ _ snd])
qed

lemma never_patch: "never_quiet w \<Longrightarrow> never_quiet (snd (patch_workspace_settings known body w))"
proof -
  assume h: "never_quiet w"
  have "case kw_config (snd (patch_workspace_settings known body w)) of None \<Rightarrow> True | Some c \<Rightarrow> \<not> wc_quietEnabled c"
    using h by (auto simp: patch_workspace_settings_def Let_def never_quiet_def settings_row_def default_config_def split: option.splits sum.splits)
  with h show ?thesis by (simp add: never_quiet_def open_jobs_def frame_simps)
qed

lemma never_step: "never_quiet w \<Longrightarrow> never_quiet (campaign_step env e w)"
proof (induction env e w rule: campaign_step.induct)
  case (1 env cid title message mediaUrl scheduledAt audience confirmAll w)
  have "never_quiet (snd (draw_up env' cid rid c w))" for env' rid c using 1 by (rule never_cong) (simp_all add: frame_simps)
  with 1 show ?case by (simp add: create_cases)
next
  case (2 env cid source title w)
  have "never_quiet (snd (draw_up env' cid rid c w))" for env' rid c using 2 by (rule never_cong) (simp_all add: frame_simps)
  with 2 show ?case by (simp add: clone_cases)
next
  case (3 env allowance i w)
  have "never_quiet (w\<lparr>kw_open := kw_open w @ [(i, send_jobs w i c)]\<rparr>)" for c
    using 3 by (auto simp: never_quiet_def open_jobs_def dest!: send_jobs_data)
  with 3 show ?case by (auto simp: send_request_def Let_def split: option.splits sum.splits if_splits)
next
  case (4 env n w)
  show ?case
  proof (cases "n < length (kw_open w)")
    case True
    obtain i js where e: "kw_open w ! n = (i, js)" by fastforce
    with True have "(i, js) \<in> set (kw_open w)" by (metis nth_mem)
    with 4 have js: "\<exists>c r. sj_id j = SendId c r" if "j \<in> set js" for j
      using that unfolding never_quiet_def open_jobs_def by blast
    have "never_quiet (w\<lparr>kw_open := take n (kw_open w) @ drop (Suc n) (kw_open w)\<rparr>)"
      using 4 by (auto simp: never_quiet_def open_jobs_def dest!: in_set_takeD in_set_dropD)
    then have "never_quiet (upd_campaign i f (w\<lparr>kw_open := take n (kw_open w) @ drop (Suc n) (kw_open w)\<rparr>))" for f
      by (rule never_cong) (simp_all add: frame_simps)
    with True e js show ?thesis by (auto simp: send_commit_def intro!: never_fold_enqueue)
  qed (use 4 in simp)
next
  case (5 env lost w)
  have "never_quiet (fold (dispatch_one lost) ks w)" for ks
    using 5 by (induction ks arbitrary: w) (simp_all add: never_dispatch)
  then show ?case by (simp add: dispatchDueCampaigns_def)
next
  case (6 env i ans w)
  then show ?case by (simp add: never_run)
next
  case (9 env i w)
  then show ?case by (simp add: never_quiet_def open_jobs_def erase_contact_def)
next
  case (10 env body w)
  then show ?case by (simp add: never_patch)
qed (erule never_cong; simp add: frame_simps)+

interpretation loud: safe_system "campaign_step env" never_quiet for env
  by unfold_locales (rule never_step)

text \<open>C9: Quiet hours cannot be switched on. The settings are checked and the request is answered as done, but the row is written
  without them: an organization that starts with the default keeps it, whatever is saved, and no message of any
  campaign is ever held.\<close>
theorem quiet_hours_cannot_be_set:
  assumes "never_quiet w" and "w' = fold (campaign_step env) es w"
  shows "(case kw_config w' of None \<Rightarrow> True | Some c \<Rightarrow> \<not> wc_quietEnabled c) \<and> quietHoursHold clock d w' = None"
proof -
  have "never_quiet w'" using loud.run_inv [OF assms(1)] assms(2) by simp
  then show ?thesis by (auto simp: never_quiet_def quietHoursHold_def split: option.splits)
qed

definition quiet_on :: json where
  "quiet_on = JObj [(lit ''quietHoursEnabled'', JBool True)]"

definition quiet_job :: send_data where
  "quiet_job =
     \<lparr>sd_campaignId = lit ''c1'', sd_recipientId = lit ''r1'', sd_phone = lit ''970599000001'', sd_message = lit ''hello'',
      sd_mediaUrl = None, sd_session = lit ''main''\<rparr>"

theorem quiet_hours_cannot_be_set_witness:
  "fst (patch_workspace_settings (\<lambda>_. True) quiet_on quiet_world) = None
     \<and> quietHoursHold (\<lambda>_ _. Some (23, 0)) quiet_job (fold (campaign_step plain_campaigns) [Save_Settings quiet_on] quiet_world) = None"
proof -
  have "never_quiet quiet_world" by (simp add: never_quiet_def open_jobs_def quiet_world_def default_config_def)
  note held = conjunct2 [OF quiet_hours_cannot_be_set [OF this refl]]
  have "fst (patch_workspace_settings (\<lambda>_. True) quiet_on quiet_world) = None"
    by (simp add: patch_workspace_settings_def settings_problem_def quiet_on_def quiet_problem_def supplied_text_def Let_def)
  with held show ?thesis by blast
qed

text \<open>The hold ends when the window does, within a day.\<close>

lemma digit_bounds: "is_digit c \<Longrightarrow> 48 \<le> c \<and> c \<le> 57"
  by (simp add: is_digit_def)

lemma parse_two_digits:
  assumes "is_digit a" "is_digit b"
  shows "parse_int0 [a, b] = int (10 * (a - 48) + (b - 48))"
proof -
  from assms have "\<not> is_ws a" "a \<noteq> 45" "a \<noteq> 43" by (auto simp: is_digit_def is_ws_def)
  with assms show ?thesis by (simp add: parse_int0_def lit_def starts_with_def digits_value_def Let_def)
qed

lemma quiet_time_bounds:
  assumes "is_quiet_time s"
  shows "0 \<le> quiet_time s \<and> quiet_time s < 1440"
proof -
  from assms obtain a b c d where s: "s = [a, b, 58, c, d]"
    and h: "(a = 48 \<or> a = 49) \<and> is_digit b \<or> a = 50 \<and> 48 \<le> b \<and> b \<le> 51" and m: "48 \<le> c" "c \<le> 53" "is_digit d"
    by (auto simp: is_quiet_time_def split: list.splits if_splits)
  from h m have digits: "is_digit a" "is_digit b" "is_digit c" by (auto simp: is_digit_def)
  then have no: "a \<noteq> 58" "b \<noteq> 58" "c \<noteq> 58" "d \<noteq> 58" using m(3) by (auto simp: is_digit_def)
  have h24: "10 * (a - 48) + (b - 48) < 24" using h by (auto simp: is_digit_def)
  have m60: "10 * (c - 48) + (d - 48) < 60" using m by (auto simp: is_digit_def)
  from no have "split_on 58 s = [[a, b], [c, d]]" by (simp add: s)
  moreover have "sgn x * (\<bar>x\<bar> mod 24) = x" if "0 \<le> x" "x < 24" for x :: int using that by (simp add: sgn_if)
  ultimately have "quiet_time s = int (10 * (a - 48) + (b - 48)) * 60 + int (10 * (c - 48) + (d - 48))"
    using h24 unfolding quiet_time_def Let_def by (simp only: list.map list.case parse_two_digits digits m(3) mult.assoc [symmetric])
  moreover have "0 \<le> int x * 60 + int y \<and> int x * 60 + int y < 1440" if "x < 24" "y < 60" for x y :: nat using that by simp
  ultimately show ?thesis using h24 m60 by metis
qed

text \<open>C40: A held message leaves when its recipient is awake. For two times of day as the settings take them and any minute inside the
  window, the delay is positive, shorter than a day, and ends at a minute outside the window.\<close>
theorem held_recipient_is_awake:
  assumes "is_quiet_time a" "is_quiet_time b" and "0 \<le> m" "m < 1440" and "quietWindow m a b = Some ms"
  shows "0 < ms \<and> ms < 24 * 60 * 60000 \<and> quietWindow ((m + ms div 60000) mod 1440) a b = None"
proof -
  let ?a = "quiet_time a" and ?b = "quiet_time b"
  note bounds = quiet_time_bounds [OF assms(1)] quiet_time_bounds [OF assms(2)]
  from assms(5) have ne: "?a \<noteq> ?b" and inside: "if ?a > ?b then m \<ge> ?a \<or> m < ?b else m \<ge> ?a \<and> m < ?b"
    and ms: "ms = (if m < ?b then ?b - m else 1440 - m + ?b) * 60000"
    by (auto simp: quietWindow_def Let_def split: if_splits)
  have "(m + ms div 60000) mod 1440 = ?b"
  proof (cases "m < ?b")
    case True
    with bounds show ?thesis by (simp add: ms)
  next
    case False
    have "(?b + 1440) mod 1440 = ?b" using bounds by simp
    with False show ?thesis by (simp add: ms algebra_simps)
  qed
  moreover have "quietWindow ?b a b = None" using bounds ne by (auto simp: quietWindow_def Let_def)
  moreover have "0 < ms \<and> ms < 24 * 60 * 60000" using inside bounds ne assms(3,4) by (auto simp: ms split: if_splits)
  ultimately show ?thesis by simp
qed

theorem held_recipient_is_awake_witness:
  "quietWindow 1350 (lit ''21:00'') (lit ''08:00'') = Some 34200000 \<and> quietWindow ((1350 + 34200000 div 60000) mod 1440) (lit ''21:00'') (lit ''08:00'') = None"
proof -
  have "quiet_time (lit ''21:00'') = 1260" "quiet_time (lit ''08:00'') = 480"
    by (simp_all add: quiet_time_def lit_def parse_two_digits is_digit_def)
  then have w: "quietWindow 1350 (lit ''21:00'') (lit ''08:00'') = Some 34200000" by (simp add: quietWindow_def)
  have "is_quiet_time (lit ''21:00'')" "is_quiet_time (lit ''08:00'')" by (simp_all add: is_quiet_time_def lit_def is_digit_def)
  from held_recipient_is_awake [OF this _ _ w] w show ?thesis by simp
qed

section \<open>Erasure\<close>

text \<open>A contact who was erased is written to, three times. The job carries the number; the row it wants to mark as sent is gone,
  which is an error after the message has left, so the queue tries again until the attempts are used up.\<close>
theorem erased_contact_is_written_to_again:
  assumes job: "find (\<lambda>j. sj_id j = i) (kw_jobs w) = Some j" "sj_state j = Job_Waits" "sj_attempts j = 0" "sj_due j \<le> kw_now w"
    and ids: "distinct (map sj_id (kw_jobs w))" and row: "recipient_by_id w (sd_recipientId (sj_data j)) = Some r" "sd_recipientId (sj_data j) \<noteq> []"
    and rows: "distinct (map cr_id (kw_recipients w))" and quiet: "never_quiet w"
  shows "kw_outbox (fold (campaign_step env)
      [Erase_Contact (cr_contactId r), Run_Job i (Accepted a), Time_Passes 5000, Run_Job i (Accepted b), Time_Passes 10000, Run_Job i (Accepted c)] w)
    = kw_outbox w @ [sj_data j, sj_data j, sj_data j]"
proof -
  let ?d = "sj_data j"
  define turn where "turn t n st due u \<longleftrightarrow> kw_now u = t \<and> never_quiet u \<and> recipient_by_id u (sd_recipientId ?d) = None
    \<and> find (\<lambda>j. sj_id j = i) (kw_jobs u) = Some (j\<lparr>sj_attempts := n, sj_state := st, sj_due := due\<rparr>)" for t :: int and n st due u
  have gone: "recipient_by_id (erase_contact (cr_contactId r) w) (sd_recipientId ?d) = None"
    using row(1) rows by (auto simp: recipient_by_id_def erase_contact_def find_None_iff find_Some_iff distinct_conv_nth in_set_conv_nth) metis
  have found: "find (\<lambda>j. sj_id j = i) (map (\<lambda>j. if sj_id j = i then f j else j) js) = map_option f (find (\<lambda>j. sj_id j = i) js)"
    if "\<And>j. sj_id (f j) = sj_id j" for f js using that by (induction js) auto
  have again: "kw_outbox (run_send_job clock i (Accepted x) u) = kw_outbox u @ [?d]
      \<and> turn t (Suc n) (if Suc n \<ge> 3 then Job_Dead else Job_Waits) (t + 5000 * 2 ^ n) (run_send_job clock i (Accepted x) u)"
    if u: "turn t n Job_Waits due u" "due \<le> t" for t n due u x clock
  proof -
    have off: "quietHoursHold clock d u = None" for d using u(1) by (auto simp: turn_def never_quiet_def quietHoursHold_def split: option.splits)
    have r: "run_send_job clock i (Accepted x) u = upd_send_job i (retry_job t) (deliver ?d u)"
      using u off row(2) by (simp add: turn_def run_send_job_def processCampaignJob_def Let_def)
    have "never_quiet (run_send_job clock i (Accepted x) u)" using u(1) by (simp add: turn_def never_run)
    moreover have "find (\<lambda>j. sj_id j = i) (kw_jobs (upd_send_job i (retry_job t) (deliver ?d u))) = Some (retry_job t (j\<lparr>sj_attempts := n, sj_state := Job_Waits, sj_due := due\<rparr>))"
      using u(1) by (simp add: upd_send_job_def frame_simps turn_def found retry_job_def Let_def)
    ultimately show ?thesis using u(1) unfolding r
      by (simp add: turn_def frame_simps recipient_by_id_def retry_job_def CAMPAIGN_ATTEMPTS_def Let_def)
  qed
  have wait: "turn (t + int k) n st due (u\<lparr>kw_now := kw_now u + int k\<rparr>)" if "turn t n st due u" for t k n st due u
    using that by (auto simp: turn_def recipient_by_id_def intro: never_cong)
  let ?w0 = "erase_contact (cr_contactId r) w"
  have "never_quiet ?w0" using quiet by (simp add: never_quiet_def open_jobs_def erase_contact_def)
  with gone job have t0: "turn (kw_now w) 0 Job_Waits (sj_due j) ?w0" by (simp add: turn_def erase_contact_def)
  let ?w1 = "run_send_job (ce_clock env) i (Accepted a) ?w0"
  let ?w2 = "?w1\<lparr>kw_now := kw_now ?w1 + int 5000\<rparr>"
  let ?w3 = "run_send_job (ce_clock env) i (Accepted b) ?w2"
  let ?w4 = "?w3\<lparr>kw_now := kw_now ?w3 + int 10000\<rparr>"
  note t1 = again [OF t0 job(4), of "ce_clock env" a]
  from t1 have "turn (kw_now w + int 5000) 1 Job_Waits (kw_now w + 5000) ?w2" by (intro wait) simp
  note t2 = again [OF this, of "ce_clock env" b]
  from t2 have "turn (kw_now w + int 5000 + int 10000) 2 Job_Waits (kw_now w + 15000) ?w4" by (intro wait) (simp add: numeral_2_eq_2 add.commute)
  note t3 = again [OF this, of "ce_clock env" c]
  have "kw_outbox ?w0 = kw_outbox w" by (simp add: erase_contact_def)
  with t1 t2 t3 show ?thesis by simp
qed

lemma queued_recipient:
  "recipient_by_id queued_world (sd_recipientId the_data) = Some (new_recipient (lit ''c1'') (\<lambda>p. p @ lit ''c1'') (lit ''p1''))"
  by (simp add: recipient_by_id_def queued_world_def drawn_world_def quiet_world_def new_recipient_def the_data_def lit_append)

theorem erased_contact_is_written_to_again_witness:
  "kw_outbox (fold (campaign_step plain_campaigns)
      [Erase_Contact (lit ''p1''), Run_Job (SendId (lit ''c1'') (lit ''p1c1'')) (Accepted (lit ''m1'')), Time_Passes 5000,
       Run_Job (SendId (lit ''c1'') (lit ''p1c1'')) (Accepted (lit ''m2'')), Time_Passes 10000,
       Run_Job (SendId (lit ''c1'') (lit ''p1c1'')) (Accepted (lit ''m3''))] queued_world) = [the_data, the_data, the_data]"
proof -
  have "kw_outbox queued_world = []" "sj_data the_job = the_data" "sj_state the_job = Job_Waits" "sj_attempts the_job = 0" "sj_due the_job \<le> kw_now queued_world"
    "distinct (map sj_id (kw_jobs queued_world))" "sd_recipientId (sj_data the_job) \<noteq> []" "distinct (map cr_id (kw_recipients queued_world))"
    "never_quiet queued_world"
    by (simp_all add: queued_world_def drawn_world_def quiet_world_def the_job_def the_data_def never_quiet_def open_jobs_def default_config_def)
  moreover have "cr_contactId (new_recipient (lit ''c1'') (\<lambda>p. p @ lit ''c1'') (lit ''p1'')) = lit ''p1''" by (simp add: new_recipient_def)
  ultimately show ?thesis
    using erased_contact_is_written_to_again [OF queued_find, of "new_recipient (lit ''c1'') (\<lambda>p. p @ lit ''c1'') (lit ''p1'')" plain_campaigns
        "lit ''m1''" "lit ''m2''" "lit ''m3''"] queued_recipient
    by simp
qed

section \<open>The report\<close>

definition STATUSES :: "jstr set" where
  "STATUSES = {lit ''pending'', lit ''sent'', lit ''delivered'', lit ''read'', lit ''failed''}"

definition known_statuses :: "kworld \<Rightarrow> bool" where
  "known_statuses w \<longleftrightarrow> (\<forall>r \<in> set (kw_recipients w). r_status r \<in> STATUSES)"

lemma known_cong: "known_statuses w \<Longrightarrow> kw_recipients w' = kw_recipients w \<Longrightarrow> known_statuses w'"
  by (simp add: known_statuses_def)

lemma known_upd: "known_statuses w \<Longrightarrow> (\<And>r. r_status r \<in> STATUSES \<Longrightarrow> r_status (f r) \<in> STATUSES) \<Longrightarrow> known_statuses (upd_recipient i f w)"
  by (auto simp: known_statuses_def upd_recipient_def)

lemma known_draw_up: "known_statuses w \<Longrightarrow> known_statuses (snd (draw_up env cid rid c w))"
  by (auto simp: known_statuses_def draw_up_def Let_def new_recipient_def STATUSES_def split: sum.splits)

lemma known_run: "known_statuses w \<Longrightarrow> known_statuses (run_send_job clock i ans w)"
proof -
  assume h: "known_statuses w"
  then have "known_statuses (deliver d w)" for d by (rule known_cong) (simp add: frame_simps)
  moreover have "known_statuses (mark_failed d e w')" if "known_statuses w'" for d e w'
    using that unfolding mark_failed_def by (rule known_upd) (simp add: STATUSES_def split: send_error.split)
  moreover have "known_statuses (upd_recipient k (\<lambda>r. r\<lparr>r_status := lit ''sent'', cr_sentAt := t, cr_waMessageId := x\<rparr>) w')" if "known_statuses w'" for k t x w'
    using that by (rule known_upd) (simp add: STATUSES_def)
  moreover have "known_statuses (enqueue j w)" for j using h by (rule known_cong) (simp add: frame_simps)
  ultimately have "known_statuses (snd (processCampaignJob clock ans d w))" for d
    using h by (simp add: processCampaignJob_def Let_def split: option.split send_answer.split)
  then have done1: "known_statuses (upd_send_job k f (snd (processCampaignJob clock ans d w)))" for k f d
    by (rule known_cong) (simp add: frame_simps)
  then have "known_statuses (campaign_completed c (upd_send_job k f (snd (processCampaignJob clock ans d w))))" for c k f d
    by (rule known_cong) (simp add: frame_simps)
  with h done1 show ?thesis
    by (auto simp: run_send_job_def split: option.split prod.split send_result.split dest!: arg_cong [of _ _ snd])
qed

lemma advanced_known: "advance_campaign_recipient_status s i = Some a \<Longrightarrow> a \<in> STATUSES"
  by (auto simp: advance_campaign_recipient_status_def CAMPAIGN_STATUS_RANK_def STATUSES_def Let_def split: option.splits if_splits)

lemma known_step: "known_statuses w \<Longrightarrow> known_statuses (campaign_step env e w)"
proof (induction env e w rule: campaign_step.induct)
  case (1 env cid title message mediaUrl scheduledAt audience confirmAll w)
  then show ?case by (simp add: create_cases known_draw_up)
next
  case (2 env cid source title w)
  then show ?case by (simp add: clone_cases known_draw_up)
next
  case (3 env allowance i w)
  then show ?case by (simp add: known_statuses_def split: sum.split)
next
  case (4 env n w)
  then show ?case by (simp add: known_statuses_def send_commit_def frame_simps split: prod.split)
next
  case (5 env lost w)
  have "kw_recipients (dispatch_one lost k u) = kw_recipients u" for k u
    by (simp add: dispatch_one_def Let_def frame_simps split: option.split)
  then have "kw_recipients (fold (dispatch_one lost) ks u) = kw_recipients u" for ks u by (induction ks arbitrary: u) simp_all
  with 5 show ?case by (simp add: known_statuses_def dispatchDueCampaigns_def)
next
  case (6 env i ans w)
  then show ?case by (simp add: known_run)
next
  case (7 env wid incoming w)
  then show ?case by (auto simp: receive_receipt_def split: option.split intro!: known_upd dest: advanced_known)
next
  case (9 env i w)
  then show ?case by (simp add: known_statuses_def erase_contact_def)
qed (erule known_cong; simp add: frame_simps)+

interpretation reported: safe_system "campaign_step env" known_statuses for env
  by unfold_locales (rule known_step)

lemma statuses_partition:
  "\<forall>r \<in> set rs. r_status r \<in> STATUSES \<Longrightarrow>
     length (filter (\<lambda>r. r_status r = lit ''pending'') rs) + length (filter (\<lambda>r. r_status r = lit ''sent'') rs)
     + length (filter (\<lambda>r. r_status r = lit ''delivered'') rs) + length (filter (\<lambda>r. r_status r = lit ''read'') rs)
     + length (filter (\<lambda>r. r_status r = lit ''failed'') rs) = length rs"
  by (induction rs) (auto simp: STATUSES_def)

text \<open>The report adds up. Whatever has happened to a campaign, every one of its recipients is in exactly one of the five counts.\<close>
theorem report_adds_up:
  assumes "kw_recipients w = []" and "campaign_report (fold (campaign_step env) es w) i = Some rp"
  shows "rp_pending rp + rp_sent rp + rp_delivered rp + rp_read rp + rp_failed rp = rp_total rp"
proof -
  let ?w = "fold (campaign_step env) es w"
  have "known_statuses w" using assms(1) by (simp add: known_statuses_def)
  from reported.run_inv [OF this, of env es]
  have "\<forall>r \<in> set (filter (\<lambda>r. cr_campaignId r = i) (kw_recipients ?w)). r_status r \<in> STATUSES" by (simp add: known_statuses_def)
  from statuses_partition [OF this] assms(2) show ?thesis by (auto simp: campaign_report_def Let_def)
qed

theorem report_adds_up_witness:
  "\<exists>rp. campaign_report (fold (campaign_step plain_campaigns) [to_everyone] quiet_world) (lit ''c1'') = Some rp
     \<and> rp_total rp = 1 \<and> rp_pending rp + rp_sent rp + rp_delivered rp + rp_read rp + rp_failed rp = 1"
proof -
  obtain rp where rp: "campaign_report (fold (campaign_step plain_campaigns) [to_everyone] quiet_world) (lit ''c1'') = Some rp" "rp_total rp = 1"
    by (simp add: campaign_report_def drawn_world_def new_recipient_def)
  from report_adds_up [OF _ rp(1)] rp show ?thesis by (simp add: quiet_world_def)
qed

section \<open>Drawing up\<close>

text \<open>A copy of a campaign is a draft for those who would be written to today. It keeps the message, is neither scheduled nor sent, and its
  recipients are drawn from the filter: each contact it finds today that is not archived and has not opted out, in the
  order of the table, each pending, whoever the recipients of the original were.\<close>
theorem clone_draws_todays_audience:
  assumes "clone_campaign env parse cid rid source title w = (Inr n, w')"
    and consent: "\<forall>(i, p) \<in> set (kw_contacts w). cc_cell p (lit ''marketingConsent'') \<noteq> None"
  shows "\<exists>s c q. map_of (kw_campaigns w) source = Some s \<and> kw_campaigns w' = kw_campaigns w @ [(cid, c)]
    \<and> cp_status c = C_DRAFT \<and> cp_scheduledAt c = None \<and> cp_sentAt c = None \<and> cp_message c = cp_message s \<and> cp_mediaUrl c = cp_mediaUrl s
    \<and> contactWhereFromFilterDsl (env (kw_now w)) (cp_audienceFilter c) (kw_organizationId w) = Inr q
    \<and> (let chosen = filter (\<lambda>(_, p). matches (env (kw_now w)) q p \<and> \<not> cc_archived p
                        \<and> cc_cell p (lit ''marketingConsent'') \<noteq> Some (TextCell (lit ''OPTED_OUT''))) (kw_contacts w)
       in kw_recipients w' = kw_recipients w @ map (new_recipient cid rid \<circ> fst) chosen \<and> n = length chosen)"
proof -
  from assms(1) obtain s c where s: "map_of (kw_campaigns w) source = Some s" "draw_up env cid rid c w = (Inr n, w')"
    and c: "cp_status c = C_DRAFT" "cp_scheduledAt c = None" "cp_sentAt c = None" "cp_message c = cp_message s" "cp_mediaUrl c = cp_mediaUrl s"
    by (auto simp: clone_campaign_def Let_def split: option.splits)
  from s(2) obtain a where a: "audienceWhere (env (kw_now w)) (cp_audienceFilter c) (kw_organizationId w) = Inr a"
    by (auto simp: draw_up_def Let_def split: sum.splits)
  then obtain q where q: "contactWhereFromFilterDsl (env (kw_now w)) (cp_audienceFilter c) (kw_organizationId w) = Inr q"
    "a = Both [q, Archived False, Negated opted_out_where] []" by (auto simp: audienceWhere_def)
  let ?chosen = "\<lambda>(_, p). matches (env (kw_now w)) q p \<and> \<not> cc_archived p \<and> cc_cell p (lit ''marketingConsent'') \<noteq> Some (TextCell (lit ''OPTED_OUT''))"
  have same: "filter (\<lambda>(_, p). matches (env (kw_now w)) a p) (kw_contacts w) = filter ?chosen (kw_contacts w)"
    using consent by (intro filter_cong) (auto simp: q(2) consent_matches)
  have "kw_campaigns w' = kw_campaigns w @ [(cid, c)]" using draw_up_frame(5) [of env cid rid c w] s(2) by simp
  moreover have "kw_recipients w' = kw_recipients w @ map (new_recipient cid rid \<circ> fst) (filter ?chosen (kw_contacts w))"
    "n = length (filter ?chosen (kw_contacts w))"
    using s(2) by (auto simp: draw_up_def Let_def a same)
  ultimately show ?thesis using s(1) c q(1) by (auto simp: Let_def)
qed

text \<open>The customer opted out between the two campaigns.\<close>

theorem clone_draws_todays_audience_witness:
  "\<exists>w'. clone_campaign (ce_filter plain_campaigns) (ce_parse plain_campaigns) (lit ''c2'') (\<lambda>p. p @ lit ''c2'') (lit ''c1'') JUndef
       (with_consent (lit ''p1'') (lit ''OPTED_OUT'') drawn_world) = (Inr 0, w')
     \<and> kw_recipients w' = kw_recipients drawn_world"
proof -
  let ?w = "with_consent (lit ''p1'') (lit ''OPTED_OUT'') drawn_world"
  have contacts: "kw_contacts ?w = [(lit ''p1'', a_customer\<lparr>cc_cell := (cc_cell a_customer)(lit ''marketingConsent'' \<mapsto> TextCell (lit ''OPTED_OUT''))\<rparr>)]"
    by (simp add: with_consent_def drawn_world_def quiet_world_def)
  have out: "\<not> matches plain_env (Both [Everything, Archived False, Negated opted_out_where] [])
      (a_customer\<lparr>cc_cell := (cc_cell a_customer)(lit ''marketingConsent'' \<mapsto> TextCell (lit ''OPTED_OUT''))\<rparr>)"
    by (simp add: matches_Negated opted_out_where_def column_holds_def cell_holds_def)
  have draw: "\<exists>w'. draw_up (\<lambda>_. plain_env) cid rid c ?w = (Inr 0, w')" if "cp_audienceFilter c = JNull" for cid rid c
    by (simp add: draw_up_def that everyone_audience contacts out del: matches_simps)
  have the: "map_of (kw_campaigns ?w) (lit ''c1'') = Some the_campaign" "cp_sessionId the_campaign = lit ''s1''" "cp_audienceFilter the_campaign = JNull"
    by (simp_all add: frame_simps drawn_world_def the_campaign_def)
  have "\<exists>w'. clone_campaign (ce_filter plain_campaigns) (ce_parse plain_campaigns) (lit ''c2'') (\<lambda>p. p @ lit ''c2'') (lit ''c1'') JUndef ?w = (Inr 0, w')"
    by (simp add: clone_campaign_def plain_campaigns_def the Let_def parseContactFilterDsl_def draw)
  then obtain w' where c: "clone_campaign (ce_filter plain_campaigns) (ce_parse plain_campaigns) (lit ''c2'') (\<lambda>p. p @ lit ''c2'') (lit ''c1'') JUndef ?w = (Inr 0, w')"
    by blast
  from clone_draws_todays_audience [OF c] contacts have "kw_recipients w' = kw_recipients ?w"
    by (auto simp: Let_def)
  with c show ?thesis by (simp add: frame_simps)
qed

end
