(* ===== verification/Request_Guards.thy ===== *)
theory Request_Guards
  imports Platform "HOL-Library.List_Lexorder" "HOL-Library.AList"
begin

text \<open>
  What stands between a request and its handler: roles, restrictions and visibility
  (\<open>middleware/rbac.middleware.ts\<close>, \<open>lib/user-access.ts\<close>), the rate limiter
  (\<open>middleware/rate-limit.middleware.ts\<close>), and the tokens of the public interface
  (\<open>modules/api-tokens\<close>). The limiter's state is its map of buckets, in the order of insertion. The
  digest of a secret is a parameter.
\<close>

section \<open>Roles\<close>

datatype role = R_ADMIN | R_SUPERVISOR | R_AGENT | R_VIEWER | R_FINANCE

definition role_name :: "role \<Rightarrow> jstr" where
  "role_name r =
     (case r of R_ADMIN \<Rightarrow> lit ''ADMIN'' | R_SUPERVISOR \<Rightarrow> lit ''SUPERVISOR'' | R_AGENT \<Rightarrow> lit ''AGENT''
      | R_VIEWER \<Rightarrow> lit ''VIEWER'' | R_FINANCE \<Rightarrow> lit ''FINANCE'')"

definition ROLE_PERMISSIONS :: "(jstr \<times> role list) list" where
  "ROLE_PERMISSIONS =
     [(lit ''conversation:resolve'', [R_ADMIN, R_SUPERVISOR, R_AGENT]),
      (lit ''conversation:assign'', [R_ADMIN, R_SUPERVISOR]),
      (lit ''conversation:create'', [R_ADMIN, R_SUPERVISOR, R_AGENT]),
      (lit ''conversation:read'', [R_ADMIN, R_SUPERVISOR, R_AGENT, R_VIEWER, R_FINANCE]),
      (lit ''ticket:create'', [R_ADMIN, R_SUPERVISOR, R_AGENT]),
      (lit ''ticket:update'', [R_ADMIN, R_SUPERVISOR]),
      (lit ''ticket:resolve'', [R_ADMIN, R_SUPERVISOR]),
      (lit ''ticket:read'', [R_ADMIN, R_SUPERVISOR, R_AGENT, R_VIEWER, R_FINANCE]),
      (lit ''contact:create'', [R_ADMIN, R_SUPERVISOR, R_AGENT]),
      (lit ''contact:update'', [R_ADMIN, R_SUPERVISOR]),
      (lit ''contact:delete'', [R_ADMIN]),
      (lit ''contact:read'', [R_ADMIN, R_SUPERVISOR, R_AGENT, R_VIEWER, R_FINANCE]),
      (lit ''contact:export'', [R_ADMIN, R_SUPERVISOR]),
      (lit ''segment:view'', [R_ADMIN, R_SUPERVISOR, R_AGENT, R_VIEWER, R_FINANCE]),
      (lit ''segment:create'', [R_ADMIN, R_SUPERVISOR, R_AGENT]),
      (lit ''segment:rename'', [R_ADMIN, R_SUPERVISOR]),
      (lit ''segment:delete'', [R_ADMIN, R_SUPERVISOR]),
      (lit ''inbox-view:manage-shared'', [R_ADMIN, R_SUPERVISOR]),
      (lit ''workflow:view'', [R_ADMIN, R_SUPERVISOR, R_AGENT, R_VIEWER, R_FINANCE]),
      (lit ''workflow:manage'', [R_ADMIN, R_SUPERVISOR]),
      (lit ''campaign:create'', [R_ADMIN, R_SUPERVISOR]),
      (lit ''campaign:send'', [R_ADMIN, R_SUPERVISOR]),
      (lit ''campaign:read'', [R_ADMIN, R_SUPERVISOR, R_FINANCE]),
      (lit ''analytics:read'', [R_ADMIN, R_SUPERVISOR, R_FINANCE]),
      (lit ''audit-log:read'', [R_ADMIN]),
      (lit ''user:create'', [R_ADMIN, R_SUPERVISOR]),
      (lit ''user:update'', [R_ADMIN]),
      (lit ''user:delete'', [R_ADMIN]),
      (lit ''user:list'', [R_ADMIN]),
      (lit ''system:config'', [R_ADMIN]),
      (lit ''integration:manage'', [R_ADMIN])]"

definition permissionsForRole :: "role \<Rightarrow> jstr list" where
  "permissionsForRole r = sort (map fst (filter (\<lambda>(_, roles). r \<in> set roles) ROLE_PERMISSIONS))"

definition hasPermission :: "role option \<Rightarrow> jstr \<Rightarrow> bool" where
  "hasPermission r operation =
     (case r of None \<Rightarrow> False
      | Some r \<Rightarrow> (case map_of ROLE_PERMISSIONS operation of None \<Rightarrow> False | Some roles \<Rightarrow> r \<in> set roles))"

section \<open>Restrictions\<close>

datatype visibility_scope = Scope_TEAM | Scope_SELF

record restrictions =
  rs_restrictContactVisibility :: bool
  rs_contactVisibilityScope :: visibility_scope
  rs_restrictCalls :: bool
  rs_restrictWorkflows :: bool
  rs_restrictDataExport :: bool
  rs_restrictContactDeletion :: bool
  rs_restrictWorkspaceSettings :: bool
  rs_restrictIntegrations :: bool
  rs_maskPhoneAndEmail :: bool

definition no_restrictions :: restrictions where
  "no_restrictions =
     \<lparr>rs_restrictContactVisibility = False, rs_contactVisibilityScope = Scope_TEAM, rs_restrictCalls = False,
      rs_restrictWorkflows = False, rs_restrictDataExport = False, rs_restrictContactDeletion = False,
      rs_restrictWorkspaceSettings = False, rs_restrictIntegrations = False, rs_maskPhoneAndEmail = False\<rparr>"

datatype restriction_code =
  USER_WORKFLOW_RESTRICTED | USER_EXPORT_RESTRICTED | USER_CONTACT_DELETE_RESTRICTED
  | USER_SETTINGS_RESTRICTED | USER_INTEGRATION_RESTRICTED

definition USER_RESTRICTIONS :: "((restrictions \<Rightarrow> bool) \<times> jstr list \<times> restriction_code) list" where
  "USER_RESTRICTIONS =
     [(rs_restrictWorkflows, [lit ''workflow:manage'', lit ''workflow:view''], USER_WORKFLOW_RESTRICTED),
      (rs_restrictDataExport, [lit ''contact:export''], USER_EXPORT_RESTRICTED),
      (rs_restrictContactDeletion, [lit ''contact:delete''], USER_CONTACT_DELETE_RESTRICTED),
      (rs_restrictWorkspaceSettings,
       [lit ''system:config'', lit ''user:create'', lit ''user:update'', lit ''user:delete'', lit ''user:list''],
       USER_SETTINGS_RESTRICTED),
      (rs_restrictIntegrations, [lit ''integration:manage''], USER_INTEGRATION_RESTRICTED)]"

definition restrictionFor :: "jstr \<Rightarrow> restrictions option \<Rightarrow> restriction_code option" where
  "restrictionFor operation rs =
     (case rs of None \<Rightarrow> None
      | Some r \<Rightarrow> map_option (snd \<circ> snd) (find (\<lambda>(flag, operations, _). flag r \<and> operation \<in> set operations) USER_RESTRICTIONS))"

definition permissionsForUser :: "role \<Rightarrow> restrictions option \<Rightarrow> jstr list" where
  "permissionsForUser r rs = filter (\<lambda>p. restrictionFor p rs = None) (permissionsForRole r)"

text \<open>\<open>req.user\<close>: what a request carries once its token was accepted.\<close>

record principal =
  pr_id :: jstr
  pr_organizationId :: jstr
  pr_role :: role
  pr_restrictions :: restrictions
  pr_teamIds :: "jstr list"
  pr_workspaceId :: "jstr option"
  pr_platformUser :: bool

datatype guard_answer =
  Proceed | Unauthorized | Invalid_Operation | No_Permission | Restricted restriction_code | Admin_Required | Supervisor_Required

definition requirePermission :: "jstr \<Rightarrow> principal option \<Rightarrow> guard_answer" where
  "requirePermission operation user =
     (case user of None \<Rightarrow> Unauthorized
      | Some u \<Rightarrow>
          (case map_of ROLE_PERMISSIONS operation of None \<Rightarrow> Invalid_Operation
           | Some roles \<Rightarrow>
               if pr_role u \<notin> set roles then No_Permission
               else case restrictionFor operation (Some (pr_restrictions u)) of
                      Some code \<Rightarrow> Restricted code
                    | None \<Rightarrow> Proceed))"

definition requireAdmin :: "principal option \<Rightarrow> guard_answer" where
  "requireAdmin user = (case user of None \<Rightarrow> Admin_Required | Some u \<Rightarrow> if pr_role u = R_ADMIN then Proceed else Admin_Required)"

definition requireSupervisor :: "principal option \<Rightarrow> guard_answer" where
  "requireSupervisor user =
     (case user of None \<Rightarrow> Supervisor_Required
      | Some u \<Rightarrow> if pr_role u \<in> {R_ADMIN, R_SUPERVISOR} then Proceed else Supervisor_Required)"

text \<open>A chain of guards answers what its first refusing guard answers.\<close>

fun guards :: "guard_answer list \<Rightarrow> guard_answer" where
  "guards [] = Proceed"
| "guards (a # as) = (if a = Proceed then guards as else a)"

section \<open>Visibility\<close>

record visible_thread =
  vt_assignedToId :: "jstr option"
  vt_teamId :: "jstr option"
  vt_collaborators :: "jstr list"

record visible_contact =
  vc_assigneeId :: "jstr option"
  vc_conversations :: "visible_thread list"

definition collaboratingOn :: "jstr \<Rightarrow> visible_thread \<Rightarrow> bool" where
  "collaboratingOn u t \<longleftrightarrow> u \<in> set (vt_collaborators t)"

definition in_teams :: "jstr list \<Rightarrow> visible_thread \<Rightarrow> bool" where
  "in_teams teams t = (case vt_teamId t of None \<Rightarrow> False | Some i \<Rightarrow> i \<in> set teams)"

definition contactAccessWhere :: "principal \<Rightarrow> visible_contact \<Rightarrow> bool" where
  "contactAccessWhere u c =
     (if \<not> rs_restrictContactVisibility (pr_restrictions u) then True
      else if rs_contactVisibilityScope (pr_restrictions u) = Scope_SELF then
        vc_assigneeId c = Some (pr_id u)
        \<or> list_ex (\<lambda>t. vt_assignedToId t = Some (pr_id u)) (vc_conversations c)
        \<or> list_ex (collaboratingOn (pr_id u)) (vc_conversations c)
      else
        vc_assigneeId c = Some (pr_id u)
        \<or> (pr_teamIds u \<noteq> [] \<and> list_ex (in_teams (pr_teamIds u)) (vc_conversations c))
        \<or> list_ex (collaboratingOn (pr_id u)) (vc_conversations c))"

definition conversationAccessWhere :: "principal \<Rightarrow> visible_thread \<Rightarrow> bool" where
  "conversationAccessWhere u t =
     (if \<not> rs_restrictContactVisibility (pr_restrictions u) then True
      else if rs_contactVisibilityScope (pr_restrictions u) = Scope_SELF then
        vt_assignedToId t = Some (pr_id u) \<or> collaboratingOn (pr_id u) t
      else
        vt_assignedToId t = Some (pr_id u)
        \<or> (pr_teamIds u \<noteq> [] \<and> in_teams (pr_teamIds u) t)
        \<or> collaboratingOn (pr_id u) t)"

text \<open>The mask is six bullets; an object that is no contact is searched for contacts below it.\<close>

definition MASK :: jstr where
  "MASK = replicate 6 8226"

definition masked_value :: "json \<Rightarrow> json" where
  "masked_value v = (if truthy v then JStr MASK else v)"

definition maskContact :: "json \<Rightarrow> json" where
  "maskContact c =
     (case c of
        JObj kvs \<Rightarrow>
          JObj (obj_set (lit ''emailMasked'') (JBool (truthy (get (lit ''email'') c)))
               (obj_set (lit ''phoneMasked'') (JBool (truthy (get (lit ''phone'') c)))
               (obj_set (lit ''email'') (masked_value (get (lit ''email'') c))
               (obj_set (lit ''phone'') (masked_value (get (lit ''phone'') c)) kvs))))
      | _ \<Rightarrow> c)"

fun maskConversationContacts :: "json \<Rightarrow> json" where
  "maskConversationContacts (JArr xs) = JArr (map maskConversationContacts xs)"
| "maskConversationContacts (JObj kvs) =
     JObj (map (\<lambda>(k, v). (k, if k = lit ''contact'' then maskContact v else maskConversationContacts v)) kvs)"
| "maskConversationContacts v = v"

section \<open>The rate limiter\<close>

record bucket =
  bk_count :: nat
  bk_resetAt :: int

type_synonym buckets = "(jstr \<times> bucket) list"

definition sweep :: "int \<Rightarrow> buckets \<Rightarrow> buckets" where
  "sweep now bs = (if length bs < 5000 then bs else filter (\<lambda>(_, b). \<not> bk_resetAt b \<le> now) bs)"

datatype limit_answer = Admitted | Too_Many int

definition retry_after :: "int \<Rightarrow> int \<Rightarrow> int" where
  "retry_after resetAt now = - ((now - resetAt) div 1000)"

text \<open>\<open>who\<close> is what \<open>keyBy\<close> makes of the request.\<close>

definition rateLimit :: "jstr \<Rightarrow> nat \<Rightarrow> int \<Rightarrow> int \<Rightarrow> jstr \<Rightarrow> buckets \<Rightarrow> limit_answer \<times> buckets" where
  "rateLimit name limit windowMs now who bs0 =
     (let bs = sweep now bs0; key = name @ lit '':'' @ who in
      case map_of bs key of
        None \<Rightarrow> (Admitted, AList.update key \<lparr>bk_count = 1, bk_resetAt = now + windowMs\<rparr> bs)
      | Some b \<Rightarrow>
          if bk_resetAt b \<le> now then (Admitted, AList.update key \<lparr>bk_count = 1, bk_resetAt = now + windowMs\<rparr> bs)
          else let n = bk_count b + 1; bs' = AList.update key (b\<lparr>bk_count := n\<rparr>) bs in
               if n > limit then (Too_Many (retry_after (bk_resetAt b) now), bs') else (Admitted, bs'))"

definition login_caller :: "jstr \<Rightarrow> jstr \<Rightarrow> jstr" where
  "login_caller ip email = ip @ lit '':'' @ js_lower email"

definition LIMIT_login :: "int \<Rightarrow> jstr \<Rightarrow> jstr \<Rightarrow> buckets \<Rightarrow> limit_answer \<times> buckets" where
  "LIMIT_login now ip email = rateLimit (lit ''login'') 10 (15 * 60000) now (login_caller ip email)"

definition LIMIT_api :: "int \<Rightarrow> jstr \<Rightarrow> buckets \<Rightarrow> limit_answer \<times> buckets" where
  "LIMIT_api now ip = rateLimit (lit ''api'') 300 60000 now ip"

definition LIMIT_twoFactorLogin :: "int \<Rightarrow> jstr \<Rightarrow> jstr \<Rightarrow> buckets \<Rightarrow> limit_answer \<times> buckets" where
  "LIMIT_twoFactorLogin now ip challengeToken =
     rateLimit (lit ''two-factor-login'') 8 (15 * 60000) now (ip @ lit '':'' @ slice_last 32 challengeToken)"

definition publicApiCaller :: "jstr \<Rightarrow> jstr \<Rightarrow> jstr" where
  "publicApiCaller authorization ip =
     (let prefix = (if starts_with (lit ''Bearer rbt_'') authorization then hd (split_on 95 (drop 11 authorization)) else [])
      in if prefix \<noteq> [] then prefix else lit ''ip:'' @ ip)"

definition id_segment :: "jstr \<Rightarrow> bool" where
  "id_segment s \<longleftrightarrow>
     list_ex (\<lambda>p. starts_with p (js_lower s)) [lit ''id:'', lit ''phone:'', lit ''email:''] \<or> length s > 20"

definition routeTemplate :: "jstr \<Rightarrow> jstr" where
  "routeTemplate path =
     join_with (lit ''/'') (map (\<lambda>s. if s = [] then s else if id_segment s then lit '':id'' else s) (split_on 47 path))"

definition LIMIT_publicApi :: "int \<Rightarrow> jstr \<Rightarrow> jstr \<Rightarrow> jstr \<Rightarrow> jstr \<Rightarrow> buckets \<Rightarrow> limit_answer \<times> buckets" where
  "LIMIT_publicApi now authorization ip method_name path =
     rateLimit (lit ''public-api'') 5 1000 now
       (publicApiCaller authorization ip @ lit '':'' @ method_name @ lit '':'' @ routeTemplate path)"

section \<open>Tokens of the public interface\<close>

definition API_SCOPES :: "jstr list" where
  "API_SCOPES =
     [lit ''contacts:read'', lit ''contacts:write'', lit ''contacts:delete'', lit ''conversations:read'',
      lit ''conversations:write'', lit ''messages:read'', lit ''messages:send'', lit ''tags:read'', lit ''tags:write'',
      lit ''workspace:read'', lit ''workflows:trigger'']"

definition isValidScope :: "json \<Rightarrow> bool" where
  "isValidScope j = (case j of JStr s \<Rightarrow> s \<in> set API_SCOPES | _ \<Rightarrow> False)"

text \<open>\<open>Array.from(new Set(xs))\<close> keeps the first of each.\<close>

definition js_unique :: "'a list \<Rightarrow> 'a list" where
  "js_unique xs = rev (remdups (rev xs))"

lemma set_js_unique [simp]: "set (js_unique xs) = set xs"
  by (simp add: js_unique_def)

record api_token =
  at_id :: jstr
  at_organizationId :: jstr
  at_name :: jstr
  at_prefix :: jstr
  at_tokenHash :: jstr
  at_scopes :: "jstr list"
  at_expiresAt :: "int option"
  at_revokedAt :: "int option"
  at_lastUsedAt :: "int option"
  at_maskContactDetails :: bool
  at_createdById :: "jstr option"

record resolved_token =
  rt_id :: jstr
  rt_organizationId :: jstr
  rt_scopes :: "jstr list"
  rt_maskContactDetails :: bool

text \<open>\<open>Buffer.from(s, 'hex')\<close>: bytes up to the first pair that is not hexadecimal.\<close>

definition hex_value :: "nat \<Rightarrow> nat option" where
  "hex_value c =
     (if 48 \<le> c \<and> c \<le> 57 then Some (c - 48) else if 97 \<le> c \<and> c \<le> 102 then Some (c - 87)
      else if 65 \<le> c \<and> c \<le> 70 then Some (c - 55) else None)"

fun hex_bytes :: "jstr \<Rightarrow> nat list" where
  "hex_bytes (a # b # s) =
     (case (hex_value a, hex_value b) of (Some x, Some y) \<Rightarrow> (16 * x + y) # hex_bytes s | _ \<Rightarrow> [])"
| "hex_bytes _ = []"

text \<open>The drawn prefix and secret are arguments. A prefix that is taken breaks the unique key.\<close>

definition token_text :: "jstr \<Rightarrow> jstr \<Rightarrow> jstr" where
  "token_text prefix secret = lit ''rbt_'' @ prefix @ lit ''_'' @ secret"

record token_order =
  to_name :: jstr
  to_scopes :: "jstr list"
  to_expiresInDays :: "int option"
  to_createdById :: "jstr option"
  to_maskContactDetails :: bool

definition issueApiToken ::
    "(jstr \<Rightarrow> jstr) \<Rightarrow> int \<Rightarrow> jstr \<Rightarrow> jstr \<times> jstr \<times> jstr \<Rightarrow> token_order \<Rightarrow> api_token list \<Rightarrow> (jstr \<times> api_token list) option" where
  "issueApiToken hashSecret now organizationId drawn order rows =
     (let (i, prefix, secret) = drawn in
      if prefix \<in> at_prefix ` set rows \<or> i \<in> at_id ` set rows then None
      else Some (token_text prefix secret,
             rows @ [\<lparr>at_id = i, at_organizationId = organizationId, at_name = to_name order, at_prefix = prefix,
                      at_tokenHash = hashSecret secret,
                      at_scopes = filter (\<lambda>s. s \<in> set API_SCOPES) (js_unique (to_scopes order)),
                      at_expiresAt = map_option (\<lambda>d. now + d * 24 * 60 * 60 * 1000) (to_expiresInDays order),
                      at_revokedAt = None, at_lastUsedAt = None,
                      at_maskContactDetails = to_maskContactDetails order, at_createdById = to_createdById order\<rparr>]))"

datatype token_problem = Missing_Bearer | Malformed_Token | Unknown_Prefix | Bad_Secret | Token_Revoked_At | Token_Expired

definition resolved :: "api_token \<Rightarrow> resolved_token" where
  "resolved r =
     \<lparr>rt_id = at_id r, rt_organizationId = at_organizationId r, rt_scopes = at_scopes r,
      rt_maskContactDetails = at_maskContactDetails r\<rparr>"

definition touch_token :: "int \<Rightarrow> api_token \<Rightarrow> api_token list \<Rightarrow> api_token list" where
  "touch_token now r rows =
     (if (case at_lastUsedAt r of None \<Rightarrow> True | Some t \<Rightarrow> now - t > 60000)
      then map (\<lambda>x. if at_id x = at_id r then x\<lparr>at_lastUsedAt := Some now\<rparr> else x) rows else rows)"

definition resolveApiToken ::
    "(jstr \<Rightarrow> jstr) \<Rightarrow> int \<Rightarrow> jstr option \<Rightarrow> api_token list \<Rightarrow> (token_problem + resolved_token) \<times> api_token list" where
  "resolveApiToken hashSecret now authorization rows =
     (case authorization of
        None \<Rightarrow> (Inl Missing_Bearer, rows)
      | Some header \<Rightarrow>
          if \<not> starts_with (lit ''Bearer '') header then (Inl Missing_Bearer, rows)
          else case split_on 95 (js_trim (drop 7 header)) of
                 [rbt, prefix, secret] \<Rightarrow>
                   if rbt \<noteq> lit ''rbt'' \<or> prefix = [] \<or> secret = [] then (Inl Malformed_Token, rows)
                   else (case find (\<lambda>r. at_prefix r = prefix) rows of
                           None \<Rightarrow> (Inl Unknown_Prefix, rows)
                         | Some r \<Rightarrow>
                             if hex_bytes (at_tokenHash r) \<noteq> hex_bytes (hashSecret secret) then (Inl Bad_Secret, rows)
                             else if at_revokedAt r \<noteq> None then (Inl Token_Revoked_At, rows)
                             else if (case at_expiresAt r of None \<Rightarrow> False | Some t \<Rightarrow> t \<le> now) then (Inl Token_Expired, rows)
                             else (Inr (resolved r), touch_token now r rows))
               | _ \<Rightarrow> (Inl Malformed_Token, rows))"

definition tokenHasScope :: "resolved_token \<Rightarrow> jstr \<Rightarrow> bool" where
  "tokenHasScope t scope \<longleftrightarrow> scope \<in> set (rt_scopes t)"

datatype api_answer =
  Api_Unauthorized | Api_Provisioning | Api_Gated gate_decision | Api_Insufficient_Scope jstr | Api_Proceed resolved_token

text \<open>\<open>gate\<close> is what \<open>decideAccess\<close> says of the organization, \<open>status\<close> its row's status.\<close>

definition apiTokenAuth ::
    "(jstr \<Rightarrow> jstr) \<Rightarrow> int \<Rightarrow> platform \<Rightarrow> jstr option \<Rightarrow> api_token list \<Rightarrow> api_answer \<times> api_token list" where
  "apiTokenAuth hashSecret now w authorization rows =
     (case resolveApiToken hashSecret now authorization rows of
        (Inl _, rows') \<Rightarrow> (Api_Unauthorized, rows')
      | (Inr t, rows') \<Rightarrow>
          if map_option og_status (pf_orgs w (rt_organizationId t)) = Some ORG_PROVISIONING then (Api_Provisioning, rows')
          else case decideAccess w (rt_organizationId t) now of
                 Allowed \<Rightarrow> (Api_Proceed t, rows')
               | d \<Rightarrow> (Api_Gated d, rows'))"

definition requireScope :: "jstr \<Rightarrow> resolved_token option \<Rightarrow> api_answer" where
  "requireScope scope t =
     (case t of None \<Rightarrow> Api_Unauthorized
      | Some t \<Rightarrow> if tokenHasScope t scope then Api_Proceed t else Api_Insufficient_Scope scope)"

text \<open>Managing them: \<open>POST /\<close> and \<open>DELETE /:id\<close> of \<open>api-tokens.routes.ts\<close>, behind three guards.\<close>

definition integration_guards :: "principal option \<Rightarrow> guard_answer" where
  "integration_guards user =
     guards [requireAdmin user, requirePermission (lit ''system:config'') user, requirePermission (lit ''integration:manage'') user]"

datatype token_error =
  Token_Name_Missing | Token_Name_Too_Long | Unknown_Scopes "json list" | No_Scope | Bad_Expiry | Too_Many_Tokens
  | Token_Not_Found | Token_Server_Error

definition array_of :: "json \<Rightarrow> json list" where
  "array_of j = (case j of JArr xs \<Rightarrow> xs | _ \<Rightarrow> [])"

definition expiry_days :: "json \<Rightarrow> (int option) option" where
  "expiry_days j =
     (case j of
        JNull \<Rightarrow> Some None
      | JUndef \<Rightarrow> Some (Some 90)
      | _ \<Rightarrow> (case js_number j of
               Fin q \<Rightarrow> if is_integer q \<and> 1 \<le> q \<and> q \<le> 365 then Some (Some \<lfloor>q\<rfloor>) else None
             | _ \<Rightarrow> None))"

definition create_api_token ::
    "(jstr \<Rightarrow> jstr) \<Rightarrow> int \<Rightarrow> principal \<Rightarrow> jstr \<times> jstr \<times> jstr \<Rightarrow> json \<Rightarrow> api_token list \<Rightarrow> (token_error + jstr) \<times> api_token list" where
  "create_api_token hashSecret now user drawn body rows =
     (let name = js_trim (js_string_nullish (get (lit ''name'') body));
          rawScopes = array_of (get (lit ''scopes'') body);
          unknown = filter (\<lambda>s. \<not> isValidScope s) rawScopes in
      if name = [] then (Inl Token_Name_Missing, rows)
      else if length name > 60 then (Inl Token_Name_Too_Long, rows)
      else if unknown \<noteq> [] then (Inl (Unknown_Scopes unknown), rows)
      else if rawScopes = [] then (Inl No_Scope, rows)
      else case expiry_days (get (lit ''expiresInDays'') body) of
             None \<Rightarrow> (Inl Bad_Expiry, rows)
           | Some days \<Rightarrow>
               if length (filter (\<lambda>r. at_organizationId r = pr_organizationId user \<and> at_revokedAt r = None) rows) \<ge> 20
               then (Inl Too_Many_Tokens, rows)
               else (case issueApiToken hashSecret now (pr_organizationId user) drawn
                            \<lparr>to_name = name, to_scopes = map js_string rawScopes, to_expiresInDays = days,
                             to_createdById = Some (pr_id user),
                             to_maskContactDetails = rs_maskPhoneAndEmail (pr_restrictions user)\<rparr> rows of
                       None \<Rightarrow> (Inl Token_Server_Error, rows)
                     | Some (text, rows') \<Rightarrow> (Inr text, rows')))"

definition revoke_api_token :: "int \<Rightarrow> principal \<Rightarrow> jstr \<Rightarrow> api_token list \<Rightarrow> (token_error + unit) \<times> api_token list" where
  "revoke_api_token now user i rows =
     (let hit = (\<lambda>r. at_id r = i \<and> at_organizationId r = pr_organizationId user \<and> at_revokedAt r = None) in
      if \<not> list_ex hit rows then (Inl Token_Not_Found, rows)
      else (Inr (), map (\<lambda>r. if hit r then r\<lparr>at_revokedAt := Some now\<rparr> else r) rows))"

end
