(* ===== verification/Auth.thy ===== *)
theory Auth
  imports Request_Guards Entitlements
begin

text \<open>
  Who is let in (\<open>modules/auth\<close>, the user routes of \<open>modules/system/system.routes.ts\<close>,
  \<open>modules/system/user-invitations.service.ts\<close>, \<open>modules/workspaces\<close>, the staff routes of
  \<open>modules/platform/platform.routes.ts\<close>): signing in with a password and a second factor, the check of a token on
  every request, users, invitations, workspaces and their members. The state is the rows of all
  organizations over the platform of the billing theories, which has the clock, the outbox, the
  organizations and what their editions allow. Passwords, codes, signatures and digests are
  parameters; every id, salt and secret that is drawn is an argument.
\<close>

section \<open>Rows\<close>

datatype platform_role = P_NONE | P_SUPPORT | P_OWNER

record identity =
  idt_id :: jstr
  idt_email :: jstr
  idt_passwordHash :: jstr
  idt_platformRole :: platform_role
  idt_platformPermissions :: "jstr list"
  idt_platformDisabledAt :: "int option"
  idt_totpSecretEnc :: "jstr option"
  idt_totpEnabledAt :: "int option"
  idt_totpLastUsedCounter :: "int option"

record user =
  us_id :: jstr
  us_organizationId :: jstr
  us_identityId :: jstr
  us_name :: jstr
  us_role :: role
  us_primaryTeamId :: "jstr option"
  us_teamIds :: "jstr list"
  us_isActive :: bool
  us_phone :: "jstr option"
  us_tokenVersion :: int
  us_restrictions :: restrictions

record auth_session =
  as_id :: jstr
  as_organizationId :: jstr
  as_userId :: jstr
  as_lastSeenAt :: int
  as_revokedAt :: "int option"

record workspace =
  wk_id :: jstr
  wk_organizationId :: jstr
  wk_name :: jstr
  wk_isDefault :: bool

record workspace_member =
  wm_organizationId :: jstr
  wm_workspaceId :: jstr
  wm_userId :: jstr
  wm_role :: role

record user_invitation =
  ui_id :: jstr
  ui_organizationId :: jstr
  ui_email :: jstr
  ui_name :: "jstr option"
  ui_role :: role
  ui_primaryTeamId :: "jstr option"
  ui_tokenHash :: jstr
  ui_invitedByName :: jstr
  ui_expiresAt :: int
  ui_acceptedAt :: "int option"
  ui_revokedAt :: "int option"

record two_factor_challenge =
  tc_id :: jstr
  tc_identityId :: jstr
  tc_expiresAt :: int
  tc_usedAt :: "int option"

record recovery_code =
  ry_identityId :: jstr
  ry_codeHash :: jstr
  ry_usedAt :: "int option"

record team =
  tm_id :: jstr
  tm_organizationId :: jstr
  tm_isDefault :: bool

record assigned_thread =
  ad_organizationId :: jstr
  ad_workspaceId :: jstr
  ad_assignedToId :: "jstr option"

text \<open>\<open>au_timeouts\<close> is \<open>OrganizationConfig.userInactivityTimeoutMinutes\<close>. Teams are in the order of their creation.\<close>

record auth =
  au_platform :: platform
  au_identities :: "identity list"
  au_users :: "user list"
  au_sessions :: "auth_session list"
  au_workspaces :: "workspace list"
  au_members :: "workspace_member list"
  au_invitations :: "user_invitation list"
  au_challenges :: "two_factor_challenge list"
  au_recovery :: "recovery_code list"
  au_teams :: "team list"
  au_threads :: "assigned_thread list"
  au_timeouts :: "jstr \<Rightarrow> int option"

abbreviation au_now :: "auth \<Rightarrow> int" where
  "au_now w \<equiv> pf_now (au_platform w)"

definition identity_by_email :: "auth \<Rightarrow> jstr \<Rightarrow> identity option" where
  "identity_by_email w email = find (\<lambda>i. idt_email i = email) (au_identities w)"

definition identity_by_id :: "auth \<Rightarrow> jstr \<Rightarrow> identity option" where
  "identity_by_id w i = find (\<lambda>x. idt_id x = i) (au_identities w)"

text \<open>Reads inside an organization carry its id.\<close>

definition user_in :: "auth \<Rightarrow> jstr \<Rightarrow> jstr \<Rightarrow> user option" where
  "user_in w organization i = find (\<lambda>u. us_id u = i \<and> us_organizationId u = organization) (au_users w)"

definition workspace_in :: "auth \<Rightarrow> jstr \<Rightarrow> jstr \<Rightarrow> workspace option" where
  "workspace_in w organization i = find (\<lambda>k. wk_id k = i \<and> wk_organizationId k = organization) (au_workspaces w)"

definition member_in :: "auth \<Rightarrow> jstr \<Rightarrow> jstr \<Rightarrow> jstr \<Rightarrow> workspace_member option" where
  "member_in w organization k u =
     find (\<lambda>m. wm_workspaceId m = k \<and> wm_userId m = u \<and> wm_organizationId m = organization) (au_members w)"

definition session_in :: "auth \<Rightarrow> jstr \<Rightarrow> jstr \<Rightarrow> auth_session option" where
  "session_in w organization i = find (\<lambda>s. as_id s = i \<and> as_organizationId s = organization) (au_sessions w)"

definition upd_identity :: "jstr \<Rightarrow> (identity \<Rightarrow> identity) \<Rightarrow> auth \<Rightarrow> auth" where
  "upd_identity i f w = w\<lparr>au_identities := map (\<lambda>x. if idt_id x = i then f x else x) (au_identities w)\<rparr>"

definition upd_user :: "jstr \<Rightarrow> jstr \<Rightarrow> (user \<Rightarrow> user) \<Rightarrow> auth \<Rightarrow> auth" where
  "upd_user organization i f w =
     w\<lparr>au_users := map (\<lambda>u. if us_id u = i \<and> us_organizationId u = organization then f u else u) (au_users w)\<rparr>"

definition upd_session :: "jstr \<Rightarrow> jstr \<Rightarrow> (auth_session \<Rightarrow> auth_session) \<Rightarrow> auth \<Rightarrow> auth" where
  "upd_session organization i f w =
     w\<lparr>au_sessions := map (\<lambda>s. if as_id s = i \<and> as_organizationId s = organization then f s else s) (au_sessions w)\<rparr>"

text \<open>\<open>updateMany\<close> over every membership of an identity.\<close>

definition bump_memberships :: "jstr \<Rightarrow> auth \<Rightarrow> auth" where
  "bump_memberships i w =
     w\<lparr>au_users := map (\<lambda>u. if us_identityId u = i then u\<lparr>us_tokenVersion := us_tokenVersion u + 1\<rparr> else u) (au_users w)\<rparr>"

definition mail_to :: "jstr \<Rightarrow> string \<Rightarrow> auth \<Rightarrow> auth" where
  "mail_to address kind w =
     w\<lparr>au_platform := snd (queueMail None
         \<lparr>md_to = address, md_subject = [], md_body = [], md_kind = lit kind, md_organizationId = None, md_sendAfter = None\<rparr>
         (au_platform w))\<rparr>"

section \<open>Claims\<close>

text \<open>
  The payload of a signed token, whichever kind it is: all of them are signed with the same key. An
  absent claim is \<open>None\<close>. Verifying reads the clock, for the expiry.
\<close>

record claims =
  cl_scope :: "jstr option"
  cl_purpose :: "jstr option"
  cl_id :: "jstr option"
  cl_platformRole :: "jstr option"
  cl_organizationId :: "jstr option"
  cl_workspaceId :: "jstr option"
  cl_tokenVersion :: "int option"
  cl_sessionId :: "jstr option"
  cl_challengeId :: "jstr option"
  cl_identityId :: "jstr option"
  cl_secretEnc :: "jstr option"
  cl_exp :: int

definition no_claims :: claims where
  "no_claims =
     \<lparr>cl_scope = None, cl_purpose = None, cl_id = None, cl_platformRole = None, cl_organizationId = None,
      cl_workspaceId = None, cl_tokenVersion = None, cl_sessionId = None, cl_challengeId = None,
      cl_identityId = None, cl_secretEnc = None, cl_exp = 0\<rparr>"

record auth_env =
  ae_compare :: "jstr \<Rightarrow> jstr \<Rightarrow> bool"
  ae_hash :: "jstr \<Rightarrow> jstr"
  ae_checkDelta :: "int \<Rightarrow> jstr \<Rightarrow> jstr \<Rightarrow> int option"
  ae_recoveryHash :: "jstr \<Rightarrow> jstr"
  ae_encrypt :: "jstr \<Rightarrow> jstr"
  ae_decrypt :: "jstr \<Rightarrow> jstr option"
  ae_digest :: "jstr \<Rightarrow> jstr"
  ae_verify :: "int \<Rightarrow> jstr \<Rightarrow> claims option"
  ae_sign :: "claims \<Rightarrow> jstr"
  ae_life :: int

definition platform_role_name :: "platform_role \<Rightarrow> jstr" where
  "platform_role_name r = (case r of P_NONE \<Rightarrow> lit ''NONE'' | P_SUPPORT \<Rightarrow> lit ''SUPPORT'' | P_OWNER \<Rightarrow> lit ''OWNER'')"

definition is_staff_role :: "jstr option \<Rightarrow> bool" where
  "is_staff_role r \<longleftrightarrow> r = Some (lit ''OWNER'') \<or> r = Some (lit ''SUPPORT'')"

definition defaultWorkspaceIdFor :: "jstr \<Rightarrow> jstr" where
  "defaultWorkspaceIdFor organization = lit ''ws_'' @ organization"

definition workspaceMemberData :: "jstr \<Rightarrow> jstr \<Rightarrow> role \<Rightarrow> workspace_member" where
  "workspaceMemberData organization u r =
     \<lparr>wm_organizationId = organization, wm_workspaceId = defaultWorkspaceIdFor organization, wm_userId = u, wm_role = r\<rparr>"

section \<open>The check of a token\<close>

datatype denial =
  No_Token | Invalid_Token | Missing_Organization | Unknown_Workspace | No_Longer_Member | Session_Revoked
  | Invalid_Token_User | Inactive_User | Token_Revoked | Idle_Timeout | Organization_Required
  | Platform_Required | Read_Only | Subscriber_Not_Found | Subscriber_Suspended | Staff_Disabled

definition bearer :: "jstr option \<Rightarrow> jstr option" where
  "bearer header =
     (case header of None \<Rightarrow> None
      | Some h \<Rightarrow> if starts_with (lit ''Bearer '') h then Some (split_on 32 h ! 1) else None)"

text \<open>The identity row is not read: what the token says is what counts.\<close>

definition handlePlatformViewingTenant :: "claims \<Rightarrow> jstr \<Rightarrow> jstr option \<Rightarrow> auth \<Rightarrow> denial + principal" where
  "handlePlatformViewingTenant c method_name viewAs w =
     (let target = js_trim (case viewAs of None \<Rightarrow> [] | Some t \<Rightarrow> t) in
      if target = [] then Inl Organization_Required
      else if \<not> is_staff_role (cl_platformRole c) then Inl Platform_Required
      else if method_name \<noteq> lit ''GET'' \<and> method_name \<noteq> lit ''HEAD'' then Inl Read_Only
      else case pf_orgs (au_platform w) target of
             None \<Rightarrow> Inl Subscriber_Not_Found
           | Some og \<Rightarrow>
               if og_status og = ORG_SUSPENDED then Inl Subscriber_Suspended
               else Inr \<lparr>pr_id = (case cl_id c of None \<Rightarrow> [] | Some i \<Rightarrow> i), pr_organizationId = target, pr_role = R_ADMIN,
                         pr_restrictions = no_restrictions, pr_teamIds = [], pr_workspaceId = None, pr_platformUser = True\<rparr>)"

text \<open>The workspace a token names, checked against the rows.\<close>

definition claimed_workspace :: "claims \<Rightarrow> jstr \<Rightarrow> auth \<Rightarrow> denial + jstr option" where
  "claimed_workspace c organization w =
     (if \<not> truthy_ref (cl_workspaceId c) then Inr None
      else let k = the (cl_workspaceId c) in
           if workspace_in w organization k = None then Inl Unknown_Workspace
           else if (case cl_id c of None \<Rightarrow> \<not> list_ex (\<lambda>m. wm_workspaceId m = k \<and> wm_organizationId m = organization) (au_members w)
                    | Some u \<Rightarrow> member_in w organization k u = None) then Inl No_Longer_Member
           else Inr (Some k))"

definition claimed_session :: "claims \<Rightarrow> jstr \<Rightarrow> auth \<Rightarrow> denial + auth_session option" where
  "claimed_session c organization w =
     (if \<not> truthy_ref (cl_sessionId c) then Inr None
      else case session_in w organization (the (cl_sessionId c)) of
             None \<Rightarrow> Inl Session_Revoked
           | Some s \<Rightarrow> if Some (as_userId s) \<noteq> cl_id c \<or> as_revokedAt s \<noteq> None then Inl Session_Revoked else Inr (Some s))"

definition claimed_user :: "claims \<Rightarrow> jstr \<Rightarrow> auth \<Rightarrow> denial + user" where
  "claimed_user c organization w =
     (case Option.bind (cl_id c) (user_in w organization) of
        None \<Rightarrow> Inl Invalid_Token_User
      | Some u \<Rightarrow>
          if \<not> us_isActive u then Inl Inactive_User
          else if cl_tokenVersion c \<noteq> None \<and> cl_tokenVersion c \<noteq> Some (us_tokenVersion u) then Inl Token_Revoked
          else Inr u)"

definition touch_session :: "auth_session option \<Rightarrow> auth \<Rightarrow> (denial + unit) \<times> auth" where
  "touch_session s w =
     (case s of None \<Rightarrow> (Inr (), w)
      | Some s \<Rightarrow>
          let idle = au_now w - as_lastSeenAt s;
              timeout = (case au_timeouts w (as_organizationId s) of None \<Rightarrow> 20 | Some m \<Rightarrow> m);
              now = au_now w in
          if idle > timeout * 60000
          then (Inl Idle_Timeout, upd_session (as_organizationId s) (as_id s) (\<lambda>x. x\<lparr>as_revokedAt := Some now\<rparr>) w)
          else if idle \<ge> 60000
          then (Inr (), upd_session (as_organizationId s) (as_id s) (\<lambda>x. x\<lparr>as_lastSeenAt := now\<rparr>) w)
          else (Inr (), w))"

definition tenant_principal :: "user \<Rightarrow> jstr option \<Rightarrow> principal" where
  "tenant_principal u k =
     \<lparr>pr_id = us_id u, pr_organizationId = us_organizationId u, pr_role = us_role u, pr_restrictions = us_restrictions u,
      pr_teamIds = us_teamIds u, pr_workspaceId = k, pr_platformUser = False\<rparr>"

definition verifyClaims :: "claims \<Rightarrow> jstr \<Rightarrow> jstr option \<Rightarrow> auth \<Rightarrow> (denial + principal) \<times> auth" where
  "verifyClaims c method_name viewAs w =
     (if cl_scope c = Some (lit ''PLATFORM'') then (handlePlatformViewingTenant c method_name viewAs w, w)
      else if \<not> truthy_ref (cl_organizationId c) then (Inl Missing_Organization, w)
      else let organization = the (cl_organizationId c) in
           case claimed_workspace c organization w of
             Inl e \<Rightarrow> (Inl e, w)
           | Inr k \<Rightarrow>
               (case claimed_session c organization w of
                  Inl e \<Rightarrow> (Inl e, w)
                | Inr s \<Rightarrow>
                    (case claimed_user c organization w of
                       Inl e \<Rightarrow> (Inl e, w)
                     | Inr u \<Rightarrow>
                         (case touch_session s w of
                            (Inl e, w') \<Rightarrow> (Inl e, w')
                          | (Inr _, w') \<Rightarrow> (Inr (tenant_principal u k), w')))))"

definition verifyToken :: "auth_env \<Rightarrow> jstr option \<Rightarrow> jstr \<Rightarrow> jstr option \<Rightarrow> auth \<Rightarrow> (denial + principal) \<times> auth" where
  "verifyToken env header method_name viewAs w =
     (case bearer header of
        None \<Rightarrow> (Inl No_Token, w)
      | Some t \<Rightarrow> (case ae_verify env (au_now w) t of
                    None \<Rightarrow> (Inl Invalid_Token, w)
                  | Some c \<Rightarrow> verifyClaims c method_name viewAs w))"

text \<open>\<open>req.platformUser\<close> of the console.\<close>

record platform_principal =
  pp_id :: jstr
  pp_role :: platform_role
  pp_permissions :: "jstr list"

definition verifyPlatformToken :: "auth_env \<Rightarrow> jstr option \<Rightarrow> auth \<Rightarrow> denial + platform_principal" where
  "verifyPlatformToken env header w =
     (case bearer header of
        None \<Rightarrow> Inl No_Token
      | Some t \<Rightarrow> (case ae_verify env (au_now w) t of
                    None \<Rightarrow> Inl Invalid_Token
                  | Some c \<Rightarrow>
                      if cl_scope c \<noteq> Some (lit ''PLATFORM'') \<or> \<not> truthy_ref (cl_id c) then Inl Platform_Required
                      else (case identity_by_id w (the (cl_id c)) of
                              None \<Rightarrow> Inl Platform_Required
                            | Some i \<Rightarrow>
                                if idt_platformRole i = P_NONE then Inl Platform_Required
                                else if idt_platformDisabledAt i \<noteq> None then Inl Staff_Disabled
                                else Inr \<lparr>pp_id = idt_id i, pp_role = idt_platformRole i,
                                          pp_permissions = idt_platformPermissions i\<rparr>)))"

section \<open>Signing in\<close>

datatype login_answer =
  Login_Bad_Request | Bad_Credentials | Challenge_Issued claims | Staff_Login_Disabled | No_Membership
  | Bad_Second_Factor | Login_Server_Error | Logged_In claims

definition platform_claims :: "auth_env \<Rightarrow> identity \<Rightarrow> auth \<Rightarrow> claims" where
  "platform_claims env i w =
     no_claims\<lparr>cl_scope := Some (lit ''PLATFORM''), cl_id := Some (idt_id i),
               cl_platformRole := Some (platform_role_name (idt_platformRole i)), cl_exp := au_now w + ae_life env\<rparr>"

definition tenant_claims :: "auth_env \<Rightarrow> jstr \<Rightarrow> user \<Rightarrow> auth \<Rightarrow> claims" where
  "tenant_claims env sid u w =
     no_claims\<lparr>cl_scope := Some (lit ''ORGANIZATION''), cl_id := Some (us_id u),
               cl_organizationId := Some (us_organizationId u),
               cl_workspaceId := Some (defaultWorkspaceIdFor (us_organizationId u)),
               cl_tokenVersion := Some (us_tokenVersion u), cl_sessionId := Some sid, cl_exp := au_now w + ae_life env\<rparr>"

text \<open>The first active membership in the order of the database. \<open>sid\<close> is the drawn session id.\<close>

definition completeIdentityLogin :: "auth_env \<Rightarrow> jstr \<Rightarrow> identity \<Rightarrow> auth \<Rightarrow> login_answer \<times> auth" where
  "completeIdentityLogin env sid i w =
     (if idt_platformRole i \<noteq> P_NONE then
        if idt_platformDisabledAt i \<noteq> None then (Staff_Login_Disabled, w)
        else (Logged_In (platform_claims env i w), w)
      else case find (\<lambda>u. us_identityId u = idt_id i \<and> us_isActive u) (au_users w) of
             None \<Rightarrow> (No_Membership, w)
           | Some u \<Rightarrow>
               if sid \<in> as_id ` set (au_sessions w) then (Login_Server_Error, w)
               else (Logged_In (tenant_claims env sid u w),
                     w\<lparr>au_sessions := au_sessions w @
                         [\<lparr>as_id = sid, as_organizationId = us_organizationId u, as_userId = us_id u,
                           as_lastSeenAt = au_now w, as_revokedAt = None\<rparr>]\<rparr>))"

definition challenge_claims :: "jstr \<Rightarrow> jstr \<Rightarrow> auth \<Rightarrow> claims" where
  "challenge_claims cid i w =
     no_claims\<lparr>cl_purpose := Some (lit ''TWO_FACTOR_LOGIN''), cl_challengeId := Some cid, cl_identityId := Some i,
               cl_exp := au_now w + 5 * 60000\<rparr>"

definition createLoginChallenge :: "jstr \<Rightarrow> jstr \<Rightarrow> auth \<Rightarrow> (unit + claims) \<times> auth" where
  "createLoginChallenge cid i w =
     (let w1 = w\<lparr>au_challenges := filter (\<lambda>c. \<not> (tc_identityId c = i \<and> tc_expiresAt c < au_now w)) (au_challenges w)\<rparr> in
      if cid \<in> tc_id ` set (au_challenges w1) then (Inl (), w1)
      else (Inr (challenge_claims cid i w),
            w1\<lparr>au_challenges := au_challenges w1 @
               [\<lparr>tc_id = cid, tc_identityId = i, tc_expiresAt = au_now w + 5 * 60000, tc_usedAt = None\<rparr>]\<rparr>))"

text \<open>\<open>drawn\<close>: the id of the challenge and that of the session.\<close>

definition login :: "auth_env \<Rightarrow> jstr \<times> jstr \<Rightarrow> jstr \<Rightarrow> jstr \<Rightarrow> auth \<Rightarrow> login_answer \<times> auth" where
  "login env drawn email password w =
     (if email = [] \<or> password = [] then (Login_Bad_Request, w)
      else case identity_by_email w (js_lower (js_trim email)) of
             None \<Rightarrow> (Bad_Credentials, w)
           | Some i \<Rightarrow>
               if \<not> ae_compare env password (idt_passwordHash i) then (Bad_Credentials, w)
               else if truthy_ref (idt_totpSecretEnc i) \<and> idt_totpEnabledAt i \<noteq> None
               then (case createLoginChallenge (fst drawn) (idt_id i) w of
                       (Inl _, w') \<Rightarrow> (Login_Server_Error, w')
                     | (Inr c, w') \<Rightarrow> (Challenge_Issued c, w'))
               else completeIdentityLogin env (snd drawn) i w)"

definition parseLoginChallenge :: "auth_env \<Rightarrow> jstr \<Rightarrow> auth \<Rightarrow> (jstr \<times> jstr) option" where
  "parseLoginChallenge env t w =
     (case ae_verify env (au_now w) t of None \<Rightarrow> None
      | Some c \<Rightarrow>
          if cl_purpose c = Some (lit ''TWO_FACTOR_LOGIN'') \<and> truthy_ref (cl_challengeId c) \<and> truthy_ref (cl_identityId c)
          then Some (the (cl_challengeId c), the (cl_identityId c)) else None)"

definition six_digits :: "jstr \<Rightarrow> bool" where
  "six_digits code \<longleftrightarrow> length code = 6 \<and> list_all is_digit code"

definition verifyTotp :: "auth_env \<Rightarrow> int \<Rightarrow> jstr \<Rightarrow> jstr \<Rightarrow> bool" where
  "verifyTotp env now code secret \<longleftrightarrow> six_digits code \<and> ae_checkDelta env now code secret \<noteq> None"

definition normalizeRecoveryCode :: "jstr \<Rightarrow> jstr" where
  "normalizeRecoveryCode code = filter (\<lambda>c. is_digit c \<or> (65 \<le> c \<and> c \<le> 90)) (js_upper code)"

definition hashRecoveryCode :: "auth_env \<Rightarrow> jstr \<Rightarrow> jstr" where
  "hashRecoveryCode env code = ae_recoveryHash env (normalizeRecoveryCode code)"

datatype factor_answer = Factor_Accepted | Factor_Refused | Factor_Threw

text \<open>The second factor itself: the code of a time step later than the last one used, or an unused recovery code.\<close>

definition consume_factor :: "auth_env \<Rightarrow> identity \<Rightarrow> jstr \<Rightarrow> auth \<Rightarrow> factor_answer \<times> auth" where
  "consume_factor env i code w =
     (let decrypted = ae_decrypt env (the (idt_totpSecretEnc i)) in
      if decrypted = None \<and> six_digits code then (Factor_Threw, w)
      else case (if six_digits code then ae_checkDelta env (au_now w) code (the decrypted) else None) of
             Some delta \<Rightarrow>
               let counter = au_now w div 30000 + delta in
               if (case idt_totpLastUsedCounter i of None \<Rightarrow> True | Some k \<Rightarrow> k < counter)
               then (Factor_Accepted, upd_identity (idt_id i) (\<lambda>x. x\<lparr>idt_totpLastUsedCounter := Some counter\<rparr>) w)
               else (Factor_Refused, w)
           | None \<Rightarrow>
               let hit = (\<lambda>r. ry_identityId r = idt_id i \<and> ry_codeHash r = hashRecoveryCode env code \<and> ry_usedAt r = None) in
               if length (filter hit (au_recovery w)) \<noteq> 1 then (Factor_Refused, w)
               else (Factor_Accepted,
                     w\<lparr>au_recovery := map (\<lambda>r. if hit r then r\<lparr>ry_usedAt := Some (au_now w)\<rparr> else r) (au_recovery w)\<rparr>))"

definition has_factor :: "identity \<Rightarrow> bool" where
  "has_factor i \<longleftrightarrow> truthy_ref (idt_totpSecretEnc i) \<and> idt_totpEnabledAt i \<noteq> None"

definition live_challenge :: "auth \<Rightarrow> jstr \<Rightarrow> jstr \<Rightarrow> two_factor_challenge \<Rightarrow> bool" where
  "live_challenge w cid i c \<longleftrightarrow> tc_id c = cid \<and> tc_identityId c = i \<and> tc_usedAt c = None \<and> tc_expiresAt c > au_now w"

text \<open>One transaction: a factor that is refused gives the challenge back.\<close>

definition consumeLoginSecondFactor :: "auth_env \<Rightarrow> jstr \<Rightarrow> jstr \<Rightarrow> auth \<Rightarrow> (factor_answer + identity) \<times> auth" where
  "consumeLoginSecondFactor env challengeToken rawCode w =
     (case parseLoginChallenge env challengeToken w of
        None \<Rightarrow> (Inl Factor_Refused, w)
      | Some (cid, i) \<Rightarrow>
          let w1 = w\<lparr>au_challenges :=
                map (\<lambda>c. if live_challenge w cid i c then c\<lparr>tc_usedAt := Some (au_now w)\<rparr> else c) (au_challenges w)\<rparr> in
          if length (filter (live_challenge w cid i) (au_challenges w)) \<noteq> 1 then (Inl Factor_Refused, w)
          else case identity_by_id w1 i of
                 None \<Rightarrow> (Inl Factor_Refused, w)
               | Some x \<Rightarrow>
                   if \<not> has_factor x then (Inl Factor_Refused, w)
                   else if ae_decrypt env (the (idt_totpSecretEnc x)) = None then (Inl Factor_Threw, w)
                   else (case consume_factor env x (js_trim rawCode) w1 of
                           (Factor_Accepted, w2) \<Rightarrow> (Inr x, w2)
                         | (a, _) \<Rightarrow> (Inl a, w)))"

definition two_factor_login :: "auth_env \<Rightarrow> jstr \<Rightarrow> jstr \<Rightarrow> jstr \<Rightarrow> auth \<Rightarrow> login_answer \<times> auth" where
  "two_factor_login env sid challengeToken code w =
     (if challengeToken = [] \<or> code = [] then (Login_Bad_Request, w)
      else case consumeLoginSecondFactor env challengeToken code w of
             (Inr i, w') \<Rightarrow> completeIdentityLogin env sid i w'
           | (Inl Factor_Threw, w') \<Rightarrow> (Login_Server_Error, w')
           | (Inl _, w') \<Rightarrow> (Bad_Second_Factor, w'))"

definition consumeExistingFactor :: "auth_env \<Rightarrow> jstr \<Rightarrow> jstr \<Rightarrow> auth \<Rightarrow> factor_answer \<times> auth" where
  "consumeExistingFactor env i rawCode w =
     (case identity_by_id w i of
        None \<Rightarrow> (Factor_Refused, w)
      | Some x \<Rightarrow> if \<not> has_factor x then (Factor_Refused, w) else consume_factor env x (js_trim rawCode) w)"

section \<open>Passwords and factors of one's own\<close>

datatype self_error =
  Password_Too_Short | Password_Unchanged | Self_Unauthorized | Wrong_Password | Read_Only_View | Already_Enabled
  | Not_Enabled | Bad_Setup | Bad_Code | Self_Server_Error

text \<open>\<open>user.identity\<close> over the foreign key.\<close>

definition own_identity :: "auth \<Rightarrow> principal \<Rightarrow> identity option" where
  "own_identity w p =
     Option.bind (user_in w (pr_organizationId p) (pr_id p)) (\<lambda>u. identity_by_id w (us_identityId u))"

definition change_password :: "auth_env \<Rightarrow> principal \<Rightarrow> jstr \<Rightarrow> jstr \<Rightarrow> auth \<Rightarrow> (self_error + unit) \<times> auth" where
  "change_password env p current new w =
     (if length new < 8 then (Inl Password_Too_Short, w)
      else if new = current then (Inl Password_Unchanged, w)
      else case own_identity w p of
             None \<Rightarrow> (Inl Self_Unauthorized, w)
           | Some i \<Rightarrow>
               if \<not> ae_compare env current (idt_passwordHash i) then (Inl Wrong_Password, w)
               else (Inr (),
                     mail_to (idt_email i) ''security.password-changed''
                       (bump_memberships (idt_id i)
                          (upd_identity (idt_id i) (\<lambda>x. x\<lparr>idt_passwordHash := ae_hash env new\<rparr>) w))))"

definition setup_claims :: "auth_env \<Rightarrow> jstr \<Rightarrow> jstr \<Rightarrow> auth \<Rightarrow> claims" where
  "setup_claims env i secret w =
     no_claims\<lparr>cl_purpose := Some (lit ''TWO_FACTOR_SETUP''), cl_identityId := Some i,
               cl_secretEnc := Some (ae_encrypt env secret), cl_exp := au_now w + 600000\<rparr>"

definition setup_two_factor :: "auth_env \<Rightarrow> principal \<Rightarrow> jstr \<Rightarrow> jstr \<Rightarrow> auth \<Rightarrow> self_error + claims" where
  "setup_two_factor env p current secret w =
     (if pr_platformUser p then Inl Read_Only_View
      else case own_identity w p of
             None \<Rightarrow> Inl Wrong_Password
           | Some i \<Rightarrow>
               if \<not> ae_compare env current (idt_passwordHash i) then Inl Wrong_Password
               else if idt_totpEnabledAt i \<noteq> None then Inl Already_Enabled
               else Inr (setup_claims env (idt_id i) secret w))"

definition verifySetupChallenge :: "auth_env \<Rightarrow> jstr \<Rightarrow> jstr \<Rightarrow> auth \<Rightarrow> jstr option" where
  "verifySetupChallenge env setupToken i w =
     (case ae_verify env (au_now w) setupToken of None \<Rightarrow> None
      | Some c \<Rightarrow>
          if cl_purpose c = Some (lit ''TWO_FACTOR_SETUP'') \<and> cl_identityId c = Some i \<and> truthy_ref (cl_secretEnc c)
          then ae_decrypt env (the (cl_secretEnc c)) else None)"

text \<open>The columns and rows of the factor of an identity, dropped when it changes.\<close>

definition drop_factor_rows :: "jstr \<Rightarrow> auth \<Rightarrow> auth" where
  "drop_factor_rows i w =
     w\<lparr>au_recovery := filter (\<lambda>r. ry_identityId r \<noteq> i) (au_recovery w),
       au_challenges := filter (\<lambda>c. tc_identityId c \<noteq> i) (au_challenges w)\<rparr>"

text \<open>\<open>codes\<close>: the recovery codes drawn. Their hashes are a unique key.\<close>

definition enable_two_factor ::
    "auth_env \<Rightarrow> principal \<Rightarrow> jstr \<Rightarrow> jstr \<Rightarrow> jstr list \<Rightarrow> auth \<Rightarrow> (self_error + jstr list) \<times> auth" where
  "enable_two_factor env p setupToken rawCode codes w =
     (if pr_platformUser p then (Inl Read_Only_View, w)
      else case own_identity w p of
             None \<Rightarrow> (Inl Self_Unauthorized, w)
           | Some i \<Rightarrow>
               if idt_totpEnabledAt i \<noteq> None then (Inl Already_Enabled, w)
               else case verifySetupChallenge env setupToken (idt_id i) w of
                      None \<Rightarrow> (Inl Bad_Setup, w)
                    | Some secret \<Rightarrow>
                        if \<not> verifyTotp env (au_now w) (js_trim rawCode) secret then (Inl Bad_Code, w)
                        else let w1 = drop_factor_rows (idt_id i) (upd_identity (idt_id i)
                                   (\<lambda>x. x\<lparr>idt_totpSecretEnc := Some (ae_encrypt env secret),
                                          idt_totpEnabledAt := Some (au_now w), idt_totpLastUsedCounter := None\<rparr>) w);
                                 hashes = map (hashRecoveryCode env) codes in
                             if \<not> distinct hashes \<or> set hashes \<inter> ry_codeHash ` set (au_recovery w1) \<noteq> {}
                             then (Inl Self_Server_Error, w)
                             else (Inr codes,
                                   mail_to (idt_email i) ''security.two-factor-enabled''
                                     (bump_memberships (idt_id i)
                                       (w1\<lparr>au_recovery := au_recovery w1 @
                                            map (\<lambda>h. \<lparr>ry_identityId = idt_id i, ry_codeHash = h, ry_usedAt = None\<rparr>) hashes\<rparr>))))"

definition disable_two_factor :: "auth_env \<Rightarrow> principal \<Rightarrow> jstr \<Rightarrow> jstr \<Rightarrow> auth \<Rightarrow> (self_error + unit) \<times> auth" where
  "disable_two_factor env p current code w =
     (if pr_platformUser p then (Inl Read_Only_View, w)
      else case own_identity w p of
             None \<Rightarrow> (Inl Wrong_Password, w)
           | Some i \<Rightarrow>
               if \<not> ae_compare env current (idt_passwordHash i) then (Inl Wrong_Password, w)
               else if idt_totpEnabledAt i = None then (Inl Not_Enabled, w)
               else case consumeExistingFactor env (idt_id i) code w of
                      (Factor_Accepted, w') \<Rightarrow>
                        (Inr (), mail_to (idt_email i) ''security.two-factor-disabled''
                           (bump_memberships (idt_id i) (drop_factor_rows (idt_id i) (upd_identity (idt_id i)
                              (\<lambda>x. x\<lparr>idt_totpSecretEnc := None, idt_totpEnabledAt := None, idt_totpLastUsedCounter := None\<rparr>) w'))))
                    | (Factor_Refused, w') \<Rightarrow> (Inl Bad_Code, w')
                    | (Factor_Threw, w') \<Rightarrow> (Inl Self_Server_Error, w'))"

definition logout_all :: "principal \<Rightarrow> auth \<Rightarrow> auth" where
  "logout_all p w =
     (let w1 = upd_user (pr_organizationId p) (pr_id p) (\<lambda>u. u\<lparr>us_tokenVersion := us_tokenVersion u + 1\<rparr>) w in
      w1\<lparr>au_sessions := map (\<lambda>s. if as_userId s = pr_id p \<and> as_organizationId s = pr_organizationId p \<and> as_revokedAt s = None
                                  then s\<lparr>as_revokedAt := Some (au_now w)\<rparr> else s) (au_sessions w1)\<rparr>)"

section \<open>Users of an organization\<close>

datatype user_error =
  User_Guard guard_answer | User_Fields_Missing | Worker_Roles_Only | Email_Taken | Seat_Refused entitlement_error
  | User_Server_Error | Cannot_Edit_Own_Access | User_Not_Found | Administrator_Untouchable | Promotion_Refused
  | Masking_Refused entitlement_error | Cannot_Delete_Self

text \<open>The platform with the users of the model as its accounts.\<close>

definition account_of :: "auth \<Rightarrow> user \<Rightarrow> account" where
  "account_of w u =
     \<lparr>ac_organizationId = us_organizationId u, ac_isAdmin = (us_role u = R_ADMIN), ac_isActive = us_isActive u,
      ac_email = (case identity_by_id w (us_identityId u) of None \<Rightarrow> [] | Some i \<Rightarrow> idt_email i)\<rparr>"

definition seat_platform :: "auth \<Rightarrow> platform" where
  "seat_platform w = (au_platform w)\<lparr>pf_accounts := map (account_of w) (au_users w)\<rparr>"

definition seat_available :: "auth \<Rightarrow> jstr \<Rightarrow> entitlement_error option" where
  "seat_available w organization =
     (case assertSeatAvailable (seat_platform w) organization of Inl e \<Rightarrow> Some e | Inr _ \<Rightarrow> None)"

definition resolveTeamId :: "auth \<Rightarrow> jstr \<Rightarrow> jstr option \<Rightarrow> jstr option" where
  "resolveTeamId w organization teamId =
     (let mine = filter (\<lambda>t. tm_organizationId t = organization) (au_teams w) in
      case (if truthy_ref teamId then find (\<lambda>t. Some (tm_id t) = teamId) mine else None) of
        Some t \<Rightarrow> Some (tm_id t)
      | None \<Rightarrow> map_option tm_id (find tm_isDefault mine))"

definition team_rows :: "auth \<Rightarrow> jstr \<Rightarrow> jstr option \<Rightarrow> jstr list \<Rightarrow> jstr list option" where
  "team_rows w organization primary ids =
     (let wanted = js_unique (filter (\<lambda>i. i \<noteq> []) ((case primary of None \<Rightarrow> [] | Some p \<Rightarrow> [p]) @ ids)) in
      if list_all (\<lambda>i. list_ex (\<lambda>t. tm_id t = i \<and> tm_organizationId t = organization) (au_teams w)) wanted
      then Some wanted else None)"

record user_order =
  uo_name :: jstr
  uo_email :: jstr
  uo_password :: jstr
  uo_role :: "role option"
  uo_phone :: jstr
  uo_primaryTeamId :: "jstr option"
  uo_teamIds :: "jstr list"

definition new_user :: "jstr \<Rightarrow> jstr \<Rightarrow> jstr \<Rightarrow> jstr \<Rightarrow> role \<Rightarrow> jstr option \<Rightarrow> jstr list \<Rightarrow> jstr option \<Rightarrow> user" where
  "new_user uid organization i name r primary teams phone =
     \<lparr>us_id = uid, us_organizationId = organization, us_identityId = i, us_name = name, us_role = r,
      us_primaryTeamId = primary, us_teamIds = teams, us_isActive = True, us_phone = phone,
      us_tokenVersion = 0, us_restrictions = no_restrictions\<rparr>"

definition new_identity :: "jstr \<Rightarrow> jstr \<Rightarrow> jstr \<Rightarrow> identity" where
  "new_identity i email hash =
     \<lparr>idt_id = i, idt_email = email, idt_passwordHash = hash, idt_platformRole = P_NONE,
      idt_platformPermissions = [], idt_platformDisabledAt = None, idt_totpSecretEnc = None,
      idt_totpEnabledAt = None, idt_totpLastUsedCounter = None\<rparr>"

text \<open>Rows one transaction adds together; a drawn id that is taken, or a key that is, undoes all of them.\<close>

definition fresh_person :: "auth \<Rightarrow> identity option \<Rightarrow> user \<Rightarrow> bool" where
  "fresh_person w i u \<longleftrightarrow>
     (case i of None \<Rightarrow> True
      | Some x \<Rightarrow> idt_id x \<notin> idt_id ` set (au_identities w) \<and> idt_email x \<notin> idt_email ` set (au_identities w))
     \<and> us_id u \<notin> us_id ` set (au_users w)
     \<and> (us_organizationId u, us_identityId u) \<notin> (\<lambda>x. (us_organizationId x, us_identityId x)) ` set (au_users w)
     \<and> (defaultWorkspaceIdFor (us_organizationId u), us_id u) \<notin> (\<lambda>m. (wm_workspaceId m, wm_userId m)) ` set (au_members w)
     \<and> workspace_in w (us_organizationId u) (defaultWorkspaceIdFor (us_organizationId u)) \<noteq> None"

definition add_person :: "identity option \<Rightarrow> user \<Rightarrow> auth \<Rightarrow> auth" where
  "add_person i u w =
     w\<lparr>au_identities := au_identities w @ (case i of None \<Rightarrow> [] | Some x \<Rightarrow> [x]),
       au_users := au_users w @ [u],
       au_members := au_members w @ [workspaceMemberData (us_organizationId u) (us_id u) (us_role u)]\<rparr>"

definition create_user :: "auth_env \<Rightarrow> principal \<Rightarrow> jstr \<times> jstr \<Rightarrow> user_order \<Rightarrow> auth \<Rightarrow> (user_error + unit) \<times> auth" where
  "create_user env p drawn b w =
     (let g = guards [requireAdmin (Some p), requirePermission (lit ''user:create'') (Some p)];
          email = js_lower (js_trim (uo_email b)); organization = pr_organizationId p;
          primary = resolveTeamId w organization (uo_primaryTeamId b) in
      if g \<noteq> Proceed then (Inl (User_Guard g), w)
      else if js_trim (uo_name b) = [] \<or> js_trim (uo_email b) = [] \<or> js_trim (uo_password b) = [] then (Inl User_Fields_Missing, w)
      else if uo_role b = Some R_ADMIN then (Inl Worker_Roles_Only, w)
      else if identity_by_email w email \<noteq> None then (Inl Email_Taken, w)
      else case seat_available w organization of
             Some e \<Rightarrow> (Inl (Seat_Refused e), w)
           | None \<Rightarrow>
               (case team_rows w organization primary (uo_teamIds b) of
                  None \<Rightarrow> (Inl User_Server_Error, w)
                | Some teams \<Rightarrow>
                    let i = new_identity (fst drawn) email (ae_hash env (uo_password b));
                        u = new_user (snd drawn) organization (fst drawn) (js_trim (uo_name b))
                              (case uo_role b of None \<Rightarrow> R_AGENT | Some r \<Rightarrow> r) primary teams
                              (let ph = js_trim (uo_phone b) in if ph = [] then None else Some ph) in
                    if \<not> fresh_person w (Some i) u then (Inl User_Server_Error, w)
                    else (Inr (), add_person (Some i) u w)))"

text \<open>The body of an edit: \<open>None\<close> is \<open>undefined\<close>. The inner option of a team is \<open>null\<close>.\<close>

record user_patch =
  up_name :: "jstr option"
  up_email :: "jstr option"
  up_password :: "jstr option"
  up_role :: "role option"
  up_phone :: "jstr option"
  up_isActive :: "bool option"
  up_primaryTeamId :: "jstr option option"
  up_teamIds :: "jstr list option"
  up_restrictContactVisibility :: "bool option"
  up_contactVisibilityScope :: "visibility_scope option"
  up_restrictCalls :: "bool option"
  up_restrictWorkflows :: "bool option"
  up_maskPhoneAndEmail :: "bool option"
  up_restrictDataExport :: "bool option"
  up_restrictContactDeletion :: "bool option"
  up_restrictWorkspaceSettings :: "bool option"
  up_restrictIntegrations :: "bool option"

definition no_patch :: user_patch where
  "no_patch =
     \<lparr>up_name = None, up_email = None, up_password = None, up_role = None, up_phone = None, up_isActive = None,
      up_primaryTeamId = None, up_teamIds = None, up_restrictContactVisibility = None,
      up_contactVisibilityScope = None, up_restrictCalls = None, up_restrictWorkflows = None,
      up_maskPhoneAndEmail = None, up_restrictDataExport = None, up_restrictContactDeletion = None,
      up_restrictWorkspaceSettings = None, up_restrictIntegrations = None\<rparr>"

definition edits_access :: "user_patch \<Rightarrow> bool" where
  "edits_access b \<longleftrightarrow>
     up_role b \<noteq> None \<or> up_isActive b \<noteq> None \<or> up_restrictContactVisibility b \<noteq> None \<or> up_contactVisibilityScope b \<noteq> None
     \<or> up_restrictCalls b \<noteq> None \<or> up_restrictWorkflows b \<noteq> None \<or> up_maskPhoneAndEmail b \<noteq> None
     \<or> up_restrictDataExport b \<noteq> None \<or> up_restrictContactDeletion b \<noteq> None
     \<or> up_restrictWorkspaceSettings b \<noteq> None \<or> up_restrictIntegrations b \<noteq> None"

definition supplied :: "'a option \<Rightarrow> 'a \<Rightarrow> 'a" where
  "supplied new old = (case new of None \<Rightarrow> old | Some v \<Rightarrow> v)"

definition patched_restrictions :: "user_patch \<Rightarrow> restrictions \<Rightarrow> restrictions" where
  "patched_restrictions b r =
     \<lparr>rs_restrictContactVisibility = supplied (up_restrictContactVisibility b) (rs_restrictContactVisibility r),
      rs_contactVisibilityScope = supplied (up_contactVisibilityScope b) (rs_contactVisibilityScope r),
      rs_restrictCalls = supplied (up_restrictCalls b) (rs_restrictCalls r),
      rs_restrictWorkflows = supplied (up_restrictWorkflows b) (rs_restrictWorkflows r),
      rs_restrictDataExport = supplied (up_restrictDataExport b) (rs_restrictDataExport r),
      rs_restrictContactDeletion = supplied (up_restrictContactDeletion b) (rs_restrictContactDeletion r),
      rs_restrictWorkspaceSettings = supplied (up_restrictWorkspaceSettings b) (rs_restrictWorkspaceSettings r),
      rs_restrictIntegrations = supplied (up_restrictIntegrations b) (rs_restrictIntegrations r),
      rs_maskPhoneAndEmail = supplied (up_maskPhoneAndEmail b) (rs_maskPhoneAndEmail r)\<rparr>"

definition patched_user :: "auth \<Rightarrow> user_patch \<Rightarrow> user \<Rightarrow> user" where
  "patched_user w b u =
     u\<lparr>us_name := supplied (map_option js_trim (up_name b)) (us_name u),
       us_primaryTeamId := (case up_primaryTeamId b of None \<Rightarrow> us_primaryTeamId u
                            | Some t \<Rightarrow> resolveTeamId w (us_organizationId u) t),
       us_role := supplied (up_role b) (us_role u),
       us_phone := (case up_phone b of None \<Rightarrow> us_phone u
                    | Some ph \<Rightarrow> if js_trim ph = [] then None else Some (js_trim ph)),
       us_isActive := supplied (up_isActive b) (us_isActive u),
       us_tokenVersion := us_tokenVersion u + (if up_isActive b = Some False then 1 else 0),
       us_restrictions := patched_restrictions b (us_restrictions u)\<rparr>"

definition assert_masking :: "auth \<Rightarrow> jstr \<Rightarrow> user_patch \<Rightarrow> entitlement_error option" where
  "assert_masking w organization b =
     (if up_maskPhoneAndEmail b \<noteq> Some True then None
      else case resolveEntitlements (au_platform w) organization (au_now w) None of
             Inl e \<Rightarrow> Some (Unresolved e)
           | Inr en \<Rightarrow> (case assertCanFrom (platform_ladder (au_platform w)) en (Feature MaskContactDetails) of
                         Inl e \<Rightarrow> Some e | Inr _ \<Rightarrow> None))"

text \<open>The identity first, on its own; \<open>None\<close> when the address is taken.\<close>

definition patch_identity :: "auth_env \<Rightarrow> jstr \<Rightarrow> user_patch \<Rightarrow> auth \<Rightarrow> auth option" where
  "patch_identity env i b w =
     (let email = map_option (\<lambda>e. js_lower (js_trim e)) (up_email b);
          hash = (case up_password b of None \<Rightarrow> None | Some q \<Rightarrow> if js_trim q = [] then None else Some (ae_hash env q)) in
      if email \<noteq> None \<and> list_ex (\<lambda>x. idt_id x \<noteq> i \<and> Some (idt_email x) = email) (au_identities w) then None
      else Some (upd_identity i (\<lambda>x. x\<lparr>idt_email := supplied email (idt_email x),
                                     idt_passwordHash := supplied hash (idt_passwordHash x)\<rparr>) w))"

definition update_user :: "auth_env \<Rightarrow> principal \<Rightarrow> jstr \<Rightarrow> user_patch \<Rightarrow> auth \<Rightarrow> (user_error + unit) \<times> auth" where
  "update_user env p i b w =
     (let g = guards [requireAdmin (Some p), requirePermission (lit ''user:update'') (Some p)];
          organization = pr_organizationId p in
      if g \<noteq> Proceed then (Inl (User_Guard g), w)
      else if i = pr_id p \<and> edits_access b then (Inl Cannot_Edit_Own_Access, w)
      else case user_in w organization i of
             None \<Rightarrow> (Inl User_Not_Found, w)
           | Some u \<Rightarrow>
               if us_role u = R_ADMIN then (Inl Administrator_Untouchable, w)
               else if up_role b = Some R_ADMIN then (Inl Promotion_Refused, w)
               else case assert_masking w organization b of
                      Some e \<Rightarrow> (Inl (Masking_Refused e), w)
                    | None \<Rightarrow>
                        (case patch_identity env (us_identityId u) b w of
                           None \<Rightarrow> (Inl User_Server_Error, w)
                         | Some w1 \<Rightarrow>
                             let u' = patched_user w1 b u in
                             (case up_teamIds b of
                                None \<Rightarrow> (Inr (), upd_user organization i (patched_user w1 b) w1)
                              | Some ids \<Rightarrow>
                                  (case team_rows w1 organization (us_primaryTeamId u') ids of
                                     None \<Rightarrow> (Inl User_Server_Error, w1)
                                   | Some teams \<Rightarrow>
                                       (Inr (), upd_user organization i (\<lambda>x. patched_user w1 b x\<lparr>us_teamIds := teams\<rparr>) w1)))))"

definition delete_user :: "principal \<Rightarrow> jstr \<Rightarrow> auth \<Rightarrow> (user_error + unit) \<times> auth" where
  "delete_user p i w =
     (let g = guards [requireAdmin (Some p), requirePermission (lit ''user:delete'') (Some p)] in
      if g \<noteq> Proceed then (Inl (User_Guard g), w)
      else if i = pr_id p then (Inl Cannot_Delete_Self, w)
      else case user_in w (pr_organizationId p) i of
             None \<Rightarrow> (Inl User_Not_Found, w)
           | Some u \<Rightarrow>
               if us_role u = R_ADMIN then (Inl Administrator_Untouchable, w)
               else (Inr (), upd_user (pr_organizationId p) i
                       (\<lambda>x. x\<lparr>us_isActive := False, us_tokenVersion := us_tokenVersion x + 1\<rparr>) w))"

section \<open>Invitations\<close>

datatype invitation_error =
  Invitation_Guard guard_answer | Email_Invalid | Managers_Invite_Agents | Invitation_Role_Invalid
  | Invitation_Seat entitlement_error | Team_Not_Found | Already_Belongs | Invitation_Server_Error
  | Invitation_Missing | Password_Required | Invitation_Invalid | Account_Password_Wrong | Account_Already_Belongs
  | Password_Under_Ten | Name_Length

definition invited_email_shape :: "jstr \<Rightarrow> bool" where
  "invited_email_shape s \<longleftrightarrow>
     list_all (\<lambda>c. \<not> is_ws c) s
     \<and> list_ex (\<lambda>i. s ! i = 64 \<and> list_ex (\<lambda>j. s ! j = 46) [i + 2..<length s - 1]) [1..<length s]"

record invitation_order =
  io_email :: jstr
  io_name :: jstr
  io_role :: "role option"
  io_primaryTeamId :: "jstr option"
  io_invitedByName :: jstr

definition issueUserInvitation ::
    "auth_env \<Rightarrow> jstr \<Rightarrow> jstr \<times> jstr \<Rightarrow> role \<Rightarrow> invitation_order \<Rightarrow> auth \<Rightarrow> (invitation_error + unit) \<times> auth" where
  "issueUserInvitation env organization drawn r b w =
     (let email = js_lower (js_trim (io_email b)); hash = ae_digest env (snd drawn) in
      if truthy_ref (io_primaryTeamId b)
         \<and> \<not> list_ex (\<lambda>t. Some (tm_id t) = io_primaryTeamId b \<and> tm_organizationId t = organization) (au_teams w)
      then (Inl Team_Not_Found, w)
      else if list_ex (\<lambda>u. us_organizationId u = organization
                         \<and> map_option idt_email (identity_by_id w (us_identityId u)) = Some email) (au_users w)
      then (Inl Already_Belongs, w)
      else let w1 = w\<lparr>au_invitations :=
                 map (\<lambda>v. if ui_organizationId v = organization \<and> js_lower (ui_email v) = js_lower email
                             \<and> ui_acceptedAt v = None \<and> ui_revokedAt v = None
                          then v\<lparr>ui_revokedAt := Some (au_now w)\<rparr> else v) (au_invitations w)\<rparr> in
           if fst drawn \<in> ui_id ` set (au_invitations w1) \<or> hash \<in> ui_tokenHash ` set (au_invitations w1)
           then (Inl Invitation_Server_Error, w1)
           else (Inr (),
                 (w1\<lparr>au_invitations := au_invitations w1 @
                    [\<lparr>ui_id = fst drawn, ui_organizationId = organization, ui_email = email,
                      ui_name = (if js_trim (io_name b) = [] then None else Some (js_trim (io_name b))), ui_role = r,
                      ui_primaryTeamId = (if truthy_ref (io_primaryTeamId b) then io_primaryTeamId b else None),
                      ui_tokenHash = hash, ui_invitedByName = io_invitedByName b,
                      ui_expiresAt = au_now w + 7 * 24 * 60 * 60 * 1000, ui_acceptedAt = None, ui_revokedAt = None\<rparr>],
                    au_platform := snd (queueMail (Some (lit ''user-invitation:'' @ fst drawn))
                      \<lparr>md_to = email, md_subject = [], md_body = [], md_kind = lit ''workspace.user-invitation'',
                       md_organizationId = Some organization, md_sendAfter = None\<rparr> (au_platform w1))\<rparr>)))"

text \<open>\<open>drawn\<close>: the id of the row and the token of the link.\<close>

definition invite_user ::
    "auth_env \<Rightarrow> principal \<Rightarrow> jstr \<times> jstr \<Rightarrow> invitation_order \<Rightarrow> auth \<Rightarrow> (invitation_error + unit) \<times> auth" where
  "invite_user env p drawn b w =
     (let g = requirePermission (lit ''user:create'') (Some p); email = js_lower (js_trim (io_email b));
          r = (case io_role b of None \<Rightarrow> R_AGENT | Some r \<Rightarrow> r) in
      if g \<noteq> Proceed then (Inl (Invitation_Guard g), w)
      else if email = [] \<or> \<not> invited_email_shape email then (Inl Email_Invalid, w)
      else if pr_role p = R_SUPERVISOR \<and> r \<noteq> R_AGENT then (Inl Managers_Invite_Agents, w)
      else if r = R_ADMIN then (Inl Invitation_Role_Invalid, w)
      else case seat_available w (pr_organizationId p) of
             Some e \<Rightarrow> (Inl (Invitation_Seat e), w)
           | None \<Rightarrow> issueUserInvitation env (pr_organizationId p) drawn r b w)"

definition revoke_invitation :: "principal \<Rightarrow> jstr \<Rightarrow> auth \<Rightarrow> (invitation_error + unit) \<times> auth" where
  "revoke_invitation p i w =
     (let hit = (\<lambda>v. ui_id v = i \<and> ui_organizationId v = pr_organizationId p \<and> ui_acceptedAt v = None \<and> ui_revokedAt v = None) in
      if requireAdmin (Some p) \<noteq> Proceed then (Inl (Invitation_Guard Admin_Required), w)
      else if \<not> list_ex hit (au_invitations w) then (Inl Invitation_Missing, w)
      else (Inr (), w\<lparr>au_invitations :=
              map (\<lambda>v. if hit v then v\<lparr>ui_revokedAt := Some (au_now w)\<rparr> else v) (au_invitations w)\<rparr>))"

definition live_invitation :: "auth \<Rightarrow> user_invitation \<Rightarrow> bool" where
  "live_invitation w v \<longleftrightarrow> ui_acceptedAt v = None \<and> ui_revokedAt v = None \<and> ui_expiresAt v > au_now w"

definition inspectUserInvitation :: "auth_env \<Rightarrow> jstr \<Rightarrow> auth \<Rightarrow> user_invitation option" where
  "inspectUserInvitation env token w =
     (case find (\<lambda>v. ui_tokenHash v = ae_digest env token) (au_invitations w) of
        None \<Rightarrow> None
      | Some v \<Rightarrow> if live_invitation w v then Some v else None)"

text \<open>Why an invitation that is still live is not accepted, and the rows it makes.\<close>

definition invitation_refusal :: "auth_env \<Rightarrow> user_invitation \<Rightarrow> jstr \<Rightarrow> auth \<Rightarrow> invitation_error option" where
  "invitation_refusal env v password w =
     (case identity_by_email w (ui_email v) of
        Some i \<Rightarrow>
          if \<not> ae_compare env password (idt_passwordHash i) then Some Account_Password_Wrong
          else if list_ex (\<lambda>u. us_organizationId u = ui_organizationId v \<and> us_identityId u = idt_id i) (au_users w)
          then Some Account_Already_Belongs else None
      | None \<Rightarrow> if length password < 10 then Some Password_Under_Ten else None)"

definition invited_name :: "user_invitation \<Rightarrow> jstr option \<Rightarrow> jstr" where
  "invited_name v suppliedName =
     js_trim (if truthy_ref suppliedName then the suppliedName
              else if truthy_ref (ui_name v) then the (ui_name v) else hd (split_on 64 (ui_email v)))"

definition invited_identity :: "auth_env \<Rightarrow> jstr \<Rightarrow> user_invitation \<Rightarrow> jstr \<Rightarrow> auth \<Rightarrow> identity option" where
  "invited_identity env i v password w =
     (case identity_by_email w (ui_email v) of
        None \<Rightarrow> Some (new_identity i (ui_email v) (ae_hash env password)) | Some _ \<Rightarrow> None)"

definition invited_user :: "jstr \<times> jstr \<Rightarrow> user_invitation \<Rightarrow> jstr \<Rightarrow> auth \<Rightarrow> user" where
  "invited_user drawn v name w =
     new_user (snd drawn) (ui_organizationId v)
       (case identity_by_email w (ui_email v) of None \<Rightarrow> fst drawn | Some x \<Rightarrow> idt_id x) name
       (ui_role v) (ui_primaryTeamId v) (case ui_primaryTeamId v of None \<Rightarrow> [] | Some t \<Rightarrow> [t]) None"

text \<open>\<open>drawn\<close>: the ids of the identity, when there is none yet, and of the user.\<close>

definition acceptUserInvitation ::
    "auth_env \<Rightarrow> jstr \<times> jstr \<Rightarrow> jstr \<Rightarrow> jstr \<Rightarrow> jstr option \<Rightarrow> auth \<Rightarrow> (invitation_error + unit) \<times> auth" where
  "acceptUserInvitation env drawn token password suppliedName w =
     (if password = [] then (Inl Password_Required, w)
      else case inspectUserInvitation env token w of
        None \<Rightarrow> (Inl Invitation_Invalid, w)
      | Some v \<Rightarrow>
          (case invitation_refusal env v password w of
            Some e \<Rightarrow> (Inl e, w)
          | None \<Rightarrow>
              (case seat_available w (ui_organizationId v) of
                 Some e \<Rightarrow> (Inl (Invitation_Seat e), w)
               | None \<Rightarrow>
                   let name = invited_name v suppliedName in
                   if length name < 2 \<or> length name > 80 then (Inl Name_Length, w)
                   else let i = invited_identity env (fst drawn) v password w; u = invited_user drawn v name w in
                        if \<not> fresh_person w i u then (Inl Invitation_Server_Error, w)
                        else (Inr (), add_person i u (w\<lparr>au_invitations :=
                                map (\<lambda>x. if ui_id x = ui_id v then x\<lparr>ui_acceptedAt := Some (au_now w)\<rparr> else x) (au_invitations w)\<rparr>)))))"

section \<open>Workspaces and their members\<close>

datatype workspace_error =
  Workspace_Guard guard_answer | Workspace_Name_Missing | Workspace_Name_Too_Long | Workspace_Limit entitlement_error
  | Workspace_Duplicate | Workspace_Not_Found | Not_A_Member | Not_Workspace_Admin | User_Required | Role_Unknown
  | Not_In_Organization | Already_A_Member | Member_Not_Found | Last_Admin | Default_Workspace | Workspace_Server_Error

definition create_workspace :: "principal \<Rightarrow> jstr \<Rightarrow> jstr \<Rightarrow> auth \<Rightarrow> (workspace_error + unit) \<times> auth" where
  "create_workspace p k rawName w =
     (let name = js_trim rawName; organization = pr_organizationId p;
          mine = filter (\<lambda>x. wk_organizationId x = organization) (au_workspaces w) in
      if requireAdmin (Some p) \<noteq> Proceed then (Inl (Workspace_Guard Admin_Required), w)
      else if name = [] then (Inl Workspace_Name_Missing, w)
      else if length name > 60 then (Inl Workspace_Name_Too_Long, w)
      else case assertWithinLimit (au_platform w) organization (Counted Workspaces) (int (length mine)) of
             Inl e \<Rightarrow> (Inl (Workspace_Limit e), w)
           | Inr _ \<Rightarrow>
               if list_ex (\<lambda>x. wk_name x = name) mine then (Inl Workspace_Duplicate, w)
               else if k \<in> wk_id ` set (au_workspaces w) then (Inl Workspace_Server_Error, w)
               else (Inr (),
                     w\<lparr>au_workspaces := au_workspaces w @
                         [\<lparr>wk_id = k, wk_organizationId = organization, wk_name = name, wk_isDefault = False\<rparr>],
                       au_members := au_members w @
                         [\<lparr>wm_organizationId = organization, wm_workspaceId = k, wm_userId = pr_id p, wm_role = pr_role p\<rparr>]\<rparr>))"

text \<open>The payload signed again with another workspace; the rest of it, the version and the session too, is kept.\<close>

definition resigned :: "auth_env \<Rightarrow> jstr option \<Rightarrow> jstr \<Rightarrow> auth \<Rightarrow> claims option" where
  "resigned env header k w =
     (case header of None \<Rightarrow> None
      | Some h \<Rightarrow>
          if \<not> starts_with (lit ''Bearer '') h \<or> drop 7 h = [] then None
          else map_option (\<lambda>c. c\<lparr>cl_workspaceId := Some k, cl_exp := au_now w + ae_life env\<rparr>)
                 (ae_verify env (au_now w) (drop 7 h)))"

definition activate_workspace :: "auth_env \<Rightarrow> principal \<Rightarrow> jstr option \<Rightarrow> jstr \<Rightarrow> auth \<Rightarrow> workspace_error + claims" where
  "activate_workspace env p header k w =
     (if workspace_in w (pr_organizationId p) k = None then Inl Workspace_Not_Found
      else if member_in w (pr_organizationId p) k (pr_id p) = None then Inl Not_A_Member
      else case resigned env header k w of None \<Rightarrow> Inl Workspace_Server_Error | Some c \<Rightarrow> Inr c)"

datatype authority = Via_Member | Via_Override

definition resolveAccess :: "principal \<Rightarrow> jstr \<Rightarrow> auth \<Rightarrow> workspace_error + authority" where
  "resolveAccess p k w =
     (case member_in w (pr_organizationId p) k (pr_id p) of
        Some m \<Rightarrow> if wm_role m \<noteq> R_ADMIN then Inl Not_Workspace_Admin else Inr Via_Member
      | None \<Rightarrow> if pr_role p = R_ADMIN then Inr Via_Override else Inl Not_A_Member)"

definition workspace_admins :: "jstr \<Rightarrow> jstr \<Rightarrow> auth \<Rightarrow> nat" where
  "workspace_admins organization k w =
     length (filter (\<lambda>m. wm_workspaceId m = k \<and> wm_organizationId m = organization \<and> wm_role m = R_ADMIN) (au_members w))"

text \<open>\<open>r\<close> is the role the body names, \<open>None\<close> when it is unknown.\<close>

definition add_member :: "principal \<Rightarrow> jstr \<Rightarrow> jstr \<Rightarrow> role option \<Rightarrow> auth \<Rightarrow> (workspace_error + unit) \<times> auth" where
  "add_member p k rawUser r w =
     (let organization = pr_organizationId p; u = js_trim rawUser in
      if workspace_in w organization k = None then (Inl Workspace_Not_Found, w)
      else case resolveAccess p k w of
        Inl e \<Rightarrow> (Inl e, w)
      | Inr _ \<Rightarrow>
          if u = [] then (Inl User_Required, w)
          else (case r of
             None \<Rightarrow> (Inl Role_Unknown, w)
           | Some r \<Rightarrow>
               if user_in w organization u = None then (Inl Not_In_Organization, w)
               else if member_in w organization k u \<noteq> None then (Inl Already_A_Member, w)
               else (Inr (), w\<lparr>au_members := au_members w @
                       [\<lparr>wm_organizationId = organization, wm_workspaceId = k, wm_userId = u, wm_role = r\<rparr>]\<rparr>)))"

definition change_member_role :: "principal \<Rightarrow> jstr \<Rightarrow> jstr \<Rightarrow> role option \<Rightarrow> auth \<Rightarrow> (workspace_error + unit) \<times> auth" where
  "change_member_role p k u r w =
     (let organization = pr_organizationId p in
      if workspace_in w organization k = None then (Inl Workspace_Not_Found, w)
      else case resolveAccess p k w of
        Inl e \<Rightarrow> (Inl e, w)
      | Inr _ \<Rightarrow>
          (case r of
             None \<Rightarrow> (Inl Role_Unknown, w)
           | Some r \<Rightarrow>
               (case member_in w organization k u of
                  None \<Rightarrow> (Inl Member_Not_Found, w)
                | Some m \<Rightarrow>
                    if wm_role m = R_ADMIN \<and> r \<noteq> R_ADMIN \<and> workspace_admins organization k w \<le> 1 then (Inl Last_Admin, w)
                    else (Inr (), w\<lparr>au_members :=
                            map (\<lambda>x. if wm_workspaceId x = k \<and> wm_userId x = u \<and> wm_organizationId x = organization
                                     then x\<lparr>wm_role := r\<rparr> else x) (au_members w)\<rparr>))))"

text \<open>Leaving answers with a token for the default workspace, when one's own token is there to be signed again.\<close>

definition remove_member ::
    "auth_env \<Rightarrow> principal \<Rightarrow> jstr option \<Rightarrow> jstr \<Rightarrow> jstr \<Rightarrow> auth \<Rightarrow> (workspace_error + nat \<times> claims option) \<times> auth" where
  "remove_member env p header k u w =
     (let organization = pr_organizationId p in
      case workspace_in w organization k of
        None \<Rightarrow> (Inl Workspace_Not_Found, w)
      | Some x \<Rightarrow>
          if wk_isDefault x then (Inl Default_Workspace, w)
          else (case resolveAccess p k w of
             Inl e \<Rightarrow> (Inl e, w)
           | Inr _ \<Rightarrow>
               (case member_in w organization k u of
                  None \<Rightarrow> (Inl Member_Not_Found, w)
                | Some m \<Rightarrow>
                    if wm_role m = R_ADMIN \<and> workspace_admins organization k w \<le> 1 then (Inl Last_Admin, w)
                    else let held = (\<lambda>t. ad_organizationId t = organization \<and> ad_workspaceId t = k \<and> ad_assignedToId t = Some u);
                             w' = w\<lparr>au_threads := map (\<lambda>t. if held t then t\<lparr>ad_assignedToId := None\<rparr> else t) (au_threads w),
                                    au_members := filter (\<lambda>x. \<not> (wm_workspaceId x = k \<and> wm_userId x = u \<and> wm_organizationId x = organization))
                                                    (au_members w)\<rparr> in
                         (Inr (length (filter held (au_threads w)),
                               if u = pr_id p then resigned env header (defaultWorkspaceIdFor organization) w else None), w'))))"

section \<open>Staff of the platform\<close>

definition PLATFORM_PERMISSIONS :: "jstr list" where
  "PLATFORM_PERMISSIONS =
     [lit ''subscriber:read'', lit ''subscriber:view-as'', lit ''trial:extend'', lit ''gateway:operate'',
      lit ''gateway:suspend'', lit ''billing:view'', lit ''billing:record-payment'', lit ''billing:activate'',
      lit ''commercials:manage'', lit ''subscriber:suspend'']"

definition normalizePermissions :: "jstr list \<Rightarrow> jstr list" where
  "normalizePermissions xs = js_unique (filter (\<lambda>x. x \<in> set PLATFORM_PERMISSIONS) xs)"

definition hasPlatformPermission :: "platform_principal option \<Rightarrow> jstr \<Rightarrow> bool" where
  "hasPlatformPermission u permission =
     (case u of None \<Rightarrow> False
      | Some p \<Rightarrow> if pp_role p = P_OWNER then True else if pp_role p \<noteq> P_SUPPORT then False
                  else permission \<in> set (pp_permissions p))"

datatype staff_error = Owner_Required | Staff_Email_Invalid | Staff_Password_Short | Already_Owner | Staff_Server_Error
  | Staff_Not_Found | Owner_Untouchable | Nothing_To_Change

definition create_staff ::
    "auth_env \<Rightarrow> platform_principal \<Rightarrow> jstr \<Rightarrow> jstr \<Rightarrow> jstr \<Rightarrow> jstr list \<Rightarrow> auth \<Rightarrow> (staff_error + unit) \<times> auth" where
  "create_staff env p drawn rawEmail password permissions w =
     (let email = js_lower (js_trim rawEmail); granted = normalizePermissions permissions in
      if pp_role p \<noteq> P_OWNER then (Inl Owner_Required, w)
      else if 64 \<notin> set email then (Inl Staff_Email_Invalid, w)
      else if length password < 12 then (Inl Staff_Password_Short, w)
      else case identity_by_email w email of
             Some i \<Rightarrow>
               if idt_platformRole i = P_OWNER then (Inl Already_Owner, w)
               else (Inr (), upd_identity (idt_id i)
                       (\<lambda>x. x\<lparr>idt_platformRole := P_SUPPORT, idt_platformPermissions := granted, idt_platformDisabledAt := None\<rparr>) w)
           | None \<Rightarrow>
               if drawn \<in> idt_id ` set (au_identities w) then (Inl Staff_Server_Error, w)
               else (Inr (), w\<lparr>au_identities := au_identities w @
                       [(new_identity drawn email (ae_hash env password))
                          \<lparr>idt_platformRole := P_SUPPORT, idt_platformPermissions := granted\<rparr>]\<rparr>))"

definition update_staff ::
    "platform_principal \<Rightarrow> jstr \<Rightarrow> jstr list option \<Rightarrow> bool option \<Rightarrow> auth \<Rightarrow> (staff_error + unit) \<times> auth" where
  "update_staff p i permissions disabled w =
     (if pp_role p \<noteq> P_OWNER then (Inl Owner_Required, w)
      else case identity_by_id w i of
             None \<Rightarrow> (Inl Staff_Not_Found, w)
           | Some x \<Rightarrow>
               if idt_platformRole x = P_OWNER then (Inl Owner_Untouchable, w)
               else if permissions = None \<and> disabled = None then (Inl Nothing_To_Change, w)
               else (Inr (), upd_identity i
                       (\<lambda>x. x\<lparr>idt_platformPermissions := supplied (map_option normalizePermissions permissions) (idt_platformPermissions x),
                              idt_platformDisabledAt := (case disabled of None \<Rightarrow> idt_platformDisabledAt x
                                                         | Some d \<Rightarrow> if d then Some (au_now w) else None)\<rparr>) w))"

section \<open>Histories\<close>

text \<open>
  The rows of this model that a sign-up writes (\<open>billing.service.ts\<close>), in its transaction. The organization's own row
  belongs to the platform.
\<close>

definition sign_up ::
    "auth_env \<Rightarrow> jstr \<times> jstr \<times> jstr \<times> jstr \<Rightarrow> jstr \<Rightarrow> jstr \<Rightarrow> jstr \<Rightarrow> auth \<Rightarrow> auth option" where
  "sign_up env drawn email name password w =
     (let (organization, i, uid, general) = drawn;
          k = \<lparr>wk_id = defaultWorkspaceIdFor organization, wk_organizationId = organization, wk_name = name, wk_isDefault = True\<rparr>;
          w1 = w\<lparr>au_workspaces := au_workspaces w @ [k],
                 au_teams := au_teams w @ [\<lparr>tm_id = general, tm_organizationId = organization, tm_isDefault = True\<rparr>]\<rparr>;
          x = new_identity i email (ae_hash env password);
          u = new_user uid organization i name R_ADMIN (Some general) [general] None in
      if wk_id k \<in> wk_id ` set (au_workspaces w) \<or> organization \<in> wk_organizationId ` set (au_workspaces w)
         \<or> general \<in> tm_id ` set (au_teams w) \<or> \<not> fresh_person w1 (Some x) u then None
      else Some (add_person (Some x) u w1))"

text \<open>What a signed-in user asks for.\<close>

datatype action =
  Look
  | Change_Password jstr jstr
  | Setup_Two_Factor jstr jstr
  | Enable_Two_Factor jstr jstr "jstr list"
  | Disable_Two_Factor jstr jstr
  | Logout_All
  | Create_User "jstr \<times> jstr" user_order
  | Update_User jstr user_patch
  | Delete_User jstr
  | Invite_User "jstr \<times> jstr" invitation_order
  | Revoke_Invitation jstr
  | Create_Workspace jstr jstr
  | Activate_Workspace jstr
  | Add_Member jstr jstr "role option"
  | Change_Member_Role jstr jstr "role option"
  | Remove_Member jstr jstr

text \<open>The rows after a request, and the payload of the token it answers with, if it does.\<close>

definition signed_of :: "('e + claims) \<Rightarrow> claims list" where
  "signed_of a = (case a of Inl _ \<Rightarrow> [] | Inr c \<Rightarrow> [c])"

fun act :: "auth_env \<Rightarrow> principal \<Rightarrow> jstr option \<Rightarrow> action \<Rightarrow> auth \<Rightarrow> claims list \<times> auth" where
  "act env p header Look w = ([], w)"
| "act env p header (Change_Password current new) w = ([], snd (change_password env p current new w))"
| "act env p header (Setup_Two_Factor current secret) w = (signed_of (setup_two_factor env p current secret w), w)"
| "act env p header (Enable_Two_Factor t code codes) w = ([], snd (enable_two_factor env p t code codes w))"
| "act env p header (Disable_Two_Factor current code) w = ([], snd (disable_two_factor env p current code w))"
| "act env p header Logout_All w = ([], logout_all p w)"
| "act env p header (Create_User drawn b) w = ([], snd (create_user env p drawn b w))"
| "act env p header (Update_User i b) w = ([], snd (update_user env p i b w))"
| "act env p header (Delete_User i) w = ([], snd (delete_user p i w))"
| "act env p header (Invite_User drawn b) w = ([], snd (invite_user env p drawn b w))"
| "act env p header (Revoke_Invitation i) w = ([], snd (revoke_invitation p i w))"
| "act env p header (Create_Workspace k name) w = ([], snd (create_workspace p k name w))"
| "act env p header (Activate_Workspace k) w = (signed_of (activate_workspace env p header k w), w)"
| "act env p header (Add_Member k u r) w = ([], snd (add_member p k u r w))"
| "act env p header (Change_Member_Role k u r) w = ([], snd (change_member_role p k u r w))"
| "act env p header (Remove_Member k u) w =
     (case remove_member env p header k u w of
        (Inr (_, Some c), w') \<Rightarrow> ([c], w') | (_, w') \<Rightarrow> ([], w'))"

text \<open>The method of the route an action belongs to.\<close>

definition method_of :: "action \<Rightarrow> jstr" where
  "method_of a =
     (case a of Look \<Rightarrow> lit ''GET'' | Update_User _ _ \<Rightarrow> lit ''PATCH'' | Change_Member_Role _ _ _ \<Rightarrow> lit ''PATCH''
      | Disable_Two_Factor _ _ \<Rightarrow> lit ''DELETE'' | Delete_User _ \<Rightarrow> lit ''DELETE'' | Revoke_Invitation _ \<Rightarrow> lit ''DELETE''
      | Remove_Member _ _ \<Rightarrow> lit ''DELETE'' | _ \<Rightarrow> lit ''POST'')"

datatype auth_event =
  Log_In "jstr \<times> jstr" jstr jstr
  | Second_Factor jstr jstr jstr
  | Request "jstr option" "jstr option" action
  | Accept_Invitation "jstr \<times> jstr" jstr jstr "jstr option"
  | Sign_Up "jstr \<times> jstr \<times> jstr \<times> jstr" jstr jstr jstr
  | Create_Staff "jstr option" jstr jstr jstr "jstr list"
  | Update_Staff "jstr option" jstr "jstr list option" "bool option"
  | Clock_Moves nat

text \<open>The tokens handed out so far go along with the rows.\<close>

type_synonym auth_state = "claims list \<times> auth"

definition login_signed :: "login_answer \<Rightarrow> claims list" where
  "login_signed a = (case a of Challenge_Issued c \<Rightarrow> [c] | Logged_In c \<Rightarrow> [c] | _ \<Rightarrow> [])"

text \<open>A signature that verifies was made by signing: what a text verifies to has been handed out.\<close>

definition genuine :: "auth_env \<Rightarrow> auth_state \<Rightarrow> jstr option \<Rightarrow> bool" where
  "genuine env s t =
     (case t of None \<Rightarrow> True
      | Some t \<Rightarrow> (case ae_verify env (au_now (snd s)) t of None \<Rightarrow> True | Some c \<Rightarrow> c \<in> set (fst s)))"

definition texts_of :: "auth_event \<Rightarrow> jstr option list" where
  "texts_of e =
     (case e of
        Second_Factor _ t _ \<Rightarrow> [Some t]
      | Request header _ a \<Rightarrow>
          [bearer header, map_option (drop 7) header]
          @ (case a of Enable_Two_Factor t _ _ \<Rightarrow> [Some t] | _ \<Rightarrow> [])
      | Create_Staff header _ _ _ _ \<Rightarrow> [bearer header]
      | Update_Staff header _ _ _ \<Rightarrow> [bearer header]
      | _ \<Rightarrow> [])"

definition handle :: "auth_env \<Rightarrow> auth_event \<Rightarrow> auth \<Rightarrow> claims list \<times> auth" where
  "handle env e w =
     (case e of
        Log_In drawn email password \<Rightarrow> (let (a, w') = login env drawn email password w in (login_signed a, w'))
      | Second_Factor sid t code \<Rightarrow> (let (a, w') = two_factor_login env sid t code w in (login_signed a, w'))
      | Request header viewAs a \<Rightarrow>
          (case verifyToken env header (method_of a) viewAs w of
             (Inl _, w') \<Rightarrow> ([], w') | (Inr p, w') \<Rightarrow> act env p header a w')
      | Accept_Invitation drawn t password name \<Rightarrow> ([], snd (acceptUserInvitation env drawn t password name w))
      | Sign_Up drawn email name password \<Rightarrow>
          (case sign_up env drawn email name password w of None \<Rightarrow> ([], w) | Some w' \<Rightarrow> ([], w'))
      | Create_Staff header drawn email password permissions \<Rightarrow>
          (case verifyPlatformToken env header w of
             Inl _ \<Rightarrow> ([], w) | Inr p \<Rightarrow> ([], snd (create_staff env p drawn email password permissions w)))
      | Update_Staff header i permissions disabled \<Rightarrow>
          (case verifyPlatformToken env header w of
             Inl _ \<Rightarrow> ([], w) | Inr p \<Rightarrow> ([], snd (update_staff p i permissions disabled w)))
      | Clock_Moves d \<Rightarrow> ([], w\<lparr>au_platform := (au_platform w)\<lparr>pf_now := au_now w + int d\<rparr>\<rparr>))"

text \<open>The id of a workspace is drawn by \<open>cuid()\<close>, which starts with a \<open>c\<close>; the default workspaces have ids of their own.\<close>

definition drawn_by_cuid :: "auth_event \<Rightarrow> bool" where
  "drawn_by_cuid e = (case e of Request _ _ (Create_Workspace k _) \<Rightarrow> starts_with (lit ''c'') k | _ \<Rightarrow> True)"

definition auth_step :: "auth_env \<Rightarrow> auth_event \<Rightarrow> auth_state \<Rightarrow> auth_state" where
  "auth_step env e s =
     (if list_all (genuine env s) (texts_of e) \<and> drawn_by_cuid e
      then let (signed, w') = handle env e (snd s) in (fst s @ signed, w')
      else s)"

end
