(* ===== verification/Auth_Props.thy ===== *)
theory Auth_Props
  imports Auth Entitlements_Props "HOL-Library.Option_ord"
begin

text \<open>
  What the rows and tokens of \<open>Auth\<close> guarantee along every history of requests: the version of a user only grows and no
  token is ahead of it, an administrator has no restriction, everybody has a place in the default
  workspace, and a workspace keeps an administrator. Each operation is first shown to
  leave rows alone, and to treat users, members and identities in one of a few ways.
\<close>

section \<open>What an operation leaves alone\<close>

lemma frame_upd [frame_simps]:
  "au_users (upd_identity i f w) = au_users w" "au_members (upd_identity i f w) = au_members w"
  "au_workspaces (upd_identity i f w) = au_workspaces w" "au_platform (upd_identity i f w) = au_platform w"
  "au_recovery (upd_identity i f w) = au_recovery w" "au_teams (upd_identity i f w) = au_teams w"
  "au_identities (upd_user o1 j g w) = au_identities w" "au_members (upd_user o1 j g w) = au_members w"
  "au_workspaces (upd_user o1 j g w) = au_workspaces w" "au_platform (upd_user o1 j g w) = au_platform w"
  "au_recovery (upd_user o1 j g w) = au_recovery w"
  "au_identities (upd_session o2 k h w) = au_identities w" "au_members (upd_session o2 k h w) = au_members w"
  "au_workspaces (upd_session o2 k h w) = au_workspaces w" "au_platform (upd_session o2 k h w) = au_platform w"
  "au_users (upd_session o2 k h w) = au_users w" "au_recovery (upd_session o2 k h w) = au_recovery w"
  "au_identities (bump_memberships i w) = au_identities w" "au_members (bump_memberships i w) = au_members w"
  "au_workspaces (bump_memberships i w) = au_workspaces w" "au_platform (bump_memberships i w) = au_platform w"
  "au_recovery (bump_memberships i w) = au_recovery w"
  "au_users (drop_factor_rows i w) = au_users w" "au_members (drop_factor_rows i w) = au_members w"
  "au_workspaces (drop_factor_rows i w) = au_workspaces w" "au_identities (drop_factor_rows i w) = au_identities w"
  "au_platform (drop_factor_rows i w) = au_platform w"
  by (simp_all add: upd_identity_def upd_user_def upd_session_def bump_memberships_def drop_factor_rows_def)

lemma frame_mail [frame_simps]:
  "au_users (mail_to a k w) = au_users w" "au_members (mail_to a k w) = au_members w"
  "au_workspaces (mail_to a k w) = au_workspaces w" "au_identities (mail_to a k w) = au_identities w"
  "au_recovery (mail_to a k w) = au_recovery w" "au_now (mail_to a k w) = au_now w"
  by (simp_all add: mail_to_def queueMail_def)

text \<open>The rows of users, members and workspaces, and the unchanged rest of a step.\<close>

definition same_people :: "auth \<Rightarrow> auth \<Rightarrow> bool" where
  "same_people w w' \<longleftrightarrow>
     au_users w' = au_users w \<and> au_members w' = au_members w \<and> au_workspaces w' = au_workspaces w"

lemma same_people_refl [simp]: "same_people w w"
  by (simp add: same_people_def)

lemma same_touch: "same_people w (snd (touch_session s w))"
  by (simp add: touch_session_def same_people_def Let_def frame_simps split: option.split)

lemma verifyClaims_state: "snd (verifyClaims c m v w) = w \<or> (\<exists>s. snd (verifyClaims c m v w) = snd (touch_session s w))"
  by (auto simp: verifyClaims_def Let_def split: sum.split prod.split) (metis snd_conv)+

lemma same_verifyClaims: "same_people w (snd (verifyClaims c m v w))"
  using verifyClaims_state [of c m v w] same_touch [of w] by (metis same_people_refl)

lemma same_verifyToken: "same_people w (snd (verifyToken env h m v w))"
  by (simp add: verifyToken_def same_verifyClaims split: option.split)

lemma same_completeIdentityLogin: "same_people w (snd (completeIdentityLogin env sid i w))"
  by (simp add: completeIdentityLogin_def same_people_def split: option.split)

lemma same_login: "same_people w (snd (login env d email q w))"
  using same_completeIdentityLogin [of w env "snd d"]
  by (auto simp: login_def createLoginChallenge_def Let_def same_people_def split: option.split)

lemma same_consume_factor: "same_people w (snd (consume_factor env i code w))"
  by (simp add: consume_factor_def same_people_def Let_def frame_simps split: option.split)

lemma same_consume_factorD: "consume_factor env i code w = (a, w') \<Longrightarrow> same_people w w'"
  using same_consume_factor [of w env i code] by simp

lemma same_completeIdentityLoginD: "completeIdentityLogin env sid i w = (a, w') \<Longrightarrow> same_people w w'"
  using same_completeIdentityLogin [of w env sid i] by simp

lemma same_second_factor: "consumeLoginSecondFactor env t code w = (a, w') \<Longrightarrow> same_people w w'"
  by (auto simp: consumeLoginSecondFactor_def Let_def same_people_def dest!: same_consume_factorD
      split: option.splits prod.splits factor_answer.splits if_splits)

lemma same_two_factor_login: "two_factor_login env sid t code w = (a, w') \<Longrightarrow> same_people w w'"
  by (auto simp: two_factor_login_def same_people_def dest!: same_second_factor same_completeIdentityLoginD
      split: prod.splits sum.splits factor_answer.splits if_splits)

section \<open>What a step does to people\<close>

text \<open>
  A specification of every step by what it does to users, members and workspaces. All the histories below are
  about these kinds of change.
\<close>

definition quiet_change :: "user \<Rightarrow> user \<Rightarrow> bool" where
  "quiet_change u u' \<longleftrightarrow>
     us_tokenVersion u \<le> us_tokenVersion u'
     \<and> u' = u\<lparr>us_tokenVersion := us_tokenVersion u', us_isActive := us_isActive u'\<rparr>"

inductive people_step :: "auth \<Rightarrow> auth \<Rightarrow> bool" where
  Unchanged: "same_people w w' \<Longrightarrow> people_step w w'"
| Signed_Out:
    "au_users w' = map f (au_users w) \<Longrightarrow> (\<And>u. quiet_change u (f u)) \<Longrightarrow> au_members w' = au_members w
     \<Longrightarrow> au_workspaces w' = au_workspaces w \<Longrightarrow> people_step w w'"
| Edited:
    "user_in w organization i = Some u \<Longrightarrow> us_role u \<noteq> R_ADMIN
     \<Longrightarrow> au_users w' = map (\<lambda>x. if us_id x = i \<and> us_organizationId x = organization then g x else x) (au_users w)
     \<Longrightarrow> (\<And>x. us_id (g x) = us_id x \<and> us_organizationId (g x) = us_organizationId x \<and> us_identityId (g x) = us_identityId x
           \<and> us_tokenVersion x \<le> us_tokenVersion (g x) \<and> (us_role (g x) = us_role x \<or> us_role (g x) \<noteq> R_ADMIN))
     \<Longrightarrow> au_members w' = au_members w \<Longrightarrow> au_workspaces w' = au_workspaces w \<Longrightarrow> people_step w w'"
| Joined:
    "us_id u \<notin> us_id ` set (au_users w)
     \<Longrightarrow> (defaultWorkspaceIdFor (us_organizationId u), us_id u) \<notin> (\<lambda>m. (wm_workspaceId m, wm_userId m)) ` set (au_members w)
     \<Longrightarrow> us_restrictions u = no_restrictions
     \<Longrightarrow> workspace_in w' (us_organizationId u) (defaultWorkspaceIdFor (us_organizationId u)) \<noteq> None
     \<Longrightarrow> au_users w' = au_users w @ [u]
     \<Longrightarrow> au_members w' = au_members w @ [workspaceMemberData (us_organizationId u) (us_id u) (us_role u)]
     \<Longrightarrow> au_workspaces w' = au_workspaces w
         \<or> (us_role u = R_ADMIN
            \<and> (\<exists>k. au_workspaces w' = au_workspaces w @ [k] \<and> wk_id k = defaultWorkspaceIdFor (us_organizationId u)
                   \<and> wk_organizationId k = us_organizationId u \<and> wk_isDefault k \<and> wk_id k \<notin> wk_id ` set (au_workspaces w)))
     \<Longrightarrow> people_step w w'"
| Opened:
    "wk_id k \<notin> wk_id ` set (au_workspaces w) \<Longrightarrow> wk_id k \<noteq> defaultWorkspaceIdFor (wk_organizationId k) \<Longrightarrow> \<not> wk_isDefault k \<Longrightarrow> au_users w' = au_users w
     \<Longrightarrow> au_workspaces w' = au_workspaces w @ [k]
     \<Longrightarrow> au_members w' = au_members w @
           [\<lparr>wm_organizationId = wk_organizationId k, wm_workspaceId = wk_id k, wm_userId = u, wm_role = R_ADMIN\<rparr>]
     \<Longrightarrow> people_step w w'"
| Member_Added:
    "member_in w organization k u = None \<Longrightarrow> workspace_in w organization k \<noteq> None \<Longrightarrow> au_users w' = au_users w
     \<Longrightarrow> au_workspaces w' = au_workspaces w
     \<Longrightarrow> au_members w' = au_members w @
           [\<lparr>wm_organizationId = organization, wm_workspaceId = k, wm_userId = u, wm_role = r\<rparr>]
     \<Longrightarrow> people_step w w'"
| Role_Changed:
    "member_in w organization k u = Some m \<Longrightarrow> wm_role m = R_ADMIN \<and> r \<noteq> R_ADMIN \<longrightarrow> workspace_admins organization k w > 1
     \<Longrightarrow> au_users w' = au_users w \<Longrightarrow> au_workspaces w' = au_workspaces w
     \<Longrightarrow> au_members w' = map (\<lambda>x. if wm_workspaceId x = k \<and> wm_userId x = u \<and> wm_organizationId x = organization
                                   then x\<lparr>wm_role := r\<rparr> else x) (au_members w)
     \<Longrightarrow> people_step w w'"
| Member_Removed:
    "member_in w organization k u = Some m \<Longrightarrow> wm_role m = R_ADMIN \<longrightarrow> workspace_admins organization k w > 1
     \<Longrightarrow> workspace_in w organization k = Some x \<Longrightarrow> \<not> wk_isDefault x
     \<Longrightarrow> au_users w' = au_users w \<Longrightarrow> au_workspaces w' = au_workspaces w
     \<Longrightarrow> au_members w' = filter (\<lambda>y. \<not> (wm_workspaceId y = k \<and> wm_userId y = u \<and> wm_organizationId y = organization)) (au_members w)
     \<Longrightarrow> people_step w w'"

lemma same_people_reads:
  assumes "same_people w w'"
  shows "user_in w' = user_in w" "workspace_in w' = workspace_in w" "member_in w' = member_in w"
    "workspace_admins organization k w' = workspace_admins organization k w"
  using assms by (auto simp: same_people_def user_in_def workspace_in_def member_in_def workspace_admins_def fun_eq_iff)

lemma people_step_from:
  assumes "same_people w w1" "people_step w1 w2"
  shows "people_step w w2"
  using assms(2)
proof cases
  case Unchanged
  with assms(1) show ?thesis by (auto simp: same_people_def intro!: people_step.Unchanged)
next
  case (Signed_Out f)
  with assms(1) show ?thesis by (intro people_step.Signed_Out [of _ f]) (auto simp: same_people_def)
next
  case (Edited organization i u g)
  with assms(1) show ?thesis
    by (intro people_step.Edited [of _ organization i u _ g]) (auto simp: same_people_def same_people_reads [OF assms(1)])
next
  case (Joined u)
  with assms(1) show ?thesis by (intro people_step.Joined [of u]) (auto simp: same_people_def)
next
  case (Opened k u)
  with assms(1) show ?thesis by (intro people_step.Opened [of k _ _ u]) (auto simp: same_people_def)
next
  case (Member_Added organization k u r)
  with assms(1) show ?thesis
    by (intro people_step.Member_Added [of _ organization k u _ r]) (auto simp: same_people_def same_people_reads [OF assms(1)])
next
  case (Role_Changed organization k u m r)
  with assms(1) show ?thesis
    by (intro people_step.Role_Changed [of _ organization k u m r]) (auto simp: same_people_def same_people_reads [OF assms(1)])
next
  case (Member_Removed organization k u m x)
  with assms(1) show ?thesis
    by (intro people_step.Member_Removed [of _ organization k u m x]) (auto simp: same_people_def same_people_reads [OF assms(1)])
qed

lemma users_bumped: "au_users (bump_memberships i w) =
    map (\<lambda>u. if us_identityId u = i then u\<lparr>us_tokenVersion := us_tokenVersion u + 1\<rparr> else u) (au_users w)"
  by (simp add: bump_memberships_def)

lemma people_bumped:
  assumes "same_people w w1" "same_people (bump_memberships i w1) w2"
  shows "people_step w w2"
  by (rule people_step.Signed_Out
        [of _ "\<lambda>u. if us_identityId u = i then u\<lparr>us_tokenVersion := us_tokenVersion u + 1\<rparr> else u"])
     (use assms in \<open>auto simp: same_people_def users_bumped frame_simps quiet_change_def\<close>)

lemma same_people_upd_identity [simp]: "same_people w (upd_identity i f w)"
  by (simp add: same_people_def frame_simps)

lemma same_people_mail [simp]: "same_people w (mail_to a k w)"
  by (simp add: same_people_def frame_simps)

lemma same_people_trans: "same_people w w1 \<Longrightarrow> same_people w1 w2 \<Longrightarrow> same_people w w2"
  by (simp add: same_people_def)

lemma people_change_password: "people_step w (snd (change_password env p cur new w))"
proof -
  have "people_step w (mail_to a k (bump_memberships i (upd_identity j f w)))" for a k i j f
    by (rule people_bumped [of _ "upd_identity j f w" i]) simp_all
  then show ?thesis
    by (auto simp: change_password_def split: option.split intro: people_step.Unchanged)
qed

lemma people_enable: "people_step w (snd (enable_two_factor env p t code codes w))"
proof -
  have "people_step w (mail_to a k (bump_memberships i ((drop_factor_rows i (upd_identity j f w))\<lparr>au_recovery := rs\<rparr>)))"
    for a k i j f rs
    by (rule people_bumped [of _ "(drop_factor_rows i (upd_identity j f w))\<lparr>au_recovery := rs\<rparr>" i])
       (simp_all add: same_people_def frame_simps)
  then show ?thesis
    by (auto simp: enable_two_factor_def Let_def split: option.split intro: people_step.Unchanged)
qed

lemma same_existing_factor: "consumeExistingFactor env i code w = (a, w') \<Longrightarrow> same_people w w'"
  by (auto simp: consumeExistingFactor_def split: option.splits if_splits dest: same_consume_factorD)

lemma people_disable: "people_step w (snd (disable_two_factor env p cur code w))"
proof -
  have "people_step w (mail_to a k (bump_memberships i (drop_factor_rows i (upd_identity j f w'))))"
    if "same_people w w'" for a k i j f w'
    by (rule people_bumped [of _ "drop_factor_rows i (upd_identity j f w')" i])
       (use that in \<open>simp_all add: same_people_def frame_simps\<close>)
  then show ?thesis
    by (auto simp: disable_two_factor_def dest!: same_existing_factor intro: people_step.Unchanged
        split: option.split prod.split factor_answer.split)
qed

lemma people_logout: "people_step w (logout_all p w)"
  by (rule people_step.Signed_Out
        [of _ "\<lambda>u. if us_id u = pr_id p \<and> us_organizationId u = pr_organizationId p then u\<lparr>us_tokenVersion := us_tokenVersion u + 1\<rparr> else u"])
     (auto simp: logout_all_def Let_def upd_user_def quiet_change_def)

lemma people_delete_user: "people_step w (snd (delete_user p i w))"
proof -
  have "people_step w (upd_user o1 i (\<lambda>x. x\<lparr>us_isActive := False, us_tokenVersion := us_tokenVersion x + 1\<rparr>) w)" for o1
    by (rule people_step.Signed_Out
          [of _ "\<lambda>u. if us_id u = i \<and> us_organizationId u = o1 then u\<lparr>us_isActive := False, us_tokenVersion := us_tokenVersion u + 1\<rparr> else u"])
       (auto simp: upd_user_def quiet_change_def)
  then show ?thesis
    by (auto simp: delete_user_def Let_def split: option.split intro: people_step.Unchanged)
qed

lemma people_joined:
  assumes "fresh_person w i u" "us_restrictions u = no_restrictions"
  shows "people_step w (add_person i u w)"
  by (rule people_step.Joined [of u]) (use assms in \<open>auto simp: fresh_person_def add_person_def workspace_in_def\<close>)

lemma no_restrictions_new_user [simp]: "us_restrictions (new_user a b c d e f g h) = no_restrictions"
  by (simp add: new_user_def)

lemma no_restrictions_invited_user [simp]: "us_restrictions (invited_user a b c w) = no_restrictions"
  by (simp add: invited_user_def)

lemma people_create_user: "people_step w (snd (create_user env p drawn b w))"
  by (auto simp: create_user_def Let_def intro: people_step.Unchanged people_joined split: option.split)

lemma people_accept: "people_step w (snd (acceptUserInvitation env drawn t q name w))"
proof -
  have "people_step w (add_person i u (w\<lparr>au_invitations := vs\<rparr>))"
    if "fresh_person w i u" "us_restrictions u = no_restrictions" for i u vs
  proof -
    have "fresh_person (w\<lparr>au_invitations := vs\<rparr>) i u" using that(1) by (simp add: fresh_person_def workspace_in_def split: option.splits)
    then have "people_step (w\<lparr>au_invitations := vs\<rparr>) (add_person i u (w\<lparr>au_invitations := vs\<rparr>))"
      using that(2) by (rule people_joined)
    then show ?thesis by (rule people_step_from [rotated]) (simp add: same_people_def)
  qed
  then show ?thesis
    by (auto simp: acceptUserInvitation_def Let_def intro: people_step.Unchanged split: option.split)
qed

lemma people_sign_up:
  assumes "sign_up env drawn email name q w = Some w'"
  shows "people_step w w'"
proof -
  obtain organization i uid general where d: "drawn = (organization, i, uid, general)" by (cases drawn) auto
  show ?thesis
    by (rule people_step.Joined [of "new_user uid organization i name R_ADMIN (Some general) [general] None"])
       (use assms in \<open>auto simp: d sign_up_def Let_def fresh_person_def add_person_def new_user_def workspace_in_def
          split: if_splits\<close>)
qed

lemma patched_user_keeps:
  "us_id (patched_user w b x) = us_id x" "us_organizationId (patched_user w b x) = us_organizationId x"
  "us_identityId (patched_user w b x) = us_identityId x" "us_tokenVersion x \<le> us_tokenVersion (patched_user w b x)"
  "us_role (patched_user w b x) = supplied (up_role b) (us_role x)"
  by (simp_all add: patched_user_def)

lemma patch_identity_state:
  "patch_identity env i b w = Some w1 \<Longrightarrow> \<exists>f. w1 = upd_identity i f w \<and> (\<forall>x. idt_id (f x) = idt_id x)"
  by (auto simp: patch_identity_def Let_def split: if_splits intro!: exI)

lemma people_update_user: "people_step w (snd (update_user env p i b w))"
proof (rule ccontr)
  assume no: "\<not> people_step w (snd (update_user env p i b w))"
  have *: "people_step w (upd_user (pr_organizationId p) i g w1)"
    if "user_in w (pr_organizationId p) i = Some u" "us_role u \<noteq> R_ADMIN" "up_role b \<noteq> Some R_ADMIN"
      and patched: "patch_identity env (us_identityId u) b w = Some w1"
      and "(g = patched_user w1 b) \<or> (\<exists>ts. g = (\<lambda>x. patched_user w1 b x\<lparr>us_teamIds := ts\<rparr>))" for u g w1
  proof -
    obtain f where w1: "w1 = upd_identity (us_identityId u) f w" using patch_identity_state [OF patched] by auto
    show ?thesis
      by (rule people_step.Edited [of _ "pr_organizationId p" i u _ g])
         (use that in \<open>auto simp: w1 upd_user_def frame_simps patched_user_keeps supplied_def split: option.splits\<close>)
  qed
  have same: "people_step w w1" if patched: "patch_identity env j b w = Some w1" for j w1
    using patch_identity_state [OF patched] by (auto intro: people_step.Unchanged)
  from no show False
    by (auto simp: update_user_def Let_def intro: people_step.Unchanged same * split: option.splits if_splits)
qed

lemma same_invite: "same_people w (snd (invite_user env p drawn b w))"
  by (simp add: invite_user_def issueUserInvitation_def Let_def same_people_def split: option.split)

lemma same_revoke: "same_people w (snd (revoke_invitation p i w))"
  by (simp add: revoke_invitation_def same_people_def Let_def)

lemma requireAdmin_Proceed [simp]: "requireAdmin (Some p) = Proceed \<longleftrightarrow> pr_role p = R_ADMIN"
  by (simp add: requireAdmin_def)

lemma cuid_no_default: "starts_with (lit ''c'') k \<Longrightarrow> k \<noteq> defaultWorkspaceIdFor organization"
  by (auto simp: starts_with_def defaultWorkspaceIdFor_def lit_def)

lemma people_create_workspace:
  assumes "starts_with (lit ''c'') k"
  shows "people_step w (snd (create_workspace p k name w))"
proof -
  have "people_step w (w\<lparr>au_workspaces := au_workspaces w @
              [\<lparr>wk_id = k, wk_organizationId = pr_organizationId p, wk_name = n, wk_isDefault = False\<rparr>],
            au_members := au_members w @
              [\<lparr>wm_organizationId = pr_organizationId p, wm_workspaceId = k, wm_userId = pr_id p, wm_role = R_ADMIN\<rparr>]\<rparr>)"
    if "k \<notin> wk_id ` set (au_workspaces w)" for n
    by (rule people_step.Opened [of "\<lparr>wk_id = k, wk_organizationId = pr_organizationId p, wk_name = n, wk_isDefault = False\<rparr>" _ _ "pr_id p"])
       (use that cuid_no_default [OF assms] in auto)
  then show ?thesis
    by (auto simp: create_workspace_def Let_def intro: people_step.Unchanged split: sum.split)
qed

lemma people_add_member: "people_step w (snd (add_member p k u r w))"
proof -
  have "people_step w (w\<lparr>au_members := au_members w @
          [\<lparr>wm_organizationId = pr_organizationId p, wm_workspaceId = k, wm_userId = u', wm_role = r'\<rparr>]\<rparr>)"
    if "member_in w (pr_organizationId p) k u' = None" "workspace_in w (pr_organizationId p) k = Some y" for u' r' y
    by (rule people_step.Member_Added [OF that(1)]) (use that(2) in auto)
  then show ?thesis
    by (auto simp: add_member_def Let_def intro: people_step.Unchanged split: sum.split option.split)
qed

lemma people_change_role: "people_step w (snd (change_member_role p k u r w))"
proof -
  have "people_step w (w\<lparr>au_members := map (\<lambda>x. if wm_workspaceId x = k \<and> wm_userId x = u \<and> wm_organizationId x = pr_organizationId p
            then x\<lparr>wm_role := r'\<rparr> else x) (au_members w)\<rparr>)"
    if "member_in w (pr_organizationId p) k u = Some m"
      "\<not> (wm_role m = R_ADMIN \<and> r' \<noteq> R_ADMIN \<and> workspace_admins (pr_organizationId p) k w \<le> Suc 0)" for m r'
    by (rule people_step.Role_Changed [OF that(1), of r']) (use that(2) in auto)
  then show ?thesis
    by (auto simp: change_member_role_def Let_def intro: people_step.Unchanged split: sum.split option.split)
qed

lemma people_remove_member:
  assumes "remove_member env p h k u w = (a, w')"
  shows "people_step w w'"
proof -
  have "people_step w (w\<lparr>au_threads := ts, au_members := filter Q (au_members w)\<rparr>)"
    if "member_in w (pr_organizationId p) k u = Some m" "workspace_in w (pr_organizationId p) k = Some x" "\<not> wk_isDefault x"
      "wm_role m = R_ADMIN \<longrightarrow> \<not> workspace_admins (pr_organizationId p) k w \<le> Suc 0"
      "\<And>y. Q y \<longleftrightarrow> \<not> (wm_workspaceId y = k \<and> wm_userId y = u \<and> wm_organizationId y = pr_organizationId p)" for m x ts Q
    by (rule people_step.Member_Removed [OF that(1) _ that(2,3)]) (use that(4,5) in \<open>auto cong: filter_cong\<close>)
  then show ?thesis
    using assms
    by (auto simp: remove_member_def Let_def intro: people_step.Unchanged split: sum.splits option.splits if_splits)
qed

lemma people_act:
  assumes "drawn_by_cuid (Request h v a)"
  shows "people_step w (snd (act env p h a w))"
  using assms
  by (cases a)
     (auto intro: people_step.Unchanged people_change_password people_enable people_disable people_logout
        people_create_user people_update_user people_delete_user people_create_workspace people_add_member people_change_role
        same_invite same_revoke people_remove_member
      simp: drawn_by_cuid_def split: prod.split sum.split option.split)

lemma people_staff:
  "same_people w (snd (create_staff env p d email q ps w))" "same_people w (snd (update_staff p i ps' disabled w))"
  by (simp_all add: create_staff_def update_staff_def Let_def same_people_def frame_simps split: option.split)

lemma handle_people:
  assumes "drawn_by_cuid e"
  shows "people_step w (snd (handle env e w))"
proof (cases e)
  case (Request h v a)
  have "people_step w (snd (act env p h a w'))" if "verifyToken env h (method_of a) v w = (Inr p, w')" for p w'
    using same_verifyToken [of w env h "method_of a" v] that people_step_from [OF _ people_act] assms Request by simp
  moreover have "people_step w w'" if "verifyToken env h (method_of a) v w = (Inl x, w')" for x w'
    using same_verifyToken [of w env h "method_of a" v] that people_step.Unchanged by simp
  ultimately show ?thesis by (auto simp: Request handle_def split: prod.split sum.split)
next
  case (Log_In d email q)
  then show ?thesis
    using same_login [of w env d email q] by (auto simp: handle_def split: prod.split intro: people_step.Unchanged)
next
  case (Second_Factor sid t code)
  then show ?thesis
    by (auto simp: handle_def split: prod.split dest!: same_two_factor_login intro: people_step.Unchanged)
qed (auto simp: handle_def people_accept people_staff people_sign_up same_people_def
     intro: people_step.Unchanged people_staff split: option.split sum.split)

section \<open>Along every history\<close>

text \<open>The rows are in order: ids are taken once, and so are a person's places in a workspace.\<close>

definition people_ok :: "auth \<Rightarrow> bool" where
  "people_ok w \<longleftrightarrow>
     distinct (map us_id (au_users w)) \<and> distinct (map wk_id (au_workspaces w))
     \<and> distinct (map (\<lambda>m. (wm_workspaceId m, wm_userId m)) (au_members w))"

definition admins_unrestricted :: "auth \<Rightarrow> bool" where
  "admins_unrestricted w \<longleftrightarrow> (\<forall>u \<in> set (au_users w). us_role u = R_ADMIN \<longrightarrow> us_restrictions u = no_restrictions)"

definition has_admin :: "auth \<Rightarrow> workspace \<Rightarrow> bool" where
  "has_admin w k \<longleftrightarrow>
     (\<exists>m \<in> set (au_members w). wm_workspaceId m = wk_id k \<and> wm_organizationId m = wk_organizationId k \<and> wm_role m = R_ADMIN)"

definition at_home :: "auth \<Rightarrow> user \<Rightarrow> bool" where
  "at_home w u \<longleftrightarrow>
     (\<exists>k \<in> set (au_workspaces w). wk_id k = defaultWorkspaceIdFor (us_organizationId u)
        \<and> wk_organizationId k = us_organizationId u \<and> wk_isDefault k)
     \<and> (\<exists>m \<in> set (au_members w). wm_workspaceId m = defaultWorkspaceIdFor (us_organizationId u)
        \<and> wm_userId m = us_id u \<and> wm_organizationId m = us_organizationId u)"

lemma quiet_change_keeps:
  assumes "\<And>u. quiet_change u (f u)"
  shows "us_id (f u) = us_id u" "us_organizationId (f u) = us_organizationId u" "us_identityId (f u) = us_identityId u"
    "us_role (f u) = us_role u" "us_restrictions (f u) = us_restrictions u" "us_tokenVersion u \<le> us_tokenVersion (f u)"
proof -
  have *: "f u = u\<lparr>us_tokenVersion := us_tokenVersion (f u), us_isActive := us_isActive (f u)\<rparr>"
    using assms [of u] by (simp add: quiet_change_def)
  show "us_id (f u) = us_id u" by (subst *) simp
  show "us_organizationId (f u) = us_organizationId u" by (subst *) simp
  show "us_identityId (f u) = us_identityId u" by (subst *) simp
  show "us_role (f u) = us_role u" by (subst *) simp
  show "us_restrictions (f u) = us_restrictions u" by (subst *) simp
  show "us_tokenVersion u \<le> us_tokenVersion (f u)" using assms [of u] by (simp add: quiet_change_def)
qed

lemma map_id_keeps: "(\<And>x. g (f x) = g x) \<Longrightarrow> map g (map f xs) = map g xs"
  by simp

lemma user_in_Some: "user_in w o1 i = Some u \<Longrightarrow> u \<in> set (au_users w) \<and> us_id u = i \<and> us_organizationId u = o1"
  by (auto simp: user_in_def find_Some_iff)

lemma member_in_Some:
  "member_in w o1 k u = Some m \<Longrightarrow> m \<in> set (au_members w) \<and> wm_workspaceId m = k \<and> wm_userId m = u \<and> wm_organizationId m = o1"
  by (auto simp: member_in_def find_Some_iff)

lemma workspace_in_Some:
  "workspace_in w o1 k = Some x \<Longrightarrow> x \<in> set (au_workspaces w) \<and> wk_id x = k \<and> wk_organizationId x = o1"
  by (auto simp: workspace_in_def find_Some_iff)

lemma distinct_key: "distinct (map f xs) \<Longrightarrow> x \<in> set xs \<Longrightarrow> y \<in> set xs \<Longrightarrow> f x = f y \<Longrightarrow> x = y"
  by (simp add: distinct_map inj_on_def)

lemma member_in_None: "member_in w o1 k u = None \<longleftrightarrow> \<not> (\<exists>m \<in> set (au_members w). wm_workspaceId m = k \<and> wm_userId m = u \<and> wm_organizationId m = o1)"
  by (auto simp: member_in_def find_None_iff)

text \<open>A member row belongs to the organization of its workspace.\<close>

definition members_inside :: "auth \<Rightarrow> bool" where
  "members_inside w \<longleftrightarrow>
     (\<forall>m \<in> set (au_members w). \<exists>k \<in> set (au_workspaces w). wk_id k = wm_workspaceId m \<and> wk_organizationId k = wm_organizationId m)"

lemma people_ok_step:
  assumes "people_step w w'" "people_ok w" "members_inside w"
  shows "people_ok w' \<and> members_inside w'"
  using assms(1)
proof cases
  case Unchanged
  with assms show ?thesis by (simp add: people_ok_def members_inside_def same_people_def)
next
  case (Signed_Out f)
  with assms show ?thesis by (simp add: people_ok_def members_inside_def quiet_change_keeps [of f] comp_def)
next
  case (Edited organization i u g)
  then have "map us_id (au_users w') = map us_id (au_users w)" by simp
  with Edited assms show ?thesis by (simp add: people_ok_def members_inside_def del: map_map)
next
  case (Joined u)
  then obtain y where y: "y \<in> set (au_workspaces w')" "wk_id y = defaultWorkspaceIdFor (us_organizationId u)"
    "wk_organizationId y = us_organizationId u" using workspace_in_Some by blast
  with Joined assms show ?thesis
    by (auto simp: people_ok_def members_inside_def workspaceMemberData_def)
next
  case (Opened k u)
  have "(wk_id k, u) \<notin> (\<lambda>m. (wm_workspaceId m, wm_userId m)) ` set (au_members w)"
    using assms(3) Opened(1) by (force simp: members_inside_def)
  with Opened assms show ?thesis by (auto simp: people_ok_def members_inside_def)
next
  case (Member_Added organization k u r)
  then obtain y where y: "y \<in> set (au_workspaces w)" "wk_id y = k" "wk_organizationId y = organization"
    using workspace_in_Some by blast
  have "(k, u) \<notin> (\<lambda>m. (wm_workspaceId m, wm_userId m)) ` set (au_members w)"
  proof
    assume "(k, u) \<in> (\<lambda>m. (wm_workspaceId m, wm_userId m)) ` set (au_members w)"
    then obtain m where m: "m \<in> set (au_members w)" "wm_workspaceId m = k" "wm_userId m = u" by auto
    with assms(3) obtain x where x: "x \<in> set (au_workspaces w)" "wk_id x = k" "wk_organizationId x = wm_organizationId m"
      by (auto simp: members_inside_def)
    have "x = y" using assms(2) x y by (auto simp: people_ok_def intro: distinct_key)
    with x y m Member_Added(1) show False by (auto simp: member_in_None)
  qed
  with Member_Added y assms show ?thesis by (auto simp: people_ok_def members_inside_def)
next
  case (Role_Changed organization k u m r)
  then have "map (\<lambda>m. (wm_workspaceId m, wm_userId m)) (au_members w') = map (\<lambda>m. (wm_workspaceId m, wm_userId m)) (au_members w)"
    by simp
  with Role_Changed assms show ?thesis by (auto simp: people_ok_def members_inside_def simp del: map_map)
next
  case (Member_Removed organization k u m x)
  with assms show ?thesis by (auto simp: people_ok_def members_inside_def distinct_map_filter)
qed

lemma admins_unrestricted_step:
  assumes "people_step w w'" "people_ok w" "admins_unrestricted w"
  shows "admins_unrestricted w'"
  using assms(1)
proof cases
  case (Signed_Out f)
  with assms(3) show ?thesis by (auto simp: admins_unrestricted_def quiet_change_keeps [of f])
next
  case (Edited organization i u g)
  have "x = u" if "x \<in> set (au_users w)" "us_id x = i" for x
    using assms(2) that user_in_Some [OF Edited(1)] by (auto simp: people_ok_def intro: distinct_key)
  then have "us_role (g x) \<noteq> R_ADMIN" if "x \<in> set (au_users w)" "us_id x = i" for x
    using that Edited(2,4) by metis
  with Edited(3) assms(3) show ?thesis by (auto simp: admins_unrestricted_def)
qed (use assms(3) in \<open>auto simp: admins_unrestricted_def same_people_def\<close>)

definition settled :: "auth \<Rightarrow> bool" where
  "settled w \<longleftrightarrow>
     (\<forall>u \<in> set (au_users w). at_home w u)
     \<and> (\<forall>k \<in> set (au_workspaces w). wk_id k = defaultWorkspaceIdFor (wk_organizationId k) \<longrightarrow> wk_isDefault k)"

lemma at_home_mono:
  assumes "at_home w u" "set (au_workspaces w) \<subseteq> set (au_workspaces w')" "set (au_members w) \<subseteq> set (au_members w')"
  shows "at_home w' u"
  using assms by (auto simp: at_home_def)

lemma at_home_keys:
  "at_home w u \<longleftrightarrow>
     (\<exists>k \<in> set (au_workspaces w). wk_id k = defaultWorkspaceIdFor (us_organizationId u)
        \<and> wk_organizationId k = us_organizationId u \<and> wk_isDefault k)
     \<and> (defaultWorkspaceIdFor (us_organizationId u), us_id u, us_organizationId u)
         \<in> (\<lambda>m. (wm_workspaceId m, wm_userId m, wm_organizationId m)) ` set (au_members w)"
  by (auto simp: at_home_def image_iff) metis+

lemma settled_step:
  assumes "people_step w w'" "people_ok w" "settled w"
  shows "settled w'"
  using assms(1)
proof cases
  case Unchanged
  with assms(3) show ?thesis by (simp add: same_people_def settled_def at_home_def)
next
  case (Signed_Out f)
  with assms(3) show ?thesis by (auto simp: settled_def at_home_def quiet_change_keeps [of f])
next
  case (Edited organization i u g)
  with assms(3) show ?thesis by (auto simp: settled_def at_home_def)
next
  case (Joined u)
  then obtain y where y: "y \<in> set (au_workspaces w')" "wk_id y = defaultWorkspaceIdFor (us_organizationId u)"
    "wk_organizationId y = us_organizationId u" using workspace_in_Some by blast
  have old: "at_home w' x" if "x \<in> set (au_users w)" for x
    using assms(3) that Joined by (intro at_home_mono [of w x w']) (auto simp: settled_def)
  have flags: "\<forall>k \<in> set (au_workspaces w'). wk_id k = defaultWorkspaceIdFor (wk_organizationId k) \<longrightarrow> wk_isDefault k"
    using assms(3) Joined by (auto simp: settled_def)
  with y have "at_home w' u" using Joined by (auto simp: at_home_def workspaceMemberData_def)
  with old flags Joined show ?thesis by (auto simp: settled_def)
next
  case (Opened k u)
  have "at_home w' x" if "x \<in> set (au_users w)" for x
    using assms(3) that Opened by (intro at_home_mono [of w x w']) (auto simp: settled_def)
  with assms(3) Opened show ?thesis by (auto simp: settled_def)
next
  case (Member_Added organization k u r)
  have "at_home w' x" if "x \<in> set (au_users w)" for x
    using assms(3) that Member_Added by (intro at_home_mono [of w x w']) (auto simp: settled_def)
  with assms(3) Member_Added show ?thesis by (auto simp: settled_def)
next
  case (Role_Changed organization k u m r)
  let ?key = "\<lambda>m. (wm_workspaceId m, wm_userId m, wm_organizationId m)"
  have "map ?key (au_members w') = map ?key (au_members w)" using Role_Changed(5) by simp
  from arg_cong [OF this, of set]
  have "?key ` set (au_members w') = ?key ` set (au_members w)" by (simp only: set_map)
  then have "at_home w' y = at_home w y" for y by (simp only: at_home_keys Role_Changed(4))
  with assms(3) show ?thesis by (simp add: settled_def Role_Changed(3,4))
next
  case (Member_Removed organization k u m x)
  have "k \<noteq> defaultWorkspaceIdFor organization"
    using assms(3) workspace_in_Some [OF Member_Removed(3)] Member_Removed(4) by (auto simp: settled_def)
  then have kept: "n \<in> set (au_members w')"
    if "n \<in> set (au_members w)" "wm_workspaceId n = defaultWorkspaceIdFor (wm_organizationId n)" for n
    using that by (auto simp: Member_Removed(7))
  have "at_home w' y" if "y \<in> set (au_users w)" for y
  proof -
    from assms(3) that have "at_home w y" by (simp add: settled_def)
    then obtain n where "n \<in> set (au_members w)" "wm_workspaceId n = defaultWorkspaceIdFor (us_organizationId y)"
      "wm_userId n = us_id y" "wm_organizationId n = us_organizationId y" by (auto simp: at_home_def)
    with kept [of n] \<open>at_home w y\<close> show ?thesis unfolding at_home_def by (auto simp: Member_Removed(6))
  qed
  with assms(3) Member_Removed show ?thesis by (auto simp: settled_def)
qed

lemma two_admins:
  assumes "length (filter P xs) > 1" "distinct (map f xs)" "m \<in> set xs"
  shows "\<exists>x \<in> set xs. P x \<and> f x \<noteq> f m"
proof (rule ccontr)
  assume "\<not> ?thesis"
  then have "set (filter P xs) \<subseteq> {m}" using assms(2,3) by (auto intro: distinct_key)
  moreover have "distinct (filter P xs)" using assms(2) by (simp add: distinct_map)
  moreover from calculation(1) have "card (set (filter P xs)) \<le> card {m}" by (rule card_mono [rotated]) simp
  ultimately show False using assms(1) by (simp only: distinct_card) simp
qed

lemma has_admin_step:
  assumes "people_step w w'" "people_ok w" "members_inside w" "\<forall>k \<in> set (au_workspaces w). has_admin w k"
  shows "\<forall>k \<in> set (au_workspaces w'). has_admin w' k"
  using assms(1)
proof cases
  case (Joined u)
  with assms(4) show ?thesis by (auto simp: has_admin_def workspaceMemberData_def)
next
  case (Role_Changed organization k u m r)
  show ?thesis
  proof
    fix y assume "y \<in> set (au_workspaces w')"
    then have y: "y \<in> set (au_workspaces w)" using Role_Changed by simp
    with assms(4) obtain a where a: "a \<in> set (au_members w)" "wm_workspaceId a = wk_id y" "wm_organizationId a = wk_organizationId y"
      "wm_role a = R_ADMIN" by (auto simp: has_admin_def)
    have m: "m \<in> set (au_members w)" "wm_workspaceId m = k" "wm_userId m = u" "wm_organizationId m = organization"
      using member_in_Some [OF Role_Changed(1)] by auto
    obtain b where b: "b \<in> set (au_members w)" "wm_workspaceId b = wk_id y" "wm_organizationId b = wk_organizationId y"
      "wm_role b = R_ADMIN" "b \<noteq> m \<or> r = R_ADMIN"
    proof (cases "a = m \<and> r \<noteq> R_ADMIN")
      case True
      then have "length (filter (\<lambda>m. wm_workspaceId m = k \<and> wm_organizationId m = organization \<and> wm_role m = R_ADMIN) (au_members w)) > 1"
        using Role_Changed(2) a by (simp add: workspace_admins_def)
      from two_admins [OF this _ m(1), of "\<lambda>m. (wm_workspaceId m, wm_userId m)"] assms(2) obtain b where
        "b \<in> set (au_members w)" "wm_workspaceId b = k" "wm_organizationId b = organization" "wm_role b = R_ADMIN" "b \<noteq> m"
        by (auto simp: people_ok_def)
      with that True a m show ?thesis by auto
    next
      case False
      with that a show ?thesis by auto
    qed
    let ?f = "\<lambda>x. if wm_workspaceId x = k \<and> wm_userId x = u \<and> wm_organizationId x = organization then x\<lparr>wm_role := r\<rparr> else x"
    have "wm_role (?f b) = R_ADMIN"
      using b m assms(2) by (auto simp: people_ok_def dest: distinct_key [of _ _ b m])
    moreover have "?f b \<in> set (au_members w')" using b(1) Role_Changed by auto
    ultimately show "has_admin w' y" using b unfolding has_admin_def by (intro bexI [of _ "?f b"]) auto
  qed
next
  case (Member_Removed organization k u m x)
  show ?thesis
  proof
    fix y assume "y \<in> set (au_workspaces w')"
    then have y: "y \<in> set (au_workspaces w)" using Member_Removed by simp
    with assms(4) obtain a where a: "a \<in> set (au_members w)" "wm_workspaceId a = wk_id y" "wm_organizationId a = wk_organizationId y"
      "wm_role a = R_ADMIN" by (auto simp: has_admin_def)
    have m: "m \<in> set (au_members w)" "wm_workspaceId m = k" "wm_userId m = u" "wm_organizationId m = organization"
      using member_in_Some [OF Member_Removed(1)] by auto
    obtain b where b: "b \<in> set (au_members w)" "wm_workspaceId b = wk_id y" "wm_organizationId b = wk_organizationId y"
      "wm_role b = R_ADMIN" "b \<noteq> m"
    proof (cases "a = m")
      case True
      then have "length (filter (\<lambda>m. wm_workspaceId m = k \<and> wm_organizationId m = organization \<and> wm_role m = R_ADMIN) (au_members w)) > 1"
        using Member_Removed(2) a by (simp add: workspace_admins_def)
      from two_admins [OF this _ m(1), of "\<lambda>m. (wm_workspaceId m, wm_userId m)"] assms(2) obtain b where
        "b \<in> set (au_members w)" "wm_workspaceId b = k" "wm_organizationId b = organization" "wm_role b = R_ADMIN" "b \<noteq> m"
        by (auto simp: people_ok_def)
      with that True a m show ?thesis by auto
    next
      case False
      with that a show ?thesis by auto
    qed
    have "\<not> (wm_workspaceId b = k \<and> wm_userId b = u \<and> wm_organizationId b = organization)"
      using b m assms(2) by (auto simp: people_ok_def dest: distinct_key [of _ _ b m])
    with b Member_Removed show "has_admin w' y" by (auto simp: has_admin_def)
  qed
qed (use assms(4) in \<open>auto simp: has_admin_def same_people_def\<close>)

definition orderly :: "auth \<Rightarrow> bool" where
  "orderly w \<longleftrightarrow> people_ok w \<and> members_inside w"

lemma auth_step_people: "snd (auth_step env e s) = snd s \<or> people_step (snd s) (snd (auth_step env e s))"
  using handle_people [of e "snd s" env] by (auto simp: auth_step_def split: prod.split)

lemma orderly_step: "people_step w w' \<Longrightarrow> orderly w \<Longrightarrow> orderly w'"
  using people_ok_step by (auto simp: orderly_def)

text \<open>An invariant of the changes to people is an invariant of the histories.\<close>

lemma kept_along:
  assumes "\<And>w w'. people_step w w' \<Longrightarrow> orderly w \<Longrightarrow> P w \<Longrightarrow> P w'"
  shows "safe_system (auth_step env) (\<lambda>s. orderly (snd s) \<and> P (snd s))"
proof
  fix s :: auth_state and e assume "orderly (snd s) \<and> P (snd s)"
  then show "orderly (snd (auth_step env e s)) \<and> P (snd (auth_step env e s))"
    using auth_step_people [of env e s] assms orderly_step by auto
qed

interpretation restrained: safe_system "auth_step env" "\<lambda>s. orderly (snd s) \<and> admins_unrestricted (snd s)" for env
  by (rule kept_along) (auto simp: orderly_def intro: admins_unrestricted_step)

interpretation homes: safe_system "auth_step env" "\<lambda>s. orderly (snd s) \<and> settled (snd s)" for env
  by (rule kept_along) (auto simp: orderly_def intro: settled_step)

interpretation staffed: safe_system "auth_step env"
    "\<lambda>s. orderly (snd s) \<and> (\<forall>k \<in> set (au_workspaces (snd s)). has_admin (snd s) k)" for env
  by (rule kept_along) (use has_admin_step in \<open>auto simp: orderly_def\<close>)

section \<open>Versions of tokens\<close>

lemma find_map: "find P (map f xs) = map_option f (find (P \<circ> f) xs)"
  by (induction xs) auto

lemma user_in_step:
  assumes "people_step w w'" "user_in w o1 j = Some u"
  shows "\<exists>u'. user_in w' o1 j = Some u' \<and> us_tokenVersion u \<le> us_tokenVersion u' \<and> us_identityId u' = us_identityId u"
  using assms(1)
proof cases
  case Unchanged
  with assms(2) show ?thesis by (simp add: user_in_def same_people_def)
next
  case (Signed_Out f)
  with assms(2) show ?thesis by (simp add: user_in_def find_map quiet_change_keeps [of f] comp_def)
next
  case (Edited organization i x g)
  let ?f = "\<lambda>y. if us_id y = i \<and> us_organizationId y = organization then g y else y"
  have keep: "us_id (?f y) = us_id y" "us_organizationId (?f y) = us_organizationId y" for y using Edited(4) by auto
  have "user_in w' o1 j = Some (?f u)"
    using assms(2) by (simp only: user_in_def Edited(3) find_map comp_def keep) simp
  then show ?thesis using Edited(4) by auto
next
  case (Joined x)
  with assms(2) show ?thesis by (simp add: user_in_def find_append)
qed (use assms(2) in \<open>simp_all add: user_in_def\<close>)

lemma user_in_self: "people_ok w \<Longrightarrow> u \<in> set (au_users w) \<Longrightarrow> user_in w (us_organizationId u) (us_id u) = Some u"
proof -
  assume ok: "people_ok w" and u: "u \<in> set (au_users w)"
  then obtain x where x: "user_in w (us_organizationId u) (us_id u) = Some x"
    by (cases "user_in w (us_organizationId u) (us_id u)") (auto simp: user_in_def find_None_iff)
  with user_in_Some [OF x] ok u have "x = u" by (auto simp: people_ok_def intro: distinct_key)
  with x show ?thesis by simp
qed

definition version_level :: "auth_state \<Rightarrow> jstr \<times> jstr \<Rightarrow> int option" where
  "version_level s = (\<lambda>(o1, i). map_option us_tokenVersion (user_in (snd s) o1 i))"

lemma version_level_step: "version_level s \<le> version_level (auth_step env e s)"
proof (rule le_funI)
  fix x :: "jstr \<times> jstr"
  obtain o1 i where x: "x = (o1, i)" by (cases x) auto
  show "version_level s x \<le> version_level (auth_step env e s) x"
  proof (cases "user_in (snd s) o1 i")
    case None
    then show ?thesis by (simp add: version_level_def x)
  next
    case (Some u)
    with auth_step_people [of env e s] user_in_step [of "snd s" "snd (auth_step env e s)" o1 i u]
    show ?thesis by (auto simp: version_level_def x)
  qed
qed

interpretation versions: monotone_system "auth_step env" "\<lambda>_. True" version_level for env
  by unfold_locales (auto intro: version_level_step)

text \<open>A token of an organization names a user there is, and no version ahead of the user's.\<close>

definition sound_claims :: "auth \<Rightarrow> claims \<Rightarrow> bool" where
  "sound_claims w c \<longleftrightarrow>
     cl_scope c = Some (lit ''PLATFORM'') \<or> cl_organizationId c = None
     \<or> (\<exists>o1 i v u. cl_organizationId c = Some o1 \<and> cl_id c = Some i \<and> cl_tokenVersion c = Some v
          \<and> user_in w o1 i = Some u \<and> v \<le> us_tokenVersion u)"

definition sound_tokens :: "auth_state \<Rightarrow> bool" where
  "sound_tokens s \<longleftrightarrow> orderly (snd s) \<and> (\<forall>c \<in> set (fst s). sound_claims (snd s) c)"

lemma sound_claims_step: "people_step w w' \<Longrightarrow> sound_claims w c \<Longrightarrow> sound_claims w' c"
  unfolding sound_claims_def by (meson user_in_step order_trans)

lemma sound_resigned:
  "sound_claims w c \<Longrightarrow> sound_claims w (c\<lparr>cl_workspaceId := k, cl_exp := t\<rparr>)"
  by (auto simp: sound_claims_def)

lemma sound_same_people: "same_people w w' \<Longrightarrow> sound_claims w' c = sound_claims w c"
  by (simp add: sound_claims_def same_people_reads)

lemma sound_tenant_claims: "people_ok w \<Longrightarrow> u \<in> set (au_users w) \<Longrightarrow> sound_claims w (tenant_claims env sid u w')"
  by (simp add: sound_claims_def tenant_claims_def no_claims_def user_in_self)

lemma sound_other_claims:
  "sound_claims w (platform_claims env i w')" "sound_claims w (challenge_claims cid j w')" "sound_claims w (setup_claims env j sec w')"
  by (simp_all add: sound_claims_def platform_claims_def challenge_claims_def setup_claims_def no_claims_def)

lemma sound_complete:
  assumes "people_ok w" "completeIdentityLogin env sid i w = (a, w')" "c \<in> set (login_signed a)"
  shows "sound_claims w c"
  using assms by (auto simp: completeIdentityLogin_def login_signed_def sound_other_claims find_Some_iff
      intro!: sound_tenant_claims split: if_splits option.splits)

lemma sound_login:
  assumes "people_ok w" "login env d email q w = (a, w')" "c \<in> set (login_signed a)"
  shows "sound_claims w c"
  using assms sound_complete [OF assms(1)]
  by (auto simp: login_def createLoginChallenge_def login_signed_def Let_def sound_other_claims split: if_splits option.splits)

lemma sound_second_factor:
  assumes "people_ok w" "two_factor_login env sid t code w = (a, w')" "c \<in> set (login_signed a)"
  shows "sound_claims w c"
proof (cases "consumeLoginSecondFactor env t code w")
  case (Pair r w1)
  then have same: "same_people w w1" by (rule same_second_factor)
  then have ok: "people_ok w1" using assms(1) by (simp add: people_ok_def same_people_def)
  show ?thesis
  proof (cases r)
    case (Inl x)
    with Pair assms(2,3) show ?thesis
      by (auto simp: two_factor_login_def login_signed_def split: if_splits factor_answer.splits)
  next
    case (Inr i)
    with Pair assms(2,3) sound_complete [OF ok, of env sid i a w' c] show ?thesis
      by (auto simp: two_factor_login_def login_signed_def sound_same_people [OF same] split: if_splits)
  qed
qed

text \<open>The clock does not move while a request is handled.\<close>

lemma now_verifyToken: "au_now (snd (verifyToken env h m v w)) = au_now w"
proof -
  have "au_platform (snd (touch_session s w)) = au_platform w" for s
    by (simp add: touch_session_def Let_def frame_simps split: option.split)
  then have "au_platform (snd (verifyClaims c m v w)) = au_platform w" for c
    using verifyClaims_state [of c m v w] by metis
  then show ?thesis by (simp add: verifyToken_def split: option.split)
qed

lemma sound_act:
  assumes "c \<in> set (fst (act env p h a w))"
    "\<And>t c0. map_option (drop 7) h = Some t \<Longrightarrow> ae_verify env (au_now w) t = Some c0 \<Longrightarrow> sound_claims w c0"
  shows "sound_claims w c"
proof -
  have re: "sound_claims w x" if "resigned env h k w = Some x" for x k
    using that assms(2) by (auto simp: resigned_def sound_resigned split: option.splits if_splits)
  show ?thesis
    using assms(1)
    by (cases a)
       (auto simp: signed_of_def setup_two_factor_def activate_workspace_def sound_other_claims remove_member_def Let_def
          dest: re split: sum.splits option.splits if_splits prod.splits)
qed

lemma sound_handle:
  assumes "people_ok w" "drawn_by_cuid e" "c \<in> set (fst (handle env e w))"
    "\<And>t c0. Some t \<in> set (texts_of e) \<Longrightarrow> ae_verify env (au_now w) t = Some c0 \<Longrightarrow> sound_claims w c0"
  shows "sound_claims w c"
proof (cases e)
  case (Request h v a)
  then obtain p w' where p: "verifyToken env h (method_of a) v w = (Inr p, w')" "c \<in> set (fst (act env p h a w'))"
    using assms(3) by (auto simp: handle_def split: prod.splits sum.splits)
  have same: "same_people w w'" "au_now w' = au_now w"
    using same_verifyToken [of w env h "method_of a" v] now_verifyToken [of env h "method_of a" v w] p(1) by simp_all
  have "sound_claims w' c0"
    if "map_option (drop 7) h = Some t" "ae_verify env (au_now w') t = Some c0" for t c0
  proof -
    have "Some t \<in> set (texts_of e)" using that(1) [symmetric] by (simp add: texts_of_def Request)
    from assms(4) [OF this] that(2) show ?thesis by (simp add: same(2) sound_same_people [OF same(1)])
  qed
  with p(2) have "sound_claims w' c" by (rule sound_act)
  with same show ?thesis by (simp add: sound_same_people)
next
  case (Log_In d email q)
  with assms show ?thesis by (auto simp: handle_def split: prod.splits intro: sound_login)
next
  case (Second_Factor sid t code)
  with assms show ?thesis by (auto simp: handle_def split: prod.splits intro: sound_second_factor)
qed (use assms(3) in \<open>auto simp: handle_def split: option.splits sum.splits\<close>)

lemma sound_tokens_step: "sound_tokens s \<Longrightarrow> sound_tokens (auth_step env e s)"
proof -
  assume s: "sound_tokens s"
  show ?thesis
  proof (cases "list_all (genuine env s) (texts_of e) \<and> drawn_by_cuid e")
    case True
    have step: "people_step (snd s) (snd (handle env e (snd s)))" using True handle_people by blast
    have ok: "people_ok (snd s)" using s by (simp add: sound_tokens_def orderly_def)
    have "sound_claims (snd s) c0" if "Some t \<in> set (texts_of e)" "ae_verify env (au_now (snd s)) t = Some c0" for t c0
    proof -
      have "genuine env s (Some t)" using True that(1) by (simp add: list_all_iff)
      with that(2) s show ?thesis by (simp add: genuine_def sound_tokens_def)
    qed
    then have "sound_claims (snd s) c" if "c \<in> set (fst (handle env e (snd s)))" for c
      using sound_handle [OF ok _ that] True by blast
    moreover have "orderly (snd (handle env e (snd s)))" using orderly_step [OF step] s by (simp add: sound_tokens_def)
    ultimately show ?thesis
      using True s sound_claims_step [OF step] by (auto simp: auth_step_def sound_tokens_def split: prod.split)
  next
    case False
    with s show ?thesis by (simp add: auth_step_def del: de_Morgan_conj)
  qed
qed

interpretation tokens: safe_system "auth_step env" sound_tokens for env
  by unfold_locales (rule sound_tokens_step)

end
