(* ===== verification/Sign_In_Props.thy ===== *)
theory Sign_In_Props
  imports Auth_Props
begin

text \<open>
  Properties of signing in and of what a signed-in person may change, over the histories of \<open>Auth\<close>. The
  witnesses run on one organization with an administrator and an agent; texts of tokens are looked up in a
  table.
\<close>

section \<open>A small world\<close>

definition table_env :: "(jstr \<times> claims) list \<Rightarrow> auth_env" where
  "table_env tokens =
     \<lparr>ae_compare = (\<lambda>q h. h = 104 # q), ae_hash = (\<lambda>q. 104 # q),
      ae_checkDelta = (\<lambda>now code secret. if code = lit ''123456'' then Some 0 else None),
      ae_recoveryHash = (\<lambda>c. c), ae_encrypt = (\<lambda>t. t), ae_decrypt = Some, ae_digest = (\<lambda>t. t),
      ae_verify = (\<lambda>now t. case map_of tokens t of None \<Rightarrow> None | Some c \<Rightarrow> if now < cl_exp c then Some c else None),
      ae_sign = (\<lambda>c. case find (\<lambda>(_, x). x = c) tokens of None \<Rightarrow> [] | Some (t, _) \<Rightarrow> t),
      ae_life = 604800000\<rparr>"

definition small_identity :: "string \<Rightarrow> string \<Rightarrow> string \<Rightarrow> identity" where
  "small_identity i email q = new_identity (lit i) (lit email) (104 # lit q)"

definition small_auth :: auth where
  "small_auth =
     \<lparr>au_platform = sample_platform,
      au_identities = [small_identity ''i1'' ''ada@mark.ps'' ''password-one'', small_identity ''i2'' ''sam@mark.ps'' ''password-two''],
      au_users = [new_user (lit ''u1'') (lit ''o1'') (lit ''i1'') (lit ''Ada'') R_ADMIN None [] None,
                  new_user (lit ''u2'') (lit ''o1'') (lit ''i2'') (lit ''Sam'') R_AGENT None [] None],
      au_sessions = [],
      au_workspaces = [\<lparr>wk_id = lit ''ws_o1'', wk_organizationId = lit ''o1'', wk_name = lit ''Mark'', wk_isDefault = True\<rparr>],
      au_members = [workspaceMemberData (lit ''o1'') (lit ''u1'') R_ADMIN, workspaceMemberData (lit ''o1'') (lit ''u2'') R_AGENT],
      au_invitations = [], au_challenges = [], au_recovery = [], au_teams = [], au_threads = [], au_timeouts = (\<lambda>_. None)\<rparr>"

definition small_principal :: principal where
  "small_principal = tenant_principal (new_user (lit ''u1'') (lit ''o1'') (lit ''i1'') (lit ''Ada'') R_ADMIN None [] None) None"

lemmas small_simps = small_auth_def small_identity_def new_identity_def new_user_def workspaceMemberData_def
  defaultWorkspaceIdFor_def small_principal_def tenant_principal_def table_env_def

lemma small_orderly: "orderly small_auth"
  by (simp add: orderly_def people_ok_def members_inside_def small_simps lit_def)

lemma small_settled: "settled small_auth"
  by (simp add: settled_def at_home_def small_simps lit_def)

lemma small_unrestricted: "admins_unrestricted small_auth"
  by (simp add: admins_unrestricted_def small_simps)

lemma small_has_admin: "\<forall>k \<in> set (au_workspaces small_auth). has_admin small_auth k"
  by (simp add: has_admin_def small_simps lit_def)

section \<open>Signed out everywhere\<close>

lemma refused_version:
  assumes "cl_scope c \<noteq> Some (lit ''PLATFORM'')" "cl_organizationId c = Some o1" "cl_id c = Some i"
    "user_in w o1 i = Some u" "cl_tokenVersion c = Some v" "v \<noteq> us_tokenVersion u"
  shows "\<exists>e. fst (verifyClaims c m viewAs w) = Inl e"
proof -
  have "\<exists>e. claimed_user c o1 w = Inl e" using assms by (simp add: claimed_user_def)
  then show ?thesis using assms by (auto simp: verifyClaims_def Let_def split: sum.split)
qed

lemma change_password_bumps:
  assumes "change_password env p cur new w = (Inr (), w')" "own_identity w p = Some i"
    "user_in w o1 j = Some u" "us_identityId u = idt_id i"
  shows "user_in w' o1 j = Some (u\<lparr>us_tokenVersion := us_tokenVersion u + 1\<rparr>)"
proof -
  let ?f = "\<lambda>u. if us_identityId u = idt_id i then u\<lparr>us_tokenVersion := us_tokenVersion u + 1\<rparr> else u"
  have "au_users w' = map ?f (au_users w)"
    using assms(1,2) by (auto simp: change_password_def users_bumped frame_simps split: if_splits)
  moreover have keep: "us_id (?f x) = us_id x" "us_organizationId (?f x) = us_organizationId x" for x by auto
  ultimately have "user_in w' o1 j = map_option ?f (user_in w o1 j)"
    by (simp only: user_in_def find_map comp_def keep)
  with assms(3,4) show ?thesis by simp
qed


definition agent_claims :: claims where
  "agent_claims =
     no_claims\<lparr>cl_scope := Some (lit ''ORGANIZATION''), cl_id := Some (lit ''u2''), cl_organizationId := Some (lit ''o1''),
       cl_workspaceId := Some (lit ''ws_o1''), cl_tokenVersion := Some 0, cl_sessionId := Some (lit ''s1''), cl_exp := 604802000\<rparr>"

definition agent_env :: auth_env where
  "agent_env = table_env [(lit ''token'', agent_claims)]"

definition agent_principal :: principal where
  "agent_principal = tenant_principal (new_user (lit ''u2'') (lit ''o1'') (lit ''i2'') (lit ''Sam'') R_AGENT None [] None) None"

lemmas agent_simps = agent_claims_def agent_env_def agent_principal_def no_claims_def user_in_def identity_by_id_def
  identity_by_email_def small_simps

definition agent_signs_in :: auth_event where
  "agent_signs_in = Log_In (lit ''c'', lit ''s1'') (lit '' Sam@mark.ps'') (lit ''password-two'')"

lemma agent_signed_in:
  "login agent_env (lit ''c'', lit ''s1'') (lit '' Sam@mark.ps'') (lit ''password-two'') small_auth =
     (Logged_In agent_claims, small_auth\<lparr>au_sessions :=
        [\<lparr>as_id = lit ''s1'', as_organizationId = lit ''o1'', as_userId = lit ''u2'', as_lastSeenAt = 2000, as_revokedAt = None\<rparr>]\<rparr>)"
  by (simp add: login_def completeIdentityLogin_def tenant_claims_def agent_simps truthy_ref_def sample_platform_def
      lit_def js_trim_def is_ws_def js_lower_def lower_unit_def)

definition signed_in_auth :: auth where
  "signed_in_auth = small_auth\<lparr>au_sessions :=
     [\<lparr>as_id = lit ''s1'', as_organizationId = lit ''o1'', as_userId = lit ''u2'', as_lastSeenAt = 2000, as_revokedAt = None\<rparr>]\<rparr>"

lemma agent_history: "fold (auth_step agent_env) [agent_signs_in] ([], small_auth) = ([agent_claims], signed_in_auth)"
  by (simp add: auth_step_def agent_signs_in_def texts_of_def drawn_by_cuid_def handle_def agent_signed_in login_signed_def
      signed_in_auth_def)

lemma small_sound: "sound_tokens ([], small_auth)"
  by (simp add: sound_tokens_def small_orderly)


section \<open>What a token of the platform opens\<close>

text \<open>C23: A member of staff who was switched off goes on reading every subscriber until the token runs out, whatever
  permissions are left. The console refuses the account on its next request, but the other door, the header that
  names a subscriber, believes the role in the token: it lets the request in as an administrator.\<close>
theorem disabled_staff_keep_reading:
  assumes "idt_platformRole i \<noteq> P_NONE" and "idt_id i \<noteq> []"
    and "identity_by_id w (idt_id i) = Some x" and "idt_platformDisabledAt x \<noteq> None" and "idt_platformRole x \<noteq> P_NONE"
    and "bearer header = Some t" and "ae_verify env (au_now w) t = Some (platform_claims env i w0)"
    and "pf_orgs (au_platform w) target = Some og" and "og_status og \<noteq> ORG_SUSPENDED" and "js_trim target = target" and "target \<noteq> []"
  shows "verifyPlatformToken env header w = Inl Staff_Disabled
    \<and> (\<exists>p. verifyToken env header (lit ''GET'') (Some target) w = (Inr p, w) \<and> pr_role p = R_ADMIN \<and> pr_organizationId p = target)"
proof -
  have claims: "cl_scope (platform_claims env i w0) = Some (lit ''PLATFORM'')" "cl_id (platform_claims env i w0) = Some (idt_id i)"
    "cl_platformRole (platform_claims env i w0) = Some (platform_role_name (idt_platformRole i))"
    by (simp_all add: platform_claims_def)
  have "is_staff_role (Some (platform_role_name (idt_platformRole i)))"
    using assms(1) by (cases "idt_platformRole i") (simp_all add: is_staff_role_def platform_role_name_def)
  with assms claims show ?thesis
    by (auto simp: verifyPlatformToken_def verifyToken_def verifyClaims_def handlePlatformViewingTenant_def truthy_ref_def Let_def)
qed

definition support_identity :: identity where
  "support_identity = (small_identity ''i3'' ''help@rabi.tech'' ''a-long-password'')\<lparr>idt_platformRole := P_SUPPORT\<rparr>"

definition support_env :: auth_env where
  "support_env = table_env [(lit ''staff'', platform_claims (table_env []) support_identity small_auth)]"

definition dismissed_auth :: auth where
  "dismissed_auth = small_auth\<lparr>au_identities := [support_identity\<lparr>idt_platformDisabledAt := Some 2000\<rparr>]\<rparr>"

theorem disabled_staff_keep_reading_witness:
  "verifyPlatformToken support_env (Some (lit ''Bearer staff'')) dismissed_auth = Inl Staff_Disabled
    \<and> (\<exists>p. verifyToken support_env (Some (lit ''Bearer staff'')) (lit ''GET'') (Some (lit ''o1'')) dismissed_auth = (Inr p, dismissed_auth)
         \<and> pr_role p = R_ADMIN \<and> pr_organizationId p = lit ''o1'')"
proof -
  have e: "platform_claims support_env support_identity small_auth = platform_claims (table_env []) support_identity small_auth"
    by (simp add: platform_claims_def support_env_def table_env_def)
  show ?thesis
    by (rule disabled_staff_keep_reading [where i = support_identity and ?w0.0 = small_auth and t = "lit ''staff''" and og = sample_org
          and x = "support_identity\<lparr>idt_platformDisabledAt := Some 2000\<rparr>"])
       (simp_all add: e, simp_all add: support_env_def dismissed_auth_def support_identity_def small_simps identity_by_id_def sample_platform_def
          platform_claims_def bearer_def starts_with_def sample_org_def lit_def js_trim_def is_ws_def)
qed

section \<open>Who administers\<close>


definition ada_claims :: claims where
  "ada_claims =
     no_claims\<lparr>cl_scope := Some (lit ''ORGANIZATION''), cl_id := Some (lit ''u1''), cl_organizationId := Some (lit ''o1''),
       cl_workspaceId := Some (lit ''ws_o1''), cl_tokenVersion := Some 0, cl_exp := 604802000\<rparr>"

definition ada_env :: auth_env where
  "ada_env = table_env [(lit ''token'', ada_claims)]"

lemma ada_verified:
  "verifyToken ada_env (Some (lit ''Bearer token'')) m None small_auth =
     (Inr (tenant_principal (new_user (lit ''u1'') (lit ''o1'') (lit ''i1'') (lit ''Ada'') R_ADMIN None [] None) (Some (lit ''ws_o1''))), small_auth)"
  by (simp add: verifyToken_def verifyClaims_def claimed_workspace_def claimed_session_def claimed_user_def touch_session_def
      ada_env_def ada_claims_def no_claims_def bearer_def starts_with_def truthy_ref_def user_in_def workspace_in_def member_in_def
      small_simps sample_platform_def lit_def Let_def)

lemma ada_genuine: "list_all (genuine ada_env ([ada_claims], small_auth)) [bearer (Some (lit ''Bearer token'')), Some (drop 7 (lit ''Bearer token''))]"
  by (simp add: genuine_def ada_env_def table_env_def bearer_def starts_with_def lit_def)

text \<open>The only administrator of the workspace steps down: refused.\<close>

definition ada_steps_down :: auth_event where
  "ada_steps_down = Request (Some (lit ''Bearer token'')) None (Change_Member_Role (lit ''ws_o1'') (lit ''u1'') (Some R_AGENT))"

lemma ada_stays: "fold (auth_step ada_env) [ada_steps_down] ([ada_claims], small_auth) = ([ada_claims], small_auth)"
proof -
  have "change_member_role (tenant_principal (new_user (lit ''u1'') (lit ''o1'') (lit ''i1'') (lit ''Ada'') R_ADMIN None [] None) (Some (lit ''ws_o1'')))
      (lit ''ws_o1'') (lit ''u1'') (Some R_AGENT) small_auth = (Inl Last_Admin, small_auth)"
    by (simp add: change_member_role_def resolveAccess_def member_in_def workspace_in_def workspace_admins_def small_simps lit_def Let_def)
  then show ?thesis using ada_genuine
    by (simp add: auth_step_def ada_steps_down_def handle_def ada_verified drawn_by_cuid_def texts_of_def)
qed


text \<open>C24: Three of the restrictions an administrator can put on a user bind nobody. On every history, for an operation that the table
  gives to administrators alone, the guard asks for the role and for nothing else: whoever has the role has no
  restriction, since none can be put on an administrator and no user who has one becomes an administrator.\<close>
theorem admin_operations_are_never_restricted:
  assumes "orderly w0" and "admins_unrestricted w0" and "s = fold (auth_step env) es (cs, w0)"
    and "u \<in> set (au_users (snd s))" and "map_of ROLE_PERMISSIONS operation = Some [R_ADMIN]"
  shows "requirePermission operation (Some (tenant_principal u k)) = (if us_role u = R_ADMIN then Proceed else No_Permission)"
proof -
  have "us_role u = R_ADMIN \<Longrightarrow> us_restrictions u = no_restrictions"
    using restrained.run_inv [of "(cs, w0)" env es] assms(1-4) by (auto simp: admins_unrestricted_def)
  moreover have "restrictionFor operation (Some no_restrictions) = None"
    by (simp add: restrictionFor_def USER_RESTRICTIONS_def no_restrictions_def)
  ultimately show ?thesis using assms(5) by (simp add: requirePermission_def tenant_principal_def)
qed

text \<open>An administrator puts the restriction on integrations on the agent.\<close>

definition ada_restricts_sam :: auth_event where
  "ada_restricts_sam =
     Request (Some (lit ''Bearer token'')) None (Update_User (lit ''u2'') (no_patch\<lparr>up_restrictIntegrations := Some True\<rparr>))"

definition restricted_sam :: user where
  "restricted_sam = (new_user (lit ''u2'') (lit ''o1'') (lit ''i2'') (lit ''Sam'') R_AGENT None [] None)
     \<lparr>us_restrictions := no_restrictions\<lparr>rs_restrictIntegrations := True\<rparr>\<rparr>"

lemma sam_restricted:
  "fold (auth_step ada_env) [ada_restricts_sam] ([ada_claims], small_auth) =
     ([ada_claims], small_auth\<lparr>au_users := [new_user (lit ''u1'') (lit ''o1'') (lit ''i1'') (lit ''Ada'') R_ADMIN None [] None, restricted_sam]\<rparr>)"
proof -
  have "update_user ada_env (tenant_principal (new_user (lit ''u1'') (lit ''o1'') (lit ''i1'') (lit ''Ada'') R_ADMIN None [] None) (Some (lit ''ws_o1'')))
      (lit ''u2'') (no_patch\<lparr>up_restrictIntegrations := Some True\<rparr>) small_auth =
      (Inr (), small_auth\<lparr>au_users := [new_user (lit ''u1'') (lit ''o1'') (lit ''i1'') (lit ''Ada'') R_ADMIN None [] None, restricted_sam]\<rparr>)"
    by (simp add: update_user_def requirePermission_def ROLE_PERMISSIONS_def restrictionFor_def USER_RESTRICTIONS_def no_restrictions_def
        edits_access_def no_patch_def user_in_def assert_masking_def patch_identity_def upd_identity_def upd_user_def patched_user_def
        patched_restrictions_def supplied_def restricted_sam_def small_simps lit_def Let_def)
  then show ?thesis using ada_genuine
    by (simp add: auth_step_def ada_restricts_sam_def handle_def ada_verified drawn_by_cuid_def texts_of_def method_of_def)
qed

theorem admin_operations_are_never_restricted_witness:
  "restricted_sam \<in> set (au_users (snd (fold (auth_step ada_env) [ada_restricts_sam] ([ada_claims], small_auth))))
    \<and> requirePermission (lit ''integration:manage'') (Some (tenant_principal restricted_sam None)) = No_Permission"
proof -
  have sam: "restricted_sam \<in> set (au_users (snd (fold (auth_step ada_env) [ada_restricts_sam] ([ada_claims], small_auth))))"
    by (simp only: sam_restricted) simp
  have "map_of ROLE_PERMISSIONS (lit ''integration:manage'') = Some [R_ADMIN]" by (simp add: ROLE_PERMISSIONS_def lit_def)
  from admin_operations_are_never_restricted [OF small_orderly small_unrestricted refl sam this, of None] sam
  show ?thesis by (simp add: restricted_sam_def new_user_def)
qed

section \<open>Signing in works\<close>

lemma tenant_login:
  assumes "completeIdentityLogin env sid x w = (Logged_In c, w1)" "cl_organizationId c = Some o1"
  shows "\<exists>u. find (\<lambda>u. us_identityId u = idt_id x \<and> us_isActive u) (au_users w) = Some u \<and> c = tenant_claims env sid u w
    \<and> w1 = w\<lparr>au_sessions := au_sessions w @
        [\<lparr>as_id = sid, as_organizationId = us_organizationId u, as_userId = us_id u, as_lastSeenAt = au_now w, as_revokedAt = None\<rparr>]\<rparr>
    \<and> sid \<notin> as_id ` set (au_sessions w)"
proof (cases "idt_platformRole x = P_NONE")
  case True
  show ?thesis
  proof (cases "find (\<lambda>u. us_identityId u = idt_id x \<and> us_isActive u) (au_users w)")
    case None
    with True assms(1) show ?thesis by (simp add: completeIdentityLogin_def)
  next
    case (Some u)
    with True assms(1) show ?thesis by (simp add: completeIdentityLogin_def split: if_splits)
  qed
next
  case False
  with assms show ?thesis
    by (cases "idt_platformDisabledAt x") (auto simp: completeIdentityLogin_def platform_claims_def no_claims_def)
qed

text \<open>C16: A sign-in is accepted. On every history from rows that are in order, when a sign-in answers with a token for an organization, that
  token is accepted at once on every route, with the role and the organization of a user of the account that signed in: the
  workspace it names exists and the user is a member of it, so that nobody is signed in and locked out.\<close>
theorem sign_in_is_accepted:
  assumes "orderly w0" and "settled w0" and "s = fold (auth_step env) es (cs, w0)"
    and "login env drawn email q (snd s) = (Logged_In c, w1)" and "cl_organizationId c = Some o1"
    and "o1 \<noteq> []" and "snd drawn \<noteq> []" and "\<And>x v. au_timeouts (snd s) x = Some v \<Longrightarrow> 0 \<le> v"
    and "bearer header = Some t" and "ae_verify env (au_now w1) t = Some c"
  shows "\<exists>x u. identity_by_email (snd s) (js_lower (js_trim email)) = Some x \<and> u \<in> set (au_users w1) \<and> us_identityId u = idt_id x
    \<and> us_organizationId u = o1 \<and> us_isActive u
    \<and> verifyToken env header m viewAs w1 = (Inr (tenant_principal u (Some (defaultWorkspaceIdFor o1))), w1)"
proof -
  let ?w = "snd s"
  have inv: "orderly ?w" "settled ?w" using homes.run_inv [of "(cs, w0)" env es] assms(1-3) by simp_all
  obtain x where x: "identity_by_email ?w (js_lower (js_trim email)) = Some x" "completeIdentityLogin env (snd drawn) x ?w = (Logged_In c, w1)"
    using assms(4) by (auto simp: login_def split: if_splits option.splits prod.splits sum.splits)
  let ?new = "\<lambda>u. \<lparr>as_id = snd drawn, as_organizationId = us_organizationId u, as_userId = us_id u, as_lastSeenAt = au_now ?w, as_revokedAt = None\<rparr>"
  from tenant_login [OF x(2) assms(5)] obtain u where
    found: "find (\<lambda>u. us_identityId u = idt_id x \<and> us_isActive u) (au_users ?w) = Some u"
    and c: "c = tenant_claims env (snd drawn) u ?w" and w1: "w1 = ?w\<lparr>au_sessions := au_sessions ?w @ [?new u]\<rparr>"
    and fresh: "snd drawn \<notin> as_id ` set (au_sessions ?w)"
    by blast
  have u: "u \<in> set (au_users ?w)" "us_identityId u = idt_id x" "us_isActive u" "us_organizationId u = o1"
    using found [THEN find_Some_iff [THEN iffD1]] assms(5) by (auto simp: c tenant_claims_def no_claims_def)
  have "at_home ?w u" using inv(2) u(1) by (simp add: settled_def)
  then have "workspace_in w1 o1 (defaultWorkspaceIdFor o1) \<noteq> None" "member_in w1 o1 (defaultWorkspaceIdFor o1) (us_id u) \<noteq> None"
    using u(4) by (auto simp: at_home_def workspace_in_def member_in_def find_None_iff w1)
  then have ws: "claimed_workspace c o1 w1 = Inr (Some (defaultWorkspaceIdFor o1))"
    using u(4) by (simp add: claimed_workspace_def c tenant_claims_def no_claims_def truthy_ref_def defaultWorkspaceIdFor_def lit_def Let_def)
  have "find (\<lambda>y. as_id y = snd drawn \<and> as_organizationId y = o1) (au_sessions ?w) = None"
    using fresh by (force simp: find_None_iff)
  then have "session_in w1 o1 (snd drawn) = Some (?new u)"
    using u(4) by (simp add: session_in_def w1 find_append)
  then have ss: "claimed_session c o1 w1 = Inr (Some (?new u))"
    using assms(7) by (simp add: claimed_session_def c tenant_claims_def no_claims_def truthy_ref_def)
  have us: "claimed_user c o1 w1 = Inr u"
    using user_in_self [of ?w u] inv(1) u by (simp add: claimed_user_def c w1 tenant_claims_def no_claims_def user_in_def orderly_def)
  have "touch_session (Some (?new u)) w1 = (Inr (), w1)"
    using assms(8) [of o1] u(4) by (auto simp: touch_session_def w1 Let_def split: option.split)
  with ws ss us assms(6,9,10) u(4) have "verifyToken env header m viewAs w1 = (Inr (tenant_principal u (Some (defaultWorkspaceIdFor o1))), w1)"
    by (simp add: verifyToken_def verifyClaims_def c tenant_claims_def no_claims_def truthy_ref_def lit_def)
  with x(1) u w1 show ?thesis by auto
qed

theorem sign_in_is_accepted_witness:
  "verifyToken agent_env (Some (lit ''Bearer token'')) (lit ''GET'') None signed_in_auth =
     (Inr (tenant_principal (new_user (lit ''u2'') (lit ''o1'') (lit ''i2'') (lit ''Sam'') R_AGENT None [] None) (Some (lit ''ws_o1''))), signed_in_auth)"
proof -
  have "\<exists>x u. identity_by_email (snd ([] :: claims list, small_auth)) (js_lower (js_trim (lit '' Sam@mark.ps''))) = Some x \<and> u \<in> set (au_users signed_in_auth)
      \<and> us_identityId u = idt_id x \<and> us_organizationId u = lit ''o1'' \<and> us_isActive u
      \<and> verifyToken agent_env (Some (lit ''Bearer token'')) (lit ''GET'') None signed_in_auth =
          (Inr (tenant_principal u (Some (defaultWorkspaceIdFor (lit ''o1'')))), signed_in_auth)"
    by (rule sign_in_is_accepted [OF small_orderly small_settled, where es = "[]" and c = agent_claims and t = "lit ''token''"
          and drawn = "(lit ''c'', lit ''s1'')" and q = "lit ''password-two''" and cs = "[]"])
       (simp_all add: agent_signed_in signed_in_auth_def, simp_all add: agent_simps bearer_def starts_with_def sample_platform_def lit_def)
  then show ?thesis by (auto simp: signed_in_auth_def agent_simps js_trim_def is_ws_def js_lower_def lower_unit_def lit_def split: if_splits)
qed

section \<open>What an administrator may change\<close>

text \<open>C17: An administrator of an organization can take over the platform account of a member. When a member who is no administrator shares
  the account with the platform's staff, the administrator sets a new password for the member and signs in with it: the
  answer is a token for the platform's console, with the member's role there. The tokens the
  member holds are not signed out either.\<close>
theorem administrator_takes_over_staff:
  assumes "pr_role p = R_ADMIN" and "pr_restrictions p = no_restrictions" and "i \<noteq> pr_id p"
    and "user_in w (pr_organizationId p) i = Some u" and "us_role u \<noteq> R_ADMIN"
    and "identity_by_email w email = Some x" and "js_lower (js_trim email) = email" and "email \<noteq> []" and "us_identityId u = idt_id x"
    and "idt_platformRole x \<noteq> P_NONE" and "idt_platformDisabledAt x = None" and "idt_totpEnabledAt x = None"
    and "js_trim q \<noteq> []" and "ae_compare env q (ae_hash env q)"
  shows "\<exists>w1 c. update_user env p i (no_patch\<lparr>up_password := Some q\<rparr>) w = (Inr (), w1)
    \<and> login env drawn email q w1 = (Logged_In c, w1) \<and> cl_scope c = Some (lit ''PLATFORM'')
    \<and> cl_platformRole c = Some (platform_role_name (idt_platformRole x))
    \<and> map us_tokenVersion (au_users w1) = map us_tokenVersion (au_users w)"
proof -
  let ?set = "\<lambda>y. y\<lparr>idt_passwordHash := ae_hash env q\<rparr>" and ?b = "no_patch\<lparr>up_password := Some q\<rparr>"
  let ?w1 = "upd_user (pr_organizationId p) i (patched_user (upd_identity (idt_id x) ?set w) ?b) (upd_identity (idt_id x) ?set w)"
  have "patch_identity env (idt_id x) ?b w = Some (upd_identity (idt_id x) ?set w)"
    using assms(13) by (simp add: patch_identity_def no_patch_def supplied_def Let_def)
  then have upd: "update_user env p i ?b w = (Inr (), ?w1)"
    using assms(1-5,9)
    by (simp add: update_user_def requirePermission_def ROLE_PERMISSIONS_def restrictionFor_def USER_RESTRICTIONS_def no_restrictions_def
        edits_access_def no_patch_def assert_masking_def lit_def Let_def)
  have "map us_tokenVersion (au_users ?w1) = map us_tokenVersion (au_users w)"
    by (simp add: upd_user_def frame_simps patched_user_def no_patch_def)
  moreover have "identity_by_email ?w1 email = Some (?set x)"
    using assms(6) by (simp add: identity_by_email_def frame_simps upd_identity_def find_map comp_def if_distrib cong: if_cong)
  moreover have "login env drawn email q ?w1 = (Logged_In (platform_claims env (?set x) ?w1), ?w1)" if "identity_by_email ?w1 email = Some (?set x)"
    using that assms(7,8,10,11,12,13,14) by (auto simp: login_def completeIdentityLogin_def)
  ultimately show ?thesis using upd
    by (intro exI [of _ ?w1] exI [of _ "platform_claims env (?set x) ?w1"]) (simp add: platform_claims_def no_claims_def)
qed

text \<open>Sam, an agent of Ada's organization, was made a member of the platform's staff.\<close>

definition sam_of_support :: identity where
  "sam_of_support = (small_identity ''i2'' ''sam@mark.ps'' ''password-two'')\<lparr>idt_platformRole := P_SUPPORT\<rparr>"

definition support_auth :: auth where
  "support_auth = small_auth\<lparr>au_identities := [small_identity ''i1'' ''ada@mark.ps'' ''password-one'', sam_of_support]\<rparr>"

theorem administrator_takes_over_staff_witness:
  "\<exists>w1 c. update_user (table_env []) small_principal (lit ''u2'') (no_patch\<lparr>up_password := Some (lit ''guessed'')\<rparr>) support_auth = (Inr (), w1)
    \<and> login (table_env []) (lit ''c'', lit ''s'') (lit ''sam@mark.ps'') (lit ''guessed'') w1 = (Logged_In c, w1) \<and> cl_scope c = Some (lit ''PLATFORM'')"
proof -
  have "\<exists>w1 c. update_user (table_env []) small_principal (lit ''u2'') (no_patch\<lparr>up_password := Some (lit ''guessed'')\<rparr>) support_auth = (Inr (), w1)
    \<and> login (table_env []) (lit ''c'', lit ''s'') (lit ''sam@mark.ps'') (lit ''guessed'') w1 = (Logged_In c, w1) \<and> cl_scope c = Some (lit ''PLATFORM'')
    \<and> cl_platformRole c = Some (platform_role_name (idt_platformRole sam_of_support))
    \<and> map us_tokenVersion (au_users w1) = map us_tokenVersion (au_users support_auth)"
    by (rule administrator_takes_over_staff [where u = "new_user (lit ''u2'') (lit ''o1'') (lit ''i2'') (lit ''Sam'') R_AGENT None [] None"])
       (simp_all add: support_auth_def sam_of_support_def user_in_def identity_by_email_def small_simps lit_def js_trim_def is_ws_def
          js_lower_def lower_unit_def)
  then show ?thesis by blast
qed

lemma one_more:
  assumes "distinct xs" "u \<in> set xs" "\<And>y. y \<in> set xs \<Longrightarrow> C y \<longleftrightarrow> y = u" "\<not> Q u" "Q (g u)"
  shows "length (filter Q (map (\<lambda>x. if C x then g x else x) xs)) = length (filter Q xs) + 1"
  using assms(1-3)
proof (induction xs)
  case (Cons x xs)
  show ?case
  proof (cases "x = u")
    case True
    then have "map (\<lambda>x. if C x then g x else x) xs = xs" using Cons.prems by (intro map_idI) auto
    with True Cons.prems assms(4,5) show ?thesis by simp
  next
    case False
    with Cons show ?thesis by auto
  qed
qed simp

text \<open>C26: Seats are counted where a user is made, not where one comes back. An organization whose seats are taken is refused another user; an
  administrator may switch a deactivated user on again all the same, so that the organization has more active users than
  the refusal allowed.\<close>
theorem reactivation_takes_a_seat_uncounted:
  assumes "pr_role p = R_ADMIN" and "pr_restrictions p = no_restrictions" and "i \<noteq> pr_id p" and "orderly w"
    and "user_in w (pr_organizationId p) i = Some u" and "us_role u \<noteq> R_ADMIN" and "\<not> us_isActive u"
    and "seat_available w (pr_organizationId p) = Some e"
    and "js_trim (uo_name b) \<noteq> []" and "js_trim (uo_email b) \<noteq> []" and "js_trim (uo_password b) \<noteq> []" and "uo_role b \<noteq> Some R_ADMIN"
    and "identity_by_email w (js_lower (js_trim (uo_email b))) = None"
  shows "create_user env p drawn b w = (Inl (Seat_Refused e), w)
    \<and> (\<exists>w1. update_user env p i (no_patch\<lparr>up_isActive := Some True\<rparr>) w = (Inr (), w1)
         \<and> length (filter (\<lambda>x. us_organizationId x = pr_organizationId p \<and> us_isActive x) (au_users w1))
             = length (filter (\<lambda>x. us_organizationId x = pr_organizationId p \<and> us_isActive x) (au_users w)) + 1)"
proof
  show "create_user env p drawn b w = (Inl (Seat_Refused e), w)"
    using assms(1,2,8-13)
    by (simp add: create_user_def requirePermission_def ROLE_PERMISSIONS_def restrictionFor_def USER_RESTRICTIONS_def no_restrictions_def
        lit_def Let_def)
  let ?b = "no_patch\<lparr>up_isActive := Some True\<rparr>" and ?o = "pr_organizationId p"
  let ?w1 = "upd_user ?o i (patched_user (upd_identity (us_identityId u) (\<lambda>y. y) w) ?b) (upd_identity (us_identityId u) (\<lambda>y. y) w)"
  have "update_user env p i ?b w = (Inr (), ?w1)"
    using assms(1-3,5,6)
    by (simp add: update_user_def requirePermission_def ROLE_PERMISSIONS_def restrictionFor_def USER_RESTRICTIONS_def no_restrictions_def
        edits_access_def no_patch_def assert_masking_def patch_identity_def supplied_def lit_def Let_def)
  moreover have "length (filter (\<lambda>x. us_organizationId x = ?o \<and> us_isActive x) (au_users ?w1))
      = length (filter (\<lambda>x. us_organizationId x = ?o \<and> us_isActive x) (au_users w)) + 1"
  proof -
    have ok: "distinct (map us_id (au_users w))" using assms(4) by (simp add: orderly_def people_ok_def)
    note u = user_in_Some [OF assms(5)]
    have only: "us_id y = i \<and> us_organizationId y = ?o \<longleftrightarrow> y = u" if "y \<in> set (au_users w)" for y
      using distinct_key [OF ok that, of u] u by auto
    have rows: "au_users ?w1 = map (\<lambda>x. if us_id x = i \<and> us_organizationId x = ?o
        then patched_user (upd_identity (us_identityId u) (\<lambda>y. y) w) ?b x else x) (au_users w)"
      by (simp add: upd_user_def frame_simps)
    show ?thesis
      unfolding rows
      by (rule one_more [where u = u])
         (use ok u only assms(7) in \<open>simp_all add: distinct_map frame_simps patched_user_def no_patch_def supplied_def\<close>)
  qed
  ultimately show "\<exists>w1. update_user env p i ?b w = (Inr (), w1)
      \<and> length (filter (\<lambda>x. us_organizationId x = ?o \<and> us_isActive x) (au_users w1))
          = length (filter (\<lambda>x. us_organizationId x = ?o \<and> us_isActive x) (au_users w)) + 1"
    by blast
qed

text \<open>Ada and four agents fill the five seats of the edition; Sam was switched off.\<close>

definition full_auth :: auth where
  "full_auth = small_auth\<lparr>au_users :=
     [new_user (lit ''u1'') (lit ''o1'') (lit ''i1'') (lit ''Ada'') R_ADMIN None [] None,
      (new_user (lit ''u2'') (lit ''o1'') (lit ''i2'') (lit ''Sam'') R_AGENT None [] None)\<lparr>us_isActive := False\<rparr>,
      new_user (lit ''u3'') (lit ''o1'') (lit ''i3'') (lit ''Bea'') R_AGENT None [] None,
      new_user (lit ''u4'') (lit ''o1'') (lit ''i4'') (lit ''Cid'') R_AGENT None [] None,
      new_user (lit ''u5'') (lit ''o1'') (lit ''i5'') (lit ''Dan'') R_AGENT None [] None,
      new_user (lit ''u6'') (lit ''o1'') (lit ''i6'') (lit ''Eve'') R_AGENT None [] None]\<rparr>"

lemma growth_seats:
  assumes "pf_orgs w (lit ''o1'') = Some sample_org" "pf_subscriptions w = [sample_sub]" "pf_editions w = seeded_db"
    "pf_catalogue w = just_loaded"
  shows "\<exists>en. resolveEntitlements w (lit ''o1'') now None = Inr en \<and> en_seatLimit en = Some 5"
proof -
  have sub: "newest_subscription LIVE_SUBSCRIPTION_STATUSES w (lit ''o1'') = Some sample_sub"
    using assms(2) by (simp add: newest_subscription_def newest_def sample_sub_def LIVE_SUBSCRIPTION_STATUSES_def)
  have code: "safePlanCode just_loaded (Some (lit ''GROWTH'')) = Some (lit ''GROWTH'')"
    by (rule safePlanCode_normal [OF growth_code]) simp
  have pin: "sb_pin sample_sub = (lit ''GROWTH'', 1)" by (simp add: sample_sub_def)
  have live: "\<not> override_live sample_org now" by (simp add: override_live_def has_override_def sample_org_def)
  show ?thesis
    using assms live by (simp add: resolveEntitlements_def Let_def sub code pin growth_pinned EDITION_GROWTH_def limits_of_def)
qed

lemma full_seats: "\<exists>e. seat_available full_auth (lit ''o1'') = Some e"
proof -
  have rows: "pf_orgs (seat_platform full_auth) (lit ''o1'') = Some sample_org" "pf_subscriptions (seat_platform full_auth) = [sample_sub]"
    "pf_editions (seat_platform full_auth) = seeded_db" "pf_catalogue (seat_platform full_auth) = just_loaded"
    by (simp_all add: seat_platform_def full_auth_def small_auth_def sample_platform_def)
  have taken: "length (filter (\<lambda>a. ac_organizationId a = lit ''o1'' \<and> ac_isActive a) (pf_accounts (seat_platform full_auth))) = 5"
    by (simp add: seat_platform_def full_auth_def account_of_def new_user_def)
  obtain en where "resolveEntitlements (seat_platform full_auth) (lit ''o1'') (pf_now (seat_platform full_auth)) None = Inr en" "en_seatLimit en = Some 5"
    using growth_seats [OF rows] by blast
  then show ?thesis
    by (auto simp: seat_available_def assertSeatAvailable_def assertWithinLimit_def assertWithinLimitFrom_def taken assertCanFrom_def
        decide_def limitOf_def some_of_it_def limitState_def Let_def)
qed

definition new_agent :: user_order where
  "new_agent =
     \<lparr>uo_name = lit ''Fay'', uo_email = lit ''fay@mark.ps'', uo_password = lit ''password-six'', uo_role = None, uo_phone = [],
      uo_primaryTeamId = None, uo_teamIds = []\<rparr>"

theorem reactivation_takes_a_seat_uncounted_witness:
  "(\<exists>e. create_user (table_env []) small_principal (lit ''i7'', lit ''u7'') new_agent full_auth = (Inl (Seat_Refused e), full_auth))
    \<and> (\<exists>w1. update_user (table_env []) small_principal (lit ''u2'') (no_patch\<lparr>up_isActive := Some True\<rparr>) full_auth = (Inr (), w1)
         \<and> length (filter (\<lambda>x. us_organizationId x = lit ''o1'' \<and> us_isActive x) (au_users w1)) = 6)"
proof -
  obtain e where e: "seat_available full_auth (lit ''o1'') = Some e" using full_seats by blast
  have o1: "pr_organizationId small_principal = lit ''o1''" by (simp add: small_principal_def tenant_principal_def new_user_def)
  have "create_user (table_env []) small_principal (lit ''i7'', lit ''u7'') new_agent full_auth = (Inl (Seat_Refused e), full_auth)
    \<and> (\<exists>w1. update_user (table_env []) small_principal (lit ''u2'') (no_patch\<lparr>up_isActive := Some True\<rparr>) full_auth = (Inr (), w1)
         \<and> length (filter (\<lambda>x. us_organizationId x = pr_organizationId small_principal \<and> us_isActive x) (au_users w1))
             = length (filter (\<lambda>x. us_organizationId x = pr_organizationId small_principal \<and> us_isActive x) (au_users full_auth)) + 1)"
    by (rule reactivation_takes_a_seat_uncounted [where u = "(new_user (lit ''u2'') (lit ''o1'') (lit ''i2'') (lit ''Sam'') R_AGENT None [] None)\<lparr>us_isActive := False\<rparr>"])
       (use e o1 in \<open>simp_all add: new_agent_def lit_def js_trim_def is_ws_def\<close>,
        simp_all add: full_auth_def orderly_def people_ok_def members_inside_def user_in_def identity_by_email_def small_simps
          lit_def js_lower_def lower_unit_def)
  moreover have "length (filter (\<lambda>x. us_organizationId x = pr_organizationId small_principal \<and> us_isActive x) (au_users full_auth)) = 5"
    by (simp add: o1 full_auth_def new_user_def)
  ultimately show ?thesis by (auto simp: o1)
qed

end
