(* ===== verification/Guard_Props.thy ===== *)
theory Guard_Props
  imports Auth
begin

text \<open>
  What the rate limiter of \<open>Request_Guards\<close> bounds and what it does not: how many requests of a caller it lets through in
  any span of one window, whatever other callers and the sweep do in between, and how the limiter of signing in tells
  callers apart.
\<close>

section \<open>The budget of a caller\<close>

text \<open>The requests of a limiter in their order, each with its time and its caller, and its answers in the same order.\<close>

fun limited :: "jstr \<Rightarrow> nat \<Rightarrow> int \<Rightarrow> (int \<times> jstr) list \<Rightarrow> buckets \<Rightarrow> limit_answer list" where
  "limited name limit windowMs [] bs = []"
| "limited name limit windowMs ((now, who) # es) bs =
     (let (a, bs') = rateLimit name limit windowMs now who bs in a # limited name limit windowMs es bs')"

definition let_through :: "jstr \<Rightarrow> int \<Rightarrow> int \<Rightarrow> (int \<times> jstr) list \<Rightarrow> limit_answer list \<Rightarrow> nat" where
  "let_through who since until es as =
     length (filter (\<lambda>((now, x), a). x = who \<and> a = Admitted \<and> since \<le> now \<and> now < until) (zip es as))"

lemma let_through_simps [simp]:
  "let_through who since until [] as = 0"
  "let_through who since until ((now, x) # es) (a # as) =
     (if x = who \<and> a = Admitted \<and> since \<le> now \<and> now < until then 1 else 0) + let_through who since until es as"
  by (simp_all add: let_through_def)

text \<open>What a caller may still be let through before \<open>until\<close>, when the bucket is as it is \<open>now\<close>.\<close>

definition allowance :: "nat \<Rightarrow> int \<Rightarrow> int \<Rightarrow> bucket option \<Rightarrow> nat" where
  "allowance limit now until b =
     (if until \<le> now then 0
      else case b of None \<Rightarrow> limit
           | Some b \<Rightarrow> if bk_resetAt b \<le> now then limit
                       else (limit - bk_count b) + (if bk_resetAt b < until then limit else 0))"

definition buckets_ok :: "buckets \<Rightarrow> bool" where
  "buckets_ok bs \<longleftrightarrow> distinct (map fst bs) \<and> (\<forall>b \<in> snd ` set bs. 1 \<le> bk_count b)"

lemma allowance_bound:
  assumes "1 \<le> limit" "\<And>x. b = Some x \<Longrightarrow> 1 \<le> bk_count x"
  shows "allowance limit now until b \<le> 2 * limit - 1"
  using assms by (auto simp: allowance_def split: option.split)

lemma allowance_later: "now \<le> later \<Longrightarrow> allowance limit later until b \<le> allowance limit now until b"
  by (auto simp: allowance_def split: option.split)

lemma map_of_filter_pairs:
  "distinct (map fst bs) \<Longrightarrow>
   map_of (filter (\<lambda>(_, b). P b) bs) k = (case map_of bs k of None \<Rightarrow> None | Some b \<Rightarrow> if P b then Some b else None)"
  by (induction bs) (auto split: option.split, (force dest: map_of_SomeD)+)

lemma allowance_sweep:
  "buckets_ok bs \<Longrightarrow> allowance limit now until (map_of (sweep now bs) k) = allowance limit now until (map_of bs k)"
  by (auto simp: buckets_ok_def sweep_def map_of_filter_pairs allowance_def split: option.split)

lemma buckets_ok_sweep: "buckets_ok bs \<Longrightarrow> buckets_ok (sweep now bs)"
  by (auto simp: buckets_ok_def sweep_def intro: distinct_map_filter)

lemma update_values: "snd ` set (AList.update k v al) \<subseteq> insert v (snd ` set al)"
  by (induction al) auto

lemma buckets_ok_update: "buckets_ok bs \<Longrightarrow> 1 \<le> bk_count b \<Longrightarrow> buckets_ok (AList.update k b bs)"
  using update_values [of k b bs] by (fastforce simp: buckets_ok_def distinct_update subset_iff)

lemma buckets_ok_rateLimit: "buckets_ok bs \<Longrightarrow> buckets_ok (snd (rateLimit name limit windowMs now who bs))"
  by (auto simp: rateLimit_def Let_def split: option.split intro!: buckets_ok_update buckets_ok_sweep)

text \<open>One request: what it takes from the allowance of its caller, and from nobody else's.\<close>

lemma allowance_spent:
  assumes "buckets_ok bs" "1 \<le> limit" "until \<le> now + windowMs" "rateLimit name limit windowMs now who bs = (a, bs')"
  shows "(if a = Admitted \<and> now < until then 1 else 0) + allowance limit now until (map_of bs' (name @ lit '':'' @ who))
    \<le> allowance limit now until (map_of bs (name @ lit '':'' @ who))"
proof -
  let ?k = "name @ lit '':'' @ who"
  have "(if a = Admitted \<and> now < until then 1 else 0) + allowance limit now until (map_of bs' ?k)
    \<le> allowance limit now until (map_of (sweep now bs) ?k)"
    using assms(2-4)
    by (auto simp: rateLimit_def Let_def allowance_def update_conv' split: option.splits if_splits)
  then show ?thesis by (simp add: allowance_sweep [OF assms(1)])
qed

lemma allowance_others:
  assumes "buckets_ok bs" "rateLimit name limit windowMs now x bs = (a, bs')" "x \<noteq> who"
  shows "allowance limit now until (map_of bs' (name @ lit '':'' @ who)) = allowance limit now until (map_of bs (name @ lit '':'' @ who))"
proof -
  have "map_of bs' (name @ lit '':'' @ who) = map_of (sweep now bs) (name @ lit '':'' @ who)"
    using assms(2,3) by (auto simp: rateLimit_def Let_def update_conv' split: option.splits if_splits)
  then show ?thesis by (simp add: allowance_sweep [OF assms(1)])
qed

lemma let_through_allowance:
  assumes "buckets_ok bs" "1 \<le> limit" "sorted (now # map fst es)" "since \<le> now"
  shows "let_through who since (since + windowMs) es (limited name limit windowMs es bs)
    \<le> allowance limit now (since + windowMs) (map_of bs (name @ lit '':'' @ who))"
  using assms(1,3,4)
proof (induction es arbitrary: bs now)
  case Nil
  then show ?case by simp
next
  case (Cons e es)
  obtain r x where e: "e = (r, x)" by (cases e)
  obtain a bs' where a: "rateLimit name limit windowMs r x bs = (a, bs')" by fastforce
  let ?k = "name @ lit '':'' @ who" and ?u = "since + windowMs"
  have "let_through who since ?u es (limited name limit windowMs es bs') \<le> allowance limit r ?u (map_of bs' ?k)"
    using Cons.prems buckets_ok_rateLimit [OF Cons.prems(1), of name limit windowMs r x] a
    by (intro Cons.IH) (auto simp: e)
  moreover have "(if x = who \<and> a = Admitted \<and> r < ?u then 1 else 0) + allowance limit r ?u (map_of bs' ?k)
      \<le> allowance limit r ?u (map_of bs ?k)"
    using allowance_spent [OF Cons.prems(1) assms(2) _ a, of ?u] allowance_others [OF Cons.prems(1) a, of who ?u] Cons.prems e
    by (cases "x = who") auto
  moreover have "allowance limit r ?u (map_of bs ?k) \<le> allowance limit now ?u (map_of bs ?k)"
    using Cons.prems by (intro allowance_later) (auto simp: e)
  ultimately show ?case using Cons.prems by (auto simp: e a split: if_splits)
qed

lemma let_through_budget:
  assumes "buckets_ok bs" "1 \<le> limit" "sorted (map fst es)"
  shows "let_through who since (since + windowMs) es (limited name limit windowMs es bs) \<le> 2 * limit - 1"
  using assms(1,3)
proof (induction es arbitrary: bs)
  case Nil
  then show ?case by simp
next
  case (Cons e es)
  obtain r x where e: "e = (r, x)" by (cases e)
  obtain a bs' where a: "rateLimit name limit windowMs r x bs = (a, bs')" by fastforce
  show ?case
  proof (cases "since \<le> r")
    case True
    have "1 \<le> bk_count b" if "map_of bs (name @ lit '':'' @ who) = Some b" for b
      using map_of_SomeD [OF that] Cons.prems(1) by (force simp: buckets_ok_def)
    with let_through_allowance [OF Cons.prems(1) assms(2), of r "e # es" since who windowMs name] Cons.prems True assms(2)
    show ?thesis by (intro order_trans [OF _ allowance_bound]) (auto simp: e)
  next
    case False
    with Cons.IH [of bs'] buckets_ok_rateLimit [OF Cons.prems(1), of name limit windowMs r x] Cons.prems a
    show ?thesis by (auto simp: e)
  qed
qed

text \<open>C19: A limiter that starts with the process lets a caller through at most twice its limit less one in any span of one window:
  the window is fixed at the first request of a bucket, so the end of one and the start of the next lie side by side. No request of another caller
  and no sweep gives or takes anything.\<close>
theorem limiter_bounds_every_span:
  assumes "sorted (map fst es)" and "1 \<le> limit"
  shows "let_through who since (since + windowMs) es (limited name limit windowMs es []) \<le> 2 * limit - 1"
  by (rule let_through_budget) (use assms in \<open>simp_all add: buckets_ok_def\<close>)

text \<open>The bound is met: three of a limit of two in the thousand milliseconds from 990.\<close>

theorem limiter_bounds_every_span_witness:
  "let_through (lit ''a'') 990 1990 [(0, lit ''a''), (990, lit ''a''), (995, lit ''b''), (999, lit ''a''), (1000, lit ''a''), (1001, lit ''a'')]
     (limited (lit ''x'') 2 1000 [(0, lit ''a''), (990, lit ''a''), (995, lit ''b''), (999, lit ''a''), (1000, lit ''a''), (1001, lit ''a'')] []) = 3
   \<and> let_through (lit ''a'') 990 (990 + 1000) [(0, lit ''a''), (990, lit ''a''), (995, lit ''b''), (999, lit ''a''), (1000, lit ''a''), (1001, lit ''a'')]
     (limited (lit ''x'') 2 1000 [(0, lit ''a''), (990, lit ''a''), (995, lit ''b''), (999, lit ''a''), (1000, lit ''a''), (1001, lit ''a'')] []) \<le> 2 * 2 - 1"
  by (rule conjI, simp add: rateLimit_def sweep_def lit_def Let_def retry_after_def, rule limiter_bounds_every_span) simp_all

section \<open>The limiter of signing in\<close>

lemma js_trim_spaces: "js_trim (replicate n 32 @ s) = js_trim s"
  by (induction n) (simp_all add: js_trim_def is_ws_def)

lemma js_lower_spaces: "js_lower (replicate n 32 @ s) = replicate n 32 @ js_lower s"
  by (induction n) (simp_all add: js_lower_def lower_unit_def)

lemma login_spaces: "email \<noteq> [] \<Longrightarrow> login env drawn (replicate n 32 @ email) q w = login env drawn email q w"
  by (simp add: login_def js_trim_spaces)

text \<open>C25: The limiter of signing in can always be passed: at every moment, for every address it refuses, there is a spelling of the address it
  admits, and the handler treats it exactly like the one refused, because it trims what the limiter does not.\<close>
theorem login_limit_is_evaded:
  assumes "email \<noteq> []" and "fst (LIMIT_login now ip email bs) = Too_Many r"
  shows "\<exists>spelling. fst (LIMIT_login now ip spelling bs) = Admitted
    \<and> (\<forall>env drawn q w. login env drawn spelling q w = login env drawn email q w)"
proof -
  let ?key = "\<lambda>n. lit ''login'' @ lit '':'' @ login_caller ip (replicate n 32 @ email)"
  have "inj ?key" by (rule injI) (auto simp: login_caller_def js_lower_spaces dest!: arg_cong [of _ _ length])
  then have "finite (?key -` (fst ` set (sweep now bs)))" by (intro finite_vimageI) simp_all
  then have "\<exists>n. n \<notin> ?key -` (fst ` set (sweep now bs))" by (rule ex_new_if_finite [OF infinite_UNIV_nat])
  then obtain n where "n \<notin> ?key -` (fst ` set (sweep now bs))" ..
  then have "map_of (sweep now bs) (?key n) = None" by (simp only: vimage_eq map_of_eq_None_iff simp_thms)
  then have "fst (LIMIT_login now ip (replicate n 32 @ email) bs) = Admitted"
    by (simp add: LIMIT_login_def rateLimit_def Let_def)
  with login_spaces [OF assms(1)] show ?thesis by blast
qed

theorem login_limit_is_evaded_witness:
  "\<exists>spelling. fst (LIMIT_login 5 (lit ''10.0.0.1'') spelling [(lit ''login:10.0.0.1:ada@mark.ps'', \<lparr>bk_count = 10, bk_resetAt = 900000\<rparr>)]) = Admitted
    \<and> (\<forall>env drawn q w. login env drawn spelling q w = login env drawn (lit ''Ada@mark.ps'') q w)"
  by (rule login_limit_is_evaded [where r = 900])
     (simp_all add: LIMIT_login_def rateLimit_def sweep_def login_caller_def lit_def js_lower_def lower_unit_def retry_after_def)

end
