(* ===== verification/Spec2Isabelle.thy ===== *)
theory Spec2Isabelle
  imports Message_Status Assignment Workflow_Run_Props Editions_Props Finance_Props Gateway_Props Inbound_Props Campaign_Props Sign_In_Props Guard_Props
begin

text \<open>
  A model of the backend of a multi-tenant WhatsApp service desk (\<open>apps/backend/src\<close>): customers of an
  organization write in, conversations are assigned, answered and closed, workflows act on what happens,
  and the platform sells editions of the product to organizations and runs a WhatsApp gateway for those
  that want their own. The paths below are relative to \<open>apps/backend/src\<close>.

  Parts and theories:

  \<^item> \<open>Prelude\<close>: JavaScript values (strings of UTF-16 code units, JSON, \<open>String\<close>, \<open>Number\<close>, \<open>trim\<close>, ISO times),
    lists and maps, and the locales the state machines interpret (an invariant of a run of events, a
    frame that events keep).
  \<^item> \<open>Message_Status\<close>: delivery receipts (\<open>utils/message-status.ts\<close>, the status branches of
    \<open>webhooks/meta.webhook.ts\<close> and \<open>webhooks/openwa.webhook.ts\<close>). Receipts commute and never lower a status.
  \<^item> \<open>Conversation\<close>, \<open>Conversation_Props\<close>: close, reopen, timers (\<open>modules/conversations/
    conversation-lifecycle.service.ts\<close>, \<open>workers/auto-close.*\<close>, \<open>utils/auto-reply.ts\<close>). A close is its check
    and its transaction, so that requests interleave between them (\<open>race_step\<close>).
  \<^item> \<open>Assignment\<close>: the router (\<open>modules/routing/assignment.service.ts\<close>) over the conversation world.
  \<^item> \<open>Outbound_Url\<close>, \<open>Workflow_Schema\<close>, \<open>Workflow_Executor\<close>, \<open>Workflow_Run\<close> and their \<open>_Props\<close>: the workflow
    engine (\<open>modules/workflows\<close>, \<open>workers/workflow.worker.ts\<close>), from the validator through the actions, which
    act on the conversation world, to dispatch, delays and answers.
  \<^item> \<open>Text_Signals\<close>, \<open>Inbound\<close>, \<open>Inbound_Props\<close>: a customer's message (\<open>workers/incoming-message.worker.ts\<close>) and all it
    sets in motion: contact, thread, consent, ratings, replies, assignment, escalation and workflows, over a
    world that extends that of the workflow engine. The lemmas show what each step leaves alone; the
    properties, that there is one thread and that a block and a STOP hold, and where messages, a STOP, an
    escalation and ratings get lost.
  \<^item> \<open>Editions\<close>, \<open>Editions_Props\<close>: what is for sale (\<open>modules/billing/plans.ts\<close>,
    \<open>editions.service.ts\<close>): plans with versions and prices, seeding, publication, scheduled changes, the cache.
  \<^item> \<open>Platform\<close>: the platform's records of its subscribers (record \<open>platform\<close>: database, queue, process state),
    settings and trials, the mail outbox, gateway jobs, gateway observations, and the access gate
    (\<open>middleware/access-gate.middleware.ts\<close>), which every request of a subscriber passes.
  \<^item> \<open>Entitlements\<close>, \<open>Entitlements_Props\<close>: what an organization may do (\<open>entitlements.resolver.ts\<close>,
    \<open>capabilities.ts\<close>, \<open>entitlement-facade.ts\<close>) and metered sends (\<open>modules/usage\<close>). Reads the
    catalogue of \<open>Editions\<close> and the rows of \<open>Platform\<close>.
  \<^item> \<open>Billing\<close>, \<open>Billing_Props\<close>: invoices, receipts, the payment endpoint, subscriptions, payment events,
    reconciliation, dunning. A dunning pass is refined from a policy about one organization
    (\<open>dunning_spec\<close>).
  \<^item> \<open>Access_Props\<close>: billing and the gate together: what opens and what shuts an organization. \<open>Finance_Props\<close>: the
    ledger over the same histories (invoices, receipts, references), and payments that interleave.
  \<^item> \<open>Gateway\<close>, \<open>Gateway_Props\<close>: building, stopping, destroying, watching a gateway
    (\<open>modules/provisioning\<close>, \<open>workers/gateway-provisioning.*\<close>, \<open>modules/gateway/health-monitor.ts\<close>), and what
    its jobs do to a subscriber's access.
  \<^item> \<open>Contact_Filter\<close>, \<open>Contact_Filter_Props\<close>: the language that selects contacts (\<open>lib/contact-filter-dsl.ts\<close>,
    \<open>audienceWhere\<close>): the validator, the compiler to a database condition, and what a condition
    selects, in the three truth values of the database. The lemmas relate the compiled condition to the rules and
    show that a filter stays inside its organization.
  \<^item> \<open>Campaign\<close>, \<open>Campaign_Props\<close>: campaigns (\<open>modules/campaigns\<close>, \<open>workers/campaign*.worker.ts\<close>,
    \<open>utils/contact-timezone.ts\<close>): drawing up, sending, the scheduler, the worker with retries and quiet hours,
    receipts, and the settings of the organization. One invariant about waiting jobs carries the claim that a recipient gets one
    message; frames carry the claims that a campaign is stuck and that consent is read once.
  \<^item> \<open>Request_Guards\<close>: what stands between a request and its handler (\<open>middleware/rbac.middleware.ts\<close>,
    \<open>lib/user-access.ts\<close>, \<open>middleware/rate-limit.middleware.ts\<close>, \<open>modules/api-tokens\<close>). \<open>Guard_Props\<close> counts what the
    limiter lets through.
  \<^item> \<open>Auth\<close>, \<open>Auth_Props\<close>, \<open>Sign_In_Props\<close>: signing in, second factors, users, invitations, workspaces and the
    platform's staff (\<open>modules/auth\<close>, \<open>modules/workspaces\<close>, the user routes of \<open>modules/system\<close>). An event is a
    request with its token; the state is the tokens handed out so far and the database (\<open>auth_step\<close>). Every request is
    simulated by a small relation on people (\<open>people_step\<close>), over which the invariants are proved.

  Conventions. A thrown error is the left side of a sum; an operation that may throw after it wrote
  returns the state it leaves as well. A database transaction that throws leaves the state it
  started from. An \<open>updateMany\<close> with a condition is a conditional write. A unique key is
  checked where the code relies on it. Definitions are executable; a witness
  after each property evaluates it on a concrete state.

  Bounds. No definition runs on fuel of the model's own. The provisioning loop is bounded by the
  source's guard of twenty transitions, and port allocation by its five attempts; the theorem
  \<open>provisioning_never_exceeds_its_guard\<close> shows that the former is never reached. The number of HTTP retries and
  the depth of a workflow are the source's constants too.

  Parameters, that is, code outside the sources: the message channel, the HTTP client, the URL parser and
  resolver, the mail and payment providers, the container runtime and the gateway's HTTP interface,
  random ids and keys, password hashes, one-time codes and the signing of tokens, the clock of a time zone, the cascade of a deletion in the database, and the order in which the queue
  delivers jobs (an event sequence). The queue itself is its documented behaviour: the first job of an id is kept,
  attempts are counted, a failed job stays.

  Not modelled: the interface (\<open>apps/frontend\<close>), request parsing and HTML, sockets, backups, the
  tenancy extension of the database client, the import and lists of contacts, webhooks out, analytics, and
  the handlers of the public programming interface. The manifest lists them with the
  reason. Within the modelled parts: locks (operations of one organization are atomic where the code
  holds a lock for them), audit entries, log lines, and the text of responses.
\<close>

end
